(* ===== verification/Prelude.thy ===== *)
theory Prelude
  imports Main
begin

text \<open>
  Shared ground of the development: the result type of fallible code and its
  sequencing, dictionaries as association lists in insertion order (what a
  Python \<^verbatim>\<open>dict\<close> is), tables of rows with a unique key, and the two interfaces
  the components are written against: a key-value store and a state machine
  with an invariant.  Each interface is a locale whose laws are discharged once
  per component by an interpretation on the component's own definitions.
\<close>

section \<open>Collections\<close>

named_theorems py_simps \<open>evaluation rules of the Python primitives\<close>
named_theorems dict_simps \<open>laws of insertion-ordered dictionaries\<close>
named_theorems act_simps \<open>sequencing rules of the effectful engine actions\<close>

section \<open>Results: an exception or a value\<close>

definition andThen :: "'e + 'a \<Rightarrow> ('a \<Rightarrow> 'e + 'b) \<Rightarrow> 'e + 'b" where
  "andThen m f = (case m of Inl e \<Rightarrow> Inl e | Inr x \<Rightarrow> f x)"

lemma andThen_simps [simp, py_simps]:
  "andThen (Inl e) f = Inl e"
  "andThen (Inr x) f = f x"
  by (simp_all add: andThen_def)

lemma andThen_eq_Inr:
  "andThen m f = Inr y \<longleftrightarrow> (\<exists>x. m = Inr x \<and> f x = Inr y)"
  by (cases m) auto

lemma andThen_InrE:
  assumes "andThen m f = Inr y"
  obtains x where "m = Inr x" "f x = Inr y"
  using assms by (auto simp: andThen_eq_Inr)

lemma andThen_eq_Inl:
  "andThen m f = Inl e \<longleftrightarrow> m = Inl e \<or> (\<exists>x. m = Inr x \<and> f x = Inl e)"
  by (cases m) auto

lemma andThen_assoc: "andThen (andThen m f) g = andThen m (\<lambda>x. andThen (f x) g)"
  by (cases m) simp_all

lemma andThen_cong [fundef_cong]:
  "m = m' \<Longrightarrow> (\<And>x. m' = Inr x \<Longrightarrow> f x = f' x) \<Longrightarrow> andThen m f = andThen m' f'"
  by (cases m') simp_all

text \<open>Left-to-right traversal that stops at the first exception, the reading of a
  Python list comprehension whose body may raise.\<close>

fun mapM :: "('a \<Rightarrow> 'e + 'b) \<Rightarrow> 'a list \<Rightarrow> 'e + 'b list" where
  "mapM f [] = Inr []"
| "mapM f (x # xs) = andThen (f x) (\<lambda>y. andThen (mapM f xs) (\<lambda>ys. Inr (y # ys)))"

lemma mapM_cong [fundef_cong]:
  "xs = ys \<Longrightarrow> (\<And>x. x \<in> set ys \<Longrightarrow> f x = g x) \<Longrightarrow> mapM f xs = mapM g ys"
proof (induction ys arbitrary: xs)
  case (Cons y ys)
  then have "mapM f ys = mapM g ys" by simp
  with Cons.prems show ?case by simp
qed simp

lemma mapM_Inr_map: "mapM (\<lambda>x. Inr (f x)) xs = Inr (map f xs)"
  by (induction xs) simp_all

lemma mapM_length: "mapM f xs = Inr ys \<Longrightarrow> length ys = length xs"
  by (induction xs arbitrary: ys) (auto simp: andThen_eq_Inr)

text \<open>A loop that threads an accumulator and stops at the first exception.\<close>

fun foldM :: "('s \<Rightarrow> 'a \<Rightarrow> 'e + 's) \<Rightarrow> 's \<Rightarrow> 'a list \<Rightarrow> 'e + 's" where
  "foldM f s [] = Inr s"
| "foldM f s (x # xs) = andThen (f s x) (\<lambda>s'. foldM f s' xs)"

lemma foldM_append: "foldM f s (xs @ ys) = andThen (foldM f s xs) (\<lambda>s'. foldM f s' ys)"
  by (induction xs arbitrary: s) (simp_all add: andThen_assoc)

lemma foldM_invariant:
  assumes "foldM f s xs = Inr s'" and "P s"
    and "\<And>s x t. x \<in> set xs \<Longrightarrow> P s \<Longrightarrow> f s x = Inr t \<Longrightarrow> P t"
  shows "P s'"
  using assms
proof (induction xs arbitrary: s)
  case (Cons x xs)
  then obtain t where "f s x = Inr t" and "foldM f t xs = Inr s'"
    by (auto simp: andThen_eq_Inr)
  with Cons show ?case by (meson list.set_intros)
qed simp

section \<open>Dictionaries in insertion order\<close>

text \<open>\<^verbatim>\<open>d[k] = v\<close> keeps the position of an existing key and appends a new one;
  \<^verbatim>\<open>{**a, **b}\<close> assigns the items of \<^verbatim>\<open>b\<close> one after another.\<close>

fun dset :: "('k \<times> 'v) list \<Rightarrow> 'k \<Rightarrow> 'v \<Rightarrow> ('k \<times> 'v) list" where
  "dset [] k v = [(k, v)]"
| "dset ((k', v') # d) k v = (if k' = k then (k, v) # d else (k', v') # dset d k v)"

definition dmerge :: "('k \<times> 'v) list \<Rightarrow> ('k \<times> 'v) list \<Rightarrow> ('k \<times> 'v) list" where
  "dmerge a b = foldl (\<lambda>d (k, v). dset d k v) a b"

definition dpop :: "('k \<times> 'v) list \<Rightarrow> 'k \<Rightarrow> ('k \<times> 'v) list" where
  "dpop d k = filter (\<lambda>(k', v). k' \<noteq> k) d"

definition dget :: "('k \<times> 'v) list \<Rightarrow> 'k \<Rightarrow> 'v \<Rightarrow> 'v" where
  "dget d k dflt = (case map_of d k of None \<Rightarrow> dflt | Some v \<Rightarrow> v)"

definition dhas :: "('k \<times> 'v) list \<Rightarrow> 'k \<Rightarrow> bool" where
  "dhas d k \<longleftrightarrow> map_of d k \<noteq> None"

definition dict_ok :: "('k \<times> 'v) list \<Rightarrow> bool" where
  "dict_ok d \<longleftrightarrow> distinct (map fst d)"

lemma map_of_dset [simp, dict_simps]: "map_of (dset d k v) = (map_of d)(k \<mapsto> v)"
  by (induction d k v rule: dset.induct) auto

lemma set_keys_dset [simp]: "fst ` set (dset d k v) = insert k (fst ` set d)"
  by (induction d k v rule: dset.induct) auto

lemma dset_not_Nil [simp]: "dset d k v \<noteq> []"
  by (induction d k v rule: dset.induct) auto

lemma dict_ok_Nil [simp]: "dict_ok []"
  by (simp add: dict_ok_def)

lemma dict_ok_dset [simp]: "dict_ok d \<Longrightarrow> dict_ok (dset d k v)"
  unfolding dict_ok_def
  by (induction d k v rule: dset.induct) (auto simp: image_iff)

lemma dmerge_Nil [simp]: "dmerge a [] = a"
  by (simp add: dmerge_def)

lemma dmerge_Cons: "dmerge a ((k, v) # b) = dmerge (dset a k v) b"
  by (simp add: dmerge_def)

lemma dict_ok_dmerge [simp]: "dict_ok a \<Longrightarrow> dict_ok (dmerge a b)"
  by (induction b arbitrary: a) (auto simp: dmerge_Cons)

lemma map_of_dmerge:
  "dict_ok b \<Longrightarrow> map_of (dmerge a b) k = (case map_of b k of None \<Rightarrow> map_of a k | Some v \<Rightarrow> Some v)"
proof (induction b arbitrary: a)
  case (Cons p b)
  obtain k' v where p: "p = (k', v)" by (cases p)
  from Cons.prems p have ok: "dict_ok b" and fresh: "map_of b k' = None"
    by (auto simp: dict_ok_def map_of_eq_None_iff)
  have "map_of (dmerge a (p # b)) k = map_of (dmerge (dset a k' v) b) k"
    by (simp add: p dmerge_Cons)
  also have "\<dots> = (case map_of b k of None \<Rightarrow> map_of (dset a k' v) k | Some v \<Rightarrow> Some v)"
    using ok by (rule Cons.IH)
  finally show ?case using fresh p by (auto split: option.splits)
qed simp

lemma keys_dmerge [simp]: "fst ` set (dmerge a b) = fst ` set a \<union> fst ` set b"
proof (induction b arbitrary: a)
  case (Cons p b)
  then show ?case by (cases p) (simp add: dmerge_Cons)
qed simp

lemma dhas_dset [simp]: "dhas (dset d k v) k' \<longleftrightarrow> k' = k \<or> dhas d k'"
  by (auto simp: dhas_def)

lemma dhas_iff_key: "dhas d k \<longleftrightarrow> k \<in> fst ` set d"
  by (simp add: dhas_def map_of_eq_None_iff)

lemma dget_dset [simp, dict_simps]: "dget (dset d k v) k' x = (if k' = k then v else dget d k' x)"
  by (simp add: dget_def)

lemma map_of_dpop: "map_of (dpop d k) k' = (if k' = k then None else map_of d k')"
  unfolding dpop_def by (induction d) auto

lemma dict_ok_dpop [simp]: "dict_ok d \<Longrightarrow> dict_ok (dpop d k)"
  unfolding dict_ok_def dpop_def by (induction d) (auto simp: image_iff)

section \<open>The key-value store interface\<close>

text \<open>A client that writes values under keys and reads them back relies on two laws:
  a write is visible under its key and nowhere else.\<close>

locale kv_store =
  fixes lookup :: "'s \<Rightarrow> 'k \<Rightarrow> 'v option"
    and put :: "'s \<Rightarrow> 'k \<Rightarrow> 'v \<Rightarrow> 's"
    and ok :: "'s \<Rightarrow> bool"
  assumes lookup_put_same: "ok s \<Longrightarrow> lookup (put s k v) k = Some v"
    and lookup_put_other: "ok s \<Longrightarrow> k' \<noteq> k \<Longrightarrow> lookup (put s k v) k' = lookup s k'"
    and ok_put: "ok s \<Longrightarrow> ok (put s k v)"
begin

fun puts :: "'s \<Rightarrow> ('k \<times> 'v) list \<Rightarrow> 's" where
  "puts s [] = s"
| "puts s ((k, v) # kvs) = puts (put s k v) kvs"

lemma ok_puts: "ok s \<Longrightarrow> ok (puts s kvs)"
  by (induction s kvs rule: puts.induct) (simp_all add: ok_put)

lemma lookup_puts_untouched:
  "ok s \<Longrightarrow> k \<notin> fst ` set kvs \<Longrightarrow> lookup (puts s kvs) k = lookup s k"
  by (induction s kvs rule: puts.induct) (auto simp: ok_put lookup_put_other)

lemma lookup_puts_last_wins:
  "ok s \<Longrightarrow> lookup (puts s kvs) k =
     (case map_of (rev kvs) k of None \<Rightarrow> lookup s k | Some v \<Rightarrow> Some v)"
proof (induction kvs rule: rev_induct)
  case (snoc kv kvs)
  obtain k' v where kv: "kv = (k', v)" by (cases kv)
  have app: "puts s (kvs @ [(k', v)]) = put (puts s kvs) k' v"
    by (induction s kvs rule: puts.induct) auto
  show ?case
    using snoc ok_puts [of s kvs]
    by (cases "k = k'") (auto simp: kv app lookup_put_same lookup_put_other)
qed simp

end

interpretation dict_store: kv_store map_of dset dict_ok
  by unfold_locales auto

section \<open>State machines with an invariant\<close>

locale inv_machine =
  fixes step :: "'s \<Rightarrow> 'e \<Rightarrow> 's"
    and inv :: "'s \<Rightarrow> bool"
  assumes step_inv: "inv s \<Longrightarrow> inv (step s e)"
begin

definition run :: "'s \<Rightarrow> 'e list \<Rightarrow> 's" where
  "run s es = foldl step s es"

lemma run_inv: "inv s \<Longrightarrow> inv (run s es)"
  unfolding run_def by (induction es arbitrary: s) (simp_all add: step_inv)

lemma run_append: "run s (es @ fs) = run (run s es) fs"
  by (simp add: run_def)

end

text \<open>A machine whose state represents the state of a simpler one, step by step.\<close>

locale refinement = inv_machine step inv
  for step :: "'s \<Rightarrow> 'e \<Rightarrow> 's" and inv :: "'s \<Rightarrow> bool" +
  fixes astep :: "'a \<Rightarrow> 'e \<Rightarrow> 'a"
    and abs :: "'s \<Rightarrow> 'a"
  assumes step_refines: "inv s \<Longrightarrow> abs (step s e) = astep (abs s) e"
begin

lemma run_refines: "inv s \<Longrightarrow> abs (run s es) = foldl astep (abs s) es"
  unfolding run_def by (induction es arbitrary: s) (simp_all add: step_inv step_refines)

end

section \<open>Generic list facts\<close>

lemma in_map_filter: "y \<in> set (List.map_filter f xs) \<longleftrightarrow> (\<exists>x \<in> set xs. f x = Some y)"
  by (induction xs) (auto simp: List.map_filter_simps split: option.splits)

lemma map_filter_cong_on: "(\<And>x. x \<in> set xs \<Longrightarrow> f x = g x) \<Longrightarrow> List.map_filter f xs = List.map_filter g xs"
  by (induction xs) (simp_all add: List.map_filter_simps split: option.split)

lemma find_Some_mem: "find P xs = Some x \<Longrightarrow> x \<in> set xs \<and> P x"
  by (auto simp: find_Some_iff)

lemma find_None_all: "find P xs = None \<longleftrightarrow> (\<forall>x \<in> set xs. \<not> P x)"
  by (auto simp: find_None_iff)

lemma find_unique:
  assumes "x \<in> set xs" and "P x" and "\<And>y. y \<in> set xs \<Longrightarrow> P y \<Longrightarrow> y = x"
  shows "find P xs = Some x"
proof (cases "find P xs")
  case None
  then have "\<not> P x" using assms(1) by (simp add: find_None_all)
  with assms(2) show ?thesis by simp
next
  case (Some y)
  then have "y \<in> set xs \<and> P y" by (rule find_Some_mem)
  with assms(3) Some show ?thesis by simp
qed

section \<open>Tables of rows\<close>

text \<open>\<^verbatim>\<open>UPDATE ... WHERE\<close>, and a unique constraint on what \<open>key\<close> reads of a row.\<close>

definition update_where :: "('r \<Rightarrow> bool) \<Rightarrow> ('r \<Rightarrow> 'r) \<Rightarrow> 'r list \<Rightarrow> 'r list" where
  "update_where P f rows = map (\<lambda>r. if P r then f r else r) rows"

definition uniq_by :: "('r \<Rightarrow> 'k) \<Rightarrow> 'r list \<Rightarrow> bool" where
  "uniq_by key rows \<longleftrightarrow> distinct (map key rows)"

lemma uniq_by_Nil [simp]: "uniq_by key []"
  by (simp add: uniq_by_def)

lemma map_update_where: "(\<And>r. g (f r) = g r) \<Longrightarrow> map g (update_where P f rows) = map g rows"
  by (simp add: update_where_def)

lemma uniq_update_where: "uniq_by key rows \<Longrightarrow> (\<And>r. key (f r) = key r) \<Longrightarrow> uniq_by key (update_where P f rows)"
  by (simp add: uniq_by_def map_update_where)

lemma uniq_filter: "uniq_by key rows \<Longrightarrow> uniq_by key (filter P rows)"
  unfolding uniq_by_def by (rule distinct_map_filter)

lemma uniq_snoc: "uniq_by key (rows @ [r]) \<longleftrightarrow> uniq_by key rows \<and> (\<forall>q \<in> set rows. key q \<noteq> key r)"
  by (auto simp: uniq_by_def image_iff eq_commute)

lemma uniq_find:
  assumes "uniq_by key rows" and "r \<in> set rows"
  shows "find (\<lambda>q. key q = key r) rows = Some r"
  by (rule find_unique) (use assms in \<open>auto simp: uniq_by_def distinct_map inj_on_def\<close>)

lemma find_update_where:
  assumes "\<And>r. P (f r) = P r"
  shows "find P (update_where Q f rows) = map_option (\<lambda>r. if Q r then f r else r) (find P rows)"
  using assms by (induction rows) (auto simp: update_where_def)

lemma find_snoc: "find P (rows @ [r]) = (case find P rows of None \<Rightarrow> if P r then Some r else None | Some q \<Rightarrow> Some q)"
  by (induction rows) auto

lemma update_where_other: "q \<in> set rows \<Longrightarrow> \<not> P q \<Longrightarrow> q \<in> set (update_where P f rows)"
  by (force simp: update_where_def)

lemma bex_update_where: "(\<exists>r \<in> set (update_where P f rows). Q r) \<longleftrightarrow> (\<exists>r \<in> set rows. Q (if P r then f r else r))"
  by (induction rows) (simp_all add: update_where_def)

lemma set_update_where: "set (update_where P f rows) = (\<lambda>r. if P r then f r else r) ` set rows"
  by (simp add: update_where_def)

lemma filter_update_where_other:
  "(\<And>q. q \<in> set rows \<Longrightarrow> P q \<Longrightarrow> \<not> K q \<and> \<not> K (f q)) \<Longrightarrow> filter K (update_where P f rows) = filter K rows"
  by (induction rows) (auto simp: update_where_def)

end
