(* ===== verification/PyText.thy ===== *)
theory PyText
  imports Prelude
begin

text \<open>
  The Python \<^verbatim>\<open>str\<close> operations the platform uses, over \<open>string\<close> (a list of
  8-bit characters; the operations agree with CPython on ASCII text): prefix
  and substring tests, \<^verbatim>\<open>find\<close>, \<^verbatim>\<open>split\<close>, \<^verbatim>\<open>replace\<close>, \<^verbatim>\<open>join\<close>,
  \<^verbatim>\<open>strip\<close>, case mapping, slicing, decimal printing and \<^verbatim>\<open>int(...)\<close> of a
  string.  Facts: \<^verbatim>\<open>split\<close> never returns the empty list and \<^verbatim>\<open>join\<close> inverts it;
  decimal printing and parsing are inverse.
\<close>

section \<open>Prefixes and substrings\<close>

fun starts_with :: "string \<Rightarrow> string \<Rightarrow> bool" where
  "starts_with s [] = True"
| "starts_with [] (p # ps) = False"
| "starts_with (c # cs) (p # ps) = (c = p \<and> starts_with cs ps)"

definition ends_with :: "string \<Rightarrow> string \<Rightarrow> bool" where
  "ends_with s p = starts_with (rev s) (rev p)"

fun find_sub :: "string \<Rightarrow> string \<Rightarrow> nat option" where
  "find_sub p [] = (if p = [] then Some 0 else None)"
| "find_sub p (c # cs) =
     (if starts_with (c # cs) p then Some 0 else map_option Suc (find_sub p cs))"

definition contains_sub :: "string \<Rightarrow> string \<Rightarrow> bool" where
  "contains_sub s p \<longleftrightarrow> find_sub p s \<noteq> None"

lemma starts_with_iff: "starts_with s p \<longleftrightarrow> (\<exists>t. s = p @ t)"
  by (induction s p rule: starts_with.induct) auto

lemma find_sub_Some: "find_sub p s = Some i \<Longrightarrow> \<exists>u t. s = u @ p @ t \<and> length u = i"
proof (induction p s arbitrary: i rule: find_sub.induct)
  case (2 p c cs)
  show ?case
  proof (cases "starts_with (c # cs) p")
    case True
    with 2(2) have "i = 0" by simp
    with True show ?thesis by (auto simp: starts_with_iff)
  next
    case False
    with 2(2) obtain j where j: "find_sub p cs = Some j" and i: "i = Suc j" by auto
    from 2(1) [OF False j] obtain u t where "cs = u @ p @ t" "length u = j" by auto
    with i have "c # cs = (c # u) @ p @ t \<and> length (c # u) = i" by simp
    then show ?thesis by blast
  qed
qed (auto split: if_splits)

lemma find_sub_less_length: "find_sub p s = Some i \<Longrightarrow> i + length p \<le> length s"
  by (drule find_sub_Some) auto

section \<open>Splitting, joining, replacing\<close>

text \<open>\<^verbatim>\<open>s.split(sep)\<close> for a non-empty separator: cut at the leftmost occurrences.\<close>

function py_split_acc :: "string \<Rightarrow> string \<Rightarrow> string \<Rightarrow> string list" where
  "py_split_acc sep acc [] = [rev acc]"
| "py_split_acc sep acc (c # cs) =
     (if sep \<noteq> [] \<and> starts_with (c # cs) sep
      then rev acc # py_split_acc sep [] (drop (length sep) (c # cs))
      else py_split_acc sep (c # acc) cs)"
  by pat_completeness auto
termination
  by (relation "measure (\<lambda>(sep, acc, s). length s)") auto

definition py_split :: "string \<Rightarrow> string \<Rightarrow> string list" where
  "py_split sep s = py_split_acc sep [] s"

text \<open>\<^verbatim>\<open>s.split(sep, 1)\<close>.\<close>

definition py_split1 :: "string \<Rightarrow> string \<Rightarrow> string list" where
  "py_split1 sep s =
     (case find_sub sep s of
        None \<Rightarrow> [s]
      | Some i \<Rightarrow> [take i s, drop (i + length sep) s])"

fun py_join :: "string \<Rightarrow> string list \<Rightarrow> string" where
  "py_join sep [] = []"
| "py_join sep [x] = x"
| "py_join sep (x # y # ys) = x @ sep @ py_join sep (y # ys)"

text \<open>\<^verbatim>\<open>s.replace(old, new)\<close>; an empty \<^verbatim>\<open>old\<close> inserts \<^verbatim>\<open>new\<close> around every character.\<close>

definition py_replace :: "string \<Rightarrow> string \<Rightarrow> string \<Rightarrow> string" where
  "py_replace old new s =
     (if old = [] then new @ concat (map (\<lambda>c. c # new) s)
      else py_join new (py_split old s))"

text \<open>\<^verbatim>\<open>s.replace(old, new, 1)\<close>.\<close>

definition py_replace1 :: "string \<Rightarrow> string \<Rightarrow> string \<Rightarrow> string" where
  "py_replace1 old new s =
     (case find_sub old s of
        None \<Rightarrow> s
      | Some i \<Rightarrow> take i s @ new @ drop (i + length old) s)"

lemma py_split_acc_not_Nil [simp]: "py_split_acc sep acc s \<noteq> []"
  by (induction sep acc s rule: py_split_acc.induct) auto

lemma py_split_not_Nil [simp]: "py_split sep s \<noteq> []"
  by (simp add: py_split_def)

lemma py_join_Cons: "xs \<noteq> [] \<Longrightarrow> py_join sep (x # xs) = x @ sep @ py_join sep xs"
  by (cases xs) simp_all

lemma py_join_split_acc: "py_join sep (py_split_acc sep acc s) = rev acc @ s"
proof (induction sep acc s rule: py_split_acc.induct)
  case (2 sep acc c cs)
  show ?case
  proof (cases "sep \<noteq> [] \<and> starts_with (c # cs) sep")
    case True
    let ?t = "drop (length sep) (c # cs)"
    from True obtain u where "c # cs = sep @ u" by (auto simp: starts_with_iff)
    then have t: "c # cs = sep @ ?t" by simp
    from True have "py_split_acc sep acc (c # cs) = rev acc # py_split_acc sep [] ?t"
      by (simp del: drop.simps)
    moreover have "py_join sep (py_split_acc sep [] ?t) = ?t"
      using 2(1) [OF True] by simp
    ultimately have "py_join sep (py_split_acc sep acc (c # cs)) = rev acc @ sep @ ?t"
      by (simp only: py_join_Cons py_split_acc_not_Nil not_False_eq_True)
    with t show ?thesis by simp
  next
    case False
    with 2(2) show ?thesis by auto
  qed
qed simp

lemma py_join_split: "py_join sep (py_split sep s) = s"
  by (simp add: py_split_def py_join_split_acc)

lemma py_split_absent: "find_sub sep s = None \<Longrightarrow> py_split_acc sep acc s = [rev acc @ s]"
proof (induction sep acc s rule: py_split_acc.induct)
  case (2 sep acc c cs)
  then have "\<not> starts_with (c # cs) sep" and "find_sub sep cs = None"
    by (auto split: if_splits)
  with 2(2) show ?case by simp
qed simp

section \<open>Characters, case and white space\<close>

definition char_code :: "char \<Rightarrow> nat" where
  "char_code c = of_char c"

definition is_space :: "char \<Rightarrow> bool" where
  "is_space c = (let n = char_code c in (9 \<le> n \<and> n \<le> 13) \<or> (28 \<le> n \<and> n \<le> 32))"

definition is_digit :: "char \<Rightarrow> bool" where
  "is_digit c = (let n = char_code c in 48 \<le> n \<and> n \<le> 57)"

definition lower_char :: "char \<Rightarrow> char" where
  "lower_char c = (let n = char_code c in if 65 \<le> n \<and> n \<le> 90 then char_of (n + 32) else c)"

definition upper_char :: "char \<Rightarrow> char" where
  "upper_char c = (let n = char_code c in if 97 \<le> n \<and> n \<le> 122 then char_of (n - 32) else c)"

definition py_lower :: "string \<Rightarrow> string" where
  "py_lower s = map lower_char s"

definition py_upper :: "string \<Rightarrow> string" where
  "py_upper s = map upper_char s"

definition py_lstrip :: "string \<Rightarrow> string" where
  "py_lstrip s = dropWhile is_space s"

definition py_strip :: "string \<Rightarrow> string" where
  "py_strip s = rev (dropWhile is_space (rev (dropWhile is_space s)))"

text \<open>\<^verbatim>\<open>s.strip(c)\<close> on one side for a single character, as in \<^verbatim>\<open>rstrip("/")\<close>.\<close>

definition lstrip_char :: "char \<Rightarrow> string \<Rightarrow> string" where
  "lstrip_char c s = dropWhile (\<lambda>x. x = c) s"

definition rstrip_char :: "char \<Rightarrow> string \<Rightarrow> string" where
  "rstrip_char c s = rev (dropWhile (\<lambda>x. x = c) (rev s))"

text \<open>\<^verbatim>\<open>s.split()\<close>: the maximal runs of non-space characters.\<close>

fun py_words_acc :: "string \<Rightarrow> string \<Rightarrow> string list" where
  "py_words_acc acc [] = (if acc = [] then [] else [rev acc])"
| "py_words_acc acc (c # cs) =
     (if is_space c
      then (if acc = [] then py_words_acc [] cs else rev acc # py_words_acc [] cs)
      else py_words_acc (c # acc) cs)"

definition py_words :: "string \<Rightarrow> string list" where
  "py_words s = py_words_acc [] s"

section \<open>Slices and indices\<close>

text \<open>Python clamps slice bounds; negative bounds count from the end.\<close>

definition slice_bound :: "nat \<Rightarrow> int \<Rightarrow> nat" where
  "slice_bound n i = (if i < 0 then nat (max 0 (int n + i)) else min n (nat i))"

definition py_slice :: "'a list \<Rightarrow> int \<Rightarrow> int option \<Rightarrow> 'a list" where
  "py_slice xs i j =
     (let n = length xs; a = slice_bound n i;
          b = (case j of None \<Rightarrow> n | Some k \<Rightarrow> slice_bound n k)
      in take (b - a) (drop a xs))"

definition py_index :: "'a list \<Rightarrow> int \<Rightarrow> 'a option" where
  "py_index xs i =
     (let n = int (length xs); j = (if i < 0 then n + i else i)
      in if 0 \<le> j \<and> j < n then Some (xs ! nat j) else None)"

lemma py_slice_length: "length (py_slice xs i j) \<le> length xs"
  by (simp add: py_slice_def Let_def)

lemma py_slice_upto: "py_slice xs 0 (Some (int n)) = take n xs"
  by (simp add: py_slice_def slice_bound_def Let_def min_def)

section \<open>Decimal printing and parsing\<close>

definition digit_char :: "nat \<Rightarrow> char" where
  "digit_char n = char_of (48 + n)"

fun nat_str :: "nat \<Rightarrow> string" where
  "nat_str n = (if n < 10 then [digit_char n] else nat_str (n div 10) @ [digit_char (n mod 10)])"

declare nat_str.simps [simp del]

definition int_str :: "int \<Rightarrow> string" where
  "int_str i = (if i < 0 then CHR ''-'' # nat_str (nat (- i)) else nat_str (nat i))"

definition digit_val :: "char \<Rightarrow> nat" where
  "digit_val c = char_code c - 48"

text \<open>Digits with single underscores between them, as \<^verbatim>\<open>int(...)\<close> accepts: the flag says
  whether the previous character was a digit.\<close>

fun parse_digits :: "bool \<Rightarrow> nat \<Rightarrow> string \<Rightarrow> nat option" where
  "parse_digits prev acc [] = (if prev then Some acc else None)"
| "parse_digits prev acc (c # cs) =
     (if is_digit c then parse_digits True (10 * acc + digit_val c) cs
      else if c = CHR ''_'' \<and> prev \<and> cs \<noteq> [] then parse_digits False acc cs
      else None)"

definition parse_int :: "string \<Rightarrow> int option" where
  "parse_int s =
     (case py_strip s of
        [] \<Rightarrow> None
      | c # cs \<Rightarrow>
          (if c = CHR ''-'' then map_option (\<lambda>n. - int n) (parse_digits False 0 cs)
           else if c = CHR ''+'' then map_option int (parse_digits False 0 cs)
           else map_option int (parse_digits False 0 (c # cs))))"

lemma digit_char_code: "n < 10 \<Longrightarrow> char_code (digit_char n) = 48 + n"
  by (simp add: char_code_def digit_char_def)

lemma is_digit_digit_char: "n < 10 \<Longrightarrow> is_digit (digit_char n)"
  by (simp add: is_digit_def digit_char_code)

lemma digit_val_digit_char: "n < 10 \<Longrightarrow> digit_val (digit_char n) = n"
  by (simp add: digit_val_def digit_char_code)

lemma nat_str_not_Nil [simp]: "nat_str n \<noteq> []"
  by (subst nat_str.simps) simp

lemma nat_str_digits: "c \<in> set (nat_str n) \<Longrightarrow> is_digit c"
proof (induction n rule: nat_str.induct)
  case (1 n)
  then show ?case
    by (subst (asm) (2) nat_str.simps) (auto simp: is_digit_digit_char split: if_splits)
qed

lemma parse_digits_append:
  assumes "\<forall>c \<in> set xs. is_digit c" and "xs \<noteq> [] \<or> prev"
  shows "parse_digits prev acc (xs @ ys) =
    parse_digits True (foldl (\<lambda>a c. 10 * a + digit_val c) acc xs) ys"
  using assms
proof (induction xs arbitrary: prev acc)
  case (Cons c cs)
  then show ?case by simp
qed simp

lemma foldl_nat_str: "foldl (\<lambda>a c. 10 * a + digit_val c) 0 (nat_str n) = n"
proof (induction n rule: nat_str.induct)
  case (1 n)
  show ?case
  proof (cases "n < 10")
    case True
    then show ?thesis by (subst nat_str.simps) (simp add: digit_val_digit_char)
  next
    case False
    with 1 show ?thesis by (subst nat_str.simps) (simp add: digit_val_digit_char)
  qed
qed

lemma parse_digits_nat_str: "parse_digits False 0 (nat_str n) = Some n"
  using parse_digits_append [of "nat_str n" False 0 "[]"]
  by (simp add: nat_str_digits foldl_nat_str)

lemma is_digit_not_space: "is_digit c \<Longrightarrow> \<not> is_space c"
  by (auto simp: is_digit_def is_space_def Let_def)

lemma dropWhile_none: "(\<And>c. c \<in> set s \<Longrightarrow> \<not> P c) \<Longrightarrow> dropWhile P s = s"
  by (cases s) simp_all

lemma py_strip_id: "(\<And>c. c \<in> set s \<Longrightarrow> \<not> is_space c) \<Longrightarrow> py_strip s = s"
  using dropWhile_none [of s is_space] dropWhile_none [of "rev s" is_space]
  by (simp add: py_strip_def)

lemma is_digit_not_sign: "is_digit c \<Longrightarrow> c \<noteq> CHR ''-'' \<and> c \<noteq> CHR ''+''"
  by (auto simp: is_digit_def char_code_def)

lemma parse_int_nat_str: "parse_int (nat_str n) = Some (int n)"
proof -
  obtain c cs where c: "nat_str n = c # cs" by (cases "nat_str n") auto
  then have "c \<noteq> CHR ''-'' \<and> c \<noteq> CHR ''+''"
    using nat_str_digits [of c n] is_digit_not_sign by simp
  moreover have "py_strip (nat_str n) = nat_str n"
    by (rule py_strip_id) (simp add: nat_str_digits is_digit_not_space)
  moreover have "parse_digits False 0 (c # cs) = Some n"
    using parse_digits_nat_str [of n] by (simp add: c)
  ultimately show ?thesis using c by (simp add: parse_int_def)
qed

lemma parse_int_int_str: "parse_int (int_str i) = Some i"
proof (cases "i < 0")
  case True
  have "\<And>c. c \<in> set (CHR ''-'' # nat_str (nat (- i))) \<Longrightarrow> \<not> is_space c"
    using nat_str_digits is_digit_not_space
    by (auto simp: is_space_def char_code_def Let_def)
  then have "py_strip (CHR ''-'' # nat_str (nat (- i))) = CHR ''-'' # nat_str (nat (- i))"
    by (rule py_strip_id)
  with True show ?thesis by (simp add: parse_int_def int_str_def parse_digits_nat_str)
next
  case False
  then show ?thesis by (simp add: int_str_def parse_int_nat_str)
qed

end
