(* ===== verification/PyValue.thy ===== *)
theory PyValue
  imports Complex_Main PyText
begin

text \<open>
  Python values as the platform handles them: everything that JSON can carry,
  plus the operations of the language on such values.  Dictionaries have string
  keys and keep insertion order.  A float is a rational, an infinity or a NaN
  (the sign of zero is not kept).  What the code takes from the Python runtime
  and is not modelled here (binary64 rounding and printing, the \<^verbatim>\<open>re\<close>,
  \<^verbatim>\<open>datetime\<close> and \<^verbatim>\<open>json\<close> modules, \<^verbatim>\<open>str.format\<close>) is a record of functions,
  the parameter \<open>rt\<close> of the definitions that use it.
\<close>

section \<open>Values and exceptions\<close>

datatype pyfloat = Fin rat | PosInf | NegInf | NaN

datatype pyval =
    PNone
  | PBool bool
  | PInt int
  | PFloat pyfloat
  | PStr string
  | PList "pyval list"
  | PDict "(string \<times> pyval) list"

type_synonym pydict = "(string \<times> pyval) list"

text \<open>The exceptions the code raises or handles; \<open>OtherError\<close> carries the class name of an
  exception that comes out of code behind a parameter.\<close>

datatype exn =
    WorkflowError string "string option"
  | TypeError string
  | ValueError string
  | AttributeError string
  | KeyError string
  | IndexError string
  | LookupError string
  | OverflowError string
  | ZeroDivisionError string
  | HTTPException int string
  | OtherError string string

fun exn_str :: "exn \<Rightarrow> string" where
  "exn_str (WorkflowError m _) = m"
| "exn_str (TypeError m) = m"
| "exn_str (ValueError m) = m"
| "exn_str (AttributeError m) = m"
| "exn_str (KeyError m) = m"
| "exn_str (IndexError m) = m"
| "exn_str (LookupError m) = m"
| "exn_str (OverflowError m) = m"
| "exn_str (ZeroDivisionError m) = m"
| "exn_str (HTTPException n m) = m"
| "exn_str (OtherError c m) = m"

fun exn_node_id :: "exn \<Rightarrow> string option" where
  "exn_node_id (WorkflowError _ n) = n"
| "exn_node_id _ = None"

type_synonym 'a py = "exn + 'a"

datatype re_result = ReError | ReTimeout | ReNoMatch | ReMatch "pyval \<Rightarrow> pyval option"

record pyrt =
  rt_round :: "rat \<Rightarrow> pyfloat"
  rt_float_repr :: "pyfloat \<Rightarrow> string"
  rt_search :: "string \<Rightarrow> string \<Rightarrow> re_result"
  rt_sub :: "string \<Rightarrow> string \<Rightarrow> string \<Rightarrow> string option"
  rt_format :: "string \<Rightarrow> pyval \<Rightarrow> string py"
  rt_reformat_date :: "string \<Rightarrow> string \<Rightarrow> string \<Rightarrow> string option"
  rt_json_loads :: "string \<Rightarrow> pyval option"
  rt_json_dumps :: "pyval \<Rightarrow> string"

lemma size_zip_left [termination_simp]:
  "(x, y) \<in> set (zip xs ys) \<Longrightarrow> size (x :: pyval) < Suc (size_list size xs)"
proof -
  assume "(x, y) \<in> set (zip xs ys)"
  then have "x \<in> set xs" by (rule set_zip_leftD)
  then show ?thesis by (induction xs) auto
qed

fun type_name :: "pyval \<Rightarrow> string" where
  "type_name PNone = ''NoneType''"
| "type_name (PBool _) = ''bool''"
| "type_name (PInt _) = ''int''"
| "type_name (PFloat _) = ''float''"
| "type_name (PStr _) = ''str''"
| "type_name (PList _) = ''list''"
| "type_name (PDict _) = ''dict''"

fun is_dict :: "pyval \<Rightarrow> bool" where
  "is_dict (PDict _) = True"
| "is_dict _ = False"

fun is_list :: "pyval \<Rightarrow> bool" where
  "is_list (PList _) = True"
| "is_list _ = False"

fun is_str :: "pyval \<Rightarrow> bool" where
  "is_str (PStr _) = True"
| "is_str _ = False"

fun truthy :: "pyval \<Rightarrow> bool" where
  "truthy PNone = False"
| "truthy (PBool b) = b"
| "truthy (PInt i) = (i \<noteq> 0)"
| "truthy (PFloat x) = (x \<noteq> Fin 0)"
| "truthy (PStr s) = (s \<noteq> [])"
| "truthy (PList xs) = (xs \<noteq> [])"
| "truthy (PDict d) = (d \<noteq> [])"

section \<open>Printing: str and repr\<close>

definition hex_digit :: "nat \<Rightarrow> char" where
  "hex_digit n = (if n < 10 then char_of (48 + n) else char_of (87 + n))"

definition repr_char :: "char \<Rightarrow> char \<Rightarrow> string" where
  "repr_char q c =
     (let n = char_code c in
      if c = q \<or> n = 92 then [char_of (92::nat), c]
      else if n = 10 then [char_of (92::nat), CHR ''n'']
      else if n = 13 then [char_of (92::nat), CHR ''r'']
      else if n = 9 then [char_of (92::nat), CHR ''t'']
      else if n < 32 \<or> n = 127 then [char_of (92::nat), CHR ''x'', hex_digit (n div 16), hex_digit (n mod 16)]
      else [c])"

definition single_quote :: char where "single_quote = char_of (39::nat)"
definition double_quote :: char where "double_quote = char_of (34::nat)"

definition str_repr :: "string \<Rightarrow> string" where
  "str_repr s =
     (let q = (if single_quote \<in> set s \<and> double_quote \<notin> set s then double_quote else single_quote)
      in [q] @ concat (map (repr_char q) s) @ [q])"

fun py_repr :: "pyrt \<Rightarrow> pyval \<Rightarrow> string" where
  "py_repr rt PNone = ''None''"
| "py_repr rt (PBool b) = (if b then ''True'' else ''False'')"
| "py_repr rt (PInt i) = int_str i"
| "py_repr rt (PFloat x) = rt_float_repr rt x"
| "py_repr rt (PStr s) = str_repr s"
| "py_repr rt (PList xs) = ''['' @ py_join '', '' (map (py_repr rt) xs) @ '']''"
| "py_repr rt (PDict d) =
     ''{'' @ py_join '', '' (map (\<lambda>(k, v). str_repr k @ '': '' @ py_repr rt v) d) @ ''}''"

definition py_str :: "pyrt \<Rightarrow> pyval \<Rightarrow> string" where
  "py_str rt v = (case v of PStr s \<Rightarrow> s | _ \<Rightarrow> py_repr rt v)"

lemma py_str_simps [simp]:
  "py_str rt PNone = ''None''"
  "py_str rt (PStr s) = s"
  "py_str rt (PInt i) = int_str i"
  "py_str rt (PBool b) = (if b then ''True'' else ''False'')"
  by (simp_all add: py_str_def)

section \<open>Equality and ordering\<close>

fun as_num :: "pyval \<Rightarrow> pyfloat option" where
  "as_num (PBool b) = Some (Fin (if b then 1 else 0))"
| "as_num (PInt i) = Some (Fin (of_int i))"
| "as_num (PFloat x) = Some x"
| "as_num _ = None"

fun float_eq :: "pyfloat \<Rightarrow> pyfloat \<Rightarrow> bool" where
  "float_eq NaN y = False"
| "float_eq x NaN = False"
| "float_eq x y = (x = y)"

fun float_lt :: "pyfloat \<Rightarrow> pyfloat \<Rightarrow> bool" where
  "float_lt (Fin a) (Fin b) = (a < b)"
| "float_lt (Fin a) PosInf = True"
| "float_lt NegInf (Fin b) = True"
| "float_lt NegInf PosInf = True"
| "float_lt _ _ = False"

definition num_eq :: "pyval \<Rightarrow> pyval \<Rightarrow> bool" where
  "num_eq a b = (case (as_num a, as_num b) of (Some x, Some y) \<Rightarrow> float_eq x y | _ \<Rightarrow> False)"

fun py_eq :: "pyval \<Rightarrow> pyval \<Rightarrow> bool" where
  "py_eq PNone b = (b = PNone)"
| "py_eq (PStr s) b = (b = PStr s)"
| "py_eq (PList xs) b =
     (case b of PList ys \<Rightarrow> length xs = length ys \<and> list_all (\<lambda>(x, y). py_eq x y) (zip xs ys)
              | _ \<Rightarrow> False)"
| "py_eq (PDict d) b =
     (case b of
        PDict e \<Rightarrow> length d = length e \<and>
          list_all (\<lambda>(k, v). case map_of e k of None \<Rightarrow> False | Some w \<Rightarrow> py_eq v w) d
      | _ \<Rightarrow> False)"
| "py_eq (PBool x) b = num_eq (PBool x) b"
| "py_eq (PInt x) b = num_eq (PInt x) b"
| "py_eq (PFloat x) b = num_eq (PFloat x) b"

fun str_lt :: "string \<Rightarrow> string \<Rightarrow> bool" where
  "str_lt [] t = (t \<noteq> [])"
| "str_lt (c # cs) [] = False"
| "str_lt (c # cs) (d # ds) =
     (char_code c < char_code d \<or> (char_code c = char_code d \<and> str_lt cs ds))"

datatype cmp_op = CLt | CLe | CGt | CGe

fun cmp_sym :: "cmp_op \<Rightarrow> string" where
  "cmp_sym CLt = ''<''"
| "cmp_sym CLe = ''<=''"
| "cmp_sym CGt = ''>''"
| "cmp_sym CGe = ''>=''"

definition cmp_num :: "cmp_op \<Rightarrow> pyfloat \<Rightarrow> pyfloat \<Rightarrow> bool" where
  "cmp_num op x y =
     (case op of CLt \<Rightarrow> float_lt x y | CLe \<Rightarrow> float_lt x y \<or> float_eq x y
              | CGt \<Rightarrow> float_lt y x | CGe \<Rightarrow> float_lt y x \<or> float_eq x y)"

definition cmp_str :: "cmp_op \<Rightarrow> string \<Rightarrow> string \<Rightarrow> bool" where
  "cmp_str op s t =
     (case op of CLt \<Rightarrow> str_lt s t | CLe \<Rightarrow> str_lt s t \<or> s = t
              | CGt \<Rightarrow> str_lt t s | CGe \<Rightarrow> str_lt t s \<or> s = t)"

definition cmp_type_error :: "cmp_op \<Rightarrow> pyval \<Rightarrow> pyval \<Rightarrow> exn" where
  "cmp_type_error op a b =
     TypeError ([single_quote] @ cmp_sym op @ [single_quote] @ '' not supported between instances of ''
       @ [single_quote] @ type_name a @ [single_quote] @ '' and '' @ [single_quote] @ type_name b @ [single_quote])"

text \<open>Numbers compare by value, strings by code point, lists at the first position where they
  differ (or by length); every other pair raises.\<close>

fun py_cmp :: "cmp_op \<Rightarrow> pyval \<Rightarrow> pyval \<Rightarrow> bool py"
and py_cmp_list :: "cmp_op \<Rightarrow> pyval list \<Rightarrow> pyval list \<Rightarrow> bool py" where
  "py_cmp op (PStr s) b = (case b of PStr t \<Rightarrow> Inr (cmp_str op s t) | _ \<Rightarrow> Inl (cmp_type_error op (PStr s) b))"
| "py_cmp op (PList xs) b = (case b of PList ys \<Rightarrow> py_cmp_list op xs ys | _ \<Rightarrow> Inl (cmp_type_error op (PList xs) b))"
| "py_cmp op a b =
     (case (as_num a, as_num b) of
        (Some x, Some y) \<Rightarrow> Inr (cmp_num op x y)
      | _ \<Rightarrow> Inl (cmp_type_error op a b))"
| "py_cmp_list op [] ys = Inr (case op of CLt \<Rightarrow> ys \<noteq> [] | CLe \<Rightarrow> True | CGt \<Rightarrow> False | CGe \<Rightarrow> ys = [])"
| "py_cmp_list op (x # xs) [] = Inr (case op of CLt \<Rightarrow> False | CLe \<Rightarrow> False | CGt \<Rightarrow> True | CGe \<Rightarrow> True)"
| "py_cmp_list op (x # xs) (y # ys) =
     (if py_eq x y then py_cmp_list op xs ys else py_cmp op x y)"

text \<open>\<^verbatim>\<open>x in c\<close>.\<close>

fun hashable :: "pyval \<Rightarrow> bool" where
  "hashable (PList _) = False"
| "hashable (PDict _) = False"
| "hashable _ = True"

definition unhashable_error :: "pyval \<Rightarrow> exn" where
  "unhashable_error v = TypeError (''unhashable type: '' @ str_repr (type_name v))"

definition not_iterable_error :: "pyval \<Rightarrow> exn" where
  "not_iterable_error v = TypeError (''argument of type '' @ str_repr (type_name v) @ '' is not iterable'')"

definition py_in :: "pyval \<Rightarrow> pyval \<Rightarrow> bool py" where
  "py_in x c =
     (case c of
        PStr s \<Rightarrow> (case x of PStr p \<Rightarrow> Inr (contains_sub s p)
                  | _ \<Rightarrow> Inl (TypeError (str_repr ''in <string>'' @ '' requires string as left operand, not '' @ type_name x)))
      | PList xs \<Rightarrow> Inr (list_ex (\<lambda>y. py_eq y x) xs)
      | PDict d \<Rightarrow> (if hashable x then Inr (case x of PStr k \<Rightarrow> dhas d k | _ \<Rightarrow> False)
                   else Inl (unhashable_error x))
      | _ \<Rightarrow> Inl (not_iterable_error c))"

section \<open>Attribute access and conversions\<close>

definition attr_error :: "pyval \<Rightarrow> string \<Rightarrow> exn" where
  "attr_error v a = AttributeError (str_repr (type_name v) @ '' object has no attribute '' @ str_repr a)"

text \<open>\<^verbatim>\<open>v.get(k, dflt)\<close> on a value that may not be a dictionary.\<close>

definition py_get :: "pyval \<Rightarrow> string \<Rightarrow> pyval \<Rightarrow> pyval py" where
  "py_get v k dflt = (case v of PDict d \<Rightarrow> Inr (dget d k dflt) | _ \<Rightarrow> Inl (attr_error v ''get''))"

lemma py_get_dict [simp]: "py_get (PDict d) k x = Inr (dget d k x)"
  by (simp add: py_get_def)

definition as_str :: "string \<Rightarrow> pyval \<Rightarrow> string py" where
  "as_str attr v = (case v of PStr s \<Rightarrow> Inr s | _ \<Rightarrow> Inl (attr_error v attr))"

lemma as_str_PStr [simp]: "as_str a (PStr s) = Inr s"
  by (simp add: as_str_def)

text \<open>Decimal literals, as \<^verbatim>\<open>float(...)\<close> of a string accepts them.\<close>

definition parse_mantissa :: "string \<Rightarrow> rat option" where
  "parse_mantissa s =
     (case py_split1 ''.'' s of
        [i] \<Rightarrow> map_option of_nat (parse_digits False 0 i)
      | [i, f] \<Rightarrow>
          (if i = [] \<and> f = [] then None
           else (case (if i = [] then Some 0 else parse_digits False 0 i,
                       if f = [] then Some 0 else parse_digits False 0 f) of
                   (Some a, Some b) \<Rightarrow>
                     Some (of_nat a + of_nat b / 10 ^ length (filter is_digit f))
                 | _ \<Rightarrow> None))
      | _ \<Rightarrow> None)"

definition parse_exponent :: "string \<Rightarrow> int option" where
  "parse_exponent s =
     (case s of
        [] \<Rightarrow> None
      | c # cs \<Rightarrow>
          (if c = CHR ''-'' then map_option (\<lambda>n. - int n) (parse_digits False 0 cs)
           else if c = CHR ''+'' then map_option int (parse_digits False 0 cs)
           else map_option int (parse_digits False 0 s)))"

definition pow10 :: "int \<Rightarrow> rat" where
  "pow10 e = (if e < 0 then 1 / 10 ^ nat (- e) else 10 ^ nat e)"

definition parse_decimal :: "string \<Rightarrow> rat option" where
  "parse_decimal s =
     (case py_split1 ''e'' s of
        [m] \<Rightarrow> parse_mantissa m
      | [m, e] \<Rightarrow> (case (parse_mantissa m, parse_exponent e) of
                     (Some x, Some k) \<Rightarrow> Some (x * pow10 k)
                   | _ \<Rightarrow> None)
      | _ \<Rightarrow> None)"

definition parse_float :: "pyrt \<Rightarrow> string \<Rightarrow> pyfloat option" where
  "parse_float rt s =
     (let t = py_lower (py_strip s);
          neg = starts_with t ''-'';
          u = (if neg \<or> starts_with t ''+'' then tl t else t) in
      if u = ''inf'' \<or> u = ''infinity'' then Some (if neg then NegInf else PosInf)
      else if u = ''nan'' then Some NaN
      else map_option (\<lambda>x. rt_round rt (if neg then - x else x)) (parse_decimal u))"

definition to_float_error :: "pyval \<Rightarrow> exn" where
  "to_float_error v =
     TypeError (''float() argument must be a string or a real number, not '' @ str_repr (type_name v))"

definition py_float :: "pyrt \<Rightarrow> pyval \<Rightarrow> pyfloat py" where
  "py_float rt v =
     (case v of
        PFloat x \<Rightarrow> Inr x
      | PBool b \<Rightarrow> Inr (Fin (if b then 1 else 0))
      | PInt i \<Rightarrow> (case rt_round rt (of_int i) of
                    Fin x \<Rightarrow> Inr (Fin x)
                  | _ \<Rightarrow> Inl (OverflowError ''int too large to convert to float''))
      | PStr s \<Rightarrow> (case parse_float rt s of
                    Some x \<Rightarrow> Inr x
                  | None \<Rightarrow> Inl (ValueError (''could not convert string to float: '' @ str_repr s)))
      | _ \<Rightarrow> Inl (to_float_error v))"

definition trunc_rat :: "rat \<Rightarrow> int" where
  "trunc_rat x = (if x < 0 then - \<lfloor>- x\<rfloor> else \<lfloor>x\<rfloor>)"

definition py_int :: "pyval \<Rightarrow> int py" where
  "py_int v =
     (case v of
        PInt i \<Rightarrow> Inr i
      | PBool b \<Rightarrow> Inr (if b then 1 else 0)
      | PFloat (Fin x) \<Rightarrow> Inr (trunc_rat x)
      | PFloat NaN \<Rightarrow> Inl (ValueError ''cannot convert float NaN to integer'')
      | PFloat _ \<Rightarrow> Inl (OverflowError ''cannot convert float infinity to integer'')
      | PStr s \<Rightarrow> (case parse_int s of
                    Some i \<Rightarrow> Inr i
                  | None \<Rightarrow> Inl (ValueError (''invalid literal for int() with base 10: '' @ str_repr s)))
      | _ \<Rightarrow> Inl (TypeError (''int() argument must be a string, a bytes-like object or a real number, not ''
               @ str_repr (type_name v))))"

text \<open>What a \<^verbatim>\<open>for\<close> loop or a comprehension sees of a value.\<close>

definition py_iter :: "pyval \<Rightarrow> pyval list py" where
  "py_iter v =
     (case v of
        PList xs \<Rightarrow> Inr xs
      | PStr s \<Rightarrow> Inr (map (\<lambda>c. PStr [c]) s)
      | PDict d \<Rightarrow> Inr (map (\<lambda>(k, w). PStr k) d)
      | _ \<Rightarrow> Inl (TypeError (str_repr (type_name v) @ '' object is not iterable'')))"

text \<open>\<^verbatim>\<open>v.items()\<close>.\<close>

definition py_items :: "pyval \<Rightarrow> pydict py" where
  "py_items v = (case v of PDict d \<Rightarrow> Inr d | _ \<Rightarrow> Inl (attr_error v ''items''))"

definition py_len :: "pyval \<Rightarrow> nat py" where
  "py_len v =
     (case v of
        PList xs \<Rightarrow> Inr (length xs)
      | PStr s \<Rightarrow> Inr (length s)
      | PDict d \<Rightarrow> Inr (length d)
      | _ \<Rightarrow> Inl (TypeError (''object of type '' @ str_repr (type_name v) @ '' has no len()'')))"

lemma py_iter_PList [simp]: "py_iter (PList xs) = Inr xs"
  by (simp add: py_iter_def)

section \<open>Float arithmetic\<close>

text \<open>Exact rational arithmetic followed by the runtime's rounding.\<close>

fun float_neg :: "pyfloat \<Rightarrow> pyfloat" where
  "float_neg (Fin a) = Fin (- a)"
| "float_neg PosInf = NegInf"
| "float_neg NegInf = PosInf"
| "float_neg NaN = NaN"

fun float_add :: "pyrt \<Rightarrow> pyfloat \<Rightarrow> pyfloat \<Rightarrow> pyfloat" where
  "float_add rt (Fin a) (Fin b) = rt_round rt (a + b)"
| "float_add rt NaN y = NaN"
| "float_add rt x NaN = NaN"
| "float_add rt PosInf y = (if y = NegInf then NaN else PosInf)"
| "float_add rt NegInf y = (if y = PosInf then NaN else NegInf)"
| "float_add rt x y = y"

definition float_sign :: "pyfloat \<Rightarrow> int" where
  "float_sign x = (case x of Fin a \<Rightarrow> if a < 0 then -1 else if 0 < a then 1 else 0
                           | PosInf \<Rightarrow> 1 | NegInf \<Rightarrow> -1 | NaN \<Rightarrow> 0)"

definition inf_of_sign :: "int \<Rightarrow> pyfloat" where
  "inf_of_sign s = (if s = 0 then NaN else if 0 < s then PosInf else NegInf)"

fun float_mul :: "pyrt \<Rightarrow> pyfloat \<Rightarrow> pyfloat \<Rightarrow> pyfloat" where
  "float_mul rt (Fin a) (Fin b) = rt_round rt (a * b)"
| "float_mul rt NaN y = NaN"
| "float_mul rt x NaN = NaN"
| "float_mul rt x y = inf_of_sign (float_sign x * float_sign y)"

text \<open>Division by a value known not to be zero.\<close>

fun float_div :: "pyrt \<Rightarrow> pyfloat \<Rightarrow> pyfloat \<Rightarrow> pyfloat" where
  "float_div rt (Fin a) (Fin b) = rt_round rt (a / b)"
| "float_div rt NaN y = NaN"
| "float_div rt x NaN = NaN"
| "float_div rt (Fin a) y = Fin 0"
| "float_div rt x (Fin b) = inf_of_sign (float_sign x * (if b < 0 then -1 else 1))"
| "float_div rt x y = NaN"

text \<open>\<^verbatim>\<open>except (ValueError, TypeError)\<close>.\<close>

definition value_or_type_error :: "exn \<Rightarrow> bool" where
  "value_or_type_error e = (case e of ValueError _ \<Rightarrow> True | TypeError _ \<Rightarrow> True | _ \<Rightarrow> False)"

section \<open>Laws of equality\<close>

fun no_float :: "pyval \<Rightarrow> bool" where
  "no_float (PFloat _) = False"
| "no_float (PList xs) = list_all no_float xs"
| "no_float (PDict d) = (distinct (map fst d) \<and> list_all (\<lambda>(k, v). no_float v) d)"
| "no_float _ = True"

lemma num_eq_refl: "as_num a = Some x \<Longrightarrow> x \<noteq> NaN \<Longrightarrow> num_eq a a"
  by (cases x) (simp_all add: num_eq_def)

lemma py_eq_refl: "no_float v \<Longrightarrow> py_eq v v"
proof (induction v rule: no_float.induct)
  case (2 xs)
  then show ?case by (auto simp: list_all_iff set_zip in_set_conv_nth)
next
  case (3 d)
  then show ?case by (fastforce simp: list_all_iff)
qed (auto simp: num_eq_def)

end
