(* ===== verification/AgentQueue.thy ===== *)
theory AgentQueue
  imports PyValue
begin

text \<open>
  The synchronisation of the on-premise agent (\<^verbatim>\<open>onpremise/nexo-agent/src/sync\<close>): the queue in SQLite
  (\<^verbatim>\<open>offline_queue.py\<close>), the cycle that fills it from the ERP system and sends it to the cloud (\<^verbatim>\<open>sync_engine.py\<close>), and the
  heartbeat (\<^verbatim>\<open>heartbeat.py\<close>).  The services of the ERP system, JSON and the cloud are arguments; the state keeps a log of
  what was posted.  The database does not fail and each cycle ends before the next begins.
\<close>

section \<open>The queue\<close>

record queue_item =
  qi_id :: nat
  qi_entity :: string
  qi_operation :: string
  qi_payload :: string
  qi_status :: string
  qi_attempts :: nat
  qi_max_attempts :: nat
  qi_processed_at :: "string option"
  qi_error :: "string option"

record sync_row =
  sy_last_sync_at :: string
  sy_last_id :: string

record agent_db =
  aq_items :: "queue_item list"
  aq_next_id :: nat
  aq_sync :: "((string \<times> string) \<times> sync_row) list"

definition empty_queue :: agent_db where
  "empty_queue = \<lparr>aq_items = [], aq_next_id = 1, aq_sync = []\<rparr>"

definition new_item :: "nat \<Rightarrow> string \<Rightarrow> string \<Rightarrow> string \<Rightarrow> queue_item" where
  "new_item i entity operation payload =
     \<lparr>qi_id = i, qi_entity = entity, qi_operation = operation, qi_payload = payload, qi_status = ''pending'', qi_attempts = 0,
      qi_max_attempts = 5, qi_processed_at = None, qi_error = None\<rparr>"

definition enqueue :: "(pyval \<Rightarrow> string) \<Rightarrow> string \<Rightarrow> string \<Rightarrow> pyval \<Rightarrow> agent_db \<Rightarrow> nat \<times> agent_db" where
  "enqueue dumps entity operation payload db =
     (aq_next_id db,
      db\<lparr>aq_items := aq_items db @ [new_item (aq_next_id db) entity operation (dumps payload)], aq_next_id := Suc (aq_next_id db)\<rparr>)"

definition is_pending :: "queue_item \<Rightarrow> bool" where
  "is_pending x \<longleftrightarrow> qi_status x = ''pending'' \<and> qi_attempts x < qi_max_attempts x"

definition pending_rows :: "nat \<Rightarrow> agent_db \<Rightarrow> queue_item list" where
  "pending_rows limit db = take limit (sort_key qi_id (filter is_pending (aq_items db)))"

text \<open>The rows with the parsed payload.\<close>

definition get_pending :: "(string \<Rightarrow> pyval py) \<Rightarrow> nat \<Rightarrow> agent_db \<Rightarrow> (queue_item \<times> pyval) list py" where
  "get_pending loads limit db = mapM (\<lambda>x. andThen (loads (qi_payload x)) (\<lambda>v. Inr (x, v))) (pending_rows limit db)"

definition update_item :: "nat \<Rightarrow> (queue_item \<Rightarrow> queue_item) \<Rightarrow> agent_db \<Rightarrow> agent_db" where
  "update_item i f db = db\<lparr>aq_items := map (\<lambda>x. if qi_id x = i then f x else x) (aq_items db)\<rparr>"

definition mark_processed :: "string \<Rightarrow> nat \<Rightarrow> agent_db \<Rightarrow> agent_db" where
  "mark_processed now i = update_item i (\<lambda>x. x\<lparr>qi_status := ''processed'', qi_processed_at := Some now\<rparr>)"

definition mark_failed :: "nat \<Rightarrow> string \<Rightarrow> agent_db \<Rightarrow> agent_db" where
  "mark_failed i error =
     update_item i (\<lambda>x. x\<lparr>qi_attempts := qi_attempts x + 1, qi_error := Some error,
       qi_status := if qi_max_attempts x \<le> qi_attempts x + 1 then ''dead_letter'' else ''pending''\<rparr>)"

definition get_queue_depth :: "agent_db \<Rightarrow> (string \<times> nat) list" where
  "get_queue_depth db =
     map (\<lambda>st. (st, length (filter (\<lambda>x. qi_status x = st) (aq_items db)))) (remdups (map qi_status (aq_items db)))"

definition update_sync_state :: "string \<Rightarrow> string \<Rightarrow> string \<Rightarrow> string \<Rightarrow> agent_db \<Rightarrow> agent_db" where
  "update_sync_state now entity direction last_id db =
     db\<lparr>aq_sync := dset (aq_sync db) (entity, direction) \<lparr>sy_last_sync_at = now, sy_last_id = last_id\<rparr>\<rparr>"

definition get_sync_state :: "string \<Rightarrow> string \<Rightarrow> agent_db \<Rightarrow> sync_row option" where
  "get_sync_state entity direction db = map_of (aq_sync db) (entity, direction)"

section \<open>The ERP system\<close>

record agent_env =
  ag_dumps :: "pyval \<Rightarrow> string"
  ag_loads :: "string \<Rightarrow> pyval py"
  ag_cloud_url :: string
  ag_api_key :: string
  ag_agent_id :: string

text \<open>Whether an item is passed over: it has not changed since the last time.  A time of change that is no text raises.\<close>

definition unchanged :: "string option \<Rightarrow> pyval \<Rightarrow> bool py" where
  "unchanged last_sync item =
     andThen (py_get item ''updated_at'' PNone) (\<lambda>updated.
     case last_sync of
       Some (c # cs) \<Rightarrow> if truthy updated then py_cmp CLe updated (PStr (c # cs)) else Inr False
     | _ \<Rightarrow> Inr False)"

text \<open>The items one after the other; what was queued before an item raised stays queued.  The result is the number queued.\<close>

fun queue_items :: "agent_env \<Rightarrow> string \<Rightarrow> string option \<Rightarrow> pyval list \<Rightarrow> nat \<Rightarrow> agent_db \<Rightarrow> nat py \<times> agent_db" where
  "queue_items ae entity last_sync [] n db = (Inr n, db)"
| "queue_items ae entity last_sync (x # xs) n db =
     (case unchanged last_sync x of
        Inl e \<Rightarrow> (Inl e, db)
      | Inr True \<Rightarrow> queue_items ae entity last_sync xs n db
      | Inr False \<Rightarrow> queue_items ae entity last_sync xs (Suc n) (snd (enqueue (ag_dumps ae) entity ''sync'' x db)))"

text \<open>Contractors and products; exceptions end the step.\<close>

definition sync_outbound_list :: "agent_env \<Rightarrow> string \<Rightarrow> string \<Rightarrow> string \<Rightarrow> pyval list py \<Rightarrow> agent_db \<Rightarrow> agent_db" where
  "sync_outbound_list ae now entity name items db =
     (case items of
        Inl e \<Rightarrow> db
      | Inr xs \<Rightarrow>
          (case queue_items ae entity (map_option sy_last_sync_at (get_sync_state name ''outbound'' db)) xs 0 db of
             (Inl e, db') \<Rightarrow> db'
           | (Inr n, db') \<Rightarrow> if 0 < n then update_sync_state now name ''outbound'' [] db' else db'))"

text \<open>The stock with the number of its items, as it is sent.\<close>

definition sync_outbound_stock :: "agent_env \<Rightarrow> string \<Rightarrow> (nat \<times> pyval) py \<Rightarrow> agent_db \<Rightarrow> agent_db" where
  "sync_outbound_stock ae now stock db =
     (case stock of
        Inl e \<Rightarrow> db
      | Inr (n, payload) \<Rightarrow>
          if 0 < n then update_sync_state now ''stock'' ''outbound'' [] (snd (enqueue (ag_dumps ae) ''stock'' ''full_sync'' payload db)) else db)"

section \<open>The cloud\<close>

text \<open>An answer with its status and text, a request error of the client, or another exception before anything was sent.\<close>

datatype cloud_answer = CloudAnswer int string | CloudUnreachable string | CloudRaise exn

definition sync_message :: "agent_env \<Rightarrow> queue_item \<Rightarrow> pyval \<Rightarrow> pyval" where
  "sync_message ae x v =
     PDict [(''agent_id'', PStr (ag_agent_id ae)), (''entity_type'', PStr (qi_entity x)), (''operation'', PStr (qi_operation x)), (''payload'', v)]"

record agent =
  ag_db :: agent_db
  ag_posted :: "(nat \<times> pyval \<times> cloud_answer) list"

definition post_item :: "agent_env \<Rightarrow> (nat \<Rightarrow> pyval \<Rightarrow> cloud_answer) \<Rightarrow> queue_item \<Rightarrow> pyval \<Rightarrow> agent \<Rightarrow> cloud_answer \<times> agent" where
  "post_item ae cloud x v s =
     (let m = sync_message ae x v; r = cloud (length (ag_posted s)) m in
      (r, s\<lparr>ag_posted := ag_posted s @ [(qi_id x, m, r)]\<rparr>))"

fun flush_items ::
  "agent_env \<Rightarrow> (pyrt \<times> string) \<Rightarrow> (nat \<Rightarrow> pyval \<Rightarrow> cloud_answer) \<Rightarrow> (queue_item \<times> pyval) list \<Rightarrow> agent \<Rightarrow> unit py \<times> agent" where
  "flush_items ae rn cloud [] s = (Inr (), s)"
| "flush_items ae rn cloud ((x, v) # rest) s =
     (case post_item ae cloud x v s of
        (CloudAnswer code text, s1) \<Rightarrow>
          flush_items ae rn cloud rest
            (if code < 300 then s1\<lparr>ag_db := mark_processed (snd rn) (qi_id x) (ag_db s1)\<rparr>
             else s1\<lparr>ag_db := mark_failed (qi_id x) (''HTTP '' @ py_str (fst rn) (PInt code) @ '': '' @ take 200 text) (ag_db s1)\<rparr>)
      | (CloudUnreachable e, s1) \<Rightarrow> (Inr (), s1\<lparr>ag_db := mark_failed (qi_id x) e (ag_db s1)\<rparr>)
      | (CloudRaise e, s1) \<Rightarrow> (Inl e, s))"

definition flush_queue :: "agent_env \<Rightarrow> pyrt \<times> string \<Rightarrow> (nat \<Rightarrow> pyval \<Rightarrow> cloud_answer) \<Rightarrow> agent \<Rightarrow> unit py \<times> agent" where
  "flush_queue ae rn cloud s =
     (if ag_cloud_url ae = [] \<or> ag_api_key ae = [] then (Inr (), s)
      else case get_pending (ag_loads ae) 50 (ag_db s) of
        Inl e \<Rightarrow> (Inl e, s)
      | Inr pending \<Rightarrow> flush_items ae rn cloud pending s)"

text \<open>What a cycle finds: whether the ERP system is connected, its contractors, products and stock, and the cloud.\<close>

record cycle_input =
  cy_connected :: bool
  cy_contractors :: "pyval list py"
  cy_products :: "pyval list py"
  cy_stock :: "(nat \<times> pyval) py"
  cy_cloud :: "nat \<Rightarrow> pyval \<Rightarrow> cloud_answer"
  cy_now :: string

definition sync_outbound :: "agent_env \<Rightarrow> cycle_input \<Rightarrow> agent_db \<Rightarrow> agent_db" where
  "sync_outbound ae cy db =
     (let db1 = sync_outbound_list ae (cy_now cy) ''contractor'' ''contractors'' (cy_contractors cy) db;
          db2 = sync_outbound_list ae (cy_now cy) ''product'' ''products'' (cy_products cy) db1 in
      sync_outbound_stock ae (cy_now cy) (cy_stock cy) db2)"

definition run_sync_cycle :: "agent_env \<Rightarrow> pyrt \<Rightarrow> cycle_input \<Rightarrow> agent \<Rightarrow> unit py \<times> agent" where
  "run_sync_cycle ae rt cy s =
     (if \<not> cy_connected cy then (Inr (), s)
      else flush_queue ae (rt, cy_now cy) (cy_cloud cy) (s\<lparr>ag_db := sync_outbound ae cy (ag_db s)\<rparr>))"

text \<open>The loop logs an exception and goes on with the next cycle.\<close>

definition agent_loop :: "agent_env \<Rightarrow> pyrt \<Rightarrow> cycle_input list \<Rightarrow> agent \<Rightarrow> agent" where
  "agent_loop ae rt cycles s = foldl (\<lambda>s cy. snd (run_sync_cycle ae rt cy s)) s cycles"

section \<open>The heartbeat\<close>

definition queue_report :: "agent_db \<Rightarrow> (string \<times> nat) list \<times> nat" where
  "queue_report db = (get_queue_depth db, dget (get_queue_depth db) ''pending'' 0)"

text \<open>The number of heartbeats in a row that did not arrive; without a cloud none is sent.\<close>

definition send_heartbeat :: "agent_env \<Rightarrow> cloud_answer \<Rightarrow> nat \<Rightarrow> nat" where
  "send_heartbeat ae answer failures =
     (if ag_cloud_url ae = [] \<or> ag_api_key ae = [] then failures
      else case answer of
        CloudAnswer code _ \<Rightarrow> if code < 300 then 0 else Suc failures
      | CloudUnreachable _ \<Rightarrow> Suc failures
      | CloudRaise _ \<Rightarrow> failures)"

end
