(* ===== verification/NestedPath.thy ===== *)
theory NestedPath
  imports PyValue
begin

text \<open>
  Dotted field paths, the addressing scheme of every mapping, condition and
  template: \<^verbatim>\<open>_get_nested\<close>, \<^verbatim>\<open>_set_nested\<close> and their \<^verbatim>\<open>[]\<close> array variants
  in \<^verbatim>\<open>core/workflow_engine.py\<close>, the copies of them in
  \<^verbatim>\<open>core/mapping_resolver.py\<close>, and the reduced readers of
  \<^verbatim>\<open>core/flow_engine.py\<close> and \<^verbatim>\<open>core/sync_state.py\<close>.  In-place mutation of a
  dictionary is the returned new dictionary.  The lemmas: what a write leaves
  under its own path and under independent paths, round trips for arrays, that
  writes into an empty dictionary cannot fail, and that the copies agree.
\<close>

section \<open>Reading\<close>

fun get_path :: "string list \<Rightarrow> pyval \<Rightarrow> pyval" where
  "get_path [] current = current"
| "get_path (part # parts) current =
     (case current of
        PDict d \<Rightarrow> get_path parts (dget d part PNone)
      | PList xs \<Rightarrow>
          (case parse_int part of
             None \<Rightarrow> PNone
           | Some i \<Rightarrow> (case py_index xs i of None \<Rightarrow> PNone | Some v \<Rightarrow> get_path parts v))
      | _ \<Rightarrow> PNone)"

text \<open>The text before the first \<^verbatim>\<open>[]\<close> of a path, and after it less one dot.\<close>

definition array_split :: "string \<Rightarrow> (string \<times> string) option" where
  "array_split key =
     (case find_sub ''[]'' key of
        None \<Rightarrow> None
      | Some pos \<Rightarrow>
          (let rest = drop (pos + 2) key
           in Some (take pos key, if starts_with rest ''.'' then tl rest else rest)))"

lemma array_split_shorter:
  assumes "array_split key = Some (p, r)"
  shows "length p < length key" and "length r < length key"
proof -
  from assms obtain pos where pos: "find_sub ''[]'' key = Some pos" and p: "p = take pos key"
    and r: "r = (if starts_with (drop (pos + 2) key) ''.'' then tl (drop (pos + 2) key) else drop (pos + 2) key)"
    by (auto simp: array_split_def Let_def split: option.splits)
  from find_sub_less_length [OF pos] have len: "pos + 2 \<le> length key" by simp
  then show "length p < length key" by (simp add: p)
  show "length r < length key" using len by (auto simp: r)
qed

function (sequential) get_nested :: "pyval \<Rightarrow> string \<Rightarrow> pyval"
and get_nested_array :: "pyval \<Rightarrow> string \<Rightarrow> pyval" where
  "get_nested data key =
     (if contains_sub key ''[]'' then get_nested_array data key
      else get_path (py_split ''.'' key) data)"
| "get_nested_array data key =
     (case array_split key of
        None \<Rightarrow> PNone
      | Some (array_path, rest) \<Rightarrow>
          (case (if array_path \<noteq> [] then get_nested data array_path else data) of
             PList xs \<Rightarrow> if rest = [] then PList xs else PList (map (\<lambda>item. get_nested item rest) xs)
           | _ \<Rightarrow> PNone))"
  by pat_completeness auto
termination
  by (relation "measure (\<lambda>x. case x of Inl (d, k) \<Rightarrow> 2 * length k + 1 | Inr (d, k) \<Rightarrow> 2 * length k)")
     (auto dest: array_split_shorter)

declare get_nested.simps [simp del] get_nested_array.simps [simp del]

section \<open>Writing\<close>

text \<open>What Python raises for \<^verbatim>\<open>part in current\<close>, \<^verbatim>\<open>current[part]\<close> and
  \<^verbatim>\<open>current[part] = v\<close> when \<^verbatim>\<open>current\<close> is not a dictionary.\<close>

definition subscript_error :: "string \<Rightarrow> pyval \<Rightarrow> exn" where
  "subscript_error part current =
     (case current of
        PList _ \<Rightarrow> TypeError ''list indices must be integers or slices, not str''
      | PStr s \<Rightarrow> (if contains_sub s part
                  then TypeError (''string indices must be integers, not '' @ str_repr ''str'')
                  else TypeError (str_repr ''str'' @ '' object does not support item assignment''))
      | _ \<Rightarrow> not_iterable_error current)"

definition assign_error :: "pyval \<Rightarrow> exn" where
  "assign_error current =
     (case current of
        PList _ \<Rightarrow> TypeError ''list indices must be integers or slices, not str''
      | _ \<Rightarrow> TypeError (str_repr (type_name current) @ '' object does not support item assignment''))"

text \<open>The loop \<^verbatim>\<open>for part in parts[:-1]\<close>: descend, creating missing dictionaries, and apply
  the final update at the bottom.\<close>

fun nav_update :: "string list \<Rightarrow> (pyval \<Rightarrow> pyval py) \<Rightarrow> pyval \<Rightarrow> pyval py" where
  "nav_update [] f current = f current"
| "nav_update (part # parts) f current =
     (case current of
        PDict d \<Rightarrow> andThen (nav_update parts f (dget d part (PDict []))) (\<lambda>v. Inr (PDict (dset d part v)))
      | _ \<Rightarrow> Inl (subscript_error part current))"

definition combine_existing :: "pyrt \<Rightarrow> pyval \<Rightarrow> pyval \<Rightarrow> pyval" where
  "combine_existing rt existing value =
     (case existing of
        PList xs \<Rightarrow> (case value of PList ys \<Rightarrow> PList (xs @ ys) | _ \<Rightarrow> PList (xs @ [value]))
      | _ \<Rightarrow> PStr (py_str rt value @ '' '' @ py_str rt existing))"

definition assign_final :: "pyrt \<Rightarrow> bool \<Rightarrow> string \<Rightarrow> pyval \<Rightarrow> pyval \<Rightarrow> pyval py" where
  "assign_final rt conc final_key value current =
     (case current of
        PDict d \<Rightarrow>
          (case map_of d final_key of
             Some existing \<Rightarrow>
               Inr (PDict (dset d final_key (if conc then combine_existing rt existing value else value)))
           | None \<Rightarrow> Inr (PDict (dset d final_key value)))
      | _ \<Rightarrow> Inl (if conc then subscript_error final_key current else assign_error current))"

text \<open>The array part: fetch or create the list, pad it with empty dictionaries, then write
  element by element with \<open>elem\<close>.\<close>

definition assign_array :: "(pyval \<Rightarrow> pyval \<Rightarrow> pyval py) \<Rightarrow> string \<Rightarrow> pyval \<Rightarrow> pyval \<Rightarrow> pyval py" where
  "assign_array elem arr_key value current =
     (if arr_key = [] then Inr current
      else (case current of
        PDict d \<Rightarrow>
          (let arr = (case map_of d arr_key of Some (PList xs) \<Rightarrow> xs | _ \<Rightarrow> []);
               vals = (case value of PList ys \<Rightarrow> ys | _ \<Rightarrow> [value]);
               n = length vals;
               padded = arr @ replicate (n - length arr) (PDict [])
           in andThen (mapM (\<lambda>(a, v). elem a v) (zip padded vals))
                (\<lambda>ws. Inr (PDict (dset d arr_key (PList (ws @ drop n padded))))))
      | _ \<Rightarrow> Inl (subscript_error arr_key current)))"

function (sequential) set_nested :: "pyrt \<Rightarrow> bool \<Rightarrow> string \<Rightarrow> pyval \<Rightarrow> pyval \<Rightarrow> pyval py"
and set_nested_array :: "pyrt \<Rightarrow> string \<Rightarrow> pyval \<Rightarrow> pyval \<Rightarrow> pyval py" where
  "set_nested rt conc key value data =
     (if contains_sub key ''[]'' then set_nested_array rt key value data
      else let parts = py_split ''.'' key
           in nav_update (butlast parts) (assign_final rt conc (last parts) value) data)"
| "set_nested_array rt key value data =
     (case array_split key of
        None \<Rightarrow> Inr data
      | Some (array_path, rest) \<Rightarrow>
          (let parts = (if array_path \<noteq> [] then py_split ''.'' array_path else []);
               arr_key = (if parts = [] then [] else last parts)
           in nav_update (butlast parts)
                (assign_array (\<lambda>a v. if rest = [] then Inr v
                     else set_nested rt False rest v (if is_dict a then a else PDict []))
                   arr_key value) data))"
  by pat_completeness auto
termination
  by (relation "measure (\<lambda>x. case x of Inl (rt, c, k, v, d) \<Rightarrow> 2 * length k + 1 | Inr (rt, k, v, d) \<Rightarrow> 2 * length k)")
     (auto dest: array_split_shorter)

declare set_nested.simps [simp del] set_nested_array.simps [simp del]

section \<open>The copies in the mapping resolver\<close>

function (sequential) mr_get_nested :: "pyval \<Rightarrow> string \<Rightarrow> pyval"
and mr_get_nested_array :: "pyval \<Rightarrow> string \<Rightarrow> pyval" where
  "mr_get_nested data key =
     (if contains_sub key ''[]'' then mr_get_nested_array data key
      else get_path (py_split ''.'' key) data)"
| "mr_get_nested_array data key =
     (case array_split key of
        None \<Rightarrow> PNone
      | Some (array_path, rest) \<Rightarrow>
          (case (if array_path \<noteq> [] then mr_get_nested data array_path else data) of
             PList xs \<Rightarrow>
               if rest = [] then PList xs
               else PList (map (\<lambda>item. if is_dict item then mr_get_nested item rest else PNone) xs)
           | _ \<Rightarrow> PNone))"
  by pat_completeness auto
termination
  by (relation "measure (\<lambda>x. case x of Inl (d, k) \<Rightarrow> 2 * length k + 1 | Inr (d, k) \<Rightarrow> 2 * length k)")
     (auto dest: array_split_shorter)

declare mr_get_nested.simps [simp del] mr_get_nested_array.simps [simp del]

definition mr_assign_final :: "string \<Rightarrow> pyval \<Rightarrow> pyval \<Rightarrow> pyval py" where
  "mr_assign_final final_key value current =
     (case current of
        PDict d \<Rightarrow> Inr (PDict (dset d final_key value))
      | _ \<Rightarrow> Inl (assign_error current))"

function (sequential) mr_set_nested :: "string \<Rightarrow> pyval \<Rightarrow> pyval \<Rightarrow> pyval py"
and mr_set_nested_array :: "string \<Rightarrow> pyval \<Rightarrow> pyval \<Rightarrow> pyval py" where
  "mr_set_nested key value data =
     (if contains_sub key ''[]'' then mr_set_nested_array key value data
      else let parts = py_split ''.'' key
           in nav_update (butlast parts) (mr_assign_final (last parts) value) data)"
| "mr_set_nested_array key value data =
     (case array_split key of
        None \<Rightarrow> Inr data
      | Some (array_path, rest) \<Rightarrow>
          (let parts = (if array_path \<noteq> [] then py_split ''.'' array_path else []);
               arr_key = (if parts = [] then [] else last parts)
           in nav_update (butlast parts)
                (assign_array (\<lambda>a v. if rest = [] then Inr v
                     else mr_set_nested rest v (if is_dict a then a else PDict []))
                   arr_key value) data))"
  by pat_completeness auto
termination
  by (relation "measure (\<lambda>x. case x of Inl (k, v, d) \<Rightarrow> 2 * length k + 1 | Inr (k, v, d) \<Rightarrow> 2 * length k)")
     (auto dest: array_split_shorter)

declare mr_set_nested.simps [simp del] mr_set_nested_array.simps [simp del]

section \<open>The reduced readers\<close>

text \<open>\<^verbatim>\<open>FlowEngine._get_nested\<close> has no array syntax; \<^verbatim>\<open>sync_state._get_nested\<close> follows
  dictionaries only.\<close>

definition flow_get_nested :: "pyval \<Rightarrow> string \<Rightarrow> pyval" where
  "flow_get_nested data key = get_path (py_split ''.'' key) data"

fun dict_path :: "string list \<Rightarrow> pyval \<Rightarrow> pyval" where
  "dict_path [] current = current"
| "dict_path (part # parts) current =
     (case current of PDict d \<Rightarrow> dict_path parts (dget d part PNone) | _ \<Rightarrow> PNone)"

definition sync_get_nested :: "pyval \<Rightarrow> string \<Rightarrow> pyval" where
  "sync_get_nested data path = dict_path (py_split ''.'' path) data"


section \<open>What a write leaves behind\<close>

text \<open>A path without array syntax, and two paths that part ways at some component.\<close>

definition plain_key :: "string \<Rightarrow> bool" where
  "plain_key key \<longleftrightarrow> \<not> contains_sub key ''[]''"

fun forks :: "string list \<Rightarrow> string list \<Rightarrow> bool" where
  "forks (p # ps) (q # qs) = (p \<noteq> q \<or> forks ps qs)"
| "forks _ _ = False"

definition indep_key :: "string \<Rightarrow> string \<Rightarrow> bool" where
  "indep_key k k' = forks (py_split ''.'' k) (py_split ''.'' k')"

lemma plain_key_None: "plain_key key \<longleftrightarrow> find_sub ''[]'' key = None"
  by (simp add: plain_key_def contains_sub_def)

lemma get_nested_plain: "plain_key key \<Longrightarrow> get_nested v key = get_path (py_split ''.'' key) v"
  by (simp add: get_nested.simps plain_key_def)

lemma set_nested_plain:
  "plain_key key \<Longrightarrow> set_nested rt c key value data =
     nav_update (butlast (py_split ''.'' key)) (assign_final rt c (last (py_split ''.'' key)) value) data"
  by (simp add: set_nested.simps plain_key_def Let_def)

lemma get_path_PNone [simp]: "get_path ps PNone = PNone"
  by (cases ps) simp_all

lemma nav_update_read:
  assumes "nav_update ps f current = Inr new"
    and "\<And>c n. f c = Inr n \<Longrightarrow> get_path qs n = v"
  shows "get_path (ps @ qs) new = v"
  using assms(1)
proof (induction ps arbitrary: current new)
  case Nil
  then show ?case using assms(2) by simp
next
  case (Cons p ps)
  then obtain d v' where "nav_update ps f (dget d p (PDict [])) = Inr v'" and "new = PDict (dset d p v')"
    by (auto simp: andThen_eq_Inr split: pyval.splits)
  with Cons.IH show ?case by simp
qed

lemma assign_final_read: "assign_final rt False k v c = Inr n \<Longrightarrow> get_path [k] n = v"
  by (auto simp: assign_final_def split: pyval.splits option.splits)

lemma assign_final_dict:
  "assign_final rt c k v cur = Inr n \<Longrightarrow> \<exists>d w. cur = PDict d \<and> n = PDict (dset d k w)"
  by (auto simp: assign_final_def split: pyval.splits option.splits)

lemma get_set_same:
  assumes "plain_key key" and "set_nested rt False key v d = Inr d'"
  shows "get_nested d' key = v"
proof -
  let ?parts = "py_split ''.'' key"
  from assms have "nav_update (butlast ?parts) (assign_final rt False (last ?parts) v) d = Inr d'"
    by (simp add: set_nested_plain)
  then have "get_path (butlast ?parts @ [last ?parts]) d' = v"
    by (rule nav_update_read) (rule assign_final_read)
  with assms(1) show ?thesis by (simp add: get_nested_plain)
qed

lemma nav_update_frame:
  assumes "nav_update ps f cur = Inr new" and "forks (ps @ [k]) qs"
    and "\<And>c n. f c = Inr n \<Longrightarrow> \<exists>d w. c = PDict d \<and> n = PDict (dset d k w)"
  shows "get_path qs new = get_path qs cur"
  using assms(1,2)
proof (induction ps arbitrary: cur new qs)
  case Nil
  then obtain d w q rest where "cur = PDict d" "new = PDict (dset d k w)" "qs = q # rest" "k \<noteq> q"
    using assms(3) by (cases qs) fastforce+
  then show ?case by simp
next
  case (Cons p ps)
  from Cons.prems(1) obtain d v' where d: "cur = PDict d"
    and v': "nav_update ps f (dget d p (PDict [])) = Inr v'" and new: "new = PDict (dset d p v')"
    by (auto simp: andThen_eq_Inr split: pyval.splits)
  from Cons.prems(2) obtain q rest where qs: "qs = q # rest" by (cases qs) auto
  show ?case
  proof (cases "q = p")
    case True
    with Cons.prems(2) qs have fork: "forks (ps @ [k]) rest" by simp
    with v' have eq: "get_path rest v' = get_path rest (dget d p (PDict []))" by (rule Cons.IH)
    from fork obtain r rs where "rest = r # rs" by (cases rest; cases ps) auto
    then have "get_path rest (dget d p (PDict [])) = get_path rest (dget d p PNone)"
      by (cases "map_of d p") (simp_all add: dget_def)
    with eq True show ?thesis by (simp add: d new qs)
  next
    case False
    then show ?thesis by (simp add: d new qs)
  qed
qed

lemma get_set_other:
  assumes "plain_key key" and "plain_key key'" and "indep_key key key'"
    and "set_nested rt c key v d = Inr d'"
  shows "get_nested d' key' = get_nested d key'"
proof -
  let ?parts = "py_split ''.'' key"
  from assms have upd: "nav_update (butlast ?parts) (assign_final rt c (last ?parts) v) d = Inr d'"
    by (simp add: set_nested_plain)
  have "forks (butlast ?parts @ [last ?parts]) (py_split ''.'' key')"
    using assms(3) by (simp add: indep_key_def)
  with upd have "get_path (py_split ''.'' key') d' = get_path (py_split ''.'' key') d"
    by (rule nav_update_frame) (rule assign_final_dict)
  with assms(2) show ?thesis by (simp add: get_nested_plain)
qed

section \<open>The interface of a path-addressed document\<close>

text \<open>The mapping code writes a list of targets one after another and later reads them.
  It relies on two laws: a written path reads back, and independent paths are untouched.\<close>

locale path_store =
  fixes get :: "'d \<Rightarrow> 'k \<Rightarrow> 'v"
    and set :: "'k \<Rightarrow> 'v \<Rightarrow> 'd \<Rightarrow> 'e + 'd"
    and plain :: "'k \<Rightarrow> bool"
    and indep :: "'k \<Rightarrow> 'k \<Rightarrow> bool"
  assumes read_written: "plain k \<Longrightarrow> set k v d = Inr d' \<Longrightarrow> get d' k = v"
    and read_other: "plain k \<Longrightarrow> plain k' \<Longrightarrow> indep k k' \<Longrightarrow> set k v d = Inr d' \<Longrightarrow> get d' k' = get d k'"
begin

definition write_all :: "('k \<times> 'v) list \<Rightarrow> 'd \<Rightarrow> 'e + 'd" where
  "write_all kvs d = foldM (\<lambda>d (k, v). set k v d) d kvs"

lemma write_all_untouched:
  assumes "write_all kvs d = Inr d'" and "plain k"
    and "\<forall>(k', v) \<in> List.set kvs. plain k' \<and> indep k' k"
  shows "get d' k = get d k"
  using assms unfolding write_all_def
proof (induction kvs arbitrary: d)
  case (Cons kv kvs)
  obtain k' v where kv: "kv = (k', v)" by (cases kv)
  with Cons.prems obtain d1 where "set k' v d = Inr d1" and "foldM (\<lambda>d (k, v). set k v d) d1 kvs = Inr d'"
    by (auto simp: andThen_eq_Inr)
  with Cons kv show ?case using read_other [of k' k v d d1] by simp
qed simp

lemma write_all_reads_back:
  assumes "write_all (before @ (k, v) # after) d = Inr d'" and "plain k"
    and "\<forall>(k', v') \<in> List.set after. plain k' \<and> indep k' k"
  shows "get d' k = v"
proof -
  from assms(1) obtain d1 d2 where "set k v d1 = Inr d2" and after: "write_all after d2 = Inr d'"
    by (auto simp: write_all_def foldM_append andThen_eq_Inr)
  then have "get d2 k = v" using assms(2) by (intro read_written)
  with write_all_untouched [OF after assms(2,3)] show ?thesis by simp
qed

end

interpretation engine_paths: path_store get_nested "set_nested rt False" plain_key indep_key for rt
  by unfold_locales (simp_all add: get_set_same get_set_other)

section \<open>Arrays\<close>

lemma starts_with_take: "starts_with (take n s) p \<Longrightarrow> starts_with s p"
  by (metis append_take_drop_id append.assoc starts_with_iff)

lemma find_sub_leftmost: "find_sub p s = Some i \<Longrightarrow> p \<noteq> [] \<Longrightarrow> find_sub p (take i s) = None"
proof (induction p s arbitrary: i rule: find_sub.induct)
  case (2 p c cs)
  show ?case
  proof (cases "starts_with (c # cs) p")
    case True
    with 2(2,3) show ?thesis by simp
  next
    case False
    with 2(2) obtain j where j: "find_sub p cs = Some j" "i = Suc j" by auto
    have "\<not> starts_with (c # take j cs) p"
      using False starts_with_take [of "Suc j" "c # cs" p] by auto
    with 2(1) [OF False j(1) 2(3)] j show ?thesis by simp
  qed
qed (auto split: if_splits)

lemma array_split_prefix_plain: "array_split key = Some (p, r) \<Longrightarrow> plain_key p"
  by (auto simp: array_split_def plain_key_None Let_def find_sub_leftmost split: option.splits)

lemma array_split_not_plain: "array_split key = Some pr \<Longrightarrow> contains_sub key ''[]''"
  by (auto simp: array_split_def contains_sub_def split: option.splits)

text \<open>The values read at an array path: the elements of the list the path addresses, or
  none when it does not address a list.\<close>

definition read_list :: "pyval \<Rightarrow> string \<Rightarrow> pyval list" where
  "read_list v key = (case get_nested v key of PList xs \<Rightarrow> xs | _ \<Rightarrow> [])"

lemma get_nested_array_eq:
  assumes "array_split key = Some (p, r)" and "p \<noteq> []"
  shows "get_nested v key =
    (case get_path (py_split ''.'' p) v of
       PList xs \<Rightarrow> PList (map (\<lambda>x. if r = [] then x else get_nested x r) xs)
     | _ \<Rightarrow> PNone)"
proof -
  have "get_nested v key = get_nested_array v key"
    using array_split_not_plain [OF assms(1)] by (simp add: get_nested.simps [of v key])
  moreover have "get_nested v p = get_path (py_split ''.'' p) v"
    using array_split_prefix_plain [OF assms(1)] by (rule get_nested_plain)
  ultimately show ?thesis
    using assms by (auto simp: get_nested_array.simps split: pyval.splits)
qed

lemma mapM_zip_reads:
  assumes "mapM (\<lambda>(a, v). elem a v) (zip as vs) = Inr ws" and "length vs \<le> length as"
    and "\<And>a v w. elem a v = Inr w \<Longrightarrow> g w = v"
  shows "map g ws = vs"
  using assms(1,2)
proof (induction vs arbitrary: as ws)
  case (Cons v vs)
  then obtain a as' where "as = a # as'" by (cases as) auto
  with Cons obtain w ws' where "elem a v = Inr w" "mapM (\<lambda>(a, v). elem a v) (zip as' vs) = Inr ws'"
    "ws = w # ws'" by (auto simp: andThen_eq_Inr)
  with Cons \<open>as = a # as'\<close> assms(3) show ?case by simp
qed simp

lemma assign_array_read:
  assumes "assign_array elem k (PList vs) cur = Inr n" and "k \<noteq> []"
    and "\<And>a v w. elem a v = Inr w \<Longrightarrow> g w = v"
  shows "\<exists>d xs. cur = PDict d \<and>
    xs = (case map_of d k of Some (PList ys) \<Rightarrow> ys | _ \<Rightarrow> []) \<and>
    (\<exists>ws. n = PDict (dset d k (PList (ws @ drop (length vs) xs))) \<and> map g ws = vs)"
proof -
  from assms(1,2) obtain d where cur: "cur = PDict d"
    by (auto simp: assign_array_def split: pyval.splits)
  let ?xs = "case map_of d k of Some (PList ys) \<Rightarrow> ys | _ \<Rightarrow> []"
  let ?pad = "?xs @ replicate (length vs - length ?xs) (PDict [])"
  from assms(1,2) cur obtain ws where ws: "mapM (\<lambda>(a, v). elem a v) (zip ?pad vs) = Inr ws"
    and n: "n = PDict (dset d k (PList (ws @ drop (length vs) ?pad)))"
    by (auto simp: assign_array_def Let_def andThen_eq_Inr)
  have "map g ws = vs" by (rule mapM_zip_reads [OF ws _ assms(3)]) simp_all
  moreover have "drop (length vs) ?pad = drop (length vs) ?xs" by simp
  ultimately show ?thesis using cur n by auto
qed


lemma nav_update_local:
  assumes "nav_update ps f cur = Inr new"
  shows "\<exists>c n. f c = Inr n \<and> (\<forall>qs. get_path (ps @ qs) new = get_path qs n) \<and>
    (\<forall>q qs. get_path (ps @ q # qs) cur = get_path (q # qs) c)"
  using assms
proof (induction ps arbitrary: cur new)
  case (Cons p ps)
  then obtain d v' where d: "cur = PDict d" and new: "new = PDict (dset d p v')"
    and v': "nav_update ps f (dget d p (PDict [])) = Inr v'"
    by (auto simp: andThen_eq_Inr split: pyval.splits)
  from Cons.IH [OF v'] obtain c n where f: "f c = Inr n"
    and reads: "\<And>qs. get_path (ps @ qs) v' = get_path qs n"
    and old: "\<And>q qs. get_path (ps @ q # qs) (dget d p (PDict [])) = get_path (q # qs) c" by blast
  have "get_path (ps @ q # qs) (dget d p PNone) = get_path (ps @ q # qs) (dget d p (PDict []))" for q qs
    by (cases ps) (auto simp: dget_def split: option.splits)
  then have "get_path ((p # ps) @ q # qs) cur = get_path (q # qs) c" for q qs
    using old by (simp add: d del: get_path.simps(2)) (simp only: get_path.simps pyval.case)
  moreover have "get_path ((p # ps) @ qs) new = get_path qs n" for qs
    using reads by (simp add: new)
  ultimately show ?case using f by blast
qed auto

lemma set_nested_array_eq:
  assumes "array_split key = Some (p, r)" and "p \<noteq> []"
  shows "set_nested rt c key value data =
    nav_update (butlast (py_split ''.'' p))
      (assign_array (\<lambda>a v. if r = [] then Inr v else set_nested rt False r v (if is_dict a then a else PDict []))
         (last (py_split ''.'' p)) value) data"
  using assms array_split_not_plain [OF assms(1)]
  by (simp add: set_nested.simps [of rt c key] set_nested_array.simps Let_def)

lemma array_write_reads_back:
  assumes split: "array_split key = Some (p, r)" and "p \<noteq> []" and last: "last (py_split ''.'' p) \<noteq> []"
    and r: "plain_key r" and set: "set_nested rt c key (PList vs) d = Inr d'"
  shows "get_nested d' key = PList (vs @ drop (length vs) (read_list d key))"
proof -
  let ?parts = "py_split ''.'' p"
  let ?g = "\<lambda>x. if r = [] then x else get_nested x r"
  let ?elem = "\<lambda>a v. if r = [] then Inr v else set_nested rt False r v (if is_dict a then a else PDict [])"
  have elem: "\<And>a v w. ?elem a v = Inr w \<Longrightarrow> ?g w = v"
    using get_set_same [OF r] by (auto split: if_splits)
  from set have "nav_update (butlast ?parts) (assign_array ?elem (last ?parts) (PList vs)) d = Inr d'"
    by (simp only: set_nested_array_eq [OF split \<open>p \<noteq> []\<close>])
  from nav_update_local [OF this] obtain c n
    where f: "assign_array ?elem (last ?parts) (PList vs) c = Inr n"
    and new: "get_path (butlast ?parts @ [last ?parts]) d' = get_path [last ?parts] n"
    and old: "get_path (butlast ?parts @ [last ?parts]) d = get_path [last ?parts] c" by blast
  obtain e xs ws where c: "c = PDict e"
    and xs: "xs = (case map_of e (last ?parts) of Some (PList ys) \<Rightarrow> ys | _ \<Rightarrow> [])"
    and n: "n = PDict (dset e (last ?parts) (PList (ws @ drop (length vs) xs)))" and ws: "map ?g ws = vs"
    using assign_array_read [where g = ?g and elem = ?elem, OF f last] elem by blast
  have "read_list d key = map ?g xs"
    using old c xs
    by (auto simp: read_list_def get_nested_array_eq [OF split \<open>p \<noteq> []\<close>] dget_def split: option.splits pyval.splits)
  moreover have "get_nested d' key = PList (map ?g ws @ map ?g (drop (length vs) xs))"
    using new n by (simp add: get_nested_array_eq [OF split \<open>p \<noteq> []\<close>])
  ultimately show ?thesis by (simp only: ws drop_map)
qed

section \<open>Writes that cannot fail, and the copies\<close>

lemma nav_update_empty:
  "(\<exists>d. f (PDict []) = Inr (PDict d)) \<Longrightarrow> \<exists>d. nav_update ps f (PDict []) = Inr (PDict d)"
  by (induction ps) (auto simp: dget_def)

lemma mapM_all_Inr: "(\<And>x. x \<in> set xs \<Longrightarrow> \<exists>y. f x = Inr y) \<Longrightarrow> \<exists>ys. mapM f xs = Inr ys"
  by (induction xs) fastforce+

lemma set_nested_empty: "\<exists>d. set_nested rt c key val (PDict []) = Inr (PDict d)"
proof (induction "length key" arbitrary: key c val rule: less_induct)
  case less
  show ?case
  proof (cases "array_split key")
    case None
    then have "plain_key key" by (auto simp: array_split_def plain_key_None Let_def split: option.splits)
    then show ?thesis by (auto simp: set_nested_plain assign_final_def intro!: nav_update_empty)
  next
    case (Some pr)
    obtain p r where pr: "pr = (p, r)" by (cases pr)
    let ?elem = "\<lambda>a v. if r = [] then Inr v else set_nested rt False r v (if is_dict a then a else PDict [])"
    have elem: "\<exists>w. ?elem (PDict []) v = Inr w" for v
      using less [of r False v] array_split_shorter [of key p r] Some pr by auto
    have "\<exists>ws. mapM (\<lambda>(a, v). ?elem a v) (zip (replicate n (PDict [])) vs) = Inr ws" for n vs
      using elem by (intro mapM_all_Inr) (auto dest!: set_zip_leftD)
    then have arr: "\<exists>d. assign_array ?elem k val (PDict []) = Inr (PDict d)" for k
      by (simp add: assign_array_def Let_def andThen_def)
         (metis (no_types, lifting) old.sum.simps(6))
    show ?thesis
    proof (cases "p = []")
      case True
      with Some pr array_split_not_plain [OF Some] show ?thesis
        by (simp add: set_nested.simps [of rt c key] set_nested_array.simps assign_array_def)
    next
      case False
      with Some pr arr show ?thesis by (simp add: set_nested_array_eq nav_update_empty)
    qed
  qed
qed

lemma nav_update_is_dict:
  "nav_update ps f (PDict d) = Inr v \<Longrightarrow> (\<And>e w. f (PDict e) = Inr w \<Longrightarrow> is_dict w) \<Longrightarrow> is_dict v"
  by (cases ps) (auto simp: andThen_eq_Inr)

lemma set_nested_is_dict: "set_nested rt c key value (PDict d) = Inr v \<Longrightarrow> is_dict v"
  by (auto simp: set_nested.simps [of rt c key] set_nested_array.simps [of rt key] Let_def
        assign_final_def assign_array_def andThen_eq_Inr
      split: if_splits option.splits prod.splits elim!: nav_update_is_dict)

lemma mr_set_nested_eq: "mr_set_nested key val data = set_nested rt False key val data"
proof (induction "length key" arbitrary: key val data rule: less_induct)
  case less
  have fin: "mr_assign_final = assign_final rt False"
    by (intro ext) (auto simp: mr_assign_final_def assign_final_def split: pyval.splits option.splits)
  show ?case
  proof (cases "array_split key")
    case None
    then have "plain_key key" by (auto simp: array_split_def plain_key_None Let_def split: option.splits)
    then show ?thesis by (simp add: mr_set_nested.simps [of key] set_nested_plain fin plain_key_def Let_def)
  next
    case (Some pr)
    obtain p r where pr: "pr = (p, r)" by (cases pr)
    have "mr_set_nested r v a = set_nested rt False r v a" for v a
      using less array_split_shorter(2) [of key p r] Some pr by simp
    with Some pr show ?thesis
      by (simp add: mr_set_nested.simps [of key] mr_set_nested_array.simps [of key]
          set_nested.simps [of rt False key] set_nested_array.simps [of rt key]
          array_split_not_plain [OF Some] Let_def cong: if_cong)
  qed
qed

interpretation resolver_paths: path_store get_nested mr_set_nested plain_key indep_key
  by unfold_locales (simp_all add: mr_set_nested_eq [of _ _ _ undefined] get_set_same get_set_other)

text \<open>Lists directly inside lists are what the two readers treat differently.\<close>

fun flat_lists :: "pyval \<Rightarrow> bool" where
  "flat_lists (PList xs) = list_all (\<lambda>x. \<not> is_list x \<and> flat_lists x) xs"
| "flat_lists (PDict d) = list_all (\<lambda>(k, v). flat_lists v) d"
| "flat_lists _ = True"

lemma flat_lists_dget: "flat_lists (PDict d) \<Longrightarrow> flat_lists (dget d k PNone)"
  by (auto simp: dget_def list_all_iff split: option.splits dest: map_of_SomeD)

lemma py_index_mem: "py_index xs i = Some v \<Longrightarrow> v \<in> set xs"
  by (auto simp: py_index_def Let_def split: if_splits)

lemma flat_lists_get_path: "flat_lists v \<Longrightarrow> flat_lists (get_path ps v)"
proof (induction ps arbitrary: v)
  case (Cons part parts)
  show ?case
  proof (cases v)
    case (PList xs)
    have "flat_lists (get_path parts x)" if "py_index xs i = Some x" for i x
      using Cons py_index_mem [OF that] PList by (simp add: list_all_iff)
    with PList show ?thesis by (auto split: option.splits)
  next
    case (PDict d)
    with Cons flat_lists_dget [of d part] show ?thesis by simp
  qed simp_all
qed simp

lemma get_nested_atom: "\<not> is_dict v \<Longrightarrow> \<not> is_list v \<Longrightarrow> key \<noteq> [] \<Longrightarrow> get_nested v key = PNone"
proof (cases "array_split key")
  case None
  assume "\<not> is_dict v" "\<not> is_list v"
  from None have "plain_key key" by (auto simp: array_split_def plain_key_None Let_def split: option.splits)
  moreover obtain q qs where "py_split ''.'' key = q # qs" by (cases "py_split ''.'' key") auto
  ultimately show ?thesis
    using \<open>\<not> is_dict v\<close> \<open>\<not> is_list v\<close> by (cases v) (simp_all add: get_nested_plain)
next
  case (Some pr)
  assume a: "\<not> is_dict v" "\<not> is_list v"
  obtain p r where pr: "pr = (p, r)" by (cases pr)
  obtain q qs where q: "py_split ''.'' p = q # qs" by (cases "py_split ''.'' p") auto
  show ?thesis
  proof (cases "p = []")
    case True
    with Some pr a array_split_not_plain [OF Some] show ?thesis
      by (cases v) (simp_all add: get_nested.simps [where key = key] get_nested_array.simps [where key = key])
  next
    case False
    have "get_path (q # qs) v = PNone" using a by (cases v) simp_all
    with False Some pr q show ?thesis by (simp add: get_nested_array_eq)
  qed
qed

lemma mr_get_nested_eq: "flat_lists data \<Longrightarrow> mr_get_nested data key = get_nested data key"
proof (induction "length key" arbitrary: key data rule: less_induct)
  case less
  show ?case
  proof (cases "array_split key")
    case None
    then have "plain_key key" by (auto simp: array_split_def plain_key_None Let_def split: option.splits)
    then show ?thesis by (simp add: mr_get_nested.simps [of data key] get_nested_plain plain_key_def)
  next
    case (Some pr)
    obtain p r where pr: "pr = (p, r)" by (cases pr)
    with Some have sp: "array_split key = Some (p, r)" by simp
    let ?arr = "if p \<noteq> [] then get_path (py_split ''.'' p) data else data"
    have plain: "get_nested data p = get_path (py_split ''.'' p) data"
        "mr_get_nested data p = get_path (py_split ''.'' p) data"
      using array_split_prefix_plain [OF sp]
      by (simp_all add: get_nested_plain mr_get_nested.simps [of data p] plain_key_def)
    have items: "(if is_dict x then mr_get_nested x r else PNone) = get_nested x r"
      if "r \<noteq> []" "?arr = PList xs" "x \<in> set xs" for x xs
    proof -
      have "flat_lists ?arr" using less.prems flat_lists_get_path by simp
      with that have "flat_lists x" "\<not> is_list x" by (auto simp: list_all_iff)
      with that(1) show ?thesis
        using less.hyps [of r x] array_split_shorter(2) [OF sp] by (simp add: get_nested_atom)
    qed
    show ?thesis
      using array_split_not_plain [OF sp] sp items
      by (auto simp: mr_get_nested.simps [of data key] mr_get_nested_array.simps [of data key]
          get_nested.simps [of data key] get_nested_array.simps [of data key] plain
          split: pyval.splits)
  qed
qed

lemma flow_get_nested_eq: "plain_key key \<Longrightarrow> flow_get_nested data key = get_nested data key"
  by (simp add: flow_get_nested_def get_nested_plain)

end
