(* ===== verification/Expr.thy ===== *)
theory Expr
  imports NestedPath
begin

text \<open>
  The expression language of workflow nodes (\<^verbatim>\<open>core/workflow_engine.py\<close>): resolving
  a path against the context, \<^verbatim>\<open>{{...}}\<close> templates, type coercion, and the
  conditions of condition, filter and trigger nodes.  \<open>wctx\<close> is the part of
  \<^verbatim>\<open>WorkflowContext\<close> that expressions read; the engine state extends it.
\<close>

section \<open>The readable part of the context\<close>

record wctx =
  cx_data :: pydict
  cx_trigger :: pydict
  cx_vars :: pydict
  cx_outs :: pydict

section \<open>Paths\<close>

definition resolve_str :: "string \<Rightarrow> 'a wctx_scheme \<Rightarrow> pyval" where
  "resolve_str path ctx =
     (if path = [] then PNone
      else if starts_with path ''vars.'' then get_nested (PDict (cx_vars ctx)) (drop 5 path)
      else if starts_with path ''nodes.'' then
        (let parts = py_split1 ''.'' (drop 6 path);
             node_output = dget (cx_outs ctx) (hd parts) PNone
         in if 1 < length parts \<and> is_dict node_output
            then get_nested node_output (parts ! 1) else node_output)
      else if starts_with path ''trigger.'' then get_nested (PDict (cx_trigger ctx)) (drop 8 path)
      else if starts_with path ''item.'' then
        (let batch_item = dget (cx_vars ctx) ''batch_item'' PNone
         in if is_dict batch_item then get_nested batch_item (drop 5 path) else PNone)
      else if starts_with path ''data.'' then get_nested (PDict (cx_data ctx)) (drop 5 path)
      else get_nested (PDict (cx_data ctx)) path)"

text \<open>A configuration field used as a path may hold any value: falsy ones resolve to
  \<^verbatim>\<open>None\<close>, other non-strings have no \<^verbatim>\<open>startswith\<close>.\<close>

definition resolve_value :: "pyval \<Rightarrow> 'a wctx_scheme \<Rightarrow> pyval py" where
  "resolve_value path ctx =
     (if \<not> truthy path then Inr PNone
      else andThen (as_str ''startswith'' path) (\<lambda>p. Inr (resolve_str p ctx)))"

lemma resolve_value_PStr [simp]: "resolve_value (PStr p) ctx = Inr (resolve_str p ctx)"
  by (simp add: resolve_value_def resolve_str_def)

section \<open>Templates\<close>

text \<open>The regular expression \<^verbatim>\<open>\{\{(.+?)\}\}\<close>: after two braces, the shortest non-empty
  text without a newline that two closing braces follow.\<close>

fun find_close :: "string \<Rightarrow> string \<Rightarrow> (string \<times> string) option" where
  "find_close acc [] = None"
| "find_close acc (c # cs) =
     (if acc \<noteq> [] \<and> starts_with (c # cs) ''}}'' then Some (rev acc, drop 2 (c # cs))
      else if char_code c = 10 then None
      else find_close (c # acc) cs)"

lemma find_close_shorter: "find_close acc s = Some (p, rest) \<Longrightarrow> length rest < length s"
  by (induction acc s rule: find_close.induct) (auto split: if_splits)

function interpolate :: "(string \<Rightarrow> string) \<Rightarrow> string \<Rightarrow> string" where
  "interpolate f [] = []"
| "interpolate f (c # cs) =
     (if starts_with (c # cs) ''{{'' then
        (case find_close [] (drop 2 (c # cs)) of
           Some (p, rest) \<Rightarrow> f p @ interpolate f rest
         | None \<Rightarrow> c # interpolate f cs)
      else c # interpolate f cs)"
  by pat_completeness auto
termination
  by (relation "measure (\<lambda>(f, s). length s)") (auto dest!: find_close_shorter)

definition interpolate_string :: "pyrt \<Rightarrow> string \<Rightarrow> 'a wctx_scheme \<Rightarrow> string" where
  "interpolate_string rt template ctx =
     interpolate (\<lambda>p. let v = resolve_str (py_strip p) ctx in if v = PNone then [] else py_str rt v) template"

text \<open>\<^verbatim>\<open>re.sub\<close> on a template that is not a string raises.\<close>

definition interpolate_value :: "pyrt \<Rightarrow> pyval \<Rightarrow> 'a wctx_scheme \<Rightarrow> string py" where
  "interpolate_value rt template ctx =
     (case template of
        PStr s \<Rightarrow> Inr (interpolate_string rt s ctx)
      | _ \<Rightarrow> Inl (TypeError (''expected string or bytes-like object, got '' @ str_repr (type_name template))))"

definition is_placeholder :: "string \<Rightarrow> bool" where
  "is_placeholder s \<longleftrightarrow> starts_with s ''{{'' \<and> ends_with s ''}}''"

definition placeholder_path :: "string \<Rightarrow> string" where
  "placeholder_path s = py_strip (py_slice s 2 (Some (-2)))"

fun interpolate_dict :: "pyrt \<Rightarrow> 'a wctx_scheme \<Rightarrow> pyval \<Rightarrow> pyval" where
  "interpolate_dict rt ctx (PDict d) = PDict (map (\<lambda>(k, v). (k, interpolate_dict rt ctx v)) d)"
| "interpolate_dict rt ctx (PList xs) = PList (map (interpolate_dict rt ctx) xs)"
| "interpolate_dict rt ctx (PStr s) =
     (if is_placeholder s then resolve_str (placeholder_path s) ctx
      else if contains_sub s ''{{'' then PStr (interpolate_string rt s ctx)
      else PStr s)"
| "interpolate_dict rt ctx v = v"

definition evaluate_expression :: "pyrt \<Rightarrow> pyval \<Rightarrow> 'a wctx_scheme \<Rightarrow> pyval" where
  "evaluate_expression rt expr ctx =
     (case expr of PStr s \<Rightarrow> PStr (interpolate_string rt s ctx) | _ \<Rightarrow> expr)"

section \<open>Comparison with coercion\<close>

fun same_type :: "pyval \<Rightarrow> pyval \<Rightarrow> bool" where
  "same_type a b = (type_name a = type_name b)"

definition is_number :: "pyval \<Rightarrow> bool" where
  "is_number v \<longleftrightarrow> as_num v \<noteq> None"

text \<open>\<^verbatim>\<open>type(a)(s)\<close> for a number \<open>a\<close> and a string \<open>s\<close>; \<open>None\<close> when it raises.\<close>

definition convert_like :: "pyrt \<Rightarrow> pyval \<Rightarrow> string \<Rightarrow> pyval option" where
  "convert_like rt a s =
     (case a of
        PBool _ \<Rightarrow> Some (PBool (s \<noteq> []))
      | PInt _ \<Rightarrow> map_option PInt (parse_int s)
      | PFloat _ \<Rightarrow> map_option PFloat (parse_float rt s)
      | _ \<Rightarrow> None)"

definition coerce_types :: "pyrt \<Rightarrow> pyval \<Rightarrow> pyval \<Rightarrow> pyval \<times> pyval" where
  "coerce_types rt a b =
     (if same_type a b then (a, b)
      else if is_number a \<and> is_str b then
        (case convert_like rt a (py_str rt b) of Some b' \<Rightarrow> (a, b') | None \<Rightarrow> (PStr (py_str rt a), b))
      else if is_number b \<and> is_str a then
        (case convert_like rt b (py_str rt a) of Some a' \<Rightarrow> (a', b) | None \<Rightarrow> (a, PStr (py_str rt b)))
      else (PStr (py_str rt a), PStr (py_str rt b)))"

text \<open>\<^verbatim>\<open>OPERATOR_MAP\<close>.\<close>

definition operator_map :: "string \<Rightarrow> (pyval \<Rightarrow> pyval \<Rightarrow> bool py) option" where
  "operator_map op =
     (if op = ''eq'' then Some (\<lambda>a b. Inr (py_eq a b))
      else if op = ''neq'' then Some (\<lambda>a b. Inr (\<not> py_eq a b))
      else if op = ''gt'' then Some (py_cmp CGt)
      else if op = ''lt'' then Some (py_cmp CLt)
      else if op = ''gte'' then Some (py_cmp CGe)
      else if op = ''lte'' then Some (py_cmp CLe)
      else None)"

definition or_false :: "bool py \<Rightarrow> bool" where
  "or_false r = (case r of Inr b \<Rightarrow> b | Inl _ \<Rightarrow> False)"

definition regex_max_pattern_len :: nat where "regex_max_pattern_len = 1000"

definition safe_regex_search :: "pyrt \<Rightarrow> string \<Rightarrow> string \<Rightarrow> bool" where
  "safe_regex_search rt pattern text =
     (if regex_max_pattern_len < length pattern then False
      else (case rt_search rt pattern text of ReMatch _ \<Rightarrow> True | _ \<Rightarrow> False))"

text \<open>\<^verbatim>\<open>expected if isinstance(expected, list) else [expected]\<close>.\<close>

definition as_candidates :: "pyval \<Rightarrow> pyval list" where
  "as_candidates v = (case v of PList xs \<Rightarrow> xs | _ \<Rightarrow> [v])"

definition member :: "pyval \<Rightarrow> pyval list \<Rightarrow> bool" where
  "member x xs = list_ex (\<lambda>y. py_eq y x) xs"

text \<open>The operators that both condition evaluators treat the same way.\<close>

definition common_operator :: "pyrt \<Rightarrow> string \<Rightarrow> pyval \<Rightarrow> pyval \<Rightarrow> bool py option" where
  "common_operator rt op actual expected =
     (if op = ''contains'' then Some (if truthy actual then py_in expected actual else Inr False)
      else if op = ''not_contains'' then
        Some (if truthy actual then andThen (py_in expected actual) (\<lambda>b. Inr (\<not> b)) else Inr True)
      else if op = ''starts_with'' then
        Some (Inr (truthy actual \<and> starts_with (py_str rt actual) (py_str rt expected)))
      else if op = ''ends_with'' then
        Some (Inr (truthy actual \<and> ends_with (py_str rt actual) (py_str rt expected)))
      else if op = ''exists'' then Some (Inr (actual \<noteq> PNone))
      else if op = ''not_exists'' then Some (Inr (actual = PNone))
      else if op = ''regex'' then
        Some (Inr (actual \<noteq> PNone \<and> safe_regex_search rt (py_str rt expected) (py_str rt actual)))
      else if op = ''is_empty'' then Some (Inr (\<not> truthy actual))
      else if op = ''is_not_empty'' then Some (Inr (truthy actual))
      else None)"

definition evaluate_condition :: "pyrt \<Rightarrow> pyval \<Rightarrow> 'a wctx_scheme \<Rightarrow> bool py" where
  "evaluate_condition rt condition ctx =
     andThen (py_get condition ''field'' (PStr [])) (\<lambda>field.
     andThen (py_get condition ''operator'' (PStr ''eq'')) (\<lambda>op.
     andThen (py_get condition ''value'' PNone) (\<lambda>value.
     let expected = (case value of
           PStr s \<Rightarrow> (if contains_sub s ''{{'' then PStr (interpolate_string rt s ctx) else value)
         | _ \<Rightarrow> value) in
     andThen (resolve_value field ctx) (\<lambda>actual.
     case op of
       PStr ops \<Rightarrow>
         (case operator_map ops of
            Some f \<Rightarrow>
              (if or_false (f actual expected) then Inr True
               else let (actual_c, expected_c) = coerce_types rt actual expected
                    in Inr (or_false (f actual_c expected_c)))
          | None \<Rightarrow>
              (case common_operator rt ops actual expected of
                 Some r \<Rightarrow> r
               | None \<Rightarrow>
                   if ops = ''in'' then Inr (member actual (as_candidates expected))
                   else if ops = ''not_in'' then Inr (\<not> member actual (as_candidates expected))
                   else Inr False))
     | _ \<Rightarrow> if hashable op then Inr False else Inl (unhashable_error op)))))"

section \<open>Trigger filters\<close>

definition cmp_coerced :: "pyrt \<Rightarrow> cmp_op \<Rightarrow> pyval \<Rightarrow> pyval \<Rightarrow> bool" where
  "cmp_coerced rt op actual expected =
     (let (a, b) = coerce_types rt actual expected in or_false (py_cmp op a b))"

text \<open>\<^verbatim>\<open>"[]" in key\<close> and \<^verbatim>\<open>key.split\<close> on a key that is not a string.\<close>

definition key_type_error :: "pyval \<Rightarrow> exn" where
  "key_type_error key =
     (case key of
        PList _ \<Rightarrow> attr_error key ''split''
      | PDict _ \<Rightarrow> attr_error key ''split''
      | _ \<Rightarrow> not_iterable_error key)"

definition evaluate_trigger_filter :: "pyrt \<Rightarrow> pyval \<Rightarrow> pydict \<Rightarrow> bool py" where
  "evaluate_trigger_filter rt condition data =
     andThen (py_get condition ''field'' (PStr [])) (\<lambda>field.
     if \<not> truthy field then Inr True
     else
     andThen (py_get condition ''operator'' (PStr ''eq'')) (\<lambda>opv.
     andThen (py_get condition ''value'' PNone) (\<lambda>expected.
     andThen (case field of PStr p \<Rightarrow> Inr (get_nested (PDict data) p) | _ \<Rightarrow> Inl (key_type_error field)) (\<lambda>actual.
     case opv of
       PStr op \<Rightarrow>
         (if op = ''equals'' \<or> op = ''eq'' then
            (if py_eq actual expected then Inr True
             else let (a, b) = coerce_types rt actual expected in Inr (py_eq a b))
          else if op = ''not_equals'' \<or> op = ''neq'' then Inr (\<not> py_eq actual expected)
          else if op = ''gt'' then Inr (cmp_coerced rt CGt actual expected)
          else if op = ''lt'' then Inr (cmp_coerced rt CLt actual expected)
          else if op = ''gte'' then Inr (cmp_coerced rt CGe actual expected)
          else if op = ''lte'' then Inr (cmp_coerced rt CLe actual expected)
          else (case common_operator rt op actual expected of
             Some r \<Rightarrow> r
           | None \<Rightarrow>
               if op = ''in'' then
                 andThen (py_get condition ''values'' (PList (as_candidates expected))) (py_in actual)
               else if op = ''not_in'' then
                 andThen (py_get condition ''values'' (PList (as_candidates expected)))
                   (\<lambda>values. andThen (py_in actual values) (\<lambda>b. Inr (\<not> b)))
               else Inr False))
     | _ \<Rightarrow> Inr False))))"

text \<open>All conditions are evaluated before they are combined.\<close>

definition combine_results :: "pyval \<Rightarrow> bool list \<Rightarrow> bool" where
  "combine_results logic results =
     (if py_eq logic (PStr ''and'') then list_all id results else list_ex id results)"

definition passes_trigger_filters :: "pyrt \<Rightarrow> pyval \<Rightarrow> pydict \<Rightarrow> bool py" where
  "passes_trigger_filters rt filters event_data =
     andThen (py_get filters ''conditions'' (PList [])) (\<lambda>conditions.
     if \<not> truthy conditions then Inr True
     else
     andThen (py_get filters ''logic'' (PStr ''and'')) (\<lambda>logic.
     andThen (py_iter conditions) (\<lambda>cs.
     andThen (mapM (\<lambda>c. evaluate_trigger_filter rt c event_data) cs) (\<lambda>results.
     Inr (combine_results logic results)))))"

end
