(* ===== verification/Transform.thy ===== *)
theory Transform
  imports Expr
begin

text \<open>
  Field mapping: value transforms and the application of a list of mapping
  rules.  \<^verbatim>\<open>_apply_transform\<close> exists twice in the code, in
  \<^verbatim>\<open>core/workflow_engine.py\<close> and in \<^verbatim>\<open>core/mapping_resolver.py\<close>; the branches
  the two copies share are one definition per transform here, and each copy is its
  own dispatch over them.
\<close>

section \<open>The transforms\<close>

definition first_value :: "pyval list \<Rightarrow> pyval" where
  "first_value values = (case values of [] \<Rightarrow> PNone | v # _ \<Rightarrow> v)"

definition str_or_none :: "pyrt \<Rightarrow> (string \<Rightarrow> pyval) \<Rightarrow> pyval \<Rightarrow> pyval" where
  "str_or_none rt f val = (if val = PNone then PNone else f (py_str rt val))"

text \<open>\<^verbatim>\<open>tpl.replace("{i}", ...)\<close> for each position, on the text built so far.\<close>

fun fill_template :: "pyrt \<Rightarrow> nat \<Rightarrow> pyval list \<Rightarrow> pyval \<Rightarrow> pyval py" where
  "fill_template rt i [] tpl = Inr tpl"
| "fill_template rt i (v # vs) tpl =
     andThen (as_str ''replace'' tpl) (\<lambda>s.
       fill_template rt (Suc i) vs
         (PStr (py_replace (''{'' @ nat_str i @ ''}'') (if v = PNone then [] else py_str rt v) s)))"

definition tf_join :: "pyrt \<Rightarrow> pyval \<Rightarrow> pyval list \<Rightarrow> pyval py" where
  "tf_join rt sep values =
     andThen (as_str ''join'' sep) (\<lambda>s.
       Inr (PStr (py_join s (map (py_str rt) (filter (\<lambda>v. v \<noteq> PNone) values)))))"

fun tf_coalesce :: "pyval list \<Rightarrow> pyval \<Rightarrow> pyval" where
  "tf_coalesce [] dflt = dflt"
| "tf_coalesce (v # vs) dflt = (if v \<noteq> PNone then v else tf_coalesce vs dflt)"

definition tf_lookup :: "pyrt \<Rightarrow> pydict \<Rightarrow> pyval \<Rightarrow> pyval py" where
  "tf_lookup rt tr val =
     (let table = (let vs = dget tr ''values'' PNone in if truthy vs then vs else dget tr ''table'' (PDict []))
      in py_get table (py_str rt val) (dget tr ''default'' val))"

definition tf_format :: "pyrt \<Rightarrow> pydict \<Rightarrow> pyval \<Rightarrow> pyval py" where
  "tf_format rt tr val =
     andThen (as_str ''format'' (dget tr ''template'' (PStr ''{0}''))) (\<lambda>tpl.
       case rt_format rt tpl val of
         Inr s \<Rightarrow> Inr (PStr s)
       | Inl (KeyError m) \<Rightarrow> Inr (str_or_none rt PStr val)
       | Inl (IndexError m) \<Rightarrow> Inr (str_or_none rt PStr val)
       | Inl e \<Rightarrow> Inl e)"

text \<open>\<^verbatim>\<open>try: return f(val)\<close> with \<^verbatim>\<open>except (ValueError, TypeError): return val\<close>.\<close>

definition or_keep :: "pyval \<Rightarrow> pyval py \<Rightarrow> pyval py" where
  "or_keep val r = (case r of Inr x \<Rightarrow> Inr x | Inl e \<Rightarrow> if value_or_type_error e then Inr val else Inl e)"

definition tf_concat :: "pyrt \<Rightarrow> pydict \<Rightarrow> pyval py" where
  "tf_concat rt tr =
     andThen (as_str ''join'' (dget tr ''separator'' (PStr []))) (\<lambda>s.
     andThen (py_iter (dget tr ''parts'' (PList []))) (\<lambda>parts.
     Inr (PStr (py_join s (map (py_str rt) parts)))))"

definition tf_split :: "pyrt \<Rightarrow> pydict \<Rightarrow> pyval \<Rightarrow> pyval py" where
  "tf_split rt tr val =
     (if val = PNone then Inr (PList [])
      else case dget tr ''separator'' (PStr '','') of
        PStr [] \<Rightarrow> Inl (ValueError ''empty separator'')
      | PStr (c # cs) \<Rightarrow> Inr (PList (map PStr (py_split (c # cs) (py_str rt val))))
      | PNone \<Rightarrow> Inr (PList (map PStr (py_words (py_str rt val))))
      | s \<Rightarrow> Inl (TypeError (''must be str or None, not '' @ type_name s)))"

definition tf_replace :: "pyrt \<Rightarrow> pydict \<Rightarrow> pyval \<Rightarrow> pyval py" where
  "tf_replace rt tr val =
     (if val = PNone then Inr PNone
      else case (dget tr ''old'' (PStr []), dget tr ''new'' (PStr [])) of
        (PStr old, PStr new) \<Rightarrow> Inr (PStr (py_replace old new (py_str rt val)))
      | (PStr old, w) \<Rightarrow> Inl (TypeError (''replace() argument 2 must be str, not '' @ type_name w))
      | (v, _) \<Rightarrow> Inl (TypeError (''replace() argument 1 must be str, not '' @ type_name v)))"

text \<open>The guard of both regular-expression transforms: \<open>Inr None\<close> says the value is kept.\<close>

definition regex_guard :: "pydict \<Rightarrow> pyval \<Rightarrow> string option py" where
  "regex_guard tr val =
     (let pattern = dget tr ''pattern'' (PStr []) in
      if val = PNone \<or> \<not> truthy pattern then Inr None
      else andThen (py_len pattern) (\<lambda>n.
        if regex_max_pattern_len < n then Inr None
        else case pattern of PStr p \<Rightarrow> Inr (Some p) | _ \<Rightarrow> Inl (unhashable_error pattern)))"

definition tf_regex_extract :: "pyrt \<Rightarrow> pydict \<Rightarrow> pyval \<Rightarrow> pyval py" where
  "tf_regex_extract rt tr val =
     andThen (regex_guard tr val) (\<lambda>g.
       case g of
         None \<Rightarrow> Inr val
       | Some pattern \<Rightarrow>
           (case rt_search rt pattern (py_str rt val) of
              ReMatch groups \<Rightarrow>
                (case groups (dget tr ''group'' (PInt 0)) of
                   Some m \<Rightarrow> Inr m
                 | None \<Rightarrow> Inr (case groups (PInt 0) of Some m \<Rightarrow> m | None \<Rightarrow> PNone))
            | ReNoMatch \<Rightarrow> Inr PNone
            | _ \<Rightarrow> Inr val))"

definition tf_regex_replace :: "pyrt \<Rightarrow> pydict \<Rightarrow> pyval \<Rightarrow> pyval py" where
  "tf_regex_replace rt tr val =
     andThen (regex_guard tr val) (\<lambda>g.
       case g of
         None \<Rightarrow> Inr val
       | Some pattern \<Rightarrow>
           (case dget tr ''replacement'' (PStr []) of
              PStr r \<Rightarrow> Inr (case rt_sub rt pattern r (py_str rt val) of Some s \<Rightarrow> PStr s | None \<Rightarrow> val)
            | r \<Rightarrow> Inl (TypeError (''expected str instance, '' @ type_name r @ '' found''))))"

text \<open>A slice index: an integer, a boolean, or \<^verbatim>\<open>None\<close> for the default.\<close>

definition slice_index :: "pyval \<Rightarrow> int option py" where
  "slice_index v =
     (case v of
        PNone \<Rightarrow> Inr None
      | PInt i \<Rightarrow> Inr (Some i)
      | PBool b \<Rightarrow> Inr (Some (if b then 1 else 0))
      | _ \<Rightarrow> Inl (TypeError ''slice indices must be integers or None or have an __index__ method''))"

definition tf_substring :: "pyrt \<Rightarrow> pydict \<Rightarrow> pyval \<Rightarrow> pyval py" where
  "tf_substring rt tr val =
     (let s = (if val = PNone then [] else py_str rt val) in
      andThen (slice_index (dget tr ''start'' (PInt 0))) (\<lambda>start.
      andThen (slice_index (dget tr ''end'' PNone)) (\<lambda>stop.
      Inr (PStr (py_slice s (case start of None \<Rightarrow> 0 | Some i \<Rightarrow> i) stop)))))"

definition tf_date_format :: "pyrt \<Rightarrow> pydict \<Rightarrow> pyval \<Rightarrow> pyval" where
  "tf_date_format rt tr val =
     (case (dget tr ''input_format'' (PStr ''%Y-%m-%d''), dget tr ''output_format'' (PStr ''%d.%m.%Y'')) of
        (PStr i, PStr out) \<Rightarrow>
          (case rt_reformat_date rt (py_str rt val) i out of Some s \<Rightarrow> PStr s | None \<Rightarrow> val)
      | _ \<Rightarrow> val)"

text \<open>\<^verbatim>\<open>n + operand\<close> and its kin for a float \<open>n\<close>: the other operand is converted, or the
  interpreter raises.\<close>

definition binop_error :: "string \<Rightarrow> pyval \<Rightarrow> exn" where
  "binop_error opsym v =
     TypeError (''unsupported operand type(s) for '' @ opsym @ '': '' @ str_repr ''float'' @ '' and '' @ str_repr (type_name v))"

definition float_operand :: "pyrt \<Rightarrow> string \<Rightarrow> pyval \<Rightarrow> pyfloat py" where
  "float_operand rt opsym v = (if is_number v then py_float rt v else Inl (binop_error opsym v))"

definition tf_math :: "pyrt \<Rightarrow> pyval \<Rightarrow> pyval \<Rightarrow> pyval \<Rightarrow> pyval py" where
  "tf_math rt op operand val =
     (case py_float rt val of
        Inl e \<Rightarrow> if value_or_type_error e then Inr val else Inl e
      | Inr n \<Rightarrow>
          if py_eq op (PStr ''add'') then
            andThen (float_operand rt ''+'' operand) (\<lambda>x. Inr (PFloat (float_add rt n x)))
          else if py_eq op (PStr ''sub'') then
            andThen (float_operand rt ''-'' operand) (\<lambda>x. Inr (PFloat (float_add rt n (float_neg x))))
          else if py_eq op (PStr ''mul'') then
            andThen (float_operand rt ''*'' operand) (\<lambda>x. Inr (PFloat (float_mul rt n x)))
          else if py_eq op (PStr ''div'') then
            (if py_eq operand (PInt 0) then Inr val
             else andThen (float_operand rt ''/'' operand) (\<lambda>x. Inr (PFloat (float_div rt n x))))
          else Inr val)"

section \<open>The two dispatchers\<close>

text \<open>The branches that read nothing but the values and the transform, in the order of the
  source; \<open>None\<close> when no branch applies.\<close>

definition common_transform :: "pyrt \<Rightarrow> string \<Rightarrow> pydict \<Rightarrow> pyval list \<Rightarrow> pyval py option" where
  "common_transform rt t tr values =
     (let val = first_value values in
      if t = ''template'' then Some (fill_template rt 0 values (dget tr ''template'' (PStr [])))
      else if t = ''join'' then Some (tf_join rt (dget tr ''separator'' (PStr '' '')) values)
      else if t = ''coalesce'' then Some (Inr (tf_coalesce values (dget tr ''default_value'' PNone)))
      else if t = ''map'' \<or> t = ''lookup'' then Some (tf_lookup rt tr val)
      else if t = ''format'' then Some (tf_format rt tr val)
      else if t = ''uppercase'' then Some (Inr (str_or_none rt (\<lambda>s. PStr (py_upper s)) val))
      else if t = ''lowercase'' then Some (Inr (str_or_none rt (\<lambda>s. PStr (py_lower s)) val))
      else if t = ''to_int'' then Some (or_keep val (andThen (py_int val) (\<lambda>i. Inr (PInt i))))
      else if t = ''to_float'' then Some (or_keep val (andThen (py_float rt val) (\<lambda>x. Inr (PFloat x))))
      else if t = ''to_string'' then Some (Inr (str_or_none rt PStr val))
      else if t = ''default'' then Some (Inr (if val \<noteq> PNone then val else dget tr ''default_value'' PNone))
      else if t = ''concat'' then Some (tf_concat rt tr)
      else if t = ''split'' then Some (tf_split rt tr val)
      else if t = ''trim'' then Some (Inr (str_or_none rt (\<lambda>s. PStr (py_strip s)) val))
      else if t = ''replace'' then Some (tf_replace rt tr val)
      else if t = ''regex_extract'' then Some (tf_regex_extract rt tr val)
      else if t = ''regex_replace'' then Some (tf_regex_replace rt tr val)
      else if t = ''substring'' then Some (tf_substring rt tr val)
      else if t = ''date_format'' then Some (Inr (tf_date_format rt tr val))
      else if t = ''prepend'' then
        Some (Inr (str_or_none rt (\<lambda>s. PStr (py_str rt (dget tr ''value'' (PStr [])) @ s)) val))
      else if t = ''append'' then
        Some (Inr (str_or_none rt (\<lambda>s. PStr (s @ py_str rt (dget tr ''value'' (PStr [])))) val))
      else None)"

text \<open>\<^verbatim>\<open>field_resolve\<close>: the value names a path; fall back to another path, then to a default.\<close>

definition field_fallback :: "pydict \<Rightarrow> pyval \<Rightarrow> 'a wctx_scheme \<Rightarrow> pyval py" where
  "field_fallback tr val ctx =
     (let fallback_field = dget tr ''fallback_field'' PNone in
      if truthy fallback_field then resolve_value fallback_field ctx
      else Inr (dget tr ''default'' val))"

definition tf_field_resolve :: "pyrt \<Rightarrow> pydict \<Rightarrow> pyval \<Rightarrow> 'a wctx_scheme \<Rightarrow> pyval py" where
  "tf_field_resolve rt tr val ctx =
     (if val = PNone \<or> val = PStr [] then field_fallback tr val ctx
      else let resolved = resolve_str (py_str rt val) ctx in
           if resolved \<noteq> PNone then Inr resolved else field_fallback tr val ctx)"

text \<open>\<^verbatim>\<open>WorkflowEngine._apply_transform\<close>, always called with a context.\<close>

definition apply_transform :: "pyrt \<Rightarrow> pyval list \<Rightarrow> pyval \<Rightarrow> 'a wctx_scheme \<Rightarrow> pyval py" where
  "apply_transform rt values transform ctx =
     andThen (py_get transform ''type'' (PStr [])) (\<lambda>t.
     andThen (py_items transform) (\<lambda>tr.
     let val = first_value values in
     case t of
       PStr ty \<Rightarrow>
         (case common_transform rt ty tr values of
            Some r \<Rightarrow> r
          | None \<Rightarrow>
              if ty = ''field_resolve'' then tf_field_resolve rt tr val ctx
              else if ty = ''math'' then
                (let op = dget tr ''operation'' (PStr ''add'');
                     operand_field = dget tr ''operand_field'' PNone in
                 if truthy operand_field then
                   andThen (resolve_value operand_field ctx) (\<lambda>resolved.
                     case py_float rt resolved of
                       Inl e \<Rightarrow> if value_or_type_error e then Inr val else Inl e
                     | Inr x \<Rightarrow> tf_math rt op (PFloat x) val)
                 else tf_math rt op (dget tr ''operand'' (PInt 0)) val)
              else Inr val)
     | _ \<Rightarrow> Inr val))"

text \<open>\<^verbatim>\<open>MappingResolver._apply_transform\<close>, which has no context.\<close>

definition mr_apply_transform :: "pyrt \<Rightarrow> pyval list \<Rightarrow> pyval \<Rightarrow> pyval py" where
  "mr_apply_transform rt values transform =
     andThen (py_get transform ''type'' (PStr [])) (\<lambda>t.
     andThen (py_items transform) (\<lambda>tr.
     let val = first_value values in
     case t of
       PStr ty \<Rightarrow>
         (case common_transform rt ty tr values of
            Some r \<Rightarrow> r
          | None \<Rightarrow>
              if ty = ''math'' then
                tf_math rt (dget tr ''operation'' (PStr ''add'')) (dget tr ''operand'' (PInt 0)) val
              else Inr val)
     | _ \<Rightarrow> Inr val))"

section \<open>Mapping rules\<close>

text \<open>\<^verbatim>\<open>_resolve_sources\<close>, over the reader of the caller.\<close>

definition resolve_sources_with :: "(pyval \<Rightarrow> pyval py) \<Rightarrow> pyval \<Rightarrow> pyval list py" where
  "resolve_sources_with read m =
     andThen (py_get m ''sources'' (PList [])) (\<lambda>sources.
     if truthy sources then andThen (py_iter sources) (mapM read)
     else
     andThen (py_get m ''from'' (PStr [])) (\<lambda>from_field.
     if \<not> truthy from_field then Inr []
     else if py_eq from_field (PStr ''__custom__'') then
       andThen (py_get m ''from_custom'' (PStr [])) (\<lambda>v. Inr [v])
     else andThen (read from_field) (\<lambda>v. Inr [v])))"

definition resolve_sources :: "pyval \<Rightarrow> 'a wctx_scheme \<Rightarrow> pyval list py" where
  "resolve_sources m ctx = resolve_sources_with (\<lambda>p. resolve_value p ctx) m"

text \<open>The pipeline \<^verbatim>\<open>pipe = [apply(pipe, step)]\<close>.\<close>

fun run_pipeline :: "(pyval list \<Rightarrow> pyval \<Rightarrow> pyval py) \<Rightarrow> pyval list \<Rightarrow> pyval list \<Rightarrow> pyval list py" where
  "run_pipeline tf pipe [] = Inr pipe"
| "run_pipeline tf pipe (step # steps) = andThen (tf pipe step) (\<lambda>v. run_pipeline tf [v] steps)"

text \<open>The value of one rule, \<open>None\<close> when the rule is skipped before it is computed.  A list
  of steps is non-empty here, because an empty one is falsy.\<close>

definition mapping_value ::
  "pyrt \<Rightarrow> (pyval list \<Rightarrow> pyval \<Rightarrow> pyval py) \<Rightarrow> (pyval \<Rightarrow> pyval list py) \<Rightarrow> pyval \<Rightarrow> pyval option py" where
  "mapping_value rt tf sources m =
     andThen (sources m) (\<lambda>resolved.
     andThen (py_get m ''from'' (PStr [])) (\<lambda>fr.
     andThen (py_get m ''sources'' PNone) (\<lambda>srcs.
     if resolved = [] \<and> \<not> truthy fr \<and> \<not> truthy srcs then Inr None
     else
     andThen (py_get m ''transform'' PNone) (\<lambda>raw_transform.
     if truthy raw_transform then
       andThen (run_pipeline tf resolved (case raw_transform of PList steps \<Rightarrow> steps | _ \<Rightarrow> [raw_transform]))
         (\<lambda>pipe. Inr (Some (first_value pipe)))
     else if length resolved = 1 then Inr (Some (first_value resolved))
     else Inr (Some (PStr (py_join '' '' (map (py_str rt) (filter (\<lambda>v. v \<noteq> PNone) resolved)))))))))"

definition mapping_target :: "pyval \<Rightarrow> pyval py" where
  "mapping_target m =
     andThen (py_get m ''to'' (PStr [])) (\<lambda>to_field.
     if py_eq to_field (PStr ''__custom__'') then py_get m ''to_custom'' (PStr []) else Inr to_field)"

record mapping_acc =
  ma_result :: pydict
  ma_body_extras :: "string list"
  ma_subject_extras :: "string list"

fun is_scalar_text :: "pyval \<Rightarrow> bool" where
  "is_scalar_text (PStr _) = True"
| "is_scalar_text (PInt _) = True"
| "is_scalar_text (PFloat _) = True"
| "is_scalar_text (PBool _) = True"
| "is_scalar_text _ = False"

definition dict_of :: "pyval \<Rightarrow> pydict" where
  "dict_of v = (case v of PDict d \<Rightarrow> d | _ \<Rightarrow> [])"

text \<open>\<^verbatim>\<open>to_field in result\<close> followed by \<^verbatim>\<open>_set_nested(result, to_field, value)\<close>.\<close>

definition apply_rule :: "pyrt \<Rightarrow> 'a wctx_scheme \<Rightarrow> mapping_acc \<Rightarrow> pyval \<Rightarrow> mapping_acc py" where
  "apply_rule rt ctx acc m =
     andThen (mapping_target m) (\<lambda>to_field.
     if \<not> truthy to_field then Inr acc
     else
     andThen (mapping_value rt (\<lambda>vs step. apply_transform rt vs step ctx) (\<lambda>m. resolve_sources m ctx) m) (\<lambda>mv.
     case mv of
       None \<Rightarrow> Inr acc
     | Some value \<Rightarrow>
         if value = PNone then Inr acc
         else (case to_field of
            PStr key \<Rightarrow>
              (let is_concat = dhas (ma_result acc) key in
               andThen (set_nested rt True key value (PDict (ma_result acc))) (\<lambda>new.
               let acc' = acc\<lparr>ma_result := dict_of new\<rparr> in
               Inr (if is_concat \<and> is_scalar_text value then
                      (if key = ''body_text'' then
                         acc'\<lparr>ma_body_extras := ma_body_extras acc @ [py_str rt value]\<rparr>
                       else if key = ''subject'' then
                         acc'\<lparr>ma_subject_extras := ma_subject_extras acc @ [py_str rt value]\<rparr>
                       else acc')
                    else acc')))
          | _ \<Rightarrow> Inl (if hashable to_field then not_iterable_error to_field else unhashable_error to_field))))"

definition html_escape :: "string \<Rightarrow> string" where
  "html_escape s = py_replace ''>'' ''&gt;'' (py_replace ''<'' ''&lt;'' (py_replace ''&'' ''&amp;'' s))"

definition newline :: string where "newline = [char_of (10::nat)]"

definition strip_extras :: "string list \<Rightarrow> string \<Rightarrow> string" where
  "strip_extras extras original = foldl (\<lambda>s e. py_replace1 (e @ '' '') [] s) original extras"

definition html_box :: "string \<Rightarrow> string" where
  "html_box e =
     ''<div style='' @ [double_quote] @ ''background:#f0f4ff;border-left:4px solid #1565c0;''
       @ ''padding:12px;margin-bottom:16px;font-family:sans-serif;'' @ [double_quote] @ ''>''
       @ ''<strong>AI:</strong> '' @ html_escape e @ ''</div>''"

definition decorate_body_text :: "string list \<Rightarrow> pydict \<Rightarrow> pydict py" where
  "decorate_body_text extras result =
     (if extras \<noteq> [] \<and> dhas result ''body_text'' then
        andThen (as_str ''replace'' (dget result ''body_text'' PNone)) (\<lambda>original.
          Inr (dset result ''body_text''
            (PStr (py_join (newline @ newline) extras @ newline @ newline @ ''---'' @ newline @ newline
                   @ strip_extras extras original))))
      else Inr result)"

definition decorate_body_html :: "string list \<Rightarrow> pydict \<Rightarrow> pydict py" where
  "decorate_body_html extras result =
     (if extras \<noteq> [] \<and> truthy (dget result ''body_html'' PNone) then
        (case dget result ''body_html'' PNone of
           PStr h \<Rightarrow> Inr (dset result ''body_html'' (PStr (List.concat (map html_box extras) @ h)))
         | v \<Rightarrow> Inl (TypeError (''can only concatenate str (not '' @ str_repr (type_name v) @ '') to str'')))
      else Inr result)"

definition decorate_subject :: "string list \<Rightarrow> pydict \<Rightarrow> pydict py" where
  "decorate_subject extras result =
     (if extras \<noteq> [] \<and> dhas result ''subject'' then
        andThen (as_str ''replace'' (dget result ''subject'' PNone)) (\<lambda>original.
          Inr (dset result ''subject''
            (PStr (''['' @ py_join '' | '' extras @ ''] '' @ py_strip (strip_extras extras original)))))
      else Inr result)"

definition apply_field_mapping :: "pyrt \<Rightarrow> pyval \<Rightarrow> 'a wctx_scheme \<Rightarrow> pydict py" where
  "apply_field_mapping rt mappings ctx =
     andThen (py_iter mappings) (\<lambda>ms.
     andThen (foldM (apply_rule rt ctx) \<lparr>ma_result = [], ma_body_extras = [], ma_subject_extras = []\<rparr> ms) (\<lambda>acc.
     andThen (decorate_body_text (ma_body_extras acc) (ma_result acc)) (\<lambda>r1.
     andThen (decorate_body_html (ma_body_extras acc) r1) (\<lambda>r2.
     decorate_subject (ma_subject_extras acc) r2))))"

end
