(* ===== verification/WorkflowGraph.thy ===== *)
theory WorkflowGraph
  imports PyValue
begin

text \<open>
  The graph of a workflow, class \<^verbatim>\<open>WorkflowGraph\<close> of \<^verbatim>\<open>core/workflow_engine.py\<close>.
  Nodes and edges have the fields that \<^verbatim>\<open>WorkflowNode\<close> and \<^verbatim>\<open>WorkflowEdge\<close> of
  \<^verbatim>\<open>api/schemas.py\<close> give them (an edge always carries a \<^verbatim>\<open>sourceHandle\<close>, by default
  \<^verbatim>\<open>"default"\<close>).  The lemmas relate the adjacency and incoming indexes that the
  constructor builds to the edge list it was given.
\<close>

record node =
  n_id :: string
  n_type :: string
  n_label :: "string option"
  n_config :: pydict

record edge =
  e_source :: string
  e_target :: string
  e_handle :: string

record graph =
  g_nodes :: "(string \<times> node) list"
  g_adjacency :: "(string \<times> edge list) list"
  g_incoming :: "(string \<times> edge list) list"

definition push_edge :: "(string \<times> edge list) list \<Rightarrow> string \<Rightarrow> edge \<Rightarrow> (string \<times> edge list) list" where
  "push_edge idx k e = dset idx k (dget idx k [] @ [e])"

definition mk_graph :: "node list \<Rightarrow> edge list \<Rightarrow> graph" where
  "mk_graph nodes edges =
     \<lparr>g_nodes = foldl (\<lambda>d n. dset d (n_id n) n) [] nodes,
      g_adjacency = foldl (\<lambda>idx e. push_edge idx (e_source e) e) [] edges,
      g_incoming = foldl (\<lambda>idx e. push_edge idx (e_target e) e) [] edges\<rparr>"

definition find_trigger :: "graph \<Rightarrow> node option" where
  "find_trigger g = find (\<lambda>n. n_type n = ''trigger'') (map snd (g_nodes g))"

definition get_node :: "graph \<Rightarrow> string \<Rightarrow> node option" where
  "get_node g node_id = map_of (g_nodes g) node_id"

fun collect_targets :: "graph \<Rightarrow> string option \<Rightarrow> edge list \<Rightarrow> node list" where
  "collect_targets g handle [] = []"
| "collect_targets g handle (e # es) =
     (if (case handle of None \<Rightarrow> False | Some h \<Rightarrow> e_handle e \<noteq> h) then collect_targets g handle es
      else case get_node g (e_target e) of
             None \<Rightarrow> collect_targets g handle es
           | Some n \<Rightarrow> n # collect_targets g handle es)"

definition get_successors :: "graph \<Rightarrow> string \<Rightarrow> string option \<Rightarrow> node list" where
  "get_successors g node_id handle = collect_targets g handle (dget (g_adjacency g) node_id [])"

definition incoming_edges :: "graph \<Rightarrow> string \<Rightarrow> edge list" where
  "incoming_edges g node_id = dget (g_incoming g) node_id []"

definition get_predecessor_count :: "graph \<Rightarrow> string \<Rightarrow> nat" where
  "get_predecessor_count g node_id = length (incoming_edges g node_id)"

section \<open>The indexes are the edge list\<close>

lemma dget_push_edges:
  "dget (foldl (\<lambda>idx e. push_edge idx (f e) e) idx es) k [] = dget idx k [] @ filter (\<lambda>e. f e = k) es"
  by (induction es arbitrary: idx) (auto simp: push_edge_def)

lemma adjacency_mk_graph:
  "dget (g_adjacency (mk_graph nodes edges)) k [] = filter (\<lambda>e. e_source e = k) edges"
  using dget_push_edges [of e_source "[]" edges k] by (simp add: mk_graph_def dget_def)

lemma incoming_mk_graph:
  "incoming_edges (mk_graph nodes edges) k = filter (\<lambda>e. e_target e = k) edges"
  using dget_push_edges [of e_target "[]" edges k] by (simp add: mk_graph_def dget_def incoming_edges_def)

lemma map_of_nodes:
  "map_of (foldl (\<lambda>d n. dset d (n_id n) n) d nodes) k =
     (case find (\<lambda>n. n_id n = k) (rev nodes) of None \<Rightarrow> map_of d k | Some n \<Rightarrow> Some n)"
proof (induction nodes arbitrary: d)
  case (Cons n nodes)
  have "find (\<lambda>n. n_id n = k) (xs @ [n]) =
    (case find (\<lambda>n. n_id n = k) xs of None \<Rightarrow> if n_id n = k then Some n else None | Some m \<Rightarrow> Some m)" for xs
    by (induction xs) auto
  with Cons show ?case by (simp split: option.splits)
qed simp

lemma get_node_mk_graph: "get_node (mk_graph nodes edges) k = find (\<lambda>n. n_id n = k) (rev nodes)"
  by (simp add: get_node_def mk_graph_def map_of_nodes split: option.splits)

lemma get_node_id: "get_node (mk_graph nodes edges) k = Some n \<Longrightarrow> n \<in> set nodes \<and> n_id n = k"
  by (auto simp: get_node_mk_graph dest!: find_Some_mem)

lemma mem_collect_targets:
  "n \<in> set (collect_targets g handle es) \<longleftrightarrow>
     (\<exists>e \<in> set es. (case handle of None \<Rightarrow> True | Some h \<Rightarrow> e_handle e = h) \<and> get_node g (e_target e) = Some n)"
  by (induction g handle es rule: collect_targets.induct) (auto split: option.splits)

lemma collect_targets_mono: "set (collect_targets g (Some h) es) \<subseteq> set (collect_targets g None es)"
  by (auto simp: mem_collect_targets)

lemma find_trigger_type: "find_trigger g = Some n \<Longrightarrow> n_type n = ''trigger''"
  by (auto simp: find_trigger_def dest: find_Some_mem)

end
