(* ===== verification/EngineMonad.thy ===== *)
theory EngineMonad
  imports PyValue
begin

text \<open>
  Effects of the engine: a computation runs on a mutable state, may raise a
  Python exception (the state changes made before it stay), or may not return,
  which is \<open>None\<close>.  The sequencing rules, the order in which a computation that
  returns less is below one that returns more, and invariants of computations
  are proved once here.
\<close>

type_synonym ('s, 'a) act = "'s \<Rightarrow> ((exn + 'a) \<times> 's) option"

definition ret :: "'a \<Rightarrow> ('s, 'a) act" where
  "ret x = (\<lambda>s. Some (Inr x, s))"

definition throw :: "exn \<Rightarrow> ('s, 'a) act" where
  "throw e = (\<lambda>s. Some (Inl e, s))"

definition diverge :: "('s, 'a) act" where
  "diverge = (\<lambda>s. None)"

definition liftE :: "'a py \<Rightarrow> ('s, 'a) act" where
  "liftE r = (\<lambda>s. Some (r, s))"

definition gets :: "('s \<Rightarrow> 'a) \<Rightarrow> ('s, 'a) act" where
  "gets f = (\<lambda>s. Some (Inr (f s), s))"

definition modify :: "('s \<Rightarrow> 's) \<Rightarrow> ('s, unit) act" where
  "modify f = (\<lambda>s. Some (Inr (), f s))"

definition bnd :: "('s, 'a) act \<Rightarrow> ('a \<Rightarrow> ('s, 'b) act) \<Rightarrow> ('s, 'b) act" where
  "bnd m f = (\<lambda>s. case m s of
      None \<Rightarrow> None
    | Some (Inl e, s') \<Rightarrow> Some (Inl e, s')
    | Some (Inr x, s') \<Rightarrow> f x s')"

text \<open>\<^verbatim>\<open>try: m\<close> / \<^verbatim>\<open>except Exception as e: h(e)\<close>.\<close>

definition catch :: "('s, 'a) act \<Rightarrow> (exn \<Rightarrow> ('s, 'a) act) \<Rightarrow> ('s, 'a) act" where
  "catch m h = (\<lambda>s. case m s of
      None \<Rightarrow> None
    | Some (Inl e, s') \<Rightarrow> h e s'
    | Some (Inr x, s') \<Rightarrow> Some (Inr x, s'))"

text \<open>A loop over a list for its effects, and one that collects results.\<close>

fun for_each :: "('a \<Rightarrow> ('s, unit) act) \<Rightarrow> 'a list \<Rightarrow> ('s, unit) act" where
  "for_each f [] = ret ()"
| "for_each f (x # xs) = bnd (f x) (\<lambda>_. for_each f xs)"

fun map_each :: "('a \<Rightarrow> ('s, 'b) act) \<Rightarrow> 'a list \<Rightarrow> ('s, 'b list) act" where
  "map_each f [] = ret []"
| "map_each f (x # xs) = bnd (f x) (\<lambda>y. bnd (map_each f xs) (\<lambda>ys. ret (y # ys)))"

section \<open>Evaluation rules\<close>

lemma act_eval [simp, act_simps]:
  "ret x s = Some (Inr x, s)"
  "throw e s = Some (Inl e, s)"
  "diverge s = None"
  "liftE r s = Some (r, s)"
  "gets f s = Some (Inr (f s), s)"
  "modify g s = Some (Inr (), g s)"
  by (simp_all add: ret_def throw_def diverge_def liftE_def gets_def modify_def)

lemma bnd_eval [simp, act_simps]:
  "m s = None \<Longrightarrow> bnd m f s = None"
  "m s = Some (Inl e, s') \<Longrightarrow> bnd m f s = Some (Inl e, s')"
  "m s = Some (Inr x, s') \<Longrightarrow> bnd m f s = f x s'"
  by (simp_all add: bnd_def)

lemma catch_eval [simp, act_simps]:
  "m s = None \<Longrightarrow> catch m h s = None"
  "m s = Some (Inl e, s') \<Longrightarrow> catch m h s = h e s'"
  "m s = Some (Inr x, s') \<Longrightarrow> catch m h s = Some (Inr x, s')"
  by (simp_all add: catch_def)

lemma bnd_cases:
  assumes "bnd m f s = Some (r, t)"
  obtains (raised) e where "m s = Some (Inl e, t)" and "r = Inl e"
    | (returned) x u where "m s = Some (Inr x, u)" and "f x u = Some (r, t)"
  using assms by (auto simp: bnd_def split: option.splits prod.splits sum.splits)

lemma catch_cases:
  assumes "catch m h s = Some (r, t)"
  obtains (raised) e u where "m s = Some (Inl e, u)" and "h e u = Some (r, t)"
    | (returned) x where "m s = Some (Inr x, t)" and "r = Inr x"
  using assms by (auto simp: catch_def split: option.splits prod.splits sum.splits)

lemma bnd_liftE_returned: "bnd (liftE r) f s = Some (Inr y, t) \<longleftrightarrow> (\<exists>x. r = Inr x \<and> f x s = Some (Inr y, t))"
  by (cases r) simp_all

section \<open>More fuel, same result\<close>

definition act_le :: "('s, 'a) act \<Rightarrow> ('s, 'a) act \<Rightarrow> bool" where
  "act_le m m' \<longleftrightarrow> (\<forall>s r. m s = Some r \<longrightarrow> m' s = Some r)"

named_theorems act_mono \<open>monotonicity of the engine combinators\<close>

lemma act_le_refl [act_mono]: "act_le m m"
  by (simp add: act_le_def)

lemma act_le_bnd [act_mono]:
  "act_le m m' \<Longrightarrow> (\<And>x. act_le (f x) (f' x)) \<Longrightarrow> act_le (bnd m f) (bnd m' f')"
  unfolding act_le_def bnd_def by (fastforce split: option.splits prod.splits sum.splits)

lemma act_le_catch [act_mono]:
  "act_le m m' \<Longrightarrow> (\<And>e. act_le (h e) (h' e)) \<Longrightarrow> act_le (catch m h) (catch m' h')"
  unfolding act_le_def catch_def by (fastforce split: option.splits prod.splits sum.splits)

lemma act_le_for_each [act_mono]: "(\<And>x. act_le (f x) (f' x)) \<Longrightarrow> act_le (for_each f xs) (for_each f' xs)"
  by (induction xs) (auto intro!: act_mono)

lemma act_le_map_each [act_mono]: "(\<And>x. act_le (f x) (f' x)) \<Longrightarrow> act_le (map_each f xs) (map_each f' xs)"
  by (induction xs) (auto intro!: act_mono)

lemma act_le_if [act_mono]:
  "act_le m m' \<Longrightarrow> act_le n n' \<Longrightarrow> act_le (if b then m else n) (if b then m' else n')"
  by simp

lemma act_le_Let [act_mono]: "(\<And>x. act_le (f x) (f' x)) \<Longrightarrow> act_le (Let a f) (Let a f')"
  by simp

section \<open>Invariants and totality of computations\<close>

definition keeps :: "('s \<Rightarrow> 's \<Rightarrow> bool) \<Rightarrow> ('s, 'a) act \<Rightarrow> bool" where
  "keeps R m \<longleftrightarrow> (\<forall>s r t. m s = Some (r, t) \<longrightarrow> R s t)"

definition returns_on :: "('s \<Rightarrow> bool) \<Rightarrow> ('s, 'a) act \<Rightarrow> bool" where
  "returns_on P m \<longleftrightarrow> (\<forall>s. P s \<longrightarrow> m s \<noteq> None)"

lemma keepsD: "keeps R m \<Longrightarrow> m s = Some (r, t) \<Longrightarrow> R s t"
  unfolding keeps_def by blast

locale effect_rel =
  fixes R :: "'s \<Rightarrow> 's \<Rightarrow> bool"
  assumes R_refl: "R s s"
    and R_trans: "R s t \<Longrightarrow> R t u \<Longrightarrow> R s u"
begin

lemma keeps_pure:
  "keeps R (ret x)" "keeps R (throw e)" "keeps R (liftE r)" "keeps R (gets f)" "keeps R diverge"
  by (auto simp: keeps_def R_refl)

lemma keeps_bnd: "keeps R m \<Longrightarrow> (\<And>x. keeps R (f x)) \<Longrightarrow> keeps R (bnd m f)"
  unfolding keeps_def by (blast elim!: bnd_cases intro: R_trans)

lemma keeps_catch: "keeps R m \<Longrightarrow> (\<And>e. keeps R (h e)) \<Longrightarrow> keeps R (catch m h)"
  unfolding keeps_def by (blast elim!: catch_cases intro: R_trans)

lemma keeps_for_each: "(\<And>x. keeps R (f x)) \<Longrightarrow> keeps R (for_each f xs)"
  by (induction xs) (simp_all add: keeps_pure keeps_bnd)

lemma keeps_map_each: "(\<And>x. keeps R (f x)) \<Longrightarrow> keeps R (map_each f xs)"
  by (induction xs) (simp_all add: keeps_pure keeps_bnd)

lemma keeps_map_each_on: "(\<And>x. x \<in> set xs \<Longrightarrow> keeps R (f x)) \<Longrightarrow> keeps R (map_each f xs)"
  by (induction xs) (simp_all add: keeps_pure keeps_bnd)

lemma keeps_for_each_on: "(\<And>x. x \<in> set xs \<Longrightarrow> keeps R (f x)) \<Longrightarrow> keeps R (for_each f xs)"
  by (induction xs) (simp_all add: keeps_pure keeps_bnd)

lemma keeps_if: "(b \<Longrightarrow> keeps R m) \<Longrightarrow> (\<not> b \<Longrightarrow> keeps R n) \<Longrightarrow> keeps R (if b then m else n)"
  by simp

end

lemma returns_pure:
  "returns_on P (ret x)" "returns_on P (throw e)" "returns_on P (liftE r)" "returns_on P (gets f)"
  "returns_on P (modify g)"
  by (simp_all add: returns_on_def)

lemma returns_bnd:
  "returns_on (\<lambda>_. True) m \<Longrightarrow> (\<And>x. returns_on (\<lambda>_. True) (f x)) \<Longrightarrow> returns_on (\<lambda>_. True) (bnd m f)"
  unfolding returns_on_def bnd_def by (auto split: option.splits sum.splits)

lemma returns_catch:
  "returns_on (\<lambda>_. True) m \<Longrightarrow> (\<And>e. returns_on (\<lambda>_. True) (h e)) \<Longrightarrow> returns_on (\<lambda>_. True) (catch m h)"
  unfolding returns_on_def catch_def by (auto split: option.splits sum.splits)

lemma returns_for_each:
  "(\<And>x. x \<in> set xs \<Longrightarrow> returns_on (\<lambda>_. True) (f x)) \<Longrightarrow> returns_on (\<lambda>_. True) (for_each f xs)"
  by (induction xs) (simp_all add: returns_pure returns_bnd)

lemma returns_map_each:
  "(\<And>x. x \<in> set xs \<Longrightarrow> returns_on (\<lambda>_. True) (f x)) \<Longrightarrow> returns_on (\<lambda>_. True) (map_each f xs)"
  by (induction xs) (simp_all add: returns_pure returns_bnd)

section \<open>Which exceptions leave a computation\<close>

definition raises :: "(exn \<Rightarrow> bool) \<Rightarrow> ('s, 'a) act \<Rightarrow> bool" where
  "raises P m \<longleftrightarrow> (\<forall>s e t. m s = Some (Inl e, t) \<longrightarrow> P e)"

named_theorems raises_rules \<open>which exceptions leave a computation\<close>

lemma raises_pure [raises_rules, simp]:
  "raises P (ret x)" "raises P (gets f)" "raises P (modify g)" "raises P diverge"
  by (simp_all add: raises_def)

lemma raises_throw [raises_rules]: "P e \<Longrightarrow> raises P (throw e)"
  by (simp add: raises_def)

lemma raises_liftE [raises_rules]: "(\<And>e. r = Inl e \<Longrightarrow> P e) \<Longrightarrow> raises P (liftE r)"
  by (simp add: raises_def)

lemma raises_bnd [raises_rules]: "raises P m \<Longrightarrow> (\<And>x. raises P (f x)) \<Longrightarrow> raises P (bnd m f)"
  unfolding raises_def by (blast elim: bnd_cases)

text \<open>What the guarded block raises does not matter.\<close>

lemma raises_catch [raises_rules]: "(\<And>e. raises P (h e)) \<Longrightarrow> raises P (catch m h)"
  unfolding raises_def by (blast elim: catch_cases)

lemma raises_for_each [raises_rules]: "(\<And>x. x \<in> set xs \<Longrightarrow> raises P (f x)) \<Longrightarrow> raises P (for_each f xs)"
  by (induction xs) (simp_all add: raises_bnd)

lemma raises_if [raises_rules]:
  "(b \<Longrightarrow> raises P m) \<Longrightarrow> (\<not> b \<Longrightarrow> raises P n) \<Longrightarrow> raises P (if b then m else n)"
  by simp

text \<open>Sequences nest either way.\<close>

lemma bnd_assoc: "bnd (bnd m f) g = bnd m (\<lambda>x. bnd (f x) g)"
  by (rule ext) (simp add: bnd_def split: option.split sum.split)

end
