(* ===== verification/Regex.thy ===== *)
theory Regex
  imports PyText
begin

text \<open>
  The part of Python's \<^verbatim>\<open>re\<close> that the fixed patterns of the platform use: character
  classes, sequences, bounded and unbounded repetition (greedy or lazy) and word
  boundaries.  A pattern maps a position to the list of the positions where a match
  may end, in the order in which the backtracking matcher tries them; the first one
  is the match.  A position is the character before it and the text after it.
\<close>

type_synonym position = "char option \<times> string"

datatype rx =
    Cls "char \<Rightarrow> bool"
  | WordB
  | Seq rx rx
  | Rep bool rx nat "nat option"

definition is_lower :: "char \<Rightarrow> bool" where
  "is_lower c \<longleftrightarrow> 97 \<le> char_code c \<and> char_code c \<le> 122"

definition is_upper :: "char \<Rightarrow> bool" where
  "is_upper c \<longleftrightarrow> 65 \<le> char_code c \<and> char_code c \<le> 90"

definition is_letter :: "char \<Rightarrow> bool" where
  "is_letter c \<longleftrightarrow> is_lower c \<or> is_upper c"

definition is_alnum :: "char \<Rightarrow> bool" where
  "is_alnum c \<longleftrightarrow> is_letter c \<or> is_digit c"

definition is_word :: "char \<Rightarrow> bool" where
  "is_word c \<longleftrightarrow> is_alnum c \<or> c = CHR ''_''"

definition word_before :: "position \<Rightarrow> bool" where
  "word_before p = (case fst p of None \<Rightarrow> False | Some c \<Rightarrow> is_word c)"

definition word_after :: "position \<Rightarrow> bool" where
  "word_after p = (case snd p of [] \<Rightarrow> False | c # cs \<Rightarrow> is_word c)"

text \<open>At least \<open>m\<close> and at most \<open>m + e\<close> rounds.\<close>

fun repeat :: "bool \<Rightarrow> (position \<Rightarrow> position list) \<Rightarrow> nat \<Rightarrow> nat \<Rightarrow> position \<Rightarrow> position list" where
  "repeat greedy f (Suc m) e p = List.concat (map (repeat greedy f m e) (f p))"
| "repeat greedy f 0 (Suc e) p =
     (let more = List.concat (map (repeat greedy f 0 e) (f p)) in if greedy then more @ [p] else p # more)"
| "repeat greedy f 0 0 p = [p]"

text \<open>A repetition without an upper bound: no more rounds than characters left can make progress.\<close>

fun ends :: "rx \<Rightarrow> position \<Rightarrow> position list" where
  "ends (Cls P) p = (case snd p of [] \<Rightarrow> [] | c # cs \<Rightarrow> if P c then [(Some c, cs)] else [])"
| "ends WordB p = (if word_before p \<noteq> word_after p then [p] else [])"
| "ends (Seq a b) p = List.concat (map (ends b) (ends a p))"
| "ends (Rep greedy r m bound) p =
     repeat greedy (ends r) m (case bound of Some n \<Rightarrow> n - m | None \<Rightarrow> length (snd p)) p"

fun seqs :: "rx list \<Rightarrow> rx" where
  "seqs [] = Rep True WordB 0 (Some 0)"
| "seqs [r] = r"
| "seqs (r # rs) = Seq r (seqs rs)"

definition lit :: "char \<Rightarrow> rx" where "lit c = Cls (\<lambda>x. x = c)"

definition opt :: "rx \<Rightarrow> rx" where "opt r = Rep True r 0 (Some 1)"

definition plus_of :: "(char \<Rightarrow> bool) \<Rightarrow> rx" where "plus_of P = Rep True (Cls P) 1 None"

definition digits :: "nat \<Rightarrow> nat \<Rightarrow> rx" where "digits m n = Rep True (Cls is_digit) m (Some n)"

section \<open>Matching\<close>

definition re_fullmatch :: "rx \<Rightarrow> string \<Rightarrow> bool" where
  "re_fullmatch r s = list_ex (\<lambda>p. snd p = []) (ends r (None, s))"

text \<open>The matches found from left to right, without overlap (\<^verbatim>\<open>finditer\<close>, \<^verbatim>\<open>findall\<close>).  Empty matches
  are not reported; the patterns of the platform have none.\<close>

function findall :: "rx \<Rightarrow> position \<Rightarrow> string list" where
  "findall r p =
     (case snd p of
        [] \<Rightarrow> []
      | c # cs \<Rightarrow>
          (case ends r p of
             [] \<Rightarrow> findall r (Some c, cs)
           | q # _ \<Rightarrow>
               if length (snd q) < length (snd p)
               then take (length (snd p) - length (snd q)) (snd p) # findall r q
               else findall r (Some c, cs)))"
  by pat_completeness auto
termination
  by (relation "measure (\<lambda>(r, p). length (snd p))") auto

declare findall.simps [simp del]

definition re_findall :: "rx \<Rightarrow> string \<Rightarrow> string list" where
  "re_findall r s = findall r (None, s)"

fun search_from :: "rx \<Rightarrow> char option \<Rightarrow> string \<Rightarrow> bool" where
  "search_from r prev [] = (ends r (prev, []) \<noteq> [])"
| "search_from r prev (c # cs) = (ends r (prev, c # cs) \<noteq> [] \<or> search_from r (Some c) cs)"

definition re_search :: "rx \<Rightarrow> string \<Rightarrow> bool" where
  "re_search r s = search_from r None s"

section \<open>Laws of the matcher\<close>

text \<open>A match ends in the text it started in.\<close>

definition within :: "position \<Rightarrow> position \<Rightarrow> bool" where
  "within p q \<longleftrightarrow> (\<exists>t. snd p = t @ snd q \<and> fst q = (if t = [] then fst p else Some (last t)))"

lemma within_refl: "within p p"
  by (auto simp: within_def)

lemma within_trans: "within p q \<Longrightarrow> within q r \<Longrightarrow> within p r"
proof -
  assume "within p q" and "within q r"
  then obtain t u where t: "snd p = t @ snd q" "fst q = (if t = [] then fst p else Some (last t))"
    and u: "snd q = u @ snd r" "fst r = (if u = [] then fst q else Some (last u))" by (auto simp: within_def)
  show ?thesis unfolding within_def by (rule exI [of _ "t @ u"]) (use t u in auto)
qed

lemma concat_map_within:
  assumes "q \<in> set (List.concat (map g (f p)))" and "\<And>b. b \<in> set (f p) \<Longrightarrow> within p b"
    and "\<And>b c. b \<in> set (f p) \<Longrightarrow> c \<in> set (g b) \<Longrightarrow> within b c"
  shows "within p q"
proof -
  from assms(1) obtain b where "b \<in> set (f p)" "q \<in> set (g b)" by auto
  then show ?thesis using assms(2,3) within_trans by blast
qed

lemma repeat_within:
  assumes "q \<in> set (repeat g f m e p)" and "\<And>a b. b \<in> set (f a) \<Longrightarrow> within a b"
  shows "within p q"
  using assms
proof (induction g f m e p arbitrary: q rule: repeat.induct)
  case (1 g f m e p)
  show ?case by (rule concat_map_within [of q "repeat g f m e" f p]) (use 1 in \<open>simp, blast, blast\<close>)
next
  case (2 g f e p)
  have "within p x" if "x \<in> set (List.concat (map (repeat g f 0 e) (f p)))" for x
    by (rule concat_map_within [of x "repeat g f 0 e" f p]) (use 2 that in \<open>blast+\<close>)
  moreover have "q = p \<or> q \<in> set (List.concat (map (repeat g f 0 e) (f p)))"
    using "2.prems"(1) by (auto simp: Let_def simp del: set_concat split: if_splits)
  ultimately show ?case using within_refl by blast
next
  case (3 g f p)
  then show ?case by (simp add: within_refl)
qed

lemma ends_within: "q \<in> set (ends r p) \<Longrightarrow> within p q"
proof (induction r arbitrary: p q)
  case (Cls P)
  then show ?case by (cases "snd p") (auto simp: within_def split: if_splits intro: exI [of _ "[hd (snd p)]"])
next
  case (Seq a b)
  then show ?case using concat_map_within [of q "ends b" "ends a" p] by simp
next
  case (Rep g r m bound)
  show ?case by (rule repeat_within [of q g "ends r"]) (use Rep in \<open>auto\<close>)
qed (auto simp: within_refl split: if_splits)

lemma within_take: "within p q \<Longrightarrow> snd p = take (length (snd p) - length (snd q)) (snd p) @ snd q"
  by (auto simp: within_def)

text \<open>A block of exactly as many characters of a class as are asked for.\<close>

lemma repeat_class:
  assumes "list_all P xs"
  shows "repeat g (ends (Cls P)) (length xs) 0 (b, xs @ rest) = [(if xs = [] then b else Some (last xs), rest)]"
  using assms by (induction xs arbitrary: b) auto

lemma digits_exact:
  "list_all is_digit xs \<Longrightarrow> ends (digits (length xs) (length xs)) (b, xs) = [(if xs = [] then b else Some (last xs), [])]"
  using repeat_class [of is_digit xs True b "[]"] by (simp add: digits_def)

section \<open>The patterns of personal data\<close>

text \<open>\<^verbatim>\<open>_EMAIL_RE\<close>, \<^verbatim>\<open>_PESEL_RE\<close>, \<^verbatim>\<open>_NIP_RE\<close>, \<^verbatim>\<open>_IBAN_RE\<close>, \<^verbatim>\<open>_CREDIT_CARD_RE\<close> and \<^verbatim>\<open>_IP_RE\<close> of
  \<^verbatim>\<open>core/workflow_engine.py\<close>.\<close>

definition email_rx :: rx where
  "email_rx =
     seqs [plus_of (\<lambda>c. is_alnum c \<or> c \<in> set ''._%+-''), lit CHR ''@'', plus_of (\<lambda>c. is_alnum c \<or> c \<in> set ''.-''),
           lit CHR ''.'', Rep True (Cls is_letter) 2 None]"

definition pesel_rx :: rx where
  "pesel_rx = seqs [WordB, digits 11 11, WordB]"

definition nip_rx :: rx where
  "nip_rx =
     (let dash = opt (lit CHR ''-'') in
      seqs [WordB, digits 3 3, dash, digits 3 3, dash, digits 2 2, dash, digits 2 2, WordB])"

definition iban_rx :: rx where
  "iban_rx =
     (let gap = opt (Cls is_space) in
      seqs [WordB, Rep True (Cls is_upper) 2 (Some 2), digits 2 2, gap, digits 4 4, gap, digits 4 4, gap, digits 4 4, gap,
            digits 4 4, gap, digits 4 4, gap, digits 4 4, WordB])"

definition credit_card_rx :: rx where
  "credit_card_rx =
     seqs [WordB, Rep True (Seq (Cls is_digit) (Rep False (Cls (\<lambda>c. c \<in> set '' -'')) 0 None)) 13 (Some 19), WordB]"

definition ip_rx :: rx where
  "ip_rx =
     seqs [WordB, digits 1 3, lit CHR ''.'', digits 1 3, lit CHR ''.'', digits 1 3, lit CHR ''.'', digits 1 3, WordB]"

text \<open>The checks of \<^verbatim>\<open>_is_pii_value\<close> on a text of admissible length.\<close>

definition pii_text :: "string \<Rightarrow> bool" where
  "pii_text value =
     (re_search email_rx value
      \<or> re_fullmatch pesel_rx (py_strip value)
      \<or> re_fullmatch nip_rx (py_replace '' '' [] (py_strip value))
      \<or> re_search iban_rx value
      \<or> re_fullmatch ip_rx (py_strip value)
      \<or> (let v = filter (\<lambda>c. \<not> (is_space c \<or> c = CHR ''-'')) value in
         re_fullmatch credit_card_rx v \<and> 13 \<le> length v))"

text \<open>Every text of eleven digits is a PESEL number to these checks.\<close>

lemma digit_is_word: "is_digit c \<Longrightarrow> is_word c"
  by (simp add: is_word_def is_alnum_def)

lemma pesel_match:
  assumes "list_all is_digit s" and "length s = 11"
  shows "re_fullmatch pesel_rx s"
proof -
  obtain c cs where s: "s = c # cs" using assms(2) by (cases s) auto
  have "ends (digits 11 11) (None, s) = [(Some (last s), [])]"
    using digits_exact [OF assms(1), of None] assms(2) s by simp
  moreover have "is_digit (last s)" using assms(1) s by (simp add: list_all_iff)
  moreover have "is_digit c" using assms(1) s by simp
  ultimately show ?thesis using s
    by (simp add: re_fullmatch_def pesel_rx_def word_before_def word_after_def digit_is_word)
qed

end
