(* ===== verification/Engine.thy ===== *)
theory Engine
  imports Transform WorkflowGraph EngineMonad Regex
begin

text \<open>
  State and node executors of the workflow engine (\<^verbatim>\<open>core/workflow_engine.py\<close>).
  \<open>est\<close> is \<^verbatim>\<open>WorkflowContext\<close> together with what the run shares with the outside:
  the log of the calls made to connectors, and counters for new objects.  The
  action executor, the credential resolver, the HTTP client, the mock-schema
  resolver and the workflow table are the fields of \<open>engine\<close>: functions of the
  calls made so far, so that any behaviour of the outside is allowed.
  Sleeping and the clock are not modelled; the time limits put around a run never
  fire.  The branches of a parallel node and the items of a batch run one after
  another in list order.
\<close>

section \<open>Calls to the outside\<close>

datatype call =
    ActionCall pyval pyval pyval string pyval "pyval option"
  | CredentialCall pyval pyval string
  | HttpCall string string "(string \<times> string) list" pydict pyval

text \<open>The tenant on whose behalf a connector or the credential store is called.\<close>

fun call_tenant :: "call \<Rightarrow> string option" where
  "call_tenant (ActionCall _ _ _ t _ _) = Some t"
| "call_tenant (CredentialCall _ _ t) = Some t"
| "call_tenant (HttpCall _ _ _ _ _) = None"

record http_response =
  hr_status :: int
  hr_json :: "pyval option"
  hr_text :: string
  hr_headers :: "(string \<times> string) list"

section \<open>Workflows, results and executions\<close>

record workflow =
  wf_id :: string
  wf_tenant :: string
  wf_name :: string
  wf_nodes :: "node list"
  wf_edges :: "edge list"
  wf_variables :: pydict
  wf_on_error :: string
  wf_max_retries :: int
  wf_timeout_seconds :: int
  wf_is_enabled :: bool
  wf_trigger_connector :: "string option"
  wf_trigger_event :: "string option"
  wf_sync_config :: "pydict option"

datatype node_status = Running | Success | Failed | Filtered

record replay_state =
  rs_data :: pydict
  rs_vars :: pydict
  rs_outs :: pydict

text \<open>An entry of \<^verbatim>\<open>node_results\<close>.  Entries are shared mutable dictionaries in the code:
  \<open>nr_oid\<close> is the identity of the dictionary.\<close>

record node_result =
  nr_oid :: nat
  nr_node_id :: string
  nr_node_type :: string
  nr_label :: string
  nr_status :: node_status
  nr_input :: "pyval option"
  nr_output :: "pyval option"
  nr_raw_output :: "pyval option"
  nr_replay :: replay_state
  nr_error :: "string option"
  nr_retries :: "int option"

record execution =
  ex_id :: string
  ex_workflow_id :: string
  ex_tenant_id :: string
  ex_status :: string
  ex_trigger_data :: pydict
  ex_error :: "string option"
  ex_error_node_id :: "string option"
  ex_node_results :: "node_result list"
  ex_snapshot_data :: pydict
  ex_snapshot_vars :: pydict

record world =
  w_calls :: "call list"
  w_execs :: nat
  w_oids :: nat

record est = wctx +
  st_results :: "node_result list"
  st_dry_run :: bool
  st_chain :: "string list"
  st_merge_hits :: "(string \<times> int) list"
  st_visited :: "string list"
  st_completed :: "string list"
  st_world :: world

record engine =
  en_rt :: pyrt
  en_executor :: "(call list \<Rightarrow> call \<Rightarrow> pyval py) option"
  en_credentials :: "(call list \<Rightarrow> call \<Rightarrow> (pydict option \<times> string) py) option"
  en_mock_schema :: "(pyval \<Rightarrow> pyval \<Rightarrow> pyval \<Rightarrow> pydict list option) option"
  en_http :: "call list \<Rightarrow> call \<Rightarrow> http_response py"
  en_workflows :: "workflow list"
  en_new_id :: "nat \<Rightarrow> string"

type_synonym 'a eact = "(est, 'a) act"

text \<open>\<^verbatim>\<open>WorkflowContext(trigger_data)\<close>.\<close>

definition new_context :: "pydict \<Rightarrow> world \<Rightarrow> est" where
  "new_context trigger w =
     \<lparr>cx_data = trigger, cx_trigger = trigger, cx_vars = [], cx_outs = [],
      st_results = [], st_dry_run = False, st_chain = [], st_merge_hits = [],
      st_visited = [], st_completed = [], st_world = w\<rparr>"

definition set_node_output :: "string \<Rightarrow> pyval \<Rightarrow> unit eact" where
  "set_node_output node_id output = modify (\<lambda>s. s\<lparr>cx_outs := dset (cx_outs s) node_id output\<rparr>)"

definition get_node_output :: "string \<Rightarrow> 'a wctx_scheme \<Rightarrow> pyval" where
  "get_node_output node_id s = dget (cx_outs s) node_id PNone"

definition set_variable :: "string \<Rightarrow> pyval \<Rightarrow> unit eact" where
  "set_variable name v = modify (\<lambda>s. s\<lparr>cx_vars := dset (cx_vars s) name v\<rparr>)"

definition set_data :: "pydict \<Rightarrow> unit eact" where
  "set_data d = modify (\<lambda>s. s\<lparr>cx_data := d\<rparr>)"

definition mark_completed :: "string \<Rightarrow> unit eact" where
  "mark_completed node_id = modify (\<lambda>s. s\<lparr>st_completed := List.insert node_id (st_completed s)\<rparr>)"

text \<open>\<^verbatim>\<open>if isinstance(output, dict): ctx.data = {**ctx.data, **output}\<close>.\<close>

definition merge_data :: "pyval \<Rightarrow> unit eact" where
  "merge_data output =
     (case output of PDict d \<Rightarrow> modify (\<lambda>s. s\<lparr>cx_data := dmerge (cx_data s) d\<rparr>) | _ \<Rightarrow> ret ())"

text \<open>A call is logged and answered from the calls before it.\<close>

definition log_call :: "call \<Rightarrow> est \<Rightarrow> est" where
  "log_call c s = s\<lparr>st_world := (st_world s)\<lparr>w_calls := w_calls (st_world s) @ [c]\<rparr>\<rparr>"

definition do_call :: "(call list \<Rightarrow> call \<Rightarrow> 'a py) \<Rightarrow> call \<Rightarrow> 'a eact" where
  "do_call f c = (\<lambda>s. Some (f (w_calls (st_world s)) c, log_call c s))"

text \<open>A dictionary key taken from a configuration value.  Names are strings; a name of
  another hashable type is not modelled and raises.\<close>

definition as_key :: "pyval \<Rightarrow> string py" where
  "as_key v = (case v of PStr s \<Rightarrow> Inr s
     | _ \<Rightarrow> Inl (if hashable v then OtherError ''Unmodelled'' ''non-string key'' else unhashable_error v))"

text \<open>\<^verbatim>\<open>min(v, bound)\<close> on a configuration value.\<close>

definition min_config :: "pyval \<Rightarrow> int \<Rightarrow> pyval py" where
  "min_config v bound = andThen (py_cmp CLt (PInt bound) v) (\<lambda>b. Inr (if b then PInt bound else v))"

definition safe_truncate :: "pyrt \<Rightarrow> pyval \<Rightarrow> pyval" where
  "safe_truncate rt value =
     (case value of
        PStr s \<Rightarrow> (if 2000 < length s then PStr (take 2000 s @ ''...'') else value)
      | PDict d \<Rightarrow> (let s = py_str rt value in
           if 2000 < length s then PDict [(''truncated'', PBool True), (''preview'', PStr (take 2000 s))]
           else value)
      | _ \<Rightarrow> value)"

section \<open>Dry-run output\<close>

lemma length_py_strip: "length (py_strip s) \<le> length s"
  unfolding py_strip_def by (metis length_dropWhile_le length_rev order_trans)

lemma ends_with_length: "ends_with s p \<Longrightarrow> length p \<le> length s"
  by (auto simp: ends_with_def starts_with_iff dest: arg_cong [of _ _ length])

function mock_value_for_type :: "string \<Rightarrow> pyval" where
  "mock_value_for_type field_type =
     (let n = py_lower (py_strip field_type) in
      if ends_with n ''[]'' then PList [mock_value_for_type (take (length n - 2) n)]
      else if n = ''integer'' \<or> n = ''int'' then PInt 1
      else if n = ''number'' \<or> n = ''float'' \<or> n = ''decimal'' then PFloat (Fin 1)
      else if n = ''boolean'' \<or> n = ''bool'' then PBool True
      else if n = ''object'' \<or> n = ''dict'' then PDict []
      else if n = ''string'' \<or> n = ''text'' \<or> n = ''date'' \<or> n = ''datetime'' \<or> n = ''uuid''
        then PStr (''mock_'' @ n)
      else PStr ''mock_value'')"
  by pat_completeness auto

termination
proof (relation "measure length")
  fix s n assume n: "n = py_lower (py_strip s)" and e: "ends_with n ''[]''"
  from ends_with_length [OF e] have "2 \<le> length n" by simp
  moreover have "length n \<le> length s" using length_py_strip [of s] by (simp add: n py_lower_def)
  ultimately show "(take (length n - 2) n, s) \<in> measure length" by simp
qed simp

declare mock_value_for_type.simps [simp del]

definition build_mock_field :: "pyrt \<Rightarrow> pydict \<Rightarrow> pydict \<Rightarrow> pydict py" where
  "build_mock_field rt result field_def =
     (let field_name = dget field_def ''field'' PNone;
          field_type = py_str rt (dget field_def ''type'' (PStr ''string'')) in
      if \<not> truthy field_name then Inr result
      else case field_name of
        PStr key \<Rightarrow> andThen (set_nested rt False key (mock_value_for_type field_type) (PDict result))
                     (\<lambda>new. Inr (dict_of new))
      | _ \<Rightarrow> Inl (key_type_error field_name))"

definition build_mock_output :: "pyrt \<Rightarrow> pydict list \<Rightarrow> pydict py" where
  "build_mock_output rt fds = foldM (build_mock_field rt) [] fds"

section \<open>Redaction of personal data for the AI node\<close>

definition pii_placeholder :: string where "pii_placeholder = ''[RODO_REDACTED]''"

text \<open>\<^verbatim>\<open>_collect_field_paths\<close>: at most sixteen levels.\<close>

fun is_container :: "pyval \<Rightarrow> bool" where
  "is_container (PDict _) = True"
| "is_container (PList _) = True"
| "is_container _ = False"

function (sequential) collect_field_paths :: "pyval \<Rightarrow> string \<Rightarrow> nat \<Rightarrow> string list" where
  "collect_field_paths (PDict d) prefix depth =
     (if 15 < depth then []
      else List.concat (map (\<lambda>(key, child).
        let p = (if prefix \<noteq> [] then prefix @ ''.'' @ key else key) in
        if is_container child then collect_field_paths child p (Suc depth) else [p]) d))"
| "collect_field_paths (PList (x # xs)) prefix depth =
     (if 15 < depth then [] else collect_field_paths x (prefix @ ''[]'') (Suc depth))"
| "collect_field_paths v prefix depth = []"
  by pat_completeness auto
termination
  by (relation "measure (\<lambda>(v, p, n). 17 - n)") auto

definition is_pii_value :: "pyval \<Rightarrow> bool" where
  "is_pii_value v =
     (case v of PStr s \<Rightarrow> \<not> (length s < 5 \<or> 500 < length s) \<and> pii_text s | _ \<Rightarrow> False)"

function (sequential) redact_by_paths :: "string list \<Rightarrow> pyval \<Rightarrow> string \<Rightarrow> nat \<Rightarrow> pyval" where
  "redact_by_paths pii (PDict d) current depth =
     (if 20 < depth then PStr pii_placeholder
      else PDict (map (\<lambda>(key, v).
        let p = (if current \<noteq> [] then current @ ''.'' @ key else key) in
        (key,
         if p \<in> set pii then
           (case v of
              PList items \<Rightarrow> PList (map (\<lambda>item.
                if is_dict item then redact_by_paths pii item p (Suc depth) else PStr pii_placeholder) items)
            | _ \<Rightarrow> PStr pii_placeholder)
         else if is_pii_value v then PStr pii_placeholder
         else redact_by_paths pii v p (Suc depth))) d))"
| "redact_by_paths pii (PList xs) current depth =
     (if 20 < depth then PStr pii_placeholder
      else if current @ ''[]'' \<in> set pii then PList (replicate (length xs) (PStr pii_placeholder))
      else PList (map (\<lambda>item. redact_by_paths pii item current (Suc depth)) xs))"
| "redact_by_paths pii v current depth =
     (if 20 < depth then PStr pii_placeholder
      else if is_pii_value v then PStr pii_placeholder else v)"
  by pat_completeness auto
termination
  by (relation "measure (\<lambda>(pii, v, p, n). 22 - n)") auto

definition pii_list_of :: "pyrt \<Rightarrow> pyval \<Rightarrow> pyval py" where
  "pii_list_of rt result =
     (let ai_out = (case result of PDict d \<Rightarrow> dget d ''result'' result | _ \<Rightarrow> result) in
      case ai_out of
        PDict d \<Rightarrow> Inr (dget d ''pii_fields'' (PList []))
      | PList xs \<Rightarrow> Inr ai_out
      | PStr s \<Rightarrow> (case rt_json_loads rt s of Some v \<Rightarrow> Inr v
                    | None \<Rightarrow> Inl (ValueError ''Expecting value''))
      | _ \<Rightarrow> Inr (PList []))"

text \<open>\<^verbatim>\<open>_PII_CLASSIFY_PROMPT.format(field_paths=json.dumps(field_paths))\<close>.\<close>

definition pii_classify_prompt :: "pyrt \<Rightarrow> string list \<Rightarrow> string" where
  "pii_classify_prompt rt paths =
     ''You are a GDPR/RODO compliance classifier. ''
     @ ''Given the following JSON field paths, return ONLY a JSON array of paths ''
     @ ''that may contain personal data (PII). ''
     @ ''PII includes: names, surnames, emails, phones, addresses, ''
     @ ''national IDs, bank accounts, birth dates, IP addresses, ''
     @ ''login credentials, biometric data, health data. ''
     @ ''Work in ANY language. Return [] if none found. ''
     @ ''Respond with ONLY the JSON array, no explanation.'' @ newline @ newline
     @ ''Field paths:'' @ newline @ rt_json_dumps rt (PList (map PStr paths))"

definition pii_classify_payload :: "pyrt \<Rightarrow> string list \<Rightarrow> pyval" where
  "pii_classify_payload rt paths =
     PDict [(''prompt'', PStr (pii_classify_prompt rt paths)),
            (''data'', PDict [(''_task'', PStr ''field_classification''), (''field_count'', PInt (int (length paths)))]),
            (''temperature'', PFloat (Fin 0)),
            (''output_schema'', PDict [(''pii_fields'', PStr ''string[]'')])]"

definition classify_pii_fields ::
  "pyrt \<Rightarrow> (call list \<Rightarrow> call \<Rightarrow> pyval py) \<Rightarrow> string list \<Rightarrow> string \<Rightarrow> pyval \<Rightarrow> string list eact" where
  "classify_pii_fields rt exec paths tenant cred =
     (if paths = [] then ret []
      else catch
        (bnd (do_call exec (ActionCall (PStr ''ai-agent'') (PStr ''agent.analyze'') (pii_classify_payload rt paths) tenant cred None))
          (\<lambda>result. liftE (andThen (pii_list_of rt result) (\<lambda>pii_list.
             andThen (py_iter pii_list) (\<lambda>ps.
             Inr (filter (\<lambda>p. PStr p \<in> set ps) paths))))))
        (\<lambda>e. ret []))"

definition redact_pii :: "engine \<Rightarrow> pyval \<Rightarrow> string \<Rightarrow> pyval \<Rightarrow> pyval eact" where
  "redact_pii en data tenant cred =
     (let rt = en_rt en in
     bnd (case en_executor en of
            None \<Rightarrow> ret []
          | Some exec \<Rightarrow> classify_pii_fields rt exec (collect_field_paths data [] 0) tenant cred)
       (\<lambda>pii. ret (redact_by_paths pii data [] 0)))"

end
