(* ===== verification/Sorting.thy ===== *)
theory Sorting
  imports Prelude "HOL-Library.Multiset"
begin

text \<open>Python's stable \<^verbatim>\<open>sort\<close> for a comparison given as a function: elements that do not differ in the
  order keep their places.\<close>

fun insert_sorted :: "('a \<Rightarrow> 'a \<Rightarrow> bool) \<Rightarrow> 'a \<Rightarrow> 'a list \<Rightarrow> 'a list" where
  "insert_sorted lt x [] = [x]"
| "insert_sorted lt x (y # ys) = (if lt y x then y # insert_sorted lt x ys else x # y # ys)"

fun stable_sort :: "('a \<Rightarrow> 'a \<Rightarrow> bool) \<Rightarrow> 'a list \<Rightarrow> 'a list" where
  "stable_sort lt [] = []"
| "stable_sort lt (x # xs) = insert_sorted lt x (stable_sort lt xs)"

lemma mset_insert_sorted: "mset (insert_sorted lt x xs) = add_mset x (mset xs)"
  by (induction lt x xs rule: insert_sorted.induct) auto

lemma mset_stable_sort: "mset (stable_sort lt xs) = mset xs"
  by (induction lt xs rule: stable_sort.induct) (auto simp: mset_insert_sorted)

lemma set_stable_sort: "set (stable_sort lt xs) = set xs"
  using mset_stable_sort by (metis set_mset_mset)

lemma set_insert_sorted: "set (insert_sorted lt x xs) = insert x (set xs)"
  using mset_insert_sorted by (metis set_mset_add_mset_insert set_mset_mset)

text \<open>Sorted with respect to a strict weak order on the elements.\<close>

definition weak_order_on :: "'a set \<Rightarrow> ('a \<Rightarrow> 'a \<Rightarrow> bool) \<Rightarrow> bool" where
  "weak_order_on S lt \<longleftrightarrow>
     (\<forall>x \<in> S. \<forall>y \<in> S. lt x y \<longrightarrow> \<not> lt y x) \<and>
     (\<forall>x \<in> S. \<forall>y \<in> S. \<forall>z \<in> S. \<not> lt x y \<longrightarrow> \<not> lt y z \<longrightarrow> \<not> lt x z)"

lemma sorted_insert_sorted:
  assumes "weak_order_on S lt" and "x \<in> S" and "set xs \<subseteq> S" and "sorted_wrt (\<lambda>a b. \<not> lt b a) xs"
  shows "sorted_wrt (\<lambda>a b. \<not> lt b a) (insert_sorted lt x xs)"
  using assms(3,4)
proof (induction xs)
  case (Cons y ys)
  show ?case
  proof (cases "lt y x")
    case True
    have "y \<in> S" using Cons.prems(1) by simp
    with True assms(1,2) have "\<not> lt x y" unfolding weak_order_on_def by blast
    with True Cons show ?thesis by (auto simp: set_insert_sorted)
  next
    case False
    have trans: "\<not> lt a b \<Longrightarrow> \<not> lt b c \<Longrightarrow> \<not> lt a c" if "a \<in> S" "b \<in> S" "c \<in> S" for a b c
      using assms(1) that unfolding weak_order_on_def by blast
    have "\<not> lt z x" if "z \<in> set ys" for z
      by (rule trans [of z y x]) (use assms(2) Cons.prems False that in auto)
    with False Cons.prems show ?thesis by auto
  qed
qed simp

lemma sorted_stable_sort:
  "weak_order_on S lt \<Longrightarrow> set xs \<subseteq> S \<Longrightarrow> sorted_wrt (\<lambda>a b. \<not> lt b a) (stable_sort lt xs)"
  by (induction lt xs rule: stable_sort.induct) (auto simp: set_stable_sort intro!: sorted_insert_sorted)

end
