(* ===== verification/EngineExec.thy ===== *)
theory EngineExec
  imports Engine Sorting
begin

text \<open>
  The node executors of \<^verbatim>\<open>WorkflowEngine\<close> that do not run other nodes:
  \<^verbatim>\<open>_exec_action\<close>, \<^verbatim>\<open>_exec_think\<close>, \<^verbatim>\<open>_exec_condition\<close>, \<^verbatim>\<open>_exec_switch\<close>,
  \<^verbatim>\<open>_exec_transform\<close>, \<^verbatim>\<open>_exec_filter\<close>, \<^verbatim>\<open>_exec_aggregate\<close>, \<^verbatim>\<open>_exec_http_request\<close>,
  \<^verbatim>\<open>_exec_set_variable\<close>, \<^verbatim>\<open>_exec_response\<close>, \<^verbatim>\<open>_exec_error_handler\<close> and the lookup of an
  error handler.  A configuration is a dictionary of arbitrary values, so every
  access that Python would reject is a branch that raises.
\<close>

definition ctx_now :: "est eact" where
  "ctx_now = gets (\<lambda>s. s)"

section \<open>Connector actions\<close>

definition mock_fields :: "engine \<Rightarrow> pyval \<Rightarrow> pyval \<Rightarrow> pyval \<Rightarrow> pydict list" where
  "mock_fields en connector version action =
     (case en_mock_schema en of
        None \<Rightarrow> []
      | Some f \<Rightarrow> (case f connector version action of None \<Rightarrow> [] | Some fs \<Rightarrow> fs))"

definition exec_action :: "engine \<Rightarrow> workflow \<Rightarrow> pydict \<Rightarrow> pyval eact" where
  "exec_action en wfl config =
     (let connector_name = dget config ''connector_name'' (PStr []);
          action = dget config ''action'' (PStr []);
          credential_name = dget config ''credential_name'' (PStr ''default'');
          connector_version = dget config ''connector_version'' PNone in
      if \<not> truthy connector_name \<or> \<not> truthy action
      then throw (WorkflowError ''Action node missing connector_name or action'' None)
      else
      bnd ctx_now (\<lambda>ctx.
      bnd (liftE (apply_field_mapping (en_rt en) (dget config ''field_mapping'' (PList [])) ctx)) (\<lambda>payload.
      if st_dry_run ctx then
        bnd (liftE (build_mock_output (en_rt en) (mock_fields en connector_name connector_version action))) (\<lambda>mock.
        ret (PDict (dmerge [(''dry_run'', PBool True), (''connector'', connector_name), (''action'', action),
                            (''would_send'', PDict payload)] mock)))
      else case en_executor en of
        Some exec \<Rightarrow>
          do_call exec (ActionCall connector_name action (PDict payload) (wf_tenant wfl) credential_name
                          (Some connector_version))
      | None \<Rightarrow> ret (PDict [(''dispatched'', PBool True), (''connector'', connector_name), (''action'', action),
                            (''payload'', PDict payload)]))))"

section \<open>The AI node\<close>

definition load_output_schema :: "pyrt \<Rightarrow> pyval \<Rightarrow> pyval py" where
  "load_output_schema rt js =
     (if \<not> truthy js then Inr PNone
      else case js of
        PStr s \<Rightarrow> Inr (case rt_json_loads rt s of None \<Rightarrow> PNone | Some v \<Rightarrow> v)
      | _ \<Rightarrow> Inl (TypeError (''the JSON object must be str, bytes or bytearray, not '' @ type_name js)))"

text \<open>A dictionary under \<^verbatim>\<open>result\<close> is returned with the metadata of the answer.\<close>

definition unwrap_ai_result :: "pyval \<Rightarrow> pyval" where
  "unwrap_ai_result result =
     (case result of
        PDict r \<Rightarrow>
          (case map_of r ''result'' of
             Some (PDict ai) \<Rightarrow>
               PDict (dset (dset (dset ai ''_confidence'' (dget r ''confidence'' PNone))
                                 ''_analysis_id'' (dget r ''analysis_id'' PNone))
                           ''_model_used'' (dget r ''model_used'' PNone))
           | _ \<Rightarrow> result)
      | _ \<Rightarrow> result)"

definition exec_think :: "engine \<Rightarrow> workflow \<Rightarrow> pydict \<Rightarrow> pyval eact" where
  "exec_think en wfl config =
     (let rt = en_rt en;
          action = dget config ''action'' (PStr ''agent.analyze'');
          credential_name = dget config ''credential_name'' (PStr ''default'');
          template = dget config ''prompt'' (PStr []);
          temperature = dget config ''temperature'' (PFloat (rt_round rt (1 / 10))) in
      bnd (liftE (load_output_schema rt (dget config ''output_schema_json'' (PStr [])))) (\<lambda>output_schema.
      if \<not> truthy template then throw (WorkflowError ''Think node requires a prompt'' None)
      else
      bnd ctx_now (\<lambda>ctx.
      bnd (liftE (interpolate_value rt template ctx)) (\<lambda>prompt.
      if st_dry_run ctx then
        ret (PDict [(''dry_run'', PBool True), (''connector'', PStr ''ai-agent''), (''action'', action),
                    (''prompt'', PStr prompt)])
      else
      bnd (if truthy (dget config ''redact_pii'' (PBool True))
           then redact_pii en (PDict (cx_data ctx)) (wf_tenant wfl) credential_name
           else ret (PDict (cx_data ctx))) (\<lambda>send_data.
      let payload = [(''prompt'', PStr prompt), (''data'', send_data), (''temperature'', temperature)];
          payload = (if truthy output_schema then dset payload ''output_schema'' output_schema else payload) in
      case en_executor en of
        Some exec \<Rightarrow>
          bnd (do_call exec (ActionCall (PStr ''ai-agent'') action (PDict payload) (wf_tenant wfl) credential_name None))
            (\<lambda>result. ret (unwrap_ai_result result))
      | None \<Rightarrow> ret (PDict [(''dispatched'', PBool True), (''connector'', PStr ''ai-agent''), (''action'', action),
                            (''prompt'', PStr prompt)]))))))"

section \<open>Branching nodes\<close>

definition condition_results :: "pyrt \<Rightarrow> pydict \<Rightarrow> 'a wctx_scheme \<Rightarrow> bool list py" where
  "condition_results rt config ctx =
     andThen (py_iter (dget config ''conditions'' (PList [])))
       (mapM (\<lambda>c. evaluate_condition rt c ctx))"

text \<open>\<^verbatim>\<open>any(results) if logic == "or" else all(results)\<close>.\<close>

definition exec_condition :: "pyrt \<Rightarrow> pydict \<Rightarrow> 'a wctx_scheme \<Rightarrow> (pyval \<times> pyval) py" where
  "exec_condition rt config ctx =
     andThen (condition_results rt config ctx) (\<lambda>results.
     let passed = (if py_eq (dget config ''logic'' (PStr ''and'')) (PStr ''or'')
                   then list_ex id results else list_all id results);
         handle = PStr (if passed then ''true'' else ''false'')
     in Inr (PDict [(''condition_result'', PBool passed), (''handle'', handle)], handle))"

fun match_case :: "pyrt \<Rightarrow> pyval \<Rightarrow> pyval \<Rightarrow> pyval list \<Rightarrow> pyval py" where
  "match_case rt value default_handle [] = Inr default_handle"
| "match_case rt value default_handle (c # cs) =
     andThen (py_get c ''value'' (PStr [])) (\<lambda>cv.
     if py_str rt value = py_str rt cv then py_get c ''handle'' (PStr (py_str rt cv))
     else match_case rt value default_handle cs)"

definition exec_switch :: "pyrt \<Rightarrow> pydict \<Rightarrow> 'a wctx_scheme \<Rightarrow> (pyval \<times> pyval) py" where
  "exec_switch rt config ctx =
     andThen (resolve_value (dget config ''field'' (PStr [])) ctx) (\<lambda>value.
     andThen (py_iter (dget config ''cases'' (PList []))) (\<lambda>cases.
     andThen (match_case rt value (dget config ''default_handle'' (PStr ''default'')) cases) (\<lambda>handle.
     Inr (PDict [(''switch_value'', value), (''matched_case'', handle)], handle))))"

definition exec_transform :: "pyrt \<Rightarrow> pydict \<Rightarrow> 'a wctx_scheme \<Rightarrow> pyval py" where
  "exec_transform rt config ctx =
     andThen (apply_field_mapping rt (dget config ''mappings'' (PList [])) ctx) (\<lambda>result.
     andThen (py_items (dget config ''expressions'' (PDict []))) (\<lambda>exprs.
     Inr (PDict (foldl (\<lambda>d (key, expr). dset d key (evaluate_expression rt expr ctx)) result exprs))))"

definition exec_filter :: "pyrt \<Rightarrow> pydict \<Rightarrow> 'a wctx_scheme \<Rightarrow> bool py" where
  "exec_filter rt config ctx =
     andThen (condition_results rt config ctx) (\<lambda>results.
     Inr (combine_results (dget config ''logic'' (PStr ''and'')) results))"

section \<open>Aggregation of parallel results\<close>

text \<open>\<^verbatim>\<open>d.get(k, dflt)\<close> with a key of any type: the keys of a dictionary are strings.\<close>

definition key_get :: "pydict \<Rightarrow> pyval \<Rightarrow> pyval \<Rightarrow> pyval" where
  "key_get d k dflt = (case k of PStr s \<Rightarrow> dget d s dflt | _ \<Rightarrow> dflt)"

definition require_hashable :: "pyval \<Rightarrow> unit py" where
  "require_hashable v = (if hashable v then Inr () else Inl (unhashable_error v))"

text \<open>A product is annotated in place with its branch and its source.  What was annotated
  before an exception stays annotated: the second component is the exception.\<close>

definition annotate_product :: "string \<Rightarrow> pydict \<Rightarrow> pydict \<times> exn option" where
  "annotate_product branch_id p =
     (let p1 = dset p ''_branch_id'' (PStr branch_id) in
      case py_get (dget p1 ''attributes'' (PDict [])) ''source'' (PStr branch_id) of
        Inl e \<Rightarrow> (p1, Some e)
      | Inr source \<Rightarrow> (dset p1 ''_source'' source, None))"

fun annotate_products :: "string \<Rightarrow> pyval list \<Rightarrow> pyval list \<times> exn option" where
  "annotate_products branch_id [] = ([], None)"
| "annotate_products branch_id (PDict d # ps) =
     (case annotate_product branch_id d of
        (d', Some e) \<Rightarrow> (PDict d' # ps, Some e)
      | (d', None) \<Rightarrow> (let (ps', e) = annotate_products branch_id ps in (PDict d' # ps', e)))"
| "annotate_products branch_id (p # ps) =
     (let (ps', e) = annotate_products branch_id ps in (p # ps', e))"

definition annotate_branch :: "string \<Rightarrow> pyval \<Rightarrow> pyval \<times> exn option" where
  "annotate_branch branch_id branch_output =
     (case branch_output of
        PDict d \<Rightarrow>
          (case map_of d ''products'' of
             Some (PList ps) \<Rightarrow>
               (let (ps', e) = annotate_products branch_id ps in (PDict (dset d ''products'' (PList ps')), e))
           | _ \<Rightarrow> (branch_output, None))
      | _ \<Rightarrow> (branch_output, None))"

fun annotate_branches :: "pydict \<Rightarrow> pydict \<times> exn option" where
  "annotate_branches [] = ([], None)"
| "annotate_branches ((branch_id, out) # brs) =
     (case annotate_branch branch_id out of
        (out', Some e) \<Rightarrow> ((branch_id, out') # brs, Some e)
      | (out', None) \<Rightarrow> (let (brs', e) = annotate_branches brs in ((branch_id, out') # brs', e)))"

definition branch_products :: "string \<times> pyval \<Rightarrow> pydict list" where
  "branch_products br =
     (case snd br of
        PDict d \<Rightarrow> (case map_of d ''products'' of
                     Some (PList ps) \<Rightarrow> map dict_of (filter is_dict ps)
                   | _ \<Rightarrow> [])
      | _ \<Rightarrow> [])"

definition price_of :: "pyval \<Rightarrow> pydict \<Rightarrow> pyfloat option" where
  "price_of field p = as_num (key_get p field PNone)"

definition valid_price :: "pyval \<Rightarrow> pydict \<Rightarrow> bool" where
  "valid_price field p \<longleftrightarrow> (case price_of field p of Some x \<Rightarrow> float_lt (Fin 0) x | None \<Rightarrow> False)"

text \<open>\<^verbatim>\<open>list.sort\<close> by price: stable insertion; \<^verbatim>\<open>reverse=True\<close> keeps the order of equal prices.\<close>

definition price_lt :: "pyval \<Rightarrow> pydict \<Rightarrow> pydict \<Rightarrow> bool" where
  "price_lt field p q \<longleftrightarrow>
     (case (price_of field p, price_of field q) of (Some x, Some y) \<Rightarrow> float_lt x y | _ \<Rightarrow> False)"

definition dict_list :: "pydict list \<Rightarrow> pyval" where
  "dict_list ps = PList (map PDict ps)"

definition count_of :: "'a list \<Rightarrow> pyval" where
  "count_of ps = PInt (int (length ps))"

definition aggregate_first :: "pydict list \<Rightarrow> pydict" where
  "aggregate_first products =
     [(''aggregated'', dict_list products), (''winner'', PDict (hd products)), (''total_results'', count_of products)]"

definition aggregate_min :: "pyval \<Rightarrow> pyval \<Rightarrow> pydict list \<Rightarrow> pydict py" where
  "aggregate_min price_field name_field products =
     andThen (require_hashable price_field) (\<lambda>_.
     case stable_sort (price_lt price_field) (filter (valid_price price_field) products) of
       [] \<Rightarrow> Inr (aggregate_first products)
     | w # ws \<Rightarrow>
         andThen (require_hashable name_field) (\<lambda>_.
         Inr [(''aggregated'', dict_list (w # ws)), (''winner'', PDict w),
              (''cheapest_price'', key_get w price_field PNone),
              (''cheapest_source'', dget w ''_source'' (PStr [])),
              (''cheapest_name'', key_get w name_field (PStr [])),
              (''total_results'', count_of (w # ws))]))"

definition aggregate_max :: "pyval \<Rightarrow> pydict list \<Rightarrow> pydict py" where
  "aggregate_max price_field products =
     andThen (require_hashable price_field) (\<lambda>_.
     case stable_sort (\<lambda>p q. price_lt price_field q p) (filter (valid_price price_field) products) of
       [] \<Rightarrow> Inr (aggregate_first products)
     | w # ws \<Rightarrow>
         Inr [(''aggregated'', dict_list (w # ws)), (''winner'', PDict w),
              (''highest_price'', key_get w price_field PNone),
              (''highest_source'', dget w ''_source'' (PStr [])),
              (''total_results'', count_of (w # ws))])"

definition aggregate_products :: "pyval \<Rightarrow> pyval \<Rightarrow> pyval \<Rightarrow> pydict list \<Rightarrow> pydict py" where
  "aggregate_products strategy price_field name_field products =
     (if products = [] then Inr [(''aggregated'', PList []), (''winner'', PNone)]
      else if py_eq strategy (PStr ''min_price'') then aggregate_min price_field name_field products
      else if py_eq strategy (PStr ''max_price'') then aggregate_max price_field products
      else if py_eq strategy (PStr ''concat'') then
        Inr [(''aggregated'', dict_list products), (''winner'', PNone), (''total_results'', count_of products)]
      else Inr (aggregate_first products))"

text \<open>The products live in the variable that is read, which holds the annotated products
  afterwards.\<close>

definition exec_aggregate :: "pydict \<Rightarrow> pyval eact" where
  "exec_aggregate config =
     (let strategy = dget config ''strategy'' (PStr ''min_price'');
          source_var = dget config ''source_variable'' (PStr ''parallel_results'');
          price_field = dget config ''price_field'' (PStr ''price'');
          name_field = dget config ''name_field'' (PStr ''name'') in
      bnd (liftE (require_hashable source_var)) (\<lambda>_.
      bnd (gets (\<lambda>ctx. key_get (cx_vars ctx) source_var (PDict []))) (\<lambda>parallel_results.
      if \<not> truthy parallel_results then ret (PDict [(''aggregated'', PList []), (''winner'', PNone)])
      else
      bnd (liftE (py_items parallel_results)) (\<lambda>brs.
      let (branches, err) = annotate_branches brs in
      bnd (case source_var of PStr name \<Rightarrow> set_variable name (PDict branches) | _ \<Rightarrow> ret ()) (\<lambda>_.
      case err of
        Some e \<Rightarrow> throw e
      | None \<Rightarrow>
          bnd (liftE (aggregate_products strategy price_field name_field
                        (List.concat (map branch_products branches)))) (\<lambda>out.
          ret (PDict out)))))))"

section \<open>HTTP requests\<close>

definition sensitive_headers :: "string list" where
  "sensitive_headers =
     [''authorization'', ''cookie'', ''set-cookie'', ''x-api-key'', ''x-admin-secret'',
      ''x-internal-secret'', ''proxy-authorization'']"

definition safe_headers :: "(string \<times> string) list \<Rightarrow> pydict" where
  "safe_headers hs =
     foldl (\<lambda>d (k, v). dset d k (PStr (if py_lower k \<in> set sensitive_headers then ''***'' else v))) [] hs"

definition query_param :: "pyrt \<Rightarrow> 'a wctx_scheme \<Rightarrow> pydict \<Rightarrow> pyval \<Rightarrow> pydict py" where
  "query_param rt ctx params qp =
     andThen (py_get qp ''key'' (PStr [])) (\<lambda>key.
     andThen (py_get qp ''value'' (PStr [])) (\<lambda>value.
     andThen (interpolate_value rt value ctx) (\<lambda>v.
     if truthy key then andThen (as_key key) (\<lambda>k. Inr (dset params k (PStr v))) else Inr params)))"

definition with_account :: "pydict option \<Rightarrow> pydict \<Rightarrow> pydict" where
  "with_account creds params =
     (case creds of
        None \<Rightarrow> params
      | Some c \<Rightarrow> (case map_of c ''account_name'' of
           None \<Rightarrow> params
         | Some a \<Rightarrow> if dhas params ''account_name'' then params else dset params ''account_name'' a))"

definition join_url :: "string \<Rightarrow> string \<Rightarrow> string" where
  "join_url base path = rstrip_char CHR ''/'' base @ ''/'' @ lstrip_char CHR ''/'' path"

text \<open>The request assembled from the configuration.\<close>

definition build_request ::
  "pyrt \<Rightarrow> pydict \<Rightarrow> 'a wctx_scheme \<Rightarrow> pydict option \<Rightarrow> string \<Rightarrow> call py" where
  "build_request rt config ctx creds base_url =
     andThen (interpolate_value rt (dget config ''url'' (PStr [])) ctx) (\<lambda>path.
     andThen (as_str ''upper'' (dget config ''method'' (PStr ''GET''))) (\<lambda>method.
     andThen (py_items (dget config ''headers'' (PDict []))) (\<lambda>hs.
     andThen (mapM (\<lambda>(k, v). andThen (interpolate_value rt v ctx) (\<lambda>w. Inr (k, w))) hs) (\<lambda>headers.
     andThen (py_iter (dget config ''query_params'' (PList []))) (\<lambda>qps.
     andThen (foldM (query_param rt ctx) [] qps) (\<lambda>params.
     let template = dget config ''body'' PNone;
         body = (if truthy template then interpolate_dict rt ctx template else PNone) in
     andThen (min_config (dget config ''timeout_seconds'' (PInt 30)) 60) (\<lambda>_.
     Inr (HttpCall (py_upper method) (join_url base_url path) headers (with_account creds params) body))))))))"

definition response_body :: "http_response \<Rightarrow> pyval" where
  "response_body r =
     (case hr_json r of Some v \<Rightarrow> v | None \<Rightarrow> PDict [(''text'', PStr (take 2000 (hr_text r)))])"

definition exec_http_request :: "engine \<Rightarrow> workflow \<Rightarrow> pydict \<Rightarrow> pyval eact" where
  "exec_http_request en wfl config =
     (let rt = en_rt en;
          connector_name = dget config ''connector_name'' (PStr []);
          credential_name = dget config ''credential_name'' (PStr ''default'') in
      if \<not> truthy connector_name
      then throw (WorkflowError ''HTTP Request node requires connector_name'' None)
      else
      bnd ctx_now (\<lambda>ctx.
      if st_dry_run ctx then
        bnd (liftE (interpolate_value rt (dget config ''url'' (PStr [])) ctx)) (\<lambda>url.
        ret (PDict [(''dry_run'', PBool True), (''connector'', connector_name),
                    (''method'', dget config ''method'' (PStr ''GET'')), (''url'', PStr url),
                    (''status_code'', PInt 200), (''body'', PDict [])]))
      else
      bnd (case en_credentials en of
             None \<Rightarrow> ret (None, ''http://connector-'' @ py_str rt connector_name @ '':8000'')
           | Some f \<Rightarrow> do_call f (CredentialCall connector_name credential_name (wf_tenant wfl))) (\<lambda>(creds, base_url).
      bnd (liftE (build_request rt config ctx creds base_url)) (\<lambda>request.
      bnd (do_call (en_http en) request) (\<lambda>response.
      ret (PDict [(''status_code'', PInt (hr_status response)), (''body'', response_body response),
                  (''headers'', PDict (safe_headers (hr_headers response)))]))))))"

section \<open>Variables and responses\<close>

definition expression_value :: "pyrt \<Rightarrow> 'a wctx_scheme \<Rightarrow> pyval \<Rightarrow> pyval" where
  "expression_value rt ctx e =
     (case e of
        PStr s \<Rightarrow> if is_placeholder s then resolve_str (placeholder_path s) ctx else e
      | PDict _ \<Rightarrow> interpolate_dict rt ctx e
      | PList _ \<Rightarrow> interpolate_dict rt ctx e
      | _ \<Rightarrow> e)"

definition exec_set_variable :: "pyrt \<Rightarrow> pydict \<Rightarrow> pyval eact" where
  "exec_set_variable rt config =
     bnd ctx_now (\<lambda>ctx.
     let variable_name = dget config ''variable_name'' (PStr []);
         resolved = expression_value rt ctx (dget config ''value'' (PStr [])) in
     bnd (liftE (as_key variable_name)) (\<lambda>name.
     bnd (set_variable name resolved) (\<lambda>_.
     ret (PDict [(''variable'', variable_name), (''value'', resolved)]))))"

definition exec_response :: "pyrt \<Rightarrow> pydict \<Rightarrow> 'a wctx_scheme \<Rightarrow> pyval" where
  "exec_response rt config ctx =
     (let body_template = dget config ''body'' (PDict []) in
      if truthy body_template then interpolate_dict rt ctx body_template else PDict (cx_data ctx))"

section \<open>Error handlers\<close>

definition eh_set_variable :: "pyval \<Rightarrow> pyval list eact" where
  "eh_set_variable action_cfg =
     bnd (liftE (py_get action_cfg ''name'' (PStr []))) (\<lambda>var_name.
     bnd (liftE (py_get action_cfg ''value'' PNone)) (\<lambda>var_value.
     if truthy var_name then
       bnd (liftE (as_key var_name)) (\<lambda>name.
       bnd (set_variable name var_value) (\<lambda>_.
       ret [PDict [(''type'', PStr ''set_variable''), (''name'', var_name)]]))
     else ret []))"

definition eh_transform_item :: "pyrt \<Rightarrow> string \<times> pyval \<Rightarrow> unit eact" where
  "eh_transform_item rt kv =
     modify (\<lambda>s. s\<lparr>cx_data := dset (cx_data s) (fst kv) (evaluate_expression rt (snd kv) s)\<rparr>)"

definition eh_transform :: "pyrt \<Rightarrow> pyval \<Rightarrow> pyval list eact" where
  "eh_transform rt action_cfg =
     bnd (liftE (andThen (py_get action_cfg ''mappings'' (PDict [])) py_items)) (\<lambda>kvs.
     bnd (for_each (eh_transform_item rt) kvs) (\<lambda>_.
     ret [PDict [(''type'', PStr ''transform'')]]))"

definition in_names :: "pyval \<Rightarrow> string list \<Rightarrow> bool py" where
  "in_names v names =
     (if hashable v then Inr (case v of PStr s \<Rightarrow> s \<in> set names | _ \<Rightarrow> False) else Inl (unhashable_error v))"

definition notify_payload ::
  "pyrt \<Rightarrow> est \<Rightarrow> pyval \<Rightarrow> pyval \<Rightarrow> pyval \<Rightarrow> string \<Rightarrow> string \<Rightarrow> pyval py" where
  "notify_payload rt ctx error_info action_cfg connector_name message channel =
     andThen (py_get action_cfg ''payload'' PNone) (\<lambda>payload.
     if is_dict payload then Inr (interpolate_dict rt ctx payload)
     else if py_eq connector_name (PStr ''email-client'') then
       andThen (py_get error_info ''failed_node_id'' (PStr [])) (\<lambda>failed.
       andThen (py_get action_cfg ''subject'' (PStr (''Workflow error: '' @ py_str rt failed))) (\<lambda>subject.
       Inr (PDict [(''subject'', subject), (''body_text'', PStr message)])))
     else if py_eq connector_name (PStr ''slack'') then Inr (PDict [(''text'', PStr message)])
     else Inr (PDict [(''message'', PStr message), (''channel'', PStr channel)]))"

definition eh_notify :: "engine \<Rightarrow> workflow \<Rightarrow> pyval \<Rightarrow> pyval \<Rightarrow> pyval list eact" where
  "eh_notify en wfl error_info action_cfg =
     (let rt = en_rt en in
     bnd ctx_now (\<lambda>ctx.
     bnd (liftE (py_get action_cfg ''message'' (PStr []))) (\<lambda>template.
     bnd (liftE (py_get action_cfg ''channel'' (PStr ''slack''))) (\<lambda>chan.
     let message = interpolate_string rt (py_str rt template) ctx;
         stripped = py_lower (py_strip (py_str rt chan));
         channel = (if stripped = [] then ''slack'' else stripped) in
     bnd (liftE (py_get action_cfg ''connector_name''
            (PStr (if channel \<in> {''email'', ''email-client''} then ''email-client'' else channel)))) (\<lambda>connector_name.
     bnd (liftE (in_names connector_name [''slack'', ''email-client''])) (\<lambda>messaging.
     bnd (liftE (py_get action_cfg ''action''
            (PStr (if messaging then ''message.send'' else ''notify.send'')))) (\<lambda>action_name.
     bnd (liftE (notify_payload rt ctx error_info action_cfg connector_name message channel)) (\<lambda>payload.
     let entry = [(''type'', PStr ''notify''), (''channel'', PStr channel), (''connector_name'', connector_name),
                  (''action'', action_name)] in
     case (if st_dry_run ctx then None else en_executor en) of
       None \<Rightarrow> ret [PDict (entry @ [(''status'', PStr ''simulated''), (''message'', PStr message)])]
     | Some exec \<Rightarrow>
         bnd (liftE (py_get action_cfg ''credential_name'' (PStr ''default''))) (\<lambda>credential_name.
         bnd (do_call exec (ActionCall connector_name action_name payload (wf_tenant wfl) credential_name None))
           (\<lambda>notify_result.
         ret [PDict (entry @ [(''status'', PStr ''sent''), (''result'', safe_truncate rt notify_result)])]))))))))))"

definition eh_action :: "engine \<Rightarrow> workflow \<Rightarrow> pyval \<Rightarrow> pyval \<Rightarrow> pyval list eact" where
  "eh_action en wfl error_info action_cfg =
     bnd (liftE (py_get action_cfg ''type'' (PStr []))) (\<lambda>action_type.
     if py_eq action_type (PStr ''set_variable'') then eh_set_variable action_cfg
     else if py_eq action_type (PStr ''transform'') then eh_transform (en_rt en) action_cfg
     else if py_eq action_type (PStr ''notify'') then eh_notify en wfl error_info action_cfg
     else ret [])"

definition exec_error_handler :: "engine \<Rightarrow> workflow \<Rightarrow> pydict \<Rightarrow> pyval eact" where
  "exec_error_handler en wfl config =
     bnd (gets (\<lambda>s. dget (cx_vars s) ''_error'' (PDict []))) (\<lambda>error_info.
     bnd (liftE (py_iter (dget config ''actions'' (PList [])))) (\<lambda>actions.
     bnd (map_each (eh_action en wfl error_info) actions) (\<lambda>results.
     bnd (liftE (py_get error_info ''error'' (PStr []))) (\<lambda>err.
     bnd (liftE (py_get error_info ''failed_node_id'' (PStr []))) (\<lambda>failed.
     ret (PDict [(''error_handled'', PBool True), (''error'', err), (''failed_node_id'', failed),
                 (''handler_actions'', PList (List.concat results))]))))))"

fun find_handler_in :: "string \<Rightarrow> node list \<Rightarrow> node option py" where
  "find_handler_in failed_node_id [] = Inr None"
| "find_handler_in failed_node_id (n # ns) =
     (if n_type n = ''error_handler'' then
        andThen (py_in (PStr failed_node_id) (dget (n_config n) ''catch_from'' (PList []))) (\<lambda>b.
        if b then Inr (Some n) else find_handler_in failed_node_id ns)
      else find_handler_in failed_node_id ns)"

definition find_error_handler :: "graph \<Rightarrow> string \<Rightarrow> node option py" where
  "find_error_handler g failed_node_id = find_handler_in failed_node_id (map snd (g_nodes g))"

end
