(* ===== verification/EngineRun.thy ===== *)
theory EngineRun
  imports EngineExec
begin

text \<open>
  Traversal of the graph: the nodes that run other nodes (loop, parallel, batch,
  sub-workflow), \<^verbatim>\<open>_execute_single_node\<close> with its retry, error-handler and
  \<^verbatim>\<open>on_error\<close> paths, \<^verbatim>\<open>_execute_nodes\<close>, \<^verbatim>\<open>execute_workflow\<close> and
  \<^verbatim>\<open>rerun_from_node\<close>.  The recursion of the source is not bounded by the data, so
  \<open>run_single\<close> and \<open>run_workflow\<close> carry fuel, consumed once per node; running out of
  fuel is \<open>None\<close>, which no handler of the model can catch.  The bodies take what
  they call as arguments: \<open>rn\<close> runs a list of nodes at a depth, \<open>rs\<close> one node,
  \<open>rw\<close> a workflow.
\<close>

type_synonym run_nodes_fn = "node list \<Rightarrow> nat \<Rightarrow> unit eact"
type_synonym run_single_fn = "node \<Rightarrow> nat \<Rightarrow> unit eact"
type_synonym run_workflow_fn = "workflow \<Rightarrow> pydict \<Rightarrow> bool \<Rightarrow> string list \<Rightarrow> world \<Rightarrow> (execution \<times> world) option"

section \<open>Loops\<close>

text \<open>What an iteration changed of the data, and what stands in when it changed nothing.\<close>

definition changed_data :: "pydict \<Rightarrow> pydict \<Rightarrow> pydict" where
  "changed_data old_data new_data =
     filter (\<lambda>(key, val). case map_of old_data key of None \<Rightarrow> True | Some w \<Rightarrow> \<not> py_eq w val) new_data"

definition iteration_output :: "pydict \<Rightarrow> pydict \<Rightarrow> pyval \<Rightarrow> pyval" where
  "iteration_output old_data new_data item =
     (let out = changed_data old_data new_data in
      if out \<noteq> [] then PDict out else if is_dict item then item else PDict [(''value'', item)])"

definition loop_iteration ::
  "run_nodes_fn \<Rightarrow> node list \<Rightarrow> nat \<Rightarrow> pyval \<Rightarrow> pyval \<Rightarrow> nat \<times> pyval \<Rightarrow> pyval eact" where
  "loop_iteration rn body depth item_var index_var p =
     (let (i, item) = p in
      bnd (liftE (as_key item_var)) (\<lambda>iv.
      bnd (set_variable iv item) (\<lambda>_.
      bnd (liftE (as_key index_var)) (\<lambda>xv.
      bnd (set_variable xv (PInt (int i))) (\<lambda>_.
      bnd (gets cx_data) (\<lambda>old_data.
      bnd (if body \<noteq> [] then rn body (Suc depth) else ret ()) (\<lambda>_.
      bnd (gets cx_data) (\<lambda>new_data.
      ret (iteration_output old_data new_data item)))))))))"

definition slice_upto :: "'a list \<Rightarrow> pyval \<Rightarrow> 'a list py" where
  "slice_upto xs bound = andThen (slice_index bound) (\<lambda>j. Inr (py_slice xs 0 j))"

definition exec_loop :: "run_nodes_fn \<Rightarrow> engine \<Rightarrow> graph \<Rightarrow> string \<Rightarrow> pydict \<Rightarrow> nat \<Rightarrow> pyval eact" where
  "exec_loop rn en g node_id config depth =
     (let item_var = dget config ''item_variable'' (PStr ''item'');
          item_name = py_str (en_rt en) item_var;
          given = dget config ''index_variable'' PNone;
          index_var = (if truthy given then given else PStr (item_name @ ''.$index'')) in
      bnd (liftE (min_config (dget config ''max_iterations'' (PInt 100)) 1000)) (\<lambda>max_iterations.
      bnd ctx_now (\<lambda>ctx.
      bnd (liftE (resolve_value (dget config ''array_field'' (PStr [])) ctx)) (\<lambda>array_data.
      case array_data of
        PList items \<Rightarrow>
          bnd (liftE (slice_upto items max_iterations)) (\<lambda>selected.
          bnd (map_each (loop_iteration rn (get_successors g node_id (Some ''default'')) depth item_var index_var)
                 (enumerate 0 selected)) (\<lambda>loop_results.
          bnd (set_variable (item_name @ ''_results'') (PList loop_results)) (\<lambda>_.
          ret (PDict [(''loop_iterations'', count_of loop_results), (''loop_results'', PList loop_results)]))))
      | _ \<Rightarrow> ret (PDict [(''loop_iterations'', PInt 0), (''loop_results'', PList [])])))))"

section \<open>Child contexts\<close>

text \<open>Running in a context of its own: the result, and the context it ended with, are values
  for the caller; \<open>leave\<close> says what of it the caller's context takes over.\<close>

definition scoped :: "(est \<Rightarrow> est) \<Rightarrow> (est \<Rightarrow> est \<Rightarrow> est) \<Rightarrow> 'a eact \<Rightarrow> ((exn + 'a) \<times> est) eact" where
  "scoped enter leave m =
     (\<lambda>s. case m (enter s) of None \<Rightarrow> None | Some (r, t) \<Rightarrow> Some (Inr (r, t), leave s t))"

text \<open>The context of a parallel branch: copies of the data, the merge bookkeeping and the
  completed nodes shared.\<close>

definition branch_enter :: "est \<Rightarrow> est" where
  "branch_enter s =
     (new_context (cx_data s) (st_world s))
       \<lparr>cx_trigger := cx_trigger s, cx_vars := cx_vars s, cx_outs := cx_outs s,
        st_dry_run := st_dry_run s, st_chain := st_chain s, st_merge_hits := st_merge_hits s,
        st_visited := st_visited s, st_completed := st_completed s\<rparr>"

definition branch_leave :: "est \<Rightarrow> est \<Rightarrow> est" where
  "branch_leave s t =
     s\<lparr>st_merge_hits := st_merge_hits t, st_visited := st_visited t, st_completed := st_completed t,
       st_world := st_world t\<rparr>"

definition run_branch :: "run_single_fn \<Rightarrow> nat \<Rightarrow> node \<Rightarrow> (string \<times> pyval \<times> node_result list) eact" where
  "run_branch rs depth n =
     bnd (scoped branch_enter branch_leave (rs n (Suc depth))) (\<lambda>(r, t).
     ret (n_id n,
          (case r of Inr _ \<Rightarrow> get_node_output (n_id n) t | Inl e \<Rightarrow> PDict [(''error'', PStr (exn_str e))]),
          st_results t))"

definition gather_branch :: "pydict \<Rightarrow> string \<times> pyval \<times> node_result list \<Rightarrow> pydict" where
  "gather_branch results br = dset results (fst br) (fst (snd br))"

definition extend_results :: "node_result list \<Rightarrow> unit eact" where
  "extend_results rs = modify (\<lambda>s. s\<lparr>st_results := st_results s @ rs\<rparr>)"

definition exec_parallel :: "run_single_fn \<Rightarrow> graph \<Rightarrow> string \<Rightarrow> pydict \<Rightarrow> nat \<Rightarrow> pyval eact" where
  "exec_parallel rs g node_id config depth =
     (let successors = get_successors g node_id (Some ''branch'') in
      if successors = [] then ret (PDict [(''parallel_branches'', PInt 0), (''results'', PDict [])])
      else
      bnd (liftE (min_config (dget config ''timeout_seconds'' (PInt 60)) 120)) (\<lambda>_.
      bnd (map_each (run_branch rs depth) successors) (\<lambda>done.
      bnd (for_each (\<lambda>(node_id, output, results).
             bnd (set_node_output node_id output) (\<lambda>_. extend_results results)) done) (\<lambda>_.
      let results = foldl gather_branch [] done in
      bnd (set_variable ''parallel_results'' (PDict results)) (\<lambda>_.
      ret (PDict [(''parallel_branches'', count_of successors), (''results'', PDict results)]))))))"

section \<open>Batches\<close>

text \<open>The context of a batch item: copies, and no completed nodes.\<close>

definition item_enter :: "nat \<Rightarrow> pyval \<Rightarrow> est \<Rightarrow> est" where
  "item_enter idx item s =
     (new_context (cx_data s) (st_world s))
       \<lparr>cx_trigger := cx_trigger s,
        cx_vars := dset (dset (cx_vars s) ''batch_item'' item) ''batch_index'' (PInt (int idx)),
        cx_outs := cx_outs s, st_dry_run := st_dry_run s, st_chain := st_chain s,
        st_merge_hits := st_merge_hits s, st_visited := st_visited s\<rparr>"

definition item_leave :: "est \<Rightarrow> est \<Rightarrow> est" where
  "item_leave s t = s\<lparr>st_results := st_results s @ st_results t, st_world := st_world t\<rparr>"

text \<open>The outcome of an item: its index, its output or the text of its exception.\<close>

datatype batch_outcome = ItemOk nat pyval | ItemFailed int string

fun outcome_dict :: "batch_outcome \<Rightarrow> pyval" where
  "outcome_dict (ItemOk i v) =
     PDict [(''index'', PInt (int i)), (''status'', PStr ''success''), (''output'', v)]"
| "outcome_dict (ItemFailed i e) =
     PDict [(''index'', PInt i), (''status'', PStr ''failed''), (''error'', PStr e)]"

text \<open>\<^verbatim>\<open>_process_item\<close>.  A semaphore of zero permits never admits anyone; a
  \<^verbatim>\<open>throttle_ms\<close> that is not a number raises before the item's own handler.\<close>

definition process_item ::
  "run_nodes_fn \<Rightarrow> node list \<Rightarrow> nat \<Rightarrow> pyval \<Rightarrow> pyval \<Rightarrow> nat \<times> pyval \<Rightarrow> batch_outcome eact" where
  "process_item rn body depth concurrency throttle_ms p =
     (let (idx, item) = p in
      if py_eq concurrency (PInt 0) then diverge
      else
      bnd (liftE (py_cmp CGt throttle_ms (PInt 0))) (\<lambda>_.
      bnd (gets cx_data) (\<lambda>data.
      bnd (scoped (item_enter idx item) item_leave
             (if body \<noteq> [] then rn body (Suc depth) else ret ())) (\<lambda>(r, t).
      ret (case r of
             Inr _ \<Rightarrow> ItemOk idx (iteration_output data (cx_data t) item)
           | Inl e \<Rightarrow> ItemFailed (int idx) (exn_str e))))))"

text \<open>\<^verbatim>\<open>on_item_error == "stop"\<close>: up to and including the first failure.\<close>

fun process_until_error :: "(nat \<times> pyval \<Rightarrow> batch_outcome eact) \<Rightarrow> (nat \<times> pyval) list \<Rightarrow> batch_outcome list eact" where
  "process_until_error f [] = ret []"
| "process_until_error f (p # ps) =
     bnd (f p) (\<lambda>r. case r of
        ItemFailed _ _ \<Rightarrow> ret [r]
      | ItemOk _ _ \<Rightarrow> bnd (process_until_error f ps) (\<lambda>rs. ret (r # rs)))"

text \<open>\<^verbatim>\<open>asyncio.gather(..., return_exceptions=True)\<close>.\<close>

definition gather_item :: "(nat \<times> pyval \<Rightarrow> batch_outcome eact) \<Rightarrow> nat \<times> pyval \<Rightarrow> batch_outcome eact" where
  "gather_item f p = catch (f p) (\<lambda>e. ret (ItemFailed (-1) (exn_str e)))"

definition outcome_outputs :: "batch_outcome list \<Rightarrow> pyval list" where
  "outcome_outputs rs = List.concat (map (\<lambda>r. case r of ItemOk _ v \<Rightarrow> [v] | ItemFailed _ _ \<Rightarrow> []) rs)"

definition outcome_errors :: "batch_outcome list \<Rightarrow> batch_outcome list" where
  "outcome_errors rs = filter (\<lambda>r. case r of ItemFailed _ _ \<Rightarrow> True | ItemOk _ _ \<Rightarrow> False) rs"

definition batch_source :: "'a wctx_scheme \<Rightarrow> pyval \<Rightarrow> pyval py" where
  "batch_source ctx e =
     (case e of
        PStr s \<Rightarrow> Inr (resolve_str (if is_placeholder s then placeholder_path s else s) ctx)
      | _ \<Rightarrow> resolve_value e ctx)"

definition body_node :: "graph \<Rightarrow> pyval \<Rightarrow> node list py" where
  "body_node g nid =
     (case nid of
        PStr s \<Rightarrow> Inr (case get_node g s of None \<Rightarrow> [] | Some n \<Rightarrow> [n])
      | _ \<Rightarrow> if hashable nid then Inr [] else Inl (unhashable_error nid))"

definition batch_body :: "graph \<Rightarrow> string \<Rightarrow> pydict \<Rightarrow> node list py" where
  "batch_body g node_id config =
     (let ids = dget config ''body_nodes'' (PList []) in
      if truthy ids then
        andThen (py_iter ids) (\<lambda>is. andThen (mapM (body_node g) is) (\<lambda>nss. Inr (List.concat nss)))
      else Inr (get_successors g node_id (Some ''body'')))"

definition batch_summary :: "'a list \<Rightarrow> batch_outcome list \<Rightarrow> pydict" where
  "batch_summary items rs =
     [(''batch_total'', count_of items), (''batch_succeeded'', count_of (outcome_outputs rs)),
      (''batch_failed'', count_of (outcome_errors rs)), (''batch_results'', PList (outcome_outputs rs)),
      (''batch_errors'', PList (map outcome_dict (take 20 (outcome_errors rs))))]"

definition exec_batch :: "run_nodes_fn \<Rightarrow> graph \<Rightarrow> string \<Rightarrow> pydict \<Rightarrow> nat \<Rightarrow> pyval eact" where
  "exec_batch rn g node_id config depth =
     bnd (liftE (min_config (dget config ''concurrency'' (PInt 5)) 50)) (\<lambda>concurrency.
     bnd (liftE (min_config (dget config ''max_items'' (PInt 1000)) 10000)) (\<lambda>max_items.
     bnd ctx_now (\<lambda>ctx.
     bnd (liftE (batch_source ctx (dget config ''source'' (PStr [])))) (\<lambda>source.
     case source of
       PList all_items \<Rightarrow>
         bnd (liftE (slice_upto all_items max_items)) (\<lambda>items.
         bnd (liftE (batch_body g node_id config)) (\<lambda>body.
         bnd (liftE (py_cmp CLt concurrency (PInt 0))) (\<lambda>neg.
         if neg then throw (ValueError ''Semaphore initial value must be >= 0'')
         else
         let item = process_item rn body depth concurrency (dget config ''throttle_ms'' (PInt 0)) in
         bnd (if py_eq (dget config ''on_item_error'' (PStr ''continue'')) (PStr ''stop'')
              then process_until_error item (enumerate 0 items)
              else map_each (gather_item item) (enumerate 0 items)) (\<lambda>rs.
         bnd (set_variable ''batch_results'' (PList (outcome_outputs rs))) (\<lambda>_.
         ret (PDict (batch_summary items rs)))))))
     | _ \<Rightarrow> ret (PDict [(''batch_total'', PInt 0), (''batch_succeeded'', PInt 0), (''batch_failed'', PInt 0),
                        (''batch_results'', PList []), (''batch_errors'', PList [])])))))"

section \<open>Sub-workflows\<close>

definition sub_input :: "pyrt \<Rightarrow> 'a wctx_scheme \<Rightarrow> pyval \<Rightarrow> pyval" where
  "sub_input rt ctx source_expr =
     (case source_expr of
        PStr s \<Rightarrow> (if is_placeholder s then resolve_str (placeholder_path s) ctx
                  else if contains_sub s ''{{'' then PStr (interpolate_string rt s ctx)
                  else source_expr)
      | _ \<Rightarrow> source_expr)"

definition sub_trigger_data :: "pyrt \<Rightarrow> 'a wctx_scheme \<Rightarrow> pydict \<Rightarrow> pydict" where
  "sub_trigger_data rt ctx mapping =
     (let d = map (\<lambda>(k, e). (k, sub_input rt ctx e)) mapping in if d = [] then cx_data ctx else d)"

text \<open>\<^verbatim>\<open>select(Workflow).where(id == ..., tenant_id == ...)\<close>: identifiers are unique.\<close>

definition find_workflow :: "engine \<Rightarrow> pyval \<Rightarrow> string \<Rightarrow> workflow option py" where
  "find_workflow en wid tenant =
     (case wid of
        PStr s \<Rightarrow> Inr (find (\<lambda>w. wf_id w = s \<and> wf_tenant w = tenant) (en_workflows en))
      | _ \<Rightarrow> Inl (OtherError ''StatementError'' ''invalid workflow id''))"

definition sub_max_depth :: "pydict \<Rightarrow> int py" where
  "sub_max_depth config =
     (let v = dget config ''max_depth'' (PInt 5) in
      andThen (py_int (if truthy v then v else PInt 5)) (\<lambda>i. Inr (max i 1)))"

definition check_chain :: "string list \<Rightarrow> workflow \<Rightarrow> int \<Rightarrow> unit py" where
  "check_chain chain child max_depth =
     (if wf_id child \<in> set chain then
        Inl (WorkflowError (''Circular sub-workflow reference detected: '' @ py_join '' -> '' chain
               @ '' -> '' @ wf_id child) None)
      else if max_depth \<le> int (length chain) then
        Inl (WorkflowError (''Maximum sub-workflow nesting depth ('' @ int_str max_depth @ '') exceeded'') None)
      else Inr ())"

definition run_child :: "run_workflow_fn \<Rightarrow> workflow \<Rightarrow> pydict \<Rightarrow> execution eact" where
  "run_child rw child trigger =
     (\<lambda>s. case rw child trigger (st_dry_run s) (st_chain s) (st_world s) of
            None \<Rightarrow> None
          | Some (ex, w) \<Rightarrow> Some (Inr ex, s\<lparr>st_world := w\<rparr>))"

definition sub_result :: "workflow \<Rightarrow> execution \<Rightarrow> pyval py" where
  "sub_result child ex =
     (if ex_status ex = ''failed'' then
        Inl (WorkflowError (''Sub-workflow '' @ [single_quote] @ wf_name child @ [single_quote] @ '' failed: ''
               @ (case ex_error ex of None \<Rightarrow> ''None'' | Some e \<Rightarrow> e)) None)
      else Inr (PDict (dmerge
        [(''sub_workflow_id'', PStr (wf_id child)), (''sub_workflow_name'', PStr (wf_name child)),
         (''sub_execution_id'', PStr (ex_id ex)), (''sub_execution_status'', PStr (ex_status ex))]
        (ex_snapshot_data ex))))"

definition exec_sub_workflow :: "run_workflow_fn \<Rightarrow> engine \<Rightarrow> workflow \<Rightarrow> pydict \<Rightarrow> pyval eact" where
  "exec_sub_workflow rw en wfl config =
     (let sub_workflow_id = dget config ''workflow_id'' (PStr []) in
      if \<not> truthy sub_workflow_id then throw (WorkflowError ''Sub-workflow node missing workflow_id'' None)
      else
      bnd (liftE (min_config (dget config ''timeout_seconds'' (PInt 60)) 300)) (\<lambda>_.
      bnd (liftE (py_items (dget config ''input_mapping'' (PDict [])))) (\<lambda>mapping.
      bnd (gets (\<lambda>ctx. sub_trigger_data (en_rt en) ctx mapping)) (\<lambda>trigger.
      bnd (liftE (find_workflow en sub_workflow_id (wf_tenant wfl))) (\<lambda>found.
      case found of
        None \<Rightarrow> throw (WorkflowError (''Sub-workflow '' @ py_str (en_rt en) sub_workflow_id @ '' not found'') None)
      | Some child \<Rightarrow>
          bnd (liftE (sub_max_depth config)) (\<lambda>max_depth.
          bnd (gets st_chain) (\<lambda>chain.
          bnd (liftE (check_chain chain child max_depth)) (\<lambda>_.
          bnd (run_child rw child trigger) (\<lambda>ex.
          liftE (sub_result child ex))))))))))"

end
