(* ===== verification/EngineNode.thy ===== *)
theory EngineNode
  imports EngineRun
begin

text \<open>
  One node of the traversal (\<^verbatim>\<open>_execute_single_node\<close>), lists of nodes
  (\<^verbatim>\<open>_execute_nodes\<close>), whole workflows (\<^verbatim>\<open>execute_workflow\<close>), re-runs
  (\<^verbatim>\<open>rerun_from_node\<close>) and the comparison of two executions
  (\<^verbatim>\<open>diff_executions\<close>).
\<close>

section \<open>Merge nodes and result entries\<close>

text \<open>\<^verbatim>\<open>sum(1 for pid in predecessors if pid in ctx._completed_nodes)\<close>: the elements of
  \<^verbatim>\<open>_incoming\<close> are edge dictionaries, and a dictionary is not hashable.\<close>

fun executed_predecessors :: "edge list \<Rightarrow> string list \<Rightarrow> int py" where
  "executed_predecessors [] completed = Inr 0"
| "executed_predecessors (e # es) completed = Inl (unhashable_error (PDict []))"

text \<open>Whether the node goes on.\<close>

definition merge_guard :: "graph \<Rightarrow> string \<Rightarrow> bool eact" where
  "merge_guard g node_id =
     bnd ctx_now (\<lambda>ctx.
     if node_id \<in> set (st_visited ctx) then ret False
     else
     bnd (liftE (executed_predecessors (incoming_edges g node_id) (st_completed ctx))) (\<lambda>executed.
     let expected_hits = max executed 1;
         current_hits = dget (st_merge_hits ctx) node_id 0 + 1 in
     bnd (modify (\<lambda>s. s\<lparr>st_merge_hits := dset (st_merge_hits s) node_id current_hits\<rparr>)) (\<lambda>_.
     ret (\<not> current_hits < expected_hits))))"

definition alloc_oid :: "nat eact" where
  "alloc_oid =
     (\<lambda>s. Some (Inr (w_oids (st_world s)), s\<lparr>st_world := (st_world s)\<lparr>w_oids := Suc (w_oids (st_world s))\<rparr>\<rparr>))"

definition replay_of :: "'a wctx_scheme \<Rightarrow> replay_state" where
  "replay_of ctx = \<lparr>rs_data = cx_data ctx, rs_vars = cx_vars ctx, rs_outs = cx_outs ctx\<rparr>"

definition new_entry :: "pyrt \<Rightarrow> node \<Rightarrow> nat \<Rightarrow> est \<Rightarrow> node_result" where
  "new_entry rt n oid ctx =
     \<lparr>nr_oid = oid, nr_node_id = n_id n, nr_node_type = n_type n,
      nr_label = (case n_label n of None \<Rightarrow> [] | Some l \<Rightarrow> l), nr_status = Running,
      nr_input = Some (safe_truncate rt (PDict (cx_data ctx))), nr_output = None, nr_raw_output = None,
      nr_replay = replay_of ctx, nr_error = None, nr_retries = None\<rparr>"

text \<open>The entry of the running node as it is now: once appended, it is the element of
  \<^verbatim>\<open>node_results\<close> with its identity.  \<open>commit_entry\<close> appends it again; every occurrence of
  the dictionary shows its new fields.\<close>

definition current_entry :: "node_result \<Rightarrow> est \<Rightarrow> node_result" where
  "current_entry entry s =
     (case find (\<lambda>r. nr_oid r = nr_oid entry) (st_results s) of None \<Rightarrow> entry | Some r \<Rightarrow> r)"

definition commit_entry :: "node_result \<Rightarrow> (node_result \<Rightarrow> node_result) \<Rightarrow> unit eact" where
  "commit_entry entry f =
     modify (\<lambda>s. let e = f (current_entry entry s) in
       s\<lparr>st_results := map (\<lambda>r. if nr_oid r = nr_oid entry then e else r) (st_results s) @ [e]\<rparr>)"

definition entry_success :: "pyrt \<Rightarrow> pyval \<Rightarrow> node_result \<Rightarrow> node_result" where
  "entry_success rt output e =
     e\<lparr>nr_status := Success, nr_output := Some (safe_truncate rt output), nr_raw_output := Some output\<rparr>"

definition entry_failed :: "string \<Rightarrow> node_result \<Rightarrow> node_result" where
  "entry_failed msg e = e\<lparr>nr_status := Failed, nr_error := Some msg\<rparr>"

section \<open>Dispatch on the node type\<close>

datatype step_outcome = Stop | Respond pyval | Continue pyval pyval

definition exec_delay :: "pydict \<Rightarrow> unit py" where
  "exec_delay config =
     (let seconds = dget config ''seconds'' (PInt 0) in
      andThen (py_cmp CLt (PInt 0) seconds) (\<lambda>b.
      if b then andThen (py_cmp CLe seconds (PInt 60)) (\<lambda>_. Inr ()) else Inr ()))"

definition continue_with :: "pyval eact \<Rightarrow> pyval \<Rightarrow> step_outcome eact" where
  "continue_with m handle = bnd m (\<lambda>output. ret (Continue output handle))"

definition node_step ::
  "run_nodes_fn \<Rightarrow> run_single_fn \<Rightarrow> run_workflow_fn \<Rightarrow> engine \<Rightarrow> workflow \<Rightarrow> graph \<Rightarrow> node \<Rightarrow> nat \<Rightarrow> step_outcome eact" where
  "node_step rn rs rw en wfl g n depth =
     (let rt = en_rt en; config = n_config n; node_id = n_id n; ty = n_type n;
          data = gets (\<lambda>s. PDict (cx_data s)) in
      if ty = ''action'' then continue_with (exec_action en wfl config) PNone
      else if ty = ''think'' then continue_with (exec_think en wfl config) PNone
      else if ty = ''condition'' then
        bnd ctx_now (\<lambda>ctx. bnd (liftE (exec_condition rt config ctx)) (\<lambda>(output, h). ret (Continue output h)))
      else if ty = ''switch'' then
        bnd ctx_now (\<lambda>ctx. bnd (liftE (exec_switch rt config ctx)) (\<lambda>(output, h). ret (Continue output h)))
      else if ty = ''transform'' then
        bnd ctx_now (\<lambda>ctx. continue_with (liftE (exec_transform rt config ctx)) PNone)
      else if ty = ''filter'' then
        bnd ctx_now (\<lambda>ctx. bnd (liftE (exec_filter rt config ctx)) (\<lambda>passed.
          if passed then ret (Continue (PDict (cx_data ctx)) PNone) else ret Stop))
      else if ty = ''delay'' then bnd (liftE (exec_delay config)) (\<lambda>_. continue_with data PNone)
      else if ty = ''loop'' then continue_with (exec_loop rn en g node_id config depth) (PStr ''done'')
      else if ty = ''http_request'' then continue_with (exec_http_request en wfl config) PNone
      else if ty = ''set_variable'' then continue_with (exec_set_variable rt config) PNone
      else if ty = ''merge'' then
        bnd (modify (\<lambda>s. s\<lparr>st_visited := List.insert node_id (st_visited s)\<rparr>)) (\<lambda>_. continue_with data PNone)
      else if ty = ''parallel'' then continue_with (exec_parallel rs g node_id config depth) (PStr ''done'')
      else if ty = ''aggregate'' then continue_with (exec_aggregate config) PNone
      else if ty = ''sub_workflow'' then continue_with (exec_sub_workflow rw en wfl config) PNone
      else if ty = ''error_handler'' then continue_with (exec_error_handler en wfl config) PNone
      else if ty = ''batch'' then continue_with (exec_batch rn g node_id config depth) (PStr ''done'')
      else if ty = ''response'' then bnd ctx_now (\<lambda>ctx. ret (Respond (exec_response rt config ctx)))
      else ret (Continue PNone PNone))"

text \<open>\<^verbatim>\<open>None\<close> selects every successor; a handle that is not a string matches no edge.\<close>

definition successors_for :: "graph \<Rightarrow> string \<Rightarrow> pyval \<Rightarrow> node list" where
  "successors_for g node_id handle =
     (case handle of
        PNone \<Rightarrow> get_successors g node_id None
      | PStr h \<Rightarrow> get_successors g node_id (Some h)
      | _ \<Rightarrow> [])"

definition run_if_any :: "run_nodes_fn \<Rightarrow> node list \<Rightarrow> nat \<Rightarrow> unit eact" where
  "run_if_any rn nodes depth = (if nodes = [] then ret () else rn nodes depth)"

text \<open>The \<^verbatim>\<open>try\<close> block: it includes the execution of the successors.\<close>

definition try_node ::
  "run_nodes_fn \<Rightarrow> run_single_fn \<Rightarrow> run_workflow_fn \<Rightarrow> engine \<Rightarrow> workflow \<Rightarrow> graph \<Rightarrow> node \<Rightarrow> nat \<Rightarrow> node_result
    \<Rightarrow> unit eact" where
  "try_node rn rs rw en wfl g n depth entry =
     bnd (node_step rn rs rw en wfl g n depth) (\<lambda>st.
     case st of
       Stop \<Rightarrow> commit_entry entry (\<lambda>e. e\<lparr>nr_status := Filtered\<rparr>)
     | Respond output \<Rightarrow>
         bnd (set_node_output (n_id n) output) (\<lambda>_.
         bnd (mark_completed (n_id n)) (\<lambda>_.
         commit_entry entry (entry_success (en_rt en) output)))
     | Continue output handle \<Rightarrow>
         bnd (set_node_output (n_id n) output) (\<lambda>_.
         bnd (mark_completed (n_id n)) (\<lambda>_.
         bnd (merge_data output) (\<lambda>_.
         bnd (commit_entry entry (entry_success (en_rt en) output)) (\<lambda>_.
         run_if_any rn (successors_for g (n_id n) handle) (Suc depth))))))"

section \<open>Failure of a node\<close>

definition retryable :: "string \<Rightarrow> bool" where
  "retryable ty \<longleftrightarrow> ty = ''action'' \<or> ty = ''http_request'' \<or> ty = ''think''"

definition exec_retryable :: "engine \<Rightarrow> workflow \<Rightarrow> node \<Rightarrow> pyval eact" where
  "exec_retryable en wfl n =
     (if n_type n = ''action'' then exec_action en wfl (n_config n)
      else if n_type n = ''http_request'' then exec_http_request en wfl (n_config n)
      else exec_think en wfl (n_config n))"

definition retry_attempt ::
  "run_nodes_fn \<Rightarrow> engine \<Rightarrow> workflow \<Rightarrow> graph \<Rightarrow> node \<Rightarrow> nat \<Rightarrow> node_result \<Rightarrow> int \<Rightarrow> unit eact" where
  "retry_attempt rn en wfl g n depth entry attempt =
     bnd (exec_retryable en wfl n) (\<lambda>output.
     bnd (set_node_output (n_id n) output) (\<lambda>_.
     bnd (merge_data output) (\<lambda>_.
     bnd (commit_entry entry (\<lambda>e. (entry_success (en_rt en) output e)\<lparr>nr_retries := Some attempt\<rparr>)) (\<lambda>_.
     run_if_any rn (get_successors g (n_id n) None) (Suc depth)))))"

text \<open>\<open>True\<close> when an attempt succeeded.  The delay of attempt \<open>a\<close> is computed from
  \<^verbatim>\<open>1.0 * 2 ** (a - 1)\<close>, which overflows a float after attempt 1024.\<close>

fun retry_loop :: "(int \<Rightarrow> unit eact) \<Rightarrow> int list \<Rightarrow> bool eact" where
  "retry_loop f [] = ret False"
| "retry_loop f (a # as) =
     (if 1024 < a then throw (OverflowError ''int too large to convert to float'')
      else catch (bnd (f a) (\<lambda>_. ret True)) (\<lambda>_. retry_loop f as))"

definition retry_range :: "pyval \<Rightarrow> int list py" where
  "retry_range max_retries =
     (case max_retries of
        PInt m \<Rightarrow> Inr [1..m]
      | PBool b \<Rightarrow> Inr [1..(if b then 1 else 0)]
      | _ \<Rightarrow> Inl (TypeError (str_repr (type_name max_retries) @ '' object cannot be interpreted as an integer'')))"

definition retry_plan :: "workflow \<Rightarrow> node \<Rightarrow> int list py" where
  "retry_plan wfl n =
     (let on_error = dget (n_config n) ''on_error'' (PStr (wf_on_error wfl));
          max_retries = dget (n_config n) ''max_retries'' (PInt (wf_max_retries wfl)) in
      if py_eq on_error (PStr ''retry'') then
        andThen (py_cmp CGt max_retries (PInt 0)) (\<lambda>b.
        if b \<and> retryable (n_type n) then retry_range max_retries else Inr [])
      else Inr [])"

definition error_info :: "node \<Rightarrow> exn \<Rightarrow> est \<Rightarrow> pyval" where
  "error_info n exc ctx =
     PDict [(''error'', PStr (exn_str exc)), (''failed_node_id'', PStr (n_id n)),
            (''failed_node_type'', PStr (n_type n)),
            (''failed_node_label'', PStr (case n_label n of None \<Rightarrow> [] | Some l \<Rightarrow> l)),
            (''failed_node_output'', get_node_output (n_id n) ctx)]"

definition node_failed_error :: "node \<Rightarrow> exn \<Rightarrow> exn" where
  "node_failed_error n exc =
     WorkflowError (''Node '' @ [single_quote] @ (case n_label n of None \<Rightarrow> n_id n | Some l \<Rightarrow> l)
       @ [single_quote] @ '' failed: '' @ exn_str exc) (Some (n_id n))"

definition give_up ::
  "run_nodes_fn \<Rightarrow> run_single_fn \<Rightarrow> workflow \<Rightarrow> graph \<Rightarrow> node \<Rightarrow> nat \<Rightarrow> node_result \<Rightarrow> exn \<Rightarrow> unit eact" where
  "give_up rn rs wfl g n depth entry exc =
     bnd (commit_entry entry (entry_failed (exn_str exc))) (\<lambda>_.
     bnd (liftE (find_error_handler g (n_id n))) (\<lambda>h.
     case h of
       Some handler \<Rightarrow>
         bnd ctx_now (\<lambda>ctx.
         bnd (set_variable ''_error'' (error_info n exc ctx)) (\<lambda>_.
         rs handler (Suc depth)))
     | None \<Rightarrow>
         (let on_error = dget (n_config n) ''on_error'' (PStr (wf_on_error wfl)) in
          if py_eq on_error (PStr ''continue'') then
            run_if_any rn (get_successors g (n_id n) None) (Suc depth)
          else if py_eq on_error (PStr ''ignore'') then ret ()
          else throw (node_failed_error n exc))))"

definition handle_failure ::
  "run_nodes_fn \<Rightarrow> run_single_fn \<Rightarrow> engine \<Rightarrow> workflow \<Rightarrow> graph \<Rightarrow> node \<Rightarrow> nat \<Rightarrow> node_result \<Rightarrow> exn \<Rightarrow> unit eact" where
  "handle_failure rn rs en wfl g n depth entry exc =
     bnd (liftE (retry_plan wfl n)) (\<lambda>attempts.
     bnd (retry_loop (retry_attempt rn en wfl g n depth entry) attempts) (\<lambda>recovered.
     if recovered then ret () else give_up rn rs wfl g n depth entry exc))"

section \<open>One node, a list of nodes\<close>

definition single_node ::
  "run_nodes_fn \<Rightarrow> run_single_fn \<Rightarrow> run_workflow_fn \<Rightarrow> engine \<Rightarrow> workflow \<Rightarrow> graph \<Rightarrow> node \<Rightarrow> nat \<Rightarrow> unit eact" where
  "single_node rn rs rw en wfl g n depth =
     bnd (if n_type n = ''merge'' then merge_guard g (n_id n) else ret True) (\<lambda>go.
     if \<not> go then ret ()
     else
     bnd alloc_oid (\<lambda>oid.
     bnd (gets (new_entry (en_rt en) n oid)) (\<lambda>entry.
     catch (try_node rn rs rw en wfl g n depth entry)
       (handle_failure rn rs en wfl g n depth entry))))"

definition execute_nodes :: "run_single_fn \<Rightarrow> run_nodes_fn" where
  "execute_nodes rs nodes depth =
     (if 200 < depth then throw (WorkflowError ''Maximum workflow depth exceeded (possible cycle)'' None)
      else for_each (\<lambda>n. rs n depth) nodes)"

section \<open>Workflows\<close>

definition variable_default :: "pyval \<Rightarrow> pyval" where
  "variable_default v = (case v of PDict d \<Rightarrow> dget d ''default'' PNone | _ \<Rightarrow> v)"

definition initial_variables :: "workflow \<Rightarrow> pydict" where
  "initial_variables wfl = foldl (\<lambda>d (k, v). dset d k (variable_default v)) [] (wf_variables wfl)"

definition new_execution :: "engine \<Rightarrow> workflow \<Rightarrow> pydict \<Rightarrow> world \<Rightarrow> execution" where
  "new_execution en wfl trigger w =
     \<lparr>ex_id = en_new_id en (w_execs w), ex_workflow_id = wf_id wfl, ex_tenant_id = wf_tenant wfl,
      ex_status = ''running'', ex_trigger_data = trigger, ex_error = None, ex_error_node_id = None,
      ex_node_results = [], ex_snapshot_data = [], ex_snapshot_vars = []\<rparr>"

definition count_execution :: "world \<Rightarrow> world" where
  "count_execution w = w\<lparr>w_execs := Suc (w_execs w)\<rparr>"

definition trigger_entry :: "pyrt \<Rightarrow> node \<Rightarrow> pydict \<Rightarrow> nat \<Rightarrow> est \<Rightarrow> node_result" where
  "trigger_entry rt t trigger oid ctx =
     \<lparr>nr_oid = oid, nr_node_id = n_id t, nr_node_type = ''trigger'',
      nr_label = (case n_label t of None \<Rightarrow> n_id t | Some l \<Rightarrow> l), nr_status = Success, nr_input = None,
      nr_output = Some (safe_truncate rt (PDict trigger)), nr_raw_output = Some (PDict trigger),
      nr_replay = replay_of ctx, nr_error = None, nr_retries = None\<rparr>"

definition run_from_trigger :: "run_nodes_fn \<Rightarrow> pyrt \<Rightarrow> graph \<Rightarrow> pydict \<Rightarrow> unit eact" where
  "run_from_trigger rn rt g trigger =
     (case find_trigger g of
        None \<Rightarrow> throw (WorkflowError ''No trigger node found in workflow'' None)
      | Some t \<Rightarrow>
          bnd (set_node_output (n_id t) (PDict trigger)) (\<lambda>_.
          bnd (set_data trigger) (\<lambda>_.
          bnd alloc_oid (\<lambda>oid.
          bnd (gets (trigger_entry rt t trigger oid)) (\<lambda>e.
          bnd (commit_entry e (\<lambda>x. x)) (\<lambda>_.
          rn (get_successors g (n_id t) None) 0))))))"

definition timeout_message :: "string \<Rightarrow> workflow \<Rightarrow> string" where
  "timeout_message what wfl =
     what @ '' timed out after '' @ int_str (if wf_timeout_seconds wfl = 0 then 300 else wf_timeout_seconds wfl) @ ''s''"

definition finish_execution :: "string \<Rightarrow> workflow \<Rightarrow> execution \<Rightarrow> unit py \<Rightarrow> est \<Rightarrow> execution" where
  "finish_execution what wfl ex r s =
     (case r of
        Inr _ \<Rightarrow> ex\<lparr>ex_status := ''success''\<rparr>
      | Inl e \<Rightarrow>
          (if (case e of OtherError c _ \<Rightarrow> c = ''TimeoutError'' | _ \<Rightarrow> False)
           then ex\<lparr>ex_status := ''failed'', ex_error := Some (timeout_message what wfl)\<rparr>
           else ex\<lparr>ex_status := ''failed'', ex_error := Some (exn_str e), ex_error_node_id := exn_node_id e\<rparr>))
     \<lparr>ex_node_results := st_results s, ex_snapshot_data := cx_data s, ex_snapshot_vars := cx_vars s\<rparr>"

definition finish_run ::
  "string \<Rightarrow> workflow \<Rightarrow> execution \<Rightarrow> (unit py \<times> est) option \<Rightarrow> (execution \<times> world) option" where
  "finish_run what wfl ex outcome =
     (case outcome of
        None \<Rightarrow> None
      | Some (r, s) \<Rightarrow> Some (finish_execution what wfl ex r s, st_world s))"

definition start_context :: "workflow \<Rightarrow> pydict \<Rightarrow> bool \<Rightarrow> string list \<Rightarrow> world \<Rightarrow> est" where
  "start_context wfl trigger dry_run chain w =
     (new_context trigger (count_execution w))
       \<lparr>st_dry_run := dry_run, st_chain := chain @ [wf_id wfl], cx_vars := initial_variables wfl\<rparr>"

definition workflow_body :: "run_nodes_fn \<Rightarrow> engine \<Rightarrow> graph \<Rightarrow> run_workflow_fn" where
  "workflow_body rn en g wfl trigger dry_run chain w =
     finish_run ''Workflow execution'' wfl (new_execution en wfl trigger w)
       (run_from_trigger rn (en_rt en) g trigger (start_context wfl trigger dry_run chain w))"

fun run_single :: "engine \<Rightarrow> nat \<Rightarrow> workflow \<Rightarrow> graph \<Rightarrow> run_single_fn"
and run_workflow :: "engine \<Rightarrow> nat \<Rightarrow> run_workflow_fn" where
  "run_single en 0 = (\<lambda>wfl g n depth. diverge)"
| "run_single en (Suc k) = (\<lambda>wfl g n depth.
     single_node (execute_nodes (run_single en k wfl g)) (run_single en k wfl g) (run_workflow en k) en wfl g n depth)"
| "run_workflow en 0 = (\<lambda>wfl trigger dry_run chain w. None)"
| "run_workflow en (Suc k) = (\<lambda>wfl trigger dry_run chain w.
     let g = mk_graph (wf_nodes wfl) (wf_edges wfl) in
     workflow_body (execute_nodes (run_single en k wfl g)) en g wfl trigger dry_run chain w)"

text \<open>\<^verbatim>\<open>WorkflowEngine.execute_workflow\<close> called from outside, and \<^verbatim>\<open>_execute_nodes\<close>.\<close>

definition execute_workflow :: "engine \<Rightarrow> nat \<Rightarrow> workflow \<Rightarrow> pydict \<Rightarrow> bool \<Rightarrow> world \<Rightarrow> (execution \<times> world) option" where
  "execute_workflow en fuel wfl trigger dry_run w = run_workflow en fuel wfl trigger dry_run [] w"

definition run_nodes :: "engine \<Rightarrow> nat \<Rightarrow> workflow \<Rightarrow> graph \<Rightarrow> run_nodes_fn" where
  "run_nodes en fuel wfl g = execute_nodes (run_single en fuel wfl g)"

section \<open>Re-runs and comparison\<close>

definition rerun_context :: "workflow \<Rightarrow> execution \<Rightarrow> string \<Rightarrow> pydict \<Rightarrow> world \<Rightarrow> est" where
  "rerun_context wfl original from_node_id override_data w =
     (let ctx = (new_context (ex_trigger_data original) (count_execution w))\<lparr>st_chain := [wf_id wfl]\<rparr>;
          ctx = (case find (\<lambda>nr. nr_node_id nr = from_node_id) (ex_node_results original) of
                   Some nr \<Rightarrow> ctx\<lparr>cx_data := rs_data (nr_replay nr), cx_vars := rs_vars (nr_replay nr),
                                 cx_outs := rs_outs (nr_replay nr)\<rparr>
                 | None \<Rightarrow> ctx\<lparr>cx_data := ex_snapshot_data original, cx_vars := ex_snapshot_vars original\<rparr>);
          ctx = ctx\<lparr>cx_data := dmerge (cx_data ctx) override_data\<rparr>
      in ctx\<lparr>cx_vars := foldl (\<lambda>d (k, v). if dhas d k then d else dset d k (variable_default v))
                         (cx_vars ctx) (wf_variables wfl)\<rparr>)"

definition rerun_from_node ::
  "engine \<Rightarrow> nat \<Rightarrow> workflow \<Rightarrow> execution \<Rightarrow> string \<Rightarrow> pydict \<Rightarrow> world \<Rightarrow> (execution \<times> world) option" where
  "rerun_from_node en fuel wfl original from_node_id override_data w =
     (let g = mk_graph (wf_nodes wfl) (wf_edges wfl) in
      finish_run ''Re-run'' wfl (new_execution en wfl (ex_trigger_data original) w)
        ((case get_node g from_node_id of
            None \<Rightarrow> throw (WorkflowError (''Node '' @ [single_quote] @ from_node_id @ [single_quote]
                            @ '' not found in workflow'') None)
          | Some n \<Rightarrow> run_single en fuel wfl g n 0)
         (rerun_context wfl original from_node_id override_data w)))"

record node_pair_diff =
  nd_node_type :: string
  nd_label :: string
  nd_status_a :: node_status
  nd_status_b :: node_status
  nd_status_changed :: bool
  nd_input_changed :: bool
  nd_output_changed :: bool
  nd_outputs :: "(pyval option \<times> pyval option) option"

datatype node_diff =
    InBoth string node_pair_diff
  | OnlyInA string string node_status
  | OnlyInB string string node_status

text \<open>\<^verbatim>\<open>{nr["node_id"]: nr for nr in node_results}\<close>: the last entry of a node wins.\<close>

definition results_by_node :: "node_result list \<Rightarrow> (string \<times> node_result) list" where
  "results_by_node rs = foldl (\<lambda>d r. dset d (nr_node_id r) r) [] rs"

definition entry_output :: "node_result \<Rightarrow> pyval" where
  "entry_output r =
     (case nr_raw_output r of Some v \<Rightarrow> v | None \<Rightarrow> (case nr_output r of Some v \<Rightarrow> v | None \<Rightarrow> PNone))"

definition diff_pair :: "node_result \<Rightarrow> node_result \<Rightarrow> node_pair_diff" where
  "diff_pair a b =
     (let changed = \<not> py_eq (entry_output a) (entry_output b) in
      \<lparr>nd_node_type = nr_node_type a, nd_label = nr_label a, nd_status_a = nr_status a, nd_status_b = nr_status b,
       nd_status_changed = (nr_status a \<noteq> nr_status b),
       nd_input_changed = (\<not> py_eq (PDict (rs_data (nr_replay a))) (PDict (rs_data (nr_replay b)))),
       nd_output_changed = changed,
       nd_outputs = (if changed then Some (nr_output a, nr_output b) else None)\<rparr>)"

definition diff_node ::
  "(string \<times> node_result) list \<Rightarrow> (string \<times> node_result) list \<Rightarrow> string \<Rightarrow> node_diff list" where
  "diff_node nodes_a nodes_b nid =
     (case (map_of nodes_a nid, map_of nodes_b nid) of
        (Some a, Some b) \<Rightarrow> [InBoth nid (diff_pair a b)]
      | (Some a, None) \<Rightarrow> [OnlyInA nid (nr_node_type a) (nr_status a)]
      | (None, Some b) \<Rightarrow> [OnlyInB nid (nr_node_type b) (nr_status b)]
      | (None, None) \<Rightarrow> [])"

definition diff_executions :: "execution \<Rightarrow> execution \<Rightarrow> node_diff list" where
  "diff_executions exec_a exec_b =
     (let nodes_a = results_by_node (ex_node_results exec_a);
          nodes_b = results_by_node (ex_node_results exec_b);
          ids = stable_sort str_lt (remdups (map fst nodes_a @ map fst nodes_b))
      in List.concat (map (diff_node nodes_a nodes_b) ids))"

end
