(* ===== verification/Samples.thy ===== *)
theory Samples
  imports EngineNode
begin

text \<open>
  A concrete runtime, a concrete engine and small workflows.  They instantiate the
  parameters of the model, so that theorems with hypotheses about them can be
  applied to inputs that exist.
\<close>

definition sample_rt :: pyrt where
  "sample_rt =
     \<lparr>rt_round = Fin, rt_float_repr = (\<lambda>_. ''1.0''), rt_search = (\<lambda>_ _. ReNoMatch),
      rt_sub = (\<lambda>_ _ s. Some s), rt_format = (\<lambda>t _. Inr t), rt_reformat_date = (\<lambda>_ _ _. None),
      rt_json_loads = (\<lambda>_. None), rt_json_dumps = (\<lambda>_. ''[]'')\<rparr>"

definition sample_node :: "string \<Rightarrow> string \<Rightarrow> pydict \<Rightarrow> node" where
  "sample_node nid ty config = \<lparr>n_id = nid, n_type = ty, n_label = None, n_config = config\<rparr>"

definition sample_edge :: "string \<Rightarrow> string \<Rightarrow> edge" where
  "sample_edge a b = \<lparr>e_source = a, e_target = b, e_handle = ''default''\<rparr>"

definition sample_workflow :: "node list \<Rightarrow> edge list \<Rightarrow> workflow" where
  "sample_workflow nodes edges =
     \<lparr>wf_id = ''w1'', wf_tenant = ''acme'', wf_name = ''orders'', wf_nodes = nodes, wf_edges = edges,
      wf_variables = [], wf_on_error = ''stop'', wf_max_retries = 0, wf_timeout_seconds = 300,
      wf_is_enabled = True, wf_trigger_connector = Some ''shop'', wf_trigger_event = Some ''order.created'',
      wf_sync_config = None\<rparr>"

definition sample_engine :: "workflow list \<Rightarrow> engine" where
  "sample_engine table =
     \<lparr>en_rt = sample_rt, en_executor = Some (\<lambda>_ _. Inr (PDict [(''ok'', PBool True)])), en_credentials = None,
      en_mock_schema = None, en_http = (\<lambda>_ _. Inl (OtherError ''ConnectError'' ''refused'')),
      en_workflows = table, en_new_id = nat_str\<rparr>"

definition sample_world :: world where
  "sample_world = \<lparr>w_calls = [], w_execs = 0, w_oids = 0\<rparr>"

text \<open>Successors that do nothing.\<close>

definition idle :: run_nodes_fn where
  "idle nodes depth = ret ()"

text \<open>A trigger, an action, and an edge that closes a cycle.\<close>

definition action_config :: pydict where
  "action_config = [(''connector_name'', PStr ''erp''), (''action'', PStr ''order.create'')]"

definition cyclic_workflow :: workflow where
  "cyclic_workflow =
     sample_workflow [sample_node ''t'' ''trigger'' [], sample_node ''a'' ''action'' action_config]
       [sample_edge ''t'' ''a'', sample_edge ''a'' ''a'']"

text \<open>A trigger, a node that succeeds, and behind it an action without a connector.\<close>

definition deep_failure_workflow :: workflow where
  "deep_failure_workflow =
     sample_workflow
       [sample_node ''t'' ''trigger'' [], sample_node ''v'' ''set_variable'' [(''variable_name'', PStr ''x'')],
        sample_node ''b'' ''action'' []]
       [sample_edge ''t'' ''v'', sample_edge ''v'' ''b'']"

lemmas sample_defs = sample_rt_def sample_node_def sample_edge_def sample_workflow_def sample_engine_def
  sample_world_def action_config_def cyclic_workflow_def deep_failure_workflow_def

section \<open>Evaluation of runs on concrete inputs\<close>

text \<open>A strategy for the simplifier: run the first step of a sequence before looking at the
  rest, and do not look inside the callbacks.\<close>

definition bnd_case :: "((exn + 'a) \<times> 's) option \<Rightarrow> ('a \<Rightarrow> ('s, 'b) act) \<Rightarrow> ((exn + 'b) \<times> 's) option" where
  "bnd_case r f = (case r of None \<Rightarrow> None | Some (Inl e, s') \<Rightarrow> Some (Inl e, s') | Some (Inr x, s') \<Rightarrow> f x s')"

definition catch_case :: "((exn + 'a) \<times> 's) option \<Rightarrow> (exn \<Rightarrow> ('s, 'a) act) \<Rightarrow> ((exn + 'a) \<times> 's) option" where
  "catch_case r h = (case r of None \<Rightarrow> None | Some (Inl e, s') \<Rightarrow> h e s' | Some (Inr x, s') \<Rightarrow> Some (Inr x, s'))"

lemma bnd_run: "bnd m f s = bnd_case (m s) f"
  by (simp add: bnd_def bnd_case_def)

lemma catch_run: "catch m h s = catch_case (m s) h"
  by (simp add: catch_def catch_case_def)

lemma case_run:
  "bnd_case None f = None" "bnd_case (Some (Inl e, s)) f = Some (Inl e, s)" "bnd_case (Some (Inr x, s)) f = f x s"
  "catch_case None h = None" "catch_case (Some (Inl e, s)) h = h e s" "catch_case (Some (Inr y, s)) h = Some (Inr y, s)"
  by (simp_all add: bnd_case_def catch_case_def)

lemma loop_run:
  "for_each f [] s = Some (Inr (), s)" "for_each f (x # xs) s = bnd (f x) (\<lambda>_. for_each f xs) s"
  "map_each h [] s = Some (Inr [], s)" "map_each h (y # ys) s = bnd (h y) (\<lambda>z. bnd (map_each h ys) (\<lambda>zs. ret (z # zs))) s"
  by simp_all

lemma run_single_run:
  "run_single en (Suc k) wfl g n depth s =
     single_node (execute_nodes (run_single en k wfl g)) (run_single en k wfl g) (run_workflow en k) en wfl g n depth s"
  by simp

lemma run_cong:
  "s = s' \<Longrightarrow> bnd m f s = bnd m f s'"
  "s = s' \<Longrightarrow> catch m h s = catch m h s'"
  "r = r' \<Longrightarrow> bnd_case r f = bnd_case r' f"
  "r = r' \<Longrightarrow> catch_case r h = catch_case r' h"
  "xs = xs' \<Longrightarrow> s = s' \<Longrightarrow> for_each k xs s = for_each k xs' s'"
  "n = n' \<Longrightarrow> s = s' \<Longrightarrow> single_node rn rs rw en wfl g n depth s = single_node rn rs rw en wfl g n' depth s'"
  "n = n' \<Longrightarrow> s = s' \<Longrightarrow> run_single en fuel wfl g n depth s = run_single en fuel wfl g n' depth s'"
  "execute_nodes rs ns depth s = execute_nodes rs ns depth s"
  "run_if_any rn ns depth s = run_if_any rn ns depth s"
  "try_node rn rs rw en wfl g n depth e s = try_node rn rs rw en wfl g n depth e s"
  "node_step rn rs rw en wfl g n depth s = node_step rn rs rw en wfl g n depth s"
  "handle_failure rn rs en wfl g n depth e x s = handle_failure rn rs en wfl g n depth e x s"
  "give_up rn rs wfl g n depth e x s = give_up rn rs wfl g n depth e x s"
  "run_from_trigger rn rt g tr s = run_from_trigger rn rt g tr s"
  by simp_all

lemmas run_eval = bnd_run catch_run case_run loop_run run_single_run

lemmas state_defs = set_node_output_def set_variable_def set_data_def mark_completed_def merge_data_def dmerge_def
  alloc_oid_def commit_entry_def current_entry_def new_entry_def trigger_entry_def replay_of_def
  entry_success_def entry_failed_def ctx_now_def do_call_def log_call_def

lemmas traversal_defs = execute_workflow_def workflow_body_def finish_run_def finish_execution_def new_execution_def
  run_from_trigger_def find_trigger_def start_context_def new_context_def initial_variables_def count_execution_def
  mk_graph_def push_edge_def dget_def dhas_def Let_def execute_nodes_def get_successors_def get_node_def
  single_node_def try_node_def node_step_def continue_with_def run_if_any_def successors_for_def
  handle_failure_def retry_plan_def give_up_def find_error_handler_def node_failed_error_def

lemmas executor_defs = exec_action_def exec_set_variable_def expression_value_def is_placeholder_def as_key_def

lemmas text_eval = char_of_def bit_0 contains_sub_def py_split_def py_split_acc.simps py_split1_def ends_with_def

lemmas engine_eval = run_eval state_defs traversal_defs executor_defs sample_defs

lemma deep_failure_run:
  "\<exists>ex w'. execute_workflow (sample_engine []) (Suc (Suc (Suc 0))) deep_failure_workflow [] False sample_world = Some (ex, w')
      \<and> ex_error_node_id ex = Some ''v''"
  by (simp del: bnd_eval catch_eval run_single.simps(2) for_each.simps add: engine_eval cong: run_cong)

end
