(* ===== verification/AgentProps.thy ===== *)
theory AgentProps
  imports AgentQueue Samples
begin

text \<open>
  Properties of the queue of the on-premise agent over any sequence of cycles: how often an operation is posted, in which
  order, and what an outage of the cloud does to it.
\<close>

section \<open>The invariant\<close>

type_synonym post_log = "(nat \<times> pyval \<times> cloud_answer) list"

definition accepted :: "cloud_answer \<Rightarrow> bool" where
  "accepted r = (case r of CloudAnswer code _ \<Rightarrow> code < 300 | _ \<Rightarrow> False)"

text \<open>What became of the posts of one operation.\<close>

definition outcomes :: "nat \<Rightarrow> post_log \<Rightarrow> bool list" where
  "outcomes i posts = map (\<lambda>(j, m, r). accepted r) (filter (\<lambda>(j, m, r). j = i) posts)"

definition item_ok :: "post_log \<Rightarrow> queue_item \<Rightarrow> bool" where
  "item_ok posts x \<longleftrightarrow> qi_max_attempts x = 5
     \<and> outcomes (qi_id x) posts = replicate (qi_attempts x) False @ (if qi_status x = ''processed'' then [True] else [])
     \<and> (qi_status x \<in> {''pending'', ''processed''} \<and> qi_attempts x < 5 \<or> qi_status x = ''dead_letter'' \<and> qi_attempts x = 5)"

definition queue_ok :: "post_log \<Rightarrow> agent_db \<Rightarrow> bool" where
  "queue_ok posts db \<longleftrightarrow> sorted_wrt (<) (map qi_id (aq_items db))
     \<and> (\<forall>x \<in> set (aq_items db). qi_id x < aq_next_id db \<and> item_ok posts x) \<and> (\<forall>e \<in> set posts. fst e < aq_next_id db)"

definition agent_ok :: "agent \<Rightarrow> bool" where
  "agent_ok s \<longleftrightarrow> queue_ok (ag_posted s) (ag_db s)"

lemma outcomes_append [simp]: "outcomes i (posts @ [(j, m, r)]) = outcomes i posts @ (if j = i then [accepted r] else [])"
  by (simp add: outcomes_def)

lemma outcomes_none: "\<forall>e \<in> set posts. fst e < n \<Longrightarrow> outcomes n posts = []"
  by (auto simp: outcomes_def filter_empty_conv)

lemma queue_ok_enqueue: "queue_ok posts db \<Longrightarrow> queue_ok posts (snd (enqueue dumps entity operation payload db))"
  by (auto simp: queue_ok_def enqueue_def new_item_def item_ok_def sorted_wrt_append outcomes_none less_Suc_eq)

lemma queue_ok_sync_state [simp]: "queue_ok posts (update_sync_state now name direction i db) = queue_ok posts db"
  by (simp add: queue_ok_def update_sync_state_def)

lemma queue_ok_queue_items: "queue_ok posts db \<Longrightarrow> queue_ok posts (snd (queue_items ae entity last_sync xs n db))"
  by (induction ae entity last_sync xs n db rule: queue_items.induct) (auto simp: queue_ok_enqueue split: sum.splits bool.splits)

lemma queue_ok_outbound_list: "queue_ok posts db \<Longrightarrow> queue_ok posts (sync_outbound_list ae now entity name items db)"
proof -
  assume ok: "queue_ok posts db"
  have "queue_ok posts (snd (queue_items ae entity (map_option sy_last_sync_at (get_sync_state name ''outbound'' db)) xs 0 db))" for xs
    using ok by (rule queue_ok_queue_items)
  then show "queue_ok posts (sync_outbound_list ae now entity name items db)"
    using ok by (cases items) (auto simp: sync_outbound_list_def split: sum.splits prod.splits dest: spec sndI)
qed

lemma queue_ok_outbound_stock: "queue_ok posts db \<Longrightarrow> queue_ok posts (sync_outbound_stock ae now stock db)"
  by (auto simp: sync_outbound_stock_def queue_ok_enqueue split: sum.splits)

lemma item_unique:
  assumes "queue_ok posts db" and "x \<in> set (aq_items db)" and "y \<in> set (aq_items db)" and "qi_id x = qi_id y"
  shows "x = y"
proof -
  have "distinct (map qi_id (aq_items db))" using assms(1) by (simp add: queue_ok_def strict_sorted_iff)
  with assms(2-4) show ?thesis by (auto simp: distinct_map inj_on_def)
qed

text \<open>The change of a row that an answer of the cloud leads to.\<close>

definition marked_row :: "string \<Rightarrow> cloud_answer \<Rightarrow> string \<Rightarrow> queue_item \<Rightarrow> queue_item" where
  "marked_row now r error x =
     (if accepted r then x\<lparr>qi_status := ''processed'', qi_processed_at := Some now\<rparr>
      else x\<lparr>qi_attempts := qi_attempts x + 1, qi_error := Some error,
             qi_status := if qi_max_attempts x \<le> qi_attempts x + 1 then ''dead_letter'' else ''pending''\<rparr>)"

definition marked :: "string \<Rightarrow> cloud_answer \<Rightarrow> string \<Rightarrow> nat \<Rightarrow> agent_db \<Rightarrow> agent_db" where
  "marked now r error i = update_item i (marked_row now r error)"

lemma mark_is_marked:
  "accepted r \<Longrightarrow> mark_processed now i = marked now r error i" "\<not> accepted r \<Longrightarrow> mark_failed i error = marked now r error i"
  by (simp_all add: marked_def mark_processed_def mark_failed_def marked_row_def [abs_def])

lemma items_marked: "aq_items (marked now r error i db) = map (\<lambda>x. if qi_id x = i then marked_row now r error x else x) (aq_items db)"
  and next_marked [simp]: "aq_next_id (marked now r error i db) = aq_next_id db"
  by (simp_all add: marked_def update_item_def)

lemma id_marked_row [simp]: "qi_id (marked_row now r error x) = qi_id x"
  by (simp add: marked_row_def)

lemma ids_marked [simp]: "map qi_id (aq_items (marked now r error i db)) = map qi_id (aq_items db)"
  by (simp add: items_marked)

lemma item_ok_marked_row: "item_ok posts x \<Longrightarrow> is_pending x \<Longrightarrow> item_ok (posts @ [(qi_id x, m, r)]) (marked_row now r error x)"
  by (auto simp: item_ok_def is_pending_def marked_row_def replicate_append_same)

lemma queue_ok_marked:
  assumes ok: "queue_ok posts db" and x: "x \<in> set (aq_items db)" "is_pending x"
  shows "queue_ok (posts @ [(qi_id x, m, r)]) (marked now r error (qi_id x) db)"
proof -
  have "item_ok (posts @ [(qi_id x, m, r)]) (if qi_id z = qi_id x then marked_row now r error z else z)" if z: "z \<in> set (aq_items db)" for z
  proof (cases "qi_id z = qi_id x")
    case True
    with item_unique [OF ok z x(1)] have "z = x" by simp
    then show ?thesis using ok x by (auto simp: queue_ok_def item_ok_marked_row)
  next
    case False
    with ok z show ?thesis by (auto simp: queue_ok_def item_ok_def)
  qed
  moreover have "qi_id (if qi_id z = qi_id x then marked_row now r error z else z) < aq_next_id db" if "z \<in> set (aq_items db)" for z
    using that ok by (auto simp: queue_ok_def)
  ultimately have "\<forall>y \<in> set (aq_items (marked now r error (qi_id x) db)). qi_id y < aq_next_id db \<and> item_ok (posts @ [(qi_id x, m, r)]) y"
    unfolding items_marked set_map by blast
  then show ?thesis using ok x(1) by (auto simp: queue_ok_def)
qed

section \<open>Posting\<close>

text \<open>One post, whatever the cloud answers.\<close>

definition after_post :: "agent_env \<Rightarrow> string \<Rightarrow> queue_item \<Rightarrow> pyval \<Rightarrow> cloud_answer \<Rightarrow> string \<Rightarrow> agent \<Rightarrow> agent" where
  "after_post ae now x v r error s =
     s\<lparr>ag_posted := ag_posted s @ [(qi_id x, sync_message ae x v, r)], ag_db := marked now r error (qi_id x) (ag_db s)\<rparr>"

lemma flush_items_step:
  obtains r error where "r = cloud (length (ag_posted s)) (sync_message ae x v)"
    "flush_items ae rn cloud ((x, v) # rest) s =
       (case r of CloudAnswer _ _ \<Rightarrow> flush_items ae rn cloud rest (after_post ae (snd rn) x v r error s)
        | CloudUnreachable _ \<Rightarrow> (Inr (), after_post ae (snd rn) x v r error s) | CloudRaise e \<Rightarrow> (Inl e, s))"
proof (rule that [OF refl])
  let ?r = "cloud (length (ag_posted s)) (sync_message ae x v)"
  let ?error = "case ?r of CloudAnswer code text \<Rightarrow> ''HTTP '' @ py_str (fst rn) (PInt code) @ '': '' @ take 200 text | CloudUnreachable e \<Rightarrow> e | CloudRaise e \<Rightarrow> []"
  show "flush_items ae rn cloud ((x, v) # rest) s =
      (case ?r of CloudAnswer _ _ \<Rightarrow> flush_items ae rn cloud rest (after_post ae (snd rn) x v ?r ?error s)
        | CloudUnreachable _ \<Rightarrow> (Inr (), after_post ae (snd rn) x v ?r ?error s) | CloudRaise e \<Rightarrow> (Inl e, s))"
    by (cases ?r) (auto simp: post_item_def Let_def after_post_def accepted_def mark_is_marked(1) [where r = ?r and error = ?error]
        mark_is_marked(2) [where r = ?r and now = "snd rn"])
qed

text \<open>The rows that are still to be posted are pending.\<close>

definition still_pending :: "agent_db \<Rightarrow> (queue_item \<times> pyval) list \<Rightarrow> bool" where
  "still_pending db rows \<longleftrightarrow> distinct (map (\<lambda>row. qi_id (fst row)) rows) \<and> (\<forall>(x, v) \<in> set rows. x \<in> set (aq_items db) \<and> is_pending x)"

lemma still_pending_marked:
  assumes "still_pending db ((x, v) # rest)"
  shows "still_pending (marked now r error (qi_id x) db) rest"
proof -
  have "y \<in> set (aq_items (marked now r error (qi_id x) db))" if "(y, w) \<in> set rest" for y w
  proof -
    have "qi_id y \<noteq> qi_id x" "y \<in> set (aq_items db)" using assms that by (force simp: still_pending_def)+
    then show ?thesis by (force simp: items_marked)
  qed
  with assms show ?thesis by (auto simp: still_pending_def)
qed

lemma flush_items_ok: "agent_ok s \<Longrightarrow> still_pending (ag_db s) rows \<Longrightarrow> agent_ok (snd (flush_items ae rn cloud rows s))"
proof (induction rows arbitrary: s)
  case (Cons row rest)
  obtain x v where row: "row = (x, v)" by fastforce
  obtain r error where step: "flush_items ae rn cloud ((x, v) # rest) s =
       (case r of CloudAnswer _ _ \<Rightarrow> flush_items ae rn cloud rest (after_post ae (snd rn) x v r error s)
        | CloudUnreachable _ \<Rightarrow> (Inr (), after_post ae (snd rn) x v r error s) | CloudRaise e \<Rightarrow> (Inl e, s))"
    by (rule flush_items_step)
  let ?s1 = "after_post ae (snd rn) x v r error s"
  have "x \<in> set (aq_items (ag_db s))" "is_pending x" using Cons.prems(2) row by (auto simp: still_pending_def)
  then have ok: "agent_ok ?s1" using Cons.prems(1) queue_ok_marked by (simp add: agent_ok_def after_post_def)
  moreover have "still_pending (ag_db ?s1) rest"
    using still_pending_marked [of "ag_db s" x v rest] Cons.prems(2) row by (simp add: after_post_def)
  ultimately have "agent_ok (snd (flush_items ae rn cloud rest ?s1))" by (rule Cons.IH)
  with ok Cons.prems(1) show ?case unfolding row step by (cases r) simp_all
qed simp

lemma pending_rows_in_order: "queue_ok posts db \<Longrightarrow> pending_rows limit db = take limit (filter is_pending (aq_items db))"
proof -
  assume "queue_ok posts db"
  then have "sorted (map qi_id (filter is_pending (aq_items db)))"
    by (auto simp: queue_ok_def sorted_wrt_map intro: sorted_wrt_filter sorted_wrt_mono_rel [of _ "\<lambda>x y. qi_id x < qi_id y"])
  then show "pending_rows limit db = take limit (filter is_pending (aq_items db))" by (simp add: pending_rows_def sort_key_id_if_sorted)
qed

lemma get_pending_rows:
  assumes "get_pending loads limit db = Inr rows"
  shows "map fst rows = pending_rows limit db"
proof -
  have "mapM (\<lambda>x. andThen (loads (qi_payload x)) (\<lambda>v. Inr (x, v))) xs = Inr ys \<Longrightarrow> map fst ys = xs" for xs ys
    by (induction xs arbitrary: ys) (auto elim!: andThen_InrE)
  with assms show ?thesis by (simp add: get_pending_def)
qed

lemma get_pending_still_pending:
  assumes "queue_ok posts db" and "get_pending loads limit db = Inr rows"
  shows "still_pending db rows"
proof -
  have rows: "map fst rows = take limit (filter is_pending (aq_items db))"
    using get_pending_rows [OF assms(2)] pending_rows_in_order [OF assms(1)] by simp
  have "distinct (map qi_id (aq_items db))" using assms(1) by (simp add: queue_ok_def strict_sorted_iff)
  then have "distinct (map qi_id (map fst rows))" unfolding rows by (simp add: distinct_map_filter take_map [symmetric] del: take_map)
  moreover have "x \<in> set (aq_items db) \<and> is_pending x" if "(x, v) \<in> set rows" for x v
  proof -
    have "x \<in> set (map fst rows)" using that by force
    then show ?thesis unfolding rows by (auto dest: in_set_takeD)
  qed
  ultimately show ?thesis by (auto simp: still_pending_def comp_def)
qed

lemma flush_queue_ok: "agent_ok s \<Longrightarrow> agent_ok (snd (flush_queue ae rn cloud s))"
  by (auto simp: flush_queue_def agent_ok_def [of s] intro: flush_items_ok get_pending_still_pending split: sum.splits)

lemma queue_ok_outbound: "queue_ok posts db \<Longrightarrow> queue_ok posts (sync_outbound ae cy db)"
  by (simp add: sync_outbound_def queue_ok_outbound_list queue_ok_outbound_stock)

lemma cycle_ok:
  assumes "agent_ok s"
  shows "agent_ok (snd (run_sync_cycle ae rt cy s))"
proof -
  have "agent_ok (s\<lparr>ag_db := sync_outbound ae cy (ag_db s)\<rparr>)" using assms by (simp add: agent_ok_def queue_ok_outbound)
  with flush_queue_ok assms show ?thesis by (simp add: run_sync_cycle_def)
qed

interpretation agent_cycles: inv_machine "\<lambda>s cy. snd (run_sync_cycle ae rt cy s)" agent_ok for ae rt
  by unfold_locales (rule cycle_ok)

definition fresh_agent :: agent where
  "fresh_agent = \<lparr>ag_db = empty_queue, ag_posted = []\<rparr>"

lemma loop_ok: "agent_ok s \<Longrightarrow> agent_ok (agent_loop ae rt cycles s)"
  using agent_cycles.run_inv by (simp add: agent_loop_def agent_cycles.run_def)

lemma fresh_agent_ok: "agent_ok fresh_agent"
  by (simp add: agent_ok_def fresh_agent_def empty_queue_def queue_ok_def)

lemma failures_then_success [simp]: "replicate n False @ [True] \<noteq> replicate m False"
proof
  assume "replicate n False @ [True] = replicate m False"
  then have "True \<in> set (replicate m False)" by (metis in_set_conv_decomp)
  then show False by simp
qed

text \<open>C18: Whatever the ERP system holds and the cloud answers, over any sequence of cycles an operation of the queue is posted at most
  five times and never again once it was accepted; it is marked as processed exactly when its last post was accepted, and
  given up exactly after five posts that were not.\<close>

theorem operation_is_posted_until_accepted:
  assumes "x \<in> set (aq_items (ag_db (agent_loop ae rt cycles fresh_agent)))"
    and "os = outcomes (qi_id x) (ag_posted (agent_loop ae rt cycles fresh_agent))"
  shows "length os \<le> 5 \<and> True \<notin> set (butlast os)
    \<and> (qi_status x = ''processed'' \<longleftrightarrow> True \<in> set os) \<and> (qi_status x = ''dead_letter'' \<longleftrightarrow> os = replicate 5 False)
    \<and> (qi_status x = ''pending'' \<longleftrightarrow> True \<notin> set os \<and> length os < 5)"
proof -
  have "item_ok (ag_posted (agent_loop ae rt cycles fresh_agent)) x"
    using loop_ok [OF fresh_agent_ok, of ae rt cycles] assms(1) by (auto simp: agent_ok_def queue_ok_def)
  then show ?thesis unfolding assms(2) by (auto simp: item_ok_def butlast_append dest: in_set_butlastD)
qed

definition sample_agent_env :: agent_env where
  "sample_agent_env =
     \<lparr>ag_dumps = (\<lambda>_. ''{}''), ag_loads = (\<lambda>_. Inr (PDict [])), ag_cloud_url = ''https://cloud'', ag_api_key = ''key'', ag_agent_id = ''a''\<rparr>"

definition sample_cycle :: "nat \<Rightarrow> cloud_answer \<Rightarrow> cycle_input" where
  "sample_cycle items answer =
     \<lparr>cy_connected = True, cy_contractors = Inr [], cy_products = Inr [], cy_stock = Inr (items, PDict []), cy_cloud = (\<lambda>_ _. answer), cy_now = ''t''\<rparr>"

lemmas sample_agent_defs = agent_loop_def run_sync_cycle_def sync_outbound_def sync_outbound_list_def sync_outbound_stock_def sample_cycle_def sample_agent_env_def
  fresh_agent_def empty_queue_def enqueue_def new_item_def update_sync_state_def flush_queue_def get_pending_def pending_rows_def is_pending_def
  post_item_def mark_failed_def mark_processed_def
  update_item_def sync_message_def outcomes_def accepted_def Let_def

theorem operation_is_posted_until_accepted_witness:
  "\<exists>x \<in> set (aq_items (ag_db (agent_loop sample_agent_env sample_rt [sample_cycle 1 (CloudUnreachable []), sample_cycle 0 (CloudAnswer 200 [])] fresh_agent))).
     qi_status x = ''processed'' \<and> outcomes (qi_id x)
       (ag_posted (agent_loop sample_agent_env sample_rt [sample_cycle 1 (CloudUnreachable []), sample_cycle 0 (CloudAnswer 200 [])] fresh_agent)) = [False, True]"
proof -
  let ?s = "agent_loop sample_agent_env sample_rt [sample_cycle 1 (CloudUnreachable []), sample_cycle 0 (CloudAnswer 200 [])] fresh_agent"
  have run: "map qi_id (aq_items (ag_db ?s)) = [1]" "outcomes 1 (ag_posted ?s) = [False, True]" by (simp_all add: sample_agent_defs)
  then obtain x where x: "x \<in> set (aq_items (ag_db ?s))" "qi_id x = 1" by (metis (no_types, lifting) imageE list.set_intros(1) set_map)
  from operation_is_posted_until_accepted [OF x(1) refl] have "qi_status x = ''processed''" using x(2) run(2) by simp
  with x run(2) show ?thesis by auto
qed

section \<open>Order\<close>

lemma flush_items_in_order:
  "\<exists>k. map fst (ag_posted (snd (flush_items ae rn cloud rows s))) = map fst (ag_posted s) @ take k (map (\<lambda>row. qi_id (fst row)) rows)"
proof (induction rows arbitrary: s)
  case (Cons row rest)
  obtain x v where row: "row = (x, v)" by fastforce
  obtain r error where step: "flush_items ae rn cloud ((x, v) # rest) s =
       (case r of CloudAnswer _ _ \<Rightarrow> flush_items ae rn cloud rest (after_post ae (snd rn) x v r error s)
        | CloudUnreachable _ \<Rightarrow> (Inr (), after_post ae (snd rn) x v r error s) | CloudRaise e \<Rightarrow> (Inl e, s))"
    by (rule flush_items_step)
  obtain k where k: "map fst (ag_posted (snd (flush_items ae rn cloud rest (after_post ae (snd rn) x v r error s))))
      = map fst (ag_posted (after_post ae (snd rn) x v r error s)) @ take k (map (\<lambda>row. qi_id (fst row)) rest)"
    using Cons.IH by blast
  show ?case unfolding row step
  proof (cases r)
    case (CloudAnswer code t)
    with k show "\<exists>k. map fst (ag_posted (snd (case r of CloudAnswer _ _ \<Rightarrow> flush_items ae rn cloud rest (after_post ae (snd rn) x v r error s)
        | CloudUnreachable _ \<Rightarrow> (Inr (), after_post ae (snd rn) x v r error s) | CloudRaise e \<Rightarrow> (Inl e, s))))
      = map fst (ag_posted s) @ take k (map (\<lambda>row. qi_id (fst row)) ((x, v) # rest))"
      by (intro exI [of _ "Suc k"]) (simp add: after_post_def)
  qed (auto simp: after_post_def intro: exI [of _ 1] exI [of _ 0])
qed simp

text \<open>A flush posts the oldest pending operations, in the order they were queued.\<close>

lemma flush_posts_oldest_first:
  assumes "agent_ok s"
  shows "\<exists>k \<le> 50. map fst (ag_posted (snd (flush_queue ae rn cloud s)))
    = map fst (ag_posted s) @ take k (map qi_id (filter is_pending (aq_items (ag_db s))))"
proof (cases "get_pending (ag_loads ae) 50 (ag_db s)")
  case (Inr rows)
  have "map fst rows = take 50 (filter is_pending (aq_items (ag_db s)))"
    using get_pending_rows [OF Inr] pending_rows_in_order assms by (auto simp: agent_ok_def)
  then have ids: "map (\<lambda>row. qi_id (fst row)) rows = take 50 (map qi_id (filter is_pending (aq_items (ag_db s))))"
    by (metis (no_types, lifting) map_map comp_apply map_eq_conv take_map)
  obtain k where "map fst (ag_posted (snd (flush_items ae rn cloud rows s))) = map fst (ag_posted s) @ take (min k 50) (map qi_id (filter is_pending (aq_items (ag_db s))))"
    using flush_items_in_order [of ae rn cloud rows s] unfolding ids take_take by blast
  then show ?thesis using Inr by (intro exI [of _ "if ag_cloud_url ae = [] \<or> ag_api_key ae = [] then 0 else min k 50"]) (simp add: flush_queue_def)
qed (auto simp: flush_queue_def intro: exI [of _ 0])

section \<open>Outages\<close>

text \<open>The oldest pending row has number \<open>i\<close>, payload \<open>p\<close> and \<open>a\<close> attempts; after the fifth it is given up.\<close>

definition oldest :: "nat \<Rightarrow> string \<Rightarrow> nat \<Rightarrow> agent_db \<Rightarrow> bool" where
  "oldest i p a db \<longleftrightarrow> (\<exists>x \<in> set (aq_items db). qi_id x = i \<and> qi_payload x = p \<and> qi_attempts x = a
     \<and> (if a < 5 then is_pending x \<and> (\<forall>y \<in> set (aq_items db). is_pending y \<longrightarrow> i \<le> qi_id y) else qi_status x = ''dead_letter''))"

lemma oldest_enqueue: "queue_ok posts db \<Longrightarrow> oldest i p a db \<Longrightarrow> oldest i p a (snd (enqueue dumps entity operation payload db))"
  by (fastforce simp: oldest_def enqueue_def new_item_def queue_ok_def split: if_splits)

lemma oldest_sync_state [simp]: "oldest i p a (update_sync_state now name direction last_id db) = oldest i p a db"
  by (simp add: oldest_def update_sync_state_def)

lemma oldest_queue_items: "queue_ok posts db \<Longrightarrow> oldest i p a db \<Longrightarrow> oldest i p a (snd (queue_items ae entity last_sync xs n db))"
  by (induction ae entity last_sync xs n db rule: queue_items.induct)
    (auto simp: queue_ok_enqueue intro: oldest_enqueue split: sum.splits bool.splits)

lemma oldest_outbound_list:
  assumes "queue_ok posts db" and "oldest i p a db"
  shows "oldest i p a (sync_outbound_list ae now entity name items db)"
proof -
  have "oldest i p a (snd (queue_items ae entity (map_option sy_last_sync_at (get_sync_state name ''outbound'' db)) xs 0 db))" for xs
    using assms by (rule oldest_queue_items)
  then show ?thesis using assms(2) by (cases items) (auto simp: sync_outbound_list_def split: sum.splits prod.splits dest: spec sndI)
qed

lemma oldest_outbound:
  assumes "queue_ok posts db" and "oldest i p a db"
  shows "oldest i p a (sync_outbound ae cy db)"
proof -
  let ?db = "sync_outbound_list ae (cy_now cy) ''product'' ''products'' (cy_products cy)
    (sync_outbound_list ae (cy_now cy) ''contractor'' ''contractors'' (cy_contractors cy) db)"
  have "queue_ok posts ?db" using assms(1) by (simp add: queue_ok_outbound_list)
  moreover have "oldest i p a ?db" using assms by (intro oldest_outbound_list queue_ok_outbound_list)
  ultimately show ?thesis by (auto simp: sync_outbound_def sync_outbound_stock_def Let_def intro: oldest_enqueue split: sum.splits)
qed

lemma oldest_is_first:
  assumes ok: "queue_ok posts db" and "oldest i p a db" and "a < 5"
  obtains x rest where "filter is_pending (aq_items db) = x # rest" "x \<in> set (aq_items db)" "is_pending x" "qi_id x = i" "qi_payload x = p" "qi_attempts x = a"
proof -
  obtain x where x: "x \<in> set (aq_items db)" "is_pending x" "qi_id x = i" "qi_payload x = p" "qi_attempts x = a"
    and least: "\<forall>y \<in> set (aq_items db). is_pending y \<longrightarrow> i \<le> qi_id y" using assms(2,3) by (auto simp: oldest_def)
  then obtain y rest where split: "filter is_pending (aq_items db) = y # rest"
    by (cases "filter is_pending (aq_items db)") (auto simp: filter_empty_conv)
  then have y: "y \<in> set (aq_items db)" "is_pending y" by (auto dest: filter_eq_ConsD)
  have "sorted_wrt (<) (map qi_id (filter is_pending (aq_items db)))" using ok by (auto simp: queue_ok_def sorted_wrt_map intro: sorted_wrt_filter)
  moreover have "x \<in> set (filter is_pending (aq_items db))" using x by simp
  ultimately have "qi_id y \<le> qi_id x" unfolding split by auto
  with least x(3) y have "qi_id y = qi_id x" by force
  with item_unique [OF ok y(1) x(1)] x split that show thesis by blast
qed

definition outage :: "cycle_input \<Rightarrow> bool" where
  "outage cy \<longleftrightarrow> cy_connected cy \<and> (\<forall>n m. \<exists>e. cy_cloud cy n m = CloudUnreachable e)"

definition reaches_cloud :: "agent_env \<Rightarrow> bool" where
  "reaches_cloud ae \<longleftrightarrow> ag_cloud_url ae \<noteq> [] \<and> ag_api_key ae \<noteq> [] \<and> (\<forall>t. \<exists>v. ag_loads ae t = Inr v)"

lemma mapM_total: "(\<And>x. \<exists>y. f x = Inr y) \<Longrightarrow> \<exists>ys. mapM f xs = Inr ys"
proof (induction xs)
  case (Cons x xs)
  then obtain y ys where "f x = Inr y" "mapM f xs = Inr ys" by blast
  then show ?case by simp
qed simp

text \<open>A cycle during an outage costs the oldest operation an attempt.\<close>

lemma outage_cycle:
  assumes "agent_ok s" and "outage cy" and "reaches_cloud ae" and "oldest i p a (ag_db s)" and "a < 5"
  shows "oldest i p (Suc a) (ag_db (snd (run_sync_cycle ae rt cy s)))"
proof -
  let ?s = "s\<lparr>ag_db := sync_outbound ae cy (ag_db s)\<rparr>" and ?rn = "(rt, cy_now cy)"
  have ok: "queue_ok (ag_posted s) (ag_db ?s)" "oldest i p a (ag_db ?s)"
    using assms(1,4) by (auto simp: agent_ok_def queue_ok_outbound oldest_outbound)
  obtain x rest where x: "filter is_pending (aq_items (ag_db ?s)) = x # rest" "x \<in> set (aq_items (ag_db ?s))" "is_pending x" "qi_id x = i" "qi_payload x = p" "qi_attempts x = a"
    using oldest_is_first [OF ok assms(5)] by blast
  have "\<exists>rows. get_pending (ag_loads ae) 50 (ag_db ?s) = Inr rows"
    unfolding get_pending_def
  proof (rule mapM_total)
    fix y
    obtain v where "ag_loads ae (qi_payload y) = Inr v" using assms(3) by (force simp: reaches_cloud_def)
    then show "\<exists>z. andThen (ag_loads ae (qi_payload y)) (\<lambda>v. Inr (y, v)) = Inr z" by simp
  qed
  then obtain rows where rows: "get_pending (ag_loads ae) 50 (ag_db ?s) = Inr rows" ..
  have "map fst rows = x # take 49 rest" using get_pending_rows [OF rows] pending_rows_in_order [OF ok(1)] x(1) by simp
  then obtain v more where more: "rows = (x, v) # more" by (cases rows) auto
  obtain r error where r: "r = cy_cloud cy (length (ag_posted ?s)) (sync_message ae x v)"
    and step: "flush_items ae ?rn (cy_cloud cy) ((x, v) # more) ?s =
       (case r of CloudAnswer _ _ \<Rightarrow> flush_items ae ?rn (cy_cloud cy) more (after_post ae (snd ?rn) x v r error ?s)
        | CloudUnreachable _ \<Rightarrow> (Inr (), after_post ae (snd ?rn) x v r error ?s) | CloudRaise e \<Rightarrow> (Inl e, ?s))"
    by (rule flush_items_step)
  from r assms(2) obtain e where e: "r = CloudUnreachable e" by (auto simp: outage_def)
  have "snd (run_sync_cycle ae rt cy s) = after_post ae (snd ?rn) x v r error ?s"
    using assms(2,3) rows more step e by (simp add: run_sync_cycle_def flush_queue_def outage_def reaches_cloud_def)
  moreover have "oldest i p (Suc a) (marked (snd ?rn) r error i (ag_db ?s))"
  proof -
    have "item_ok (ag_posted s) x" using ok(1) x(2) by (simp add: queue_ok_def)
    then have "qi_max_attempts x = 5" by (simp add: item_ok_def)
    let ?row = "marked_row (snd ?rn) r error"
    have "?row x \<in> set (aq_items (marked (snd ?rn) r error i (ag_db ?s)))" using x(2,4) by (force simp: items_marked)
    moreover have "\<forall>y \<in> set (aq_items (marked (snd ?rn) r error i (ag_db ?s))). is_pending y \<longrightarrow> i \<le> qi_id y"
      using ok(2) assms(5) by (auto simp: items_marked oldest_def)
    moreover have "qi_status (?row x) = (if Suc a < 5 then ''pending'' else ''dead_letter'')" "qi_attempts (?row x) = Suc a" "qi_payload (?row x) = p"
      "qi_id (?row x) = i" "qi_max_attempts (?row x) = 5"
      using x \<open>qi_max_attempts x = 5\<close> e by (auto simp: marked_row_def accepted_def)
    ultimately show ?thesis using assms(5) by (auto simp: oldest_def is_pending_def intro!: bexI [of _ "?row x"])
  qed
  ultimately show ?thesis using x(4) by (simp add: after_post_def)
qed

lemma outage_cycles:
  assumes "reaches_cloud ae"
  shows "agent_ok s \<Longrightarrow> list_all outage cycles \<Longrightarrow> oldest i p a (ag_db s) \<Longrightarrow> a + length cycles \<le> 5 \<Longrightarrow>
    oldest i p (a + length cycles) (ag_db (agent_loop ae rt cycles s))"
proof (induction cycles arbitrary: s a)
  case (Cons cy cycles)
  have "oldest i p (Suc a) (ag_db (snd (run_sync_cycle ae rt cy s)))" using Cons.prems by (intro outage_cycle assms) simp_all
  with Cons.IH [of "snd (run_sync_cycle ae rt cy s)" "Suc a"] cycle_ok [OF Cons.prems(1)] Cons.prems show ?case
    by (simp add: agent_loop_def)
qed (simp add: agent_loop_def)

text \<open>C19: Operations do not outlive an outage of the cloud: when the cloud cannot be reached for five cycles, the operation that
  was queued first and not tried before is given up for good, although it never reached the cloud.\<close>

theorem outage_gives_up_operation:
  assumes "reaches_cloud ae" and "list_all outage cycles" and "length cycles = 5"
    and "x \<in> set (aq_items (ag_db (agent_loop ae rt before fresh_agent)))" and "is_pending x" and "qi_attempts x = 0"
    and "\<forall>y \<in> set (aq_items (ag_db (agent_loop ae rt before fresh_agent))). is_pending y \<longrightarrow> qi_id x \<le> qi_id y"
  shows "\<exists>y \<in> set (aq_items (ag_db (agent_loop ae rt (before @ cycles) fresh_agent))).
    qi_id y = qi_id x \<and> qi_payload y = qi_payload x \<and> qi_status y = ''dead_letter''
    \<and> outcomes (qi_id x) (ag_posted (agent_loop ae rt (before @ cycles) fresh_agent)) = replicate 5 False"
proof -
  let ?s = "agent_loop ae rt before fresh_agent"
  have loop: "agent_loop ae rt (before @ cycles) fresh_agent = agent_loop ae rt cycles ?s" by (simp add: agent_loop_def)
  have ok: "agent_ok ?s" by (rule loop_ok [OF fresh_agent_ok])
  have "oldest (qi_id x) (qi_payload x) 0 (ag_db ?s)" using assms(4-7) by (auto simp: oldest_def intro!: bexI [of _ x])
  then have "oldest (qi_id x) (qi_payload x) 5 (ag_db (agent_loop ae rt cycles ?s))"
    using outage_cycles [OF assms(1) ok assms(2), of "qi_id x" "qi_payload x" 0 rt] assms(3) by simp
  then obtain y where y: "y \<in> set (aq_items (ag_db (agent_loop ae rt cycles ?s)))" "qi_id y = qi_id x" "qi_payload y = qi_payload x"
      "qi_attempts y = 5" "qi_status y = ''dead_letter''" by (auto simp: oldest_def)
  moreover have "item_ok (ag_posted (agent_loop ae rt cycles ?s)) y" using loop_ok [OF ok, of ae rt cycles] y(1) by (auto simp: agent_ok_def queue_ok_def)
  ultimately have "outcomes (qi_id x) (ag_posted (agent_loop ae rt cycles ?s)) = replicate 5 False" by (simp add: item_ok_def)
  with y show ?thesis unfolding loop by blast
qed

theorem outage_gives_up_operation_witness:
  "\<exists>y \<in> set (aq_items (ag_db (agent_loop sample_agent_env sample_rt ([sample_cycle 1 (CloudRaise (ValueError []))] @ replicate 5 (sample_cycle 1 (CloudUnreachable [])))
       fresh_agent))). qi_id y = 1 \<and> qi_status y = ''dead_letter''"
proof -
  let ?before = "[sample_cycle 1 (CloudRaise (ValueError []))]" and ?cycles = "replicate 5 (sample_cycle 1 (CloudUnreachable []))"
  have items: "aq_items (ag_db (agent_loop sample_agent_env sample_rt ?before fresh_agent)) = [new_item 1 ''stock'' ''full_sync'' ''{}'']"
    by (simp add: sample_agent_defs)
  have "reaches_cloud sample_agent_env" by (simp add: reaches_cloud_def sample_agent_env_def)
  moreover have "list_all outage ?cycles" by (simp add: list_all_iff outage_def sample_cycle_def)
  ultimately show ?thesis
    using outage_gives_up_operation [of sample_agent_env ?cycles "new_item 1 ''stock'' ''full_sync'' ''{}''" sample_rt ?before] items
    by (auto simp: is_pending_def new_item_def)
qed

end
