(* ===== verification/IpAddress.thy ===== *)
theory IpAddress
  imports PyText "HOL-Library.Word"
begin

unbundle bit_operations_syntax

text \<open>
  What the platform uses of Python's \<^verbatim>\<open>ipaddress\<close>: parsing and printing of addresses and networks
  (\<^verbatim>\<open>ip_address\<close>, \<^verbatim>\<open>ip_network(..., strict=False)\<close>, \<^verbatim>\<open>str\<close>) and membership.  An address is a word of 32 or
  128 bits; an address of version 6 may carry a scope.
\<close>

section \<open>Numbers and their digits\<close>

definition from_digits :: "nat \<Rightarrow> nat list \<Rightarrow> nat" where
  "from_digits b ds = foldl (\<lambda>a d. a * b + d) 0 ds"

fun to_digits :: "nat \<Rightarrow> nat \<Rightarrow> nat \<Rightarrow> nat list" where
  "to_digits b 0 v = []"
| "to_digits b (Suc n) v = to_digits b n (v div b) @ [v mod b]"

lemma from_digits_snoc [simp]: "from_digits b (ds @ [d]) = from_digits b ds * b + d"
  by (simp add: from_digits_def)

lemma from_digits_Nil [simp]: "from_digits b [] = 0"
  by (simp add: from_digits_def)

lemma length_to_digits [simp]: "length (to_digits b n v) = n"
  by (induction n arbitrary: v) simp_all

lemma to_digits_bound: "0 < b \<Longrightarrow> d \<in> set (to_digits b n v) \<Longrightarrow> d < b"
  by (induction n arbitrary: v) auto

lemma from_to_digits: "v < b ^ n \<Longrightarrow> from_digits b (to_digits b n v) = v"
proof (induction n arbitrary: v)
  case (Suc n)
  then have "v div b < b ^ n" by (simp add: less_mult_imp_div_less mult.commute)
  then show ?case using Suc.IH [of "v div b"] by simp
qed simp

lemma from_digits_bound: "list_all (\<lambda>d. d < b) ds \<Longrightarrow> from_digits b ds < b ^ length ds"
proof (induction ds rule: rev_induct)
  case (snoc d ds)
  then have "from_digits b ds + 1 \<le> b ^ length ds" and "d < b" by simp_all
  then have "(from_digits b ds + 1) * b \<le> b ^ length ds * b" and "d < b" by (simp_all only: mult_le_mono1)
  then show ?case by (simp add: algebra_simps)
qed simp

section \<open>Addresses\<close>

datatype ip_addr = IPv4 "32 word" | IPv6 "128 word" "string option"

definition parse_octet :: "string \<Rightarrow> nat option" where
  "parse_octet s =
     (if s = [] \<or> \<not> list_all is_digit s \<or> 3 < length s \<or> (s \<noteq> ''0'' \<and> hd s = CHR ''0'') then None
      else let n = from_digits 10 (map digit_val s) in if 255 < n then None else Some n)"

definition parse_ipv4 :: "string \<Rightarrow> 32 word option" where
  "parse_ipv4 s =
     (let parts = map parse_octet (py_split ''.'' s) in
      if length parts = 4 \<and> list_all (\<lambda>p. p \<noteq> None) parts
      then Some (word_of_nat (from_digits 256 (map the parts))) else None)"

definition print_ipv4 :: "32 word \<Rightarrow> string" where
  "print_ipv4 w = py_join ''.'' (map nat_str (to_digits 256 4 (unat w)))"

definition is_hex :: "char \<Rightarrow> bool" where
  "is_hex c \<longleftrightarrow> is_digit c \<or> (97 \<le> char_code c \<and> char_code c \<le> 102) \<or> (65 \<le> char_code c \<and> char_code c \<le> 70)"

definition hex_val :: "char \<Rightarrow> nat" where
  "hex_val c = (if is_digit c then digit_val c else if 97 \<le> char_code c then char_code c - 87 else char_code c - 55)"

definition hex_char :: "nat \<Rightarrow> char" where
  "hex_char n = (if n < 10 then digit_char n else char_of (87 + n))"

fun hex_str :: "nat \<Rightarrow> string" where
  "hex_str n = (if n < 16 then [hex_char n] else hex_str (n div 16) @ [hex_char (n mod 16)])"

declare hex_str.simps [simp del]

definition parse_hextet :: "string \<Rightarrow> nat option" where
  "parse_hextet s = (if s = [] \<or> \<not> list_all is_hex s \<or> 4 < length s then None else Some (from_digits 16 (map hex_val s)))"

text \<open>The parts between the colons; a suffix in the style of version 4 stands for two of them.\<close>

definition ipv6_parts :: "string \<Rightarrow> string list option" where
  "ipv6_parts s =
     (let parts = py_split '':'' s in
      if s = [] \<or> length parts < 3 then None
      else if contains_sub (last parts) ''.''
      then (case parse_ipv4 (last parts) of
              None \<Rightarrow> None
            | Some w \<Rightarrow> Some (butlast parts @ map hex_str (to_digits 65536 2 (unat w))))
      else Some parts)"

text \<open>The parts before and after the one place where a run of zeroes is left out.\<close>

fun skip_first :: "string list \<Rightarrow> (string list \<times> string list) option" where
  "skip_first [] = None"
| "skip_first (p # ps) = (if p = [] then Some ([], ps) else map_option (\<lambda>(hi, lo). (p # hi, lo)) (skip_first ps))"

text \<open>An end that is empty is dropped, and must then be next to the skipped run.\<close>

definition trim_end :: "string list \<Rightarrow> string \<Rightarrow> string list option" where
  "trim_end inner e = (if e \<noteq> [] then Some (inner @ [e]) else if inner = [] then Some [] else None)"

definition ipv6_hextets :: "string list \<Rightarrow> string list option" where
  "ipv6_hextets parts =
     (if 9 < length parts then None
      else case skip_first (butlast (tl parts)) of
        None \<Rightarrow> if length parts = 8 then Some parts else None
      | Some (hi, lo) \<Rightarrow>
          if list_ex (\<lambda>p. p = []) lo then None
          else case (trim_end (rev hi) (hd parts), trim_end lo (last parts)) of
            (Some high, Some low) \<Rightarrow>
              if length high + length low < 8
              then Some (rev high @ replicate (8 - (length high + length low)) ''0'' @ low) else None
          | _ \<Rightarrow> None)"

definition parse_ipv6 :: "string \<Rightarrow> 128 word option" where
  "parse_ipv6 s =
     (case ipv6_parts s of
        None \<Rightarrow> None
      | Some parts \<Rightarrow>
          (case ipv6_hextets parts of
             None \<Rightarrow> None
           | Some ps \<Rightarrow>
               let hs = map parse_hextet ps in
               if list_all (\<lambda>h. h \<noteq> None) hs then Some (word_of_nat (from_digits 65536 (map the hs))) else None))"

text \<open>\<^verbatim>\<open>_split_scope_id\<close>.\<close>

definition split_scope :: "string \<Rightarrow> (string \<times> string option) option" where
  "split_scope s =
     (case py_split1 ''%'' s of
        [a] \<Rightarrow> Some (a, None)
      | [a, scope] \<Rightarrow> if scope = [] \<or> contains_sub scope ''%'' then None else Some (a, Some scope)
      | _ \<Rightarrow> None)"

definition ipv6_address :: "string \<Rightarrow> (128 word \<times> string option) option" where
  "ipv6_address s =
     (if contains_sub s ''/'' then None
      else case split_scope s of
        None \<Rightarrow> None
      | Some (a, scope) \<Rightarrow> map_option (\<lambda>w. (w, scope)) (parse_ipv6 a))"

definition ip_address :: "string \<Rightarrow> ip_addr option" where
  "ip_address s =
     (case (if contains_sub s ''/'' then None else parse_ipv4 s) of
        Some w \<Rightarrow> Some (IPv4 w)
      | None \<Rightarrow> map_option (\<lambda>(w, scope). IPv6 w scope) (ipv6_address s))"

section \<open>Printing addresses of version 6\<close>

text \<open>\<^verbatim>\<open>_compress_hextets\<close>: the first of the longest runs of at least two zeroes.\<close>

fun zero_runs :: "nat \<Rightarrow> nat \<Rightarrow> nat list \<Rightarrow> (nat \<times> nat) list" where
  "zero_runs i cur [] = []"
| "zero_runs i cur (h # hs) =
     (if h = 0 then (i - cur, Suc cur) # zero_runs (Suc i) (Suc cur) hs else zero_runs (Suc i) 0 hs)"

definition longest_run :: "(nat \<times> nat) list \<Rightarrow> nat \<times> nat" where
  "longest_run runs = foldl (\<lambda>best r. if snd best < snd r then r else best) (0, 0) runs"

definition compress_hextets :: "nat list \<Rightarrow> string list" where
  "compress_hextets hs =
     (case longest_run (zero_runs 0 0 hs) of
        (start, len) \<Rightarrow>
          if 1 < len then
            (if start = 0 then [[]] else []) @ map hex_str (take start hs) @ [[]] @
            map hex_str (drop (start + len) hs) @ (if start + len = length hs then [[]] else [])
          else map hex_str hs)"

definition print_ipv6 :: "128 word \<Rightarrow> string" where
  "print_ipv6 w = py_join '':'' (compress_hextets (to_digits 65536 8 (unat w)))"

definition scope_suffix :: "string option \<Rightarrow> string" where
  "scope_suffix scope = (case scope of None \<Rightarrow> [] | Some x \<Rightarrow> ''%'' @ x)"

fun print_ip :: "ip_addr \<Rightarrow> string" where
  "print_ip (IPv4 w) = print_ipv4 w"
| "print_ip (IPv6 w scope) = print_ipv6 w @ scope_suffix scope"

section \<open>Networks\<close>

datatype ip_net = Net4 "32 word" nat | Net6 "128 word" "string option" nat

definition netmask :: "nat \<Rightarrow> 'a::len word" where
  "netmask p = push_bit (LENGTH('a) - p) (mask p)"

definition prefix_number :: "nat \<Rightarrow> string \<Rightarrow> nat option" where
  "prefix_number most s =
     (if s = [] \<or> \<not> list_all is_digit s then None
      else let n = from_digits 10 (map digit_val s) in if most < n then None else Some n)"

text \<open>The length may also be written as the mask or as its complement.\<close>

definition prefix4 :: "string \<Rightarrow> nat option" where
  "prefix4 s =
     (case prefix_number 32 s of
        Some p \<Rightarrow> Some p
      | None \<Rightarrow>
          (case parse_ipv4 s of
             None \<Rightarrow> None
           | Some w \<Rightarrow>
               (case find (\<lambda>p. netmask p = w) [0..<33] of
                  Some p \<Rightarrow> Some p
                | None \<Rightarrow> find (\<lambda>p. netmask p = NOT w) [0..<33])))"

definition network4 :: "string list \<Rightarrow> ip_net option" where
  "network4 parts =
     (case parts of
        [a, m] \<Rightarrow> (case (parse_ipv4 a, prefix4 m) of (Some w, Some p) \<Rightarrow> Some (Net4 (w AND netmask p) p) | _ \<Rightarrow> None)
      | _ \<Rightarrow> None)"

definition network6 :: "string list \<Rightarrow> ip_net option" where
  "network6 parts =
     (case parts of
        [a, m] \<Rightarrow>
          (case (ipv6_address a, prefix_number 128 m) of
             (Some (w, scope), Some p) \<Rightarrow>
               Some (if w AND netmask p = w then Net6 w scope p else Net6 (w AND netmask p) None p)
           | _ \<Rightarrow> None)
      | _ \<Rightarrow> None)"

text \<open>The entries the platform passes contain a slash.\<close>

definition ip_network :: "string \<Rightarrow> ip_net option" where
  "ip_network s =
     (let parts = py_split ''/'' s in
      case network4 parts of Some n \<Rightarrow> Some n | None \<Rightarrow> network6 parts)"

fun print_net :: "ip_net \<Rightarrow> string" where
  "print_net (Net4 w p) = print_ipv4 w @ ''/'' @ nat_str p"
| "print_net (Net6 w scope p) = print_ipv6 w @ scope_suffix scope @ ''/'' @ nat_str p"

fun in_network :: "ip_addr \<Rightarrow> ip_net \<Rightarrow> bool" where
  "in_network (IPv4 a) (Net4 w p) \<longleftrightarrow> a AND netmask p = w"
| "in_network (IPv6 a _) (Net6 w _ p) \<longleftrightarrow> a AND netmask p = w"
| "in_network _ _ \<longleftrightarrow> False"

end
