(* ===== verification/IpFacts.thy ===== *)
theory IpFacts
  imports IpAddress
begin

text \<open>
  Printing and parsing of addresses and networks are inverse: what the platform stores of an address or a
  network in its printed form is read back as the same address or network.
\<close>

section \<open>Splitting at one character\<close>

lemma starts_with_char: "starts_with (c # cs) [x] \<longleftrightarrow> c = x"
  by simp

lemma py_split_acc_char_append:
  "x \<notin> set a \<Longrightarrow> py_split_acc [x] acc (a @ s) = py_split_acc [x] (rev a @ acc) s"
  by (induction a arbitrary: acc) auto

lemma py_split_acc_char_join:
  assumes "ps \<noteq> []" and "\<And>p. p \<in> set ps \<Longrightarrow> x \<notin> set p"
  shows "py_split_acc [x] [] (py_join [x] ps) = ps"
  using assms
proof (induction ps)
  case (Cons p ps)
  show ?case
  proof (cases ps)
    case Nil
    with Cons.prems show ?thesis using py_split_acc_char_append [of x p "[]" "[]"] by simp
  next
    case (Cons q qs)
    have "py_split_acc [x] [] (py_join [x] (p # ps)) = py_split_acc [x] (rev p) (x # py_join [x] ps)"
      using Cons Cons.prems(2) [of p] py_split_acc_char_append [of x p "[]" "x # py_join [x] ps"] by (simp add: py_join_Cons)
    then show ?thesis using Cons Cons.IH Cons.prems by simp
  qed
qed simp

lemma py_split_char_join: "ps \<noteq> [] \<Longrightarrow> (\<And>p. p \<in> set ps \<Longrightarrow> x \<notin> set p) \<Longrightarrow> py_split [x] (py_join [x] ps) = ps"
  unfolding py_split_def by (rule py_split_acc_char_join)

lemma py_split_acc_char_parts: "p \<in> set (py_split_acc [x] acc s) \<Longrightarrow> x \<notin> set acc \<Longrightarrow> x \<notin> set p"
  by (induction "[x]" acc s rule: py_split_acc.induct) (auto split: if_splits)

lemma py_split_char_parts: "p \<in> set (py_split [x] s) \<Longrightarrow> x \<notin> set p"
  using py_split_acc_char_parts [of p x "[]" s] by (simp add: py_split_def)

lemma set_py_join: "set (py_join sep ps) \<subseteq> set sep \<union> \<Union> (set ` set ps)"
  by (induction sep ps rule: py_join.induct) auto

lemma contains_sub_char: "contains_sub s [x] \<longleftrightarrow> x \<in> set s"
proof (induction s)
  case (Cons c s)
  then show ?case by (auto simp: contains_sub_def split: option.splits)
qed (simp add: contains_sub_def)

section \<open>Digits\<close>

lemma digit_char_ne: "n < 10 \<Longrightarrow> digit_char n \<noteq> c" if "\<not> is_digit c"
  using that is_digit_digit_char by metis

lemma is_digit_nat_str: "list_all is_digit (nat_str n)"
proof (induction n rule: nat_str.induct)
  case (1 n)
  then show ?case by (subst nat_str.simps) (simp add: is_digit_digit_char)
qed

lemma from_digits_nat_str: "from_digits 10 (map digit_val (nat_str n)) = n"
proof (induction n rule: nat_str.induct)
  case (1 n)
  then show ?case
    by (subst nat_str.simps) (auto simp: digit_val_digit_char from_digits_def)
qed

lemma hd_nat_str: "0 < n \<Longrightarrow> hd (nat_str n) \<noteq> CHR ''0''"
proof (induction n rule: nat_str.induct)
  case (1 n)
  have z: "digit_char m = CHR ''0'' \<Longrightarrow> m < 10 \<Longrightarrow> m = 0" for m
    using digit_val_digit_char [of m] by (auto simp: digit_val_def char_code_def)
  show ?case
  proof (cases "n < 10")
    case True
    then show ?thesis using 1 z [of n] by (subst nat_str.simps) auto
  next
    case False
    then show ?thesis using 1 by (subst nat_str.simps) simp
  qed
qed

lemma nat_str_0: "nat_str 0 = ''0''"
  by code_simp

lemma length_nat_str: "n < 10 ^ k \<Longrightarrow> 0 < k \<Longrightarrow> length (nat_str n) \<le> k"
proof (induction k arbitrary: n)
  case (Suc k)
  show ?case
  proof (cases "n < 10")
    case True
    then show ?thesis by (subst nat_str.simps) simp
  next
    case False
    with Suc.prems have "0 < k" by (cases k) auto
    with Suc False have "length (nat_str (n div 10)) \<le> k" by (simp add: less_mult_imp_div_less mult.commute)
    with False show ?thesis by (subst nat_str.simps) simp
  qed
qed simp

lemma parse_octet_nat_str: "n < 256 \<Longrightarrow> parse_octet (nat_str n) = Some n"
  using is_digit_nat_str [of n] from_digits_nat_str [of n] length_nat_str [of n 3] hd_nat_str [of n] nat_str_0
  by (cases "n = 0") (auto simp: parse_octet_def Let_def)

lemma prefix_number_nat_str: "p \<le> most \<Longrightarrow> prefix_number most (nat_str p) = Some p"
  using is_digit_nat_str [of p] by (simp add: prefix_number_def from_digits_nat_str Let_def)

section \<open>Addresses of version 4\<close>

lemma not_digit: "\<not> is_digit CHR ''.''" "\<not> is_digit CHR '':''" "\<not> is_digit CHR ''/''"
  by (simp_all add: is_digit_def char_code_def)

lemma char_not_in_nat_str: "\<not> is_digit c \<Longrightarrow> c \<notin> set (nat_str n)"
  using is_digit_nat_str [of n] by (auto simp: list_all_iff)

lemma parse_ipv4_octet_list:
  assumes "length ds = 4" and "list_all (\<lambda>d. d < 256) ds"
  shows "parse_ipv4 (py_join ''.'' (map nat_str ds)) = Some (word_of_nat (from_digits 256 ds))"
proof -
  have "py_split ''.'' (py_join ''.'' (map nat_str ds)) = map nat_str ds"
    using assms(1) by (intro py_split_char_join) (auto simp: char_not_in_nat_str not_digit)
  moreover have "map parse_octet (map nat_str ds) = map Some ds"
    using assms(2) by (simp add: list_all_iff parse_octet_nat_str)
  ultimately show ?thesis using assms(1) by (simp add: parse_ipv4_def Let_def list_all_iff del: map_map) (simp add: comp_def)
qed

lemma parse_print_ipv4: "parse_ipv4 (print_ipv4 w) = Some w"
proof -
  have "list_all (\<lambda>d. d < 256) (to_digits 256 4 (unat w))"
    using to_digits_bound [of 256 _ 4 "unat w"] by (simp only: list_all_iff) simp
  moreover have "from_digits 256 (to_digits 256 4 (unat w)) = unat w"
    by (rule from_to_digits) (use unsigned_less [of w, where ?'a = nat] in simp)
  ultimately show ?thesis
    unfolding print_ipv4_def by (subst parse_ipv4_octet_list) (simp_all only: length_to_digits, simp)
qed

lemma parse_octet_digits: "parse_octet s \<noteq> None \<Longrightarrow> c \<in> set s \<Longrightarrow> is_digit c"
  by (auto simp: parse_octet_def Let_def list_all_iff split: if_splits)

lemma parse_ipv4_octets: "parse_ipv4 s \<noteq> None \<Longrightarrow> q \<in> set (py_split ''.'' s) \<Longrightarrow> parse_octet q \<noteq> None"
  by (simp add: parse_ipv4_def Let_def list_all_iff split: if_splits)

lemma chars_of_split: "c \<in> set s \<Longrightarrow> c = x \<or> (\<exists>q \<in> set (py_split [x] s). c \<in> set q)"
  using set_py_join [of "[x]" "py_split [x] s"] by (auto simp: py_join_split)

lemma parse_ipv4_chars: "parse_ipv4 s \<noteq> None \<Longrightarrow> c \<in> set s \<Longrightarrow> is_digit c \<or> c = CHR ''.''"
  using chars_of_split [of c s "CHR ''.''"] parse_ipv4_octets [of s] parse_octet_digits by blast

section \<open>Hexadecimal digits\<close>

lemma hex_char_code: "10 \<le> n \<Longrightarrow> n < 16 \<Longrightarrow> char_code (hex_char n) = 87 + n"
  by (simp add: hex_char_def char_code_def)

lemma hex_char_facts: "n < 16 \<Longrightarrow> is_hex (hex_char n) \<and> hex_val (hex_char n) = n"
proof (cases "n < 10")
  case True
  then show ?thesis by (simp add: hex_char_def is_hex_def hex_val_def is_digit_digit_char digit_val_digit_char)
next
  case False
  assume "n < 16"
  with False have c: "char_code (hex_char n) = 87 + n" by (simp add: hex_char_code)
  with False have "\<not> is_digit (hex_char n)" by (simp add: is_digit_def)
  with False \<open>n < 16\<close> c show ?thesis by (simp add: is_hex_def hex_val_def)
qed

lemma is_hex_hex_str: "list_all is_hex (hex_str n)"
proof (induction n rule: hex_str.induct)
  case (1 n)
  then show ?case by (subst hex_str.simps) (simp add: hex_char_facts)
qed

lemma from_digits_hex_str: "from_digits 16 (map hex_val (hex_str n)) = n"
proof (induction n rule: hex_str.induct)
  case (1 n)
  then show ?case by (subst hex_str.simps) (auto simp: hex_char_facts from_digits_def)
qed

lemma length_hex_str: "n < 16 ^ k \<Longrightarrow> 0 < k \<Longrightarrow> length (hex_str n) \<le> k"
proof (induction k arbitrary: n)
  case (Suc k)
  show ?case
  proof (cases "n < 16")
    case True
    then show ?thesis by (subst hex_str.simps) simp
  next
    case False
    with Suc.prems have "0 < k" by (cases k) auto
    with Suc False have "length (hex_str (n div 16)) \<le> k" by (simp add: less_mult_imp_div_less mult.commute)
    with False show ?thesis by (subst hex_str.simps) simp
  qed
qed simp

lemma hex_str_not_Nil [simp]: "hex_str n \<noteq> []" "[] \<noteq> hex_str n"
  by (subst hex_str.simps, simp)+

lemma hex_str_0 [simp]: "hex_str 0 = ''0''"
  by code_simp

lemma parse_hextet_hex_str: "n < 65536 \<Longrightarrow> parse_hextet (hex_str n) = Some n"
  using is_hex_hex_str [of n] length_hex_str [of n 4] by (simp add: parse_hextet_def from_digits_hex_str)

lemma char_not_in_hex_str: "\<not> is_hex c \<Longrightarrow> c \<notin> set (hex_str n)"
  using is_hex_hex_str [of n] by (auto simp: list_all_iff)

lemma not_hex: "\<not> is_hex CHR '':''" "\<not> is_hex CHR ''.''" "\<not> is_hex CHR ''/''" "\<not> is_hex CHR ''%''"
  by (simp_all add: is_hex_def is_digit_def char_code_def)

section \<open>Addresses of version 6\<close>

lemma zero_runs_are_zero:
  assumes "drop (length pre - cur) pre = replicate cur 0" and "cur \<le> length pre"
    and "(s, l) \<in> set (zero_runs (length pre) cur hs)"
  shows "0 < l \<and> s + l \<le> length (pre @ hs) \<and> take l (drop s (pre @ hs)) = replicate l 0"
  using assms
proof (induction hs arbitrary: pre cur)
  case (Cons h hs)
  have app: "pre @ h # hs = (pre @ [h]) @ hs" by simp
  show ?case
  proof (cases "h = 0")
    case True
    have run: "drop (length (pre @ [h]) - Suc cur) (pre @ [h]) = replicate (Suc cur) 0"
      using Cons.prems(1,2) True by (simp add: replicate_append_same)
    show ?thesis
    proof (cases "(s, l) = (length pre - cur, Suc cur)")
      case True
      have "drop (length pre - cur) (pre @ h # hs) = replicate (Suc cur) 0 @ hs"
        using Cons.prems(1,2) \<open>h = 0\<close> by (simp add: replicate_app_Cons_same)
      then show ?thesis using True Cons.prems(2) by simp
    next
      case False
      with Cons.prems(3) True have "(s, l) \<in> set (zero_runs (length (pre @ [h])) (Suc cur) hs)" by auto
      from Cons.IH [OF run _ this] Cons.prems(2) show ?thesis unfolding app by simp
    qed
  next
    case False
    with Cons.prems(3) have "(s, l) \<in> set (zero_runs (length (pre @ [h])) 0 hs)" by simp
    from Cons.IH [OF _ _ this] show ?thesis unfolding app by simp
  qed
qed simp

lemma longest_run_mem: "longest_run runs = (s, l) \<Longrightarrow> 0 < l \<Longrightarrow> (s, l) \<in> set runs"
proof -
  have "foldl (\<lambda>best r. if snd best < snd r then r else best) b runs \<in> insert b (set runs)" for b :: "nat \<times> nat"
  proof (induction runs arbitrary: b)
    case (Cons r runs)
    from Cons.IH [of r] Cons.IH [of b] show ?case by auto
  qed simp
  from this [of "(0, 0)"] show "longest_run runs = (s, l) \<Longrightarrow> 0 < l \<Longrightarrow> (s, l) \<in> set runs"
    by (auto simp: longest_run_def)
qed

text \<open>What is left out when an address is printed is a run of zeroes.\<close>

lemma longest_run_zero:
  assumes "longest_run (zero_runs 0 0 hs) = (s, l)" and "1 < l"
  shows "hs = take s hs @ replicate l 0 @ drop (s + l) hs" and "s + l \<le> length hs"
proof -
  from assms have "(s, l) \<in> set (zero_runs (length ([] :: nat list)) 0 hs)" using longest_run_mem [of _ s l] by simp
  from zero_runs_are_zero [OF _ _ this] have z: "s + l \<le> length hs" "take l (drop s hs) = replicate l 0" by simp_all
  have "hs = take s hs @ take l (drop s hs) @ drop l (drop s hs)" by (simp only: append_take_drop_id)
  with z show "hs = take s hs @ replicate l 0 @ drop (s + l) hs" and "s + l \<le> length hs" by (simp_all add: add.commute [of s l])
qed

lemma skip_first_none: "list_all (\<lambda>p. p \<noteq> []) ps \<Longrightarrow> skip_first ps = None"
  by (induction ps) simp_all

lemma skip_first_at: "list_all (\<lambda>p. p \<noteq> []) hi \<Longrightarrow> skip_first (hi @ [] # lo) = Some (hi, lo)"
  by (induction hi) simp_all

lemma nonempty_parts:
  "list_all (\<lambda>p. p \<noteq> []) (map hex_str xs)" "\<not> list_ex (\<lambda>p. p = []) (map hex_str xs)"
  "list_all (\<lambda>p. p \<noteq> []) (butlast (map hex_str xs))" "\<not> list_ex (\<lambda>p. p = []) (butlast (map hex_str xs))"
  "list_all (\<lambda>p. p \<noteq> []) (tl (map hex_str xs))" "list_all (\<lambda>p. p \<noteq> []) (butlast (tl (map hex_str xs)))"
  by (auto simp: list_all_iff list_ex_iff simp flip: map_butlast map_tl)

lemma trim_end_last: "hs \<noteq> [] \<Longrightarrow> trim_end (butlast (map hex_str hs)) (last (map hex_str hs)) = Some (map hex_str hs)"
  by (cases hs rule: rev_cases) (simp_all add: trim_end_def)

lemma trim_end_hd: "hs \<noteq> [] \<Longrightarrow> trim_end (rev (tl (map hex_str hs))) (hd (map hex_str hs)) = Some (rev (map hex_str hs))"
  by (cases hs) (simp_all add: trim_end_def)

text \<open>The four shapes of a printed address with a skipped run: at both ends, at one, or inside.\<close>

lemma ipv6_hextets_skipped:
  assumes "length as + l + length bs = 8" and "1 < l"
  shows "ipv6_hextets ((if as = [] then [[]] else []) @ map hex_str as @ [[]] @ map hex_str bs @ (if bs = [] then [[]] else []))
    = Some (map hex_str as @ replicate l ''0'' @ map hex_str bs)"
proof -
  have l: "8 - (length as + length bs) = l" and le: "length as + length bs < 8" using assms by simp_all
  consider (both) "as = []" "bs = []" | (front) "as = []" "bs \<noteq> []" | (rear) "as \<noteq> []" "bs = []" | (inner) "as \<noteq> []" "bs \<noteq> []"
    by blast
  then show ?thesis
  proof cases
    case both
    with l show ?thesis by (simp add: ipv6_hextets_def trim_end_def)
  next
    case front
    with l le assms(2) show ?thesis
      by (simp add: ipv6_hextets_def trim_end_last nonempty_parts trim_end_def [of "[]" "[]"] butlast_append del: map_butlast)
  next
    case rear
    then have "tl (map hex_str as @ [[], []]) = tl (map hex_str as) @ [[], []]" by (cases as) simp_all
    with rear l le assms(2) show ?thesis
      by (simp add: ipv6_hextets_def butlast_append skip_first_at nonempty_parts trim_end_hd trim_end_def [of "[]" "[]"])
  next
    case inner
    then have "butlast (tl (map hex_str as @ [] # map hex_str bs)) = tl (map hex_str as) @ [] # butlast (map hex_str bs)"
      by (cases as) (simp_all add: butlast_append)
    with inner l le assms(2) show ?thesis
      by (simp add: ipv6_hextets_def skip_first_at nonempty_parts trim_end_hd trim_end_last del: map_butlast)
  qed
qed

lemma compress_hextets_cases:
  obtains (plain) "compress_hextets hs = map hex_str hs"
    | (skipped) as l bs where "hs = as @ replicate l 0 @ bs" "1 < l"
      "compress_hextets hs = (if as = [] then [[]] else []) @ map hex_str as @ [[]] @ map hex_str bs @ (if bs = [] then [[]] else [])"
proof (cases "longest_run (zero_runs 0 0 hs)")
  case (Pair s l)
  show ?thesis
  proof (cases "1 < l")
    case False
    with Pair plain show ?thesis by (simp add: compress_hextets_def)
  next
    case True
    note z = longest_run_zero [OF Pair True]
    from z(2) True have "take s hs = [] \<longleftrightarrow> s = 0" "drop (s + l) hs = [] \<longleftrightarrow> s + l = length hs" by auto
    with Pair True z skipped [of "take s hs" l "drop (s + l) hs"] show ?thesis by (simp add: compress_hextets_def)
  qed
qed

lemma ipv6_hextets_compress: "length hs = 8 \<Longrightarrow> ipv6_hextets (compress_hextets hs) = Some (map hex_str hs)"
proof (cases hs rule: compress_hextets_cases)
  case plain
  assume "length hs = 8"
  then show ?thesis by (simp add: plain ipv6_hextets_def skip_first_none nonempty_parts del: map_tl map_butlast)
next
  case (skipped as l bs)
  assume "length hs = 8"
  with skipped ipv6_hextets_skipped [of as l bs] show ?thesis by simp
qed

lemma compress_hextets_part: "p \<in> set (compress_hextets hs) \<Longrightarrow> p = [] \<or> (\<exists>h. p = hex_str h)"
  by (cases hs rule: compress_hextets_cases) (auto split: if_splits)

lemma length_compress_hextets: "length hs = 8 \<Longrightarrow> 3 \<le> length (compress_hextets hs)"
proof (cases hs rule: compress_hextets_cases)
  case (skipped as l bs)
  then show ?thesis by (cases as; cases bs) simp_all
qed simp

lemma unat_below_hextets: "unat (w :: 128 word) < 65536 ^ 8"
proof -
  have "(65536 :: nat) ^ 8 = 2 ^ 128" by simp
  then show ?thesis using unsigned_less [of w, where ?'a = nat] by simp
qed

lemma parse_print_ipv6: "parse_ipv6 (print_ipv6 w) = Some w"
proof -
  define hs where "hs = to_digits 65536 8 (unat w)"
  have len: "length hs = 8" by (simp only: hs_def length_to_digits)
  have val: "from_digits 65536 hs = unat w"
    unfolding hs_def by (rule from_to_digits) (rule unat_below_hextets)
  have small: "list_all (\<lambda>h. h < 65536) hs"
    using to_digits_bound [of 65536 _ 8 "unat w"] by (simp only: list_all_iff hs_def) simp
  have no: "c \<notin> set p" if "p \<in> set (compress_hextets hs)" and "\<not> is_hex c" for p c
    using compress_hextets_part [OF that(1)] char_not_in_hex_str [OF that(2)] by auto
  let ?s = "py_join '':'' (compress_hextets hs)"
  have "compress_hextets hs \<noteq> []" using length_compress_hextets [OF len] by auto
  then have split: "py_split '':'' ?s = compress_hextets hs"
    using no [OF _ not_hex(1)] by (intro py_split_char_join)
  have "\<not> contains_sub (last (compress_hextets hs)) ''.''"
    using no [OF last_in_set not_hex(2)] \<open>compress_hextets hs \<noteq> []\<close> by (simp add: contains_sub_char)
  moreover have "?s \<noteq> []"
    using arg_cong [OF split, of length] length_compress_hextets [OF len] by (cases ?s) (auto simp: py_split_def)
  ultimately have parts: "ipv6_parts ?s = Some (compress_hextets hs)"
    using split length_compress_hextets [OF len] by (simp add: ipv6_parts_def Let_def)
  have "map parse_hextet (map hex_str hs) = map Some hs"
    using small by (simp add: list_all_iff parse_hextet_hex_str)
  then show ?thesis
    using len parts val ipv6_hextets_compress [OF len]
    by (simp add: print_ipv6_def parse_ipv6_def hs_def [symmetric] Let_def list_all_iff del: map_map) (simp add: comp_def)
qed

section \<open>Printed addresses and networks are read back\<close>

lemma print_ipv6_chars: "c \<in> set (print_ipv6 w) \<Longrightarrow> is_hex c \<or> c = CHR '':''"
proof -
  assume "c \<in> set (print_ipv6 w)"
  then have "c = CHR '':'' \<or> (\<exists>p \<in> set (compress_hextets (to_digits 65536 8 (unat w))). c \<in> set p)"
    using set_py_join [of "'':''" "compress_hextets (to_digits 65536 8 (unat w))"]
    by (auto simp: print_ipv6_def simp del: to_digits.simps)
  then show ?thesis using compress_hextets_part is_hex_hex_str by (fastforce simp: list_all_iff)
qed

lemma colon_in_print_ipv6: "CHR '':'' \<in> set (print_ipv6 w)"
proof -
  have "3 \<le> length (compress_hextets (to_digits 65536 8 (unat w)))"
    by (rule length_compress_hextets) (rule length_to_digits)
  then obtain a b xs where "compress_hextets (to_digits 65536 8 (unat w)) = a # b # xs"
    by (auto simp: numeral_3_eq_3 Suc_le_length_iff simp del: to_digits.simps)
  then show ?thesis by (simp add: print_ipv6_def del: to_digits.simps)
qed

lemma print_ipv4_chars: "c \<in> set (print_ipv4 w) \<Longrightarrow> is_digit c \<or> c = CHR ''.''"
  using parse_ipv4_chars [of "print_ipv4 w" c] by (simp add: parse_print_ipv4)

lemma parse_ipv4_colon: "CHR '':'' \<in> set s \<Longrightarrow> parse_ipv4 s = None"
  using parse_ipv4_chars [of s "CHR '':''"] by (cases "parse_ipv4 s") (auto simp: not_digit)

text \<open>A scope that an address can have: not empty, without percent sign and slash.\<close>

fun scope_ok :: "ip_addr \<Rightarrow> bool" where
  "scope_ok (IPv4 _) \<longleftrightarrow> True"
| "scope_ok (IPv6 _ scope) \<longleftrightarrow> (case scope of None \<Rightarrow> True | Some x \<Rightarrow> x \<noteq> [] \<and> CHR ''%'' \<notin> set x \<and> CHR ''/'' \<notin> set x)"

lemma find_sub_char: "x \<notin> set a \<Longrightarrow> find_sub [x] (a @ x # b) = Some (length a)"
  by (induction a) auto

lemma find_sub_char_absent: "x \<notin> set a \<Longrightarrow> find_sub [x] a = None"
  by (induction a) auto

lemma split_scope_print: "scope_ok (IPv6 w scope) \<Longrightarrow> CHR ''%'' \<notin> set a \<Longrightarrow> split_scope (a @ scope_suffix scope) = Some (a, scope)"
  by (cases scope) (auto simp: split_scope_def py_split1_def scope_suffix_def find_sub_char find_sub_char_absent contains_sub_char)

lemma ipv6_address_print:
  assumes "scope_ok (IPv6 w scope)"
  shows "ipv6_address (print_ipv6 w @ scope_suffix scope) = Some (w, scope)"
proof -
  have "CHR ''/'' \<notin> set (print_ipv6 w @ scope_suffix scope)" and "CHR ''%'' \<notin> set (print_ipv6 w)"
    using assms print_ipv6_chars [of "CHR ''/''" w] print_ipv6_chars [of "CHR ''%''" w]
    by (auto simp: scope_suffix_def not_hex split: option.splits)
  then show ?thesis
    using split_scope_print [OF assms] by (simp add: ipv6_address_def contains_sub_char parse_print_ipv6)
qed

lemma ip_address_print_ip: "scope_ok a \<Longrightarrow> ip_address (print_ip a) = Some a"
proof (cases a)
  case (IPv4 w)
  have "CHR ''/'' \<notin> set (print_ipv4 w)" using print_ipv4_chars [of "CHR ''/''" w] by (auto simp: not_digit)
  then show ?thesis by (simp add: IPv4 ip_address_def parse_print_ipv4 contains_sub_char)
next
  case (IPv6 w scope)
  assume "scope_ok a"
  then show ?thesis
    using colon_in_print_ipv6 [of w] by (simp add: IPv6 ip_address_def parse_ipv4_colon ipv6_address_print)
qed

fun net_ok :: "ip_net \<Rightarrow> bool" where
  "net_ok (Net4 w p) \<longleftrightarrow> p \<le> 32 \<and> w AND netmask p = w"
| "net_ok (Net6 w scope p) \<longleftrightarrow> p \<le> 128 \<and> w AND netmask p = w \<and> scope_ok (IPv6 w scope)"

lemma ip_network_print_net: "net_ok n \<Longrightarrow> ip_network (print_net n) = Some n"
proof (cases n)
  case (Net4 w p)
  assume ok: "net_ok n"
  have "py_split [CHR ''/''] (py_join [CHR ''/''] [print_ipv4 w, nat_str p]) = [print_ipv4 w, nat_str p]"
    using print_ipv4_chars [of "CHR ''/''" w] char_not_in_nat_str [of "CHR ''/''" p] by (intro py_split_char_join) (auto simp: not_digit)
  with ok show ?thesis
    by (simp add: Net4 ip_network_def network4_def parse_print_ipv4 prefix4_def prefix_number_nat_str)
next
  case (Net6 w scope p)
  assume ok: "net_ok n"
  let ?a = "print_ipv6 w @ scope_suffix scope"
  have "CHR ''/'' \<notin> set ?a"
    using ok print_ipv6_chars [of "CHR ''/''" w] by (auto simp: Net6 scope_suffix_def not_hex split: option.splits)
  then have "py_split [CHR ''/''] (py_join [CHR ''/''] [?a, nat_str p]) = [?a, nat_str p]"
    using char_not_in_nat_str [of "CHR ''/''" p] by (intro py_split_char_join) (auto simp: not_digit)
  moreover have "parse_ipv4 ?a = None" using colon_in_print_ipv6 [of w] by (intro parse_ipv4_colon) simp
  ultimately show ?thesis
    using ok by (simp add: Net6 ip_network_def network4_def network6_def ipv6_address_print prefix_number_nat_str)
qed

section \<open>What is parsed is well formed\<close>

lemma ipv6_address_scope_ok: "ipv6_address s = Some (w, scope) \<Longrightarrow> scope_ok (IPv6 w scope)"
proof -
  assume s: "ipv6_address s = Some (w, scope)"
  then have "CHR ''/'' \<notin> set s" by (auto simp: ipv6_address_def contains_sub_char split: if_splits)
  with s show ?thesis
    by (auto simp: ipv6_address_def split_scope_def py_split1_def contains_sub_char
        split: if_splits option.splits list.splits prod.splits dest: in_set_dropD)
qed

lemma ip_address_scope_ok: "ip_address s = Some a \<Longrightarrow> scope_ok a"
  by (auto simp: ip_address_def split: option.splits if_splits prod.splits dest: ipv6_address_scope_ok)

lemma prefix_number_le: "prefix_number most s = Some p \<Longrightarrow> p \<le> most"
  by (auto simp: prefix_number_def Let_def split: if_splits)

lemma prefix4_le: "prefix4 s = Some p \<Longrightarrow> p \<le> 32"
  by (auto simp: prefix4_def split: option.splits dest: prefix_number_le find_Some_mem)

lemma and_netmask_idem: "(w AND netmask p) AND netmask p = (w AND netmask p :: 'a::len word)"
  by (simp add: ac_simps)

lemma network4_ok: "network4 parts = Some n \<Longrightarrow> net_ok n"
  by (auto simp: network4_def and_netmask_idem split: option.splits list.splits dest: prefix4_le)

lemma network6_ok: "network6 parts = Some n \<Longrightarrow> net_ok n"
  by (auto simp: network6_def and_netmask_idem split: option.splits list.splits prod.splits if_splits
      dest: prefix_number_le ipv6_address_scope_ok simp del: scope_ok.simps) (simp_all add: prefix_number_le)

lemma ip_network_net_ok: "ip_network s = Some n \<Longrightarrow> net_ok n"
  by (auto simp: ip_network_def Let_def split: option.splits dest: network4_ok network6_ok)

end
