(* ===== verification/UrlSafety.thy ===== *)
theory UrlSafety
  imports IpFacts PyValue
begin

text \<open>
  The parts of an address that the platform reads (\<^verbatim>\<open>urllib.parse.urlparse\<close>) and the guard against
  requests to internal hosts of the gateway, \<^verbatim>\<open>_is_safe_url\<close> of \<^verbatim>\<open>api/gateway.py\<close>.  Name resolution is
  the argument \<open>lookup\<close>: the printed addresses of a host,
  or nothing when it does not resolve.  The registries of reserved addresses differ between versions of
  Python; the guard takes them as the argument \<open>internal\<close>.
\<close>

section \<open>Addresses of resources\<close>

record url =
  u_scheme :: string
  u_netloc :: string
  u_path :: string
  u_params :: string
  u_query :: string
  u_fragment :: string

definition is_alpha :: "char \<Rightarrow> bool" where
  "is_alpha c \<longleftrightarrow> (97 \<le> char_code c \<and> char_code c \<le> 122) \<or> (65 \<le> char_code c \<and> char_code c \<le> 90)"

definition scheme_char :: "char \<Rightarrow> bool" where
  "scheme_char c \<longleftrightarrow> is_alpha c \<or> is_digit c \<or> c = CHR ''+'' \<or> c = CHR ''-'' \<or> c = CHR ''.''"

text \<open>Control characters and spaces at the front, and line ends and tabs anywhere, are dropped.\<close>

definition clean_url :: "string \<Rightarrow> string" where
  "clean_url s = filter (\<lambda>c. c \<noteq> CHR 0x09 \<and> c \<noteq> CHR 0x0A \<and> c \<noteq> CHR 0x0D) (dropWhile (\<lambda>c. char_code c \<le> 32) s)"

definition split_scheme :: "string \<Rightarrow> string \<times> string" where
  "split_scheme s =
     (case py_split1 '':'' s of
        [a, rest] \<Rightarrow> if a \<noteq> [] \<and> is_alpha (hd a) \<and> list_all scheme_char a then (py_lower a, rest) else ([], s)
      | _ \<Rightarrow> ([], s))"

definition split_netloc :: "string \<Rightarrow> string \<times> string" where
  "split_netloc s =
     (if starts_with s ''//'' then
        (takeWhile (\<lambda>c. c \<noteq> CHR ''/'' \<and> c \<noteq> CHR ''?'' \<and> c \<noteq> CHR ''#'') (drop 2 s),
         dropWhile (\<lambda>c. c \<noteq> CHR ''/'' \<and> c \<noteq> CHR ''?'' \<and> c \<noteq> CHR ''#'') (drop 2 s))
      else ([], s))"

text \<open>\<^verbatim>\<open>s.partition(sep)\<close> without the separator.\<close>

definition cut :: "string \<Rightarrow> string \<Rightarrow> string \<times> string" where
  "cut sep s = (case py_split1 sep s of [a, b] \<Rightarrow> (a, b) | _ \<Rightarrow> (s, []))"

text \<open>\<^verbatim>\<open>v[0-9a-fA-F]+\..+\<close>.\<close>

definition is_ip_future :: "string \<Rightarrow> bool" where
  "is_ip_future s =
     (let rest = dropWhile is_hex (drop 1 s) in
      takeWhile is_hex (drop 1 s) \<noteq> [] \<and> starts_with rest ''.'' \<and> 1 < length rest)"

text \<open>What stands in brackets must be an address of version 6 (or, after a \<^verbatim>\<open>v\<close>, of a later one).\<close>

definition brackets_ok :: "string \<Rightarrow> bool" where
  "brackets_ok netloc =
     (if contains_sub netloc ''['' \<noteq> contains_sub netloc '']'' then False
      else if \<not> contains_sub netloc ''['' then True
      else let inner = fst (cut '']'' (snd (cut ''['' netloc))) in
        if starts_with inner ''v'' then is_ip_future inner else (case ip_address inner of Some (IPv6 _ _) \<Rightarrow> True | _ \<Rightarrow> False))"

definition invalid_ipv6_url :: exn where
  "invalid_ipv6_url = ValueError ''Invalid IPv6 URL''"

text \<open>Parameters are split off the last segment of the path, for the schemes that have them.\<close>

definition uses_params :: "string list" where
  "uses_params = ['''', ''ftp'', ''hdl'', ''prospero'', ''http'', ''imap'', ''https'', ''shttp'', ''rtsp'', ''rtsps'', ''rtspu'', ''sip'', ''sips'', ''mms'', ''sftp'', ''tel'']"

definition split_params :: "string \<Rightarrow> string \<times> string" where
  "split_params path =
     (let segs = py_split ''/'' path;
          (a, b) = cut '';'' (last segs) in
      (py_join ''/'' (butlast segs @ [a]), b))"

definition urlparse :: "string \<Rightarrow> url py" where
  "urlparse s =
     (let (scheme, s1) = split_scheme (clean_url s);
          (netloc, s2) = split_netloc s1;
          (s3, fragment) = cut ''#'' s2;
          (s4, query) = cut ''?'' s3;
          (path, params) = (if scheme \<in> set uses_params \<and> contains_sub s4 '';'' then split_params s4 else (s4, [])) in
      if \<not> brackets_ok netloc then Inl invalid_ipv6_url
      else Inr \<lparr>u_scheme = scheme, u_netloc = netloc, u_path = path, u_params = params, u_query = query, u_fragment = fragment\<rparr>)"

text \<open>\<^verbatim>\<open>parsed.hostname\<close>: nothing for an empty one; a scope keeps its case.\<close>

definition hostname :: "url \<Rightarrow> string option" where
  "hostname u =
     (let hostinfo = last (py_split ''@'' (u_netloc u));
          h = (if contains_sub hostinfo ''['' then fst (cut '']'' (snd (cut ''['' hostinfo))) else fst (cut '':'' hostinfo)) in
      if h = [] then None
      else if contains_sub h ''%'' then Some (py_lower (fst (cut ''%'' h)) @ ''%'' @ snd (cut ''%'' h)) else Some (py_lower h))"

text \<open>\<^verbatim>\<open>urlunparse\<close>, for a parsed address whose path was changed.\<close>

definition uses_netloc :: "string list" where
  "uses_netloc = ['''', ''ftp'', ''http'', ''gopher'', ''nntp'', ''telnet'', ''imap'', ''wais'', ''file'', ''mms'', ''https'', ''shttp'',
     ''snews'', ''prospero'', ''rtsp'', ''rtsps'', ''rtspu'', ''rsync'', ''svn'', ''svn+ssh'', ''sftp'', ''nfs'', ''git'', ''git+ssh'', ''ws'', ''wss'']"

definition urlunparse :: "url \<Rightarrow> string" where
  "urlunparse u =
     (let path = (if u_params u \<noteq> [] then u_path u @ '';'' @ u_params u else u_path u);
          s1 = (if u_netloc u \<noteq> [] then ''//'' @ u_netloc u @ (if path \<noteq> [] \<and> \<not> starts_with path ''/'' then ''/'' @ path else path)
                else if starts_with path ''//'' \<or> (u_scheme u \<noteq> [] \<and> u_scheme u \<in> set uses_netloc \<and> (path = [] \<or> starts_with path ''/''))
                then ''//'' @ path else path);
          s2 = (if u_scheme u \<noteq> [] then u_scheme u @ '':'' @ s1 else s1);
          s3 = (if u_query u \<noteq> [] then s2 @ ''?'' @ u_query u else s2) in
      if u_fragment u \<noteq> [] then s3 @ ''#'' @ u_fragment u else s3)"

section \<open>The guard of the gateway\<close>

definition is_safe_url :: "(string \<Rightarrow> string list option) \<Rightarrow> (ip_addr \<Rightarrow> bool) \<Rightarrow> string \<Rightarrow> bool" where
  "is_safe_url lookup internal s =
     (case urlparse s of
        Inl _ \<Rightarrow> False
      | Inr u \<Rightarrow>
          if u_scheme u \<noteq> ''http'' \<and> u_scheme u \<noteq> ''https'' then False
          else case hostname u of
            None \<Rightarrow> False
          | Some h \<Rightarrow>
              (case lookup h of
                 None \<Rightarrow> False
               | Some ips \<Rightarrow> list_all (\<lambda>x. case ip_address x of None \<Rightarrow> False | Some a \<Rightarrow> \<not> internal a) ips))"

end
