(* ===== verification/SdkHttp.thy ===== *)
theory SdkHttp
  imports UrlSafety EngineMonad
begin

text \<open>
  The HTTP client of the connector SDK (\<^verbatim>\<open>sdk/python/pinquark_connector_sdk/http.py\<close>): a circuit breaker per host, retries
  with growing pauses.  The network is the argument \<open>send\<close>: given the requests sent before, it answers, fails in one of
  the four ways that are caught, or raises, and takes some time.  Requests of one client are served one after the other;
  the metrics are left out.
\<close>

section \<open>The circuit breaker\<close>

datatype cb_state = CbClosed | CbOpen | CbHalfOpen

record breaker =
  cb_state :: cb_state
  cb_failures :: nat
  cb_last_failure :: rat

record cb_config =
  cb_threshold :: nat
  cb_reset :: rat

definition new_breaker :: breaker where
  "new_breaker = \<lparr>cb_state = CbClosed, cb_failures = 0, cb_last_failure = 0\<rparr>"

text \<open>The exception carries the time that remains.\<close>

definition pre_check :: "cb_config \<Rightarrow> rat \<Rightarrow> breaker \<Rightarrow> rat + breaker" where
  "pre_check cfg now b =
     (if cb_state b = CbOpen then
        (if cb_reset cfg \<le> now - cb_last_failure b then Inr (b\<lparr>cb_state := CbHalfOpen\<rparr>)
         else Inl (cb_reset cfg - (now - cb_last_failure b)))
      else Inr b)"

definition on_success :: "breaker \<Rightarrow> breaker" where
  "on_success b = b\<lparr>cb_state := CbClosed, cb_failures := 0\<rparr>"

definition on_failure :: "cb_config \<Rightarrow> rat \<Rightarrow> breaker \<Rightarrow> breaker" where
  "on_failure cfg now b =
     (let b' = b\<lparr>cb_failures := Suc (cb_failures b), cb_last_failure := now\<rparr> in
      if cb_state b = CbHalfOpen then b'\<lparr>cb_state := CbOpen\<rparr>
      else if cb_threshold cfg \<le> cb_failures b' then b'\<lparr>cb_state := CbOpen\<rparr> else b')"

section \<open>The client\<close>

record sdk_request =
  sq_method :: string
  sq_url :: string
  sq_content :: pyval

datatype sdk_outcome = SdkAnswer int | SdkTransport string | SdkRaise exn

type_synonym sdk_network = "sdk_request list \<Rightarrow> sdk_request \<Rightarrow> sdk_outcome \<times> rat"

record sdk_config =
  sk_max_retries :: nat
  sk_breaker :: cb_config

record sdk_client =
  sc_breakers :: "(string \<times> breaker) list"
  sc_now :: rat
  sc_sent :: "sdk_request list"

datatype sdk_error = BreakerOpen rat | TransportError string | SdkOther exn

definition breaker_key :: "string \<Rightarrow> string py" where
  "breaker_key s = andThen (urlparse s) (\<lambda>u. Inr (u_scheme u @ ''://'' @ u_netloc u))"

definition breaker_of :: "sdk_client \<Rightarrow> string \<Rightarrow> breaker" where
  "breaker_of c host = dget (sc_breakers c) host new_breaker"

definition put_breaker :: "string \<Rightarrow> breaker \<Rightarrow> sdk_client \<Rightarrow> sdk_client" where
  "put_breaker host b c = c\<lparr>sc_breakers := dset (sc_breakers c) host b\<rparr>"

definition backoff :: "nat \<Rightarrow> rat" where
  "backoff attempt = 1 / 2 * 2 ^ attempt"

definition sleep_for :: "rat \<Rightarrow> sdk_client \<Rightarrow> sdk_client" where
  "sleep_for d c = c\<lparr>sc_now := sc_now c + d\<rparr>"

definition client_send :: "sdk_network \<Rightarrow> sdk_request \<Rightarrow> sdk_client \<Rightarrow> sdk_outcome \<times> sdk_client" where
  "client_send send q c =
     (case send (sc_sent c) q of (r, d) \<Rightarrow> (r, c\<lparr>sc_sent := sc_sent c @ [q], sc_now := sc_now c + d\<rparr>))"

text \<open>The attempts from number \<open>attempt\<close> on; \<open>left\<close> says how many follow this one.  An answer from 500 on is a failure,
  but not on the last attempt.\<close>

fun attempts :: "sdk_network \<Rightarrow> sdk_config \<Rightarrow> string \<Rightarrow> sdk_request \<Rightarrow> nat \<Rightarrow> nat \<Rightarrow> sdk_client \<Rightarrow> (sdk_error + int) \<times> sdk_client" where
  "attempts send cfg host q attempt left c =
     (case pre_check (sk_breaker cfg) (sc_now c) (breaker_of c host) of
        Inl remaining \<Rightarrow> (Inl (BreakerOpen remaining), c)
      | Inr b \<Rightarrow>
          (case client_send send q (put_breaker host b c) of
             (SdkAnswer code, c1) \<Rightarrow>
               (case left of
                  Suc n \<Rightarrow>
                    if 500 \<le> code then
                      attempts send cfg host q (Suc attempt) n
                        (sleep_for (backoff attempt) (put_breaker host (on_failure (sk_breaker cfg) (sc_now c1) (breaker_of c1 host)) c1))
                    else (Inr code, put_breaker host (on_success (breaker_of c1 host)) c1)
                | 0 \<Rightarrow> (Inr code, put_breaker host (on_success (breaker_of c1 host)) c1))
           | (SdkTransport e, c1) \<Rightarrow>
               let c2 = put_breaker host (on_failure (sk_breaker cfg) (sc_now c1) (breaker_of c1 host)) c1 in
               (case left of
                  Suc n \<Rightarrow> attempts send cfg host q (Suc attempt) n (sleep_for (backoff attempt) c2)
                | 0 \<Rightarrow> (Inl (TransportError e), c2))
           | (SdkRaise e, c1) \<Rightarrow> (Inl (SdkOther e), c1)))"

declare attempts.simps [simp del]

definition client_request :: "sdk_network \<Rightarrow> sdk_config \<Rightarrow> sdk_request \<Rightarrow> sdk_client \<Rightarrow> (sdk_error + int) \<times> sdk_client" where
  "client_request send cfg q c =
     (case breaker_key (sq_url q) of
        Inl e \<Rightarrow> (Inl (SdkOther e), c)
      | Inr host \<Rightarrow> attempts send cfg host q 0 (sk_max_retries cfg) (put_breaker host (breaker_of c host) c))"

definition sdk_close :: "sdk_client \<Rightarrow> sdk_client" where
  "sdk_close c = c\<lparr>sc_breakers := []\<rparr>"

end
