(* ===== verification/SdkProps.thy ===== *)
theory SdkProps
  imports SdkHttp
begin

text \<open>
  Properties of the HTTP client of the connector SDK: what the circuit breaker promises as a function of what happened, and
  when it never opens.
\<close>

section \<open>The breaker and its history\<close>

datatype cb_event = Checked rat | Succeeded | FailedAt rat

definition breaker_step :: "cb_config \<Rightarrow> breaker \<Rightarrow> cb_event \<Rightarrow> breaker" where
  "breaker_step cfg b e =
     (case e of
        Checked now \<Rightarrow> (case pre_check cfg now b of Inl _ \<Rightarrow> b | Inr b' \<Rightarrow> b')
      | Succeeded \<Rightarrow> on_success b
      | FailedAt now \<Rightarrow> on_failure cfg now b)"

text \<open>The specification: the failures since the last success, and when the last one was.\<close>

definition history_step :: "rat list \<Rightarrow> cb_event \<Rightarrow> rat list" where
  "history_step fs e = (case e of Checked _ \<Rightarrow> fs | Succeeded \<Rightarrow> [] | FailedAt now \<Rightarrow> now # fs)"

definition refuses :: "cb_config \<Rightarrow> rat list \<Rightarrow> rat \<Rightarrow> bool" where
  "refuses cfg fs now \<longleftrightarrow> cb_threshold cfg \<le> length fs \<and> now - hd fs < cb_reset cfg"

fun event_time :: "cb_event \<Rightarrow> rat option" where
  "event_time (Checked now) = Some now"
| "event_time Succeeded = None"
| "event_time (FailedAt now) = Some now"

text \<open>A breaker that stands for a history at a time: it is half open only when the pause is over.\<close>

definition stands_for :: "cb_config \<Rightarrow> rat \<Rightarrow> breaker \<Rightarrow> rat list \<Rightarrow> bool" where
  "stands_for cfg now b fs \<longleftrightarrow> cb_failures b = length fs \<and> (fs \<noteq> [] \<longrightarrow> cb_last_failure b = hd fs)
     \<and> (cb_state b = CbClosed \<longleftrightarrow> length fs < cb_threshold cfg) \<and> (cb_state b = CbHalfOpen \<longrightarrow> cb_reset cfg \<le> now - hd fs)"

lemma stands_for_check:
  assumes "stands_for cfg now b fs" and "0 < cb_threshold cfg" and "now \<le> now'"
  shows "(\<exists>r. pre_check cfg now' b = Inl r) \<longleftrightarrow> refuses cfg fs now'"
    and "stands_for cfg now' (breaker_step cfg b (Checked now')) fs"
proof -
  have "fs \<noteq> []" if "\<not> length fs < cb_threshold cfg" using that assms(2) by auto
  with assms show "(\<exists>r. pre_check cfg now' b = Inl r) \<longleftrightarrow> refuses cfg fs now'"
    by (cases "cb_state b") (auto simp: stands_for_def pre_check_def refuses_def not_less)
  show "stands_for cfg now' (breaker_step cfg b (Checked now')) fs"
    using assms \<open>\<not> length fs < cb_threshold cfg \<Longrightarrow> fs \<noteq> []\<close>
    by (cases "cb_state b") (auto simp: stands_for_def pre_check_def breaker_step_def)
qed

lemma stands_for_step:
  assumes "stands_for cfg now b fs" and "0 < cb_threshold cfg" and "now \<le> now'" and "event_time e = Some now' \<or> event_time e = None \<and> now' = now"
  shows "stands_for cfg now' (breaker_step cfg b e) (history_step fs e)"
proof (cases e)
  case (Checked t)
  then show ?thesis using stands_for_check(2) [OF assms(1-3)] assms(4) by (simp add: history_step_def)
next
  case Succeeded
  then show ?thesis using assms by (simp add: stands_for_def breaker_step_def on_success_def history_step_def)
next
  case (FailedAt t)
  with assms show ?thesis
    by (cases "cb_state b") (auto simp: stands_for_def breaker_step_def on_failure_def Let_def history_step_def)
qed

text \<open>Times do not decrease.\<close>

fun in_order :: "rat \<Rightarrow> cb_event list \<Rightarrow> bool" where
  "in_order now [] = True"
| "in_order now (e # es) = (case event_time e of None \<Rightarrow> in_order now es | Some t \<Rightarrow> now \<le> t \<and> in_order t es)"

fun last_time :: "rat \<Rightarrow> cb_event list \<Rightarrow> rat" where
  "last_time now [] = now"
| "last_time now (e # es) = last_time (case event_time e of None \<Rightarrow> now | Some t \<Rightarrow> t) es"

lemma stands_for_run:
  assumes "0 < cb_threshold cfg"
  shows "stands_for cfg now b fs \<Longrightarrow> in_order now events \<Longrightarrow>
    stands_for cfg (last_time now events) (foldl (breaker_step cfg) b events) (foldl history_step fs events)"
proof (induction events arbitrary: now b fs)
  case (Cons e es)
  show ?case
  proof (cases "event_time e")
    case None
    then show ?thesis using Cons.IH [OF stands_for_step [OF Cons.prems(1) assms, of now e]] Cons.prems(2) by simp
  next
    case (Some t)
    then show ?thesis using Cons.IH [OF stands_for_step [OF Cons.prems(1) assms, of t e]] Cons.prems(2) by simp
  qed
qed simp

text \<open>C16: After any sequence of checks, successes and failures in the order of time, the circuit breaker refuses a request exactly when
  the last outcomes, at least as many as the threshold, were all failures and the pause since the last of them is not over.\<close>

theorem breaker_refuses_by_history:
  assumes "0 < cb_threshold cfg" and "in_order 0 events" and "last_time 0 events \<le> now"
  shows "(\<exists>r. pre_check cfg now (foldl (breaker_step cfg) new_breaker events) = Inl r) \<longleftrightarrow> refuses cfg (foldl history_step [] events) now"
proof -
  have "stands_for cfg 0 new_breaker []" using assms(1) by (simp add: stands_for_def new_breaker_def)
  from stands_for_run [OF assms(1) this assms(2)] show ?thesis by (rule stands_for_check(1)) fact+
qed

theorem breaker_refuses_by_history_witness:
  "let cfg = \<lparr>cb_threshold = 2, cb_reset = 30\<rparr>; events = [Checked 1, FailedAt 2, Checked 3, FailedAt 4] in
   in_order 0 events \<and> refuses cfg (foldl history_step [] events) 10
   \<and> (\<exists>r. pre_check cfg 10 (foldl (breaker_step cfg) new_breaker events) = Inl r)"
proof -
  let ?cfg = "\<lparr>cb_threshold = 2, cb_reset = 30\<rparr>" and ?events = "[Checked 1, FailedAt 2, Checked 3, FailedAt 4]"
  have "in_order 0 ?events" "last_time 0 ?events \<le> 10" "refuses ?cfg (foldl history_step [] ?events) 10"
    by (simp_all add: refuses_def history_step_def)
  moreover have "0 < cb_threshold ?cfg" by simp
  ultimately show ?thesis using breaker_refuses_by_history [of ?cfg ?events 10] by (simp only: Let_def)
qed

section \<open>Requests\<close>

lemma breaker_of_put [simp]: "breaker_of (put_breaker h b c) h' = (if h' = h then b else breaker_of c h')"
  by (simp add: breaker_of_def put_breaker_def)

lemma put_breaker_simps [simp]:
  "sc_sent (put_breaker h b c) = sc_sent c" "sc_now (put_breaker h b c) = sc_now c" "sc_sent (sleep_for d c) = sc_sent c"
  "breaker_of (sleep_for d c) h = breaker_of c h" "sc_breakers (sleep_for d c) = sc_breakers c"
  by (simp_all add: put_breaker_def sleep_for_def breaker_of_def)

lemma client_send_simps:
  assumes "client_send send q c = (r, c1)"
  shows "sc_sent c1 = sc_sent c @ [q]" and "sc_breakers c1 = sc_breakers c" and "breaker_of c1 h = breaker_of c h" and "r = fst (send (sc_sent c) q)"
  using assms by (auto simp: client_send_def breaker_of_def split: prod.splits)

lemma attempts_sent: "\<exists>k \<le> Suc left. sc_sent (snd (attempts send cfg host q attempt left c)) = sc_sent c @ replicate k q"
proof (induction left arbitrary: attempt c)
  case 0
  show ?case
    by (subst attempts.simps) (auto simp: Let_def client_send_simps split: sum.splits prod.splits sdk_outcome.splits
        intro: exI [of _ 0] exI [of _ 1])
next
  case (Suc n)
  have more: "\<exists>k \<le> Suc (Suc n). sc_sent (snd (attempts send cfg host q a n c')) = sc_sent c @ replicate k q" if "sc_sent c' = sc_sent c @ [q]" for a c'
  proof -
    obtain k where "k \<le> Suc n" "sc_sent (snd (attempts send cfg host q a n c')) = sc_sent c' @ replicate k q" using Suc.IH [of a c'] by blast
    with that show ?thesis by (intro exI [of _ "Suc k"]) simp
  qed
  show ?case
    by (subst attempts.simps) (auto simp: Let_def client_send_simps split: sum.splits prod.splits sdk_outcome.splits
        intro: more exI [of _ 0] exI [of _ 1])
qed

text \<open>A request through the client is sent at most once more than the number of retries, always as it was given, and not at
  all while the breaker of its host refuses.\<close>

lemma request_is_sent_boundedly:
  "(\<exists>k \<le> Suc (sk_max_retries cfg). sc_sent (snd (client_request send cfg q c)) = sc_sent c @ replicate k q)
   \<and> (case breaker_key (sq_url q) of
        Inl e \<Rightarrow> client_request send cfg q c = (Inl (SdkOther e), c)
      | Inr host \<Rightarrow> (case pre_check (sk_breaker cfg) (sc_now c) (breaker_of c host) of
                       Inl r \<Rightarrow> fst (client_request send cfg q c) = Inl (BreakerOpen r) \<and> sc_sent (snd (client_request send cfg q c)) = sc_sent c
                     | Inr _ \<Rightarrow> True))"
proof (cases "breaker_key (sq_url q)")
  case (Inl e)
  then show ?thesis by (auto simp: client_request_def intro: exI [of _ 0])
next
  case (Inr host)
  let ?c = "put_breaker host (breaker_of c host) c"
  have "\<exists>k \<le> Suc (sk_max_retries cfg). sc_sent (snd (client_request send cfg q c)) = sc_sent c @ replicate k q"
    using attempts_sent [of "sk_max_retries cfg" send cfg host q 0 ?c] Inr by (simp add: client_request_def)
  moreover have "client_request send cfg q c = (Inl (BreakerOpen r), ?c)" if "pre_check (sk_breaker cfg) (sc_now c) (breaker_of c host) = Inl r" for r
    using that Inr by (simp add: client_request_def attempts.simps [of send cfg host q 0 "sk_max_retries cfg"])
  ultimately show ?thesis using Inr by (auto split: sum.splits)
qed

section \<open>Server errors\<close>

definition all_closed :: "sdk_client \<Rightarrow> bool" where
  "all_closed c \<longleftrightarrow> (\<forall>h. cb_state (breaker_of c h) = CbClosed \<and> cb_failures (breaker_of c h) = 0)"

definition always_server_error :: "sdk_network \<Rightarrow> bool" where
  "always_server_error send \<longleftrightarrow> (\<forall>sent q. \<exists>code. 500 \<le> code \<and> fst (send sent q) = SdkAnswer code)"

lemma server_error_attempts:
  assumes "always_server_error send"
  shows "cb_state (breaker_of c host) = CbClosed \<Longrightarrow> cb_failures (breaker_of c host) + left < cb_threshold (sk_breaker cfg) \<Longrightarrow>
    (\<And>h. h \<noteq> host \<Longrightarrow> cb_state (breaker_of c h) = CbClosed \<and> cb_failures (breaker_of c h) = 0) \<Longrightarrow>
    all_closed (snd (attempts send cfg host q attempt left c)) \<and> sc_sent (snd (attempts send cfg host q attempt left c)) = sc_sent c @ replicate (Suc left) q"
proof (induction left arbitrary: attempt c)
  case 0
  obtain r c1 where s: "client_send send q (put_breaker host (breaker_of c host) c) = (r, c1)" by fastforce
  note simps = client_send_simps [OF s]
  have "\<exists>code. r = SdkAnswer code" using assms simps(4) by (auto simp: always_server_error_def)
  then obtain code where r: "r = SdkAnswer code" ..
  have "attempts send cfg host q attempt 0 c = (Inr code, put_breaker host (on_success (breaker_of c1 host)) c1)"
    using 0 s r by (subst attempts.simps) (simp add: pre_check_def)
  with 0 simps show ?case by (auto simp: all_closed_def on_success_def)
next
  case (Suc n)
  obtain r c1 where s: "client_send send q (put_breaker host (breaker_of c host) c) = (r, c1)" by fastforce
  note simps = client_send_simps [OF s]
  have "\<exists>code. r = SdkAnswer code \<and> 500 \<le> code"
    using assms simps(4) by (auto simp: always_server_error_def)
  then obtain code where r: "r = SdkAnswer code" "500 \<le> code" by blast
  let ?c = "sleep_for (backoff attempt) (put_breaker host (on_failure (sk_breaker cfg) (sc_now c1) (breaker_of c1 host)) c1)"
  have step: "attempts send cfg host q attempt (Suc n) c = attempts send cfg host q (Suc attempt) n ?c"
    using Suc.prems s r by (subst attempts.simps) (simp add: pre_check_def)
  have "cb_state (breaker_of ?c host) = CbClosed \<and> cb_failures (breaker_of ?c host) = Suc (cb_failures (breaker_of c host))"
    using Suc.prems(1,2) simps(3) by (simp add: on_failure_def Let_def)
  then have "all_closed (snd (attempts send cfg host q (Suc attempt) n ?c))
      \<and> sc_sent (snd (attempts send cfg host q (Suc attempt) n ?c)) = sc_sent ?c @ replicate (Suc n) q"
    using Suc.prems simps(3) by (intro Suc.IH) simp_all
  then show ?case unfolding step using simps(1) by simp
qed

definition fresh_client :: sdk_client where
  "fresh_client = \<lparr>sc_breakers = [], sc_now = 0, sc_sent = []\<rparr>"

definition sdk_requests :: "sdk_network \<Rightarrow> sdk_config \<Rightarrow> sdk_request list \<Rightarrow> sdk_client \<Rightarrow> sdk_client" where
  "sdk_requests send cfg qs c = foldl (\<lambda>c q. snd (client_request send cfg q c)) c qs"

text \<open>C17: While servers answer every request with an error from 500 on and the client retries less often than the threshold of
  its breakers, no breaker ever opens: the last answer of each request counts as a success, and every request is sent as
  often as the retries allow.\<close>

theorem server_errors_never_open_breaker:
  assumes "always_server_error send" and "sk_max_retries cfg < cb_threshold (sk_breaker cfg)" and "list_all (\<lambda>q. \<exists>h. breaker_key (sq_url q) = Inr h) qs"
  shows "all_closed (sdk_requests send cfg qs fresh_client)
    \<and> length (sc_sent (sdk_requests send cfg qs fresh_client)) = Suc (sk_max_retries cfg) * length qs"
proof -
  have "all_closed (sdk_requests send cfg qs c) \<and> length (sc_sent (sdk_requests send cfg qs c)) = length (sc_sent c) + Suc (sk_max_retries cfg) * length qs"
    if "all_closed c" for c using that assms(3)
  proof (induction qs arbitrary: c)
    case (Cons q qs)
    then obtain h where h: "breaker_key (sq_url q) = Inr h" by auto
    have "all_closed (snd (client_request send cfg q c)) \<and> sc_sent (snd (client_request send cfg q c)) = sc_sent c @ replicate (Suc (sk_max_retries cfg)) q"
      using server_error_attempts [OF assms(1), of "put_breaker h (breaker_of c h) c" h "sk_max_retries cfg" cfg q 0] Cons.prems(1) assms(2) h
      by (simp add: client_request_def all_closed_def)
    with Cons.IH [of "snd (client_request send cfg q c)"] Cons.prems(2) show ?case by (simp add: sdk_requests_def)
  qed (simp add: sdk_requests_def)
  moreover have "all_closed fresh_client" by (simp add: all_closed_def fresh_client_def breaker_of_def new_breaker_def dget_def)
  ultimately show ?thesis by (simp add: fresh_client_def)
qed

definition sdk_defaults :: sdk_config where
  "sdk_defaults = \<lparr>sk_max_retries = 3, sk_breaker = \<lparr>cb_threshold = 5, cb_reset = 30\<rparr>\<rparr>"

theorem server_errors_never_open_breaker_witness:
  "let qs = replicate 10 \<lparr>sq_method = ''GET'', sq_url = ''https://api.example.com/v1'', sq_content = PNone\<rparr>;
       c = sdk_requests (\<lambda>_ _. (SdkAnswer 503, 1)) sdk_defaults qs fresh_client in all_closed c \<and> length (sc_sent c) = 40"
proof -
  let ?q = "\<lparr>sq_method = ''GET'', sq_url = ''https://api.example.com/v1'', sq_content = PNone\<rparr>"
  have "breaker_key ''https://api.example.com/v1'' = Inr ''https://api.example.com''" by code_simp
  then have "list_all (\<lambda>q. \<exists>h. breaker_key (sq_url q) = Inr h) (replicate 10 ?q)" by (simp add: list_all_iff)
  moreover have "always_server_error (\<lambda>_ _. (SdkAnswer 503, 1))" by (simp add: always_server_error_def)
  ultimately show ?thesis
    using server_errors_never_open_breaker [of "\<lambda>_ _. (SdkAnswer 503, 1)" sdk_defaults "replicate 10 ?q"] by (simp add: sdk_defaults_def)
qed

end
