(* ===== verification/CredentialVault.thy ===== *)
theory CredentialVault
  imports PyValue Sorting
begin

text \<open>
  The credential vault (\<^verbatim>\<open>core/credential_vault.py\<close>): encrypted values per tenant,
  connector, credential set and key, and opaque tokens that stand for a credential
  set.  AES-GCM and base64 are the fields of \<open>cipher\<close>; the random nonce of an
  encryption and the random text of a token are arguments.  Texts are ASCII, so
  that encoding to bytes and back changes nothing.
\<close>

section \<open>Encryption\<close>

record cipher =
  ci_seal :: "string \<Rightarrow> string \<Rightarrow> string"
  ci_open :: "string \<Rightarrow> string \<Rightarrow> string option"
  ci_b64encode :: "string \<Rightarrow> string"
  ci_b64decode :: "string \<Rightarrow> string option"

definition nonce_size :: nat where "nonce_size = 12"

text \<open>What AES-GCM and base64 promise: what was sealed opens under the same nonce, and what was encoded
  decodes.\<close>

definition cipher_ok :: "cipher \<Rightarrow> bool" where
  "cipher_ok ci \<longleftrightarrow> (\<forall>nonce p. ci_open ci nonce (ci_seal ci nonce p) = Some p)
     \<and> (\<forall>x. ci_b64decode ci (ci_b64encode ci x) = Some x)"

definition encrypt :: "cipher \<Rightarrow> string \<Rightarrow> string \<Rightarrow> string" where
  "encrypt ci nonce plaintext = ci_b64encode ci (nonce @ ci_seal ci nonce plaintext)"

text \<open>The dash in the message is a character outside the model and is written as a hyphen.\<close>

definition decrypt_error :: exn where
  "decrypt_error = ValueError ''Failed to decrypt credential - key mismatch or corrupted data''"

definition decrypt :: "cipher \<Rightarrow> string \<Rightarrow> string py" where
  "decrypt ci ciphertext =
     (case ci_b64decode ci ciphertext of
        None \<Rightarrow> Inl decrypt_error
      | Some raw \<Rightarrow>
          (case ci_open ci (take nonce_size raw) (drop nonce_size raw) of
             None \<Rightarrow> Inl decrypt_error
           | Some p \<Rightarrow> Inr p))"

lemma decrypt_encrypt: "cipher_ok ci \<Longrightarrow> length nonce = nonce_size \<Longrightarrow> decrypt ci (encrypt ci nonce p) = Inr p"
  by (simp add: cipher_ok_def encrypt_def decrypt_def)

section \<open>The tables\<close>

type_synonym cred_key = "string \<times> string \<times> string \<times> string"

record credential =
  cr_tenant :: string
  cr_connector :: string
  cr_name :: string
  cr_key :: string
  cr_encrypted :: string

record credential_token =
  ct_tenant :: string
  ct_connector :: string
  ct_name :: string
  ct_token :: string
  ct_active :: bool

record vault =
  va_credentials :: "credential list"
  va_tokens :: "credential_token list"

definition cred_id :: "credential \<Rightarrow> cred_key" where
  "cred_id c = (cr_tenant c, cr_connector c, cr_name c, cr_key c)"

definition token_id :: "credential_token \<Rightarrow> string \<times> string \<times> string" where
  "token_id t = (ct_tenant t, ct_connector t, ct_name t)"

text \<open>The unique constraints of the two tables.\<close>

definition vault_ok :: "vault \<Rightarrow> bool" where
  "vault_ok v \<longleftrightarrow> uniq_by cred_id (va_credentials v) \<and> uniq_by token_id (va_tokens v) \<and> uniq_by ct_token (va_tokens v)"

definition integrity_error :: exn where
  "integrity_error = OtherError ''IntegrityError'' ''duplicate key value violates unique constraint''"

section \<open>Credentials\<close>

definition submitted_credential_values :: "string \<Rightarrow> (string \<times> string) list \<Rightarrow> (string \<times> string) list" where
  "submitted_credential_values mask_text credentials = filter (\<lambda>(k, v). v \<noteq> [] \<and> v \<noteq> mask_text) credentials"

definition find_credential :: "vault \<Rightarrow> cred_key \<Rightarrow> credential option" where
  "find_credential v k = find (\<lambda>c. cred_id c = k) (va_credentials v)"

definition put_encrypted :: "vault \<Rightarrow> cred_key \<Rightarrow> string \<Rightarrow> vault" where
  "put_encrypted v k encrypted =
     (case find_credential v k of
        Some _ \<Rightarrow> v\<lparr>va_credentials := update_where (\<lambda>c. cred_id c = k) (\<lambda>c. c\<lparr>cr_encrypted := encrypted\<rparr>) (va_credentials v)\<rparr>
      | None \<Rightarrow>
          (case k of (tenant, connector, name, key) \<Rightarrow>
             v\<lparr>va_credentials := va_credentials v @
                [\<lparr>cr_tenant = tenant, cr_connector = connector, cr_name = name, cr_key = key, cr_encrypted = encrypted\<rparr>]\<rparr>))"

definition store_credential :: "cipher \<Rightarrow> string \<Rightarrow> vault \<Rightarrow> string \<Rightarrow> string \<Rightarrow> string \<Rightarrow> string \<Rightarrow> string \<Rightarrow> vault" where
  "store_credential ci nonce v tenant connector key plain name =
     put_encrypted v (tenant, connector, name, key) (encrypt ci nonce plain)"

definition retrieve :: "cipher \<Rightarrow> vault \<Rightarrow> string \<Rightarrow> string \<Rightarrow> string \<Rightarrow> string \<Rightarrow> string option py" where
  "retrieve ci v tenant connector key name =
     (case find_credential v (tenant, connector, name, key) of
        None \<Rightarrow> Inr None
      | Some c \<Rightarrow> andThen (decrypt ci (cr_encrypted c)) (\<lambda>p. Inr (Some p)))"

definition in_set :: "string \<Rightarrow> string \<Rightarrow> string \<Rightarrow> credential \<Rightarrow> bool" where
  "in_set tenant connector name c \<longleftrightarrow> cr_tenant c = tenant \<and> cr_connector c = connector \<and> cr_name c = name"

definition retrieve_all :: "cipher \<Rightarrow> vault \<Rightarrow> string \<Rightarrow> string \<Rightarrow> string \<Rightarrow> (string \<times> string) list py" where
  "retrieve_all ci v tenant connector name =
     foldM (\<lambda>d c. andThen (decrypt ci (cr_encrypted c)) (\<lambda>p. Inr (dset d (cr_key c) p))) []
       (filter (in_set tenant connector name) (va_credentials v))"

text \<open>The database orders the names; the model orders them by code points.\<close>

definition list_credential_names :: "vault \<Rightarrow> string \<Rightarrow> string \<Rightarrow> string list" where
  "list_credential_names v tenant connector =
     stable_sort str_lt (remdups (map cr_name (filter (\<lambda>c. cr_tenant c = tenant \<and> cr_connector c = connector) (va_credentials v))))"

text \<open>\<^verbatim>\<open>if credential_name:\<close> an empty or missing name does not restrict.\<close>

definition restricts :: "string option \<Rightarrow> string \<Rightarrow> bool" where
  "restricts opt_value actual = (case opt_value of None \<Rightarrow> True | Some x \<Rightarrow> x = [] \<or> actual = x)"

definition delete_credentials ::
  "vault \<Rightarrow> string \<Rightarrow> string \<Rightarrow> string option \<Rightarrow> string option \<Rightarrow> nat \<times> vault" where
  "delete_credentials v tenant connector key name =
     (let doomed = (\<lambda>c. cr_tenant c = tenant \<and> cr_connector c = connector \<and> restricts name (cr_name c) \<and> restricts key (cr_key c)) in
      (length (filter doomed (va_credentials v)), v\<lparr>va_credentials := filter (\<lambda>c. \<not> doomed c) (va_credentials v)\<rparr>))"

section \<open>Tokens\<close>

definition find_token :: "vault \<Rightarrow> string \<times> string \<times> string \<Rightarrow> credential_token option" where
  "find_token v k = find (\<lambda>t. token_id t = k) (va_tokens v)"

definition token_taken :: "vault \<Rightarrow> string \<Rightarrow> bool" where
  "token_taken v token = list_ex (\<lambda>t. ct_token t = token) (va_tokens v)"

definition get_or_create_token :: "vault \<Rightarrow> string \<Rightarrow> string \<Rightarrow> string \<Rightarrow> string \<Rightarrow> (credential_token \<times> vault) py" where
  "get_or_create_token v generated tenant connector name =
     (case find_token v (tenant, connector, name) of
        Some row \<Rightarrow> Inr (row, v)
      | None \<Rightarrow>
          if token_taken v generated then Inl integrity_error
          else
          let row = \<lparr>ct_tenant = tenant, ct_connector = connector, ct_name = name, ct_token = generated, ct_active = True\<rparr> in
          Inr (row, v\<lparr>va_tokens := va_tokens v @ [row]\<rparr>))"

definition regenerate_token :: "vault \<Rightarrow> string \<Rightarrow> string \<Rightarrow> string \<Rightarrow> string \<Rightarrow> (credential_token \<times> vault) py" where
  "regenerate_token v generated tenant connector name =
     (case find_token v (tenant, connector, name) of
        None \<Rightarrow> get_or_create_token v generated tenant connector name
      | Some row \<Rightarrow>
          if token_taken v generated \<and> ct_token row \<noteq> generated then Inl integrity_error
          else Inr (row\<lparr>ct_token := generated\<rparr>,
            v\<lparr>va_tokens := update_where (\<lambda>t. token_id t = (tenant, connector, name)) (\<lambda>t. t\<lparr>ct_token := generated\<rparr>) (va_tokens v)\<rparr>))"

definition resolve_token :: "cipher \<Rightarrow> vault \<Rightarrow> string \<Rightarrow> (string \<times> string) list option py" where
  "resolve_token ci v token =
     (case find (\<lambda>t. ct_token t = token \<and> ct_active t) (va_tokens v) of
        None \<Rightarrow> Inr None
      | Some t \<Rightarrow> andThen (retrieve_all ci v (ct_tenant t) (ct_connector t) (ct_name t)) (\<lambda>d. Inr (Some d)))"

definition get_token :: "vault \<Rightarrow> string \<Rightarrow> string \<Rightarrow> string \<Rightarrow> string option" where
  "get_token v tenant connector name = map_option ct_token (find_token v (tenant, connector, name))"

definition delete_token :: "vault \<Rightarrow> string \<Rightarrow> string \<Rightarrow> string option \<Rightarrow> nat \<times> vault" where
  "delete_token v tenant connector name =
     (let doomed = (\<lambda>t. ct_tenant t = tenant \<and> ct_connector t = connector \<and> restricts name (ct_name t)) in
      (length (filter doomed (va_tokens v)), v\<lparr>va_tokens := filter (\<lambda>t. \<not> doomed t) (va_tokens v)\<rparr>))"

definition rename_token :: "vault \<Rightarrow> string \<Rightarrow> string \<Rightarrow> string \<Rightarrow> string \<Rightarrow> vault py" where
  "rename_token v tenant connector old_name new_name =
     (case find_token v (tenant, connector, old_name) of
        None \<Rightarrow> Inr v
      | Some row \<Rightarrow>
          if new_name \<noteq> old_name \<and> find_token v (tenant, connector, new_name) \<noteq> None then Inl integrity_error
          else Inr (v\<lparr>va_tokens := update_where (\<lambda>t. token_id t = (tenant, connector, old_name))
                       (\<lambda>t. t\<lparr>ct_name := new_name\<rparr>) (va_tokens v)\<rparr>))"

section \<open>The table of credentials as a key-value store\<close>

definition lookup_encrypted :: "vault \<Rightarrow> cred_key \<Rightarrow> string option" where
  "lookup_encrypted v k = map_option cr_encrypted (find_credential v k)"

lemma cred_id_update [simp]: "cred_id (c\<lparr>cr_encrypted := x\<rparr>) = cred_id c"
  by (simp add: cred_id_def)

lemma find_credential_None: "find_credential v k = None \<longleftrightarrow> (\<forall>c \<in> set (va_credentials v). cred_id c \<noteq> k)"
  by (simp add: find_credential_def find_None_all)

definition new_credential :: "cred_key \<Rightarrow> string \<Rightarrow> credential" where
  "new_credential k e =
     \<lparr>cr_tenant = fst k, cr_connector = fst (snd k), cr_name = fst (snd (snd k)), cr_key = snd (snd (snd k)), cr_encrypted = e\<rparr>"

lemma new_credential_simps [simp]: "cred_id (new_credential k e) = k" "cr_encrypted (new_credential k e) = e"
  by (simp_all add: cred_id_def new_credential_def)

lemma put_encrypted_cases:
  "put_encrypted v k e = v\<lparr>va_credentials :=
     (if find_credential v k = None then va_credentials v @ [new_credential k e]
      else update_where (\<lambda>c. cred_id c = k) (\<lambda>c. c\<lparr>cr_encrypted := e\<rparr>) (va_credentials v))\<rparr>"
  by (auto simp: put_encrypted_def new_credential_def split: option.splits prod.splits)

lemma lookup_put_encrypted: "lookup_encrypted (put_encrypted v k e) k' = (if k' = k then Some e else lookup_encrypted v k')"
proof (cases "find_credential v k")
  case None
  then show ?thesis
    by (auto simp: put_encrypted_cases lookup_encrypted_def find_credential_def find_snoc split: option.splits)
next
  case (Some c)
  have *: "find (\<lambda>c. cred_id c = k') (update_where (\<lambda>c. cred_id c = k) (\<lambda>c. c\<lparr>cr_encrypted := e\<rparr>) (va_credentials v))
    = map_option (\<lambda>c. if cred_id c = k then c\<lparr>cr_encrypted := e\<rparr> else c) (find (\<lambda>c. cred_id c = k') (va_credentials v))"
    by (rule find_update_where) simp
  have "cred_id c = k" using Some by (auto simp: find_credential_def dest: find_Some_mem)
  show ?thesis
  proof (cases "k' = k")
    case False
    then show ?thesis
      using * Some by (cases "find (\<lambda>c. cred_id c = k') (va_credentials v)")
        (auto simp: put_encrypted_cases lookup_encrypted_def find_credential_def dest: find_Some_mem)
  qed (use * Some \<open>cred_id c = k\<close> in \<open>simp add: put_encrypted_cases lookup_encrypted_def find_credential_def\<close>)
qed

lemma put_encrypted_ok: "vault_ok v \<Longrightarrow> vault_ok (put_encrypted v k e)"
  by (auto simp: vault_ok_def put_encrypted_cases uniq_snoc find_credential_None intro!: uniq_update_where)

interpretation vault_store: kv_store lookup_encrypted put_encrypted vault_ok
  by unfold_locales (simp_all add: lookup_put_encrypted put_encrypted_ok)

lemma retrieve_lookup:
  "retrieve ci v tenant connector key name =
     (case lookup_encrypted v (tenant, connector, name, key) of
        None \<Rightarrow> Inr None | Some e \<Rightarrow> andThen (decrypt ci e) (\<lambda>p. Inr (Some p)))"
  by (simp add: retrieve_def lookup_encrypted_def split: option.splits)

section \<open>The constraints are kept\<close>

lemma token_taken_iff: "token_taken v x \<longleftrightarrow> (\<exists>t \<in> set (va_tokens v). ct_token t = x)"
  by (simp add: token_taken_def list_ex_iff)

lemma find_token_None: "find_token v k = None \<longleftrightarrow> (\<forall>t \<in> set (va_tokens v). token_id t \<noteq> k)"
  by (simp add: find_token_def find_None_all)

lemma find_token_Some: "find_token v k = Some t \<Longrightarrow> t \<in> set (va_tokens v) \<and> token_id t = k"
  by (auto simp: find_token_def dest: find_Some_mem)

text \<open>An update of the one row that satisfies a test keeps a key unique when the new key is not taken by
  another row.\<close>

lemma uniq_update_one:
  assumes "uniq_by key rows" and "uniq_by ident rows" and "\<And>r. r \<in> set rows \<Longrightarrow> ident r = i \<Longrightarrow> key (f r) = new"
    and "\<forall>r \<in> set rows. ident r \<noteq> i \<longrightarrow> key r \<noteq> new"
  shows "uniq_by key (update_where (\<lambda>r. ident r = i) f rows)"
  using assms
proof (induction rows)
  case (Cons r rows)
  have IH: "uniq_by key (update_where (\<lambda>r. ident r = i) f rows)"
    using Cons by (auto simp: uniq_by_def)
  have "key (if ident r = i then f r else r) \<noteq> key (if ident q = i then f q else q)" if "q \<in> set rows" for q
  proof -
    have "ident r \<noteq> ident q" "key r \<noteq> key q" using Cons.prems(1,2) that by (auto simp: uniq_by_def)
    moreover have "key (f r) = new" if "ident r = i" using Cons.prems(3) [of r] that by simp
    moreover have "key (f q) = new" if "ident q = i" using Cons.prems(3) [of q] that \<open>q \<in> set rows\<close> by simp
    moreover have "key r \<noteq> new" if "ident r \<noteq> i" using Cons.prems(4) that by simp
    moreover have "key q \<noteq> new" if "ident q \<noteq> i" using Cons.prems(4) that \<open>q \<in> set rows\<close> by simp
    ultimately show ?thesis by auto
  qed
  then have "\<forall>q \<in> set rows. key (if ident r = i then f r else r) \<noteq> key (if ident q = i then f q else q)" by blast
  with IH show ?case by (auto simp: uniq_by_def update_where_def image_iff)
qed (simp add: update_where_def)

lemma get_or_create_token_ok:
  "vault_ok v \<Longrightarrow> get_or_create_token v generated tenant connector name = Inr (row, v') \<Longrightarrow> vault_ok v'"
  by (auto simp: get_or_create_token_def Let_def vault_ok_def uniq_snoc find_token_None token_taken_iff token_id_def
      split: option.splits if_splits)

lemma regenerate_token_ok:
  assumes "vault_ok v" and "regenerate_token v generated tenant connector name = Inr (row, v')"
  shows "vault_ok v'"
proof (cases "find_token v (tenant, connector, name)")
  case None
  then show ?thesis using assms get_or_create_token_ok by (auto simp: regenerate_token_def)
next
  case (Some t)
  let ?k = "(tenant, connector, name)"
  let ?rows = "update_where (\<lambda>t. token_id t = ?k) (\<lambda>t. t\<lparr>ct_token := generated\<rparr>) (va_tokens v)"
  have v': "v' = v\<lparr>va_tokens := ?rows\<rparr>" and free: "\<not> token_taken v generated \<or> ct_token t = generated"
    using assms(2) Some by (auto simp: regenerate_token_def split: if_splits)
  have u: "uniq_by token_id (va_tokens v)" "uniq_by ct_token (va_tokens v)" using assms(1) by (simp_all add: vault_ok_def)
  have t: "t \<in> set (va_tokens v)" "token_id t = ?k" using find_token_Some [OF Some] by auto
  have "\<forall>r \<in> set (va_tokens v). token_id r \<noteq> ?k \<longrightarrow> ct_token r \<noteq> generated"
    using free t u(2) by (auto simp: token_taken_iff uniq_by_def distinct_map inj_on_def)
  then have "uniq_by ct_token ?rows" by (intro uniq_update_one u) auto
  moreover have "uniq_by token_id ?rows" by (rule uniq_update_where [OF u(1)]) (simp add: token_id_def)
  ultimately show ?thesis using assms(1) by (simp add: vault_ok_def v')
qed

lemma rename_token_ok:
  assumes "vault_ok v" and "rename_token v tenant connector old_name new_name = Inr v'"
  shows "vault_ok v'"
proof (cases "find_token v (tenant, connector, old_name)")
  case None
  then show ?thesis using assms by (simp add: rename_token_def)
next
  case (Some t)
  let ?rows = "update_where (\<lambda>t. token_id t = (tenant, connector, old_name)) (\<lambda>t. t\<lparr>ct_name := new_name\<rparr>) (va_tokens v)"
  have v': "v' = v\<lparr>va_tokens := ?rows\<rparr>" and free: "new_name = old_name \<or> find_token v (tenant, connector, new_name) = None"
    using assms(2) Some by (auto simp: rename_token_def split: if_splits)
  have u: "uniq_by token_id (va_tokens v)" "uniq_by ct_token (va_tokens v)" using assms(1) by (simp_all add: vault_ok_def)
  have "uniq_by token_id ?rows"
    by (rule uniq_update_one [OF u(1) u(1), where new = "(tenant, connector, new_name)"])
      (use free in \<open>auto simp: token_id_def find_token_None\<close>)
  moreover have "uniq_by ct_token ?rows" by (rule uniq_update_where [OF u(2)]) simp
  ultimately show ?thesis using assms(1) by (simp add: vault_ok_def v')
qed

end
