(* ===== verification/Registry.thy ===== *)
theory Registry
  imports PyValue
begin

text \<open>
  The connector registry (\<^verbatim>\<open>core/connector_registry.py\<close>): manifests, versions and
  their order, lookup and search.  A manifest is what the loader made of a
  \<^verbatim>\<open>connector.yaml\<close>; reading and parsing the files is not modelled, a file that
  fails to load is \<open>None\<close>.
\<close>

section \<open>Manifests\<close>

record manifest =
  cm_name :: string
  cm_category :: string
  cm_version :: string
  cm_display_name :: string
  cm_description :: string
  cm_interface :: string
  cm_country :: string
  cm_capabilities :: "string list"
  cm_events :: "string list"
  cm_actions :: "string list"
  cm_config_schema :: pydict
  cm_action_routes :: pydict
  cm_service_name :: string
  cm_credential_provisioning :: pydict
  cm_credential_validation :: pydict
  cm_payload_hints :: pydict
  cm_rate_limits :: pydict
  cm_oauth2 :: pydict
  cm_webhooks :: pydict
  cm_health_endpoint :: string
  cm_action_fields :: pydict
  cm_output_fields :: pydict
  cm_status :: string

definition connector_id :: "manifest \<Rightarrow> string" where
  "connector_id c = cm_category c @ ''/'' @ cm_name c @ ''/'' @ cm_version c"

definition resolved_service_name :: "manifest \<Rightarrow> string" where
  "resolved_service_name c = (if cm_service_name c \<noteq> [] then cm_service_name c else ''connector-'' @ cm_name c)"

definition base_url :: "manifest \<Rightarrow> string" where
  "base_url c = ''http://'' @ resolved_service_name c @ '':8000''"

text \<open>\<^verbatim>\<open>set(d.get(k, []))\<close>.\<close>

definition field_set :: "pydict \<Rightarrow> string \<Rightarrow> pyval list py" where
  "field_set d k =
     andThen (py_iter (dget d k (PList [])))
       (mapM (\<lambda>v. if hashable v then Inr v else Inl (unhashable_error v)))"

definition supports_oauth2 :: "manifest \<Rightarrow> bool" where
  "supports_oauth2 c \<longleftrightarrow> cm_oauth2 c \<noteq> [] \<or> truthy (dget (cm_credential_validation c) ''oauth2'' PNone)"

definition has_webhooks :: "manifest \<Rightarrow> bool" where
  "has_webhooks c \<longleftrightarrow> cm_webhooks c \<noteq> []"

definition classify_auth :: "pydict \<Rightarrow> string list \<Rightarrow> string" where
  "classify_auth validation fds =
     (let has = (\<lambda>ks. set ks \<subseteq> set fds); any = (\<lambda>ks. set ks \<inter> set fds \<noteq> {}) in
      if dget validation ''validate_mode'' PNone = PStr ''email_imap_smtp'' then ''email''
      else if dget validation ''auth'' PNone = PStr ''basic'' \<or> has [''username'', ''password''] \<or> has [''login'', ''password'']
        then ''basic''
      else if has [''client_id'', ''client_secret''] then ''client_credentials''
      else if any [''username'', ''password''] \<and> has [''access_token''] then ''hybrid''
      else if any [''token'', ''api_key'', ''api_token'', ''access_token'', ''bot_token''] then ''token''
      else if has [''consumer_key'', ''consumer_secret''] then ''api_key''
      else if has [''sql_server'', ''sql_database''] then ''onpremise''
      else ''custom'')"

definition auth_type :: "pyrt \<Rightarrow> manifest \<Rightarrow> string py" where
  "auth_type rt c =
     (if supports_oauth2 c then Inr ''oauth2''
      else
      andThen (field_set (cm_credential_validation c) ''required_fields'') (\<lambda>rf.
      andThen (field_set (cm_config_schema c) ''required'') (\<lambda>cr.
      andThen (field_set (cm_config_schema c) ''optional'') (\<lambda>co.
      Inr (classify_auth (cm_credential_validation c) (map (\<lambda>v. py_lower (py_str rt v)) (rf @ cr @ co)))))))"

definition sandbox_available :: "manifest \<Rightarrow> bool py" where
  "sandbox_available c =
     andThen (field_set (cm_config_schema c) ''required'') (\<lambda>cr.
     andThen (field_set (cm_config_schema c) ''optional'') (\<lambda>co.
     if dhas (cm_credential_validation c) ''sandbox'' then Inr True
     else
     andThen (py_get (dget (cm_credential_validation c) ''defaults'' (PDict [])) ''sandbox'' PNone) (\<lambda>d.
     Inr (truthy d \<or> truthy (dget (cm_oauth2 c) ''sandbox'' PNone) \<or> PStr ''sandbox_mode'' \<in> set (cr @ co)))))"

section \<open>Versions\<close>

definition leading_digits :: "string \<Rightarrow> nat" where
  "leading_digits segment =
     (case parse_digits False 0 (takeWhile is_digit segment) of Some n \<Rightarrow> n | None \<Rightarrow> 0)"

definition parse_semver :: "string \<Rightarrow> nat list" where
  "parse_semver version = map leading_digits (py_split ''.'' version)"

text \<open>Comparison of tuples.\<close>

fun tuple_lt :: "nat list \<Rightarrow> nat list \<Rightarrow> bool" where
  "tuple_lt xs [] = False"
| "tuple_lt [] (y # ys) = True"
| "tuple_lt (x # xs) (y # ys) = (x < y \<or> x = y \<and> tuple_lt xs ys)"

text \<open>\<^verbatim>\<open>max(candidates, key=...)\<close>: the first of the greatest.\<close>

fun max_version :: "manifest \<Rightarrow> manifest list \<Rightarrow> manifest" where
  "max_version best [] = best"
| "max_version best (c # cs) =
     max_version (if tuple_lt (parse_semver (cm_version best)) (parse_semver (cm_version c)) then c else best) cs"

section \<open>The registry\<close>

type_synonym registry = "(string \<times> manifest) list"

definition discover :: "manifest option list \<Rightarrow> registry \<times> nat" where
  "discover loaded =
     (let ms = List.map_filter (\<lambda>m. m) loaded in
      (foldl (\<lambda>d m. dset d (connector_id m) m) [] ms, length ms))"

definition get_all :: "registry \<Rightarrow> manifest list" where
  "get_all reg = map snd reg"

definition get_by_category :: "registry \<Rightarrow> string \<Rightarrow> manifest list" where
  "get_by_category reg category = filter (\<lambda>c. cm_category c = category) (get_all reg)"

definition get_by_name :: "registry \<Rightarrow> string \<Rightarrow> manifest list" where
  "get_by_name reg name = filter (\<lambda>c. cm_name c = name) (get_all reg)"

definition latest_of :: "manifest list \<Rightarrow> manifest option" where
  "latest_of cs = (case cs of [] \<Rightarrow> None | c # rest \<Rightarrow> Some (max_version c rest))"

definition get_by_name_version :: "registry \<Rightarrow> string \<Rightarrow> string option \<Rightarrow> manifest option" where
  "get_by_name_version reg name version =
     (let candidates = get_by_name reg name in
      case (case version of None \<Rightarrow> None | Some v \<Rightarrow> if v = [] then None else find (\<lambda>c. cm_version c = v) candidates) of
        Some c \<Rightarrow> Some c
      | None \<Rightarrow> latest_of candidates)"

definition get_connector :: "registry \<Rightarrow> string \<Rightarrow> manifest option" where
  "get_connector reg cid = map_of reg cid"

definition get_latest :: "registry \<Rightarrow> string \<Rightarrow> string \<Rightarrow> manifest option" where
  "get_latest reg category name =
     latest_of (filter (\<lambda>c. cm_category c = category \<and> cm_name c = name) (get_all reg))"

record search_filter =
  sf_category :: string
  sf_interface :: string
  sf_capability :: string
  sf_event :: string
  sf_action :: string
  sf_country :: string
  sf_q :: string
  sf_auth_type :: string
  sf_status :: string
  sf_supports_oauth2 :: "bool option"
  sf_has_webhooks :: "bool option"
  sf_sandbox_available :: "bool option"

text \<open>An empty text and a missing flag do not filter.\<close>

definition wants :: "string \<Rightarrow> bool \<Rightarrow> bool" where
  "wants f holds \<longleftrightarrow> f = [] \<or> holds"

definition wants_flag :: "bool option \<Rightarrow> bool \<Rightarrow> bool" where
  "wants_flag f b \<longleftrightarrow> (case f of None \<Rightarrow> True | Some x \<Rightarrow> b = x)"

definition text_matches :: "string \<Rightarrow> manifest \<Rightarrow> bool" where
  "text_matches needle c \<longleftrightarrow>
     list_ex (\<lambda>t. contains_sub (py_lower t) needle)
       ([cm_name c, cm_display_name c, cm_description c, cm_category c, cm_interface c, cm_country c]
        @ cm_capabilities c @ cm_events c @ cm_actions c)"

text \<open>Filters are applied one after another to the whole list; the ones that read
  derived properties may raise.\<close>

fun filterM :: "('a \<Rightarrow> 'e + bool) \<Rightarrow> 'a list \<Rightarrow> 'e + 'a list" where
  "filterM p [] = Inr []"
| "filterM p (x # xs) = andThen (p x) (\<lambda>b. andThen (filterM p xs) (\<lambda>ys. Inr (if b then x # ys else ys)))"

definition search_connectors :: "pyrt \<Rightarrow> registry \<Rightarrow> search_filter \<Rightarrow> manifest list py" where
  "search_connectors rt reg f =
     (let r1 = filter (\<lambda>c. wants (sf_category f) (cm_category c = sf_category f)
                        \<and> wants (sf_interface f) (cm_interface c = sf_interface f)
                        \<and> wants (sf_capability f) (sf_capability f \<in> set (cm_capabilities c))
                        \<and> wants (sf_event f) (sf_event f \<in> set (cm_events c))
                        \<and> wants (sf_action f) (sf_action f \<in> set (cm_actions c))
                        \<and> wants (sf_country f) (cm_country c = sf_country f)) (get_all reg) in
      andThen (if sf_auth_type f = [] then Inr r1
               else filterM (\<lambda>c. andThen (auth_type rt c) (\<lambda>a. Inr (a = sf_auth_type f))) r1) (\<lambda>r2.
      let r3 = filter (\<lambda>c. wants (sf_status f) (cm_status c = sf_status f)
                        \<and> wants_flag (sf_supports_oauth2 f) (supports_oauth2 c)
                        \<and> wants_flag (sf_has_webhooks f) (has_webhooks c)) r2 in
      andThen (case sf_sandbox_available f of
                 None \<Rightarrow> Inr r3
               | Some b \<Rightarrow> filterM (\<lambda>c. andThen (sandbox_available c) (\<lambda>x. Inr (x = b))) r3) (\<lambda>r4.
      let needle = py_lower (py_strip (sf_q f)) in
      Inr (if sf_q f = [] \<or> needle = [] then r4 else filter (text_matches needle) r4))))"

section \<open>Order of versions\<close>

lemma tuple_lt_irrefl: "\<not> tuple_lt xs xs"
  by (induction xs) auto

lemma tuple_not_lt_trans: "\<not> tuple_lt a b \<Longrightarrow> \<not> tuple_lt b c \<Longrightarrow> \<not> tuple_lt a c"
proof (induction a c arbitrary: b rule: tuple_lt.induct)
  case (2 y ys)
  then show ?case by (cases b) auto
next
  case (3 x xs y ys)
  then show ?case by (cases b) auto
qed simp

lemma tuple_lt_trans: "tuple_lt a b \<Longrightarrow> tuple_lt b c \<Longrightarrow> tuple_lt a c"
proof (induction a c arbitrary: b rule: tuple_lt.induct)
  case (1 xs)
  then show ?case by simp
next
  case (3 x xs y ys)
  then show ?case by (cases b) auto
qed simp

lemma tuple_lt_asym: "tuple_lt a b \<Longrightarrow> \<not> tuple_lt b a"
  using tuple_lt_irrefl tuple_lt_trans by blast

abbreviation older :: "manifest \<Rightarrow> manifest \<Rightarrow> bool" where
  "older c d \<equiv> tuple_lt (parse_semver (cm_version c)) (parse_semver (cm_version d))"

lemma max_version_greatest:
  "max_version best cs \<in> insert best (set cs) \<and> (\<forall>c \<in> insert best (set cs). \<not> older (max_version best cs) c)"
proof (induction cs arbitrary: best)
  case (Cons c cs)
  let ?b = "if older best c then c else best"
  have IH: "max_version ?b cs \<in> insert ?b (set cs)" "\<forall>d \<in> insert ?b (set cs). \<not> older (max_version ?b cs) d"
    using Cons [of ?b] by blast+
  have "\<not> older ?b best" "\<not> older ?b c" using tuple_lt_irrefl tuple_lt_asym by auto
  with IH have "\<not> older (max_version ?b cs) best" "\<not> older (max_version ?b cs) c"
    using tuple_not_lt_trans by (meson insertI1)+
  with IH show ?case by auto
qed (simp add: tuple_lt_irrefl)

lemma latest_of_greatest:
  "latest_of cs = Some m \<Longrightarrow> m \<in> set cs \<and> (\<forall>c \<in> set cs. \<not> older m c)"
  using max_version_greatest [of "hd cs" "tl cs"] by (auto simp: latest_of_def split: list.splits)

lemma filterM_Inr: "filterM p xs = Inr ys \<Longrightarrow> ys = filter (\<lambda>x. p x = Inr True) xs"
  by (induction xs arbitrary: ys) (auto simp: andThen_eq_Inr)

end
