(* ===== verification/WebhookIngestion.thy ===== *)
theory WebhookIngestion
  imports CredentialVault Registry EngineMonad
begin

text \<open>
  Ingestion of webhooks (\<^verbatim>\<open>core/webhook_ingestion.py\<close>): verification of the signature, suppression of
  repeated deliveries, the stored events and their processing.  The state is the table of events, the
  keys in Redis with the time they expire at, and the vault that holds the secrets.  HMAC is the field
  \<open>ws_hmac\<close>; the identifier of a new event and the time are arguments, and the function that processes
  an event is one over a world of its own.
\<close>

section \<open>Signatures\<close>

record webhook_service =
  ws_rt :: pyrt
  ws_hmac :: "string \<Rightarrow> string \<Rightarrow> string \<Rightarrow> string"
  ws_cipher :: cipher
  ws_registry :: registry
  ws_has_sessions :: bool

definition hmac_algorithms :: "(string \<times> string) list" where
  "hmac_algorithms = [(''hmac-sha256'', ''sha256''), (''hmac-sha1'', ''sha1''), (''hmac-sha512'', ''sha512'')]"

definition clean_signature :: "string \<Rightarrow> string" where
  "clean_signature signature =
     (case find (\<lambda>p. starts_with signature p) [''sha256='', ''sha1='', ''sha512=''] of
        None \<Rightarrow> signature
      | Some p \<Rightarrow> drop (length p) signature)"

text \<open>\<^verbatim>\<open>hmac.compare_digest\<close> takes strings of ASCII characters only.\<close>

definition compare_digest :: "string \<Rightarrow> string \<Rightarrow> bool py" where
  "compare_digest a b =
     (if list_all (\<lambda>c. of_char c < (128 :: nat)) (a @ b) then Inr (a = b)
      else Inl (TypeError ''comparing strings with non-ASCII characters is not supported''))"

definition verify_signature :: "webhook_service \<Rightarrow> string \<Rightarrow> string \<Rightarrow> string \<Rightarrow> string \<Rightarrow> bool py" where
  "verify_signature ws body signature secret algorithm =
     (case map_of hmac_algorithms (py_lower algorithm) of
        None \<Rightarrow> Inr False
      | Some hash \<Rightarrow> compare_digest (ws_hmac ws hash secret body) (clean_signature signature))"

section \<open>The stored events\<close>

record webhook_event =
  we_id :: string
  we_tenant :: string
  we_connector :: string
  we_event_type :: string
  we_external_id :: "string option"
  we_payload :: pyval
  we_headers :: "(string \<times> string) list"
  we_signature_valid :: "bool option"
  we_status :: string
  we_error :: "string option"
  we_retry_count :: nat
  we_processed_at :: "rat option"

record inbox =
  wb_events :: "webhook_event list"
  wb_dedup :: "(string \<times> rat) list"
  wb_vault :: vault

definition dedup_ttl :: rat where "dedup_ttl = 86400"

definition dedup_prefix :: string where "dedup_prefix = ''webhook:dedup:''"

definition dedup_key :: "string \<Rightarrow> string \<Rightarrow> string \<Rightarrow> string" where
  "dedup_key connector event external_id = dedup_prefix @ connector @ '':'' @ event @ '':'' @ external_id"

definition check_dedup :: "inbox \<Rightarrow> rat \<Rightarrow> string \<Rightarrow> string \<Rightarrow> string \<Rightarrow> bool" where
  "check_dedup box now connector event external_id =
     (case map_of (wb_dedup box) (dedup_key connector event external_id) of None \<Rightarrow> False | Some expires \<Rightarrow> now < expires)"

definition mark_dedup :: "inbox \<Rightarrow> rat \<Rightarrow> string \<Rightarrow> string \<Rightarrow> string \<Rightarrow> inbox" where
  "mark_dedup box now connector event external_id =
     box\<lparr>wb_dedup := dset (wb_dedup box) (dedup_key connector event external_id) (now + dedup_ttl)\<rparr>"

section \<open>Ingestion\<close>

definition get_manifest :: "webhook_service \<Rightarrow> string \<Rightarrow> manifest option" where
  "get_manifest ws connector = (case get_by_name (ws_registry ws) connector of [] \<Rightarrow> None | m # _ \<Rightarrow> Some m)"

definition get_webhook_config :: "manifest \<Rightarrow> string \<Rightarrow> pyval" where
  "get_webhook_config m event_type = dget (cm_webhooks m) event_type PNone"

text \<open>\<^verbatim>\<open>headers.get(sig_header) or headers.get(sig_header.lower())\<close>: a header name that is not a string is
  in no dictionary of headers and has no \<^verbatim>\<open>lower\<close>.\<close>

definition signature_of :: "(string \<times> string) list \<Rightarrow> pyval \<Rightarrow> string py" where
  "signature_of headers sig_header =
     (case sig_header of
        PStr h \<Rightarrow> Inr (if dget headers h [] \<noteq> [] then dget headers h [] else dget headers (py_lower h) [])
      | _ \<Rightarrow> Inl (if hashable sig_header then attr_error sig_header ''lower'' else unhashable_error sig_header))"

text \<open>The secret; a column compared with \<^verbatim>\<open>None\<close> matches no row, and another type is refused by the
  database driver.\<close>

definition webhook_secret :: "webhook_service \<Rightarrow> inbox \<Rightarrow> string \<Rightarrow> string \<Rightarrow> pyval \<Rightarrow> string option py" where
  "webhook_secret ws box tenant connector secret_field =
     (case secret_field of
        PStr k \<Rightarrow> retrieve (ws_cipher ws) (wb_vault box) tenant connector k ''default''
      | PNone \<Rightarrow> Inr None
      | _ \<Rightarrow> Inl (OtherError ''DBAPIError'' ''invalid input for query argument''))"

definition verify_webhook ::
  "webhook_service \<Rightarrow> inbox \<Rightarrow> pyval \<Rightarrow> string \<Rightarrow> (string \<times> string) list \<Rightarrow> string \<Rightarrow> string \<Rightarrow> bool option py" where
  "verify_webhook ws box webhook_config body headers tenant connector =
     andThen (py_get webhook_config ''signature_header'' PNone) (\<lambda>sig_header.
     if \<not> truthy sig_header then Inr None
     else
     andThen (signature_of headers sig_header) (\<lambda>signature.
     if signature = [] then Inr (Some False)
     else
     andThen (py_get webhook_config ''signature_key_field'' (PStr ''webhook_secret'')) (\<lambda>secret_field.
     andThen (py_get webhook_config ''signature_algorithm'' (PStr ''hmac-sha256'')) (\<lambda>algorithm.
     andThen (webhook_secret ws box tenant connector secret_field) (\<lambda>secret.
     case secret of
       None \<Rightarrow> Inr (Some False)
     | Some s \<Rightarrow>
         if s = [] then Inr (Some False)
         else andThen (as_str ''lower'' algorithm) (\<lambda>alg.
              andThen (verify_signature ws body signature s alg) (\<lambda>ok. Inr (Some ok))))))))"

definition external_id_headers :: "string list" where
  "external_id_headers = [''X-Webhook-Id'', ''X-Request-Id'', ''X-Event-Id'', ''x-webhook-id'', ''x-request-id'']"

definition external_id_fields :: "string list" where
  "external_id_fields = [''id'', ''event_id'', ''message_id'', ''webhook_id'']"

text \<open>\<^verbatim>\<open>payload[field]\<close> where \<^verbatim>\<open>field in payload\<close> holds.\<close>

definition payload_item :: "pyval \<Rightarrow> string \<Rightarrow> pyval py" where
  "payload_item payload field =
     (case payload of
        PDict d \<Rightarrow> Inr (dget d field PNone)
      | PList _ \<Rightarrow> Inl (TypeError ''list indices must be integers or slices, not str'')
      | _ \<Rightarrow> Inl (TypeError (''string indices must be integers, not '' @ str_repr ''str'')))"

fun payload_id :: "pyrt \<Rightarrow> pyval \<Rightarrow> string list \<Rightarrow> string option py" where
  "payload_id rt payload [] = Inr None"
| "payload_id rt payload (field # rest) =
     andThen (py_in (PStr field) payload) (\<lambda>present.
     if \<not> present then payload_id rt payload rest
     else
     andThen (payload_item payload field) (\<lambda>v.
     case v of
       PStr s \<Rightarrow> Inr (Some s)
     | PInt i \<Rightarrow> Inr (Some (py_str rt v))
     | PBool b \<Rightarrow> Inr (Some (py_str rt v))
     | _ \<Rightarrow> payload_id rt payload rest))"

definition extract_external_id :: "pyrt \<Rightarrow> (string \<times> string) list \<Rightarrow> pyval \<Rightarrow> string option py" where
  "extract_external_id rt headers payload =
     (case find (\<lambda>k. dhas headers k) external_id_headers of
        Some k \<Rightarrow> Inr (Some (dget headers k []))
      | None \<Rightarrow> payload_id rt payload external_id_fields)"

datatype ingest_result =
    Rejected string
  | Duplicate string
  | Accepted string "string option"

definition new_webhook_event ::
  "string \<Rightarrow> string \<Rightarrow> string \<Rightarrow> string \<Rightarrow> string option \<Rightarrow> pyval \<Rightarrow> (string \<times> string) list \<Rightarrow> bool option \<Rightarrow> webhook_event" where
  "new_webhook_event new_id tenant connector event_type external_id payload headers sig_valid =
     \<lparr>we_id = new_id, we_tenant = tenant, we_connector = connector, we_event_type = event_type,
      we_external_id = external_id, we_payload = payload, we_headers = headers, we_signature_valid = sig_valid,
      we_status = ''received'', we_error = None, we_retry_count = 0, we_processed_at = None\<rparr>"

text \<open>\<^verbatim>\<open>ingest_webhook\<close> in the two halves between which another request may be served: what is decided
  before the event is stored (a result, or the event), and storing the event with its key.\<close>

record webhook_request =
  rq_id :: string
  rq_connector :: string
  rq_event_type :: string
  rq_body :: string
  rq_headers :: "(string \<times> string) list"
  rq_tenant :: string
  rq_require_signature :: bool

definition check_signature :: "webhook_service \<Rightarrow> inbox \<Rightarrow> webhook_request \<Rightarrow> (string + bool option) py" where
  "check_signature ws box rq =
     (let config = (case get_manifest ws (rq_connector rq) of
                      None \<Rightarrow> PNone | Some m \<Rightarrow> get_webhook_config m (rq_event_type rq)) in
      if truthy config then
        andThen (verify_webhook ws box config (rq_body rq) (rq_headers rq) (rq_tenant rq) (rq_connector rq)) (\<lambda>v.
        Inr (if v = Some False then Inl ''Invalid signature'' else Inr v))
      else if rq_require_signature rq
      then Inr (Inl ''Webhook signature verification required but not configured for this event'')
      else Inr (Inr None))"

definition ingest_check :: "webhook_service \<Rightarrow> inbox \<Rightarrow> rat \<Rightarrow> webhook_request \<Rightarrow> (ingest_result + webhook_event) py" where
  "ingest_check ws box now rq =
     (case rt_json_loads (ws_rt ws) (rq_body rq) of
        None \<Rightarrow> Inr (Inl (Rejected ''Invalid JSON payload''))
      | Some payload \<Rightarrow>
          andThen (check_signature ws box rq) (\<lambda>verdict.
          case verdict of
            Inl reason \<Rightarrow> Inr (Inl (Rejected reason))
          | Inr sig_valid \<Rightarrow>
              andThen (extract_external_id (ws_rt ws) (rq_headers rq) payload) (\<lambda>external_id.
              let ev = new_webhook_event (rq_id rq) (rq_tenant rq) (rq_connector rq) (rq_event_type rq) external_id
                         payload (rq_headers rq) sig_valid in
              Inr (case external_id of
                     Some x \<Rightarrow> if x \<noteq> [] \<and> check_dedup box now (rq_connector rq) (rq_event_type rq) x
                               then Inl (Duplicate x) else Inr ev
                   | None \<Rightarrow> Inr ev))))"

definition ingest_store :: "inbox \<Rightarrow> rat \<Rightarrow> webhook_event \<Rightarrow> ingest_result \<times> inbox" where
  "ingest_store box now ev =
     (let box' = box\<lparr>wb_events := wb_events box @ [ev]\<rparr> in
      (Accepted (we_id ev) (we_external_id ev),
       case we_external_id ev of
         Some x \<Rightarrow> if x \<noteq> [] then mark_dedup box' now (we_connector ev) (we_event_type ev) x else box'
       | None \<Rightarrow> box'))"

definition ingest_webhook :: "webhook_service \<Rightarrow> inbox \<Rightarrow> rat \<Rightarrow> webhook_request \<Rightarrow> (ingest_result \<times> inbox) py" where
  "ingest_webhook ws box now rq =
     andThen (ingest_check ws box now rq) (\<lambda>d.
     case d of
       Inl result \<Rightarrow> Inr (result, box)
     | Inr ev \<Rightarrow> Inr (ingest_store box now ev))"

section \<open>Processing\<close>

type_synonym 'w process_fn = "string \<Rightarrow> string \<Rightarrow> pyval \<Rightarrow> string \<Rightarrow> ('w, pyval) act"

definition max_retries_before_dlq :: nat where "max_retries_before_dlq = 3"

definition event_processed :: "rat \<Rightarrow> webhook_event \<Rightarrow> webhook_event" where
  "event_processed now ev = ev\<lparr>we_status := ''processed'', we_processed_at := Some now, we_error := None\<rparr>"

definition event_failed :: "exn \<Rightarrow> webhook_event \<Rightarrow> webhook_event" where
  "event_failed exc ev =
     ev\<lparr>we_retry_count := Suc (we_retry_count ev), we_error := Some (take 2000 (exn_str exc)),
        we_status := (if max_retries_before_dlq \<le> Suc (we_retry_count ev) then ''dead_letter'' else ''failed'')\<rparr>"

text \<open>The log entry reads the counts of the result, which has to be a dictionary.\<close>

definition settle_event :: "rat \<Rightarrow> pyval py \<Rightarrow> webhook_event \<Rightarrow> webhook_event" where
  "settle_event now result ev =
     (case result of
        Inl exc \<Rightarrow> event_failed exc ev
      | Inr v \<Rightarrow>
          (case py_get v ''flows_triggered'' (PInt 0) of
             Inl exc \<Rightarrow> event_failed exc (event_processed now ev)
           | Inr _ \<Rightarrow> event_processed now ev))"

definition update_event :: "string \<Rightarrow> (webhook_event \<Rightarrow> webhook_event) \<Rightarrow> inbox \<Rightarrow> inbox" where
  "update_event wid f box = box\<lparr>wb_events := update_where (\<lambda>e. we_id e = wid) f (wb_events box)\<rparr>"

definition find_event :: "inbox \<Rightarrow> string \<Rightarrow> webhook_event option" where
  "find_event box wid = find (\<lambda>e. we_id e = wid) (wb_events box)"

definition process_webhook_async ::
  "webhook_service \<Rightarrow> 'w process_fn \<Rightarrow> rat \<Rightarrow> string \<Rightarrow> inbox \<Rightarrow> 'w \<Rightarrow> (inbox \<times> 'w) option" where
  "process_webhook_async ws process now wid box w =
     (if \<not> ws_has_sessions ws then Some (box, w)
      else
      case find_event box wid of
        None \<Rightarrow> Some (box, w)
      | Some ev \<Rightarrow>
          (case process (we_connector ev) (we_event_type ev) (we_payload ev) (we_tenant ev) w of
             None \<Rightarrow> None
           | Some (result, w') \<Rightarrow> Some (update_event wid (settle_event now result) box, w')))"

datatype replay_result = NotFound | Replayed pyval | ReplayFailed string

definition replay_event :: "rat \<Rightarrow> pyval py \<Rightarrow> webhook_event \<Rightarrow> webhook_event" where
  "replay_event now result ev =
     (case result of
        Inr v \<Rightarrow> (event_processed now ev)\<lparr>we_retry_count := Suc (we_retry_count ev)\<rparr>
      | Inl exc \<Rightarrow> ev\<lparr>we_status := ''failed'', we_error := Some (take 2000 (exn_str exc)),
                      we_retry_count := Suc (we_retry_count ev)\<rparr>)"

definition replay_webhook ::
  "'w process_fn \<Rightarrow> rat \<Rightarrow> string \<Rightarrow> inbox \<Rightarrow> 'w \<Rightarrow> (replay_result \<times> inbox \<times> 'w) option" where
  "replay_webhook process now wid box w =
     (case find_event box wid of
        None \<Rightarrow> Some (NotFound, box, w)
      | Some ev \<Rightarrow>
          (case process (we_connector ev) (we_event_type ev) (we_payload ev) (we_tenant ev) w of
             None \<Rightarrow> None
           | Some (result, w') \<Rightarrow>
               Some (case result of Inr v \<Rightarrow> Replayed v | Inl exc \<Rightarrow> ReplayFailed (exn_str exc),
                     update_event wid (replay_event now result) box, w')))"

end
