(* ===== verification/RateLimiter.thy ===== *)
theory RateLimiter
  imports Registry
begin

text \<open>
  The two rate limiters: the token bucket per connector
  (\<^verbatim>\<open>core/connector_rate_limiter.py\<close>) and the sliding window of the API
  (\<^verbatim>\<open>middleware/rate_limiter.py\<close>).  Redis is a map from keys to values with an
  expiry time; the clock is an argument.  Times and tokens are rational numbers:
  the rounding of floats is not modelled.
\<close>

section \<open>Rates\<close>

record rate_limit_config =
  rl_requests :: nat
  rl_window_seconds :: nat

record rate_limit_result =
  rr_allowed :: bool
  rr_remaining :: nat
  rr_retry_after :: "rat option"
  rr_limit :: nat
  rr_window_seconds :: nat

definition unit_seconds :: "string \<Rightarrow> nat option" where
  "unit_seconds u =
     (if u = ''s'' \<or> u = ''sec'' then Some 1 else if u = ''min'' then Some 60
      else if u = ''h'' \<or> u = ''hour'' then Some 3600 else None)"

text \<open>The pattern \<^verbatim>\<open>^(\d+)\s*/\s*(s|sec|min|h|hour)$\<close>, letters of either case.\<close>

definition parse_rate :: "pyval \<Rightarrow> rate_limit_config py" where
  "parse_rate rate =
     andThen (as_str ''strip'' rate) (\<lambda>rate_str.
     let s = py_strip rate_str;
         digits = takeWhile is_digit s;
         rest = dropWhile is_space (dropWhile is_digit s);
         bad = Inl (ValueError (''Invalid rate format '' @ [single_quote] @ rate_str @ [single_quote]
                 @ '', expected e.g. '' @ [single_quote] @ ''100/min'' @ [single_quote] @ '', ''
                 @ [single_quote] @ ''30/s'' @ [single_quote] @ '', '' @ [single_quote] @ ''5000/h'' @ [single_quote])) in
     case parse_digits False 0 digits of
       None \<Rightarrow> bad
     | Some n \<Rightarrow>
         (case rest of
            c # rest' \<Rightarrow>
              (if c = CHR ''/'' then
                 (case unit_seconds (py_lower (dropWhile is_space rest')) of
                    None \<Rightarrow> bad
                  | Some w \<Rightarrow> Inr \<lparr>rl_requests = n, rl_window_seconds = w\<rparr>)
               else bad)
          | [] \<Rightarrow> bad))"

text \<open>\<^verbatim>\<open>try: return _parse_rate(rate)\<close> / \<^verbatim>\<open>except ValueError\<close>: go on with the next source.\<close>

definition rate_or_next :: "pyval \<Rightarrow> rate_limit_config py \<Rightarrow> rate_limit_config py" where
  "rate_or_next rate next =
     (if \<not> truthy rate then next
      else case parse_rate rate of
        Inl (ValueError _) \<Rightarrow> next
      | r \<Rightarrow> r)"

definition get_limits ::
  "registry option \<Rightarrow> rate_limit_config \<Rightarrow> string \<Rightarrow> string option \<Rightarrow> string option \<Rightarrow> rate_limit_config py" where
  "get_limits reg default_config connector_name action connector_version =
     (case reg of
        None \<Rightarrow> Inr default_config
      | Some r \<Rightarrow>
          (case get_by_name_version r connector_name connector_version of
             None \<Rightarrow> Inr default_config
           | Some m \<Rightarrow>
               if cm_rate_limits m = [] then Inr default_config
               else
               let global_rate = rate_or_next (dget (cm_rate_limits m) ''global'' PNone) (Inr default_config) in
               (case action of
                  Some a \<Rightarrow>
                    (if a = [] then global_rate
                     else andThen (py_get (dget (cm_rate_limits m) ''per_action'' (PDict [])) a PNone) (\<lambda>action_rate.
                       rate_or_next action_rate global_rate))
                | None \<Rightarrow> global_rate)))"

section \<open>The token bucket\<close>

record bucket =
  bk_tokens :: rat
  bk_last :: rat
  bk_expires :: rat

type_synonym buckets = "(string \<times> bucket) list"

text \<open>\<^verbatim>\<open>mget\<close> at time \<open>now\<close>: an expired key is absent.\<close>

definition fetch_bucket :: "buckets \<Rightarrow> string \<Rightarrow> rat \<Rightarrow> bucket option" where
  "fetch_bucket st key now =
     (case map_of st key of None \<Rightarrow> None | Some b \<Rightarrow> if now < bk_expires b then Some b else None)"

text \<open>\<^verbatim>\<open>round(x, 2)\<close>: halves go to the even neighbour.\<close>

definition round2 :: "rat \<Rightarrow> rat" where
  "round2 x =
     (let y = x * 100; f = \<lfloor>y\<rfloor>; d = y - of_int f in
      of_int (if d < 1 / 2 then f else if 1 / 2 < d then f + 1 else if even f then f else f + 1) / 100)"

definition refilled :: "rate_limit_config \<Rightarrow> bucket option \<Rightarrow> rat \<Rightarrow> rat" where
  "refilled cfg b now =
     (let tokens = (case b of None \<Rightarrow> of_nat (rl_requests cfg) | Some x \<Rightarrow> bk_tokens x);
          last_refill = (case b of None \<Rightarrow> now | Some x \<Rightarrow> bk_last x);
          elapsed = max 0 (now - last_refill);
          refill_rate = of_nat (rl_requests cfg) / of_nat (rl_window_seconds cfg) in
      min (of_nat (rl_requests cfg)) (tokens + elapsed * refill_rate))"

definition bucket_after :: "rate_limit_config \<Rightarrow> rat \<Rightarrow> rat \<Rightarrow> bucket" where
  "bucket_after cfg tokens now =
     \<lparr>bk_tokens = tokens, bk_last = now, bk_expires = now + 2 * of_nat (rl_window_seconds cfg)\<rparr>"

definition bucket_key :: "string \<Rightarrow> string option \<Rightarrow> string option \<Rightarrow> string option \<Rightarrow> string" where
  "bucket_key connector_name action tenant_id connector_version =
     (let part = (\<lambda>x dflt. case x of Some v \<Rightarrow> if v = [] then dflt else v | None \<Rightarrow> dflt) in
      ''rate_limit:'' @ connector_name @ '':'' @ part connector_version ''latest'' @ '':'' @ part action ''global''
        @ '':'' @ part tenant_id ''shared'')"

definition check_bucket ::
  "rate_limit_config \<Rightarrow> bucket option \<Rightarrow> rat \<Rightarrow> (rate_limit_result \<times> bucket) py" where
  "check_bucket cfg b now =
     (let tokens = refilled cfg b now;
          refill_rate = of_nat (rl_requests cfg) / of_nat (rl_window_seconds cfg);
          result = (\<lambda>ok rem retry. \<lparr>rr_allowed = ok, rr_remaining = rem, rr_retry_after = retry,
                     rr_limit = rl_requests cfg, rr_window_seconds = rl_window_seconds cfg\<rparr>) in
      if 1 \<le> tokens then Inr (result True (nat \<lfloor>tokens - 1\<rfloor>) None, bucket_after cfg (tokens - 1) now)
      else if refill_rate = 0 then Inl (ZeroDivisionError ''float division by zero'')
      else Inr (result False 0 (Some (max (round2 ((1 - tokens) / refill_rate)) (1 / 10))), bucket_after cfg tokens now))"

record limiter =
  lm_registry :: "registry option"
  lm_default :: rate_limit_config
  lm_enabled :: bool

definition check_rate ::
  "limiter \<Rightarrow> buckets \<Rightarrow> string \<Rightarrow> string option \<Rightarrow> string option \<Rightarrow> string option \<Rightarrow> rat
    \<Rightarrow> (rate_limit_result \<times> buckets) py" where
  "check_rate lm st connector_name action tenant_id connector_version now =
     andThen (get_limits (lm_registry lm) (lm_default lm) connector_name action connector_version) (\<lambda>cfg.
     if \<not> lm_enabled lm then
       Inr (\<lparr>rr_allowed = True, rr_remaining = rl_requests cfg, rr_retry_after = None, rr_limit = rl_requests cfg,
             rr_window_seconds = rl_window_seconds cfg\<rparr>, st)
     else
     let key = bucket_key connector_name action tenant_id connector_version in
     andThen (check_bucket cfg (fetch_bucket st key now) now) (\<lambda>(r, b).
     Inr (r, dset st key b)))"

text \<open>\<^verbatim>\<open>wait_if_needed\<close>: one more check after the advised wait, at most 30 seconds; \<open>late\<close> is how
  much later than asked the sleep returns.\<close>

definition wait_if_needed ::
  "limiter \<Rightarrow> buckets \<Rightarrow> string \<Rightarrow> string option \<Rightarrow> string option \<Rightarrow> string option \<Rightarrow> rat \<Rightarrow> rat
    \<Rightarrow> (rate_limit_result \<times> buckets) py" where
  "wait_if_needed lm st connector_name action tenant_id connector_version now late =
     andThen (check_rate lm st connector_name action tenant_id connector_version now) (\<lambda>(r, st').
     if rr_allowed r then Inr (r, st')
     else
     let wait = min (case rr_retry_after r of Some x \<Rightarrow> if x = 0 then 1 else x | None \<Rightarrow> 1) 30 in
     check_rate lm st' connector_name action tenant_id connector_version (now + wait + late))"

section \<open>The sliding window of the API\<close>

datatype api_decision = Bypass | Admit nat nat | Unavailable

definition bypass_paths :: "string list" where
  "bypass_paths = [''/health'', ''/readiness'', ''/metrics'', ''/docs'', ''/openapi.json'']"

definition sensitive_prefixes :: "string list" where
  "sensitive_prefixes = [''/api/v1/tenants'', ''/api/v1/webhooks/'', ''/api/v1/demo/register'', ''/api/v1/workflows/'']"

definition is_sensitive :: "string \<Rightarrow> bool" where
  "is_sensitive path = list_ex (\<lambda>p. starts_with path p) sensitive_prefixes"

definition request_identifier :: "(string \<Rightarrow> string) \<Rightarrow> string \<Rightarrow> string \<Rightarrow> string option \<Rightarrow> string" where
  "request_identifier sha path api_key client_ip =
     (let ident = (if api_key \<noteq> [] then take 32 (sha api_key)
                   else ''ip:'' @ (case client_ip of Some ip \<Rightarrow> ip | None \<Rightarrow> ''unknown''))
      in if is_sensitive path then ''sensitive:'' @ ident else ident)"

definition window_key :: "(string \<Rightarrow> string) \<Rightarrow> string \<Rightarrow> string \<Rightarrow> string option \<Rightarrow> string" where
  "window_key sha path api_key client_ip = ''ratelimit:'' @ request_identifier sha path api_key client_ip"

text \<open>\<^verbatim>\<open>zremrangebyscore\<close>, \<^verbatim>\<open>zadd\<close> and \<^verbatim>\<open>zcard\<close> on the set of times of a key.\<close>

definition window_entries :: "rat list \<Rightarrow> nat \<Rightarrow> rat \<Rightarrow> rat list" where
  "window_entries stamps window now =
     List.insert now (filter (\<lambda>t. \<not> (0 \<le> t \<and> t \<le> now - of_nat window)) stamps)"

text \<open>One request.  When the count exceeds the limit the handler computes
  \<^verbatim>\<open>float(await redis.zrange(...))\<close>, the float of a list, which raises; the surrounding
  \<^verbatim>\<open>except\<close> answers 503.  \<open>redis_up\<close> says whether the pipeline succeeds.\<close>

definition api_dispatch ::
  "(string \<Rightarrow> string) \<Rightarrow> nat \<Rightarrow> nat \<Rightarrow> bool \<Rightarrow> (string \<times> rat list) list \<Rightarrow> string \<Rightarrow> string \<Rightarrow> string option \<Rightarrow> rat
    \<Rightarrow> api_decision \<times> (string \<times> rat list) list" where
  "api_dispatch sha cfg_window cfg_requests redis_up st path api_key client_ip now =
     (if path \<in> set bypass_paths then (Bypass, st)
      else
      let window = (if is_sensitive path then 60 else cfg_window);
          max_requests = (if is_sensitive path then 30 else cfg_requests);
          key = window_key sha path api_key client_ip;
          stamps = window_entries (dget st key []) window now in
      if \<not> redis_up then (Unavailable, st)
      else if max_requests < length stamps then (Unavailable, dset st key stamps)
      else (Admit max_requests (max_requests - length stamps), dset st key stamps))"

end
