(* ===== verification/ActionDispatcher.thy ===== *)
theory ActionDispatcher
  imports Engine CredentialVault RateLimiter
begin

text \<open>
  The action dispatcher (\<^verbatim>\<open>core/action_dispatcher.py\<close>): from an action and its payload to the requests
  to the service of a connector.  The manifest says where an action goes, which fields become part of the
  address, of the query and of the headers, how fields are converted and how credentials are passed.
  The services are a function of the requests made so far; decoding of base64 and the text httpx gives an
  error status are parameters.
\<close>

section \<open>Requests\<close>

record connector_request =
  cq_method :: string
  cq_url :: string
  cq_json :: "pyval option"
  cq_params :: pydict
  cq_headers :: "(string \<times> string) list"
  cq_file :: "(string \<times> string) option"
  cq_form :: "(string \<times> string) list"

record dispatcher =
  ds_rt :: pyrt
  ds_b64decode :: "string \<Rightarrow> string option"
  ds_status_text :: "http_response \<Rightarrow> string"
  ds_registry :: "registry option"
  ds_limiter :: "limiter option"
  ds_http :: "connector_request list \<Rightarrow> connector_request \<Rightarrow> http_response py"

record dispatch_state =
  dp_requests :: "connector_request list"
  dp_buckets :: buckets

type_synonym 'a dact = "(dispatch_state, 'a) act"

definition send_request :: "dispatcher \<Rightarrow> connector_request \<Rightarrow> http_response dact" where
  "send_request ds q =
     (\<lambda>s. Some (ds_http ds (dp_requests s) q, s\<lparr>dp_requests := dp_requests s @ [q]\<rparr>))"

definition http_client_request :: "string \<Rightarrow> string \<Rightarrow> pyval option \<Rightarrow> connector_request" where
  "http_client_request method url json =
     \<lparr>cq_method = method, cq_url = url, cq_json = json, cq_params = [], cq_headers = [], cq_file = None, cq_form = []\<rparr>"

definition is_success :: "http_response \<Rightarrow> bool" where
  "is_success r \<longleftrightarrow> 200 \<le> hr_status r \<and> hr_status r < 300"

definition error_body :: "pyrt \<Rightarrow> http_response \<Rightarrow> string" where
  "error_body rt r =
     (case hr_json r of
        Some parsed \<Rightarrow>
          (let detail = (case parsed of PDict d \<Rightarrow> dget d ''detail'' PNone | _ \<Rightarrow> PNone) in
           rt_json_dumps rt (if detail \<noteq> PNone then detail else parsed))
      | None \<Rightarrow> take 1000 (py_strip (hr_text r)))"

definition raise_for_status_with_body :: "dispatcher \<Rightarrow> http_response \<Rightarrow> unit py" where
  "raise_for_status_with_body ds r =
     (if is_success r then Inr ()
      else let body = error_body (ds_rt ds) r in
        Inl (OtherError ''HTTPStatusError''
               (if body \<noteq> [] then ds_status_text ds r @ '': '' @ body else ds_status_text ds r)))"

definition json_decode_error :: exn where
  "json_decode_error = OtherError ''JSONDecodeError'' ''Expecting value: line 1 column 1 (char 0)''"

definition response_json :: "http_response \<Rightarrow> pyval py" where
  "response_json r = (case hr_json r of Some v \<Rightarrow> Inr v | None \<Rightarrow> Inl json_decode_error)"

section \<open>Addresses\<close>

definition name_char :: "char \<Rightarrow> bool" where
  "name_char c \<longleftrightarrow> is_digit c \<or> char_code CHR ''a'' \<le> char_code c \<and> char_code c \<le> char_code CHR ''z''"

text \<open>\<^verbatim>\<open>^[a-z0-9][a-z0-9\-]{0,62}$\<close>; the end of the pattern also matches before a final newline.\<close>

definition connector_name_ok :: "string \<Rightarrow> bool" where
  "connector_name_ok name =
     (let n = (if name \<noteq> [] \<and> last name = char_of (10 :: nat) then butlast name else name) in
      n \<noteq> [] \<and> length n \<le> 63 \<and> name_char (hd n) \<and> list_all (\<lambda>c. name_char c \<or> c = CHR ''-'') n)"

definition resolve_service_url :: "string \<Rightarrow> registry option \<Rightarrow> string option \<Rightarrow> string py" where
  "resolve_service_url connector reg version =
     (if \<not> connector_name_ok connector then Inl (ValueError (''Invalid connector_name: '' @ str_repr connector))
      else Inr (case (case reg of None \<Rightarrow> None | Some r \<Rightarrow> get_by_name_version r connector version) of
                  Some m \<Rightarrow> base_url m
                | None \<Rightarrow> ''http://connector-'' @ connector @ '':8000''))"

text \<open>\<^verbatim>\<open>urllib.parse.quote(s, safe="")\<close>.\<close>

definition unreserved :: "char \<Rightarrow> bool" where
  "unreserved c \<longleftrightarrow> name_char (lower_char c) \<or> c \<in> set ''_.-~''"

definition upper_hex :: "nat \<Rightarrow> char" where
  "upper_hex n = (if n < 10 then char_of (48 + n) else char_of (55 + n))"

definition quote_char :: "char \<Rightarrow> string" where
  "quote_char c = (if unreserved c then [c] else [CHR ''%'', upper_hex (char_code c div 16), upper_hex (char_code c mod 16)])"

definition url_quote :: "string \<Rightarrow> string" where
  "url_quote s = List.concat (map quote_char s)"

definition py_capitalize :: "string \<Rightarrow> string" where
  "py_capitalize s = (case s of [] \<Rightarrow> [] | c # cs \<Rightarrow> upper_char c # py_lower cs)"

definition field_to_header_name :: "string \<Rightarrow> string" where
  "field_to_header_name fld = ''X-'' @ py_join ''-'' (map py_capitalize (py_split ''_'' fld))"

definition placeholder :: "string \<Rightarrow> string" where
  "placeholder key = ''{'' @ key @ ''}''"

definition fill_path :: "pyrt \<Rightarrow> pyval \<times> pydict \<Rightarrow> string \<Rightarrow> (pyval \<times> pydict) py" where
  "fill_path rt pb key =
     (case pb of (path, body) \<Rightarrow>
        andThen (py_in (PStr (placeholder key)) path) (\<lambda>present.
        if \<not> present then Inr (path, body)
        else andThen (as_str ''replace'' path) (\<lambda>p.
          Inr (PStr (py_replace (placeholder key) (url_quote (py_str rt (dget body key PNone))) p), dpop body key))))"

text \<open>Fields that leave the body for the query or the headers; \<^verbatim>\<open>None\<close> leaves it for nowhere.\<close>

definition take_field :: "pydict \<times> pydict \<Rightarrow> pyval \<Rightarrow> (pydict \<times> pydict) py" where
  "take_field tb fld =
     (case tb of (taken, body) \<Rightarrow>
        (case fld of
           PStr k \<Rightarrow>
             Inr (if dhas body k
                  then (if dget body k PNone \<noteq> PNone then dset taken k (dget body k PNone) else taken, dpop body k)
                  else (taken, body))
         | _ \<Rightarrow> if hashable fld then Inr (taken, body) else Inl (unhashable_error fld)))"

definition take_fields :: "pydict \<Rightarrow> string \<Rightarrow> pydict \<Rightarrow> (pydict \<times> pydict) py" where
  "take_fields route setting body =
     andThen (py_iter (dget route setting (PList []))) (foldM take_field ([], body))"

definition extra_headers_of :: "pyrt \<Rightarrow> pydict \<Rightarrow> (string \<times> string) list" where
  "extra_headers_of rt taken = foldl (\<lambda>hs (k, v). dset hs (field_to_header_name k) (py_str rt v)) [] taken"

definition build_url ::
  "pyrt \<Rightarrow> pydict \<Rightarrow> string \<Rightarrow> pydict \<Rightarrow> (string \<times> pydict \<times> (string \<times> string) list \<times> pydict) py" where
  "build_url rt route base payload =
     (case map_of route ''path'' of
        None \<Rightarrow> Inl (KeyError (str_repr ''path''))
      | Some path \<Rightarrow>
          andThen (foldM (fill_path rt) (path, payload) (map fst payload)) (\<lambda>(path', body).
          andThen (take_fields route ''query_from_payload'' body) (\<lambda>(query_params, body').
          andThen (take_fields route ''header_from_payload'' body') (\<lambda>(taken, body'').
          Inr (base @ py_str rt path', query_params, extra_headers_of rt taken, body'')))))"

section \<open>Conversion of fields\<close>

text \<open>A text becomes the list of its non-empty parts between commas.\<close>

definition split_list_value :: "string \<Rightarrow> pyval" where
  "split_list_value v =
     (let value = py_strip v in
      PList (map PStr
        (if contains_sub value '','' then filter (\<lambda>x. x \<noteq> []) (map py_strip (py_split '','' value))
         else if value \<noteq> [] then [value] else [])))"

definition coerce_list_field :: "pydict \<Rightarrow> pyval \<Rightarrow> pydict py" where
  "coerce_list_field payload fld =
     (case fld of
        PStr k \<Rightarrow> Inr (case map_of payload k of Some (PStr v) \<Rightarrow> dset payload k (split_list_value v) | _ \<Rightarrow> payload)
      | _ \<Rightarrow> if hashable fld then Inr payload else Inl (unhashable_error fld))"

definition coerce_enum_field :: "pyrt \<Rightarrow> pydict \<Rightarrow> string \<times> pyval \<Rightarrow> pydict py" where
  "coerce_enum_field rt payload fc =
     (case fc of (k, config) \<Rightarrow>
        (case map_of payload k of
           None \<Rightarrow> Inr payload
         | Some v \<Rightarrow>
             andThen (py_get config ''values'' (PDict [])) (\<lambda>mapping.
             andThen (py_get config ''default'' v) (\<lambda>dflt.
             andThen (py_get mapping (py_lower (py_strip (py_str rt v))) dflt) (\<lambda>v'.
             Inr (dset payload k v'))))))"

definition coerce_payload :: "pyrt \<Rightarrow> manifest option \<Rightarrow> string \<Rightarrow> pydict \<Rightarrow> pydict py" where
  "coerce_payload rt m action payload =
     (case m of
        None \<Rightarrow> Inr payload
      | Some m \<Rightarrow>
          if cm_payload_hints m = [] then Inr payload
          else
          andThen (py_get (dget (cm_payload_hints m) ''list_fields'' (PDict [])) action (PList [])) (\<lambda>list_fields.
          andThen (py_iter list_fields) (\<lambda>lfs.
          andThen (foldM coerce_list_field payload lfs) (\<lambda>payload'.
          andThen (py_get (dget (cm_payload_hints m) ''enum_fields'' (PDict [])) action (PDict [])) (\<lambda>enum_fields.
          andThen (py_items enum_fields) (\<lambda>efs.
          foldM (coerce_enum_field rt) payload' efs))))))"

section \<open>Credentials\<close>

type_synonym credentials = "(string \<times> string) list"

text \<open>\<^verbatim>\<open>credentials.get(key, "")\<close> for a key of the configuration.\<close>

definition cred_get :: "credentials \<Rightarrow> pyval \<Rightarrow> string py" where
  "cred_get credentials key =
     (case key of
        PStr k \<Rightarrow> Inr (dget credentials k [])
      | _ \<Rightarrow> if hashable key then Inr [] else Inl (unhashable_error key))"

definition mapped_credential :: "string \<Rightarrow> pyval \<Rightarrow> pyval \<Rightarrow> pyval" where
  "mapped_credential raw field_type dflt =
     (if raw = [] \<and> dflt \<noteq> PNone then dflt
      else if field_type = PStr ''integer'' then
        (if raw = [] then PNone else case parse_int raw of Some i \<Rightarrow> PInt i | None \<Rightarrow> dflt)
      else if field_type = PStr ''boolean'' then PBool (py_lower raw \<in> {''true'', ''1'', ''yes''})
      else PStr raw)"

definition map_credential :: "credentials \<Rightarrow> pydict \<Rightarrow> string \<times> pyval \<Rightarrow> pydict py" where
  "map_credential credentials result ts =
     (case ts of
        (target, PStr src) \<Rightarrow> Inr (dset result target (PStr (dget credentials src [])))
      | (target, PDict spec) \<Rightarrow>
          andThen (cred_get credentials (dget spec ''source'' (PStr target))) (\<lambda>raw.
          Inr (dset result target
                 (mapped_credential raw (dget spec ''type'' (PStr ''string'')) (dget spec ''default'' PNone))))
      | _ \<Rightarrow> Inr result)"

definition apply_credential_mapping :: "credentials \<Rightarrow> pyval \<Rightarrow> pydict py" where
  "apply_credential_mapping credentials mapping =
     andThen (py_items mapping) (foldM (map_credential credentials) [])"

text \<open>\<^verbatim>\<open>any(acc.get("name") == account_name for acc in existing)\<close>.\<close>

fun account_exists :: "string \<Rightarrow> pyval list \<Rightarrow> bool py" where
  "account_exists name [] = Inr False"
| "account_exists name (acc # rest) =
     andThen (py_get acc ''name'' PNone) (\<lambda>n. if py_eq n (PStr name) then Inr True else account_exists name rest)"

definition listed_accounts :: "http_response \<Rightarrow> pyval list py" where
  "listed_accounts r =
     (if hr_status r \<noteq> 200 then Inr []
      else andThen (response_json r) (\<lambda>data.
        Inr (case data of
               PList xs \<Rightarrow> xs
             | PDict d \<Rightarrow> (case dget d ''accounts'' PNone of PList xs \<Rightarrow> xs | _ \<Rightarrow> [])
             | _ \<Rightarrow> [])))"

definition ensure_account_generic :: "dispatcher \<Rightarrow> string \<Rightarrow> credentials \<Rightarrow> pydict \<Rightarrow> bool \<Rightarrow> string dact" where
  "ensure_account_generic ds base credentials provisioning force_update =
     (let endpoint = base @ py_str (ds_rt ds) (dget provisioning ''account_endpoint'' (PStr ''/accounts''));
          account_name = dget credentials ''account_name'' ''default'' in
      bnd (liftE (apply_credential_mapping credentials (dget provisioning ''credential_mapping'' (PDict [])))) (\<lambda>account.
      bnd (send_request ds (http_client_request ''GET'' endpoint None)) (\<lambda>listing.
      bnd (liftE (listed_accounts listing)) (\<lambda>existing.
      bnd (liftE (account_exists account_name existing)) (\<lambda>exists.
      if exists \<and> force_update then
        bnd (send_request ds (http_client_request ''PUT'' (endpoint @ ''/'' @ account_name) (Some (PDict account)))) (\<lambda>_.
        ret account_name)
      else if exists then ret account_name
      else
        bnd (send_request ds (http_client_request ''POST'' endpoint (Some (PDict account)))) (\<lambda>_.
        ret account_name))))))"

text \<open>The name of the credential a specification names.\<close>

definition source_of :: "string \<Rightarrow> pyval \<Rightarrow> pyval py" where
  "source_of target spec = (case spec of PStr s \<Rightarrow> Inr (PStr s) | _ \<Rightarrow> py_get spec ''source'' (PStr target))"

definition inject_credential :: "credentials \<Rightarrow> pydict \<Rightarrow> string \<times> pyval \<Rightarrow> pydict py" where
  "inject_credential credentials payload ts =
     (case ts of (target, spec) \<Rightarrow>
        andThen (source_of target spec) (\<lambda>src.
        case src of
          PStr k \<Rightarrow> Inr (if dhas credentials k then dset payload target (PStr (dget credentials k [])) else payload)
        | _ \<Rightarrow> if hashable src then Inr payload else Inl (unhashable_error src)))"

definition credential_entry :: "credentials \<Rightarrow> pydict \<Rightarrow> string \<times> pyval \<Rightarrow> pydict py" where
  "credential_entry credentials result ts =
     (case ts of (target, spec) \<Rightarrow>
        andThen (source_of target spec) (\<lambda>src.
        andThen (cred_get credentials src) (\<lambda>v. Inr (dset result target (PStr v)))))"

definition nested_credential :: "credentials \<Rightarrow> pydict \<Rightarrow> string \<times> pyval \<Rightarrow> pydict py" where
  "nested_credential credentials nested ts =
     (case ts of
        (target, PStr src) \<Rightarrow> Inr (dset nested target (PStr (dget credentials src [])))
      | (target, PDict spec) \<Rightarrow>
          andThen (cred_get credentials (dget spec ''source'' (PStr target))) (\<lambda>v.
          Inr (dset nested target (if v \<noteq> [] then PStr v else dget spec ''default'' (PStr []))))
      | _ \<Rightarrow> Inr nested)"

definition provision_inject :: "credentials \<Rightarrow> pyval \<Rightarrow> pydict \<Rightarrow> pydict py" where
  "provision_inject credentials mapping payload =
     andThen (py_items mapping) (\<lambda>ms.
     andThen (foldM (inject_credential credentials) payload ms) (\<lambda>payload'.
     if dhas payload' ''credentials'' then Inr payload'
     else andThen (foldM (credential_entry credentials) [] ms) (\<lambda>d. Inr (dset payload' ''credentials'' (PDict d)))))"

definition provision_nested :: "credentials \<Rightarrow> pydict \<Rightarrow> pydict \<Rightarrow> pydict py" where
  "provision_nested credentials provisioning payload =
     andThen (py_items (dget provisioning ''credential_mapping'' (PDict []))) (\<lambda>ms.
     andThen (foldM (nested_credential credentials) [] ms) (\<lambda>nested.
     andThen (as_key (dget provisioning ''inject_key'' (PStr ''credentials''))) (\<lambda>inject_key.
     Inr (dset payload inject_key (PDict nested)))))"

definition provision_credentials ::
  "dispatcher \<Rightarrow> string \<Rightarrow> pydict \<Rightarrow> credentials \<Rightarrow> manifest option \<Rightarrow> pydict dact" where
  "provision_credentials ds base payload credentials m =
     (let provisioning = (case m of None \<Rightarrow> [] | Some m \<Rightarrow> cm_credential_provisioning m);
          mode = dget provisioning ''mode'' (PStr ''none'') in
      if mode = PStr ''account'' then
        bnd (ensure_account_generic ds base credentials provisioning False) (\<lambda>account_name.
        bnd (liftE (as_key (dget provisioning ''payload_field'' (PStr ''account_name'')))) (\<lambda>fld.
        ret (dset payload fld (PStr account_name))))
      else if mode = PStr ''inject'' then
        liftE (provision_inject credentials (dget provisioning ''credential_mapping'' (PDict [])) payload)
      else if mode = PStr ''inject_nested'' then liftE (provision_nested credentials provisioning payload)
      else ret (if dhas payload ''account_name'' then payload
                else dset payload ''account_name'' (PStr (dget credentials ''account_name'' ''default''))))"

section \<open>Files\<close>

text \<open>The content and name of the file, when one is found; \<^verbatim>\<open>b64decode\<close> of the content of an object may
  raise, of a bare text it may not.\<close>

definition decode_attachment :: "dispatcher \<Rightarrow> pydict \<Rightarrow> (string \<times> pyval) option py" where
  "decode_attachment ds att =
     (let content = dget att ''content_base64'' (PStr []);
          filename = dget att ''filename'' (PStr ''document.pdf'') in
      if \<not> truthy content then Inr None
      else case content of
        PStr c \<Rightarrow> (case ds_b64decode ds c of
                     Some b \<Rightarrow> Inr (Some (b, filename))
                   | None \<Rightarrow> Inl (OtherError ''Error'' ''Incorrect padding''))
      | _ \<Rightarrow> Inl (TypeError (''argument should be a bytes-like object or ASCII string, not '' @ str_repr (type_name content))))"

definition extract_file :: "dispatcher \<Rightarrow> pyval \<Rightarrow> (string \<times> pyval) option py" where
  "extract_file ds file_data =
     (case (case file_data of PList (x # xs) \<Rightarrow> x | v \<Rightarrow> v) of
        PDict att \<Rightarrow> decode_attachment ds att
      | PStr c \<Rightarrow> Inr (if c = [] then None else map_option (\<lambda>b. (b, PStr ''document.pdf'')) (ds_b64decode ds c))
      | _ \<Rightarrow> Inr None)"

definition form_text :: "pyrt \<Rightarrow> pyval \<Rightarrow> string" where
  "form_text rt v = (if is_dict v \<or> is_list v then rt_json_dumps rt v else py_str rt v)"

definition form_fields :: "pyrt \<Rightarrow> pydict \<Rightarrow> (string \<times> string) list" where
  "form_fields rt body = map (\<lambda>(k, v). (k, form_text rt v)) (filter (\<lambda>(k, v). k \<noteq> ''file'' \<and> v \<noteq> PNone) body)"

section \<open>Requests that are told to wait\<close>

definition default_retry_after :: rat where "default_retry_after = 2"

definition max_429_retries :: nat where "max_429_retries = 3"

text \<open>\<^verbatim>\<open>max(0.5, min(float(raw), 120.0))\<close>, the seconds to sleep before the next attempt; neither \<^verbatim>\<open>min\<close>
  nor \<^verbatim>\<open>max\<close> takes the place of its first argument when it is not a number.\<close>

definition parse_retry_after :: "pyrt \<Rightarrow> http_response \<Rightarrow> rat" where
  "parse_retry_after rt r =
     (let raw = dget (hr_headers r) ''retry-after'' [] in
      if raw = [] then default_retry_after
      else case parse_float rt raw of
        None \<Rightarrow> default_retry_after
      | Some (Fin x) \<Rightarrow> max (1 / 2) (min x 120)
      | Some PosInf \<Rightarrow> 120
      | Some _ \<Rightarrow> 1 / 2)"

text \<open>The method the client uses: a file is always posted, an unknown method as well; \<^verbatim>\<open>GET\<close> and \<^verbatim>\<open>DELETE\<close>
  send no body.\<close>

definition method_request ::
  "pyval \<Rightarrow> string \<Rightarrow> pyval option \<Rightarrow> pydict \<Rightarrow> (string \<times> string) list \<Rightarrow> (string \<times> string) option \<Rightarrow> (string \<times> string) list
    \<Rightarrow> connector_request" where
  "method_request method url json params headers file form =
     (let m = (case method of PStr s \<Rightarrow> if s \<in> {''GET'', ''POST'', ''PUT'', ''PATCH'', ''DELETE''} then s else ''POST'' | _ \<Rightarrow> ''POST'') in
      case file of
        Some f \<Rightarrow> \<lparr>cq_method = ''POST'', cq_url = url, cq_json = None, cq_params = params, cq_headers = headers,
                   cq_file = Some f, cq_form = form\<rparr>
      | None \<Rightarrow> \<lparr>cq_method = m, cq_url = url, cq_json = (if m = ''GET'' \<or> m = ''DELETE'' then None else json),
                 cq_params = params, cq_headers = headers, cq_file = None, cq_form = []\<rparr>)"

text \<open>The request, repeated at most \<open>left\<close> times after an answer 429.\<close>

fun retry_429 :: "dispatcher \<Rightarrow> connector_request \<Rightarrow> nat \<Rightarrow> http_response dact" where
  "retry_429 ds q 0 = send_request ds q"
| "retry_429 ds q (Suc left) =
     bnd (send_request ds q) (\<lambda>r. if hr_status r \<noteq> 429 then ret r else retry_429 ds q left)"

definition execute_with_429_retry :: "dispatcher \<Rightarrow> connector_request \<Rightarrow> http_response dact" where
  "execute_with_429_retry ds q = retry_429 ds q max_429_retries"

section \<open>Dispatch\<close>

text \<open>Of the detail of this error only the message is kept.\<close>

definition rate_limited_error :: "string \<Rightarrow> string \<Rightarrow> exn" where
  "rate_limited_error connector action =
     HTTPException 429 (''Rate limit exceeded for '' @ connector @ ''/'' @ action)"

definition check_limit :: "dispatcher \<Rightarrow> rat \<Rightarrow> string \<Rightarrow> string \<Rightarrow> string \<Rightarrow> string option \<Rightarrow> unit dact" where
  "check_limit ds now connector action tenant version =
     (\<lambda>s. case ds_limiter ds of
            None \<Rightarrow> Some (Inr (), s)
          | Some lm \<Rightarrow>
              (case check_rate lm (dp_buckets s) connector (Some action) (Some tenant) version now of
                 Inl e \<Rightarrow> Some (Inl e, s)
               | Inr (r, st) \<Rightarrow>
                   Some (if rr_allowed r then Inr () else Inl (rate_limited_error connector action), s\<lparr>dp_buckets := st\<rparr>)))"

definition quoted :: "string \<Rightarrow> string" where
  "quoted x = [single_quote] @ x @ [single_quote]"

definition missing_file_error :: "string \<Rightarrow> string \<Rightarrow> exn" where
  "missing_file_error action connector =
     ValueError (''Action '' @ quoted action @ '' on connector '' @ quoted connector @ '' requires a file attachment, but no ''
       @ quoted ''file'' @ '' field was found in the payload. Ensure that the source node provides a file (e.g. an email ''
       @ ''attachment) and that the field mapping maps it to the '' @ quoted ''file'' @ '' field.'')"

definition undecodable_file_error :: "string \<Rightarrow> string \<Rightarrow> exn" where
  "undecodable_file_error action connector =
     ValueError (''Action '' @ quoted action @ '' on connector '' @ quoted connector @ '' requires a file attachment, but the provided ''
       @ quoted ''file'' @ '' field could not be decoded. Expected a base64-encoded string or an object with ''
       @ quoted ''content_base64'' @ '' and '' @ quoted ''filename'' @ '' keys.'')"

text \<open>\<^verbatim>\<open>route["method"]\<close> and the like, on the setting of an action.\<close>

definition route_dict :: "pyval \<Rightarrow> pydict py" where
  "route_dict route =
     (case route of
        PDict d \<Rightarrow> Inr d
      | PList _ \<Rightarrow> Inl (TypeError ''list indices must be integers or slices, not str'')
      | PStr _ \<Rightarrow> Inl (TypeError (''string indices must be integers, not '' @ str_repr ''str''))
      | _ \<Rightarrow> Inl (TypeError (str_repr (type_name route) @ '' object is not subscriptable'')))"

definition fallback_answer :: "http_response \<Rightarrow> pyval" where
  "fallback_answer r =
     PDict [(''status'', PStr ''ok''), (''raw_response'', PBool True), (''status_code'', PInt (hr_status r))]"

definition dispatch_generic :: "dispatcher \<Rightarrow> string \<Rightarrow> string \<Rightarrow> pydict \<Rightarrow> pyval dact" where
  "dispatch_generic ds base action payload =
     bnd (execute_with_429_retry ds
            (method_request (PStr ''POST'') (base @ ''/actions/'' @ action) (Some (PDict payload)) [] [] None [])) (\<lambda>r.
     bnd (liftE (raise_for_status_with_body ds r)) (\<lambda>_.
     liftE (response_json r)))"

definition routed_request :: "dispatcher \<Rightarrow> string \<Rightarrow> string \<Rightarrow> pydict \<Rightarrow> string \<Rightarrow> pydict \<Rightarrow> connector_request py" where
  "routed_request ds connector action route base payload =
     andThen (build_url (ds_rt ds) route base payload) (\<lambda>(url, query_params, extra_headers, body).
     case map_of route ''method'' of
       None \<Rightarrow> Inl (KeyError (str_repr ''method''))
     | Some method \<Rightarrow>
         if \<not> truthy (dget route ''multipart'' (PBool False))
         then Inr (method_request method url (Some (PDict body)) query_params extra_headers None [])
         else if \<not> dhas body ''file'' then Inl (missing_file_error action connector)
         else
         andThen (extract_file ds (dget body ''file'' PNone)) (\<lambda>file.
         case file of
           None \<Rightarrow> Inl (undecodable_file_error action connector)
         | Some (content, filename) \<Rightarrow>
             Inr (method_request (PStr ''POST'') url None query_params extra_headers
                    (Some (py_str (ds_rt ds) filename, content)) (form_fields (ds_rt ds) body))))"

definition dispatch_routed :: "dispatcher \<Rightarrow> string \<Rightarrow> string \<Rightarrow> pydict \<Rightarrow> string \<Rightarrow> pydict \<Rightarrow> pyval dact" where
  "dispatch_routed ds connector action route base payload =
     bnd (liftE (routed_request ds connector action route base payload)) (\<lambda>q.
     bnd (execute_with_429_retry ds q) (\<lambda>r.
     bnd (liftE (raise_for_status_with_body ds r)) (\<lambda>_.
     ret (case hr_json r of Some v \<Rightarrow> v | None \<Rightarrow> fallback_answer r))))"

definition manifest_for :: "dispatcher \<Rightarrow> string \<Rightarrow> string option \<Rightarrow> manifest option" where
  "manifest_for ds connector version =
     (case ds_registry ds of None \<Rightarrow> None | Some r \<Rightarrow> get_by_name_version r connector version)"

definition dispatch_base :: "dispatcher \<Rightarrow> string \<Rightarrow> string option \<Rightarrow> string py" where
  "dispatch_base ds connector version =
     (case manifest_for ds connector version of
        Some m \<Rightarrow> Inr (base_url m)
      | None \<Rightarrow> resolve_service_url connector (ds_registry ds) version)"

definition dispatch_action ::
  "dispatcher \<Rightarrow> rat \<Rightarrow> string \<Rightarrow> string \<Rightarrow> pydict \<Rightarrow> string \<Rightarrow> credentials option \<Rightarrow> string option \<Rightarrow> pyval dact" where
  "dispatch_action ds now connector action payload tenant credentials version =
     (let m = manifest_for ds connector version in
      bnd (liftE (dispatch_base ds connector version)) (\<lambda>base.
      bnd (check_limit ds now connector action tenant version) (\<lambda>_.
      let route = (case m of None \<Rightarrow> PNone | Some m \<Rightarrow> dget (cm_action_routes m) action PNone) in
      bnd (case credentials of
             None \<Rightarrow> ret payload
           | Some cs \<Rightarrow> if cs = [] then ret payload else provision_credentials ds base payload cs m) (\<lambda>payload'.
      bnd (liftE (coerce_payload (ds_rt ds) m action payload')) (\<lambda>payload''.
      if route = PNone then dispatch_generic ds base action payload''
      else bnd (liftE (route_dict route)) (\<lambda>rd. dispatch_routed ds connector action rd base payload''))))))"

end
