(* ===== verification/FlowEngine.thy ===== *)
theory FlowEngine
  imports Transform EngineMonad
begin

text \<open>
  Flows, the one-step integrations (\<^verbatim>\<open>core/flow_engine.py\<close>), and the mapping of
  their data (\<^verbatim>\<open>core/mapping_resolver.py\<close>).  The action executor, JMESPath and the
  mapping files of a connector are parameters.  The state of a flow is the log of
  the actions dispatched so far.
\<close>

section \<open>Mapping\<close>

record field_override =
  fo_tenant :: string
  fo_connector :: string
  fo_mapping_type :: string
  fo_source_field :: string
  fo_target_field :: string
  fo_transform :: pyval
  fo_priority :: int
  fo_is_active :: bool

definition get_tenant_overrides :: "field_override list \<Rightarrow> string \<Rightarrow> string \<Rightarrow> string \<Rightarrow> field_override list" where
  "get_tenant_overrides table tenant_id connector_name mapping_type =
     sort_key fo_priority (filter (\<lambda>r. fo_tenant r = tenant_id \<and> fo_connector r = connector_name \<and>
       fo_mapping_type r = mapping_type \<and> fo_is_active r) table)"

text \<open>\<^verbatim>\<open>self._get_nested(data, key)\<close> and \<^verbatim>\<open>self._set_nested(data, key, value)\<close> for a key of the
  configuration, which may not be a string.\<close>

definition mr_read :: "pydict \<Rightarrow> pyval \<Rightarrow> pyval py" where
  "mr_read data key = (case key of PStr k \<Rightarrow> Inr (mr_get_nested (PDict data) k) | _ \<Rightarrow> Inl (key_type_error key))"

definition mr_write :: "pyval \<Rightarrow> pyval \<Rightarrow> pyval \<Rightarrow> pyval py" where
  "mr_write key value data = (case key of PStr k \<Rightarrow> mr_set_nested k value data | _ \<Rightarrow> Inl (key_type_error key))"

definition mr_resolve_sources :: "pyval \<Rightarrow> pydict \<Rightarrow> pyval list py" where
  "mr_resolve_sources entry source_data = resolve_sources_with (mr_read source_data) entry"

definition mr_apply_entry :: "pyrt \<Rightarrow> pydict \<Rightarrow> pyval \<Rightarrow> pyval \<Rightarrow> pyval py" where
  "mr_apply_entry rt source_data mapped entry =
     andThen (mapping_target entry) (\<lambda>to_field.
     if \<not> truthy to_field then Inr mapped
     else
     andThen (mapping_value rt (mr_apply_transform rt) (\<lambda>m. mr_resolve_sources m source_data) entry) (\<lambda>mv.
     case mv of
       None \<Rightarrow> Inr mapped
     | Some value \<Rightarrow> if value = PNone then Inr mapped else mr_write to_field value mapped))"

definition mr_apply_override :: "pyrt \<Rightarrow> pydict \<Rightarrow> pyval \<Rightarrow> field_override \<Rightarrow> pyval py" where
  "mr_apply_override rt source_data mapped ov =
     (let v = mr_get_nested (PDict source_data) (fo_source_field ov) in
      if v = PNone then Inr mapped
      else
      andThen (if truthy (fo_transform ov) then mr_apply_transform rt [v] (fo_transform ov) else Inr v) (\<lambda>value.
      mr_set_nested (fo_target_field ov) value mapped))"

text \<open>\<^verbatim>\<open>resolve\<close>: the defaults of the connector, then the rules of the flow, then the overrides of
  the tenant.  \<open>defaults\<close> is what \<^verbatim>\<open>load_defaults\<close> returns, nothing without a connector path.\<close>

definition resolve_mapping ::
  "pyrt \<Rightarrow> field_override list \<Rightarrow> pydict \<Rightarrow> string \<Rightarrow> string \<Rightarrow> string \<Rightarrow> pydict \<Rightarrow> pyval \<Rightarrow> pyval py" where
  "resolve_mapping rt table defaults tenant_id connector_name mapping_type source_data flow_field_mapping =
     andThen (foldM (\<lambda>mapped (key, value). mr_set_nested key value mapped) (PDict []) defaults) (\<lambda>m0.
     andThen (if truthy flow_field_mapping
              then andThen (py_iter flow_field_mapping) (foldM (mr_apply_entry rt source_data) m0)
              else Inr m0) (\<lambda>m1.
     foldM (mr_apply_override rt source_data) m1
       (get_tenant_overrides table tenant_id connector_name mapping_type)))"

section \<open>Flows\<close>

record flow =
  fl_id :: string
  fl_tenant :: string
  fl_source_connector :: string
  fl_source_event :: string
  fl_source_filter :: "pydict option"
  fl_destination_connector :: string
  fl_destination_version :: "string option"
  fl_destination_action :: string
  fl_field_mapping :: pyval
  fl_transform :: "string option"
  fl_on_error :: string
  fl_max_retries :: int
  fl_is_enabled :: bool

record flow_execution =
  fe_flow_id :: string
  fe_tenant_id :: string
  fe_status :: string
  fe_source_event_data :: pydict
  fe_destination_action_data :: pyval
  fe_result :: "pyval option"
  fe_error :: "string option"
  fe_retry_count :: nat

record flow_call =
  fc_connector :: string
  fc_action :: string
  fc_payload :: pyval
  fc_tenant :: string
  fc_version :: "string option"

record flow_engine =
  fg_rt :: pyrt
  fg_overrides :: "field_override list"
  fg_execute :: "flow_call list \<Rightarrow> flow_call \<Rightarrow> pyval py"
  fg_jmespath :: "(string \<Rightarrow> pyval \<Rightarrow> pyval py) option"
  fg_flows :: "flow list"

type_synonym 'a fact = "(flow_call list, 'a) act"

definition get_flows_for_event :: "flow_engine \<Rightarrow> string \<Rightarrow> string \<Rightarrow> string \<Rightarrow> flow list" where
  "get_flows_for_event fg tenant_id connector_name event =
     filter (\<lambda>f. fl_tenant f = tenant_id \<and> fl_source_connector f = connector_name \<and>
       fl_source_event f = event \<and> fl_is_enabled f) (fg_flows fg)"

definition matches_filter :: "pydict \<Rightarrow> pydict option \<Rightarrow> bool" where
  "matches_filter event_data source_filter =
     (case source_filter of
        None \<Rightarrow> True
      | Some flt \<Rightarrow> list_all (\<lambda>(key, expected). py_eq (flow_get_nested (PDict event_data) key) expected) flt)"

text \<open>JMESPath: a failing expression, or a missing package, leaves the data as it is.\<close>

definition flow_transform :: "flow_engine \<Rightarrow> pyval \<Rightarrow> string \<Rightarrow> pyval" where
  "flow_transform fg data transform =
     (case fg_jmespath fg of
        None \<Rightarrow> data
      | Some search \<Rightarrow>
          (case search transform data of
             Inl _ \<Rightarrow> data
           | Inr (PDict d) \<Rightarrow> PDict d
           | Inr v \<Rightarrow> PDict [(''result'', v)]))"

definition flow_payload :: "flow_engine \<Rightarrow> flow \<Rightarrow> pydict \<Rightarrow> pyval py" where
  "flow_payload fg fl event_data =
     andThen (resolve_mapping (fg_rt fg) (fg_overrides fg) [] (fl_tenant fl) (fl_destination_connector fl) ''field''
                event_data (fl_field_mapping fl)) (\<lambda>mapped.
     Inr (case fl_transform fl of
            None \<Rightarrow> mapped
          | Some t \<Rightarrow> if t = [] then mapped else flow_transform fg mapped t))"

text \<open>The loop over the attempts: the answer or the last exception, and the number of the attempt it
  came from.  The delay before attempt \<open>a + 1\<close> is computed from \<^verbatim>\<open>1.0 * 2 ** a\<close>, which overflows a
  float when \<open>a\<close> is 1024; \<open>None\<close> when there was no attempt.\<close>

fun flow_attempts ::
  "(flow_call list \<Rightarrow> flow_call \<Rightarrow> pyval py) \<Rightarrow> flow_call \<Rightarrow> nat \<Rightarrow> nat \<Rightarrow> flow_call list
    \<Rightarrow> (pyval py \<times> nat) option \<times> flow_call list" where
  "flow_attempts exec c attempt 0 calls = (None, calls)"
| "flow_attempts exec c attempt (Suc left) calls =
     (case exec calls c of
        Inr result \<Rightarrow> (Some (Inr result, attempt), calls @ [c])
      | Inl exc \<Rightarrow>
          if left = 0 then (Some (Inl exc, attempt), calls @ [c])
          else if 1024 \<le> attempt then
            (Some (Inl (OverflowError ''int too large to convert to float''), attempt), calls @ [c])
          else flow_attempts exec c (Suc attempt) left (calls @ [c]))"

definition max_attempts :: "flow \<Rightarrow> nat" where
  "max_attempts fl = (if fl_on_error fl = ''retry'' then nat (fl_max_retries fl + 1) else 1)"

definition flow_action :: "flow \<Rightarrow> pyval \<Rightarrow> flow_call" where
  "flow_action fl payload =
     \<lparr>fc_connector = fl_destination_connector fl, fc_action = fl_destination_action fl, fc_payload = payload,
      fc_tenant = fl_tenant fl, fc_version = fl_destination_version fl\<rparr>"

definition new_flow_execution :: "flow \<Rightarrow> pydict \<Rightarrow> flow_execution" where
  "new_flow_execution fl event_data =
     \<lparr>fe_flow_id = fl_id fl, fe_tenant_id = fl_tenant fl, fe_status = ''running'', fe_source_event_data = event_data,
      fe_destination_action_data = PDict [], fe_result = None, fe_error = None, fe_retry_count = 0\<rparr>"

definition result_dict :: "pyrt \<Rightarrow> pyval \<Rightarrow> pyval" where
  "result_dict rt result = (case result of PDict d \<Rightarrow> PDict d | _ \<Rightarrow> PDict [(''result'', PStr (py_str rt result))])"

definition execute_flow :: "flow_engine \<Rightarrow> flow \<Rightarrow> pydict \<Rightarrow> flow_call list \<Rightarrow> flow_execution \<times> flow_call list" where
  "execute_flow fg fl event_data calls =
     (let ex = new_flow_execution fl event_data in
      if \<not> matches_filter event_data (fl_source_filter fl) then (ex\<lparr>fe_status := ''skipped''\<rparr>, calls)
      else
      case flow_payload fg fl event_data of
        Inl exc \<Rightarrow> (ex\<lparr>fe_status := ''failed'', fe_error := Some (exn_str exc)\<rparr>, calls)
      | Inr payload \<Rightarrow>
          let ex' = ex\<lparr>fe_destination_action_data := payload\<rparr> in
          (case flow_attempts (fg_execute fg) (flow_action fl payload) 0 (max_attempts fl) calls of
             (None, calls') \<Rightarrow> (ex', calls')
           | (Some (Inr result, attempt), calls') \<Rightarrow>
               (ex'\<lparr>fe_status := ''success'', fe_retry_count := attempt,
                   fe_result := Some (result_dict (fg_rt fg) result)\<rparr>, calls')
           | (Some (Inl exc, attempt), calls') \<Rightarrow>
               (ex'\<lparr>fe_status := ''failed'', fe_retry_count := attempt, fe_error := Some (exn_str exc)\<rparr>, calls')))"

fun execute_flows :: "flow_engine \<Rightarrow> pydict \<Rightarrow> flow list \<Rightarrow> flow_call list \<Rightarrow> flow_execution list \<times> flow_call list" where
  "execute_flows fg event_data [] calls = ([], calls)"
| "execute_flows fg event_data (fl # fls) calls =
     (let (ex, calls') = execute_flow fg fl event_data calls;
          (exs, calls'') = execute_flows fg event_data fls calls' in
      (ex # exs, calls''))"

definition flow_process_event ::
  "flow_engine \<Rightarrow> string \<Rightarrow> string \<Rightarrow> string \<Rightarrow> pydict \<Rightarrow> flow_call list \<Rightarrow> flow_execution list \<times> flow_call list" where
  "flow_process_event fg tenant_id connector_name event event_data calls =
     execute_flows fg event_data (get_flows_for_event fg tenant_id connector_name event) calls"

section \<open>Attempts\<close>

text \<open>Every attempt but the last one fails; the calls are the same call over and over.\<close>

lemma flow_attempts_spec:
  assumes "flow_attempts exec c a n calls = (out, calls')" and "a + n \<le> 1024"
  shows "\<exists>k \<le> n. calls' = calls @ replicate k c
    \<and> (\<forall>i. Suc i < k \<longrightarrow> (\<exists>e. exec (calls @ replicate i c) c = Inl e))
    \<and> (if n = 0 then out = None \<and> k = 0
       else 0 < k \<and> out = Some (exec (calls @ replicate (k - 1) c) c, a + (k - 1))
         \<and> (k < n \<longrightarrow> (\<exists>r. exec (calls @ replicate (k - 1) c) c = Inr r)))"
  using assms
proof (induction exec c a n calls arbitrary: out calls' rule: flow_attempts.induct)
  case (2 exec c a m calls)
  consider (finished) "(\<exists>r. exec calls c = Inr r) \<or> m = 0" | (again) e where "exec calls c = Inl e" "m \<noteq> 0"
    by (cases "exec calls c") auto
  then show ?case
  proof cases
    case finished
    then show ?thesis using "2.prems" by (intro exI [of _ 1]) (auto split: sum.splits)
  next
    case again
    then have rec: "flow_attempts exec c (Suc a) m (calls @ [c]) = (out, calls')" using "2.prems" by simp
    obtain k where k: "k \<le> m" "calls' = (calls @ [c]) @ replicate k c"
      "\<forall>i. Suc i < k \<longrightarrow> (\<exists>e. exec ((calls @ [c]) @ replicate i c) c = Inl e)"
      "0 < k" "out = Some (exec ((calls @ [c]) @ replicate (k - 1) c) c, Suc a + (k - 1))"
      "k < m \<longrightarrow> (\<exists>r. exec ((calls @ [c]) @ replicate (k - 1) c) c = Inr r)"
      using "2.IH" [OF again(1) again(2) _ rec] "2.prems"(2) again(2) by auto
    have shift: "(calls @ [c]) @ replicate i c = calls @ replicate (Suc i) c" for i by simp
    have early: "\<exists>e. exec (calls @ replicate i c) c = Inl e" if "Suc i < Suc k" for i
      using that again(1) k(3) by (cases i) (auto simp: shift)
    show ?thesis
      by (rule exI [of _ "Suc k"]) (use k early in \<open>auto simp: shift gr0_conv_Suc\<close>)
  qed
qed simp

end
