(* ===== verification/SyncState.thy ===== *)
theory SyncState
  imports NestedPath
begin

text \<open>
  The synchronisation ledger (\<^verbatim>\<open>core/sync_state.py\<close>): the decision whether an entity
  is synchronised, the recording of outcomes, and the maintenance operations.
  The table is a list of rows with the unique constraint of \<^verbatim>\<open>SyncLedger\<close>.  The
  digest of the selected fields (SHA-256 of their JSON text) is the parameter
  \<open>digest\<close>; timestamps are arguments.
\<close>

section \<open>Data\<close>

datatype sync_decision = SYNC | UPDATE | SKIP | RETRY

record sync_check =
  sc_decision :: sync_decision
  sc_existing_hash :: "string option"
  sc_attempt_count :: int
  sc_ledger_id :: "nat option"

datatype sync_status = LPending | LSynced | LFailed | LStale

record ledger_row =
  lr_id :: nat
  lr_tenant_id :: string
  lr_workflow_id :: string
  lr_source_connector :: string
  lr_source_event :: string
  lr_entity_key :: string
  lr_content_hash :: string
  lr_sync_status :: sync_status
  lr_attempt_count :: int
  lr_last_error :: "string option"
  lr_synced_at :: "int option"
  lr_updated_at :: int

record ledger =
  lg_rows :: "ledger_row list"
  lg_next_id :: nat

section \<open>Hash and key\<close>

text \<open>The part of the data that is hashed: the listed fields, or everything but metadata.\<close>

definition is_metadata :: "string \<Rightarrow> bool" where
  "is_metadata k \<longleftrightarrow> starts_with k ''_'' \<or> k = ''account_name'' \<or> k = ''polled_at''"

definition hash_field :: "pydict \<Rightarrow> pyval \<Rightarrow> (string \<times> pyval) py" where
  "hash_field data f =
     (case f of
        PStr k \<Rightarrow> Inr (k, dget data k PNone)
      | _ \<Rightarrow> Inl (if hashable f then OtherError ''Unmodelled'' ''non-string key'' else unhashable_error f))"

definition hash_subset :: "pydict \<Rightarrow> pyval \<Rightarrow> pydict py" where
  "hash_subset data hash_fields =
     (if truthy hash_fields \<and> \<not> py_eq hash_fields (PList [PStr ''*'']) then
        andThen (py_iter hash_fields) (\<lambda>fs.
        andThen (mapM (hash_field data) fs) (\<lambda>kvs.
        Inr (foldl (\<lambda>d (k, v). dset d k v) [] kvs)))
      else Inr (filter (\<lambda>(k, v). \<not> is_metadata k) data))"

definition compute_content_hash :: "(pydict \<Rightarrow> string) \<Rightarrow> pydict \<Rightarrow> pyval \<Rightarrow> string py" where
  "compute_content_hash digest data hash_fields =
     andThen (hash_subset data hash_fields) (\<lambda>subset. Inr (digest subset))"

definition key_part :: "pyrt \<Rightarrow> pydict \<Rightarrow> pyval \<Rightarrow> string py" where
  "key_part rt data f =
     andThen (as_str ''split'' f) (\<lambda>path.
     let v = sync_get_nested (PDict data) path in Inr (if truthy v then py_str rt v else []))"

definition resolve_entity_key :: "pyrt \<Rightarrow> pydict \<Rightarrow> pyval \<Rightarrow> string py" where
  "resolve_entity_key rt data key_field =
     (case key_field of
        PList fs \<Rightarrow> andThen (mapM (key_part rt data) fs) (\<lambda>parts. Inr (py_join '':'' parts))
      | _ \<Rightarrow> key_part rt data key_field)"

section \<open>The decision\<close>

definition row_for :: "string \<Rightarrow> string \<Rightarrow> ledger_row \<Rightarrow> bool" where
  "row_for workflow_id entity_key r \<longleftrightarrow> lr_workflow_id r = workflow_id \<and> lr_entity_key r = entity_key"

definition find_entry :: "ledger \<Rightarrow> string \<Rightarrow> string \<Rightarrow> ledger_row option" where
  "find_entry lg workflow_id entity_key = find (row_for workflow_id entity_key) (lg_rows lg)"

text \<open>\<^verbatim>\<open>db.add\<close> and \<^verbatim>\<open>flush\<close>: the unique constraint raises, otherwise the row gets an id.\<close>

definition insert_row :: "ledger \<Rightarrow> ledger_row \<Rightarrow> (nat \<times> ledger) py" where
  "insert_row lg r =
     (case find_entry lg (lr_workflow_id r) (lr_entity_key r) of
        Some _ \<Rightarrow> Inl (OtherError ''IntegrityError'' ''duplicate key value violates unique constraint'')
      | None \<Rightarrow> Inr (lg_next_id lg,
                    lg\<lparr>lg_rows := lg_rows lg @ [r\<lparr>lr_id := lg_next_id lg\<rparr>], lg_next_id := Suc (lg_next_id lg)\<rparr>))"

definition decide_entry :: "ledger_row \<Rightarrow> string \<Rightarrow> pyval \<Rightarrow> sync_check py" where
  "decide_entry entry content_hash max_retries =
     (let check = (\<lambda>d n. \<lparr>sc_decision = d, sc_existing_hash = Some (lr_content_hash entry), sc_attempt_count = n,
                          sc_ledger_id = Some (lr_id entry)\<rparr>);
          rest = (if lr_content_hash entry = content_hash \<and> lr_sync_status entry = LSynced then check SKIP 0
                  else if lr_content_hash entry \<noteq> content_hash then check UPDATE (lr_attempt_count entry)
                  else check SYNC 0) in
      if lr_sync_status entry = LPending then Inr (check SKIP 0)
      else if lr_sync_status entry = LFailed then
        andThen (py_cmp CLt (PInt (lr_attempt_count entry)) max_retries) (\<lambda>b.
        Inr (if b then check RETRY (lr_attempt_count entry) else rest))
      else Inr rest)"

definition pending_row :: "string \<Rightarrow> string \<Rightarrow> string \<Rightarrow> string \<Rightarrow> string \<Rightarrow> string \<Rightarrow> int \<Rightarrow> ledger_row" where
  "pending_row tenant workflow_id connector event entity_key content_hash now =
     \<lparr>lr_id = 0, lr_tenant_id = tenant, lr_workflow_id = workflow_id, lr_source_connector = connector,
      lr_source_event = event, lr_entity_key = entity_key, lr_content_hash = content_hash,
      lr_sync_status = LPending, lr_attempt_count = 0, lr_last_error = None, lr_synced_at = None, lr_updated_at = now\<rparr>"

text \<open>\<^verbatim>\<open>should_sync\<close>.  Another session may commit between the \<^verbatim>\<open>SELECT\<close> that found no row and
  the insertion: \<open>meanwhile\<close> is what it does to the table (the identity when there is none).\<close>

definition should_sync ::
  "(ledger \<Rightarrow> ledger) \<Rightarrow> ledger \<Rightarrow> string \<Rightarrow> string \<Rightarrow> string \<Rightarrow> pyval \<Rightarrow> string option \<Rightarrow> string \<Rightarrow> string \<Rightarrow> int
    \<Rightarrow> (sync_check \<times> ledger) py" where
  "should_sync meanwhile lg workflow_id entity_key content_hash max_retries tenant_id connector event now =
     (case find_entry lg workflow_id entity_key of
        Some entry \<Rightarrow> andThen (decide_entry entry content_hash max_retries) (\<lambda>c. Inr (c, lg))
      | None \<Rightarrow>
          (case tenant_id of
             None \<Rightarrow> Inr (\<lparr>sc_decision = SYNC, sc_existing_hash = None, sc_attempt_count = 0, sc_ledger_id = None\<rparr>, lg)
           | Some tenant \<Rightarrow>
               let lg' = meanwhile lg in
               (case insert_row lg' (pending_row tenant workflow_id connector event entity_key content_hash now) of
                  Inl _ \<Rightarrow> Inr (\<lparr>sc_decision = SKIP, sc_existing_hash = None, sc_attempt_count = 0, sc_ledger_id = None\<rparr>, lg')
                | Inr (i, lg'') \<Rightarrow>
                    Inr (\<lparr>sc_decision = SYNC, sc_existing_hash = None, sc_attempt_count = 0, sc_ledger_id = Some i\<rparr>, lg''))))"

section \<open>Outcomes\<close>

definition update_rows :: "(ledger_row \<Rightarrow> bool) \<Rightarrow> (ledger_row \<Rightarrow> ledger_row) \<Rightarrow> ledger \<Rightarrow> ledger" where
  "update_rows P f lg = lg\<lparr>lg_rows := update_where P f (lg_rows lg)\<rparr>"

definition record_success ::
  "ledger \<Rightarrow> string \<Rightarrow> string \<Rightarrow> string \<Rightarrow> string \<Rightarrow> string \<Rightarrow> string \<Rightarrow> nat option \<Rightarrow> int \<Rightarrow> ledger py" where
  "record_success lg tenant workflow_id connector event entity_key content_hash ledger_id now =
     (case ledger_id of
        Some i \<Rightarrow>
          Inr (update_rows (\<lambda>r. lr_id r = i)
            (\<lambda>r. r\<lparr>lr_content_hash := content_hash, lr_sync_status := LSynced, lr_synced_at := Some now,
                  lr_updated_at := now, lr_last_error := None\<rparr>) lg)
      | None \<Rightarrow>
          andThen (insert_row lg
            ((pending_row tenant workflow_id connector event entity_key content_hash now)
               \<lparr>lr_sync_status := LSynced, lr_synced_at := Some now\<rparr>)) (\<lambda>(i, lg'). Inr lg'))"

definition record_failure ::
  "ledger \<Rightarrow> string \<Rightarrow> string \<Rightarrow> string \<Rightarrow> string \<Rightarrow> string \<Rightarrow> string \<Rightarrow> string \<Rightarrow> nat option \<Rightarrow> int \<Rightarrow> ledger py" where
  "record_failure lg tenant workflow_id connector event entity_key content_hash err ledger_id now =
     (case ledger_id of
        Some i \<Rightarrow>
          Inr (update_rows (\<lambda>r. lr_id r = i)
            (\<lambda>r. r\<lparr>lr_content_hash := content_hash, lr_sync_status := LFailed,
                  lr_attempt_count := lr_attempt_count r + 1, lr_last_error := Some (take 2000 err), lr_updated_at := now\<rparr>) lg)
      | None \<Rightarrow>
          andThen (insert_row lg
            ((pending_row tenant workflow_id connector event entity_key content_hash now)
               \<lparr>lr_sync_status := LFailed, lr_attempt_count := 1, lr_last_error := Some (take 2000 err)\<rparr>))
            (\<lambda>(i, lg'). Inr lg'))"

section \<open>Maintenance\<close>

text \<open>The filters of the maintenance operations; a tenant is optional.\<close>

definition in_scope :: "string \<Rightarrow> string option \<Rightarrow> ledger_row \<Rightarrow> bool" where
  "in_scope workflow_id tenant_id r \<longleftrightarrow>
     lr_workflow_id r = workflow_id \<and> (case tenant_id of None \<Rightarrow> True | Some t \<Rightarrow> lr_tenant_id r = t)"

definition count_where :: "('r \<Rightarrow> bool) \<Rightarrow> 'r list \<Rightarrow> nat" where
  "count_where P rows = length (filter P rows)"

definition mark_stale :: "ledger \<Rightarrow> string \<Rightarrow> string option \<Rightarrow> int \<Rightarrow> nat \<times> ledger" where
  "mark_stale lg workflow_id tenant_id now =
     (let P = (\<lambda>r. in_scope workflow_id tenant_id r \<and> lr_sync_status r = LSynced) in
      (count_where P (lg_rows lg), update_rows P (\<lambda>r. r\<lparr>lr_sync_status := LStale, lr_updated_at := now\<rparr>) lg))"

record sync_stats =
  ss_synced :: nat
  ss_failed :: nat
  ss_pending :: nat
  ss_stale :: nat
  ss_total :: nat

definition get_stats :: "ledger \<Rightarrow> string \<Rightarrow> string option \<Rightarrow> sync_stats" where
  "get_stats lg workflow_id tenant_id =
     (let n = (\<lambda>st. count_where (\<lambda>r. in_scope workflow_id tenant_id r \<and> lr_sync_status r = st) (lg_rows lg)) in
      \<lparr>ss_synced = n LSynced, ss_failed = n LFailed, ss_pending = n LPending, ss_stale = n LStale,
       ss_total = n LSynced + n LFailed + n LPending + n LStale\<rparr>)"

text \<open>\<^verbatim>\<open>ORDER BY updated_at DESC LIMIT n\<close>.\<close>

fun insert_newest :: "ledger_row \<Rightarrow> ledger_row list \<Rightarrow> ledger_row list" where
  "insert_newest r [] = [r]"
| "insert_newest r (q # qs) = (if lr_updated_at r < lr_updated_at q then q # insert_newest r qs else r # q # qs)"

definition newest_first :: "ledger_row list \<Rightarrow> ledger_row list" where
  "newest_first rows = foldr insert_newest rows []"

definition get_failed_entries :: "ledger \<Rightarrow> string \<Rightarrow> nat \<Rightarrow> string option \<Rightarrow> ledger_row list" where
  "get_failed_entries lg workflow_id limit tenant_id =
     take limit (newest_first (filter (\<lambda>r. in_scope workflow_id tenant_id r \<and> lr_sync_status r = LFailed) (lg_rows lg)))"

definition reset_failed :: "ledger \<Rightarrow> string \<Rightarrow> string option \<Rightarrow> int \<Rightarrow> nat \<times> ledger" where
  "reset_failed lg workflow_id tenant_id now =
     (let P = (\<lambda>r. in_scope workflow_id tenant_id r \<and> lr_sync_status r = LFailed) in
      (count_where P (lg_rows lg),
       update_rows P (\<lambda>r. r\<lparr>lr_sync_status := LPending, lr_attempt_count := 0, lr_last_error := None, lr_updated_at := now\<rparr>) lg))"

definition clear_ledger :: "ledger \<Rightarrow> string \<Rightarrow> string option \<Rightarrow> nat \<times> ledger" where
  "clear_ledger lg workflow_id tenant_id =
     (let P = in_scope workflow_id tenant_id in
      (count_where P (lg_rows lg), lg\<lparr>lg_rows := filter (\<lambda>r. \<not> P r) (lg_rows lg)\<rparr>))"

section \<open>The table as a state machine\<close>

definition entity :: "ledger_row \<Rightarrow> string \<times> string" where
  "entity r = (lr_workflow_id r, lr_entity_key r)"

text \<open>One row per entity, identifiers unique and already given out.\<close>

definition ledger_ok :: "ledger \<Rightarrow> bool" where
  "ledger_ok lg \<longleftrightarrow> uniq_by entity (lg_rows lg) \<and> uniq_by lr_id (lg_rows lg) \<and>
     (\<forall>r \<in> set (lg_rows lg). lr_id r < lg_next_id lg)"

lemma row_for_entity: "row_for w k = (\<lambda>r. entity r = (w, k))"
  by (auto simp: row_for_def entity_def)

lemma insert_row_ok:
  assumes "ledger_ok lg" and "insert_row lg r = Inr (i, lg')"
  shows "ledger_ok lg'"
proof -
  from assms(2) have none: "find_entry lg (lr_workflow_id r) (lr_entity_key r) = None" and
    lg': "lg' = lg\<lparr>lg_rows := lg_rows lg @ [r\<lparr>lr_id := lg_next_id lg\<rparr>], lg_next_id := Suc (lg_next_id lg)\<rparr>"
    by (auto simp: insert_row_def split: option.splits)
  from none have "\<forall>q \<in> set (lg_rows lg). entity q \<noteq> entity r"
    by (auto simp: find_entry_def find_None_all row_for_def entity_def)
  with assms(1) show ?thesis
    by (auto simp: ledger_ok_def lg' uniq_snoc entity_def less_Suc_eq)
qed

lemma update_rows_ok:
  assumes "ledger_ok lg" and "\<And>r. entity (f r) = entity r" and "\<And>r. lr_id (f r) = lr_id r"
  shows "ledger_ok (update_rows P f lg)"
  using assms by (auto simp: ledger_ok_def update_rows_def uniq_update_where set_update_where)

lemma update_rows_entity [simp]:
  "entity (r\<lparr>lr_content_hash := a\<rparr>) = entity r" "entity (r\<lparr>lr_sync_status := b\<rparr>) = entity r"
  "entity (r\<lparr>lr_attempt_count := c\<rparr>) = entity r" "entity (r\<lparr>lr_last_error := d\<rparr>) = entity r"
  "entity (r\<lparr>lr_synced_at := e\<rparr>) = entity r" "entity (r\<lparr>lr_updated_at := t\<rparr>) = entity r" "entity (r\<lparr>lr_id := i\<rparr>) = entity r"
  by (simp_all add: entity_def)

lemma record_success_ok:
  "ledger_ok lg \<Longrightarrow> record_success lg tn w c e k h i now = Inr lg' \<Longrightarrow> ledger_ok lg'"
  by (auto simp: record_success_def andThen_eq_Inr split: option.splits intro: update_rows_ok insert_row_ok)

lemma record_failure_ok:
  "ledger_ok lg \<Longrightarrow> record_failure lg tn w c e k h err i now = Inr lg' \<Longrightarrow> ledger_ok lg'"
  by (auto simp: record_failure_def andThen_eq_Inr split: option.splits intro: update_rows_ok insert_row_ok)

lemma should_sync_ok:
  assumes "ledger_ok lg" and "\<And>x. ledger_ok x \<Longrightarrow> ledger_ok (meanwhile x)"
    and "should_sync meanwhile lg w k h m tn c e now = Inr (chk, lg')"
  shows "ledger_ok lg'"
  using assms
  by (auto simp: should_sync_def andThen_eq_Inr Let_def split: option.splits sum.splits intro: insert_row_ok)

datatype ledger_op =
    OpShouldSync string string string pyval string string string int
  | OpSuccess string string string string string string "nat option" int
  | OpFailure string string string string string string string "nat option" int
  | OpMarkStale string "string option" int
  | OpResetFailed string "string option" int
  | OpClear string "string option"

definition or_unchanged :: "ledger \<Rightarrow> ledger py \<Rightarrow> ledger" where
  "or_unchanged lg r = (case r of Inl _ \<Rightarrow> lg | Inr lg' \<Rightarrow> lg')"

fun ledger_step :: "ledger \<Rightarrow> ledger_op \<Rightarrow> ledger" where
  "ledger_step lg (OpShouldSync w k h m tn c e now) =
     (case should_sync (\<lambda>x. x) lg w k h m (Some tn) c e now of Inl _ \<Rightarrow> lg | Inr (_, lg') \<Rightarrow> lg')"
| "ledger_step lg (OpSuccess tn w c e k h i now) = or_unchanged lg (record_success lg tn w c e k h i now)"
| "ledger_step lg (OpFailure tn w c e k h err i now) = or_unchanged lg (record_failure lg tn w c e k h err i now)"
| "ledger_step lg (OpMarkStale w tn now) = snd (mark_stale lg w tn now)"
| "ledger_step lg (OpResetFailed w tn now) = snd (reset_failed lg w tn now)"
| "ledger_step lg (OpClear w tn) = snd (clear_ledger lg w tn)"

lemma ledger_step_ok: "ledger_ok lg \<Longrightarrow> ledger_ok (ledger_step lg op)"
proof (induction lg op rule: ledger_step.induct)
  case (1 lg w k h m tn c e now)
  then show ?case by (auto split: sum.splits dest: should_sync_ok [rotated 2, where meanwhile = "\<lambda>x. x"])
next
  case (2 lg tn w c e k h i now)
  then show ?case by (auto simp: or_unchanged_def record_success_ok split: sum.splits)
next
  case (3 lg tn w c e k h err i now)
  then show ?case by (auto simp: or_unchanged_def record_failure_ok split: sum.splits)
next
  case (6 lg w tn)
  then show ?case by (auto simp: clear_ledger_def Let_def ledger_ok_def uniq_filter)
qed (auto simp: mark_stale_def reset_failed_def Let_def intro!: update_rows_ok)

interpretation ledger: inv_machine ledger_step ledger_ok
  by unfold_locales (rule ledger_step_ok)

end
