(* ===== verification/SyncEvents.thy ===== *)
theory SyncEvents
  imports SyncState EngineNode
begin

text \<open>
  Events: which workflows an event starts and under which synchronisation
  policy (\<^verbatim>\<open>get_workflows_for_event\<close>, \<^verbatim>\<open>process_event\<close>, \<^verbatim>\<open>_execute_with_sync\<close> and
  \<^verbatim>\<open>record_execution_sync\<close> of \<^verbatim>\<open>core/workflow_engine.py\<close>).  The state is the world of
  the engine together with the ledger.
\<close>

record pst =
  ps_world :: world
  ps_ledger :: ledger

type_synonym 'a pact = "(pst, 'a) act"

section \<open>Which workflows an event starts\<close>

definition get_workflows_for_event :: "engine \<Rightarrow> string \<Rightarrow> string \<Rightarrow> string \<Rightarrow> workflow list" where
  "get_workflows_for_event en tenant_id connector_name event =
     filter (\<lambda>w. wf_tenant w = tenant_id \<and> wf_trigger_connector w = Some connector_name \<and>
                 wf_trigger_event w = Some event \<and> wf_is_enabled w) (en_workflows en)"

fun get_trigger_credential :: "node list \<Rightarrow> pyval" where
  "get_trigger_credential [] = PNone"
| "get_trigger_credential (n # ns) =
     (let cred = dget (n_config n) ''credential_name'' PNone in
      if n_type n = ''trigger'' \<and> truthy cred \<and> \<not> py_eq cred (PStr ''default'') then cred
      else get_trigger_credential ns)"

fun get_trigger_filters :: "node list \<Rightarrow> pyval" where
  "get_trigger_filters [] = PNone"
| "get_trigger_filters (n # ns) =
     (if n_type n = ''trigger'' then
        (let fs = dget (n_config n) ''filters'' PNone in
         if truthy fs then fs else dget (n_config n) ''filter'' PNone)
      else get_trigger_filters ns)"

definition event_matches :: "pyrt \<Rightarrow> pydict \<Rightarrow> workflow \<Rightarrow> bool py" where
  "event_matches rt event_data w =
     (let event_account = dget event_data ''account_name'' PNone;
          trigger_cred = get_trigger_credential (wf_nodes w);
          trigger_filters = get_trigger_filters (wf_nodes w) in
      if truthy trigger_cred \<and> truthy event_account \<and> \<not> py_eq trigger_cred event_account then Inr False
      else if truthy trigger_filters then passes_trigger_filters rt trigger_filters event_data
      else Inr True)"

definition matched_workflows :: "pyrt \<Rightarrow> pydict \<Rightarrow> workflow list \<Rightarrow> workflow list py" where
  "matched_workflows rt event_data ws =
     foldM (\<lambda>acc w. andThen (event_matches rt event_data w) (\<lambda>b. Inr (if b then acc @ [w] else acc))) [] ws"

section \<open>Execution under a synchronisation policy\<close>

definition run_workflow_now :: "engine \<Rightarrow> nat \<Rightarrow> workflow \<Rightarrow> pydict \<Rightarrow> execution pact" where
  "run_workflow_now en fuel wfl data =
     (\<lambda>s. case execute_workflow en fuel wfl data False (ps_world s) of
            None \<Rightarrow> None
          | Some (ex, w) \<Rightarrow> Some (Inr ex, s\<lparr>ps_world := w\<rparr>))"

definition check_ledger :: "workflow \<Rightarrow> string \<Rightarrow> string \<Rightarrow> pyval \<Rightarrow> string \<Rightarrow> string \<Rightarrow> int \<Rightarrow> sync_check pact" where
  "check_ledger wfl entity_key content_hash max_retries connector event now =
     (\<lambda>s. case should_sync (\<lambda>lg. lg) (ps_ledger s) (wf_id wfl) entity_key content_hash max_retries
                 (Some (wf_tenant wfl)) connector event now of
            Inl e \<Rightarrow> Some (Inl e, s)
          | Inr (c, lg) \<Rightarrow> Some (Inr c, s\<lparr>ps_ledger := lg\<rparr>))"

definition record_outcome ::
  "workflow \<Rightarrow> string \<Rightarrow> string \<Rightarrow> string \<Rightarrow> string \<Rightarrow> sync_check \<Rightarrow> int \<Rightarrow> execution \<Rightarrow> unit pact" where
  "record_outcome wfl connector event entity_key content_hash check now ex =
     (\<lambda>s. case (if ex_status ex = ''success''
                then record_success (ps_ledger s) (wf_tenant wfl) (wf_id wfl) connector event entity_key content_hash
                       (sc_ledger_id check) now
                else record_failure (ps_ledger s) (wf_tenant wfl) (wf_id wfl) connector event entity_key content_hash
                       (case ex_error ex of Some err \<Rightarrow> if err = [] then ''unknown error'' else err
                                          | None \<Rightarrow> ''unknown error'')
                       (sc_ledger_id check) now) of
            Inl e \<Rightarrow> Some (Inl e, s)
          | Inr lg \<Rightarrow> Some (Inr (), s\<lparr>ps_ledger := lg\<rparr>))"

text \<open>The entity key and hash, or nothing when synchronisation is off or has no key.\<close>

definition sync_target :: "pyrt \<Rightarrow> (pydict \<Rightarrow> string) \<Rightarrow> workflow \<Rightarrow> pydict \<Rightarrow> (pydict \<times> string \<times> string) option py" where
  "sync_target rt digest wfl event_data =
     (case wf_sync_config wfl of
        None \<Rightarrow> Inr None
      | Some cfg \<Rightarrow>
          if cfg = [] \<or> \<not> truthy (dget cfg ''enabled'' PNone) then Inr None
          else let key_field = dget cfg ''entity_key_field'' PNone in
            if \<not> truthy key_field then Inr None
            else andThen (resolve_entity_key rt event_data key_field) (\<lambda>entity_key.
              if entity_key = [] then Inr None
              else andThen (compute_content_hash digest event_data (dget cfg ''content_hash_fields'' PNone)) (\<lambda>content_hash.
                Inr (Some (cfg, entity_key, content_hash)))))"

definition execute_with_sync ::
  "engine \<Rightarrow> nat \<Rightarrow> (pydict \<Rightarrow> string) \<Rightarrow> int \<Rightarrow> workflow \<Rightarrow> string \<Rightarrow> string \<Rightarrow> pydict \<Rightarrow> execution option pact" where
  "execute_with_sync en fuel digest now wfl connector event event_data =
     bnd (liftE (sync_target (en_rt en) digest wfl event_data)) (\<lambda>target.
     case target of
       None \<Rightarrow> bnd (run_workflow_now en fuel wfl event_data) (\<lambda>ex. ret (Some ex))
     | Some (cfg, entity_key, content_hash) \<Rightarrow>
         bnd (check_ledger wfl entity_key content_hash (dget cfg ''max_retries'' (PInt 3)) connector event now) (\<lambda>check.
         if \<not> py_eq (dget cfg ''mode'' (PStr ''incremental'')) (PStr ''force'') \<and>
            (sc_decision check = SKIP \<or>
             sc_decision check = UPDATE \<and> py_eq (dget cfg ''on_duplicate'' (PStr ''skip'')) (PStr ''skip''))
         then ret None
         else
         bnd (run_workflow_now en fuel wfl event_data) (\<lambda>ex.
         bnd (record_outcome wfl connector event entity_key content_hash check now ex) (\<lambda>_.
         ret (Some ex)))))"

definition process_event ::
  "engine \<Rightarrow> nat \<Rightarrow> (pydict \<Rightarrow> string) \<Rightarrow> int \<Rightarrow> string \<Rightarrow> string \<Rightarrow> string \<Rightarrow> pydict \<Rightarrow> execution list pact" where
  "process_event en fuel digest now tenant_id connector_name event event_data =
     bnd (liftE (matched_workflows (en_rt en) event_data (get_workflows_for_event en tenant_id connector_name event))) (\<lambda>matched.
     bnd (map_each (\<lambda>w. execute_with_sync en fuel digest now w connector_name event event_data) matched) (\<lambda>executions.
     ret (List.map_filter (\<lambda>e. e) executions)))"

definition record_execution_sync ::
  "pyrt \<Rightarrow> (pydict \<Rightarrow> string) \<Rightarrow> int \<Rightarrow> workflow \<Rightarrow> execution \<Rightarrow> pydict \<Rightarrow> unit pact" where
  "record_execution_sync rt digest now wfl ex trigger_data =
     bnd (liftE (sync_target rt digest wfl trigger_data)) (\<lambda>target.
     case target of
       None \<Rightarrow> ret ()
     | Some (cfg, entity_key, content_hash) \<Rightarrow>
         (let connector = (case wf_trigger_connector wfl of Some c \<Rightarrow> if c = [] then ''manual'' else c | None \<Rightarrow> ''manual'');
              event = (case wf_trigger_event wfl of Some e \<Rightarrow> if e = [] then ''manual.execute'' else e | None \<Rightarrow> ''manual.execute'') in
          bnd (check_ledger wfl entity_key content_hash (PInt 3) connector event now) (\<lambda>check.
          record_outcome wfl connector event entity_key content_hash check now ex)))"

end
