(* ===== verification/WebhookGateway.thy ===== *)
theory WebhookGateway
  imports WebhookIngestion FlowEngine SyncEvents
begin

text \<open>
  The webhook endpoints of the gateway (\<^verbatim>\<open>receive_webhook\<close>, \<^verbatim>\<open>_resolve_webhook_tenant\<close> and
  \<^verbatim>\<open>replay_webhook\<close> of \<^verbatim>\<open>api/gateway.py\<close>), where ingestion, flows and workflows meet: the tenant is
  determined, the webhook is ingested, and a background task runs the flows and then the workflows that
  listen to the event.  The function \<open>hash_key\<close> is SHA-256 of an API key.
\<close>

section \<open>Whose webhook it is\<close>

record api_key =
  ak_key_hash :: string
  ak_tenant :: string
  ak_active :: bool

record connector_instance =
  cn_tenant :: string
  cn_connector :: string
  cn_version :: string
  cn_enabled :: bool

record tenancy =
  tn_hash_key :: "string \<Rightarrow> string"
  tn_keys :: "api_key list"
  tn_instances :: "connector_instance list"

definition api_key_header :: "(string \<times> string) list \<Rightarrow> string" where
  "api_key_header headers =
     (if dget headers ''x-api-key'' [] \<noteq> [] then dget headers ''x-api-key'' [] else dget headers ''X-API-Key'' [])"

definition find_api_key :: "tenancy \<Rightarrow> string \<Rightarrow> api_key option" where
  "find_api_key tn key = find (\<lambda>ak. ak_key_hash ak = tn_hash_key tn key \<and> ak_active ak) (tn_keys tn)"

definition enabled_tenants :: "tenancy \<Rightarrow> string \<Rightarrow> string list" where
  "enabled_tenants tn connector =
     remdups (map cn_tenant (filter (\<lambda>c. cn_connector c = connector \<and> cn_enabled c) (tn_instances tn)))"

definition resolve_webhook_tenant :: "tenancy \<Rightarrow> string \<Rightarrow> (string \<times> string) list \<Rightarrow> string option \<times> bool" where
  "resolve_webhook_tenant tn connector headers =
     (let key = api_key_header headers in
      case (if key = [] then None else find_api_key tn key) of
        Some ak \<Rightarrow> (Some (ak_tenant ak), True)
      | None \<Rightarrow> (case enabled_tenants tn connector of [t] \<Rightarrow> (Some t, False) | _ \<Rightarrow> (None, False)))"

section \<open>Receiving\<close>

definition no_tenant_error :: exn where
  "no_tenant_error = OtherError ''HTTPException'' ''400: Cannot determine tenant for this webhook''"

text \<open>The last component is the event the background task is created for.\<close>

definition receive_webhook ::
  "tenancy \<Rightarrow> webhook_service \<Rightarrow> inbox \<Rightarrow> rat \<Rightarrow> string \<Rightarrow> string \<Rightarrow> string \<Rightarrow> string \<Rightarrow> (string \<times> string) list
    \<Rightarrow> (ingest_result \<times> inbox \<times> string option) py" where
  "receive_webhook tn ws box now new_id connector event_type body headers =
     (case resolve_webhook_tenant tn connector headers of
        (None, _) \<Rightarrow> Inl no_tenant_error
      | (Some tenant, is_authenticated) \<Rightarrow>
          andThen (ingest_webhook ws box now
                     \<lparr>rq_id = new_id, rq_connector = connector, rq_event_type = event_type, rq_body = body,
                      rq_headers = headers, rq_tenant = tenant, rq_require_signature = (\<not> is_authenticated)\<rparr>)
            (\<lambda>(result, box'). Inr (result, box', case result of Accepted wid _ \<Rightarrow> Some wid | _ \<Rightarrow> None)))"

section \<open>Processing by both engines\<close>

record engines =
  eg_flows :: flow_engine
  eg_workflows :: engine
  eg_digest :: "pydict \<Rightarrow> string"

record engine_world =
  ew_flow_calls :: "flow_call list"
  ew_state :: pst

text \<open>\<^verbatim>\<open>_bg_process_event\<close> and \<^verbatim>\<open>_process_event\<close>: first the flows, then the workflows.  The background task
  works in a session of its own, which is rolled back when something raises (\<open>rollback\<close>); the calls that
  were made stay made.  What the engines do with a payload that is not an object is the argument
  \<open>on_other\<close>.\<close>

definition engines_process ::
  "engines \<Rightarrow> bool \<Rightarrow> nat \<Rightarrow> int \<Rightarrow> engine_world process_fn \<Rightarrow> engine_world process_fn" where
  "engines_process eg rollback fuel now on_other connector event payload tenant w =
     (case payload of
        PDict event_data \<Rightarrow>
          (case flow_process_event (eg_flows eg) tenant connector event event_data (ew_flow_calls w) of
             (flow_execs, calls) \<Rightarrow>
               (case process_event (eg_workflows eg) fuel (eg_digest eg) now tenant connector event event_data (ew_state w) of
                  None \<Rightarrow> None
                | Some (Inl exc, s) \<Rightarrow>
                    Some (Inl exc, \<lparr>ew_flow_calls = calls,
                                    ew_state = (if rollback then s\<lparr>ps_ledger := ps_ledger (ew_state w)\<rparr> else s)\<rparr>)
                | Some (Inr wf_execs, s) \<Rightarrow>
                    Some (Inr (PDict [(''flows_triggered'', PInt (int (length flow_execs))),
                                      (''workflows_triggered'', PInt (int (length wf_execs)))]),
                          \<lparr>ew_flow_calls = calls, ew_state = s\<rparr>)))
      | _ \<Rightarrow> on_other connector event payload tenant w)"

definition background_task ::
  "engines \<Rightarrow> webhook_service \<Rightarrow> nat \<Rightarrow> int \<Rightarrow> rat \<Rightarrow> engine_world process_fn \<Rightarrow> string \<Rightarrow> inbox \<Rightarrow> engine_world
    \<Rightarrow> (inbox \<times> engine_world) option" where
  "background_task eg ws fuel now clock on_other wid box w =
     process_webhook_async ws (engines_process eg True fuel now on_other) clock wid box w"

definition replay_endpoint ::
  "engines \<Rightarrow> nat \<Rightarrow> int \<Rightarrow> rat \<Rightarrow> engine_world process_fn \<Rightarrow> string \<Rightarrow> inbox \<Rightarrow> engine_world
    \<Rightarrow> (replay_result \<times> inbox \<times> engine_world) option" where
  "replay_endpoint eg fuel now clock on_other wid box w =
     replay_webhook (engines_process eg False fuel now on_other) clock wid box w"

end
