(* ===== verification/ConnectorActions.thy ===== *)
theory ConnectorActions
  imports ActionDispatcher WebhookGateway
begin

text \<open>
  How the gateway executes an action of a connector for a tenant (\<^verbatim>\<open>api/gateway.py\<close>): the credentials
  of the set are taken from the vault and completed with the OAuth2 access token, the version the tenant
  has activated is chosen, and the action is dispatched.  The OAuth2 manager is the field \<open>cg_token\<close>.
  The connector instances of a table are in the order they were created in.
\<close>

record connector_gateway =
  cg_dispatcher :: dispatcher
  cg_registry :: registry
  cg_cipher :: cipher
  cg_instances :: "connector_instance list"
  cg_token :: "string \<Rightarrow> string \<Rightarrow> string \<Rightarrow> pydict \<Rightarrow> string option py"

text \<open>\<^verbatim>\<open>dict(v)\<close>: of a dictionary, or of a sequence of pairs.\<close>

definition add_pair :: "pydict \<Rightarrow> pyval \<Rightarrow> pydict py" where
  "add_pair d p =
     (case p of
        PList [k, v] \<Rightarrow> andThen (as_key k) (\<lambda>key. Inr (dset d key v))
      | PStr [a, b] \<Rightarrow> Inr (dset d [a] (PStr [b]))
      | PList _ \<Rightarrow> Inl (ValueError ''dictionary update sequence element has wrong length; 2 is required'')
      | PStr _ \<Rightarrow> Inl (ValueError ''dictionary update sequence element has wrong length; 2 is required'')
      | PDict [(a, _), (b, _)] \<Rightarrow> Inr (dset d a (PStr b))
      | PDict _ \<Rightarrow> Inl (ValueError ''dictionary update sequence element has wrong length; 2 is required'')
      | _ \<Rightarrow> Inl (TypeError ''cannot convert dictionary update sequence element to a sequence''))"

definition py_dict :: "pyval \<Rightarrow> pydict py" where
  "py_dict v = (case v of PDict d \<Rightarrow> Inr d | _ \<Rightarrow> andThen (py_iter v) (foldM add_pair []))"

definition oauth2_config :: "connector_gateway \<Rightarrow> string \<Rightarrow> pyval" where
  "oauth2_config cg connector =
     (case get_by_name_version (cg_registry cg) connector None of
        None \<Rightarrow> PDict []
      | Some m \<Rightarrow> if cm_oauth2 m \<noteq> [] then PDict (cm_oauth2 m) else dget (cm_credential_validation m) ''oauth2'' (PDict []))"

definition copy_key :: "string \<Rightarrow> credentials \<Rightarrow> pydict \<Rightarrow> pydict" where
  "copy_key k creds config = (if dhas creds k then dset config k (PStr (dget creds k [])) else config)"

definition enrich_credentials ::
  "connector_gateway \<Rightarrow> credentials \<Rightarrow> string \<Rightarrow> string \<Rightarrow> string \<Rightarrow> credentials py" where
  "enrich_credentials cg creds tenant connector credential_name =
     (let cfg = oauth2_config cg connector in
      if \<not> truthy cfg then Inr creds
      else
      andThen (py_dict cfg) (\<lambda>config.
      andThen (cg_token cg tenant connector credential_name
                 (copy_key ''client_secret'' creds (copy_key ''client_id'' creds config))) (\<lambda>token.
      Inr (case token of
             None \<Rightarrow> dpop creds ''access_token''
           | Some t \<Rightarrow> if t \<noteq> [] then dset creds ''access_token'' t else dpop creds ''access_token''))))"

definition resolve_connector_version :: "connector_gateway \<Rightarrow> string \<Rightarrow> string \<Rightarrow> string option" where
  "resolve_connector_version cg tenant connector =
     map_option cn_version
       (find (\<lambda>c. cn_tenant c = tenant \<and> cn_connector c = connector \<and> cn_enabled c) (rev (cg_instances cg)))"

text \<open>What both kinds of execution do before they dispatch.\<close>

definition action_credentials ::
  "connector_gateway \<Rightarrow> vault \<Rightarrow> string \<Rightarrow> string \<Rightarrow> string \<Rightarrow> string option \<Rightarrow> (credentials \<times> string option) py" where
  "action_credentials cg v connector tenant credential_name version =
     andThen (retrieve_all (cg_cipher cg) v tenant connector credential_name) (\<lambda>stored.
     andThen (if stored = [] then Inr [] else enrich_credentials cg stored tenant connector credential_name) (\<lambda>creds.
     Inr (creds, if version = None \<or> version = Some [] then resolve_connector_version cg tenant connector else version)))"

definition execute_connector_action ::
  "connector_gateway \<Rightarrow> vault \<Rightarrow> rat \<Rightarrow> string \<Rightarrow> string \<Rightarrow> pydict \<Rightarrow> string \<Rightarrow> string \<Rightarrow> string option \<Rightarrow> pyval dact" where
  "execute_connector_action cg v now connector action payload tenant credential_name version =
     bnd (liftE (action_credentials cg v connector tenant credential_name version)) (\<lambda>(creds, ver).
     let creds' = (if creds \<noteq> [] \<and> \<not> dhas creds ''account_name'' then dset creds ''account_name'' credential_name else creds) in
     dispatch_action (cg_dispatcher cg) now connector action payload tenant (Some creds') ver)"

definition flow_action_fn ::
  "connector_gateway \<Rightarrow> vault \<Rightarrow> rat \<Rightarrow> string \<Rightarrow> string \<Rightarrow> pydict \<Rightarrow> string \<Rightarrow> string option \<Rightarrow> pyval dact" where
  "flow_action_fn cg v now connector action payload tenant version =
     bnd (liftE (action_credentials cg v connector tenant ''default'' version)) (\<lambda>(creds, ver).
     dispatch_action (cg_dispatcher cg) now connector action payload tenant (Some creds) ver)"

end
