(* ===== verification/TextStore.thy ===== *)
theory TextStore
  imports Complex_Main Prelude
begin

text \<open>
  The part of Redis that holds a text under a key until a time: \<^verbatim>\<open>SET key text EX seconds\<close>, \<^verbatim>\<open>GET\<close>
  and \<^verbatim>\<open>DEL\<close>.  A key whose time has come is absent.
\<close>

type_synonym text_store = "(string \<times> string \<times> rat) list"

definition text_get :: "text_store \<Rightarrow> rat \<Rightarrow> string \<Rightarrow> string option" where
  "text_get st now key =
     (case map_of st key of
        None \<Rightarrow> None
      | Some (text, expires) \<Rightarrow> if now < expires then Some text else None)"

definition text_set :: "text_store \<Rightarrow> rat \<Rightarrow> string \<Rightarrow> string \<Rightarrow> nat \<Rightarrow> text_store" where
  "text_set st now key text seconds = dset st key (text, now + of_nat seconds)"

definition text_del :: "text_store \<Rightarrow> string \<Rightarrow> text_store" where
  "text_del st key = dpop st key"

lemma text_get_set [simp]:
  "text_get (text_set st now key text seconds) now' k =
     (if k = key then if now' < now + of_nat seconds then Some text else None else text_get st now' k)"
  by (simp add: text_get_def text_set_def)

lemma text_get_del [simp]: "text_get (text_del st key) now k = (if k = key then None else text_get st now k)"
  by (simp add: text_get_def text_del_def map_of_dpop)

text \<open>What a key holds never comes back by itself.\<close>

lemma text_get_later: "text_get st now k = None \<Longrightarrow> now \<le> now' \<Longrightarrow> text_get st now' k = None"
  by (auto simp: text_get_def split: option.splits prod.splits if_splits)

text \<open>At any one time the store is a key-value store for writes that live for a while.\<close>

interpretation text_store: kv_store "\<lambda>st k. text_get st now k" "\<lambda>st k v. text_set st now k v (Suc ttl)" "\<lambda>_. True"
  by unfold_locales simp_all

end
