(* ===== verification/OAuth2Manager.thy ===== *)
theory OAuth2Manager
  imports ConnectorActions TextStore
begin

text \<open>
  The OAuth2 manager (\<^verbatim>\<open>core/oauth2_manager.py\<close>): authorization addresses with one-time states, exchange of
  codes, refresh, use and revocation of tokens.  The rows of a tenant's tokens are in the order they were
  created in.  The provider is a function of the requests made so far; random texts, the clock, the
  challenge of PKCE (SHA-256 and base64), and \<^verbatim>\<open>string.Formatter\<close> and \<^verbatim>\<open>str.format_map\<close> are parameters.
  Times are seconds.
\<close>

section \<open>State\<close>

record oauth_row =
  ot_id :: nat
  ot_tenant :: string
  ot_connector :: string
  ot_name :: string
  ot_provider :: string
  ot_access :: string
  ot_refresh :: "string option"
  ot_type :: pyval
  ot_scope :: pyval
  ot_expires :: "rat option"
  ot_last_refreshed :: "rat option"
  ot_refresh_count :: nat
  ot_status :: string
  ot_last_error :: "string option"

record oauth_world =
  ow_redis :: text_store
  ow_rows :: "oauth_row list"
  ow_next :: nat
  ow_vault :: vault
  ow_nonces :: nat
  ow_posts :: "(string \<times> pydict) list"

record oauth_env =
  oe_rt :: pyrt
  oe_cipher :: cipher
  oe_has_redis :: bool
  oe_nonce :: "nat \<Rightarrow> string"
  oe_fields :: "string \<Rightarrow> string list py"
  oe_format_map :: "string \<Rightarrow> pydict \<Rightarrow> string py"
  oe_challenge :: "string \<Rightarrow> string"
  oe_post :: "(string \<times> pydict) list \<Rightarrow> string \<Rightarrow> pydict \<Rightarrow> http_response py"

type_synonym 'a oact = "(oauth_world, 'a) act"

definition runtime_error :: "string \<Rightarrow> exn" where
  "runtime_error m = OtherError ''RuntimeError'' m"

definition on_row :: "nat \<Rightarrow> (oauth_row \<Rightarrow> oauth_row) \<Rightarrow> unit oact" where
  "on_row i f = modify (\<lambda>w. w\<lparr>ow_rows := update_where (\<lambda>r. ot_id r = i) f (ow_rows w)\<rparr>)"

text \<open>\<^verbatim>\<open>vault._encrypt(v)\<close>; a value that is not a text has no \<^verbatim>\<open>encode\<close>.\<close>

definition encrypt_value :: "oauth_env \<Rightarrow> pyval \<Rightarrow> string oact" where
  "encrypt_value env v =
     (\<lambda>w. case as_str ''encode'' v of
            Inl e \<Rightarrow> Some (Inl e, w)
          | Inr s \<Rightarrow> Some (Inr (encrypt (oe_cipher env) (oe_nonce env (ow_nonces w)) s), w\<lparr>ow_nonces := Suc (ow_nonces w)\<rparr>))"

definition vault_put :: "oauth_env \<Rightarrow> string \<Rightarrow> string \<Rightarrow> string \<Rightarrow> pyval \<Rightarrow> string \<Rightarrow> unit oact" where
  "vault_put env tenant connector key v name =
     bnd (encrypt_value env v) (\<lambda>enc.
     modify (\<lambda>w. w\<lparr>ow_vault := put_encrypted (ow_vault w) (tenant, connector, name, key) enc\<rparr>))"

definition send_post :: "oauth_env \<Rightarrow> string \<Rightarrow> pydict \<Rightarrow> http_response oact" where
  "send_post env url body =
     (\<lambda>w. Some (oe_post env (ow_posts w) url body, w\<lparr>ow_posts := ow_posts w @ [(url, body)]\<rparr>))"

section \<open>Configuration\<close>

definition is_scalar :: "pyval \<Rightarrow> bool" where
  "is_scalar v = (case v of PStr _ \<Rightarrow> True | PInt _ \<Rightarrow> True | PFloat _ \<Rightarrow> True | PBool _ \<Rightarrow> True | _ \<Rightarrow> False)"

definition resolve_text :: "oauth_env \<Rightarrow> pydict \<Rightarrow> string \<Rightarrow> string py" where
  "resolve_text env ctx s =
     andThen (oe_fields env s) (\<lambda>flds.
     let named = filter (\<lambda>n. n \<noteq> []) flds; missing = filter (\<lambda>n. \<not> dhas ctx n) named in
     if named = [] then Inr s
     else if missing \<noteq> [] then Inl (ValueError (''Missing OAuth2 config values for: '' @ py_join '', '' (stable_sort str_lt missing)))
     else oe_format_map env s ctx)"

fun resolve_setting :: "oauth_env \<Rightarrow> pydict \<Rightarrow> pyval \<Rightarrow> pyval py" where
  "resolve_setting env ctx (PStr s) = andThen (resolve_text env ctx s) (\<lambda>t. Inr (PStr t))"
| "resolve_setting env ctx (PDict d) =
     andThen (mapM (\<lambda>(k, v). andThen (resolve_setting env ctx v) (\<lambda>x. Inr (k, x))) d) (\<lambda>e. Inr (PDict e))"
| "resolve_setting env ctx (PList xs) = andThen (mapM (resolve_setting env ctx) xs) (\<lambda>ys. Inr (PList ys))"
| "resolve_setting env ctx v = Inr v"

definition resolve_oauth2_config :: "oauth_env \<Rightarrow> pydict \<Rightarrow> pydict py" where
  "resolve_oauth2_config env config =
     (let ctx = filter (\<lambda>(k, v). is_scalar v) config in
      mapM (\<lambda>(k, v). andThen (resolve_setting env ctx v) (\<lambda>x. Inr (k, x))) config)"

definition dict_item :: "pydict \<Rightarrow> string \<Rightarrow> pyval py" where
  "dict_item d k = (case map_of d k of Some v \<Rightarrow> Inr v | None \<Rightarrow> Inl (KeyError (str_repr k)))"

text \<open>\<^verbatim>\<open>token_data[k]\<close> and \<^verbatim>\<open>token_data.get(k)\<close> of parsed JSON.\<close>

definition json_item :: "pyval \<Rightarrow> string \<Rightarrow> pyval py" where
  "json_item v k =
     (case v of
        PDict d \<Rightarrow> dict_item d k
      | PList _ \<Rightarrow> Inl (TypeError ''list indices must be integers or slices, not str'')
      | PStr _ \<Rightarrow> Inl (TypeError ''string indices must be integers'')
      | _ \<Rightarrow> Inl (TypeError (str_repr (type_name v) @ '' object is not subscriptable'')))"

section \<open>States\<close>

definition state_key :: "string \<Rightarrow> string" where
  "state_key st = ''oauth2:state:'' @ st"

definition pkce_key :: "string \<Rightarrow> string" where
  "pkce_key st = ''oauth2:pkce:'' @ st"

definition state_text :: "string \<Rightarrow> string \<Rightarrow> string \<Rightarrow> string \<Rightarrow> string" where
  "state_text tenant connector name random = tenant @ '':'' @ connector @ '':'' @ name @ '':'' @ random"

text \<open>\<^verbatim>\<open>urlencode\<close>: a space becomes a plus sign.\<close>

definition quote_plus :: "string \<Rightarrow> string" where
  "quote_plus s = List.concat (map (\<lambda>c. if c = CHR '' '' then ''+'' else quote_char c) s)"

definition urlencode :: "pyrt \<Rightarrow> pydict \<Rightarrow> string" where
  "urlencode rt params = py_join ''&'' (map (\<lambda>(k, v). quote_plus k @ ''='' @ quote_plus (py_str rt v)) params)"

definition join_scopes :: "pyval \<Rightarrow> string py" where
  "join_scopes scopes =
     andThen (py_iter scopes) (\<lambda>xs.
     andThen (mapM (\<lambda>x. case x of PStr s \<Rightarrow> Inr s | _ \<Rightarrow> Inl (TypeError ''sequence item: expected str instance'')) xs) (\<lambda>ss.
     Inr (py_join '' '' ss)))"

definition generate_authorization_url ::
  "oauth_env \<Rightarrow> rat \<Rightarrow> string \<Rightarrow> string \<Rightarrow> pydict \<Rightarrow> string \<Rightarrow> string \<Rightarrow> string \<Rightarrow> string \<Rightarrow> (string \<times> string) oact" where
  "generate_authorization_url env now random verifier config tenant connector callback name =
     bnd (liftE (resolve_oauth2_config env config)) (\<lambda>resolved.
     bnd (liftE (dict_item resolved ''authorization_url'')) (\<lambda>address.
     if \<not> oe_has_redis env then throw (runtime_error ''OAuth2 state storage requires Redis to be configured'')
     else
     let scopes = dget resolved ''scopes'' (PList []);
         st = state_text tenant connector name random;
         pkce = truthy (dget resolved ''pkce'' PNone);
         params = [(''response_type'', PStr ''code''), (''client_id'', dget resolved ''client_id'' (PStr [])),
                   (''redirect_uri'', PStr callback), (''state'', PStr st)] in
     bnd (liftE (if truthy scopes then andThen (join_scopes scopes) (\<lambda>s. Inr (params @ [(''scope'', PStr s)])) else Inr params)) (\<lambda>scoped.
     bnd (if pkce then modify (\<lambda>w. w\<lparr>ow_redis := text_set (ow_redis w) now (pkce_key st) verifier 600\<rparr>) else ret ()) (\<lambda>_.
     bnd (modify (\<lambda>w. w\<lparr>ow_redis := text_set (ow_redis w) now (state_key st) ''1'' 600\<rparr>)) (\<lambda>_.
     let all = (if pkce then scoped @ [(''code_challenge'', PStr (oe_challenge env verifier)), (''code_challenge_method'', PStr ''S256'')]
                else scoped) in
     ret (py_str (oe_rt env) address @ ''?'' @ urlencode (oe_rt env) all, st))))))"

definition validate_and_consume_state :: "oauth_env \<Rightarrow> rat \<Rightarrow> string \<Rightarrow> bool oact" where
  "validate_and_consume_state env now st =
     (if \<not> oe_has_redis env then throw (runtime_error ''OAuth2 state validation requires Redis to be configured'')
      else (\<lambda>w. case text_get (ow_redis w) now (state_key st) of
                  None \<Rightarrow> Some (Inr False, w)
                | Some v \<Rightarrow> if v = [] then Some (Inr False, w)
                    else Some (Inr True, w\<lparr>ow_redis := text_del (ow_redis w) (state_key st)\<rparr>)))"

definition retrieve_code_verifier :: "oauth_env \<Rightarrow> rat \<Rightarrow> string \<Rightarrow> string option oact" where
  "retrieve_code_verifier env now st =
     (if \<not> oe_has_redis env then ret None
      else (\<lambda>w. case text_get (ow_redis w) now (pkce_key st) of
                  None \<Rightarrow> Some (Inr None, w)
                | Some v \<Rightarrow> if v = [] then Some (Inr (Some v), w)
                    else Some (Inr (Some v), w\<lparr>ow_redis := text_del (ow_redis w) (pkce_key st)\<rparr>)))"

section \<open>Tokens\<close>

definition find_row :: "oauth_world \<Rightarrow> string \<Rightarrow> string \<Rightarrow> string \<Rightarrow> oauth_row option" where
  "find_row w tenant connector name =
     find (\<lambda>r. ot_tenant r = tenant \<and> ot_connector r = connector \<and> ot_name r = name) (rev (ow_rows w))"

text \<open>The time a token expires at, when the answer says so.\<close>

definition expiry_of :: "rat \<Rightarrow> pyval \<Rightarrow> rat option py" where
  "expiry_of now expires_in =
     (if truthy expires_in then andThen (py_int expires_in) (\<lambda>n. Inr (Some (now + of_int n))) else Inr None)"

definition store_tokens :: "oauth_env \<Rightarrow> string \<Rightarrow> string \<Rightarrow> string \<Rightarrow> pyval \<Rightarrow> pyval \<Rightarrow> unit oact" where
  "store_tokens env tenant connector name access refresh =
     bnd (vault_put env tenant connector ''access_token'' access name) (\<lambda>_.
     if truthy refresh then vault_put env tenant connector ''refresh_token'' refresh name else ret ())"

definition store_token :: "oauth_env \<Rightarrow> rat \<Rightarrow> string \<Rightarrow> string \<Rightarrow> string \<Rightarrow> string \<Rightarrow> pyval \<Rightarrow> nat oact" where
  "store_token env now tenant connector name provider token_data =
     bnd (liftE (json_item token_data ''access_token'')) (\<lambda>access.
     bnd (liftE (py_get token_data ''refresh_token'' PNone)) (\<lambda>refresh.
     bnd (liftE (py_get token_data ''expires_in'' PNone)) (\<lambda>expires_in.
     bnd (liftE (expiry_of now expires_in)) (\<lambda>expires_at.
     bnd (encrypt_value env access) (\<lambda>access_enc.
     bnd (if truthy refresh then bnd (encrypt_value env refresh) (\<lambda>x. ret (Some x)) else ret None) (\<lambda>refresh_enc.
     bnd (liftE (py_get token_data ''token_type'' (PStr ''bearer''))) (\<lambda>token_type.
     bnd (liftE (py_get token_data ''scope'' PNone)) (\<lambda>scope.
     bnd (gets ow_next) (\<lambda>i.
     bnd (modify (\<lambda>w. w\<lparr>ow_next := Suc i, ow_rows := ow_rows w @
       [\<lparr>ot_id = i, ot_tenant = tenant, ot_connector = connector, ot_name = name, ot_provider = provider,
         ot_access = access_enc, ot_refresh = refresh_enc, ot_type = token_type, ot_scope = scope,
         ot_expires = expires_at, ot_last_refreshed = None, ot_refresh_count = 0, ot_status = ''active'',
         ot_last_error = None\<rparr>]\<rparr>)) (\<lambda>_.
     bnd (store_tokens env tenant connector name access refresh) (\<lambda>_.
     ret i)))))))))))"

text \<open>The changes of the row are made one after another; an exception keeps those before it.\<close>

definition update_token :: "oauth_env \<Rightarrow> rat \<Rightarrow> oauth_row \<Rightarrow> pyval \<Rightarrow> unit oact" where
  "update_token env now row token_data =
     bnd (liftE (json_item token_data ''access_token'')) (\<lambda>access.
     bnd (liftE (py_get token_data ''refresh_token'' PNone)) (\<lambda>refresh.
     bnd (liftE (py_get token_data ''expires_in'' PNone)) (\<lambda>expires_in.
     bnd (encrypt_value env access) (\<lambda>access_enc.
     bnd (on_row (ot_id row) (\<lambda>r. r\<lparr>ot_access := access_enc\<rparr>)) (\<lambda>_.
     bnd (if truthy refresh
          then bnd (encrypt_value env refresh) (\<lambda>x. on_row (ot_id row) (\<lambda>r. r\<lparr>ot_refresh := Some x\<rparr>)) else ret ()) (\<lambda>_.
     bnd (liftE (expiry_of now expires_in)) (\<lambda>expires_at.
     bnd (on_row (ot_id row) (\<lambda>r. r\<lparr>ot_expires := if expires_at = None then ot_expires r else expires_at,
            ot_last_refreshed := Some now, ot_refresh_count := Suc (ot_refresh_count r),
            ot_status := ''active'', ot_last_error := None\<rparr>)) (\<lambda>_.
     store_tokens env (ot_tenant row) (ot_connector row) (ot_name row) access refresh))))))))"

definition client_body :: "pydict \<Rightarrow> pydict \<Rightarrow> pydict" where
  "client_body resolved body =
     (let secret = dget resolved ''client_secret'' (PStr []);
          with_id = body @ [(''client_id'', dget resolved ''client_id'' (PStr []))] in
      if truthy secret then with_id @ [(''client_secret'', secret)] else with_id)"

definition exchange_code ::
  "oauth_env \<Rightarrow> rat \<Rightarrow> pydict \<Rightarrow> string \<Rightarrow> string \<Rightarrow> string \<Rightarrow> string \<Rightarrow> string \<Rightarrow> string option \<Rightarrow> nat oact" where
  "exchange_code env now config tenant connector code callback name verifier =
     bnd (liftE (resolve_oauth2_config env config)) (\<lambda>resolved.
     bnd (liftE (dict_item resolved ''token_url'')) (\<lambda>url.
     let body = client_body resolved [(''grant_type'', PStr ''authorization_code''), (''code'', PStr code), (''redirect_uri'', PStr callback)];
         all = (case verifier of None \<Rightarrow> body | Some v \<Rightarrow> if v = [] then body else body @ [(''code_verifier'', PStr v)]) in
     bnd (send_post env (py_str (oe_rt env) url) all) (\<lambda>resp.
     if \<not> is_success resp then throw (OtherError ''HTTPStatusError'' (int_str (hr_status resp)))
     else bnd (liftE (response_json resp)) (\<lambda>token_data. store_token env now tenant connector name connector token_data))))"

definition mark_error :: "nat \<Rightarrow> string \<Rightarrow> unit oact" where
  "mark_error i m = on_row i (\<lambda>r. r\<lparr>ot_status := ''error'', ot_last_error := Some m\<rparr>)"

definition refresh_token :: "oauth_env \<Rightarrow> rat \<Rightarrow> oauth_row \<Rightarrow> pydict \<Rightarrow> unit oact" where
  "refresh_token env now row config =
     bnd (liftE (decrypt (oe_cipher env) (case ot_refresh row of None \<Rightarrow> [] | Some x \<Rightarrow> x))) (\<lambda>refresh.
     if refresh = []
     then bnd (mark_error (ot_id row) ''No refresh token available'') (\<lambda>_. throw (ValueError ''No refresh token available for refresh''))
     else
     bnd (liftE (resolve_oauth2_config env config)) (\<lambda>resolved.
     bnd (liftE (dict_item resolved ''token_url'')) (\<lambda>url.
     bnd (send_post env (py_str (oe_rt env) url)
            (client_body resolved [(''grant_type'', PStr ''refresh_token''), (''refresh_token'', PStr refresh)])) (\<lambda>resp.
     if 400 \<le> hr_status resp
     then bnd (mark_error (ot_id row) (''Refresh failed: HTTP '' @ int_str (hr_status resp))) (\<lambda>_.
          throw (OtherError ''HTTPStatusError'' (''Token refresh failed with '' @ int_str (hr_status resp))))
     else bnd (liftE (response_json resp)) (\<lambda>token_data. update_token env now row token_data)))))"

definition expired_at :: "rat \<Rightarrow> oauth_row \<Rightarrow> bool" where
  "expired_at now r = (case ot_expires r of None \<Rightarrow> False | Some e \<Rightarrow> e \<le> now)"

definition get_valid_access_token :: "oauth_env \<Rightarrow> rat \<Rightarrow> string \<Rightarrow> string \<Rightarrow> string \<Rightarrow> string option oact" where
  "get_valid_access_token env now tenant connector name =
     (\<lambda>w. case find_row w tenant connector name of
            None \<Rightarrow> Some (Inr None, w)
          | Some r \<Rightarrow>
              if ot_status r \<noteq> ''active'' \<or> expired_at now r then Some (Inr None, w)
              else bnd (liftE (decrypt (oe_cipher env) (ot_access r))) (\<lambda>t. ret (Some t)) w)"

text \<open>The row that was refreshed is read again, as the object in the session is the same.\<close>

definition read_access :: "oauth_env \<Rightarrow> nat \<Rightarrow> string oact" where
  "read_access env i =
     (\<lambda>w. case find (\<lambda>r. ot_id r = i) (ow_rows w) of
            None \<Rightarrow> Some (Inl (KeyError ''row''), w)
          | Some r \<Rightarrow> Some (decrypt (oe_cipher env) (ot_access r), w))"

definition mark_expired :: "nat \<Rightarrow> unit oact" where
  "mark_expired i = on_row i (\<lambda>r. r\<lparr>ot_status := ''expired''\<rparr>)"

definition get_or_refresh_access_token ::
  "oauth_env \<Rightarrow> rat \<Rightarrow> string \<Rightarrow> string \<Rightarrow> string \<Rightarrow> pydict option \<Rightarrow> string option oact" where
  "get_or_refresh_access_token env now tenant connector name config =
     (\<lambda>w. case find_row w tenant connector name of
            None \<Rightarrow> Some (Inr None, w)
          | Some r \<Rightarrow>
              if ot_status r \<noteq> ''active'' then Some (Inr None, w)
              else if \<not> expired_at now r then bnd (liftE (decrypt (oe_cipher env) (ot_access r))) (\<lambda>t. ret (Some t)) w
              else
                (case (config, ot_refresh r) of
                   (Some cfg, Some x) \<Rightarrow>
                     if cfg = [] \<or> x = [] then bnd (mark_expired (ot_id r)) (\<lambda>_. ret None) w
                     else catch (bnd (refresh_token env now r cfg) (\<lambda>_. bnd (read_access env (ot_id r)) (\<lambda>t. ret (Some t))))
                            (\<lambda>_. bnd (mark_expired (ot_id r)) (\<lambda>_. ret None)) w
                 | _ \<Rightarrow> bnd (mark_expired (ot_id r)) (\<lambda>_. ret None) w))"

definition due_by :: "rat \<Rightarrow> oauth_row \<Rightarrow> bool" where
  "due_by cutoff r \<longleftrightarrow> ot_status r = ''active'' \<and> expired_at cutoff r \<and> ot_refresh r \<noteq> None"

definition get_tokens_expiring_soon :: "oauth_world \<Rightarrow> rat \<Rightarrow> int \<Rightarrow> oauth_row list" where
  "get_tokens_expiring_soon w now within_seconds = filter (due_by (now + of_int within_seconds)) (ow_rows w)"

record token_report =
  tr_status :: string
  tr_provider :: string
  tr_scope :: pyval
  tr_expires_in :: "int option"
  tr_last_refreshed :: "rat option"
  tr_refresh_count :: nat
  tr_last_error :: "string option"

definition get_token_status :: "oauth_world \<Rightarrow> rat \<Rightarrow> string \<Rightarrow> string \<Rightarrow> string \<Rightarrow> token_report option" where
  "get_token_status w now tenant connector name =
     map_option (\<lambda>r.
       \<lparr>tr_status = ot_status r, tr_provider = ot_provider r, tr_scope = ot_scope r,
        tr_expires_in = map_option (\<lambda>e. max 0 (trunc_rat (e - now))) (ot_expires r),
        tr_last_refreshed = ot_last_refreshed r, tr_refresh_count = ot_refresh_count r, tr_last_error = ot_last_error r\<rparr>)
       (find_row w tenant connector name)"

definition revoke_token :: "string \<Rightarrow> string \<Rightarrow> string \<Rightarrow> bool oact" where
  "revoke_token tenant connector name =
     (\<lambda>w. case find_row w tenant connector name of
            None \<Rightarrow> Some (Inr False, w)
          | Some r \<Rightarrow> bnd (on_row (ot_id r) (\<lambda>r. r\<lparr>ot_status := ''revoked''\<rparr>)) (\<lambda>_. ret True) w)"

section \<open>The refresher\<close>

text \<open>\<^verbatim>\<open>core/oauth2_refresher.py\<close>.  A positive integer, a flag counting as one.\<close>

definition positive_int :: "pyval \<Rightarrow> int option" where
  "positive_int v =
     (case v of PInt i \<Rightarrow> if 0 < i then Some i else None | PBool b \<Rightarrow> if b then Some 1 else None | _ \<Rightarrow> None)"

record refresher =
  rf_registry :: registry
  rf_has_vault :: bool
  rf_window :: int

definition first_oauth2_config :: "registry \<Rightarrow> string \<Rightarrow> pyval option" where
  "first_oauth2_config reg connector =
     (case get_by_name reg connector of
        [] \<Rightarrow> None
      | m # _ \<Rightarrow>
          (let cfg = (if cm_oauth2 m \<noteq> [] then PDict (cm_oauth2 m) else dget (cm_credential_validation m) ''oauth2'' (PDict [])) in
           if truthy cfg then Some cfg else None))"

definition refresh_window :: "refresher \<Rightarrow> string \<Rightarrow> int py" where
  "refresh_window rf connector =
     (case first_oauth2_config (rf_registry rf) connector of
        None \<Rightarrow> Inr (rf_window rf)
      | Some cfg \<Rightarrow>
          andThen (py_get cfg ''refresh_before_expiry_seconds'' PNone) (\<lambda>v.
          Inr (case positive_int v of Some i \<Rightarrow> i | None \<Rightarrow> rf_window rf)))"

definition max_window :: "refresher \<Rightarrow> int" where
  "max_window rf =
     foldl (\<lambda>w m. case positive_int (dget (cm_oauth2 m) ''refresh_before_expiry_seconds'' PNone) of None \<Rightarrow> w | Some i \<Rightarrow> max w i)
       (rf_window rf) (get_all (rf_registry rf))"

definition due_tokens :: "refresher \<Rightarrow> rat \<Rightarrow> oauth_world \<Rightarrow> oauth_row list py" where
  "due_tokens rf now w =
     filterM (\<lambda>r. case ot_expires r of
                    None \<Rightarrow> Inr False
                  | Some e \<Rightarrow> andThen (refresh_window rf (ot_connector r)) (\<lambda>n. Inr (e \<le> now + of_int n)))
       (get_tokens_expiring_soon w now (max_window rf))"

definition with_client :: "oauth_env \<Rightarrow> refresher \<Rightarrow> oauth_row \<Rightarrow> pydict \<Rightarrow> oauth_world \<Rightarrow> pydict" where
  "with_client env rf row config w =
     (if \<not> rf_has_vault rf then config
      else case retrieve_all (oe_cipher env) (ow_vault w) (ot_tenant row) (ot_connector row) (ot_name row) of
             Inl _ \<Rightarrow> config
           | Inr creds \<Rightarrow> copy_key ''client_secret'' creds (copy_key ''client_id'' creds config))"

definition refresh_due :: "oauth_env \<Rightarrow> refresher \<Rightarrow> rat \<Rightarrow> oauth_row \<Rightarrow> unit oact" where
  "refresh_due env rf now row =
     (case first_oauth2_config (rf_registry rf) (ot_connector row) of
        None \<Rightarrow> ret ()
      | Some cfg \<Rightarrow>
          bnd (liftE (py_dict cfg)) (\<lambda>config.
          bnd (gets (with_client env rf row config)) (\<lambda>merged.
          catch (refresh_token env now row merged) (\<lambda>_. ret ()))))"

definition refresh_expiring_tokens :: "oauth_env \<Rightarrow> refresher \<Rightarrow> rat \<Rightarrow> unit oact" where
  "refresh_expiring_tokens env rf now =
     bnd (\<lambda>w. Some (due_tokens rf now w, w)) (\<lambda>rows. for_each (refresh_due env rf now) rows)"

text \<open>A session that is left by an exception is rolled back; Redis and the provider keep what they have.\<close>

definition transaction :: "'a oact \<Rightarrow> 'a oact" where
  "transaction m = (\<lambda>w. case m w of
      Some (Inl e, t) \<Rightarrow> Some (Inl e, t\<lparr>ow_rows := ow_rows w, ow_vault := ow_vault w\<rparr>)
    | r \<Rightarrow> r)"

text \<open>A pass of the loop; an exception is logged.\<close>

definition refresher_pass :: "oauth_env \<Rightarrow> refresher \<Rightarrow> rat \<Rightarrow> unit oact" where
  "refresher_pass env rf now = catch (transaction (refresh_expiring_tokens env rf now)) (\<lambda>_. ret ())"

end
