(* ===== verification/SdkServer.thy ===== *)
theory SdkServer
  imports SdkHttp WebhookIngestion OAuth2Manager ActionDispatcher
begin

text \<open>
  The server side of the connector SDK (\<^verbatim>\<open>sdk/python/pinquark_connector_sdk\<close>): accounts (\<^verbatim>\<open>accounts.py\<close>), OAuth2 tokens
  (\<^verbatim>\<open>auth.py\<close>), health (\<^verbatim>\<open>health.py\<close>), and the rate limits, webhooks and actions of \<^verbatim>\<open>app.py\<close>.  HMAC, the
  parsing and rendering of JSON, the token endpoint of the provider and the methods of a connector are arguments; the
  functions that load and save tokens do not raise.
\<close>

section \<open>Accounts\<close>

type_synonym accounts = "(string \<times> pydict) list"

record account_body =
  ab_credentials :: pydict
  ab_extra :: pydict

definition resolved_credentials :: "account_body \<Rightarrow> pydict" where
  "resolved_credentials b = (if ab_credentials b \<noteq> [] then ab_credentials b else ab_extra b)"

record account_view =
  av_name :: string
  av_keys :: "string list"

definition account_view_of :: "string \<Rightarrow> pydict \<Rightarrow> account_view" where
  "account_view_of name creds = \<lparr>av_name = name, av_keys = map fst creds\<rparr>"

definition account_missing :: "string \<Rightarrow> exn" where
  "account_missing name = HTTPException 404 (''Account '' @ [single_quote] @ name @ [single_quote] @ '' not found'')"

definition list_accounts :: "accounts \<Rightarrow> account_view list" where
  "list_accounts s = map (\<lambda>(name, creds). account_view_of name creds) s"

definition create_account :: "accounts \<Rightarrow> string \<Rightarrow> account_body \<Rightarrow> (account_view \<times> accounts) py" where
  "create_account s name b =
     (if map_of s name \<noteq> None
      then Inl (HTTPException 409 (''Account '' @ [single_quote] @ name @ [single_quote] @ '' already exists''))
      else Inr (account_view_of name (resolved_credentials b), dset s name (resolved_credentials b)))"

definition get_account :: "accounts \<Rightarrow> string \<Rightarrow> account_view py" where
  "get_account s name = (case map_of s name of None \<Rightarrow> Inl (account_missing name) | Some creds \<Rightarrow> Inr (account_view_of name creds))"

definition update_account :: "accounts \<Rightarrow> string \<Rightarrow> account_body \<Rightarrow> (account_view \<times> accounts) py" where
  "update_account s name b =
     (if map_of s name = None then Inl (account_missing name)
      else Inr (account_view_of name (resolved_credentials b), dset s name (resolved_credentials b)))"

definition delete_account :: "accounts \<Rightarrow> string \<Rightarrow> accounts" where
  "delete_account s name = dpop s name"

definition auth_status :: "accounts \<Rightarrow> string \<Rightarrow> bool \<times> string" where
  "auth_status s account = (if map_of s account = None then (False, ''Account not found'') else (True, ''Credentials stored''))"

datatype connection_check = Connected bool | NotImplemented | CheckFailed string

definition connection_status :: "accounts \<Rightarrow> string \<Rightarrow> connection_check \<Rightarrow> bool \<times> string" where
  "connection_status s account check =
     (if map_of s account = None then (False, ''Account not found'')
      else case check of
        Connected True \<Rightarrow> (True, ''Connection OK'')
      | Connected False \<Rightarrow> (False, ''Connection failed'')
      | NotImplemented \<Rightarrow> (True, ''test_connection not implemented, assuming connected'')
      | CheckFailed e \<Rightarrow> (False, ''Connection check failed: '' @ e))"

section \<open>OAuth2 tokens\<close>

record sdk_token =
  tk_access :: string
  tk_refresh :: "string option"
  tk_type :: string
  tk_expires :: "pyfloat option"
  tk_scope :: "string option"
  tk_raw :: pydict

record sdk_oauth =
  so_client_id :: string
  so_client_secret :: string
  so_redirect_uri :: string
  so_authorize_url :: string
  so_scopes :: "string list"
  so_load :: "string \<Rightarrow> sdk_token option"
  so_post :: "pydict list \<Rightarrow> pydict \<Rightarrow> pydict py"

record sdk_oauth_state =
  ox_tokens :: "(string \<times> sdk_token) list"
  ox_sent :: "pydict list"
  ox_saved :: "(string \<times> sdk_token) list"

definition text_field :: "pyval \<Rightarrow> string py" where
  "text_field v = (case v of PStr s \<Rightarrow> Inr s | _ \<Rightarrow> Inl (ValueError ''Input should be a valid string''))"

definition optional_text :: "pyval \<Rightarrow> string option py" where
  "optional_text v = (case v of PNone \<Rightarrow> Inr None | _ \<Rightarrow> andThen (text_field v) (\<lambda>s. Inr (Some s)))"

definition parse_token_response :: "pyrt \<Rightarrow> rat \<Rightarrow> pydict \<Rightarrow> sdk_token py" where
  "parse_token_response rt now data =
     andThen (case map_of data ''expires_in'' of
                Some v \<Rightarrow> andThen (py_int v) (\<lambda>n. Inr (Some (Fin (now + of_int n))))
              | None \<Rightarrow> (case map_of data ''expires_at'' of
                           Some v \<Rightarrow> andThen (py_float rt v) (\<lambda>x. Inr (Some x))
                         | None \<Rightarrow> Inr None)) (\<lambda>expires.
     andThen (dict_item data ''access_token'') (\<lambda>a.
     andThen (text_field a) (\<lambda>access.
     andThen (optional_text (dget data ''refresh_token'' PNone)) (\<lambda>refresh.
     andThen (text_field (dget data ''token_type'' (PStr ''Bearer''))) (\<lambda>type.
     andThen (optional_text (dget data ''scope'' PNone)) (\<lambda>scope.
     Inr \<lparr>tk_access = access, tk_refresh = refresh, tk_type = type, tk_expires = expires, tk_scope = scope, tk_raw = data\<rparr>))))))"

definition store_sdk_token :: "string \<Rightarrow> sdk_token \<Rightarrow> sdk_oauth_state \<Rightarrow> sdk_oauth_state" where
  "store_sdk_token account t s = s\<lparr>ox_tokens := dset (ox_tokens s) account t, ox_saved := ox_saved s @ [(account, t)]\<rparr>"

definition post_form :: "sdk_oauth \<Rightarrow> pydict \<Rightarrow> sdk_oauth_state \<Rightarrow> pydict py \<times> sdk_oauth_state" where
  "post_form o2 form s = (so_post o2 (ox_sent s) form, s\<lparr>ox_sent := ox_sent s @ [form]\<rparr>)"

definition exchange_sdk_code :: "sdk_oauth \<Rightarrow> pyrt \<Rightarrow> rat \<Rightarrow> string \<Rightarrow> string \<Rightarrow> sdk_oauth_state \<Rightarrow> sdk_token py \<times> sdk_oauth_state" where
  "exchange_sdk_code o2 rt now code account s =
     (case post_form o2 [(''grant_type'', PStr ''authorization_code''), (''code'', PStr code), (''redirect_uri'', PStr (so_redirect_uri o2)),
                         (''client_id'', PStr (so_client_id o2)), (''client_secret'', PStr (so_client_secret o2))] s of
        (r, s1) \<Rightarrow>
          (case andThen r (parse_token_response rt now) of
             Inl e \<Rightarrow> (Inl e, s1)
           | Inr t \<Rightarrow> (Inr t, store_sdk_token account t s1)))"

definition get_sdk_token :: "sdk_oauth \<Rightarrow> string \<Rightarrow> sdk_oauth_state \<Rightarrow> sdk_token option \<times> sdk_oauth_state" where
  "get_sdk_token o2 account s =
     (case map_of (ox_tokens s) account of
        Some t \<Rightarrow> (Some t, s)
      | None \<Rightarrow>
          (case so_load o2 account of
             Some t \<Rightarrow> (Some t, s\<lparr>ox_tokens := dset (ox_tokens s) account t\<rparr>)
           | None \<Rightarrow> (None, s)))"

definition no_token_error :: "string \<Rightarrow> string \<Rightarrow> exn" where
  "no_token_error what account = ValueError (what @ '' for account '' @ [single_quote] @ account @ [single_quote])"

definition refresh_sdk_token :: "sdk_oauth \<Rightarrow> pyrt \<Rightarrow> rat \<Rightarrow> string \<Rightarrow> sdk_oauth_state \<Rightarrow> sdk_token py \<times> sdk_oauth_state" where
  "refresh_sdk_token o2 rt now account s =
     (case get_sdk_token o2 account s of
        (current, s1) \<Rightarrow>
          (case Option.bind current tk_refresh of
             None \<Rightarrow> (Inl (no_token_error ''No refresh token available'' account), s1)
           | Some refresh \<Rightarrow>
               (case post_form o2 [(''grant_type'', PStr ''refresh_token''), (''refresh_token'', PStr refresh),
                                   (''client_id'', PStr (so_client_id o2)), (''client_secret'', PStr (so_client_secret o2))] s1 of
                  (r, s2) \<Rightarrow>
                    (case andThen r (parse_token_response rt now) of
                       Inl e \<Rightarrow> (Inl e, s2)
                     | Inr t \<Rightarrow>
                         let t' = (if tk_refresh t = None then t\<lparr>tk_refresh := Some refresh\<rparr> else t) in
                         (Inr t', store_sdk_token account t' s2)))))"

text \<open>\<^verbatim>\<open>time.time() >= token.expires_at - 60\<close>.  The answer of the provider is read later, at the time \<open>answered\<close>.\<close>

definition expires_soon :: "rat \<Rightarrow> sdk_token \<Rightarrow> bool" where
  "expires_soon now t =
     (case tk_expires t of Some (Fin x) \<Rightarrow> x - 60 \<le> now | Some NegInf \<Rightarrow> True | _ \<Rightarrow> False)"

definition get_valid_sdk_token :: "sdk_oauth \<Rightarrow> pyrt \<Rightarrow> rat \<Rightarrow> rat \<Rightarrow> string \<Rightarrow> sdk_oauth_state \<Rightarrow> string py \<times> sdk_oauth_state" where
  "get_valid_sdk_token o2 rt now answered account s =
     (case get_sdk_token o2 account s of
        (None, s1) \<Rightarrow> (Inl (no_token_error ''No token stored'' account), s1)
      | (Some t, s1) \<Rightarrow>
          if expires_soon now t
          then (case refresh_sdk_token o2 rt answered account s1 of (r, s2) \<Rightarrow> (andThen r (\<lambda>t'. Inr (tk_access t')), s2))
          else (Inr (tk_access t), s1))"

definition authorization_url :: "sdk_oauth \<Rightarrow> pyrt \<Rightarrow> string option \<Rightarrow> string" where
  "authorization_url o2 rt st =
     so_authorize_url o2 @ ''?'' @ urlencode rt
       ([(''client_id'', PStr (so_client_id o2)), (''redirect_uri'', PStr (so_redirect_uri o2)), (''response_type'', PStr ''code'')]
        @ (if so_scopes o2 \<noteq> [] then [(''scope'', PStr (py_join '' '' (so_scopes o2)))] else [])
        @ (case st of Some (c # cs) \<Rightarrow> [(''state'', PStr (c # cs))] | _ \<Rightarrow> []))"

definition account_of :: "pyrt \<Rightarrow> pydict \<Rightarrow> string" where
  "account_of rt payload =
     (let a = py_strip (py_str rt (dget payload ''account'' (PStr ''default''))) in if a = [] then ''default'' else a)"

text \<open>\<^verbatim>\<open>None\<close> is the answer that the code is missing.\<close>

definition sdk_oauth2_callback :: "sdk_oauth \<Rightarrow> pyrt \<Rightarrow> rat \<Rightarrow> pydict \<Rightarrow> sdk_oauth_state \<Rightarrow> sdk_token option py \<times> sdk_oauth_state" where
  "sdk_oauth2_callback o2 rt now payload s =
     (let code = py_strip (py_str rt (dget payload ''code'' (PStr []))) in
      if code = [] then (Inr None, s)
      else case exchange_sdk_code o2 rt now code (account_of rt payload) s of (r, s1) \<Rightarrow> (andThen r (\<lambda>t. Inr (Some t)), s1))"

definition sdk_oauth2_refresh :: "sdk_oauth \<Rightarrow> pyrt \<Rightarrow> rat \<Rightarrow> pydict \<Rightarrow> sdk_oauth_state \<Rightarrow> sdk_token py \<times> sdk_oauth_state" where
  "sdk_oauth2_refresh o2 rt now payload s = refresh_sdk_token o2 rt now (account_of rt payload) s"

section \<open>Rate limits\<close>

record sdk_bucket =
  sb_rate :: rat
  sb_burst :: int
  sb_tokens :: rat
  sb_last :: rat

definition new_bucket :: "rat \<Rightarrow> int \<Rightarrow> rat \<Rightarrow> sdk_bucket" where
  "new_bucket rate burst now = \<lparr>sb_rate = rate, sb_burst = burst, sb_tokens = of_int burst, sb_last = now\<rparr>"

definition bucket_allow :: "rat \<Rightarrow> sdk_bucket \<Rightarrow> bool \<times> sdk_bucket" where
  "bucket_allow now b =
     (let tokens = min (of_int (sb_burst b)) (sb_tokens b + (now - sb_last b) * sb_rate b);
          b' = b\<lparr>sb_last := now\<rparr> in
      if 1 \<le> tokens then (True, b'\<lparr>sb_tokens := tokens - 1\<rparr>) else (False, b'\<lparr>sb_tokens := tokens\<rparr>))"

definition rate_divisors :: "(string \<times> rat) list" where
  "rate_divisors =
     [(''s'', 1), (''sec'', 1), (''second'', 1), (''seconds'', 1), (''m'', 60), (''min'', 60), (''minute'', 60), (''minutes'', 60),
      (''h'', 3600), (''hr'', 3600), (''hour'', 3600), (''hours'', 3600)]"

definition parse_rate_spec :: "string \<Rightarrow> (rat \<times> int) py" where
  "parse_rate_spec spec =
     (case py_split ''/'' (py_strip spec) of
        [a, b] \<Rightarrow>
          andThen (py_int (PStr (py_strip a))) (\<lambda>count.
          Inr (of_int count / dget rate_divisors (py_lower (py_strip b)) 60, count))
      | _ \<Rightarrow> Inr (10, 10))"

definition add_bucket :: "rat \<Rightarrow> string \<Rightarrow> string \<Rightarrow> (string \<times> sdk_bucket) list \<Rightarrow> (string \<times> sdk_bucket) list py" where
  "add_bucket now key spec bs = andThen (parse_rate_spec spec) (\<lambda>(rate, burst). Inr (dset bs key (new_bucket rate burst now)))"

definition rate_buckets :: "rat \<Rightarrow> (string \<times> string) list \<Rightarrow> (string \<times> sdk_bucket) list py" where
  "rate_buckets now limits =
     andThen (case map_of limits ''default'' of None \<Rightarrow> Inr [] | Some spec \<Rightarrow> add_bucket now ''__default__'' spec []) (\<lambda>bs.
     foldM (\<lambda>bs (key, spec). if key = ''default'' then Inr bs else add_bucket now key spec bs) bs limits)"

definition action_key :: "string \<Rightarrow> string option" where
  "action_key path = (case py_split1 ''/actions/'' path of [_, rest] \<Rightarrow> Some (py_replace ''/'' ''.'' rest) | _ \<Rightarrow> None)"

text \<open>Whether a request passes, and the buckets after it.\<close>

definition rate_limit_middleware :: "rat \<Rightarrow> string \<Rightarrow> (string \<times> sdk_bucket) list \<Rightarrow> bool \<times> (string \<times> sdk_bucket) list" where
  "rate_limit_middleware now path bs =
     (case action_key path of
        None \<Rightarrow> (True, bs)
      | Some k \<Rightarrow>
          let k' = (if dhas bs k then k else ''__default__'') in
          (case map_of bs k' of
             None \<Rightarrow> (True, bs)
           | Some b \<Rightarrow> (case bucket_allow now b of (ok, b') \<Rightarrow> (ok, dset bs k' b'))))"

section \<open>Webhooks\<close>

record webhook_meta =
  wm_topic :: "string option"
  wm_signature_header :: "string option"
  wm_signature_algorithm :: string

record sdk_environment =
  se_env :: "string \<Rightarrow> string option"
  se_hmac :: "string \<Rightarrow> string \<Rightarrow> string \<Rightarrow> string"
  se_loads :: "string \<Rightarrow> pyval option"
  se_render :: "pyval \<Rightarrow> pyval py"

definition secret_variable :: "string \<Rightarrow> string" where
  "secret_variable name = ''WEBHOOK_SECRET_'' @ py_replace ''-'' ''_'' (py_replace ''.'' ''_'' (py_upper name))"

definition account_secret :: "pydict \<Rightarrow> pyval" where
  "account_secret acc = (let s = dget acc ''webhook_secret'' PNone in if truthy s then s else dget acc ''signing_secret'' PNone)"

text \<open>The first account that has a secret.\<close>

definition get_webhook_secret :: "sdk_environment \<Rightarrow> accounts \<Rightarrow> string \<Rightarrow> pyval option" where
  "get_webhook_secret se s name =
     (case se_env se (secret_variable name) of
        Some (c # cs) \<Rightarrow> Some (PStr (c # cs))
      | _ \<Rightarrow> find truthy (map (\<lambda>(_, acc). account_secret acc) s))"

definition verify_webhook_signature ::
  "sdk_environment \<Rightarrow> accounts \<Rightarrow> string \<Rightarrow> (string \<times> string) list \<Rightarrow> webhook_meta \<Rightarrow> string \<Rightarrow> bool py" where
  "verify_webhook_signature se s body headers meta name =
     (case wm_signature_header meta of
        None \<Rightarrow> Inr True
      | Some header \<Rightarrow>
          if header = [] then Inr True
          else let provided = dget (dmerge [] (map (\<lambda>(k, v). (py_lower k, v)) headers)) (py_lower header) [] in
            if provided = [] then Inr False
            else case get_webhook_secret se s name of
              None \<Rightarrow> Inr False
            | Some (PStr secret) \<Rightarrow>
                compare_digest (se_hmac se (dget hmac_algorithms (wm_signature_algorithm meta) ''sha256'') secret body) (clean_signature provided)
            | Some v \<Rightarrow> Inl (attr_error v ''encode''))"

datatype webhook_answer = Acknowledged pyval | BadSignature | BadJson | WebhookFailed string

text \<open>The payload the method was called with, if it was, and the answer.\<close>

definition webhook_handler ::
  "sdk_environment \<Rightarrow> accounts \<Rightarrow> (pyval \<Rightarrow> pyval py) \<Rightarrow> string \<Rightarrow> (string \<times> string) list \<Rightarrow> webhook_meta \<Rightarrow> string
    \<Rightarrow> pyval option \<times> webhook_answer py" where
  "webhook_handler se s method body headers meta name =
     (case verify_webhook_signature se s body headers meta name of
        Inl e \<Rightarrow> (None, Inl e)
      | Inr False \<Rightarrow> (None, Inr BadSignature)
      | Inr True \<Rightarrow>
          (case se_loads se body of
             None \<Rightarrow> (None, Inr BadJson)
           | Some payload \<Rightarrow>
               (Some payload,
                Inr (case andThen (method payload) (\<lambda>v. se_render se (PDict [(''acknowledged'', PBool True), (''data'', v)])) of
                       Inr v \<Rightarrow> Acknowledged v
                     | Inl e \<Rightarrow> WebhookFailed (exn_str e)))))"

section \<open>Actions\<close>

text \<open>What a method returns: a response, a pair, or any other value.\<close>

datatype action_result = ActResponse int pyval | ActPair pyval pyval | ActValue pyval

text \<open>For Python a truth value is an integer.\<close>

definition is_int :: "pyval \<Rightarrow> int option" where
  "is_int v = (case v of PInt i \<Rightarrow> Some i | PBool b \<Rightarrow> Some (if b then 1 else 0) | _ \<Rightarrow> None)"

text \<open>A dictionary may say its status itself; a pair whose second part is no integer is sent as an array.\<close>

definition build_action_response :: "sdk_environment \<Rightarrow> action_result \<Rightarrow> (int \<times> pyval) py" where
  "build_action_response se result =
     (case result of
        ActResponse code v \<Rightarrow> Inr (code, v)
      | ActPair v w \<Rightarrow>
          (case is_int w of
             Some code \<Rightarrow> andThen (se_render se v) (\<lambda>r. Inr (code, r))
           | None \<Rightarrow> andThen (se_render se (PList [v, w])) (\<lambda>r. Inr (200, r)))
      | ActValue v \<Rightarrow>
          let code = (case v of PDict d \<Rightarrow> Option.bind (map_of d ''status_code'') is_int | _ \<Rightarrow> None) in
          andThen (se_render se v) (\<lambda>r. Inr (case code of None \<Rightarrow> 200 | Some c \<Rightarrow> c, r)))"

definition action_handler :: "sdk_environment \<Rightarrow> (pyval \<Rightarrow> action_result py) \<Rightarrow> string \<Rightarrow> (int \<times> pyval) py" where
  "action_handler se method body =
     (case se_loads se body of
        None \<Rightarrow> Inl json_decode_error
      | Some payload \<Rightarrow>
          (case andThen (method payload) (build_action_response se) of
             Inr r \<Rightarrow> Inr r
           | Inl e \<Rightarrow> Inr (500, PDict [(''error'', PStr (exn_str e))])))"

definition action_path :: "string \<Rightarrow> string" where
  "action_path name = ''/actions/'' @ py_replace ''.'' ''/'' name"

section \<open>Health\<close>

definition upstream_text :: "bool py \<Rightarrow> string" where
  "upstream_text r = (case r of Inr True \<Rightarrow> ''ok'' | Inr False \<Rightarrow> ''unreachable'' | Inl e \<Rightarrow> ''error: '' @ exn_str e)"

text \<open>\<open>test\<close> is the result of \<^verbatim>\<open>test_connection\<close>, when the connector has one of its own.\<close>

definition liveness :: "bool py option \<Rightarrow> string \<times> (string \<times> string) list" where
  "liveness test =
     (case test of
        None \<Rightarrow> (''healthy'', [])
      | Some r \<Rightarrow> (if r = Inr True then ''healthy'' else ''degraded'', [(''upstream_api'', upstream_text r)]))"

definition readiness :: "bool py option \<Rightarrow> (string \<times> unit py) list \<Rightarrow> string \<times> (string \<times> string) list" where
  "readiness test checks =
     (let upstream = (case test of Some r \<Rightarrow> if dhas checks ''upstream_api'' then [] else [(''upstream_api'', r)] | None \<Rightarrow> []);
          results = foldl (\<lambda>d (name, r). dset d name (case r of Inr _ \<Rightarrow> ''ok'' | Inl e \<Rightarrow> ''error: '' @ exn_str e))
                      (map (\<lambda>(k, r). (k, upstream_text r)) upstream) checks;
          all_ok = list_all (\<lambda>(k, r). r = Inr True) upstream \<and> list_all (\<lambda>(k, r). \<exists>u. r = Inr u) checks in
      (if all_ok then ''ready'' else ''not_ready'', results))"

end
