(* ===== verification/SdkApp.thy ===== *)
theory SdkApp
  imports SdkServer
begin

text \<open>
  A connector of the SDK as a whole (\<^verbatim>\<open>app.py\<close>, \<^verbatim>\<open>decorators.py\<close>): what its decorated methods declare, the fields of its
  schemas, the manifest it generates for the platform, the loop that polls a trigger, and the bridge to older connectors (\<^verbatim>\<open>legacy.py\<close>).
\<close>

section \<open>Declarations\<close>

text \<open>A schema that is a pydantic class stands for the JSON schema of that class, no schema for \<^verbatim>\<open>None\<close>.\<close>

record action_meta =
  am_input :: pyval
  am_output :: pyval
  am_dynamic :: bool

record sdk_app =
  sa_name :: string
  sa_category :: string
  sa_version :: string
  sa_display_name :: string
  sa_description :: string
  sa_actions :: "(string \<times> action_meta) list"
  sa_triggers :: "(string \<times> int) list"
  sa_webhooks :: "(string \<times> webhook_meta) list"
  sa_required :: "string list"
  sa_rate_limits :: "(string \<times> string) list"
  sa_oauth2 :: pydict

datatype method_meta = ActionMethod action_meta | TriggerMethod int | WebhookMethod webhook_meta

text \<open>The methods in the order of their attribute names; \<open>None\<close> is a method without a decorator.  A later declaration of the
  same name replaces an earlier one.\<close>

definition declare_method :: "sdk_app \<Rightarrow> string \<times> (string \<times> method_meta) option \<Rightarrow> sdk_app" where
  "declare_method app m =
     (case m of (attr, meta) \<Rightarrow>
        if starts_with attr ''_'' then app
        else case meta of
          None \<Rightarrow> app
        | Some (name, ActionMethod a) \<Rightarrow> app\<lparr>sa_actions := dset (sa_actions app) name a\<rparr>
        | Some (name, TriggerMethod t) \<Rightarrow> app\<lparr>sa_triggers := dset (sa_triggers app) name t\<rparr>
        | Some (name, WebhookMethod w) \<Rightarrow> app\<lparr>sa_webhooks := dset (sa_webhooks app) name w\<rparr>)"

definition discover_decorated_methods :: "(string \<times> (string \<times> method_meta) option) list \<Rightarrow> sdk_app \<Rightarrow> sdk_app" where
  "discover_decorated_methods methods app = foldl declare_method (app\<lparr>sa_actions := [], sa_triggers := [], sa_webhooks := []\<rparr>) methods"

section \<open>Schemas\<close>

definition required_names :: "pydict \<Rightarrow> pyval list py" where
  "required_names schema =
     andThen (py_iter (dget schema ''required'' (PList []))) (\<lambda>xs.
     case find (\<lambda>x. \<not> hashable x) xs of None \<Rightarrow> Inr xs | Some x \<Rightarrow> Inl (unhashable_error x))"

definition field_entry :: "pyval \<Rightarrow> pyval \<Rightarrow> pyval \<Rightarrow> bool \<Rightarrow> pyval \<Rightarrow> pyval" where
  "field_entry name label ty required description =
     PDict [(''field'', name), (''label'', label), (''type'', ty), (''required'', PBool required), (''description'', description)]"

definition property_type :: "pydict \<Rightarrow> pyval py" where
  "property_type fs =
     (let t = dget fs ''type'' PNone; any_of = dget fs ''anyOf'' PNone in
      andThen (if \<not> truthy t \<and> truthy any_of
               then (case any_of of PList (x # _) \<Rightarrow> py_get x ''type'' (PStr ''string'') | _ \<Rightarrow> Inr t)
               else Inr t) (\<lambda>t'.
      Inr (if truthy t' then t' else PStr ''string'')))"

definition property_field :: "pyval list \<Rightarrow> string \<times> pyval \<Rightarrow> pyval list py" where
  "property_field required kv =
     (case kv of
        (name, PDict fs) \<Rightarrow>
          andThen (property_type fs) (\<lambda>t.
          Inr [field_entry (PStr name) (dget fs ''title'' (PStr name)) t (PStr name \<in> set required) (dget fs ''description'' PNone)])
      | _ \<Rightarrow> Inr [])"

definition listed_field :: "pyval \<Rightarrow> pyval list" where
  "listed_field item =
     (case item of
        PDict d \<Rightarrow>
          (if truthy (dget d ''field'' PNone)
           then [field_entry (dget d ''field'' PNone) (dget d ''label'' (dget d ''field'' PNone)) (dget d ''type'' (PStr ''string''))
                   (truthy (dget d ''required'' (PBool False))) (dget d ''description'' PNone)]
           else [])
      | _ \<Rightarrow> [])"

definition is_text :: "pyval \<Rightarrow> bool" where
  "is_text v = (case v of PStr _ \<Rightarrow> True | _ \<Rightarrow> False)"

definition schema_to_fields :: "pyval \<Rightarrow> pyval list py" where
  "schema_to_fields schema =
     (case schema of
        PDict d \<Rightarrow>
          andThen (required_names d) (\<lambda>required.
          case dget d ''properties'' PNone of
            PDict ps \<Rightarrow> andThen (mapM (property_field required) ps) (\<lambda>fss. Inr (List.concat fss))
          | _ \<Rightarrow>
              (case dget d ''fields'' PNone of
                 PList items \<Rightarrow> Inr (List.concat (map listed_field items))
               | _ \<Rightarrow> if list_all (\<lambda>(k, v). is_text v) d
                      then Inr (map (\<lambda>(k, v). field_entry (PStr k) (PStr k) v (PStr k \<in> set required) PNone) d)
                      else Inr []))
      | _ \<Rightarrow> Inr [])"

definition schema_handler :: "sdk_app \<Rightarrow> string \<times> action_meta \<Rightarrow> pyval py" where
  "schema_handler app a =
     (case a of (name, meta) \<Rightarrow>
        andThen (schema_to_fields (am_input meta)) (\<lambda>ins.
        andThen (schema_to_fields (am_output meta)) (\<lambda>outs.
        Inr (PDict [(''connector_name'', PStr (sa_name app)), (''action'', PStr name), (''input_fields'', PList ins), (''output_fields'', PList outs)]))))"

definition schema_path :: "string \<Rightarrow> string" where
  "schema_path name = ''/schema/'' @ py_replace ''.'' ''/'' name"

definition schema_routes :: "sdk_app \<Rightarrow> (string \<times> string) list" where
  "schema_routes app = map (\<lambda>(name, meta). (schema_path name, name)) (filter (\<lambda>(name, meta). am_dynamic meta) (sa_actions app))"

definition action_routes :: "sdk_app \<Rightarrow> (string \<times> string) list" where
  "action_routes app = map (\<lambda>(name, meta). (action_path name, name)) (sa_actions app)"

section \<open>The manifest\<close>

definition opt_text :: "string option \<Rightarrow> pyval" where
  "opt_text s = (case s of None \<Rightarrow> PNone | Some t \<Rightarrow> PStr t)"

definition texts :: "string list \<Rightarrow> pyval" where
  "texts xs = PList (map PStr xs)"

definition manifest_routes :: "sdk_app \<Rightarrow> pydict" where
  "manifest_routes app = map (\<lambda>(name, _). (name, PDict [(''method'', PStr ''POST''), (''path'', PStr (action_path name))])) (sa_actions app)"

definition manifest_events :: "sdk_app \<Rightarrow> string list" where
  "manifest_events app =
     map fst (sa_triggers app) @ List.concat (map (\<lambda>(_, w). case wm_topic w of Some (c # cs) \<Rightarrow> [c # cs] | _ \<Rightarrow> []) (sa_webhooks app))"

definition webhook_entry :: "webhook_meta \<Rightarrow> pyval" where
  "webhook_entry w =
     PDict [(''topic'', opt_text (wm_topic w)), (''signature_header'', opt_text (wm_signature_header w)),
            (''signature_algorithm'', PStr (wm_signature_algorithm w))]"

definition generate_manifest :: "sdk_app \<Rightarrow> pydict" where
  "generate_manifest app =
     [(''name'', PStr (sa_name app)), (''category'', PStr (sa_category app)), (''version'', PStr (sa_version app)),
      (''display_name'', PStr (sa_display_name app)), (''description'', PStr (sa_description app)),
      (''interface'', PStr (sa_category app)), (''service_name'', PStr (''connector-'' @ sa_name app)),
      (''capabilities'', texts (map fst (sa_actions app))), (''events'', texts (manifest_events app)),
      (''actions'', texts (map fst (sa_actions app))), (''action_routes'', PDict (manifest_routes app)),
      (''config_schema'', PDict [(''required'', texts (sa_required app))]),
      (''health_endpoint'', PStr ''/health''), (''docs_url'', PStr ''/docs'')]
     @ (if sa_rate_limits app \<noteq> [] then [(''rate_limits'', PDict (map (\<lambda>(k, v). (k, PStr v)) (sa_rate_limits app)))] else [])
     @ (if sa_oauth2 app \<noteq> [] then [(''oauth2'', PDict (sa_oauth2 app))] else [])
     @ (if sa_webhooks app \<noteq> [] then [(''webhooks'', PDict (map (\<lambda>(k, w). (k, webhook_entry w)) (sa_webhooks app)))] else [])"

section \<open>Triggers\<close>

datatype poll = PollEvents "pyval list" | PollError exn | PollCancelled

datatype trigger_log = TriggerEmitted nat | TriggerError string

text \<open>The rounds of a trigger that start at the given times, until the list ends or the task is cancelled: what each call was
  given as \<^verbatim>\<open>since\<close> (nothing when the method does not take it) and what was logged.\<close>

fun run_trigger_loop ::
  "bool \<Rightarrow> (rat \<Rightarrow> rat option \<Rightarrow> poll) \<Rightarrow> rat option \<Rightarrow> rat list \<Rightarrow> (rat option option \<times> trigger_log option) list" where
  "run_trigger_loop accepts method since [] = []"
| "run_trigger_loop accepts method since (started # later) =
     (let call = (if accepts then Some since else None) in
      case method started (if accepts then since else None) of
        PollCancelled \<Rightarrow> [(call, None)]
      | PollEvents es \<Rightarrow>
          (call, if es \<noteq> [] then Some (TriggerEmitted (length es)) else None) # run_trigger_loop accepts method (Some started) later
      | PollError e \<Rightarrow> (call, Some (TriggerError (exn_str e))) # run_trigger_loop accepts method (Some started) later)"

section \<open>Older connectors\<close>

text \<open>
  The bridge to connectors that were written without the SDK (\<^verbatim>\<open>legacy.py\<close>): for every route of the manifest it serves
  an action that is passed on to the route of the connector.  Decoding of base64 is an argument; the inner request is the
  result.
\<close>

record legacy_request =
  lq_method :: string
  lq_path :: string
  lq_params :: "pydict option"
  lq_json :: "pydict option"
  lq_file :: "(string \<times> string) option"
  lq_form :: "(string \<times> string) list"

text \<open>The actions that are added: those whose address the connector does not serve itself.\<close>

definition legacy_routes :: "string list \<Rightarrow> (string \<times> pydict) list \<Rightarrow> (string \<times> string) list" where
  "legacy_routes existing routes =
     map (\<lambda>(name, _). (action_path name, name)) (filter (\<lambda>(name, _). action_path name \<notin> set existing) routes)"

definition path_parameters :: "string \<Rightarrow> string list" where
  "path_parameters path =
     map (\<lambda>part. butlast (tl part)) (filter (\<lambda>part. starts_with part ''{'' \<and> ends_with part ''}'') (py_split ''/'' path))"

definition fill_parameter :: "pyrt \<Rightarrow> string \<times> pydict \<Rightarrow> string \<Rightarrow> (string \<times> pydict) py" where
  "fill_parameter rt pb name =
     (case pb of (path, body) \<Rightarrow>
        (case dget body name PNone of
           PNone \<Rightarrow> Inl (ValueError (''Missing path parameter '' @ quoted name @ '' for route '' @ path))
         | v \<Rightarrow> Inr (py_replace (placeholder name) (py_str rt v) path, dpop body name)))"

definition move_to_query :: "pydict \<times> pydict \<Rightarrow> pyval \<Rightarrow> (pydict \<times> pydict) py" where
  "move_to_query qb fld =
     (case qb of (query, body) \<Rightarrow>
        (case fld of
           PStr k \<Rightarrow> Inr (if dhas body k then (dset query k (dget body k PNone), dpop body k) else (query, body))
         | _ \<Rightarrow> if hashable fld then Inr (query, body) else Inl (unhashable_error fld)))"

definition legacy_build_request :: "pyrt \<Rightarrow> pydict \<Rightarrow> pydict \<Rightarrow> (string \<times> pydict \<times> pydict) py" where
  "legacy_build_request rt route payload =
     andThen (dict_item route ''path'') (\<lambda>p.
     andThen (as_str ''split'' p) (\<lambda>path.
     andThen (foldM (fill_parameter rt) (path, payload) (path_parameters path)) (\<lambda>(path', body).
     andThen (py_iter (dget route ''query_from_payload'' (PList []))) (\<lambda>fields.
     andThen (foldM move_to_query ([], body) fields) (\<lambda>(query, body').
     Inr (path', query, body'))))))"

definition legacy_file :: "pyrt \<Rightarrow> (string \<Rightarrow> string py) \<Rightarrow> pyval \<Rightarrow> (string \<times> string) py" where
  "legacy_file rt b64decode v =
     (case v of
        PNone \<Rightarrow> Inl (ValueError (''Multipart action requires '' @ quoted ''file'' @ '' in payload''))
      | PStr c \<Rightarrow> andThen (b64decode c) (\<lambda>b. Inr (''upload.bin'', b))
      | PDict d \<Rightarrow>
          (case dget d ''content_base64'' PNone of
             PStr c \<Rightarrow>
               let name = dget d ''filename'' PNone in
               andThen (b64decode c) (\<lambda>b. Inr (if truthy name then py_str rt name else ''upload.bin'', b))
           | _ \<Rightarrow> Inl (ValueError ''Unsupported multipart file payload''))
      | _ \<Rightarrow> Inl (ValueError ''Unsupported multipart file payload''))"

definition extract_multipart :: "pyrt \<Rightarrow> (string \<Rightarrow> string py) \<Rightarrow> pydict \<Rightarrow> ((string \<times> string) \<times> (string \<times> string) list) py" where
  "extract_multipart rt b64decode body =
     andThen (legacy_file rt b64decode (dget body ''file'' PNone)) (\<lambda>file.
     Inr (file, form_fields rt body))"

definition action_proxy :: "pyrt \<Rightarrow> (string \<Rightarrow> string py) \<Rightarrow> pydict \<Rightarrow> pydict \<Rightarrow> legacy_request py" where
  "action_proxy rt b64decode route payload =
     (let method = py_upper (py_str rt (dget route ''method'' (PStr ''POST''))) in
      andThen (legacy_build_request rt route payload) (\<lambda>(path, query, body).
      andThen (if truthy (dget route ''multipart'' PNone)
               then andThen (extract_multipart rt b64decode body) (\<lambda>(file, form). Inr (Some file, form, None))
               else Inr (None, [], Some body)) (\<lambda>(file, form, json).
      Inr \<lparr>lq_method = method, lq_path = path, lq_params = (if query \<noteq> [] then Some query else None),
           lq_json = (if method \<noteq> ''GET'' then json else None), lq_file = file, lq_form = form\<rparr>)))"

end
