(* ===== verification/SdkAppProps.thy ===== *)
theory SdkAppProps
  imports SdkApp
begin

text \<open>
  Properties of the server side of the connector SDK: the dispatcher of the platform reaches an action over the route of the
  generated manifest, webhooks are verified, limits hold, tokens are renewed and polls leave gaps.
\<close>

section \<open>Routes\<close>

lemma replace_char_acc: "py_join [y] (py_split_acc [x] acc s) = rev acc @ map (\<lambda>c. if c = x then y else c) s"
proof (induction s arbitrary: acc)
  case (Cons c cs)
  obtain z zs where "py_split_acc [x] [] cs = z # zs" by (cases "py_split_acc [x] [] cs") auto
  then show ?case using Cons.IH [of "[]"] Cons.IH [of "c # acc"] by simp
qed simp

lemma replace_char: "py_replace [x] [y] s = map (\<lambda>c. if c = x then y else c) s"
  using replace_char_acc [of y x "[]" s] by (simp add: py_replace_def py_split_def)

lemma find_sub_prefix: "p \<noteq> [] \<Longrightarrow> find_sub p (p @ s) = Some 0"
  by (cases p) (auto simp: starts_with_iff)

lemma split1_prefix: "p \<noteq> [] \<Longrightarrow> py_split1 p (p @ s) = [[], s]"
  by (simp add: py_split1_def find_sub_prefix)

lemma action_key_path:
  assumes "CHR ''/'' \<notin> set name"
  shows "action_key (action_path name) = Some name"
proof -
  have "map (\<lambda>c. if c = CHR ''/'' then CHR ''.'' else c) (map (\<lambda>c. if c = CHR ''.'' then CHR ''/'' else c) name) = name"
    using assms by (auto intro!: map_idI)
  then show ?thesis by (simp add: action_key_def action_path_def split1_prefix [of "''/actions/''", simplified] replace_char)
qed

lemma fill_path_untouched:
  assumes "CHR ''{'' \<notin> set path"
  shows "foldM (fill_path rt) (PStr path, body) keys = Inr (PStr path, body)"
proof (induction keys)
  case (Cons k ks)
  have "find_sub (placeholder k) path = None"
  proof (rule ccontr)
    assume "find_sub (placeholder k) path \<noteq> None"
    then obtain i where "find_sub (placeholder k) path = Some i" by blast
    from find_sub_Some [OF this] have "CHR ''{'' \<in> set path" by (auto simp: placeholder_def)
    with assms show False ..
  qed
  with Cons show ?case by (simp add: fill_path_def py_in_def contains_sub_def)
qed simp

lemma map_of_keyed: "k \<in> fst ` set xs \<Longrightarrow> map_of (map (\<lambda>(k, _). (k, f k)) xs) k = Some (f k)"
  by (induction xs) auto

lemma manifest_route:
  "name \<in> fst ` set (sa_actions app) \<Longrightarrow>
   map_of (manifest_routes app) name = Some (PDict [(''method'', PStr ''POST''), (''path'', PStr (action_path name))])"
  by (simp add: manifest_routes_def map_of_keyed)

lemma routed_request_plain:
  assumes "CHR ''{'' \<notin> set path"
  shows "routed_request ds connector name [(''method'', PStr ''POST''), (''path'', PStr path)] base payload
    = Inr (method_request (PStr ''POST'') (base @ path) (Some (PDict payload)) [] [] None [])"
  using fill_path_untouched [OF assms]
  by (simp add: routed_request_def build_url_def take_fields_def dget_def py_iter_def extra_headers_of_def py_str_def)

lemma action_path_set: "CHR ''{'' \<notin> set name \<Longrightarrow> CHR ''{'' \<notin> set (action_path name)"
  by (auto simp: action_path_def replace_char)

text \<open>C15: For every action of a connector the generated manifest has a route over which the dispatcher of the platform sends the
  payload as it is to the address where the connector serves that action and no other, and where it finds the limit of
  that action; the name holds no slash and no opening brace.\<close>

theorem sdk_route_reaches_action:
  assumes "name \<in> fst ` set (sa_actions app)" and "CHR ''/'' \<notin> set name" and "CHR ''{'' \<notin> set name"
  shows "\<exists>routes route. map_of (generate_manifest app) ''action_routes'' = Some (PDict routes) \<and> map_of routes name = Some (PDict route)
    \<and> routed_request ds connector name route base payload
        = Inr (method_request (PStr ''POST'') (base @ action_path name) (Some (PDict payload)) [] [] None [])
    \<and> (action_path name, name) \<in> set (action_routes app)
    \<and> (\<forall>other. (action_path name, other) \<in> set (action_routes app) \<and> CHR ''/'' \<notin> set other \<longrightarrow> other = name)
    \<and> action_key (action_path name) = Some name"
proof -
  have "(action_path name, name) \<in> set (action_routes app)" 
    using imageI [OF assms(1), of "\<lambda>n. (action_path n, n)"] by (simp add: action_routes_def image_image split_beta)
  moreover have "other = name" if "(action_path name, other) \<in> set (action_routes app)" "CHR ''/'' \<notin> set other" for other
  proof -
    from that(1) have "action_path other = action_path name" unfolding action_routes_def by (simp add: split_beta image_iff) metis
    with action_key_path [OF assms(2)] action_key_path [OF that(2)] show ?thesis by simp
  qed
  moreover have "map_of (generate_manifest app) ''action_routes'' = Some (PDict (manifest_routes app))" by (simp add: generate_manifest_def)
  ultimately show ?thesis
    using manifest_route [OF assms(1)] routed_request_plain [OF action_path_set [OF assms(3)]] action_key_path [OF assms(2)] by blast
qed

definition sample_app :: sdk_app where
  "sample_app =
     \<lparr>sa_name = ''shop'', sa_category = ''ecommerce'', sa_version = ''1.0.0'', sa_display_name = ''Shop'', sa_description = [],
      sa_actions = [(''order.create'', \<lparr>am_input = PNone, am_output = PNone, am_dynamic = False\<rparr>)],
      sa_triggers = [], sa_webhooks = [], sa_required = [], sa_rate_limits = [], sa_oauth2 = []\<rparr>"

theorem sdk_route_reaches_action_witness:
  "\<forall>ds. \<exists>routes route. map_of (generate_manifest sample_app) ''action_routes'' = Some (PDict routes) \<and> map_of routes ''order.create'' = Some (PDict route)
     \<and> routed_request ds ''shop'' ''order.create'' route ''http://connector-shop:8000'' [(''sku'', PStr ''A'')]
       = Inr (method_request (PStr ''POST'') ''http://connector-shop:8000/actions/order/create'' (Some (PDict [(''sku'', PStr ''A'')])) [] [] None [])"
proof
  fix ds
  have "''order.create'' \<in> fst ` set (sa_actions sample_app)" by (simp add: sample_app_def)
  moreover have "CHR ''/'' \<notin> set ''order.create''" "CHR ''{'' \<notin> set ''order.create''" by simp_all
  moreover have "action_path ''order.create'' = ''/actions/order/create''" by (simp add: action_path_def replace_char)
  ultimately show "\<exists>routes route. map_of (generate_manifest sample_app) ''action_routes'' = Some (PDict routes) \<and> map_of routes ''order.create'' = Some (PDict route)
     \<and> routed_request ds ''shop'' ''order.create'' route ''http://connector-shop:8000'' [(''sku'', PStr ''A'')]
       = Inr (method_request (PStr ''POST'') ''http://connector-shop:8000/actions/order/create'' (Some (PDict [(''sku'', PStr ''A'')])) [] [] None [])"
    using sdk_route_reaches_action [of "''order.create''" sample_app ds "''shop''" "''http://connector-shop:8000''" "[(''sku'', PStr ''A'')]"] by auto
qed

text \<open>Without a route the dispatcher asks for an address that the connector does not serve when the name has a dot.\<close>

lemma generic_path_is_not_served:
  assumes "CHR ''.'' \<in> set name"
  shows "''/actions/'' @ name \<noteq> action_path name"
proof
  assume "''/actions/'' @ name = action_path name"
  then have "name = map (\<lambda>c. if c = CHR ''.'' then CHR ''/'' else c) name" by (simp add: action_path_def replace_char)
  then have "set name = set (map (\<lambda>c. if c = CHR ''.'' then CHR ''/'' else c) name)" by simp
  then have "CHR ''.'' \<in> (\<lambda>c. if c = CHR ''.'' then CHR ''/'' else c) ` set name" using assms by simp
  then show False by (auto split: if_splits)
qed

section \<open>Webhooks\<close>

text \<open>The method of a webhook with a signature header is called only with a body that carries a signature under the secret
  of the environment or of an account.\<close>

lemma webhook_method_needs_signature:
  assumes "wm_signature_header meta = Some header" and "header \<noteq> []"
    and "webhook_handler se s method body headers meta name = (Some payload, r)"
  shows "se_loads se body = Some payload
    \<and> (\<exists>signature secret. dget (dmerge [] (map (\<lambda>(k, v). (py_lower k, v)) headers)) (py_lower header) [] = signature \<and> signature \<noteq> []
        \<and> get_webhook_secret se s name = Some (PStr secret)
        \<and> clean_signature signature = se_hmac se (dget hmac_algorithms (wm_signature_algorithm meta) ''sha256'') secret body)"
proof -
  have ok: "verify_webhook_signature se s body headers meta name = Inr True" and loads: "se_loads se body = Some payload"
    using assms(3) by (auto simp: webhook_handler_def split: sum.splits bool.splits option.splits)
  from ok assms(1,2) loads show ?thesis
    by (auto simp: verify_webhook_signature_def Let_def compare_digest_def split: if_splits option.splits pyval.splits)
qed

text \<open>With two accounts that have secrets of their own, a webhook signed with the secret of the second is refused.\<close>

definition sample_sdk_environment :: sdk_environment where
  "sample_sdk_environment =
     \<lparr>se_env = (\<lambda>_. None), se_hmac = (\<lambda>_ secret body. secret @ body), se_loads = (\<lambda>s. if s = ''{}'' then Some (PDict []) else None), se_render = Inr\<rparr>"

lemma second_account_webhook_is_refused:
  "let accounts = [(''a'', [(''webhook_secret'', PStr ''k'')]), (''b'', [(''webhook_secret'', PStr ''l'')])];
       meta = \<lparr>wm_topic = None, wm_signature_header = Some ''X-Sig'', wm_signature_algorithm = ''hmac-sha256''\<rparr>;
       handle = (\<lambda>signature. snd (webhook_handler sample_sdk_environment accounts Inr ''{}'' [(''x-sig'', signature)] meta ''orders'')) in
   handle ''k{}'' = Inr (Acknowledged (PDict [(''acknowledged'', PBool True), (''data'', PDict [])])) \<and> handle ''l{}'' = Inr BadSignature"
  by code_simp

section \<open>Rate limits\<close>

text \<open>The requests that a bucket admits at the given times.\<close>

fun admitted :: "sdk_bucket \<Rightarrow> rat list \<Rightarrow> nat" where
  "admitted b [] = 0"
| "admitted b (now # later) = (case bucket_allow now b of (ok, b') \<Rightarrow> (if ok then 1 else 0) + admitted b' later)"

lemma bucket_allow_steps:
  assumes "bucket_allow now b = (ok, b')"
  shows "sb_rate b' = sb_rate b" and "sb_last b' = now"
    and "sb_tokens b' + (if ok then 1 else 0) = min (of_int (sb_burst b)) (sb_tokens b + (now - sb_last b) * sb_rate b)"
    and "0 \<le> sb_tokens b \<Longrightarrow> 0 \<le> sb_burst b \<Longrightarrow> 0 \<le> sb_rate b \<Longrightarrow> sb_last b \<le> now \<Longrightarrow> 0 \<le> sb_tokens b'" and "sb_burst b' = sb_burst b"
  using assms by (auto simp: bucket_allow_def Let_def split: if_splits)

lemma admitted_bound:
  "sorted (sb_last b # moments) \<Longrightarrow> 0 \<le> sb_rate b \<Longrightarrow> 0 \<le> sb_tokens b \<Longrightarrow> 0 \<le> sb_burst b \<Longrightarrow>
   of_nat (admitted b moments) \<le> sb_tokens b + (last (sb_last b # moments) - sb_last b) * sb_rate b"
proof (induction moments arbitrary: b)
  case (Cons now later)
  obtain ok b' where step: "bucket_allow now b = (ok, b')" by fastforce
  note steps = bucket_allow_steps [OF step]
  have "sb_last b \<le> now" using Cons.prems(1) by simp
  have ih: "of_nat (admitted b' later) \<le> sb_tokens b' + (last (now # later) - now) * sb_rate b"
    using Cons.IH [of b'] Cons.prems steps \<open>sb_last b \<le> now\<close> by simp
  have "sb_tokens b' + (if ok then 1 else 0) \<le> sb_tokens b + (now - sb_last b) * sb_rate b" using steps(3) by simp
  with ih step show ?case by (auto simp: algebra_simps split: if_splits)
qed simp

text \<open>Over any stretch of time a limit admits its count and what flows in meanwhile.\<close>

lemma sdk_limit_bound:
  assumes "sorted (start # moments)" and "0 \<le> rate" and "0 \<le> burst"
  shows "of_nat (admitted (new_bucket rate burst start) moments) \<le> of_int burst + (last (start # moments) - start) * rate"
  using admitted_bound [of "new_bucket rate burst start" moments] assms by (simp add: new_bucket_def)

section \<open>Triggers\<close>

text \<open>Each call is asked for what happened since the call before it started, also when that call failed: what a failed call
  missed is not asked for again.\<close>

lemma trigger_since:
  assumes "\<And>started since. method started since \<noteq> PollCancelled"
  shows "map fst (run_trigger_loop True method since moments) = map Some (take (length moments) (since # map Some moments))"
proof (induction moments arbitrary: since)
  case (Cons started later)
  show ?case
  proof (cases "method started since")
    case PollCancelled
    then show ?thesis using assms by simp
  qed (auto simp: Cons.IH)
qed simp

section \<open>Tokens\<close>

text \<open>A token that is returned without a request is not about to expire; otherwise there was one request with the refresh
  token, and the answer is stored.\<close>

lemma valid_token_is_fresh:
  assumes "get_valid_sdk_token o2 rt now answered account s = (Inr access, s')"
  shows "(\<exists>t. fst (get_sdk_token o2 account s) = Some t \<and> \<not> expires_soon now t \<and> access = tk_access t \<and> ox_sent s' = ox_sent s)
    \<or> (\<exists>form t. ox_sent s' = ox_sent s @ [form] \<and> map_of form ''grant_type'' = Some (PStr ''refresh_token'')
        \<and> map_of (ox_tokens s') account = Some t \<and> tk_access t = access)"
proof -
  have sent: "ox_sent (snd (get_sdk_token o2 a st)) = ox_sent st" for a st
    by (auto simp: get_sdk_token_def split: option.splits)
  obtain t s1 where get: "get_sdk_token o2 account s = (Some t, s1)"
    using assms by (auto simp: get_valid_sdk_token_def split: prod.splits option.splits)
  show ?thesis
  proof (cases "expires_soon now t")
    case False
    then show ?thesis using assms get sent [of account s] by (auto simp: get_valid_sdk_token_def)
  next
    case True
    then obtain t' where "refresh_sdk_token o2 rt answered account s1 = (Inr t', s')" "access = tk_access t'"
      using assms get by (auto simp: get_valid_sdk_token_def split: prod.splits elim!: andThen_InrE)
    then show ?thesis using sent [of account s] sent [of account s1] get
      by (auto simp: refresh_sdk_token_def post_form_def store_sdk_token_def Let_def map_of_dset split: prod.splits option.splits sum.splits if_splits)
  qed
qed

section \<open>Older connectors\<close>

text \<open>A field of the payload can lead to any other route of the connector: its text is put into the path as it is.\<close>

lemma legacy_payload_leaves_path_segment:
  "legacy_build_request rt [(''path'', PStr ''/orders/{id}'')] [(''id'', PStr ''1/cancel'')] = Inr (''/orders/1/cancel'', [], [])"
proof -
  have "path_parameters ''/orders/{id}'' = [''id'']" by code_simp
  moreover have "py_replace ''{id}'' ''1/cancel'' ''/orders/{id}'' = ''/orders/1/cancel''" by code_simp
  ultimately show ?thesis
    by (simp add: legacy_build_request_def dict_item_def fill_parameter_def dget_def py_str_def placeholder_def py_iter_def dpop_def)
qed

text \<open>Apart from that the bridge passes a payload on unchanged: without parameters and query fields the body is the payload.\<close>

lemma action_proxy_plain:
  assumes "path_parameters path = []" and "py_upper m \<noteq> ''GET''"
  shows "action_proxy rt b64decode [(''method'', PStr m), (''path'', PStr path)] payload
    = Inr \<lparr>lq_method = py_upper m, lq_path = path, lq_params = None, lq_json = Some payload, lq_file = None, lq_form = []\<rparr>"
  using assms
  by (simp add: action_proxy_def legacy_build_request_def dict_item_def dget_def py_iter_def py_str_def)

end
