(* ===== verification/EventGateway.thy ===== *)
theory EventGateway
  imports WebhookGateway
begin

text \<open>
  The event endpoints of the gateway (\<^verbatim>\<open>trigger_event\<close> and \<^verbatim>\<open>internal_trigger_event\<close> of
  \<^verbatim>\<open>api/gateway.py\<close>): the flows and then the workflows of a tenant, or of every active tenant, that listen
  to an event.  An exception rolls the session back; the calls that were made stay made.
\<close>

record tenant =
  te_id :: string
  te_active :: bool

text \<open>The result of \<^verbatim>\<open>trigger_event\<close> and of \<^verbatim>\<open>internal_trigger_event\<close>, which only counts the executions.\<close>

record event_response =
  er_event :: string
  er_connector :: string
  er_flow_executions :: "flow_execution list"
  er_workflow_executions :: "execution list"

definition flows_triggered :: "event_response \<Rightarrow> nat" where
  "flows_triggered r = length (er_flow_executions r)"

definition workflows_triggered :: "event_response \<Rightarrow> nat" where
  "workflows_triggered r = length (er_workflow_executions r)"

type_synonym 'a wact = "(engine_world, 'a) act"

definition flows_for_event :: "engines \<Rightarrow> string \<Rightarrow> string \<Rightarrow> string \<Rightarrow> pydict \<Rightarrow> flow_execution list wact" where
  "flows_for_event eg tenant connector event data =
     (\<lambda>w. case flow_process_event (eg_flows eg) tenant connector event data (ew_flow_calls w) of
            (execs, calls) \<Rightarrow> Some (Inr execs, w\<lparr>ew_flow_calls := calls\<rparr>))"

definition workflows_for_event :: "engines \<Rightarrow> nat \<Rightarrow> int \<Rightarrow> string \<Rightarrow> string \<Rightarrow> string \<Rightarrow> pydict \<Rightarrow> execution list wact" where
  "workflows_for_event eg fuel now tenant connector event data =
     (\<lambda>w. case process_event (eg_workflows eg) fuel (eg_digest eg) now tenant connector event data (ew_state w) of
            None \<Rightarrow> None
          | Some (r, s) \<Rightarrow> Some (r, w\<lparr>ew_state := s\<rparr>))"

definition both_for_event ::
  "engines \<Rightarrow> nat \<Rightarrow> int \<Rightarrow> string \<Rightarrow> string \<Rightarrow> pydict \<Rightarrow> string \<Rightarrow> (flow_execution list \<times> execution list) wact" where
  "both_for_event eg fuel now connector event data tenant =
     bnd (flows_for_event eg tenant connector event data) (\<lambda>fs.
     bnd (workflows_for_event eg fuel now tenant connector event data) (\<lambda>ws.
     ret (fs, ws)))"

definition in_session :: "'a wact \<Rightarrow> 'a wact" where
  "in_session m = (\<lambda>w. case m w of
      Some (Inl e, t) \<Rightarrow> Some (Inl e, t\<lparr>ew_state := (ew_state t)\<lparr>ps_ledger := ps_ledger (ew_state w)\<rparr>\<rparr>)
    | r \<Rightarrow> r)"

definition trigger_event :: "engines \<Rightarrow> nat \<Rightarrow> int \<Rightarrow> string \<Rightarrow> string \<Rightarrow> string \<Rightarrow> pydict \<Rightarrow> event_response wact" where
  "trigger_event eg fuel now tenant connector event data =
     in_session (bnd (both_for_event eg fuel now connector event data tenant) (\<lambda>(fs, ws).
       ret \<lparr>er_event = event, er_connector = connector, er_flow_executions = fs, er_workflow_executions = ws\<rparr>))"

text \<open>Whose event it is: the tenant named in the data, if it is active, or every active tenant.
  \<open>uuid\<close> is \<^verbatim>\<open>uuid.UUID\<close> of a text, printed again.\<close>

definition event_tenants ::
  "pyrt \<Rightarrow> (string \<Rightarrow> string option) \<Rightarrow> tenant list \<Rightarrow> pydict \<Rightarrow> string list option" where
  "event_tenants rt uuid tenants data =
     (let target = dget data ''_tenant_id'' PNone in
      if \<not> truthy target then Some (map te_id (filter te_active tenants))
      else case uuid (py_str rt target) of
        None \<Rightarrow> None
      | Some tid \<Rightarrow> Some (map te_id (filter (\<lambda>t. te_active t \<and> te_id t = tid) tenants)))"

definition internal_trigger_event ::
  "engines \<Rightarrow> (string \<Rightarrow> string option) \<Rightarrow> tenant list \<Rightarrow> nat \<Rightarrow> int \<Rightarrow> string \<Rightarrow> string \<Rightarrow> pydict \<Rightarrow> event_response wact" where
  "internal_trigger_event eg uuid tenants fuel now connector event data =
     (case event_tenants (fg_rt (eg_flows eg)) uuid tenants data of
        None \<Rightarrow> throw (HTTPException 400 ''Invalid _tenant_id format'')
      | Some ts \<Rightarrow>
          if ts = [] then throw (HTTPException 404 ''No active tenant found for the given identifier'')
          else in_session (bnd (map_each (both_for_event eg fuel now connector event data) ts) (\<lambda>rs.
            ret \<lparr>er_event = event, er_connector = connector, er_flow_executions = List.concat (map fst rs),
                 er_workflow_executions = List.concat (map snd rs)\<rparr>)))"

end
