(* ===== verification/WorkflowScheduler.thy ===== *)
theory WorkflowScheduler
  imports SyncEvents
begin

text \<open>
  The workflow scheduler (\<^verbatim>\<open>core/workflow_scheduler.py\<close>): the table of scheduled jobs, kept in step with
  the job store of APScheduler, and the run of a job.  APScheduler is the record \<open>job_api\<close> over a store of
  any type; \<open>job_api_ok\<close> is what its documentation says of it.
\<close>

section \<open>The job store\<close>

record job =
  jb_args :: "string list"
  jb_next_run :: "string option"

record 'j job_api =
  ja_cron_fields :: "string list \<Rightarrow> pyval \<Rightarrow> string py"
  ja_crontab :: "string \<Rightarrow> pyval \<Rightarrow> string py"
  ja_add :: "'j \<Rightarrow> string \<Rightarrow> string \<Rightarrow> string list \<Rightarrow> 'j py"
  ja_remove :: "'j \<Rightarrow> string \<Rightarrow> 'j py"
  ja_get :: "'j \<Rightarrow> string \<Rightarrow> job option"

text \<open>\<^verbatim>\<open>add_job\<close> with \<^verbatim>\<open>replace_existing\<close> stores the job under its identifier, \<^verbatim>\<open>remove_job\<close> removes a job
  that exists, and neither touches another job.\<close>

definition job_api_ok :: "'j job_api \<Rightarrow> bool" where
  "job_api_ok api \<longleftrightarrow>
     (\<forall>st jid trigger args. \<exists>st' next. ja_add api st jid trigger args = Inr st'
        \<and> ja_get api st' jid = Some \<lparr>jb_args = args, jb_next_run = next\<rparr>
        \<and> (\<forall>other. other \<noteq> jid \<longrightarrow> ja_get api st' other = ja_get api st other))
   \<and> (\<forall>st jid. ja_get api st jid \<noteq> None \<longrightarrow>
        (\<exists>st'. ja_remove api st jid = Inr st' \<and> ja_get api st' jid = None
           \<and> (\<forall>other. other \<noteq> jid \<longrightarrow> ja_get api st' other = ja_get api st other)))"

section \<open>The scheduler\<close>

record 'j scheduler =
  sd_jobs :: "(string \<times> string) list"
  sd_store :: 'j

definition schedule_job_id :: "string \<Rightarrow> string" where
  "schedule_job_id workflow_id = ''wf_schedule_'' @ workflow_id"

fun get_schedule_config :: "node list \<Rightarrow> pydict option" where
  "get_schedule_config [] = None"
| "get_schedule_config (n # ns) =
     (if n_type n = ''trigger'' \<and> py_eq (dget (n_config n) ''trigger_type'' PNone) (PStr ''schedule'')
      then Some (n_config n) else get_schedule_config ns)"

definition make_trigger :: "'j job_api \<Rightarrow> pyval \<Rightarrow> pyval \<Rightarrow> string py" where
  "make_trigger api cron_expr tz =
     andThen (as_str ''split'' cron_expr) (\<lambda>expr.
     if length (py_words expr) = 5 then ja_cron_fields api (py_words expr) tz else ja_crontab api expr tz)"

text \<open>What a workflow is scheduled with: nothing without a schedule trigger, an expression, or a valid one.\<close>

definition schedule_trigger :: "'j job_api \<Rightarrow> workflow \<Rightarrow> string py option" where
  "schedule_trigger api w =
     (case get_schedule_config (wf_nodes w) of
        None \<Rightarrow> None
      | Some config \<Rightarrow>
          if config = [] \<or> \<not> truthy (dget config ''cron'' (PStr [])) then None
          else Some (make_trigger api (dget config ''cron'' (PStr [])) (dget config ''timezone'' (PStr ''UTC''))))"

definition register_if_scheduled :: "'j job_api \<Rightarrow> workflow \<Rightarrow> 'j scheduler \<Rightarrow> 'j scheduler" where
  "register_if_scheduled api w s =
     (case schedule_trigger api w of
        None \<Rightarrow> s
      | Some (Inl _) \<Rightarrow> s
      | Some (Inr trigger) \<Rightarrow>
          (case ja_add api (sd_store s) (schedule_job_id (wf_id w)) trigger [wf_id w, wf_tenant w] of
             Inl _ \<Rightarrow> s
           | Inr st \<Rightarrow> s\<lparr>sd_store := st, sd_jobs := dset (sd_jobs s) (wf_id w) (schedule_job_id (wf_id w))\<rparr>))"

definition unregister_workflow :: "'j job_api \<Rightarrow> string \<Rightarrow> 'j scheduler \<Rightarrow> 'j scheduler" where
  "unregister_workflow api wid s =
     (let s' = s\<lparr>sd_jobs := dpop (sd_jobs s) wid\<rparr> in
      case map_of (sd_jobs s) wid of
        None \<Rightarrow> s'
      | Some job_id \<Rightarrow>
          if job_id = [] then s'
          else case ja_remove api (sd_store s) job_id of Inl _ \<Rightarrow> s' | Inr st \<Rightarrow> s'\<lparr>sd_store := st\<rparr>)"

definition register_workflow :: "'j job_api \<Rightarrow> workflow \<Rightarrow> 'j scheduler \<Rightarrow> 'j scheduler" where
  "register_workflow api w s =
     (let s' = unregister_workflow api (wf_id w) s in if wf_is_enabled w then register_if_scheduled api w s' else s')"

definition scheduler_start :: "'j job_api \<Rightarrow> workflow list \<Rightarrow> 'j scheduler \<Rightarrow> 'j scheduler" where
  "scheduler_start api table s = foldl (\<lambda>s w. register_if_scheduled api w s) s (filter wf_is_enabled table)"

record scheduled_entry =
  se_workflow_id :: string
  se_job_id :: string
  se_tenant_id :: "string option"
  se_next_run :: "string option"

definition job_tenant :: "job option \<Rightarrow> string option" where
  "job_tenant j = (case j of None \<Rightarrow> None | Some x \<Rightarrow> if 2 \<le> length (jb_args x) then Some (jb_args x ! 1) else None)"

definition list_scheduled :: "'j job_api \<Rightarrow> string option \<Rightarrow> 'j scheduler \<Rightarrow> scheduled_entry list" where
  "list_scheduled api tenant_id s =
     map (\<lambda>(wid, job_id). let j = ja_get api (sd_store s) job_id in
            \<lparr>se_workflow_id = wid, se_job_id = job_id, se_tenant_id = job_tenant j,
             se_next_run = (case j of None \<Rightarrow> None | Some x \<Rightarrow> jb_next_run x)\<rparr>)
       (filter (\<lambda>(wid, job_id). case tenant_id of
                  None \<Rightarrow> True
                | Some t \<Rightarrow> t = [] \<or> job_tenant (ja_get api (sd_store s) job_id) = Some t) (sd_jobs s))"

section \<open>A scheduled run\<close>

text \<open>A run that raises is logged and its session rolled back; the calls that were made stay made.\<close>

definition scheduled_run :: "engine \<Rightarrow> nat \<Rightarrow> (pydict \<Rightarrow> string) \<Rightarrow> int \<Rightarrow> string \<Rightarrow> workflow \<Rightarrow> unit pact" where
  "scheduled_run en fuel digest now iso_time w =
     bnd (liftE (case get_schedule_config (wf_nodes w) of
                   None \<Rightarrow> Inl (attr_error PNone ''get'')
                 | Some config \<Rightarrow> Inr (dget config ''cron'' (PStr [])))) (\<lambda>cron.
     let trigger_data = [(''trigger_type'', PStr ''schedule''), (''scheduled_at'', PStr iso_time),
                         (''cron_expression'', cron), (''workflow_id'', PStr (wf_id w))] in
     bnd (run_workflow_now en fuel w trigger_data) (\<lambda>ex.
     record_execution_sync (en_rt en) digest now w ex trigger_data))"

definition run_scheduled_workflow ::
  "engine \<Rightarrow> nat \<Rightarrow> (pydict \<Rightarrow> string) \<Rightarrow> int \<Rightarrow> string \<Rightarrow> string \<Rightarrow> pst \<Rightarrow> pst option" where
  "run_scheduled_workflow en fuel digest now iso_time workflow_id s =
     (case find (\<lambda>w. wf_id w = workflow_id \<and> wf_is_enabled w) (en_workflows en) of
        None \<Rightarrow> Some s
      | Some w \<Rightarrow>
          (case scheduled_run en fuel digest now iso_time w s of
             None \<Rightarrow> None
           | Some (Inl _, t) \<Rightarrow> Some (t\<lparr>ps_ledger := ps_ledger s\<rparr>)
           | Some (Inr _, t) \<Rightarrow> Some t))"

end
