(* ===== verification/PlatformDb.thy ===== *)
theory PlatformDb
  imports EventGateway CredentialVault WorkflowScheduler RateLimiter
begin

text \<open>
  The database the gateway works on (\<^verbatim>\<open>db/models.py\<close>, \<^verbatim>\<open>db/base.py\<close>), with the row level security that
  migrations 007 to 017 put on its tables: in a session a row is visible, and may be written, when row
  level security is not enforced for the role of the connection, when the transaction has asked to bypass
  it, or when the row belongs to the tenant the transaction has set.  Both settings are local to the
  transaction (\<^verbatim>\<open>set_config(..., true)\<close>) and gone after a commit.  Tables of tenants and API keys are not
  under row level security (migration 016).
\<close>

section \<open>Sessions\<close>

record db_session =
  ss_enforced :: bool
  ss_tenant :: "string option"
  ss_bypass :: bool

definition visible :: "db_session \<Rightarrow> string \<Rightarrow> bool" where
  "visible ss tenant \<longleftrightarrow> \<not> ss_enforced ss \<or> ss_bypass ss \<or> ss_tenant ss = Some tenant"

definition set_rls_tenant :: "string \<Rightarrow> db_session \<Rightarrow> db_session" where
  "set_rls_tenant tenant ss = ss\<lparr>ss_tenant := Some tenant\<rparr>"

definition set_rls_bypass :: "db_session \<Rightarrow> db_session" where
  "set_rls_bypass ss = ss\<lparr>ss_bypass := True\<rparr>"

definition end_transaction :: "db_session \<Rightarrow> db_session" where
  "end_transaction ss = ss\<lparr>ss_tenant := None, ss_bypass := False\<rparr>"

section \<open>Tables\<close>

record tenant_row = tenant +
  te_name :: string
  te_slug :: string
  te_plan :: string

record key_row = api_key +
  ak_prefix :: string
  ak_name :: string

record instance_row = connector_instance +
  ci_id :: string
  ci_category :: string
  ci_display_name :: string
  ci_config :: pydict

record wf_row =
  wr_workflow :: workflow
  wr_description :: string
  wr_version :: int
  wr_updated :: int

record workflow_version =
  wv_tenant :: string
  wv_workflow :: string
  wv_version :: int
  wv_nodes :: "node list"
  wv_edges :: "edge list"
  wv_variables :: pydict
  wv_created_by :: "string option"

text \<open>The values of an audit entry are JSON; the graph of a workflow is kept as it is.\<close>

datatype audit_item = AuJson pyval | AuNodes "node list" | AuEdges "edge list"

type_synonym audit_value = "(string \<times> audit_item) list"

record audit_entry =
  au_tenant :: string
  au_user :: "string option"
  au_entity_type :: string
  au_entity_id :: string
  au_action :: string
  au_old :: "audit_value option"
  au_new :: "audit_value option"
  au_ip :: "string option"
  au_created :: int

record flow_row =
  fr_flow :: flow
  fr_name :: string

record flow_exec_row =
  xr_id :: string
  xr_execution :: flow_execution
  xr_started :: int

record db =
  db_tenants :: "tenant_row list"
  db_keys :: "key_row list"
  db_instances :: "instance_row list"
  db_vault :: vault
  db_workflows :: "wf_row list"
  db_versions :: "workflow_version list"
  db_audit :: "audit_entry list"
  db_flows :: "flow_row list"
  db_flow_executions :: "flow_exec_row list"

text \<open>An account of a connector that the gateway creates or updates: the arguments of
  \<^verbatim>\<open>_ensure_account_generic\<close>.\<close>

record provision =
  pv_base_url :: string
  pv_credentials :: "(string \<times> string) list"
  pv_config :: pydict
  pv_force :: bool

record 'j platform =
  pf_session :: db_session
  pf_db :: db
  pf_scheduler :: "'j scheduler"
  pf_provisioned :: "provision list"
  pf_windows :: "(string \<times> rat list) list"
  pf_state :: pst

type_synonym ('j, 'a) gact = "('j platform, 'a) act"

definition wr_id :: "wf_row \<Rightarrow> string" where "wr_id r = wf_id (wr_workflow r)"

definition wr_tenant :: "wf_row \<Rightarrow> string" where "wr_tenant r = wf_tenant (wr_workflow r)"

definition fr_id :: "flow_row \<Rightarrow> string" where "fr_id r = fl_id (fr_flow r)"

definition fr_tenant :: "flow_row \<Rightarrow> string" where "fr_tenant r = fl_tenant (fr_flow r)"

section \<open>Statements\<close>

definition rls_error :: exn where
  "rls_error = OtherError ''DBAPIError'' ''new row violates row-level security policy''"

definition the_db :: "('j, db) gact" where
  "the_db = gets pf_db"

definition the_session :: "('j, db_session) gact" where
  "the_session = gets pf_session"

definition update_db :: "(db \<Rightarrow> db) \<Rightarrow> ('j, unit) gact" where
  "update_db f = modify (\<lambda>w. w\<lparr>pf_db := f (pf_db w)\<rparr>)"

text \<open>\<^verbatim>\<open>INSERT\<close>: the policy is checked for the new row, then the unique constraint.\<close>

definition db_insert :: "bool \<Rightarrow> bool \<Rightarrow> (db \<Rightarrow> db) \<Rightarrow> ('j, unit) gact" where
  "db_insert allowed taken f =
     (if \<not> allowed then throw rls_error else if taken then throw integrity_error else update_db f)"

definition commit :: "('j, unit) gact" where
  "commit = modify (\<lambda>w. w\<lparr>pf_session := end_transaction (pf_session w)\<rparr>)"

text \<open>A request works in a session of its own; an exception rolls back what was not committed.  Nothing the
  endpoints do after their commit raises.\<close>

definition in_request :: "('j, 'a) gact \<Rightarrow> ('j, 'a) gact" where
  "in_request m =
     (\<lambda>w. case m (w\<lparr>pf_session := end_transaction (pf_session w)\<rparr>) of
            None \<Rightarrow> None
          | Some (Inl e, t) \<Rightarrow>
              Some (Inl e, t\<lparr>pf_session := end_transaction (pf_session t), pf_db := pf_db w,
                             pf_state := (pf_state t)\<lparr>ps_ledger := ps_ledger (pf_state w)\<rparr>\<rparr>)
          | Some (Inr x, t) \<Rightarrow> Some (Inr x, t\<lparr>pf_session := end_transaction (pf_session t)\<rparr>))"

text \<open>What the vault is in a session.\<close>

definition rls_vault :: "db_session \<Rightarrow> vault \<Rightarrow> vault" where
  "rls_vault ss v =
     \<lparr>va_credentials = filter (\<lambda>c. visible ss (cr_tenant c)) (va_credentials v),
      va_tokens = filter (\<lambda>t. visible ss (ct_tenant t)) (va_tokens v)\<rparr>"

end
