(* ===== verification/AuditTrail.thy ===== *)
theory AuditTrail
  imports PlatformDb
begin

text \<open>
  The audit trail (\<^verbatim>\<open>core/audit_trail.py\<close>): entries of the audit log, snapshots of workflows as numbered
  versions, and the return to an earlier version.
\<close>

section \<open>Entries\<close>

definition record_audit ::
  "int \<Rightarrow> string \<Rightarrow> string \<Rightarrow> string \<Rightarrow> string \<Rightarrow> audit_value option \<Rightarrow> audit_value option \<Rightarrow> string option \<Rightarrow> string option
    \<Rightarrow> ('j, unit) gact" where
  "record_audit now tenant entity_type entity_id action old_value new_value user_id ip_address =
     bnd the_session (\<lambda>ss.
     db_insert (visible ss tenant) False (\<lambda>d. d\<lparr>db_audit := db_audit d @
       [\<lparr>au_tenant = tenant, au_user = user_id, au_entity_type = entity_type, au_entity_id = entity_id, au_action = action,
         au_old = old_value, au_new = new_value, au_ip = ip_address, au_created = now\<rparr>]\<rparr>))"

text \<open>\<^verbatim>\<open>if entity_type:\<close> an empty or missing text does not restrict.  Newest first, a page of at
  most \<open>limit\<close>; the database refuses negative numbers.\<close>

definition page :: "nat \<Rightarrow> nat \<Rightarrow> 'a list \<Rightarrow> 'a list" where
  "page limit offset rows = take limit (drop offset rows)"

definition latest_first :: "('a \<Rightarrow> int) \<Rightarrow> 'a list \<Rightarrow> 'a list" where
  "latest_first time rows = stable_sort (\<lambda>a b. time b < time a) rows"

definition get_audit_log ::
  "db_session \<Rightarrow> db \<Rightarrow> string \<Rightarrow> string option \<Rightarrow> string option \<Rightarrow> string option \<Rightarrow> nat \<Rightarrow> nat \<Rightarrow> audit_entry list" where
  "get_audit_log ss d tenant entity_type entity_id action limit offset =
     page limit offset (latest_first au_created
       (filter (\<lambda>e. visible ss (au_tenant e) \<and> au_tenant e = tenant \<and> restricts entity_type (au_entity_type e)
                  \<and> (entity_id = None \<or> entity_id = Some (au_entity_id e)) \<and> restricts action (au_action e)) (db_audit d)))"

section \<open>Versions\<close>

definition versions_of :: "db_session \<Rightarrow> db \<Rightarrow> string \<Rightarrow> workflow_version list" where
  "versions_of ss d wid = filter (\<lambda>v. wv_workflow v = wid \<and> visible ss (wv_tenant v)) (db_versions d)"

definition max_version_number :: "workflow_version list \<Rightarrow> int" where
  "max_version_number vs = foldl max 0 (map wv_version vs)"

text \<open>The row of a workflow, written back.\<close>

definition put_workflow :: "wf_row \<Rightarrow> ('j, unit) gact" where
  "put_workflow r = update_db (\<lambda>d. d\<lparr>db_workflows := update_where (\<lambda>q. wr_id q = wr_id r) (\<lambda>_. r) (db_workflows d)\<rparr>)"

text \<open>The row with its new version number is written and returned.\<close>

definition snapshot_workflow_version :: "int \<Rightarrow> wf_row \<Rightarrow> string option \<Rightarrow> ('j, wf_row) gact" where
  "snapshot_workflow_version now r created_by =
     bnd the_session (\<lambda>ss. bnd the_db (\<lambda>d.
     let w = wr_workflow r;
         n = max_version_number (versions_of ss d (wf_id w)) + 1;
         v = \<lparr>wv_tenant = wf_tenant w, wv_workflow = wf_id w, wv_version = n, wv_nodes = wf_nodes w, wv_edges = wf_edges w,
              wv_variables = wf_variables w, wv_created_by = created_by\<rparr>;
         r' = r\<lparr>wr_version := n, wr_updated := now\<rparr> in
     bnd (db_insert (visible ss (wf_tenant w)) (list_ex (\<lambda>q. wv_workflow q = wf_id w \<and> wv_version q = n) (db_versions d))
            (\<lambda>d. d\<lparr>db_versions := db_versions d @ [v]\<rparr>)) (\<lambda>_.
     bnd (put_workflow r') (\<lambda>_.
     ret r'))))"

definition get_workflow_versions :: "db_session \<Rightarrow> db \<Rightarrow> string \<Rightarrow> nat \<Rightarrow> nat \<Rightarrow> workflow_version list" where
  "get_workflow_versions ss d wid limit offset = page limit offset (latest_first wv_version (versions_of ss d wid))"

definition get_workflow_version :: "db_session \<Rightarrow> db \<Rightarrow> string \<Rightarrow> int \<Rightarrow> workflow_version option" where
  "get_workflow_version ss d wid n = find (\<lambda>v. wv_version v = n) (versions_of ss d wid)"

definition graph_state :: "wf_row \<Rightarrow> audit_value" where
  "graph_state r =
     [(''nodes'', AuNodes (wf_nodes (wr_workflow r))), (''edges'', AuEdges (wf_edges (wr_workflow r))),
      (''variables'', AuJson (PDict (wf_variables (wr_workflow r)))), (''version'', AuJson (PInt (wr_version r)))]"

text \<open>The row of a workflow that a session sees.\<close>

definition find_workflow_row :: "db_session \<Rightarrow> db \<Rightarrow> string \<Rightarrow> wf_row option" where
  "find_workflow_row ss d wid = find (\<lambda>r. wr_id r = wid \<and> visible ss (wr_tenant r)) (db_workflows d)"

definition restore_graph :: "workflow_version \<Rightarrow> wf_row \<Rightarrow> wf_row" where
  "restore_graph v r =
     r\<lparr>wr_workflow := (wr_workflow r)\<lparr>wf_nodes := wv_nodes v, wf_edges := wv_edges v, wf_variables := wv_variables v\<rparr>\<rparr>"

text \<open>The workflow and the version are looked up by identifier alone.\<close>

definition rollback_workflow :: "int \<Rightarrow> string \<Rightarrow> int \<Rightarrow> string option \<Rightarrow> string option \<Rightarrow> ('j, wf_row option) gact" where
  "rollback_workflow now wid target user_id ip_address =
     bnd the_session (\<lambda>ss. bnd the_db (\<lambda>d.
     case (find_workflow_row ss d wid, get_workflow_version ss d wid target) of
       (Some r, Some v) \<Rightarrow>
         bnd (snapshot_workflow_version now (restore_graph v r) user_id) (\<lambda>r'.
         bnd (record_audit now (wr_tenant r') ''workflow'' (wr_id r') ''rollback'' (Some (graph_state r))
                (Some (graph_state r' @ [(''rolled_back_from'', AuJson (PInt target))])) user_id ip_address) (\<lambda>_.
         ret (Some r')))
     | _ \<Rightarrow> ret None))"

end
