(* ===== verification/WorkflowAccess.thy ===== *)
theory WorkflowAccess
  imports IpFacts Engine
begin

text \<open>
  Who may start a workflow by a request (\<^verbatim>\<open>api/gateway.py\<close>): what the gateway reads off the trigger node,
  the list of addresses a trigger admits, the address of the client, and the check.  Whether an address is
  private, loopback or link-local is the argument \<open>local_ip\<close>; it matters only when the server does not know
  the address of the client and a header is read instead.
\<close>

section \<open>The trigger of a workflow\<close>

definition trigger_config :: "node list \<Rightarrow> pydict option" where
  "trigger_config nodes = map_option n_config (find (\<lambda>n. n_type n = ''trigger'') nodes)"

definition extract_trigger_info :: "node list \<Rightarrow> pyval \<times> pyval" where
  "extract_trigger_info nodes =
     (case trigger_config nodes of
        None \<Rightarrow> (PNone, PNone)
      | Some config \<Rightarrow> (dget config ''connector_name'' PNone, dget config ''event'' PNone))"

definition extract_trigger_credential :: "node list \<Rightarrow> pyval" where
  "extract_trigger_credential nodes =
     (case trigger_config nodes of
        None \<Rightarrow> PStr ''default''
      | Some config \<Rightarrow> dget config ''credential_name'' (PStr ''default''))"

definition extract_trigger_allowed_ips :: "node list \<Rightarrow> pyval" where
  "extract_trigger_allowed_ips nodes =
     (case trigger_config nodes of None \<Rightarrow> PNone | Some config \<Rightarrow> dget config ''allowed_ips'' PNone)"

section \<open>The admitted addresses\<close>

text \<open>\<^verbatim>\<open>re.split(r"[\n,]+", s)\<close>.\<close>

function split_runs :: "(char \<Rightarrow> bool) \<Rightarrow> string \<Rightarrow> string \<Rightarrow> string list" where
  "split_runs sep acc [] = [rev acc]"
| "split_runs sep acc (c # cs) =
     (if sep c then rev acc # split_runs sep [] (dropWhile sep cs) else split_runs sep (c # acc) cs)"
  by pat_completeness auto
termination
  by (relation "measure (\<lambda>(sep, acc, s). length s)") (auto simp: le_imp_less_Suc length_dropWhile_le)

definition allowed_ip_entries :: "pyrt \<Rightarrow> pyval \<Rightarrow> string list py" where
  "allowed_ip_entries rt raw =
     (case raw of
        PNone \<Rightarrow> Inr []
      | PStr s \<Rightarrow> Inr (map py_strip (split_runs (\<lambda>c. c = CHR 0x0A \<or> c = CHR '','') [] s))
      | PList parts \<Rightarrow> Inr (map (\<lambda>p. py_strip (py_str rt p)) parts)
      | _ \<Rightarrow> Inl (HTTPException 400 ''Trigger allowed IPs must be a string or list of strings''))"

definition is_cidr :: "string \<Rightarrow> bool" where
  "is_cidr entry = contains_sub entry ''/''"

definition normalize_entry :: "string \<Rightarrow> string py" where
  "normalize_entry entry =
     (case (if is_cidr entry then map_option print_net (ip_network entry) else map_option print_ip (ip_address entry)) of
        Some s \<Rightarrow> Inr s
      | None \<Rightarrow> Inl (HTTPException 400 (''Invalid trigger allowed IP or CIDR entry: '' @ entry)))"

definition normalize_trigger_allowed_ips :: "pyrt \<Rightarrow> pyval \<Rightarrow> string list py" where
  "normalize_trigger_allowed_ips rt raw =
     andThen (allowed_ip_entries rt raw) (\<lambda>entries. mapM normalize_entry (filter (\<lambda>e. e \<noteq> []) entries))"

definition validate_trigger_request_access :: "pyrt \<Rightarrow> node list \<Rightarrow> unit py" where
  "validate_trigger_request_access rt nodes =
     andThen (normalize_trigger_allowed_ips rt (extract_trigger_allowed_ips nodes)) (\<lambda>_. Inr ())"

section \<open>The client\<close>

text \<open>Headers and query parameters as the request has them; names of headers are in lower case.\<close>

record http_request =
  hq_client :: "string option"
  hq_headers :: "(string \<times> string) list"
  hq_query :: "(string \<times> string) list"

definition first_public :: "(ip_addr \<Rightarrow> bool) \<Rightarrow> string list \<Rightarrow> string option" where
  "first_public local_ip parts = find (\<lambda>p. case ip_address p of None \<Rightarrow> False | Some a \<Rightarrow> \<not> local_ip a) parts"

definition get_request_client_ip :: "(ip_addr \<Rightarrow> bool) \<Rightarrow> http_request \<Rightarrow> string option" where
  "get_request_client_ip local_ip rq =
     (case hq_client rq of
        Some (c # cs) \<Rightarrow> Some (c # cs)
      | _ \<Rightarrow>
          let parts = filter (\<lambda>p. p \<noteq> []) (map py_strip (py_split '','' (dget (hq_headers rq) ''x-forwarded-for'' []))) in
          if dget (hq_headers rq) ''x-forwarded-for'' [] = [] then None
          else case first_public local_ip (rev parts) of
            Some p \<Rightarrow> Some p
          | None \<Rightarrow> if parts \<noteq> [] then Some (last parts) else None)"

section \<open>The check\<close>

definition not_an_ip :: "string \<Rightarrow> string \<Rightarrow> exn" where
  "not_an_ip what s = ValueError (str_repr s @ '' does not appear to be an IPv4 or IPv6 '' @ what)"

fun admitted :: "ip_addr \<Rightarrow> string list \<Rightarrow> bool py" where
  "admitted client [] = Inr False"
| "admitted client (entry # rest) =
     (if is_cidr entry
      then (case ip_network entry of
              None \<Rightarrow> Inl (not_an_ip ''network'' entry)
            | Some n \<Rightarrow> if in_network client n then Inr True else admitted client rest)
      else (case ip_address entry of
              None \<Rightarrow> Inl (not_an_ip ''address'' entry)
            | Some a \<Rightarrow> if client = a then Inr True else admitted client rest))"

definition enforce_workflow_request_ip_allowlist ::
  "pyrt \<Rightarrow> (ip_addr \<Rightarrow> bool) \<Rightarrow> node list \<Rightarrow> http_request \<Rightarrow> unit py" where
  "enforce_workflow_request_ip_allowlist rt local_ip nodes rq =
     andThen (normalize_trigger_allowed_ips rt (extract_trigger_allowed_ips nodes)) (\<lambda>allowed.
     if allowed = [] then Inr ()
     else case get_request_client_ip local_ip rq of
       None \<Rightarrow> Inl (HTTPException 403 ''Unable to determine client IP for workflow request'')
     | Some client_ip \<Rightarrow>
         if client_ip = [] then Inl (HTTPException 403 ''Unable to determine client IP for workflow request'')
         else case ip_address client_ip of
           None \<Rightarrow> Inl (HTTPException 403 ''Invalid client IP address'')
         | Some client \<Rightarrow>
             andThen (admitted client allowed) (\<lambda>ok.
             if ok then Inr () else Inl (HTTPException 403 ''Client IP is not allowed for this workflow'')))"

section \<open>Normalising changes nothing\<close>

text \<open>An entry as the author of the workflow wrote it admits an address.\<close>

definition entry_admits :: "ip_addr \<Rightarrow> string \<Rightarrow> bool" where
  "entry_admits client entry =
     (if is_cidr entry then (case ip_network entry of None \<Rightarrow> False | Some n \<Rightarrow> in_network client n)
      else ip_address entry = Some client)"

lemma print_net_is_cidr: "is_cidr (print_net n)"
  by (cases n) (simp_all add: is_cidr_def contains_sub_char)

lemma print_ip_not_cidr: "scope_ok a \<Longrightarrow> \<not> is_cidr (print_ip a)"
proof (cases a)
  case (IPv4 w)
  then show ?thesis
    using print_ipv4_chars [of "CHR ''/''" w] not_digit(3) by (auto simp: is_cidr_def contains_sub_char)
next
  case (IPv6 w scope)
  assume "scope_ok a"
  with IPv6 show ?thesis
    using print_ipv6_chars [of "CHR ''/''" w] not_hex(3)
    by (auto simp: is_cidr_def contains_sub_char scope_suffix_def split: option.splits)
qed

lemma normalized_entry:
  assumes "normalize_entry entry = Inr s"
  shows "is_cidr s = is_cidr entry" and "ip_network s = ip_network entry \<or> \<not> is_cidr entry"
    and "ip_address s = ip_address entry \<or> is_cidr entry" and "ip_network s \<noteq> None \<or> \<not> is_cidr s" and "ip_address s \<noteq> None \<or> is_cidr s"
  using assms
  by (auto simp: normalize_entry_def print_net_is_cidr print_ip_not_cidr ip_network_net_ok ip_network_print_net
      ip_address_scope_ok ip_address_print_ip split: if_splits option.splits)

lemma admitted_normalized:
  assumes "mapM normalize_entry entries = Inr ss"
  shows "admitted client ss = Inr (list_ex (entry_admits client) entries)"
  using assms
proof (induction entries arbitrary: ss)
  case (Cons e es)
  then obtain s rest where ss: "ss = s # rest" and s: "normalize_entry e = Inr s" and "mapM normalize_entry es = Inr rest"
    by (auto simp: andThen_eq_Inr)
  with Cons.IH have "admitted client rest = Inr (list_ex (entry_admits client) es)" by blast
  then show ?case
    using normalized_entry [OF s] ss by (cases "is_cidr e") (auto simp: entry_admits_def [of client e] split: option.splits)
qed simp

end
