(* ===== verification/TenantAccess.thy ===== *)
theory TenantAccess
  imports AuditTrail WorkflowAccess Registry
begin

text \<open>
  Authentication (\<^verbatim>\<open>api/auth.py\<close>), the two shared secrets, the management of tenants and API keys, and the
  registration of demo tenants (\<^verbatim>\<open>api/gateway.py\<close>).  SHA-256 is the field \<open>gw_hash_key\<close>; new identifiers and
  the random part of a key are arguments.
\<close>

record 'j gateway =
  gw_rt :: pyrt
  gw_registry :: registry
  gw_cipher :: cipher
  gw_jobs :: "'j job_api"
  gw_scheduler_enabled :: bool
  gw_engine :: engine
  gw_digest :: "pydict \<Rightarrow> string"
  gw_fuel :: nat
  gw_local_ip :: "ip_addr \<Rightarrow> bool"
  gw_hash_key :: "string \<Rightarrow> string"
  gw_uuid :: "string \<Rightarrow> string option"
  gw_uuid5 :: "string \<Rightarrow> string"
  gw_admin_secret :: string
  gw_internal_secret :: string
  gw_demo_mode :: bool
  gw_mask :: string

section \<open>Authentication\<close>

definition use_tenant :: "string \<Rightarrow> ('j, tenant_row) gact" where
  "use_tenant tid =
     bnd the_db (\<lambda>d.
     case find (\<lambda>t. te_id t = tid \<and> te_active t) (db_tenants d) of
       None \<Rightarrow> throw (HTTPException 403 ''Tenant is disabled'')
     | Some t \<Rightarrow>
         bnd (modify (\<lambda>w. w\<lparr>pf_session := set_rls_tenant (te_id t) (pf_session w)\<rparr>)) (\<lambda>_.
         ret t))"

definition find_key :: "'j gateway \<Rightarrow> db \<Rightarrow> string \<Rightarrow> key_row option" where
  "find_key gw d key = find (\<lambda>k. ak_key_hash k = gw_hash_key gw key \<and> ak_active k) (db_keys d)"

definition resolve_tenant :: "'j gateway \<Rightarrow> string option \<Rightarrow> ('j, tenant_row) gact" where
  "resolve_tenant gw key =
     (if key = None \<or> key = Some [] then throw (HTTPException 401 ''Missing API key'')
      else bnd the_db (\<lambda>d.
        case find_key gw d (the key) of
          None \<Rightarrow> throw (HTTPException 401 ''Invalid API key'')
        | Some k \<Rightarrow> use_tenant (ak_tenant k)))"

text \<open>The table of tokens is under row level security, and no tenant is set yet.\<close>

definition resolve_tenant_by_token :: "string \<Rightarrow> ('j, tenant_row) gact" where
  "resolve_tenant_by_token token =
     bnd the_session (\<lambda>ss. bnd the_db (\<lambda>d.
     case find (\<lambda>t. ct_token t = token \<and> ct_active t) (va_tokens (rls_vault ss (db_vault d))) of
       None \<Rightarrow> throw (HTTPException 401 ''Invalid or inactive credential token'')
     | Some t \<Rightarrow> use_tenant (ct_tenant t)))"

definition get_current_tenant :: "'j gateway \<Rightarrow> http_request \<Rightarrow> ('j, tenant_row) gact" where
  "get_current_tenant gw rq = resolve_tenant gw (map_of (hq_headers rq) ''x-api-key'')"

definition request_token :: "http_request \<Rightarrow> string" where
  "request_token rq =
     (let token = py_strip (dget (hq_headers rq) ''x-credential-token'' []) in
      if token \<noteq> [] then token else py_strip (dget (hq_query rq) ''token'' []))"

definition get_current_tenant_or_token :: "'j gateway \<Rightarrow> http_request \<Rightarrow> ('j, tenant_row) gact" where
  "get_current_tenant_or_token gw rq =
     (if dget (hq_headers rq) ''x-api-key'' [] \<noteq> [] then resolve_tenant gw (map_of (hq_headers rq) ''x-api-key'')
      else if request_token rq \<noteq> [] then resolve_tenant_by_token (request_token rq)
      else throw (HTTPException 401 ''Provide X-API-Key header, X-Credential-Token header, or ?token= query parameter''))"

text \<open>An endpoint of a tenant, and one that also takes a credential token.\<close>

definition for_tenant :: "'j gateway \<Rightarrow> http_request \<Rightarrow> (tenant_row \<Rightarrow> ('j, 'a) gact) \<Rightarrow> ('j, 'a) gact" where
  "for_tenant gw rq handler = in_request (bnd (get_current_tenant gw rq) handler)"

definition generate_api_key :: "'j gateway \<Rightarrow> string \<Rightarrow> string \<Rightarrow> string \<times> string" where
  "generate_api_key gw prefix random_hex =
     (let raw_key = prefix @ ''_'' @ random_hex in (raw_key, gw_hash_key gw raw_key))"

definition get_current_user :: "tenant_row \<Rightarrow> ('j, string \<times> string \<times> string) gact" where
  "get_current_user t = ret (te_name t, te_slug t, te_plan t)"

section \<open>Shared secrets\<close>

text \<open>The dash of the messages is outside the model and written as a hyphen.\<close>

definition require_admin_secret :: "'j gateway \<Rightarrow> http_request \<Rightarrow> unit py" where
  "require_admin_secret gw rq =
     (if gw_admin_secret gw = []
      then Inl (HTTPException 403 ''Tenant management is disabled - set ADMIN_SECRET to enable'')
      else if dget (hq_headers rq) ''x-admin-secret'' [] \<noteq> gw_admin_secret gw then Inl (HTTPException 403 ''Invalid admin secret'')
      else Inr ())"

definition require_internal_secret :: "'j gateway \<Rightarrow> http_request \<Rightarrow> unit py" where
  "require_internal_secret gw rq =
     (if gw_internal_secret gw = []
      then Inl (HTTPException 403 ''Internal endpoints disabled - INTERNAL_SECRET not configured'')
      else if dget (hq_headers rq) ''x-internal-secret'' [] \<noteq> gw_internal_secret gw
      then Inl (HTTPException 403 ''Invalid internal secret'')
      else Inr ())"

section \<open>Tenants and keys\<close>

definition list_tenants :: "'j gateway \<Rightarrow> http_request \<Rightarrow> ('j, (tenant_row \<times> key_row list) list) gact" where
  "list_tenants gw rq =
     in_request (bnd (liftE (require_admin_secret gw rq)) (\<lambda>_. bnd the_db (\<lambda>d.
     ret (map (\<lambda>t. (t, filter (\<lambda>k. ak_tenant k = te_id t) (db_keys d))) (db_tenants d)))))"

definition insert_tenant :: "tenant_row \<Rightarrow> ('j, unit) gact" where
  "insert_tenant t =
     bnd the_db (\<lambda>d.
     db_insert True (list_ex (\<lambda>q. te_id q = te_id t \<or> te_slug q = te_slug t) (db_tenants d))
       (\<lambda>d. d\<lparr>db_tenants := db_tenants d @ [t]\<rparr>))"

definition insert_key :: "key_row \<Rightarrow> ('j, unit) gact" where
  "insert_key k =
     bnd the_db (\<lambda>d.
     db_insert True (list_ex (\<lambda>q. ak_key_hash q = ak_key_hash k) (db_keys d)) (\<lambda>d. d\<lparr>db_keys := db_keys d @ [k]\<rparr>))"

definition new_tenant :: "string \<Rightarrow> string \<Rightarrow> string \<Rightarrow> string \<Rightarrow> tenant_row" where
  "new_tenant new_id name slug plan = \<lparr>te_id = new_id, te_active = True, te_name = name, te_slug = slug, te_plan = plan\<rparr>"

definition new_key :: "'j gateway \<Rightarrow> string \<Rightarrow> string \<Rightarrow> string \<Rightarrow> key_row" where
  "new_key gw tenant raw_key name =
     \<lparr>ak_key_hash = gw_hash_key gw raw_key, ak_tenant = tenant, ak_active = True, ak_prefix = take 10 raw_key, ak_name = name\<rparr>"

definition create_tenant :: "'j gateway \<Rightarrow> http_request \<Rightarrow> string \<Rightarrow> string \<Rightarrow> string \<Rightarrow> ('j, tenant_row) gact" where
  "create_tenant gw rq new_id name slug =
     in_request (bnd (liftE (require_admin_secret gw rq)) (\<lambda>_. bnd the_db (\<lambda>d.
     if list_ex (\<lambda>t. te_slug t = slug) (db_tenants d)
     then throw (HTTPException 409 (''Tenant with slug '' @ [single_quote] @ slug @ [single_quote] @ '' already exists''))
     else bnd (insert_tenant (new_tenant new_id name slug ''free'')) (\<lambda>_. bnd commit (\<lambda>_.
       ret (new_tenant new_id name slug ''free''))))))"

definition create_api_key :: "'j gateway \<Rightarrow> http_request \<Rightarrow> string \<Rightarrow> string \<Rightarrow> string \<Rightarrow> ('j, key_row \<times> string) gact" where
  "create_api_key gw rq tenant_text random_hex name =
     in_request (bnd (liftE (require_admin_secret gw rq)) (\<lambda>_.
     case gw_uuid gw tenant_text of
       None \<Rightarrow> throw (HTTPException 400 ''Invalid tenant_id format'')
     | Some tid \<Rightarrow> bnd the_db (\<lambda>d.
         if \<not> list_ex (\<lambda>t. te_id t = tid) (db_tenants d) then throw (HTTPException 404 ''Tenant not found'')
         else let raw_key = fst (generate_api_key gw ''pk_live'' random_hex);
                  k = new_key gw tid raw_key name in
           bnd (insert_key k) (\<lambda>_. bnd commit (\<lambda>_. ret (k, raw_key))))))"

section \<open>Demo tenants\<close>

definition demo_rate_limit :: nat where "demo_rate_limit = 10"

definition demo_rate_window :: nat where "demo_rate_window = 3600"

definition is_word_char :: "char \<Rightarrow> bool" where
  "is_word_char c \<longleftrightarrow> is_digit c \<or> (97 \<le> char_code c \<and> char_code c \<le> 122) \<or> (65 \<le> char_code c \<and> char_code c \<le> 90) \<or> c = CHR ''_''"

text \<open>\<^verbatim>\<open>re.sub(r"[...]+", "-", s)\<close> for a set of characters.\<close>

fun collapse :: "(char \<Rightarrow> bool) \<Rightarrow> bool \<Rightarrow> string \<Rightarrow> string" where
  "collapse P inside [] = []"
| "collapse P inside (c # cs) =
     (if P c then (if inside then collapse P True cs else CHR ''-'' # collapse P True cs) else c # collapse P False cs)"

definition slugify :: "string \<Rightarrow> string" where
  "slugify s =
     (let a = filter (\<lambda>c. is_word_char c \<or> is_space c \<or> c = CHR ''-'') (py_strip (py_lower s));
          b = collapse (\<lambda>c. is_space c \<or> c = CHR ''_'') False a;
          slug = rstrip_char (CHR ''-'') (lstrip_char (CHR ''-'') (collapse (\<lambda>c. c = CHR ''-'') False b)) in
      if slug = [] then ''workspace'' else slug)"

text \<open>\<open>redis_up\<close> says whether the pipeline succeeds.  What the window counts is kept, also when the request is
  refused.\<close>

definition demo_rate_check :: "bool \<Rightarrow> rat \<Rightarrow> string \<Rightarrow> ('j, unit) gact" where
  "demo_rate_check redis_up now client_ip =
     (if \<not> redis_up then throw (HTTPException 503 ''Rate limiting service unavailable'')
      else (\<lambda>w.
        let key = ''demo_register:'' @ client_ip;
            stamps = window_entries (dget (pf_windows w) key []) demo_rate_window now in
        Some (if demo_rate_limit < length stamps
              then Inl (HTTPException 429 ''Too many demo registrations. Try again later.'') else Inr (),
              w\<lparr>pf_windows := dset (pf_windows w) key stamps\<rparr>)))"

definition demo_register ::
  "'j gateway \<Rightarrow> bool \<Rightarrow> rat \<Rightarrow> http_request \<Rightarrow> string \<Rightarrow> string \<Rightarrow> string \<Rightarrow> string \<Rightarrow> ('j, string \<times> string \<times> string) gact" where
  "demo_register gw redis_up now rq new_id suffix random_hex workspace_name =
     in_request (if \<not> gw_demo_mode gw then throw (HTTPException 404 ''Not found'')
     else bnd (demo_rate_check redis_up now (case hq_client rq of None \<Rightarrow> ''unknown'' | Some h \<Rightarrow> h)) (\<lambda>_.
       let slug = slugify workspace_name @ ''-'' @ suffix;
           raw_key = fst (generate_api_key gw ''pk_demo'' random_hex) in
       bnd (insert_tenant (new_tenant new_id workspace_name slug ''demo'')) (\<lambda>_.
       bnd (insert_key (new_key gw new_id raw_key ''demo-dashboard'')) (\<lambda>_. bnd commit (\<lambda>_.
       ret (raw_key, workspace_name, slug))))))"

definition demo_validate_key :: "'j gateway \<Rightarrow> string \<Rightarrow> ('j, string option) gact" where
  "demo_validate_key gw key =
     in_request (if \<not> gw_demo_mode gw then throw (HTTPException 404 ''Not found'')
     else bnd the_db (\<lambda>d.
       ret (case find_key gw d key of
              None \<Rightarrow> None
            | Some k \<Rightarrow> map_option te_name (find (\<lambda>t. te_id t = ak_tenant k \<and> te_active t) (db_tenants d)))))"

end
