(* ===== verification/WorkflowGateway.thy ===== *)
theory WorkflowGateway
  imports TenantAccess
begin

text \<open>
  The workflow endpoints of the gateway (\<^verbatim>\<open>api/gateway.py\<close>): create, read, update, delete, enable, versions
  and rollback, runs on request, and the maintenance of the synchronisation ledger.  An endpoint is an
  action on \<open>platform\<close> for the tenant that authentication found; \<^verbatim>\<open>for_tenant\<close> puts both together.
\<close>

section \<open>Accounts of trigger connectors\<close>

text \<open>The credentials are read in the session as it is after the commit.  Whatever raises is logged.\<close>

definition account_to_provision ::
  "'j gateway \<Rightarrow> db_session \<Rightarrow> db \<Rightarrow> string \<Rightarrow> string \<Rightarrow> string \<Rightarrow> bool \<Rightarrow> provision option" where
  "account_to_provision gw ss d tenant connector credential force =
     (case get_by_name (gw_registry gw) connector of
        [] \<Rightarrow> None
      | manifest # _ \<Rightarrow>
          let provisioning = cm_credential_provisioning manifest in
          if provisioning = [] \<or> dget provisioning ''mode'' PNone \<noteq> PStr ''account'' then None
          else case retrieve_all (gw_cipher gw) (rls_vault ss (db_vault d)) tenant connector credential of
            Inl _ \<Rightarrow> None
          | Inr creds \<Rightarrow>
              if creds = [] then None
              else Some \<lparr>pv_base_url = base_url manifest,
                         pv_credentials = (if dhas creds ''account_name'' then creds else dset creds ''account_name'' credential),
                         pv_config = provisioning, pv_force = force\<rparr>)"

definition do_provision :: "provision option \<Rightarrow> ('j, unit) gact" where
  "do_provision p =
     (case p of None \<Rightarrow> ret () | Some x \<Rightarrow> modify (\<lambda>w. w\<lparr>pf_provisioned := pf_provisioned w @ [x]\<rparr>))"

definition provision_trigger_account :: "'j gateway \<Rightarrow> string \<Rightarrow> node list \<Rightarrow> ('j, unit) gact" where
  "provision_trigger_account gw tenant nodes =
     bnd the_session (\<lambda>ss. bnd the_db (\<lambda>d.
     case (fst (extract_trigger_info nodes), extract_trigger_credential nodes) of
       (PStr connector, PStr credential) \<Rightarrow>
         if connector = [] then ret () else do_provision (account_to_provision gw ss d tenant connector credential False)
     | _ \<Rightarrow> ret ()))"

section \<open>Create\<close>

record wf_body =
  wb_name :: string
  wb_description :: string
  wb_nodes :: "node list"
  wb_edges :: "edge list"
  wb_variables :: pydict
  wb_sync_config :: "pydict option"
  wb_on_error :: string
  wb_max_retries :: int
  wb_timeout_seconds :: int

text \<open>A value for a column of texts of at most \<open>most\<close> characters.\<close>

definition text_column :: "nat \<Rightarrow> pyval \<Rightarrow> string option py" where
  "text_column most v =
     (case v of
        PNone \<Rightarrow> Inr None
      | PStr s \<Rightarrow> if most < length s then Inl (OtherError ''DBAPIError'' ''value too long'') else Inr (Some s)
      | _ \<Rightarrow> Inl (OtherError ''DBAPIError'' ''expected str''))"

definition trigger_columns :: "node list \<Rightarrow> (string option \<times> string option) py" where
  "trigger_columns nodes =
     (case extract_trigger_info nodes of
        (connector, event) \<Rightarrow>
          andThen (text_column 100 connector) (\<lambda>c. andThen (text_column 100 event) (\<lambda>e. Inr (c, e))))"

definition new_workflow :: "string \<Rightarrow> string \<Rightarrow> wf_body \<Rightarrow> string option \<times> string option \<Rightarrow> workflow" where
  "new_workflow new_id tenant b columns =
     \<lparr>wf_id = new_id, wf_tenant = tenant, wf_name = wb_name b, wf_nodes = wb_nodes b, wf_edges = wb_edges b,
      wf_variables = wb_variables b, wf_on_error = wb_on_error b, wf_max_retries = wb_max_retries b,
      wf_timeout_seconds = wb_timeout_seconds b, wf_is_enabled = False, wf_trigger_connector = fst columns,
      wf_trigger_event = snd columns, wf_sync_config = wb_sync_config b\<rparr>"

definition insert_workflow :: "wf_row \<Rightarrow> ('j, unit) gact" where
  "insert_workflow r =
     bnd the_session (\<lambda>ss. bnd the_db (\<lambda>d.
     db_insert (visible ss (wr_tenant r)) (list_ex (\<lambda>q. wr_id q = wr_id r) (db_workflows d))
       (\<lambda>d. d\<lparr>db_workflows := db_workflows d @ [r]\<rparr>)))"

definition create_workflow :: "'j gateway \<Rightarrow> int \<Rightarrow> string \<Rightarrow> wf_body \<Rightarrow> tenant_row \<Rightarrow> ('j, wf_row) gact" where
  "create_workflow gw now new_id b t =
     bnd (liftE (validate_trigger_request_access (gw_rt gw) (wb_nodes b))) (\<lambda>_.
     bnd (liftE (trigger_columns (wb_nodes b))) (\<lambda>columns.
     let r = \<lparr>wr_workflow = new_workflow new_id (te_id t) b columns, wr_description = wb_description b, wr_version = 1,
              wr_updated = now\<rparr> in
     bnd (insert_workflow r) (\<lambda>_.
     bnd (snapshot_workflow_version now r (Some (te_slug t))) (\<lambda>r'.
     bnd (record_audit now (te_id t) ''workflow'' new_id ''create'' None
            (Some [(''name'', AuJson (PStr (wb_name b))), (''node_count'', AuJson (PInt (int (length (wb_nodes b))))),
                   (''edge_count'', AuJson (PInt (int (length (wb_edges b)))))]) (Some (te_slug t)) None) (\<lambda>_.
     bnd commit (\<lambda>_.
     bnd (provision_trigger_account gw (te_id t) (wb_nodes b)) (\<lambda>_.
     ret r')))))))"

section \<open>Read\<close>

definition workflow_not_found :: exn where
  "workflow_not_found = HTTPException 404 ''Workflow not found''"

definition own_workflow :: "string \<Rightarrow> tenant_row \<Rightarrow> ('j, wf_row) gact" where
  "own_workflow wid t =
     bnd the_session (\<lambda>ss. bnd the_db (\<lambda>d.
     case find (\<lambda>r. wr_id r = wid \<and> wr_tenant r = te_id t \<and> visible ss (wr_tenant r)) (db_workflows d) of
       None \<Rightarrow> throw workflow_not_found
     | Some r \<Rightarrow> ret r))"

definition list_workflows :: "tenant_row \<Rightarrow> ('j, wf_row list) gact" where
  "list_workflows t =
     bnd the_session (\<lambda>ss. bnd the_db (\<lambda>d.
     ret (latest_first wr_updated (filter (\<lambda>r. wr_tenant r = te_id t \<and> visible ss (wr_tenant r)) (db_workflows d)))))"

definition get_workflow :: "string \<Rightarrow> tenant_row \<Rightarrow> ('j, wf_row) gact" where
  "get_workflow wid t = own_workflow wid t"

section \<open>Update\<close>

text \<open>A field of \<^verbatim>\<open>WorkflowUpdate\<close> is not sent, sent as null, or sent with a value.  A null for the variables is
  not modelled.\<close>

datatype 'a patch = Unset | Null | Set 'a

record wf_patch =
  wp_name :: "string patch"
  wp_description :: "string patch"
  wp_nodes :: "node list patch"
  wp_edges :: "edge list patch"
  wp_variables :: "pydict option"
  wp_sync_config :: "pydict patch"
  wp_is_enabled :: "bool patch"
  wp_on_error :: "string patch"
  wp_max_retries :: "int patch"
  wp_timeout_seconds :: "int patch"

text \<open>A null breaks the constraint of a column that may not be null.\<close>

definition patched :: "'a patch \<Rightarrow> 'a \<Rightarrow> 'a py" where
  "patched p old =
     (case p of
        Unset \<Rightarrow> Inr old
      | Null \<Rightarrow> Inl (OtherError ''IntegrityError'' ''null value violates not-null constraint'')
      | Set x \<Rightarrow> Inr x)"

text \<open>\<^verbatim>\<open>[... for n in update_data["nodes"]]\<close>.\<close>

definition patch_list :: "'a list patch \<Rightarrow> unit py" where
  "patch_list p = (case p of Null \<Rightarrow> Inl (not_iterable_error PNone) | _ \<Rightarrow> Inr ())"

definition apply_patch :: "pyrt \<Rightarrow> wf_patch \<Rightarrow> wf_row \<Rightarrow> wf_row py" where
  "apply_patch rt p r =
     (let w = wr_workflow r in
      andThen (patch_list (wp_nodes p)) (\<lambda>_.
      andThen (case wp_nodes p of Set ns \<Rightarrow> validate_trigger_request_access rt ns | _ \<Rightarrow> Inr ()) (\<lambda>_.
      andThen (patch_list (wp_edges p)) (\<lambda>_.
      andThen (case wp_nodes p of Set ns \<Rightarrow> trigger_columns ns | _ \<Rightarrow> Inr (wf_trigger_connector w, wf_trigger_event w)) (\<lambda>columns.
      andThen (patched (wp_name p) (wf_name w)) (\<lambda>name.
      andThen (patched (wp_description p) (wr_description r)) (\<lambda>description.
      andThen (patched (wp_nodes p) (wf_nodes w)) (\<lambda>nodes.
      andThen (patched (wp_edges p) (wf_edges w)) (\<lambda>edges.
      andThen (patched (wp_is_enabled p) (wf_is_enabled w)) (\<lambda>enabled.
      andThen (patched (wp_on_error p) (wf_on_error w)) (\<lambda>on_error.
      andThen (patched (wp_max_retries p) (wf_max_retries w)) (\<lambda>max_retries.
      andThen (patched (wp_timeout_seconds p) (wf_timeout_seconds w)) (\<lambda>timeout.
      Inr (r\<lparr>wr_description := description,
             wr_workflow := w\<lparr>wf_name := name, wf_nodes := nodes, wf_edges := edges,
               wf_variables := (case wp_variables p of None \<Rightarrow> wf_variables w | Some v \<Rightarrow> v), wf_on_error := on_error,
               wf_max_retries := max_retries, wf_timeout_seconds := timeout, wf_is_enabled := enabled,
               wf_trigger_connector := fst columns, wf_trigger_event := snd columns,
               wf_sync_config := (case wp_sync_config p of Unset \<Rightarrow> wf_sync_config w | Null \<Rightarrow> None | Set c \<Rightarrow> Some c)\<rparr>\<rparr>))))))))))))))"

definition patch_item :: "string \<Rightarrow> ('a \<Rightarrow> audit_item) \<Rightarrow> 'a patch \<Rightarrow> audit_value" where
  "patch_item name f p = (case p of Unset \<Rightarrow> [] | Null \<Rightarrow> [(name, AuJson PNone)] | Set x \<Rightarrow> [(name, f x)])"

definition patch_audit :: "wf_patch \<Rightarrow> audit_value" where
  "patch_audit p =
     patch_item ''name'' (\<lambda>s. AuJson (PStr s)) (wp_name p) @ patch_item ''nodes'' AuNodes (wp_nodes p) @
     patch_item ''edges'' AuEdges (wp_edges p) @
     (case wp_variables p of None \<Rightarrow> [] | Some v \<Rightarrow> [(''variables'', AuJson (PDict v))]) @
     patch_item ''is_enabled'' (\<lambda>b. AuJson (PBool b)) (wp_is_enabled p)"

definition reschedule :: "'j gateway \<Rightarrow> wf_row \<Rightarrow> ('j, unit) gact" where
  "reschedule gw r =
     (if gw_scheduler_enabled gw
      then modify (\<lambda>w. w\<lparr>pf_scheduler := register_workflow (gw_jobs gw) (wr_workflow r) (pf_scheduler w)\<rparr>) else ret ())"

definition update_workflow :: "'j gateway \<Rightarrow> int \<Rightarrow> string \<Rightarrow> wf_patch \<Rightarrow> tenant_row \<Rightarrow> ('j, wf_row) gact" where
  "update_workflow gw now wid p t =
     bnd (own_workflow wid t) (\<lambda>r.
     bnd (liftE (apply_patch (gw_rt gw) p r)) (\<lambda>r1.
     bnd (snapshot_workflow_version now r1 (Some (te_slug t))) (\<lambda>r2.
     bnd (record_audit now (te_id t) ''workflow'' (wr_id r2) ''update'' (Some (graph_state r)) (Some (patch_audit p))
            (Some (te_slug t)) None) (\<lambda>_.
     bnd commit (\<lambda>_.
     bnd (if wp_nodes p \<noteq> Unset \<or> wp_is_enabled p = Set True
          then provision_trigger_account gw (te_id t) (wf_nodes (wr_workflow r2)) else ret ()) (\<lambda>_.
     bnd (reschedule gw r2) (\<lambda>_.
     ret r2)))))))"

section \<open>Delete and enable\<close>

text \<open>The versions of a deleted workflow and its rows of the ledger are deleted with it (\<^verbatim>\<open>ON DELETE CASCADE\<close>).\<close>

definition drop_workflow :: "string \<Rightarrow> ('j, unit) gact" where
  "drop_workflow wid =
     modify (\<lambda>w. w\<lparr>pf_db := (pf_db w)\<lparr>db_workflows := filter (\<lambda>r. wr_id r \<noteq> wid) (db_workflows (pf_db w)),
                                       db_versions := filter (\<lambda>v. wv_workflow v \<noteq> wid) (db_versions (pf_db w))\<rparr>,
                     pf_state := (pf_state w)\<lparr>ps_ledger := (ps_ledger (pf_state w))
                       \<lparr>lg_rows := filter (\<lambda>r. lr_workflow_id r \<noteq> wid) (lg_rows (ps_ledger (pf_state w)))\<rparr>\<rparr>\<rparr>)"

definition delete_workflow :: "'j gateway \<Rightarrow> int \<Rightarrow> string \<Rightarrow> tenant_row \<Rightarrow> ('j, unit) gact" where
  "delete_workflow gw now wid t =
     bnd (own_workflow wid t) (\<lambda>r.
     bnd (record_audit now (te_id t) ''workflow'' (wr_id r) ''delete''
            (Some [(''name'', AuJson (PStr (wf_name (wr_workflow r)))), (''version'', AuJson (PInt (wr_version r)))]) None
            (Some (te_slug t)) None) (\<lambda>_.
     bnd (if gw_scheduler_enabled gw
          then modify (\<lambda>w. w\<lparr>pf_scheduler := unregister_workflow (gw_jobs gw) (wr_id r) (pf_scheduler w)\<rparr>) else ret ()) (\<lambda>_.
     bnd (drop_workflow (wr_id r)) (\<lambda>_.
     commit))))"

definition toggle_workflow :: "'j gateway \<Rightarrow> int \<Rightarrow> string \<Rightarrow> tenant_row \<Rightarrow> ('j, bool) gact" where
  "toggle_workflow gw now wid t =
     bnd (own_workflow wid t) (\<lambda>r.
     let w = wr_workflow r;
         r' = r\<lparr>wr_workflow := w\<lparr>wf_is_enabled := \<not> wf_is_enabled w\<rparr>, wr_updated := now\<rparr> in
     bnd (put_workflow r') (\<lambda>_.
     bnd commit (\<lambda>_.
     bnd (if wf_is_enabled (wr_workflow r') then provision_trigger_account gw (te_id t) (wf_nodes w) else ret ()) (\<lambda>_.
     bnd (reschedule gw r') (\<lambda>_.
     ret (wf_is_enabled (wr_workflow r')))))))"

section \<open>Versions\<close>

text \<open>The three endpoints do not ask whose workflow it is.\<close>

definition list_workflow_versions :: "string \<Rightarrow> nat \<Rightarrow> nat \<Rightarrow> tenant_row \<Rightarrow> ('j, workflow_version list) gact" where
  "list_workflow_versions wid limit offset t =
     bnd the_session (\<lambda>ss. bnd the_db (\<lambda>d.
     if find_workflow_row ss d wid = None then throw workflow_not_found
     else ret (get_workflow_versions ss d wid limit offset)))"

definition get_workflow_version_detail :: "string \<Rightarrow> int \<Rightarrow> tenant_row \<Rightarrow> ('j, workflow_version) gact" where
  "get_workflow_version_detail wid n t =
     bnd the_session (\<lambda>ss. bnd the_db (\<lambda>d.
     case get_workflow_version ss d wid n of
       None \<Rightarrow> throw (HTTPException 404 (''Version '' @ int_str n @ '' not found''))
     | Some v \<Rightarrow> ret v))"

definition rollback_workflow_version :: "int \<Rightarrow> string \<Rightarrow> int \<Rightarrow> http_request \<Rightarrow> tenant_row \<Rightarrow> ('j, wf_row) gact" where
  "rollback_workflow_version now wid n rq t =
     bnd (rollback_workflow now wid n (Some (te_slug t)) (hq_client rq)) (\<lambda>res.
     case res of
       None \<Rightarrow> throw (HTTPException 404 ''Workflow or version not found'')
     | Some r \<Rightarrow> bnd commit (\<lambda>_. ret r))"

definition list_audit_entries ::
  "string option \<Rightarrow> string option \<Rightarrow> string option \<Rightarrow> nat \<Rightarrow> nat \<Rightarrow> tenant_row \<Rightarrow> ('j, audit_entry list) gact" where
  "list_audit_entries entity_type entity_id action limit offset t =
     bnd the_session (\<lambda>ss. bnd the_db (\<lambda>d. ret (get_audit_log ss d (te_id t) entity_type entity_id action limit offset)))"

end
