(* ===== verification/WorkflowRuns.thy ===== *)
theory WorkflowRuns
  imports WorkflowGateway UrlSafety
begin

text \<open>
  Runs of workflows on request (\<^verbatim>\<open>test_workflow\<close>, \<^verbatim>\<open>execute_workflow\<close> and \<^verbatim>\<open>call_workflow_get\<close> of
  \<^verbatim>\<open>api/gateway.py\<close>), what the gateway shows of an execution, re-runs and comparison, and the endpoints of the
  synchronisation ledger.
\<close>

section \<open>What is shown of an execution\<close>

definition shown_key :: "string \<Rightarrow> bool" where
  "shown_key k \<longleftrightarrow> k = ''_gdpr'' \<or> \<not> starts_with k ''_''"

function strip_internal :: "pyval \<Rightarrow> pyval" where
  "strip_internal (PDict d) = PDict (map (\<lambda>(k, v). (k, strip_internal v)) (filter (\<lambda>(k, v). shown_key k) d))"
| "strip_internal (PList xs) = PList (map strip_internal xs)"
| "strip_internal PNone = PNone"
| "strip_internal (PBool b) = PBool b"
| "strip_internal (PInt i) = PInt i"
| "strip_internal (PFloat f) = PFloat f"
| "strip_internal (PStr s) = PStr s"
  by pat_completeness auto
termination
proof (relation "measure size", goal_cases)
  case (2 d p k v)
  then have "(k, v) \<in> set d" by auto
  then have "size v < Suc (size_list (size_prod (\<lambda>_. 0) size) d)"
    by (induction d) auto
  then show ?case by simp
next
  case (3 xs x)
  then show ?case by (induction xs) auto
qed simp

definition strip_dict :: "pydict \<Rightarrow> pydict" where
  "strip_dict d = map (\<lambda>(k, v). (k, strip_internal v)) (filter (\<lambda>(k, v). shown_key k) d)"

record node_view =
  nv_node_id :: string
  nv_node_type :: string
  nv_label :: string
  nv_status :: node_status
  nv_input :: "pyval option"
  nv_output :: "pyval option"
  nv_error :: "string option"

record execution_view =
  xv_id :: string
  xv_workflow_id :: string
  xv_status :: string
  xv_trigger_data :: pydict
  xv_node_results :: "node_view list"
  xv_data :: pydict
  xv_variables :: pydict
  xv_error :: "string option"
  xv_error_node_id :: "string option"

text \<open>The raw output and the replay state of an entry have internal keys.\<close>

definition view_result :: "node_result \<Rightarrow> node_view" where
  "view_result n =
     \<lparr>nv_node_id = nr_node_id n, nv_node_type = nr_node_type n, nv_label = nr_label n, nv_status = nr_status n,
      nv_input = map_option strip_internal (nr_input n), nv_output = map_option strip_internal (nr_output n), nv_error = nr_error n\<rparr>"

definition serialize_workflow_execution :: "execution \<Rightarrow> execution_view" where
  "serialize_workflow_execution ex =
     \<lparr>xv_id = ex_id ex, xv_workflow_id = ex_workflow_id ex, xv_status = ex_status ex,
      xv_trigger_data = strip_dict (ex_trigger_data ex), xv_node_results = map view_result (ex_node_results ex),
      xv_data = strip_dict (ex_snapshot_data ex), xv_variables = strip_dict (ex_snapshot_vars ex),
      xv_error = ex_error ex, xv_error_node_id = ex_error_node_id ex\<rparr>"

section \<open>Runs\<close>

text \<open>The engine finds sub-workflows in the rows that the session sees.\<close>

definition session_engine :: "'j gateway \<Rightarrow> db_session \<Rightarrow> db \<Rightarrow> engine" where
  "session_engine gw ss d =
     (gw_engine gw)\<lparr>en_workflows := map wr_workflow (filter (\<lambda>r. visible ss (wr_tenant r)) (db_workflows d))\<rparr>"

definition on_state :: "'a pact \<Rightarrow> ('j, 'a) gact" where
  "on_state m = (\<lambda>w. case m (pf_state w) of None \<Rightarrow> None | Some (r, s) \<Rightarrow> Some (r, w\<lparr>pf_state := s\<rparr>))"

definition run_requested :: "engine \<Rightarrow> nat \<Rightarrow> workflow \<Rightarrow> pydict \<Rightarrow> bool \<Rightarrow> execution pact" where
  "run_requested en fuel wfl data dry_run =
     (\<lambda>s. case execute_workflow en fuel wfl data dry_run (ps_world s) of
            None \<Rightarrow> None
          | Some (ex, w) \<Rightarrow> Some (Inr ex, s\<lparr>ps_world := w\<rparr>))"

definition run_on_request :: "'j gateway \<Rightarrow> int \<Rightarrow> string \<Rightarrow> pydict \<Rightarrow> bool \<Rightarrow> http_request \<Rightarrow> tenant_row \<Rightarrow> ('j, execution) gact" where
  "run_on_request gw now wid data dry_run rq t =
     bnd (own_workflow wid t) (\<lambda>r.
     bnd (liftE (enforce_workflow_request_ip_allowlist (gw_rt gw) (gw_local_ip gw) (wf_nodes (wr_workflow r)) rq)) (\<lambda>_.
     bnd the_session (\<lambda>ss. bnd the_db (\<lambda>d.
     bnd (on_state (run_requested (session_engine gw ss d) (gw_fuel gw) (wr_workflow r) data dry_run)) (\<lambda>ex.
     bnd (if dry_run then ret ()
          else on_state (record_execution_sync (gw_rt gw) (gw_digest gw) now (wr_workflow r) ex data)) (\<lambda>_.
     bnd commit (\<lambda>_.
     ret ex)))))))"

definition test_workflow :: "'j gateway \<Rightarrow> int \<Rightarrow> string \<Rightarrow> pydict \<Rightarrow> bool \<Rightarrow> http_request \<Rightarrow> tenant_row \<Rightarrow> ('j, execution_view) gact" where
  "test_workflow gw now wid data dry_run rq t =
     bnd (run_on_request gw now wid data dry_run rq t) (\<lambda>ex. ret (serialize_workflow_execution ex))"

definition execute_workflow_endpoint ::
  "'j gateway \<Rightarrow> int \<Rightarrow> string \<Rightarrow> pydict \<Rightarrow> http_request \<Rightarrow> tenant_row \<Rightarrow> ('j, execution_view) gact" where
  "execute_workflow_endpoint gw now wid data rq t =
     bnd (run_on_request gw now wid data False rq t) (\<lambda>ex. ret (serialize_workflow_execution ex))"

section \<open>Calls by address\<close>

definition sanitize_filename :: "string \<Rightarrow> string" where
  "sanitize_filename name =
     take 255 (map (\<lambda>c. if c = CHR 0x0D \<or> c = CHR 0x0A \<or> c = double_quote \<or> c = CHR 0x5C then CHR ''_'' else c) (py_strip name))"

record fetched =
  fd_status :: int
  fd_location :: "string option"
  fd_content :: string

record fetcher =
  ft_lookup :: "string \<Rightarrow> string list option"
  ft_internal :: "ip_addr \<Rightarrow> bool"
  ft_get :: "string list \<Rightarrow> string \<Rightarrow> fetched py"
  ft_mime :: "string \<Rightarrow> string option"

definition ft_safe :: "fetcher \<Rightarrow> string \<Rightarrow> bool" where
  "ft_safe ft s = is_safe_url (ft_lookup ft) (ft_internal ft) s"

definition raise_for_status :: "fetched \<Rightarrow> unit py" where
  "raise_for_status f = (if 200 \<le> fd_status f \<and> fd_status f < 300 then Inr () else Inl (OtherError ''HTTPStatusError'' (int_str (fd_status f))))"

text \<open>The addresses that are requested, in order, and the content; one redirect is followed.\<close>

definition fetch_file :: "fetcher \<Rightarrow> string \<Rightarrow> string list \<times> string py" where
  "fetch_file ft s =
     (case ft_get ft [] s of
        Inl e \<Rightarrow> ([s], Inl e)
      | Inr f \<Rightarrow>
          if 300 \<le> fd_status f \<and> fd_status f < 400 then
            let redirect_url = (case fd_location f of None \<Rightarrow> [] | Some x \<Rightarrow> x) in
            if \<not> ft_safe ft redirect_url then ([s], Inl (HTTPException 400 ''Redirect targets a blocked address range''))
            else ([s, redirect_url],
                  andThen (ft_get ft [s] redirect_url) (\<lambda>g. andThen (raise_for_status g) (\<lambda>_. Inr (fd_content g))))
          else ([s], andThen (raise_for_status f) (\<lambda>_. Inr (fd_content f))))"

datatype call_response =
    CallData pydict
  | CallRedirect string
  | CallFile string string string

text \<open>The parameters of the request are the trigger data, but for \<^verbatim>\<open>api_key\<close>.\<close>

definition call_trigger_data :: "http_request \<Rightarrow> pydict" where
  "call_trigger_data rq = map (\<lambda>(k, v). (k, PStr v)) (filter (\<lambda>(k, v). k \<noteq> ''api_key'') (hq_query rq))"

definition is_xhr :: "http_request \<Rightarrow> bool" where
  "is_xhr rq \<longleftrightarrow> dget (hq_headers rq) ''origin'' [] \<noteq> [] \<or> dget (hq_headers rq) ''x-requested-with'' [] \<noteq> []"

definition query_text :: "http_request \<Rightarrow> string \<Rightarrow> string \<Rightarrow> string" where
  "query_text rq k dflt = (if k = ''api_key'' then dflt else dget (hq_query rq) k dflt)"

definition call_answer :: "fetcher \<Rightarrow> http_request \<Rightarrow> pydict \<Rightarrow> string list \<times> call_response py" where
  "call_answer ft rq data =
     (case dget data ''url'' PNone of
        PStr s \<Rightarrow>
          if \<not> starts_with s ''http'' then ([], Inr (CallData data))
          else if \<not> ft_safe ft s then ([], Inl (HTTPException 400 ''URL targets a blocked address range''))
          else if is_xhr rq then
            let filename = sanitize_filename (query_text rq ''key'' ''file'');
                content_type = (case ft_mime ft filename of None \<Rightarrow> ''application/octet-stream'' | Some m \<Rightarrow> m) in
            (case fetch_file ft s of
               (requested, r) \<Rightarrow> (requested, andThen r (\<lambda>content. Inr (CallFile content content_type filename))))
          else ([], Inr (CallRedirect s))
      | _ \<Rightarrow> ([], Inr (CallData data)))"

text \<open>The addresses the gateway requested are returned with the answer.\<close>

definition call_workflow_get :: "'j gateway \<Rightarrow> fetcher \<Rightarrow> int \<Rightarrow> string \<Rightarrow> http_request \<Rightarrow> ('j, string list \<times> call_response py) gact" where
  "call_workflow_get gw ft now wid rq =
     in_request (bnd (get_current_tenant_or_token gw rq) (\<lambda>t.
     bnd (run_on_request gw now wid (call_trigger_data rq) False rq t) (\<lambda>ex.
     ret (call_answer ft rq (ex_snapshot_data ex)))))"

section \<open>Re-runs and comparison\<close>

text \<open>The stored executions are the argument \<open>table\<close>.\<close>

definition find_execution :: "execution list \<Rightarrow> db_session \<Rightarrow> string \<Rightarrow> tenant_row \<Rightarrow> execution option" where
  "find_execution table ss eid t =
     find (\<lambda>e. ex_id e = eid \<and> ex_tenant_id e = te_id t \<and> visible ss (ex_tenant_id e)) table"

definition rerun_workflow_execution ::
  "'j gateway \<Rightarrow> execution list \<Rightarrow> string \<Rightarrow> string \<Rightarrow> string \<Rightarrow> pydict \<Rightarrow> tenant_row \<Rightarrow> ('j, execution_view) gact" where
  "rerun_workflow_execution gw table wid eid from_node_id override_data t =
     bnd (own_workflow wid t) (\<lambda>r.
     bnd the_session (\<lambda>ss. bnd the_db (\<lambda>d.
     case find_execution table ss eid t of
       None \<Rightarrow> throw (HTTPException 404 ''Execution not found'')
     | Some original \<Rightarrow>
         if ex_workflow_id original \<noteq> wr_id r then throw (HTTPException 400 ''Execution does not belong to the requested workflow'')
         else bnd (on_state (\<lambda>s. case rerun_from_node (session_engine gw ss d) (gw_fuel gw) (wr_workflow r) original from_node_id
                                        override_data (ps_world s) of
                                   None \<Rightarrow> None
                                 | Some (ex, w) \<Rightarrow> Some (Inr ex, s\<lparr>ps_world := w\<rparr>))) (\<lambda>ex.
              bnd commit (\<lambda>_. ret (serialize_workflow_execution ex))))))"

definition own_execution :: "execution list \<Rightarrow> string \<Rightarrow> wf_row \<Rightarrow> tenant_row \<Rightarrow> ('j, execution) gact" where
  "own_execution table eid r t =
     bnd the_session (\<lambda>ss.
     case find_execution table ss eid t of
       None \<Rightarrow> throw (HTTPException 404 (''Execution '' @ eid @ '' not found''))
     | Some ex \<Rightarrow>
         if ex_workflow_id ex \<noteq> wr_id r
         then throw (HTTPException 400 (''Execution '' @ eid @ '' does not belong to the requested workflow'')) else ret ex)"

definition diff_workflow_executions ::
  "execution list \<Rightarrow> string \<Rightarrow> string \<Rightarrow> string \<Rightarrow> tenant_row \<Rightarrow> ('j, node_diff list) gact" where
  "diff_workflow_executions table wid exec_a exec_b t =
     bnd (own_workflow wid t) (\<lambda>r.
     bnd (own_execution table exec_a r t) (\<lambda>a.
     bnd (own_execution table exec_b r t) (\<lambda>b.
     ret (diff_executions a b))))"

section \<open>The synchronisation ledger\<close>

definition on_ledger :: "(ledger \<Rightarrow> 'a \<times> ledger) \<Rightarrow> ('j, 'a) gact" where
  "on_ledger f = on_state (\<lambda>s. case f (ps_ledger s) of (x, lg) \<Rightarrow> Some (Inr x, s\<lparr>ps_ledger := lg\<rparr>))"

definition get_sync_stats :: "string \<Rightarrow> tenant_row \<Rightarrow> ('j, sync_stats) gact" where
  "get_sync_stats wid t =
     bnd (own_workflow wid t) (\<lambda>r. on_ledger (\<lambda>lg. (get_stats lg (wr_id r) (Some (te_id t)), lg)))"

definition get_sync_failed :: "string \<Rightarrow> nat \<Rightarrow> tenant_row \<Rightarrow> ('j, ledger_row list) gact" where
  "get_sync_failed wid limit t =
     bnd (own_workflow wid t) (\<lambda>_. on_ledger (\<lambda>lg. (get_failed_entries lg wid limit (Some (te_id t)), lg)))"

definition retry_failed_syncs :: "int \<Rightarrow> string \<Rightarrow> tenant_row \<Rightarrow> ('j, nat) gact" where
  "retry_failed_syncs now wid t =
     bnd (own_workflow wid t) (\<lambda>_.
     bnd (on_ledger (\<lambda>lg. reset_failed lg wid (Some (te_id t)) now)) (\<lambda>n. bnd commit (\<lambda>_. ret n)))"

definition clear_sync_ledger :: "string \<Rightarrow> tenant_row \<Rightarrow> ('j, nat) gact" where
  "clear_sync_ledger wid t =
     bnd (own_workflow wid t) (\<lambda>_.
     bnd (on_ledger (\<lambda>lg. clear_ledger lg wid (Some (te_id t)))) (\<lambda>n. bnd commit (\<lambda>_. ret n)))"

definition list_workflow_schedules :: "'j gateway \<Rightarrow> tenant_row \<Rightarrow> ('j, scheduled_entry list) gact" where
  "list_workflow_schedules gw t = gets (\<lambda>w. list_scheduled (gw_jobs gw) (Some (te_id t)) (pf_scheduler w))"

end
