(* ===== verification/CredentialGateway.thy ===== *)
theory CredentialGateway
  imports WorkflowGateway
begin

text \<open>
  The endpoints for connector instances and credentials (\<^verbatim>\<open>api/gateway.py\<close>): activation of connectors,
  storing and renaming of credential sets with the workflows that use them, tokens, and the distribution of
  credentials to connectors.  \<^verbatim>\<open>uuid5\<close> is the field \<open>gw_uuid5\<close>; the nonces of the encryptions of one request are
  a function of their position.
\<close>

section \<open>Connector instances\<close>

record inst_body =
  ib_connector :: string
  ib_version :: string
  ib_category :: string
  ib_display_name :: string
  ib_config :: pydict

definition same_instance :: "string \<Rightarrow> inst_body \<Rightarrow> instance_row \<Rightarrow> bool" where
  "same_instance tenant b i \<longleftrightarrow> cn_tenant i = tenant \<and> cn_connector i = ib_connector b \<and> cn_version i = ib_version b"

definition new_instance :: "string \<Rightarrow> string \<Rightarrow> inst_body \<Rightarrow> instance_row" where
  "new_instance new_id tenant b =
     \<lparr>cn_tenant = tenant, cn_connector = ib_connector b, cn_version = ib_version b, cn_enabled = True, ci_id = new_id,
      ci_category = ib_category b,
      ci_display_name = (if ib_display_name b \<noteq> [] then ib_display_name b else ib_connector b), ci_config = ib_config b\<rparr>"

definition reactivated :: "inst_body \<Rightarrow> instance_row \<Rightarrow> instance_row" where
  "reactivated b i =
     i\<lparr>cn_enabled := True, ci_display_name := (if ib_display_name b \<noteq> [] then ib_display_name b else ci_display_name i),
       ci_config := (if ib_config b \<noteq> [] then ib_config b else ci_config i)\<rparr>"

definition instance_audit :: "string \<Rightarrow> string \<Rightarrow> audit_value" where
  "instance_audit connector version = [(''connector_name'', AuJson (PStr connector)), (''version'', AuJson (PStr version))]"

definition activate_connector :: "int \<Rightarrow> string \<Rightarrow> inst_body \<Rightarrow> http_request \<Rightarrow> tenant_row \<Rightarrow> ('j, instance_row) gact" where
  "activate_connector now new_id b rq t =
     bnd the_session (\<lambda>ss. bnd the_db (\<lambda>d.
     bnd (case find (\<lambda>i. same_instance (te_id t) b i \<and> visible ss (cn_tenant i)) (db_instances d) of
            Some old \<Rightarrow>
              bnd (update_db (\<lambda>d. d\<lparr>db_instances := update_where (\<lambda>i. ci_id i = ci_id old) (\<lambda>_. reactivated b old) (db_instances d)\<rparr>)) (\<lambda>_.
              ret (reactivated b old, ''reactivate''))
          | None \<Rightarrow>
              bnd (db_insert (visible ss (te_id t))
                     (list_ex (\<lambda>i. ci_id i = new_id \<or> same_instance (te_id t) b i) (db_instances d))
                     (\<lambda>d. d\<lparr>db_instances := db_instances d @ [new_instance new_id (te_id t) b]\<rparr>)) (\<lambda>_.
              ret (new_instance new_id (te_id t) b, ''create''))) (\<lambda>(i, action).
     bnd (record_audit now (te_id t) ''connector_instance'' (ci_id i) action None
            (Some (instance_audit (ib_connector b) (ib_version b))) (Some (te_slug t)) (hq_client rq)) (\<lambda>_.
     bnd commit (\<lambda>_.
     ret i)))))"

definition list_connector_instances :: "tenant_row \<Rightarrow> ('j, instance_row list) gact" where
  "list_connector_instances t =
     bnd the_session (\<lambda>ss. bnd the_db (\<lambda>d.
     ret (filter (\<lambda>i. cn_tenant i = te_id t \<and> visible ss (cn_tenant i)) (db_instances d))))"

definition deactivate_connector :: "int \<Rightarrow> string \<Rightarrow> http_request \<Rightarrow> tenant_row \<Rightarrow> ('j, unit) gact" where
  "deactivate_connector now iid rq t =
     bnd the_session (\<lambda>ss. bnd the_db (\<lambda>d.
     case find (\<lambda>i. ci_id i = iid \<and> cn_tenant i = te_id t \<and> visible ss (cn_tenant i)) (db_instances d) of
       None \<Rightarrow> throw (HTTPException 404 ''Connector instance not found'')
     | Some i \<Rightarrow>
         bnd (record_audit now (te_id t) ''connector_instance'' (ci_id i) ''delete''
                (Some (instance_audit (cn_connector i) (cn_version i))) None (Some (te_slug t)) (hq_client rq)) (\<lambda>_.
         bnd (update_db (\<lambda>d. d\<lparr>db_instances := filter (\<lambda>q. ci_id q \<noteq> ci_id i) (db_instances d)\<rparr>)) (\<lambda>_.
         commit))))"

section \<open>Credentials in workflows\<close>

definition uses_credential :: "string \<Rightarrow> string \<Rightarrow> node \<Rightarrow> bool" where
  "uses_credential connector name n \<longleftrightarrow>
     dget (n_config n) ''credential_name'' PNone = PStr name \<and>
     (dget (n_config n) ''connector_name'' (PStr []) = PStr connector \<or> n_type n = ''think'' \<and> connector = ''ai-agent'')"

definition rename_in_node :: "string \<Rightarrow> string \<Rightarrow> string \<Rightarrow> node \<Rightarrow> node" where
  "rename_in_node connector old_name new_name n =
     (if uses_credential connector old_name n then n\<lparr>n_config := dset (n_config n) ''credential_name'' (PStr new_name)\<rparr> else n)"

definition rename_in_row :: "int \<Rightarrow> string \<Rightarrow> string \<Rightarrow> string \<Rightarrow> wf_row \<Rightarrow> wf_row" where
  "rename_in_row now connector old_name new_name r =
     r\<lparr>wr_workflow := (wr_workflow r)\<lparr>wf_nodes := map (rename_in_node connector old_name new_name) (wf_nodes (wr_workflow r))\<rparr>,
       wr_updated := now\<rparr>"

definition row_uses_credential :: "string \<Rightarrow> string \<Rightarrow> wf_row \<Rightarrow> bool" where
  "row_uses_credential connector name r = list_ex (uses_credential connector name) (wf_nodes (wr_workflow r))"

definition propagate_credential_rename :: "int \<Rightarrow> string \<Rightarrow> string \<Rightarrow> string \<Rightarrow> string \<Rightarrow> ('j, nat) gact" where
  "propagate_credential_rename now tenant connector old_name new_name =
     bnd the_session (\<lambda>ss. bnd the_db (\<lambda>d.
     let hit = (\<lambda>r. wr_tenant r = tenant \<and> visible ss (wr_tenant r) \<and> row_uses_credential connector old_name r) in
     bnd (update_db (\<lambda>d. d\<lparr>db_workflows := update_where hit (rename_in_row now connector old_name new_name) (db_workflows d)\<rparr>)) (\<lambda>_.
     ret (length (filter hit (db_workflows d))))))"

section \<open>Storing\<close>

definition store_values :: "cipher \<Rightarrow> (nat \<Rightarrow> string) \<Rightarrow> string \<Rightarrow> string \<Rightarrow> string \<Rightarrow> (string \<times> string) list \<Rightarrow> vault \<Rightarrow> vault" where
  "store_values ci nonces tenant connector name kvs v =
     foldl (\<lambda>v (i, k, x). store_credential ci (nonces i) v tenant connector k x name) v (enumerate 0 kvs)"

definition update_vault :: "(vault \<Rightarrow> vault) \<Rightarrow> ('j, unit) gact" where
  "update_vault f = update_db (\<lambda>d. d\<lparr>db_vault := f (db_vault d)\<rparr>)"

definition try_vault :: "(vault \<Rightarrow> ('a \<times> vault) py) \<Rightarrow> ('j, 'a) gact" where
  "try_vault f =
     bnd the_db (\<lambda>d. bnd (liftE (f (db_vault d))) (\<lambda>(x, v).
     bnd (update_vault (\<lambda>_. v)) (\<lambda>_. ret x)))"

definition session_credentials :: "'j gateway \<Rightarrow> string \<Rightarrow> string \<Rightarrow> string \<Rightarrow> ('j, (string \<times> string) list) gact" where
  "session_credentials gw tenant connector name =
     bnd the_session (\<lambda>ss. bnd the_db (\<lambda>d.
     liftE (retrieve_all (gw_cipher gw) (rls_vault ss (db_vault d)) tenant connector name)))"

record store_body =
  sb_connector :: string
  sb_name :: string
  sb_old_name :: "string option"
  sb_credentials :: "(string \<times> string) list"

record store_result =
  sr_token :: string
  sr_workflows_updated :: nat
  sr_account_provisioned :: bool

definition is_rename :: "store_body \<Rightarrow> bool" where
  "is_rename b = (case sb_old_name b of None \<Rightarrow> False | Some o_name \<Rightarrow> o_name \<noteq> [] \<and> o_name \<noteq> sb_name b)"

text \<open>The old set is read, stored with the submitted values under the new name and deleted; workflows that name
  it are changed.\<close>

definition rename_set :: "'j gateway \<Rightarrow> int \<Rightarrow> (nat \<Rightarrow> string) \<Rightarrow> store_body \<Rightarrow> string \<Rightarrow> tenant_row \<Rightarrow> ('j, nat) gact" where
  "rename_set gw now nonces b old_name t =
     bnd (session_credentials gw (te_id t) (sb_connector b) old_name) (\<lambda>old_creds.
     bnd (update_vault (store_values (gw_cipher gw) nonces (te_id t) (sb_connector b) (sb_name b)
            (dmerge old_creds (submitted_credential_values (gw_mask gw) (sb_credentials b))))) (\<lambda>_.
     bnd (update_vault (\<lambda>v. snd (delete_credentials v (te_id t) (sb_connector b) None (Some old_name)))) (\<lambda>_.
     propagate_credential_rename now (te_id t) (sb_connector b) old_name (sb_name b))))"

definition store_set :: "'j gateway \<Rightarrow> (nat \<Rightarrow> string) \<Rightarrow> store_body \<Rightarrow> tenant_row \<Rightarrow> ('j, nat) gact" where
  "store_set gw nonces b t =
     bnd (update_vault (store_values (gw_cipher gw) nonces (te_id t) (sb_connector b) (sb_name b)
            (submitted_credential_values (gw_mask gw) (sb_credentials b)))) (\<lambda>_. ret 0)"

definition credential_entity :: "'j gateway \<Rightarrow> string \<Rightarrow> string \<Rightarrow> string \<Rightarrow> string" where
  "credential_entity gw tenant connector name = gw_uuid5 gw (''credential:'' @ tenant @ '':'' @ connector @ '':'' @ name)"

definition store_audit :: "store_body \<Rightarrow> audit_value" where
  "store_audit b =
     [(''connector'', AuJson (PStr (sb_connector b))), (''credential_name'', AuJson (PStr (sb_name b))),
      (''keys'', AuJson (PList (map (\<lambda>(k, v). PStr k) (sb_credentials b))))]"

definition store_credentials ::
  "'j gateway \<Rightarrow> int \<Rightarrow> (nat \<Rightarrow> string) \<Rightarrow> string \<Rightarrow> store_body \<Rightarrow> http_request \<Rightarrow> tenant_row \<Rightarrow> ('j, store_result) gact" where
  "store_credentials gw now nonces generated b rq t =
     (let tenant = te_id t; connector = sb_connector b; name = sb_name b; old_name = the (sb_old_name b) in
      bnd (if is_rename b then rename_set gw now nonces b old_name t else store_set gw nonces b t) (\<lambda>updated.
      bnd (if is_rename b
           then try_vault (\<lambda>v. andThen (rename_token v tenant connector old_name name) (\<lambda>v'. Inr ((), v'))) else ret ()) (\<lambda>_.
      bnd (try_vault (\<lambda>v. get_or_create_token v generated tenant connector name)) (\<lambda>token.
      bnd (record_audit now tenant ''credential'' (credential_entity gw tenant connector name)
             (if is_rename b then ''rename'' else ''update'') None (Some (store_audit b)) (Some (te_slug t)) (hq_client rq)) (\<lambda>_.
      bnd commit (\<lambda>_.
      bnd the_session (\<lambda>ss. bnd the_db (\<lambda>d.
      let p = account_to_provision gw ss d tenant connector name True in
      bnd (do_provision p) (\<lambda>_.
      ret \<lparr>sr_token = ct_token token, sr_workflows_updated = updated, sr_account_provisioned = (p \<noteq> None)\<rparr>)))))))))"

section \<open>Reading and deleting\<close>

record credential_item =
  cd_connector :: string
  cd_name :: string
  cd_display_name :: string
  cd_category :: string
  cd_keys :: "string list"
  cd_token :: "string option"

text \<open>The last manifest of a name counts: \<^verbatim>\<open>{c.name: c for c in registry.get_all()}\<close>.\<close>

definition connector_entry :: "'j gateway \<Rightarrow> string \<Rightarrow> manifest option" where
  "connector_entry gw connector = find (\<lambda>m. cm_name m = connector) (rev (get_all (gw_registry gw)))"

definition credential_item_of :: "'j gateway \<Rightarrow> vault \<Rightarrow> string \<Rightarrow> string \<times> string \<Rightarrow> credential_item" where
  "credential_item_of gw v tenant cn =
     (case cn of (connector, name) \<Rightarrow>
        \<lparr>cd_connector = connector, cd_name = name,
         cd_display_name = (case connector_entry gw connector of None \<Rightarrow> connector | Some m \<Rightarrow> cm_display_name m),
         cd_category = (case connector_entry gw connector of None \<Rightarrow> [] | Some m \<Rightarrow> cm_category m),
         cd_keys = stable_sort str_lt (map cr_key (filter (in_set tenant connector name) (va_credentials v))),
         cd_token = get_token v tenant connector name\<rparr>)"

definition list_credentials :: "'j gateway \<Rightarrow> tenant_row \<Rightarrow> ('j, credential_item list) gact" where
  "list_credentials gw t =
     bnd the_session (\<lambda>ss. bnd the_db (\<lambda>d.
     let v = rls_vault ss (db_vault d) in
     ret (map (credential_item_of gw v (te_id t))
            (remdups (map (\<lambda>c. (cr_connector c, cr_name c)) (filter (\<lambda>c. cr_tenant c = te_id t) (va_credentials v)))))))"

record credential_view =
  cv_connector :: string
  cv_name :: string
  cv_values :: "(string \<times> string) list"
  cv_token :: "string option"

definition get_credentials :: "'j gateway \<Rightarrow> string \<Rightarrow> string \<Rightarrow> string \<Rightarrow> tenant_row \<Rightarrow> ('j, credential_view) gact" where
  "get_credentials gw generated connector name t =
     bnd (session_credentials gw (te_id t) connector name) (\<lambda>creds.
     bnd (if creds = [] then ret None
          else bnd (try_vault (\<lambda>v. get_or_create_token v generated (te_id t) connector name)) (\<lambda>row.
               bnd commit (\<lambda>_. ret (Some (ct_token row))))) (\<lambda>token.
     ret \<lparr>cv_connector = connector, cv_name = name, cv_values = map (\<lambda>(k, v). (k, gw_mask gw)) creds, cv_token = token\<rparr>))"

definition list_credential_names_endpoint :: "string \<Rightarrow> tenant_row \<Rightarrow> ('j, string list) gact" where
  "list_credential_names_endpoint connector t =
     bnd the_session (\<lambda>ss. bnd the_db (\<lambda>d. ret (list_credential_names (rls_vault ss (db_vault d)) (te_id t) connector)))"

definition affected_workflows :: "db_session \<Rightarrow> db \<Rightarrow> string \<Rightarrow> string \<Rightarrow> string option \<Rightarrow> string list" where
  "affected_workflows ss d tenant connector name =
     (case name of
        None \<Rightarrow> []
      | Some n \<Rightarrow> if n = [] then []
          else map (\<lambda>r. wf_name (wr_workflow r))
                 (filter (\<lambda>r. wr_tenant r = tenant \<and> visible ss (wr_tenant r) \<and> row_uses_credential connector n r) (db_workflows d)))"

definition delete_credentials_endpoint ::
  "'j gateway \<Rightarrow> int \<Rightarrow> string \<Rightarrow> string option \<Rightarrow> http_request \<Rightarrow> tenant_row \<Rightarrow> ('j, nat \<times> string list) gact" where
  "delete_credentials_endpoint gw now connector name rq t =
     bnd the_session (\<lambda>ss. bnd the_db (\<lambda>d.
     let affected = affected_workflows ss d (te_id t) connector name in
     bnd (try_vault (\<lambda>v. Inr (delete_credentials v (te_id t) connector None name))) (\<lambda>deleted.
     bnd (try_vault (\<lambda>v. Inr (delete_token v (te_id t) connector name))) (\<lambda>_.
     bnd (record_audit now (te_id t) ''credential''
            (credential_entity gw (te_id t) connector (case name of None \<Rightarrow> ''all'' | Some n \<Rightarrow> if n = [] then ''all'' else n)) ''delete''
            (Some [(''connector'', AuJson (PStr connector)), (''credential_name'', AuJson (case name of None \<Rightarrow> PNone | Some n \<Rightarrow> PStr n)),
                   (''keys_deleted'', AuJson (PInt (int deleted)))]) None (Some (te_slug t)) (hq_client rq)) (\<lambda>_.
     bnd commit (\<lambda>_.
     ret (deleted, affected)))))))"

section \<open>Tokens\<close>

definition regenerate_credential_token :: "'j gateway \<Rightarrow> string \<Rightarrow> string \<Rightarrow> string \<Rightarrow> tenant_row \<Rightarrow> ('j, string) gact" where
  "regenerate_credential_token gw generated connector name t =
     bnd (session_credentials gw (te_id t) connector name) (\<lambda>creds.
     if creds = [] then throw (HTTPException 404 ''No credentials found for this connector'')
     else bnd (try_vault (\<lambda>v. regenerate_token v generated (te_id t) connector name)) (\<lambda>row.
          bnd commit (\<lambda>_. ret (ct_token row))))"

definition resolve_credential_token ::
  "'j gateway \<Rightarrow> string \<Rightarrow> tenant_row \<Rightarrow> ('j, string \<times> string \<times> (string \<times> string) list) gact" where
  "resolve_credential_token gw token t =
     bnd the_session (\<lambda>ss. bnd the_db (\<lambda>d.
     case find (\<lambda>r. ct_token r = token \<and> ct_tenant r = te_id t \<and> ct_active r) (va_tokens (rls_vault ss (db_vault d))) of
       None \<Rightarrow> throw (HTTPException 404 ''Invalid or inactive token'')
     | Some r \<Rightarrow>
         bnd (session_credentials gw (ct_tenant r) (ct_connector r) (ct_name r)) (\<lambda>creds.
         ret (ct_connector r, ct_name r, creds))))"

section \<open>Distribution to connectors\<close>

record account =
  ac_tenant :: string
  ac_name :: string
  ac_credentials :: "(string \<times> string) list"

definition tenant_accounts :: "'j gateway \<Rightarrow> vault \<Rightarrow> string \<Rightarrow> tenant_row \<Rightarrow> account list" where
  "tenant_accounts gw v connector t =
     List.map_filter (\<lambda>name. case retrieve_all (gw_cipher gw) v (te_id t) connector name of
         Inl _ \<Rightarrow> None
       | Inr creds \<Rightarrow> if creds = [] then None else Some \<lparr>ac_tenant = te_id t, ac_name = name, ac_credentials = creds\<rparr>)
       (list_credential_names v (te_id t) connector)"

definition internal_get_connector_credentials :: "'j gateway \<Rightarrow> http_request \<Rightarrow> string \<Rightarrow> ('j, account list) gact" where
  "internal_get_connector_credentials gw rq connector =
     in_request (bnd (liftE (require_internal_secret gw rq)) (\<lambda>_.
     let caller = dget (hq_headers rq) ''x-connector-name'' [] in
     if caller = [] then throw (HTTPException 400 ''X-Connector-Name header is required'')
     else if caller \<noteq> connector then throw (HTTPException 403 ''Connector may only retrieve its own credentials'')
     else bnd (modify (\<lambda>w. w\<lparr>pf_session := set_rls_bypass (pf_session w)\<rparr>)) (\<lambda>_.
       bnd the_session (\<lambda>ss. bnd the_db (\<lambda>d.
       ret (List.concat (map (tenant_accounts gw (rls_vault ss (db_vault d)) connector) (filter te_active (db_tenants d)))))))))"

end
