(* ===== verification/PiiRedactor.thy ===== *)
theory PiiRedactor
  imports Regex PyValue
begin

text \<open>Masking of personal data in execution details (\<^verbatim>\<open>core/pii_redactor.py\<close>).\<close>

section \<open>Keys\<close>

definition pii_key_patterns :: "string list" where
  "pii_key_patterns =
     [''email'', ''e_mail'', ''email_address'', ''mail'', ''recipient'', ''recipients'', ''to'', ''cc'', ''bcc'', ''from'',
      ''sender'', ''reply_to'', ''name'', ''first_name'', ''last_name'', ''full_name'', ''phone'', ''phone_number'',
      ''telephone'', ''mobile'', ''address'', ''street'', ''city'', ''zip'', ''zip_code'', ''postal_code'', ''pesel'', ''nip'',
      ''regon'', ''ssn'', ''id_number'', ''passport'', ''password'', ''secret'', ''token'', ''api_key'', ''access_token'',
      ''refresh_token'', ''authorization'', ''cookie'', ''set-cookie'', ''proxy-authorization'', ''x-api-key'',
      ''x-admin-secret'', ''x-internal-secret'']"

definition safe_keys :: "string list" where
  "safe_keys =
     [''imap_host'', ''smtp_host'', ''connector'', ''connector_name'', ''action'', ''event'', ''status'', ''message_id'',
      ''account_name'', ''node_id'', ''node_type'', ''label'', ''duration_ms'', ''error'', ''type'', ''handle'',
      ''condition_result'', ''switch_value'', ''matched_case'', ''variable'', ''status_code'', ''_truncated'', ''_preview'',
      ''dispatched'']"

definition pii_segment_patterns :: "string list" where
  "pii_segment_patterns =
     [''email'', ''phone'', ''name'', ''address'', ''pesel'', ''password'', ''secret'', ''token'']"

definition is_pii_key :: "string \<Rightarrow> bool" where
  "is_pii_key key =
     (let normalized = py_strip (py_lower key) in
      if normalized \<in> set safe_keys then False
      else if normalized \<in> set pii_key_patterns then True
      else list_ex (\<lambda>seg. seg \<in> set pii_segment_patterns) (py_split ''_'' (py_replace ''-'' ''_'' normalized)))"

section \<open>Values\<close>

definition redaction_marker :: string where "redaction_marker = ''[REDACTED-PII]''"

text \<open>\<^verbatim>\<open>_EMAIL_RE\<close> and \<^verbatim>\<open>_PHONE_RE\<close> of this module.\<close>

definition address_rx :: rx where
  "address_rx =
     seqs [plus_of (\<lambda>c. is_alnum c \<or> c \<in> set ''_.+-''), lit CHR ''@'', plus_of (\<lambda>c. is_alnum c \<or> c = CHR ''-''),
           lit CHR ''.'', plus_of (\<lambda>c. is_alnum c \<or> c \<in> set ''-.'')]"

definition phone_rx :: rx where
  "phone_rx =
     seqs [opt (lit CHR ''+''), Cls is_digit, Rep True (Cls (\<lambda>c. is_digit c \<or> is_space c \<or> c = CHR ''-'')) 7 (Some 14),
           Cls is_digit]"

definition mask_email :: "string \<Rightarrow> string" where
  "mask_email email =
     (let local_part = takeWhile (\<lambda>c. c \<noteq> CHR ''@'') email;
          domain = tl (dropWhile (\<lambda>c. c \<noteq> CHR ''@'') email) in
      if domain = [] then redaction_marker
      else (case local_part of [] \<Rightarrow> ''***@'' @ domain | c # _ \<Rightarrow> [c] @ ''***@'' @ domain))"

definition mask_phone :: "string \<Rightarrow> string" where
  "mask_phone phone =
     (let ds = filter is_digit phone in
      if length ds < 4 then redaction_marker
      else take 2 ds @ replicate (length ds - 4) CHR ''*'' @ drop (length ds - 2) ds)"

definition mask_all :: "(string \<Rightarrow> string) \<Rightarrow> string list \<Rightarrow> string \<Rightarrow> string" where
  "mask_all f matches s = foldl (\<lambda>acc m. py_replace m (f m) acc) s matches"

definition redact_string_value :: "string \<Rightarrow> string" where
  "redact_string_value value =
     (let result = mask_all mask_email (re_findall address_rx value) value in
      mask_all mask_phone (re_findall phone_rx result) result)"

section \<open>Data structures\<close>

definition redact_sensitive :: "pyval \<Rightarrow> pyval" where
  "redact_sensitive value =
     (case value of
        PStr s \<Rightarrow>
          (let emails = re_findall address_rx s in
           if emails \<noteq> [] then PStr (mask_all mask_email emails s)
           else if re_fullmatch phone_rx (py_strip s) then PStr (mask_phone s)
           else PStr redaction_marker)
      | PList xs \<Rightarrow>
          PList (map (\<lambda>v. case v of
             PStr s \<Rightarrow> if re_fullmatch address_rx s then PStr (mask_email s) else PStr redaction_marker
           | _ \<Rightarrow> PStr redaction_marker) xs)
      | _ \<Rightarrow> PStr redaction_marker)"

definition redacted_flag :: "string \<Rightarrow> string" where
  "redacted_flag key = ''__'' @ key @ ''_redacted''"

function (sequential) redact :: "pyval \<Rightarrow> nat \<Rightarrow> pyval" where
  "redact (PDict d) depth =
     (if 20 < depth then PStr redaction_marker
      else PDict (foldl (\<lambda>out (key, value).
        if is_pii_key key then dset (dset out key (redact_sensitive value)) (redacted_flag key) (PBool True)
        else dset out key (redact value (Suc depth))) [] d))"
| "redact (PList xs) depth =
     (if 20 < depth then PStr redaction_marker else PList (map (\<lambda>x. redact x (Suc depth)) xs))"
| "redact (PStr s) depth = (if 20 < depth then PStr redaction_marker else PStr (redact_string_value s))"
| "redact v depth = (if 20 < depth then PStr redaction_marker else v)"
  by pat_completeness auto
termination
  by (relation "measure (\<lambda>(v, n). 22 - n)") auto

declare redact.simps [simp del]

text \<open>The policy text contains a dash outside the characters modelled here, so it is an argument.\<close>

definition redact_execution_detail :: "string \<Rightarrow> pydict \<Rightarrow> bool \<Rightarrow> pydict" where
  "redact_execution_detail policy execution_data include_raw =
     (case redact (PDict execution_data) 0 of
        PDict redacted \<Rightarrow>
          dset redacted ''_gdpr''
            (PDict [(''redacted'', PBool True),
                    (''policy'', PStr policy),
                    (''include_raw'', PBool include_raw)])
      | _ \<Rightarrow> [])"

section \<open>What a redacted dictionary holds\<close>

definition redact_item :: "nat \<Rightarrow> pydict \<Rightarrow> string \<times> pyval \<Rightarrow> pydict" where
  "redact_item depth out kv =
     (if is_pii_key (fst kv) then dset (dset out (fst kv) (redact_sensitive (snd kv))) (redacted_flag (fst kv)) (PBool True)
      else dset out (fst kv) (redact (snd kv) (Suc depth)))"

lemma redact_dict: "depth \<le> 20 \<Longrightarrow> redact (PDict d) depth = PDict (foldl (redact_item depth) [] d)"
proof -
  assume "depth \<le> 20"
  moreover have "(\<lambda>out (key, value).
        if is_pii_key key then dset (dset out key (redact_sensitive value)) (redacted_flag key) (PBool True)
        else dset out key (redact value (Suc depth))) = redact_item depth"
    by (intro ext) (simp add: redact_item_def split: prod.splits)
  ultimately show ?thesis by (simp add: redact.simps)
qed

text \<open>Keys that are not also the flag of another key keep what their own item wrote.\<close>

lemma redact_items_frame:
  assumes "\<forall>(k', v) \<in> set d. k' \<noteq> key \<and> redacted_flag k' \<noteq> key"
  shows "map_of (foldl (redact_item depth) out d) key = map_of out key"
  using assms by (induction d arbitrary: out) (auto simp: redact_item_def)

lemma flag_injective [simp]: "redacted_flag a = redacted_flag b \<longleftrightarrow> a = b"
  by (simp add: redacted_flag_def)

lemma redacted_flag_differs [simp]: "redacted_flag k \<noteq> k" "k \<noteq> redacted_flag k"
  using arg_cong [of "redacted_flag k" k length] by (auto simp: redacted_flag_def)

lemma redact_items_at:
  assumes "dict_ok d" and "(key, v) \<in> set d" and "\<forall>(k, w) \<in> set d. \<forall>(k', w') \<in> set d. redacted_flag k \<noteq> k'"
  shows "map_of (foldl (redact_item depth) out d) key
      = Some (if is_pii_key key then redact_sensitive v else redact v (Suc depth))
    \<and> (is_pii_key key \<longrightarrow> map_of (foldl (redact_item depth) out d) (redacted_flag key) = Some (PBool True))"
proof -
  obtain before after where d: "d = before @ (key, v) # after" using assms(2) by (meson split_list)
  have later: "k \<noteq> key \<and> redacted_flag k \<noteq> key \<and> k \<noteq> redacted_flag key" if "(k, w) \<in> set after" for k w
  proof -
    have "(k, w) \<in> set d" "(key, v) \<in> set d" using d that by auto
    then have "redacted_flag k \<noteq> key" "redacted_flag key \<noteq> k" using assms(3) by blast+
    moreover have "key \<notin> fst ` set after" using assms(1) by (simp add: d dict_ok_def)
    then have "k \<noteq> key" using that by force
    ultimately show ?thesis by auto
  qed
  let ?mid = "redact_item depth (foldl (redact_item depth) out before) (key, v)"
  have "map_of (foldl (redact_item depth) ?mid after) key = map_of ?mid key"
    by (rule redact_items_frame) (use later in auto)
  moreover have "map_of (foldl (redact_item depth) ?mid after) (redacted_flag key) = map_of ?mid (redacted_flag key)"
    by (rule redact_items_frame) (use later in auto)
  ultimately show ?thesis using d by (auto simp: redact_item_def)
qed

section \<open>Properties\<close>

text \<open>In a redacted record each sensitive key is flagged, a value under it that is neither text nor
  a list is replaced by the marker, as is a text without an email address or phone number and every list
  element that is not an email address; all other keys keep their value, redacted in turn.\<close>

lemma sensitive_keys_are_masked:
  assumes "dict_ok d" and "(key, v) \<in> set d" and "\<forall>(k, w) \<in> set d. \<forall>(k', w') \<in> set d. redacted_flag k \<noteq> k'" and "depth \<le> 20"
  shows "\<exists>out. redact (PDict d) depth = PDict out
    \<and> (if is_pii_key key
       then map_of out (redacted_flag key) = Some (PBool True)
         \<and> (\<not> is_str v \<and> \<not> is_list v \<longrightarrow> map_of out key = Some (PStr redaction_marker))
         \<and> (\<forall>s. v = PStr s \<and> re_findall address_rx s = [] \<and> \<not> re_fullmatch phone_rx (py_strip s)
              \<longrightarrow> map_of out key = Some (PStr redaction_marker))
         \<and> (\<forall>xs. v = PList xs \<longrightarrow> (\<exists>ys. map_of out key = Some (PList ys) \<and> length ys = length xs
              \<and> (\<forall>i < length xs. ys ! i = PStr redaction_marker
                   \<or> (\<exists>s. xs ! i = PStr s \<and> re_fullmatch address_rx s \<and> ys ! i = PStr (mask_email s)))))
       else map_of out key = Some (redact v (Suc depth)))"
proof -
  note at = redact_items_at [OF assms(1,2,3), of depth "[]"]
  show ?thesis
    by (rule exI [of _ "foldl (redact_item depth) [] d"])
      (use at in \<open>cases v; auto simp: redact_dict [OF assms(4)] redact_sensitive_def Let_def split: pyval.splits\<close>)
qed

lemma sensitive_keys_are_masked_witness:
  "\<exists>out. redact (PDict [(''password'', PStr ''hunter2''), (''qty'', PInt 3)]) 0 = PDict out
     \<and> map_of out ''password'' = Some (PStr redaction_marker)"
proof -
  have k: "is_pii_key ''password''" by code_simp
  have n: "re_findall address_rx ''hunter2'' = [] \<and> \<not> re_fullmatch phone_rx (py_strip ''hunter2'')" by code_simp
  from sensitive_keys_are_masked [of "[(''password'', PStr ''hunter2''), (''qty'', PInt 3)]" "''password''" "PStr ''hunter2''" 0] k n
  show ?thesis by (auto simp: dict_ok_def redacted_flag_def)
qed

text \<open>A text under a sensitive key that also contains an email address is not replaced: only the
  address in it is masked.\<close>

lemma text_around_email_is_disclosed:
  "redact (PDict [(''password'', PStr ''hunter2 a@b.pl'')]) 0
     = PDict [(''password'', PStr ''hunter2 a***@b.pl''), (''__password_redacted'', PBool True)]"
  by code_simp

end
