(* ===== verification/FlowGateway.thy ===== *)
theory FlowGateway
  imports WorkflowGateway PiiRedactor
begin

text \<open>
  The flow endpoints of the gateway (\<^verbatim>\<open>api/gateway.py\<close>): create, list, change and delete flows, and the
  executions of flows.  Events and actions of up to 200 characters pass the validation of a request; the
  columns take 100.
\<close>

section \<open>Flows\<close>

record flow_body =
  fb_name :: string
  fb_source_connector :: string
  fb_source_event :: string
  fb_source_filter :: "pydict option"
  fb_destination_connector :: string
  fb_destination_version :: "string option"
  fb_destination_action :: string
  fb_field_mapping :: pyval
  fb_transform :: "string option"
  fb_on_error :: string
  fb_max_retries :: int

definition check_flow_columns :: "flow \<Rightarrow> unit py" where
  "check_flow_columns f =
     andThen (text_column 100 (PStr (fl_source_event f))) (\<lambda>_. andThen (text_column 100 (PStr (fl_destination_action f))) (\<lambda>_. Inr ()))"

definition new_flow :: "string \<Rightarrow> string \<Rightarrow> flow_body \<Rightarrow> flow_row" where
  "new_flow new_id tenant b =
     \<lparr>fr_flow = \<lparr>fl_id = new_id, fl_tenant = tenant, fl_source_connector = fb_source_connector b,
        fl_source_event = fb_source_event b, fl_source_filter = fb_source_filter b,
        fl_destination_connector = fb_destination_connector b, fl_destination_version = fb_destination_version b,
        fl_destination_action = fb_destination_action b, fl_field_mapping = fb_field_mapping b, fl_transform = fb_transform b,
        fl_on_error = fb_on_error b, fl_max_retries = fb_max_retries b, fl_is_enabled = True\<rparr>,
      fr_name = fb_name b\<rparr>"

definition create_flow :: "int \<Rightarrow> string \<Rightarrow> flow_body \<Rightarrow> http_request \<Rightarrow> tenant_row \<Rightarrow> ('j, flow_row) gact" where
  "create_flow now new_id b rq t =
     (let r = new_flow new_id (te_id t) b in
      bnd (liftE (check_flow_columns (fr_flow r))) (\<lambda>_.
      bnd the_session (\<lambda>ss. bnd the_db (\<lambda>d.
      bnd (db_insert (visible ss (te_id t)) (list_ex (\<lambda>q. fr_id q = new_id) (db_flows d)) (\<lambda>d. d\<lparr>db_flows := db_flows d @ [r]\<rparr>)) (\<lambda>_.
      bnd (record_audit now (te_id t) ''flow'' new_id ''create'' None
             (Some [(''name'', AuJson (PStr (fb_name b))), (''source'', AuJson (PStr (fb_source_connector b))),
                    (''destination'', AuJson (PStr (fb_destination_connector b)))]) (Some (te_slug t)) (hq_client rq)) (\<lambda>_.
      bnd commit (\<lambda>_.
      ret r)))))))"

definition list_flows :: "tenant_row \<Rightarrow> ('j, flow_row list) gact" where
  "list_flows t =
     bnd the_session (\<lambda>ss. bnd the_db (\<lambda>d.
     ret (filter (\<lambda>r. fr_tenant r = te_id t \<and> visible ss (fr_tenant r)) (db_flows d))))"

definition own_flow :: "string \<Rightarrow> tenant_row \<Rightarrow> ('j, flow_row) gact" where
  "own_flow fid t =
     bnd the_session (\<lambda>ss. bnd the_db (\<lambda>d.
     case find (\<lambda>r. fr_id r = fid \<and> fr_tenant r = te_id t \<and> visible ss (fr_tenant r)) (db_flows d) of
       None \<Rightarrow> throw (HTTPException 404 ''Flow not found'')
     | Some r \<Rightarrow> ret r))"

text \<open>The executions of a flow are deleted with it (\<^verbatim>\<open>cascade="all, delete-orphan"\<close>).\<close>

definition delete_flow :: "int \<Rightarrow> string \<Rightarrow> http_request \<Rightarrow> tenant_row \<Rightarrow> ('j, unit) gact" where
  "delete_flow now fid rq t =
     bnd (own_flow fid t) (\<lambda>r.
     bnd (record_audit now (te_id t) ''flow'' (fr_id r) ''delete'' (Some [(''name'', AuJson (PStr (fr_name r)))]) None
            (Some (te_slug t)) (hq_client rq)) (\<lambda>_.
     bnd (update_db (\<lambda>d. d\<lparr>db_flows := filter (\<lambda>q. fr_id q \<noteq> fr_id r) (db_flows d),
                             db_flow_executions := filter (\<lambda>x. fe_flow_id (xr_execution x) \<noteq> fr_id r) (db_flow_executions d)\<rparr>)) (\<lambda>_.
     commit)))"

text \<open>A null for the field mapping is not modelled.\<close>

record flow_patch =
  fp_name :: "string patch"
  fp_source_connector :: "string patch"
  fp_source_event :: "string patch"
  fp_source_filter :: "pydict patch"
  fp_destination_connector :: "string patch"
  fp_destination_version :: "string patch"
  fp_destination_action :: "string patch"
  fp_field_mapping :: "pyval option"
  fp_transform :: "string patch"
  fp_on_error :: "string patch"
  fp_max_retries :: "int patch"
  fp_is_enabled :: "bool patch"

definition patched_option :: "'a patch \<Rightarrow> 'a option \<Rightarrow> 'a option" where
  "patched_option p old = (case p of Unset \<Rightarrow> old | Null \<Rightarrow> None | Set x \<Rightarrow> Some x)"

definition apply_flow_patch :: "flow_patch \<Rightarrow> flow_row \<Rightarrow> flow_row py" where
  "apply_flow_patch p r =
     (let f = fr_flow r in
      andThen (patched (fp_name p) (fr_name r)) (\<lambda>name.
      andThen (patched (fp_source_connector p) (fl_source_connector f)) (\<lambda>source_connector.
      andThen (patched (fp_source_event p) (fl_source_event f)) (\<lambda>source_event.
      andThen (patched (fp_destination_connector p) (fl_destination_connector f)) (\<lambda>destination_connector.
      andThen (patched (fp_destination_action p) (fl_destination_action f)) (\<lambda>destination_action.
      andThen (patched (fp_on_error p) (fl_on_error f)) (\<lambda>on_error.
      andThen (patched (fp_max_retries p) (fl_max_retries f)) (\<lambda>max_retries.
      andThen (patched (fp_is_enabled p) (fl_is_enabled f)) (\<lambda>is_enabled.
      let f' = f\<lparr>fl_source_connector := source_connector, fl_source_event := source_event,
                 fl_source_filter := patched_option (fp_source_filter p) (fl_source_filter f),
                 fl_destination_connector := destination_connector,
                 fl_destination_version := patched_option (fp_destination_version p) (fl_destination_version f),
                 fl_destination_action := destination_action,
                 fl_field_mapping := (case fp_field_mapping p of None \<Rightarrow> fl_field_mapping f | Some m \<Rightarrow> m),
                 fl_transform := patched_option (fp_transform p) (fl_transform f), fl_on_error := on_error,
                 fl_max_retries := max_retries, fl_is_enabled := is_enabled\<rparr> in
      andThen (check_flow_columns f') (\<lambda>_. Inr (r\<lparr>fr_flow := f', fr_name := name\<rparr>)))))))))))"

definition opt_json :: "('a \<Rightarrow> pyval) \<Rightarrow> 'a option \<Rightarrow> audit_item" where
  "opt_json f x = AuJson (case x of None \<Rightarrow> PNone | Some v \<Rightarrow> f v)"

text \<open>The fields that were sent, with the values \<open>f\<close> gives them.\<close>

definition flow_fields ::
  "flow_patch \<Rightarrow> (string \<Rightarrow> audit_item) \<Rightarrow> audit_value" where
  "flow_fields p f =
     List.concat (map (\<lambda>(name, unset). if unset then [] else [(name, f name)])
       [(''name'', fp_name p = Unset), (''source_connector'', fp_source_connector p = Unset),
        (''source_event'', fp_source_event p = Unset), (''source_filter'', fp_source_filter p = Unset),
        (''destination_connector'', fp_destination_connector p = Unset),
        (''destination_connector_version'', fp_destination_version p = Unset),
        (''destination_action'', fp_destination_action p = Unset), (''field_mapping'', fp_field_mapping p = None),
        (''transform'', fp_transform p = Unset), (''on_error'', fp_on_error p = Unset),
        (''max_retries'', fp_max_retries p = Unset), (''is_enabled'', fp_is_enabled p = Unset)])"

definition flow_field :: "flow_row \<Rightarrow> string \<Rightarrow> audit_item" where
  "flow_field r name =
     (let f = fr_flow r in
      dget [(''name'', AuJson (PStr (fr_name r))), (''source_connector'', AuJson (PStr (fl_source_connector f))),
            (''source_event'', AuJson (PStr (fl_source_event f))), (''source_filter'', opt_json PDict (fl_source_filter f)),
            (''destination_connector'', AuJson (PStr (fl_destination_connector f))),
            (''destination_connector_version'', opt_json PStr (fl_destination_version f)),
            (''destination_action'', AuJson (PStr (fl_destination_action f))), (''field_mapping'', AuJson (fl_field_mapping f)),
            (''transform'', opt_json PStr (fl_transform f)), (''on_error'', AuJson (PStr (fl_on_error f))),
            (''max_retries'', AuJson (PInt (fl_max_retries f))), (''is_enabled'', AuJson (PBool (fl_is_enabled f)))]
        name (AuJson PNone))"

definition update_flow :: "int \<Rightarrow> string \<Rightarrow> flow_patch \<Rightarrow> http_request \<Rightarrow> tenant_row \<Rightarrow> ('j, flow_row) gact" where
  "update_flow now fid p rq t =
     bnd (own_flow fid t) (\<lambda>r.
     bnd (liftE (apply_flow_patch p r)) (\<lambda>r'.
     bnd (update_db (\<lambda>d. d\<lparr>db_flows := update_where (\<lambda>q. fr_id q = fr_id r) (\<lambda>_. r') (db_flows d)\<rparr>)) (\<lambda>_.
     bnd (record_audit now (te_id t) ''flow'' (fr_id r) ''update'' (Some (flow_fields p (flow_field r)))
            (Some (flow_fields p (flow_field r'))) (Some (te_slug t)) (hq_client rq)) (\<lambda>_.
     bnd commit (\<lambda>_.
     ret r')))))"

section \<open>Executions of flows\<close>

text \<open>Missing or empty filters do not restrict; times are inclusive.\<close>

definition list_flow_executions ::
  "string option \<Rightarrow> string option \<Rightarrow> nat \<Rightarrow> nat \<Rightarrow> int option \<Rightarrow> int option \<Rightarrow> tenant_row \<Rightarrow> ('j, flow_exec_row list) gact" where
  "list_flow_executions flow_id status limit offset date_from date_to t =
     bnd the_session (\<lambda>ss. bnd the_db (\<lambda>d.
     ret (page limit offset (latest_first xr_started (filter (\<lambda>x. let e = xr_execution x in
            fe_tenant_id e = te_id t \<and> visible ss (fe_tenant_id e) \<and> restricts flow_id (fe_flow_id e) \<and> restricts status (fe_status e)
            \<and> (case date_from of None \<Rightarrow> True | Some x0 \<Rightarrow> x0 \<le> xr_started x) \<and> (case date_to of None \<Rightarrow> True | Some x1 \<Rightarrow> xr_started x \<le> x1))
          (db_flow_executions d))))))"

record flow_execution_detail =
  fx_row :: flow_exec_row
  fx_source_event_data :: pyval
  fx_destination_action_data :: pyval
  fx_result :: pyval
  fx_flow_name :: "string option"
  fx_gdpr :: pyval

definition raw_flow_execution :: "flow_exec_row \<Rightarrow> flow_row option \<Rightarrow> pydict" where
  "raw_flow_execution x f =
     (let e = xr_execution x; txt = (\<lambda>s. case s of None \<Rightarrow> PNone | Some v \<Rightarrow> PStr v) in
      [(''id'', PStr (xr_id x)), (''flow_id'', PStr (fe_flow_id e)), (''status'', PStr (fe_status e)),
       (''source_event_data'', PDict (fe_source_event_data e)),
       (''destination_action_data'', if truthy (fe_destination_action_data e) then fe_destination_action_data e else PDict []),
       (''result'', case fe_result e of None \<Rightarrow> PNone | Some v \<Rightarrow> v), (''error'', txt (fe_error e)),
       (''retry_count'', PInt (int (fe_retry_count e))),
       (''flow_name'', txt (map_option fr_name f)),
       (''source_connector'', txt (map_option (\<lambda>r. fl_source_connector (fr_flow r)) f)),
       (''destination_connector'', txt (map_option (\<lambda>r. fl_destination_connector (fr_flow r)) f))])"

text \<open>The flow is looked up by its identifier alone.\<close>

definition get_flow_execution_detail :: "string \<Rightarrow> string \<Rightarrow> tenant_row \<Rightarrow> ('j, flow_execution_detail) gact" where
  "get_flow_execution_detail policy xid t =
     bnd the_session (\<lambda>ss. bnd the_db (\<lambda>d.
     case find (\<lambda>x. xr_id x = xid \<and> fe_tenant_id (xr_execution x) = te_id t \<and> visible ss (fe_tenant_id (xr_execution x)))
            (db_flow_executions d) of
       None \<Rightarrow> throw (HTTPException 404 ''Flow execution not found'')
     | Some x \<Rightarrow>
         let f = find (\<lambda>r. fr_id r = fe_flow_id (xr_execution x) \<and> visible ss (fr_tenant r)) (db_flows d);
             redacted = redact_execution_detail policy (raw_flow_execution x f) False in
         ret \<lparr>fx_row = x, fx_source_event_data = dget redacted ''source_event_data'' (PDict []),
              fx_destination_action_data = dget redacted ''destination_action_data'' (PDict []),
              fx_result = dget redacted ''result'' PNone, fx_flow_name = map_option fr_name f,
              fx_gdpr = dget redacted ''_gdpr'' (PDict [])\<rparr>))"

end
