(* ===== verification/ControlPlane.thy ===== *)
theory ControlPlane
  imports WorkflowRuns CredentialGateway FlowGateway
begin

text \<open>
  The requests that change what a tenant has configured, as one step of the platform, the constraints of the
  tables, and what each request does to the tables.  A request is authenticated by the API key it carries.
\<close>

section \<open>Requests\<close>

datatype request =
    CreateWorkflow int string wf_body
  | UpdateWorkflow int string wf_patch
  | DeleteWorkflow int string
  | ToggleWorkflow int string
  | RollbackVersion int string int
  | ActivateConnector int string inst_body
  | DeactivateConnector int string
  | StoreCredentials int "nat \<Rightarrow> string" string store_body
  | DeleteCredentials int string "string option"
  | ReadCredentials string string string
  | RegenerateToken string string string
  | CreateFlow int string flow_body
  | UpdateFlow int string flow_patch
  | DeleteFlow int string

definition quietly :: "('j, 'a) gact \<Rightarrow> ('j, unit) gact" where
  "quietly m = bnd m (\<lambda>_. ret ())"

fun handle :: "'j gateway \<Rightarrow> http_request \<Rightarrow> request \<Rightarrow> tenant_row \<Rightarrow> ('j, unit) gact" where
  "handle gw rq (CreateWorkflow now new_id b) t = quietly (create_workflow gw now new_id b t)"
| "handle gw rq (UpdateWorkflow now wid p) t = quietly (update_workflow gw now wid p t)"
| "handle gw rq (DeleteWorkflow now wid) t = delete_workflow gw now wid t"
| "handle gw rq (ToggleWorkflow now wid) t = quietly (toggle_workflow gw now wid t)"
| "handle gw rq (RollbackVersion now wid n) t = quietly (rollback_workflow_version now wid n rq t)"
| "handle gw rq (ActivateConnector now new_id b) t = quietly (activate_connector now new_id b rq t)"
| "handle gw rq (DeactivateConnector now iid) t = deactivate_connector now iid rq t"
| "handle gw rq (StoreCredentials now nonces generated b) t = quietly (store_credentials gw now nonces generated b rq t)"
| "handle gw rq (DeleteCredentials now connector name) t = quietly (delete_credentials_endpoint gw now connector name rq t)"
| "handle gw rq (ReadCredentials generated connector name) t = quietly (get_credentials gw generated connector name t)"
| "handle gw rq (RegenerateToken generated connector name) t = quietly (regenerate_credential_token gw generated connector name t)"
| "handle gw rq (CreateFlow now new_id b) t = quietly (create_flow now new_id b rq t)"
| "handle gw rq (UpdateFlow now fid p) t = quietly (update_flow now fid p rq t)"
| "handle gw rq (DeleteFlow now fid) t = delete_flow now fid rq t"

definition serve :: "'j gateway \<Rightarrow> 'j platform \<Rightarrow> http_request \<times> request \<Rightarrow> 'j platform" where
  "serve gw w rqc = (case for_tenant gw (fst rqc) (handle gw (fst rqc) (snd rqc)) w of None \<Rightarrow> w | Some (_, w') \<Rightarrow> w')"

section \<open>Evaluation\<close>

lemma bnd_steps [simp]:
  "bnd (ret x) k w = k x w"
  "bnd (throw e) k1 w = Some (Inl e, w)"
  "bnd (gets f) k2 w = k2 (f w) w"
  "bnd (modify g) k3 w = k3 () (g w)"
  "bnd (liftE r) k4 w = (case r of Inl e \<Rightarrow> Some (Inl e, w) | Inr x \<Rightarrow> k4 x w)"
  by (auto simp: bnd_def split: sum.splits)

lemma bnd_if [simp]: "bnd (if c then m else n) k w = (if c then bnd m k w else bnd n k w)"
  by simp

lemmas platform_defs = the_db_def the_session_def update_db_def db_insert_def commit_def

lemma platform_steps [simp]:
  "bnd the_db kd w = kd (pf_db w) w"
  "bnd the_session ks w = ks (pf_session w) w"
  "bnd (update_db f) k w = k () (w\<lparr>pf_db := f (pf_db w)\<rparr>)"
  "bnd commit k w = k () (w\<lparr>pf_session := end_transaction (pf_session w)\<rparr>)"
  "commit w = Some (Inr (), w\<lparr>pf_session := end_transaction (pf_session w)\<rparr>)"
  "bnd (db_insert ok taken f) k w =
     (if \<not> ok then Some (Inl rls_error, w) else if taken then Some (Inl integrity_error, w) else k () (w\<lparr>pf_db := f (pf_db w)\<rparr>))"
  by (simp_all add: platform_defs)

definition audit_row ::
  "int \<Rightarrow> string \<Rightarrow> string \<Rightarrow> string \<Rightarrow> string \<Rightarrow> audit_value option \<Rightarrow> audit_value option \<Rightarrow> string option \<Rightarrow> string option \<Rightarrow> audit_entry" where
  "audit_row now tenant entity_type entity_id action old_value new_value user_id client =
     \<lparr>au_tenant = tenant, au_user = user_id, au_entity_type = entity_type, au_entity_id = entity_id, au_action = action,
      au_old = old_value, au_new = new_value, au_ip = client, au_created = now\<rparr>"

lemma au_tenant_audit_row [simp]: "au_tenant (audit_row now tenant et eid act old new u ip) = tenant"
  by (simp add: audit_row_def)

lemma record_audit_step [simp]:
  "bnd (record_audit now tenant et eid act old new u ip) k w =
     (if visible (pf_session w) tenant
      then k () (w\<lparr>pf_db := (pf_db w)\<lparr>db_audit := db_audit (pf_db w) @ [audit_row now tenant et eid act old new u ip]\<rparr>\<rparr>)
      else Some (Inl rls_error, w))"
  by (simp add: record_audit_def bnd_assoc audit_row_def)

text \<open>The tables after a snapshot.\<close>

definition next_version :: "db_session \<Rightarrow> db \<Rightarrow> string \<Rightarrow> int" where
  "next_version ss d wid = max_version_number (versions_of ss d wid) + 1"

definition version_row :: "wf_row \<Rightarrow> int \<Rightarrow> string option \<Rightarrow> workflow_version" where
  "version_row r n created_by =
     \<lparr>wv_tenant = wr_tenant r, wv_workflow = wr_id r, wv_version = n, wv_nodes = wf_nodes (wr_workflow r),
      wv_edges = wf_edges (wr_workflow r), wv_variables = wf_variables (wr_workflow r), wv_created_by = created_by\<rparr>"

definition put_row :: "wf_row \<Rightarrow> db \<Rightarrow> db" where
  "put_row r d = d\<lparr>db_workflows := update_where (\<lambda>q. wr_id q = wr_id r) (\<lambda>_. r) (db_workflows d)\<rparr>"

lemma snapshot_step [simp]:
  "bnd (snapshot_workflow_version now r by_whom) k w =
     (let n = next_version (pf_session w) (pf_db w) (wr_id r); r' = r\<lparr>wr_version := n, wr_updated := now\<rparr> in
      if \<not> visible (pf_session w) (wr_tenant r) then Some (Inl rls_error, w)
      else if list_ex (\<lambda>q. wv_workflow q = wr_id r \<and> wv_version q = n) (db_versions (pf_db w)) then Some (Inl integrity_error, w)
      else k r' (w\<lparr>pf_db := put_row r' ((pf_db w)\<lparr>db_versions := db_versions (pf_db w) @ [version_row r n by_whom]\<rparr>)\<rparr>))"
  by (simp add: snapshot_workflow_version_def bnd_assoc Let_def put_workflow_def next_version_def version_row_def put_row_def
      wr_id_def wr_tenant_def)

lemma own_workflow_step:
  "bnd (own_workflow wid t) k w =
     (case find (\<lambda>r. wr_id r = wid \<and> wr_tenant r = te_id t \<and> visible (pf_session w) (wr_tenant r)) (db_workflows (pf_db w)) of
        None \<Rightarrow> Some (Inl workflow_not_found, w) | Some r \<Rightarrow> k r w)"
  by (simp add: own_workflow_def bnd_assoc split: option.splits)

lemma own_flow_step:
  "bnd (own_flow fid t) k w =
     (case find (\<lambda>r. fr_id r = fid \<and> fr_tenant r = te_id t \<and> visible (pf_session w) (fr_tenant r)) (db_flows (pf_db w)) of
        None \<Rightarrow> Some (Inl (HTTPException 404 ''Flow not found''), w) | Some r \<Rightarrow> k r w)"
  by (simp add: own_flow_def bnd_assoc split: option.splits)

lemma try_vault_step [simp]:
  "bnd (try_vault f) k w =
     (case f (db_vault (pf_db w)) of
        Inl e \<Rightarrow> Some (Inl e, w) | Inr (x, v) \<Rightarrow> k x (w\<lparr>pf_db := (pf_db w)\<lparr>db_vault := v\<rparr>\<rparr>))"
  by (simp add: try_vault_def bnd_assoc update_vault_def split: sum.splits prod.splits)

lemma session_credentials_step [simp]:
  "bnd (session_credentials gw tenant connector name) k w =
     (case retrieve_all (gw_cipher gw) (rls_vault (pf_session w) (db_vault (pf_db w))) tenant connector name of
        Inl e \<Rightarrow> Some (Inl e, w) | Inr x \<Rightarrow> k x w)"
  by (simp add: session_credentials_def bnd_assoc split: sum.splits)

text \<open>What happens after the commit does not touch the tables.\<close>

definition after_provision :: "'j gateway \<Rightarrow> string \<Rightarrow> node list \<Rightarrow> 'j platform \<Rightarrow> 'j platform" where
  "after_provision gw tenant nodes w = snd (the (provision_trigger_account gw tenant nodes w))"

definition after_reschedule :: "'j gateway \<Rightarrow> wf_row \<Rightarrow> 'j platform \<Rightarrow> 'j platform" where
  "after_reschedule gw r w = snd (the (reschedule gw r w))"

lemma provision_step [simp]: "bnd (provision_trigger_account gw tenant nodes) k w = k () (after_provision gw tenant nodes w)"
  by (auto simp: after_provision_def provision_trigger_account_def do_provision_def bnd_assoc
      split: prod.splits pyval.splits option.splits if_splits)

lemma reschedule_step [simp]: "bnd (reschedule gw r) k w = k () (after_reschedule gw r w)"
  by (simp add: after_reschedule_def reschedule_def)

lemma do_provision_step [simp]:
  "bnd (do_provision p) k w = k () (w\<lparr>pf_provisioned := pf_provisioned w @ (case p of None \<Rightarrow> [] | Some x \<Rightarrow> [x])\<rparr>)"
  by (cases p) (simp_all add: do_provision_def)

lemma after_provision_db [simp]:
  "pf_db (after_provision gw tenant nodes w) = pf_db w" "pf_session (after_provision gw tenant nodes w) = pf_session w"
  by (auto simp: after_provision_def provision_trigger_account_def do_provision_def split: prod.splits pyval.splits option.splits if_splits)

lemma after_reschedule_db [simp]:
  "pf_db (after_reschedule gw r w) = pf_db w" "pf_session (after_reschedule gw r w) = pf_session w"
  by (simp_all add: after_reschedule_def reschedule_def)

end
