(* ===== verification/VaultProps.thy ===== *)
theory VaultProps
  imports CredentialVault
begin

text \<open>Properties of the credential vault, for any cipher that opens what it sealed.\<close>

section \<open>Stored credentials\<close>

record submission =
  su_nonce :: string
  su_tenant :: string
  su_connector :: string
  su_key :: string
  su_plain :: string
  su_name :: string

definition store_all :: "cipher \<Rightarrow> vault \<Rightarrow> submission list \<Rightarrow> vault" where
  "store_all ci v subs = foldl (\<lambda>v s. store_credential ci (su_nonce s) v (su_tenant s) (su_connector s) (su_key s) (su_plain s) (su_name s)) v subs"

definition submission_id :: "submission \<Rightarrow> cred_key" where
  "submission_id s = (su_tenant s, su_connector s, su_name s, su_key s)"

lemma store_all_puts:
  "store_all ci v subs = vault_store.puts v (map (\<lambda>s. (submission_id s, encrypt ci (su_nonce s) (su_plain s))) subs)"
  by (induction subs arbitrary: v) (simp_all add: store_all_def store_credential_def submission_id_def)

lemma map_of_encrypted:
  "map_of (map (\<lambda>s. (submission_id s, f s)) subs) k = map_option f (find (\<lambda>s. submission_id s = k) subs)"
  by (induction subs) auto

text \<open>C33: After any sequence of stores, retrieving a credential gives the plain text stored last for that
  tenant, connector, set and key, and what the vault held before when none was stored: no store touches a
  credential of another tenant, connector, set or key.\<close>

theorem last_stored_credential_is_retrieved:
  assumes "cipher_ok ci" and "vault_ok v" and "\<forall>s \<in> set subs. length (su_nonce s) = nonce_size"
  shows "retrieve ci (store_all ci v subs) tenant connector key name =
    (case find (\<lambda>s. submission_id s = (tenant, connector, name, key)) (rev subs) of
       None \<Rightarrow> retrieve ci v tenant connector key name
     | Some s \<Rightarrow> Inr (Some (su_plain s)))"
proof -
  let ?k = "(tenant, connector, name, key)"
  let ?enc = "\<lambda>s. encrypt ci (su_nonce s) (su_plain s)"
  have "lookup_encrypted (store_all ci v subs) ?k =
    (case map_option ?enc (find (\<lambda>s. submission_id s = ?k) (rev subs)) of None \<Rightarrow> lookup_encrypted v ?k | Some e \<Rightarrow> Some e)"
    unfolding store_all_puts vault_store.lookup_puts_last_wins [OF assms(2)]
    by (simp add: rev_map map_of_encrypted)
  then show ?thesis
  proof (cases "find (\<lambda>s. submission_id s = ?k) (rev subs)")
    case (Some s)
    then have "length (su_nonce s) = nonce_size" using assms(3) by (auto dest: find_Some_mem)
    then show ?thesis
      using \<open>lookup_encrypted (store_all ci v subs) ?k = _\<close> Some
      by (simp add: retrieve_lookup decrypt_encrypt [OF assms(1)])
  qed (simp add: retrieve_lookup)
qed

text \<open>A cipher that satisfies the laws: the text is kept as it is, under its nonce.\<close>

definition plain_cipher :: cipher where
  "plain_cipher = \<lparr>ci_seal = (\<lambda>nonce p. p), ci_open = (\<lambda>nonce c. Some c), ci_b64encode = (\<lambda>x. x), ci_b64decode = (\<lambda>x. Some x)\<rparr>"

definition empty_vault :: vault where
  "empty_vault = \<lparr>va_credentials = [], va_tokens = []\<rparr>"

lemma samples_ok: "cipher_ok plain_cipher" "vault_ok empty_vault"
  by (simp_all add: cipher_ok_def plain_cipher_def vault_ok_def empty_vault_def)

definition sample_submission :: "string \<Rightarrow> submission" where
  "sample_submission p = \<lparr>su_nonce = ''abcdefghijkl'', su_tenant = ''t1'', su_connector = ''dhl'', su_key = ''password'', su_plain = p, su_name = ''default''\<rparr>"

theorem last_stored_credential_is_retrieved_witness:
  "retrieve plain_cipher (store_all plain_cipher empty_vault [sample_submission ''a'', sample_submission ''b'']) ''t1'' ''dhl'' ''password'' ''default''
     = Inr (Some ''b'')"
  using last_stored_credential_is_retrieved [OF samples_ok, of "[sample_submission ''a'', sample_submission ''b'']" "''t1''" "''dhl''" "''password''" "''default''"]
  by (simp add: sample_submission_def nonce_size_def submission_id_def)

section \<open>Tokens\<close>

lemma find_active: "uniq_by ct_token rows \<Longrightarrow> t \<in> set rows \<Longrightarrow> ct_token t = x \<Longrightarrow>
    find (\<lambda>t. ct_token t = x \<and> ct_active t) rows = (if ct_active t then Some t else None)"
  by (auto simp: find_None_all uniq_by_def distinct_map inj_on_def intro!: find_unique)

lemma token_rows_after:
  assumes "old \<in> set rows" and "\<And>t. t \<in> set rows \<Longrightarrow> P t \<longleftrightarrow> t = old"
  shows "set (va_tokens (v\<lparr>va_tokens := update_where P f rows\<rparr>)) = insert (f old) (set rows - {old})"
proof -
  have "(\<lambda>t. if P t then f t else t) ` set rows = (\<lambda>t. if t = old then f t else t) ` set rows"
    by (rule image_cong) (simp_all add: assms(2))
  then show ?thesis using assms(1) by (auto simp: set_update_where)
qed

lemma retrieve_all_same: "va_credentials v' = va_credentials v \<Longrightarrow> retrieve_all ci v' t c n = retrieve_all ci v t c n"
  by (simp add: retrieve_all_def)

text \<open>A regenerated token is the new text; while it is active it resolves to exactly the credentials
  of the tenant, connector and set it was issued for, the old token of that set resolves to nothing, every
  other token resolves as before, and the unique constraints hold.\<close>

lemma regenerated_token_replaces_old:
  assumes "vault_ok v" and "find_token v (tenant, connector, name) = Some old" and "ct_token old \<noteq> generated"
    and "regenerate_token v generated tenant connector name = Inr (row, v')"
  shows "vault_ok v' \<and> ct_token row = generated
    \<and> (ct_active old \<longrightarrow> resolve_token ci v' generated = andThen (retrieve_all ci v tenant connector name) (\<lambda>d. Inr (Some d)))
    \<and> resolve_token ci v' (ct_token old) = Inr None
    \<and> (\<forall>x. x \<noteq> generated \<and> x \<noteq> ct_token old \<longrightarrow> resolve_token ci v' x = resolve_token ci v x)"
proof -
  let ?k = "(tenant, connector, name)"
  let ?f = "\<lambda>t. t\<lparr>ct_token := generated\<rparr>"
  have old: "old \<in> set (va_tokens v)" "token_id old = ?k" using find_token_Some [OF assms(2)] by auto
  have u: "uniq_by token_id (va_tokens v)" "uniq_by ct_token (va_tokens v)" using assms(1) by (simp_all add: vault_ok_def)
  have only: "token_id t = ?k \<longleftrightarrow> t = old" if "t \<in> set (va_tokens v)" for t
    using that old u(1) by (auto simp: uniq_by_def distinct_map inj_on_def)
  have v': "v' = v\<lparr>va_tokens := update_where (\<lambda>t. token_id t = ?k) ?f (va_tokens v)\<rparr>" and row: "row = ?f old"
    and free: "\<not> token_taken v generated"
    using assms(2-4) by (auto simp: regenerate_token_def split: if_splits)
  have ok: "vault_ok v'" by (rule regenerate_token_ok [OF assms(1,4)])
  have rows: "set (va_tokens v') = insert (?f old) (set (va_tokens v) - {old})"
    unfolding v' using old(1) only by (rule token_rows_after)
  have same: "retrieve_all ci v' t c n = retrieve_all ci v t c n" for t c n
    by (rule retrieve_all_same) (simp add: v')
  have "find (\<lambda>t. ct_token t = generated \<and> ct_active t) (va_tokens v') = (if ct_active old then Some (?f old) else None)"
    using find_active [of "va_tokens v'" "?f old" generated] ok rows by (simp add: vault_ok_def)
  moreover have "find (\<lambda>t. ct_token t = ct_token old \<and> ct_active t) (va_tokens v') = None"
    using rows assms(3) u(2) old by (auto simp: find_None_all uniq_by_def distinct_map inj_on_def)
  moreover have "find (\<lambda>t. ct_token t = x \<and> ct_active t) (va_tokens v') = find (\<lambda>t. ct_token t = x \<and> ct_active t) (va_tokens v)"
    if x: "x \<noteq> generated" "x \<noteq> ct_token old" for x
  proof (cases "\<exists>t \<in> set (va_tokens v). ct_token t = x")
    case True
    then obtain t where t: "t \<in> set (va_tokens v)" "ct_token t = x" "t \<in> set (va_tokens v')" using rows x(2) by auto
    then show ?thesis using find_active [OF u(2) t(1,2)] find_active [of "va_tokens v'" t x] ok by (simp add: vault_ok_def)
  next
    case False
    then have "find (\<lambda>t. ct_token t = x \<and> ct_active t) (va_tokens v) = None"
      "find (\<lambda>t. ct_token t = x \<and> ct_active t) (va_tokens v') = None"
      using rows x(1) by (auto simp: find_None_all)
    then show ?thesis by simp
  qed
  ultimately show ?thesis using ok row old(2) by (simp add: resolve_token_def same token_id_def cong: option.case_cong)
qed

definition token_vault :: vault where
  "token_vault = empty_vault\<lparr>va_tokens := [\<lparr>ct_tenant = ''t1'', ct_connector = ''dhl'', ct_name = ''default'', ct_token = ''ctok_a'', ct_active = True\<rparr>]\<rparr>"

lemma regenerated_token_replaces_old_witness:
  "\<exists>row v'. regenerate_token token_vault ''ctok_b'' ''t1'' ''dhl'' ''default'' = Inr (row, v')
     \<and> resolve_token plain_cipher v' ''ctok_a'' = Inr None"
proof -
  have f: "find_token token_vault (''t1'', ''dhl'', ''default'') = Some \<lparr>ct_tenant = ''t1'', ct_connector = ''dhl'', ct_name = ''default'', ct_token = ''ctok_a'', ct_active = True\<rparr>"
    by (simp add: find_token_def token_vault_def token_id_def)
  have ok: "vault_ok token_vault" by (simp add: vault_ok_def token_vault_def empty_vault_def uniq_by_def)
  obtain row v' where r: "regenerate_token token_vault ''ctok_b'' ''t1'' ''dhl'' ''default'' = Inr (row, v')"
    using f by (simp add: regenerate_token_def token_taken_def token_vault_def)
  from regenerated_token_replaces_old [OF ok f _ r, of plain_cipher] r show ?thesis by auto
qed

end
