(* ===== verification/WorkflowHistory.thy ===== *)
theory WorkflowHistory
  imports ControlPlane VaultProps
begin

text \<open>
  Properties of the control plane: the constraints of the tables and the history of versions as an invariant of
  any sequence of requests, isolation of tenants, the audit log, and the return to an earlier version.
\<close>

section \<open>The constraints of the tables\<close>

definition versions_numbered :: "workflow_version list \<Rightarrow> wf_row \<Rightarrow> int \<Rightarrow> bool" where
  "versions_numbered vs r n \<longleftrightarrow> map wv_version (filter (\<lambda>v. wv_workflow v = wr_id r) vs) = [1..n]"

definition versions_owned :: "db \<Rightarrow> bool" where
  "versions_owned d \<longleftrightarrow> list_all (\<lambda>v. list_ex (\<lambda>r. wr_id r = wv_workflow v \<and> wr_tenant r = wv_tenant v) (db_workflows d)) (db_versions d)"

text \<open>Workflows have different identifiers, every version belongs to a workflow of its tenant, and the versions of a
  workflow are numbered from 1 to the version the workflow has.\<close>

definition history_ok :: "db \<Rightarrow> bool" where
  "history_ok d \<longleftrightarrow> uniq_by wr_id (db_workflows d) \<and> versions_owned d
     \<and> list_all (\<lambda>r. 1 \<le> wr_version r \<and> versions_numbered (db_versions d) r (wr_version r)) (db_workflows d)"

text \<open>An execution belongs to a flow of its tenant.\<close>

definition executions_owned :: "flow_row list \<Rightarrow> flow_exec_row list \<Rightarrow> bool" where
  "executions_owned fs xs \<longleftrightarrow>
     list_all (\<lambda>x. list_ex (\<lambda>r. fr_id r = fe_flow_id (xr_execution x) \<and> fr_tenant r = fe_tenant_id (xr_execution x)) fs) xs"

definition db_ok :: "db \<Rightarrow> bool" where
  "db_ok d \<longleftrightarrow> history_ok d \<and> vault_ok (db_vault d) \<and> uniq_by ci_id (db_instances d)
     \<and> uniq_by (\<lambda>i. (cn_tenant i, cn_connector i, cn_version i)) (db_instances d) \<and> uniq_by fr_id (db_flows d)
     \<and> executions_owned (db_flows d) (db_flow_executions d)"

section \<open>Tables\<close>

lemma filter_filter_other: "(\<And>q. q \<in> set rows \<Longrightarrow> \<not> P q \<Longrightarrow> \<not> K q) \<Longrightarrow> filter K (filter P rows) = filter K rows"
  by (induction rows) auto

lemma uniq_by_eq: "uniq_by key rows \<Longrightarrow> q \<in> set rows \<Longrightarrow> r \<in> set rows \<Longrightarrow> key q = key r \<Longrightarrow> q = r"
  by (auto simp: uniq_by_def distinct_map inj_on_def)

lemma uniq_replace: "uniq_by key rows \<Longrightarrow> key r = i \<Longrightarrow> uniq_by key (update_where (\<lambda>q. key q = i) (\<lambda>_. r) rows)"
proof -
  assume "uniq_by key rows" and "key r = i"
  moreover have "map key (update_where (\<lambda>q. key q = i) (\<lambda>_. r) rows) = map key rows"
    using \<open>key r = i\<close> by (auto simp: update_where_def)
  ultimately show ?thesis by (simp add: uniq_by_def)
qed

lemma set_replace: "r0 \<in> set rows \<Longrightarrow> key r0 = i \<Longrightarrow>
    set (update_where (\<lambda>q. key q = i) (\<lambda>_. r) rows) = insert r {q \<in> set rows. key q \<noteq> i}"
  by (auto simp: set_update_where)

section \<open>Snapshots\<close>

lemma foldl_max_upto: "0 \<le> n \<Longrightarrow> foldl max 0 [1..n] = n"
proof (induction n rule: int_ge_induct)
  case (step i)
  then have "[1..i + 1] = [1..i] @ [i + 1]" by (simp add: upto_rec2)
  with step show ?case by simp
qed simp

lemma version_row_simps [simp]:
  "wv_workflow (version_row r n u) = wr_id r" "wv_tenant (version_row r n u) = wr_tenant r" "wv_version (version_row r n u) = n"
  "wv_nodes (version_row r n u) = wf_nodes (wr_workflow r)" "wv_edges (version_row r n u) = wf_edges (wr_workflow r)"
  "wv_variables (version_row r n u) = wf_variables (wr_workflow r)"
  by (simp_all add: version_row_def)

lemma row_update_simps [simp]:
  "wr_id (r\<lparr>wr_version := n\<rparr>) = wr_id r" "wr_id (r\<lparr>wr_updated := u\<rparr>) = wr_id r"
  "wr_tenant (r\<lparr>wr_version := n\<rparr>) = wr_tenant r" "wr_tenant (r\<lparr>wr_updated := u\<rparr>) = wr_tenant r"
  by (simp_all add: wr_id_def wr_tenant_def)

lemma numbered_version: "versions_numbered vs r m \<Longrightarrow> v \<in> set vs \<Longrightarrow> wv_workflow v = wr_id r \<Longrightarrow> 1 \<le> wv_version v \<and> wv_version v \<le> m"
proof -
  assume n: "versions_numbered vs r m" and "v \<in> set vs" and "wv_workflow v = wr_id r"
  then have "wv_version v \<in> set (map wv_version (filter (\<lambda>v. wv_workflow v = wr_id r) vs))" by auto
  then have "wv_version v \<in> set [1..m]" using n by (simp only: versions_numbered_def)
  then show ?thesis by simp
qed

lemma version_tenant:
  assumes "versions_owned d" and "uniq_by wr_id (db_workflows d)" and "r0 \<in> set (db_workflows d)" and "v \<in> set (db_versions d)"
    and "wv_workflow v = wr_id r0"
  shows "wv_tenant v = wr_tenant r0"
proof -
  from assms(1,4) obtain q where "q \<in> set (db_workflows d)" "wr_id q = wv_workflow v" "wr_tenant q = wv_tenant v"
    by (auto simp: versions_owned_def list_all_iff list_ex_iff)
  with uniq_by_eq [OF assms(2) _ assms(3), of q] assms(5) show ?thesis by simp
qed

lemma all_versions_visible:
  assumes "versions_owned d" and "uniq_by wr_id (db_workflows d)" and "r0 \<in> set (db_workflows d)" and "wr_id r0 = wid"
    and "visible ss (wr_tenant r0)"
  shows "versions_of ss d wid = filter (\<lambda>v. wv_workflow v = wid) (db_versions d)"
  unfolding versions_of_def using version_tenant [OF assms(1-3)] assms(4,5) by (intro filter_cong refl) auto

text \<open>A snapshot of a row with \<open>m\<close> versions is version \<open>m + 1\<close> and keeps the history in order.\<close>

lemma snapshot_history:
  assumes uniq: "uniq_by wr_id (db_workflows d)" and owned: "versions_owned d" and r0: "r0 \<in> set (db_workflows d)"
    and same: "wr_id r = wr_id r0" "wr_tenant r = wr_tenant r0" and vis: "visible ss (wr_tenant r)"
    and others: "\<And>q. q \<in> set (db_workflows d) \<Longrightarrow> wr_id q \<noteq> wr_id r \<Longrightarrow> 1 \<le> wr_version q \<and> versions_numbered (db_versions d) q (wr_version q)"
    and m: "versions_numbered (db_versions d) r m" "0 \<le> m"
  shows "next_version ss d (wr_id r) = m + 1"
    and "\<not> list_ex (\<lambda>q. wv_workflow q = wr_id r \<and> wv_version q = m + 1) (db_versions d)"
    and "history_ok (put_row (r\<lparr>wr_version := m + 1, wr_updated := u\<rparr>) (d\<lparr>db_versions := db_versions d @ [version_row r (m + 1) by_whom]\<rparr>))"
proof -
  show "next_version ss d (wr_id r) = m + 1"
    using all_versions_visible [OF owned uniq r0, of "wr_id r" ss] same vis m
    by (simp add: next_version_def max_version_number_def versions_numbered_def foldl_max_upto)
  show "\<not> list_ex (\<lambda>q. wv_workflow q = wr_id r \<and> wv_version q = m + 1) (db_versions d)"
    using numbered_version [OF m(1)] by (fastforce simp: list_ex_iff)
  let ?r = "r\<lparr>wr_version := m + 1, wr_updated := u\<rparr>" and ?vs = "db_versions d @ [version_row r (m + 1) by_whom]"
  let ?rows = "update_where (\<lambda>q. wr_id q = wr_id r) (\<lambda>_. ?r) (db_workflows d)"
  have rows: "set ?rows = insert ?r {q \<in> set (db_workflows d). wr_id q \<noteq> wr_id r}"
    using r0 same(1) by (intro set_replace [where ?r0.0 = r0]) simp_all
  have up: "[1..m + 1] = [1..m] @ [m + 1]" using m(2) by (simp add: upto_rec2)
  have "versions_numbered ?vs ?r (m + 1)" using m(1) by (simp add: versions_numbered_def up)
  moreover have "versions_numbered ?vs q (wr_version q)" if "q \<in> set (db_workflows d)" and "wr_id q \<noteq> wr_id r" for q
    using others [OF that] that(2) by (auto simp: versions_numbered_def)
  moreover have "list_ex (\<lambda>q. wr_id q = wv_workflow v \<and> wr_tenant q = wv_tenant v) ?rows" if "v \<in> set ?vs" for v
  proof (cases "wv_workflow v = wr_id r")
    case True
    then have "wv_tenant v = wr_tenant r"
      using that version_tenant [OF owned uniq r0, of v] same by auto
    then show ?thesis using True rows by (simp add: list_ex_iff)
  next
    case False
    with that have "v \<in> set (db_versions d)" by auto
    with owned obtain q where "q \<in> set (db_workflows d)" "wr_id q = wv_workflow v" "wr_tenant q = wv_tenant v"
      by (auto simp: versions_owned_def list_all_iff list_ex_iff)
    with False show ?thesis unfolding list_ex_iff rows by auto
  qed
  moreover have "uniq_by wr_id ?rows" using uniq by (intro uniq_replace) simp_all
  ultimately show "history_ok (put_row ?r (d\<lparr>db_versions := ?vs\<rparr>))"
    using others rows m(2) by (simp add: history_ok_def put_row_def versions_owned_def list_all_iff)
qed

section \<open>What a request does\<close>

text \<open>The session in which a request of a tenant is handled.\<close>

definition tenant_session :: "string \<Rightarrow> db_session \<Rightarrow> bool" where
  "tenant_session tid ss \<longleftrightarrow> ss_tenant ss = Some tid \<and> \<not> ss_bypass ss"

lemma tenant_session_visible: "tenant_session tid ss \<Longrightarrow> visible ss x \<longleftrightarrow> \<not> ss_enforced ss \<or> x = tid"
  by (auto simp: tenant_session_def visible_def)

lemma tenant_session_own [simp]: "tenant_session tid ss \<Longrightarrow> visible ss tid"
  by (simp add: tenant_session_visible)

text \<open>The rows of everyone but one tenant.\<close>

definition others :: "string \<Rightarrow> db \<Rightarrow> db" where
  "others tid d =
     d\<lparr>db_instances := filter (\<lambda>i. cn_tenant i \<noteq> tid) (db_instances d),
       db_vault := \<lparr>va_credentials = filter (\<lambda>c. cr_tenant c \<noteq> tid) (va_credentials (db_vault d)),
                    va_tokens = filter (\<lambda>k. ct_tenant k \<noteq> tid) (va_tokens (db_vault d))\<rparr>,
       db_workflows := filter (\<lambda>r. wr_tenant r \<noteq> tid) (db_workflows d),
       db_versions := filter (\<lambda>v. wv_tenant v \<noteq> tid) (db_versions d),
       db_audit := filter (\<lambda>e. au_tenant e \<noteq> tid) (db_audit d),
       db_flows := filter (\<lambda>r. fr_tenant r \<noteq> tid) (db_flows d),
       db_flow_executions := filter (\<lambda>x. fe_tenant_id (xr_execution x) \<noteq> tid) (db_flow_executions d)\<rparr>"

text \<open>The entry a successful request leaves in the log, if it leaves one.\<close>

definition logs :: "string \<Rightarrow> db \<Rightarrow> db \<Rightarrow> bool" where
  "logs tid d d' \<longleftrightarrow> (\<exists>e. db_audit d' = db_audit d @ [e] \<and> au_tenant e = tid)"

text \<open>What every request of a tenant does: the constraints stay, and so does what others have.\<close>

definition harmless :: "string \<Rightarrow> db \<Rightarrow> db \<Rightarrow> bool" where
  "harmless tid d d' \<longleftrightarrow> db_ok d' \<and> others tid d' = others tid d"

lemma history_row: "history_ok d \<Longrightarrow> r \<in> set (db_workflows d) \<Longrightarrow> 1 \<le> wr_version r \<and> versions_numbered (db_versions d) r (wr_version r)"
  by (simp add: history_ok_def list_all_iff)

text \<open>An update or a rollback of a row: the new row and its snapshot.\<close>

definition with_snapshot :: "int \<Rightarrow> wf_row \<Rightarrow> int \<Rightarrow> string option \<Rightarrow> db \<Rightarrow> db" where
  "with_snapshot now r n by_whom d =
     put_row (r\<lparr>wr_version := n, wr_updated := now\<rparr>) (d\<lparr>db_versions := db_versions d @ [version_row r n by_whom]\<rparr>)"

lemma snapshot_of_row:
  assumes "history_ok d" and "r0 \<in> set (db_workflows d)" and "wr_id r = wr_id r0" and "wr_tenant r = wr_tenant r0"
    and "visible ss (wr_tenant r)"
  shows "next_version ss d (wr_id r) = wr_version r0 + 1"
    and "\<not> list_ex (\<lambda>q. wv_workflow q = wr_id r \<and> wv_version q = wr_version r0 + 1) (db_versions d)"
    and "history_ok (with_snapshot now r (wr_version r0 + 1) by_whom d)"
proof -
  have uniq: "uniq_by wr_id (db_workflows d)" and owned: "versions_owned d" using assms(1) by (auto simp: history_ok_def)
  have rows: "1 \<le> wr_version q \<and> versions_numbered (db_versions d) q (wr_version q)" if "q \<in> set (db_workflows d)" for q
    using history_row [OF assms(1) that] .
  have n: "versions_numbered (db_versions d) r (wr_version r0)" "0 \<le> wr_version r0"
    using rows [OF assms(2)] assms(3) by (auto simp: versions_numbered_def)
  note * = snapshot_history [OF uniq owned assms(2-5) rows n]
  show "next_version ss d (wr_id r) = wr_version r0 + 1"
    and "\<not> list_ex (\<lambda>q. wv_workflow q = wr_id r \<and> wv_version q = wr_version r0 + 1) (db_versions d)"
    and "history_ok (with_snapshot now r (wr_version r0 + 1) by_whom d)"
    unfolding with_snapshot_def by (rule *; assumption)+
qed

lemma others_with_snapshot:
  assumes "history_ok d" and "r0 \<in> set (db_workflows d)" and "wr_id r = wr_id r0" and "wr_tenant r0 = tid" and "wr_tenant r = tid"
  shows "others tid (with_snapshot now r n by_whom d) = others tid d"
proof -
  have "uniq_by wr_id (db_workflows d)" using assms(1) by (simp add: history_ok_def)
  then have "\<And>q. q \<in> set (db_workflows d) \<Longrightarrow> wr_id q = wr_id r \<Longrightarrow> wr_tenant q = tid"
    using uniq_by_eq [OF _ _ assms(2)] assms(3,4) by metis
  then have "filter (\<lambda>r. wr_tenant r \<noteq> tid) (update_where (\<lambda>q. wr_id q = wr_id r) (\<lambda>_. r\<lparr>wr_version := n, wr_updated := now\<rparr>) (db_workflows d))
      = filter (\<lambda>r. wr_tenant r \<noteq> tid) (db_workflows d)"
    using assms(5) by (intro filter_update_where_other) simp
  then show ?thesis using assms(5) by (simp add: others_def with_snapshot_def put_row_def)
qed

lemma db_ok_parts: "db_ok d \<Longrightarrow> history_ok (d\<lparr>db_audit := a\<rparr>)" "db_ok (d\<lparr>db_audit := a\<rparr>) = db_ok d"
  by (simp_all add: db_ok_def history_ok_def versions_owned_def)

lemma with_snapshot_tables [simp]:
  "db_vault (with_snapshot now r n u d) = db_vault d" "db_instances (with_snapshot now r n u d) = db_instances d"
  "db_flows (with_snapshot now r n u d) = db_flows d" "db_audit (with_snapshot now r n u d) = db_audit d"
  "db_flow_executions (with_snapshot now r n u d) = db_flow_executions d"
  by (simp_all add: with_snapshot_def put_row_def)

lemma with_snapshot_audit: "with_snapshot now r n u (d\<lparr>db_audit := a\<rparr>) = (with_snapshot now r n u d)\<lparr>db_audit := a\<rparr>"
  by (simp add: with_snapshot_def put_row_def)

lemma others_audit: "others tid (d\<lparr>db_audit := db_audit d @ [e]\<rparr>) = others tid d" if "au_tenant e = tid"
  using that by (simp add: others_def)

section \<open>Requests about workflows\<close>

lemma apply_patch_identity: "apply_patch rt p r = Inr r' \<Longrightarrow> wr_id r' = wr_id r \<and> wr_tenant r' = wr_tenant r"
  by (auto simp: apply_patch_def Let_def andThen_eq_Inr wr_id_def wr_tenant_def)

lemma find_own_workflow:
  assumes "find (\<lambda>r. wr_id r = wid \<and> wr_tenant r = tid \<and> visible ss (wr_tenant r)) rows = Some r"
  shows "r \<in> set rows" and "wr_id r = wid" and "wr_tenant r = tid"
  using assms by (auto dest: find_Some_mem)

lemma harmless_snapshot:
  assumes "db_ok d" and "r0 \<in> set (db_workflows d)" and "wr_id r = wr_id r0" and "wr_tenant r0 = tid" and "wr_tenant r = tid" and "au_tenant e = tid"
  shows "harmless tid d ((with_snapshot now r (wr_version r0 + 1) u d)\<lparr>db_audit := db_audit d @ [e]\<rparr>)"
proof -
  let ?d = "with_snapshot now r (wr_version r0 + 1) u d"
  have h: "history_ok d" using assms(1) by (simp add: db_ok_def)
  have "history_ok ?d"
    using snapshot_of_row(3) [OF h assms(2,3), of "\<lparr>ss_enforced = False, ss_tenant = None, ss_bypass = False\<rparr>"] assms(4,5) by (simp add: visible_def)
  then have "db_ok ?d" using assms(1) by (simp add: db_ok_def)
  moreover have "others tid (?d\<lparr>db_audit := db_audit d @ [e]\<rparr>) = others tid d"
    using others_audit [OF assms(6), of ?d] others_with_snapshot [OF h assms(2-5)] by simp
  ultimately show ?thesis by (simp add: harmless_def db_ok_parts)
qed

lemma update_workflow_effect:
  assumes run: "update_workflow gw now wid p t w = Some (Inr x, w')" and ss: "tenant_session (te_id t) (pf_session w)" and ok: "db_ok (pf_db w)"
  obtains r0 r e where "r0 \<in> set (db_workflows (pf_db w))" "wr_id r0 = wid" "wr_tenant r0 = te_id t" "apply_patch (gw_rt gw) p r0 = Inr r"
    "au_tenant e = te_id t" "pf_db w' = (with_snapshot now r (wr_version r0 + 1) (Some (te_slug t)) (pf_db w))\<lparr>db_audit := db_audit (pf_db w) @ [e]\<rparr>"
proof -
  have h: "history_ok (pf_db w)" using ok by (simp add: db_ok_def)
  from run obtain r0 where r0: "find (\<lambda>r. wr_id r = wid \<and> wr_tenant r = te_id t \<and> visible (pf_session w) (wr_tenant r)) (db_workflows (pf_db w)) = Some r0"
    by (auto simp: update_workflow_def own_workflow_step split: option.splits)
  note own = find_own_workflow [OF r0]
  from run r0 obtain r where r: "apply_patch (gw_rt gw) p r0 = Inr r"
    by (auto simp: update_workflow_def own_workflow_step split: sum.splits)
  note same = apply_patch_identity [OF r]
  have vis: "visible (pf_session w) (wr_tenant r)" using same own ss by simp
  note snap = snapshot_of_row(1,2) [OF h own(1) _ _ vis]
  let ?e = "audit_row now (te_id t) ''workflow'' (wr_id r0) ''update'' (Some (graph_state r0)) (Some (patch_audit p)) (Some (te_slug t)) None"
  from run r0 r snap same vis ss
  have "pf_db w' = (with_snapshot now r (wr_version r0 + 1) (Some (te_slug t)) (pf_db w))\<lparr>db_audit := db_audit (pf_db w) @ [?e]\<rparr>"
    by (auto simp: update_workflow_def own_workflow_step Let_def with_snapshot_def put_row_def split: if_splits)
  with own r that [of r0 r ?e] show thesis by simp
qed

lemma restore_graph_simps [simp]:
  "wr_id (restore_graph v r) = wr_id r" "wr_tenant (restore_graph v r) = wr_tenant r" "wr_version (restore_graph v r) = wr_version r"
  by (simp_all add: restore_graph_def wr_id_def wr_tenant_def)

text \<open>A rollback also works on a row of another tenant, when the session sees it.\<close>

lemma rollback_effect:
  assumes run: "rollback_workflow_version now wid n rq t w = Some (Inr x, w')" and ok: "db_ok (pf_db w)"
  obtains r0 v e where "r0 \<in> set (db_workflows (pf_db w))" "wr_id r0 = wid" "visible (pf_session w) (wr_tenant r0)"
    "get_workflow_version (pf_session w) (pf_db w) wid n = Some v" "au_tenant e = wr_tenant r0"
    "pf_db w' = (with_snapshot now (restore_graph v r0) (wr_version r0 + 1) (Some (te_slug t)) (pf_db w))
       \<lparr>db_audit := db_audit (pf_db w) @ [e]\<rparr>"
proof -
  have h: "history_ok (pf_db w)" using ok by (simp add: db_ok_def)
  from run obtain r0 v where r0: "find_workflow_row (pf_session w) (pf_db w) wid = Some r0"
    and v: "get_workflow_version (pf_session w) (pf_db w) wid n = Some v"
    by (auto simp: rollback_workflow_version_def rollback_workflow_def bnd_assoc split: option.splits)
  then have own: "r0 \<in> set (db_workflows (pf_db w))" "wr_id r0 = wid" "visible (pf_session w) (wr_tenant r0)"
    by (auto simp: find_workflow_row_def dest: find_Some_mem)
  note snap = snapshot_of_row(1,2) [OF h own(1), of "restore_graph v r0", simplified, OF own(3)]
  let ?r = "restore_graph v r0" let ?r' = "?r\<lparr>wr_version := wr_version r0 + 1, wr_updated := now\<rparr>"
  let ?e = "audit_row now (wr_tenant r0) ''workflow'' (wr_id r0) ''rollback'' (Some (graph_state r0))
    (Some (graph_state ?r' @ [(''rolled_back_from'', AuJson (PInt n))])) (Some (te_slug t)) (hq_client rq)"
  from run r0 v snap own(3)
  have "pf_db w' = (with_snapshot now ?r (wr_version r0 + 1) (Some (te_slug t)) (pf_db w))\<lparr>db_audit := db_audit (pf_db w) @ [?e]\<rparr>"
    by (auto simp: rollback_workflow_version_def rollback_workflow_def bnd_assoc Let_def with_snapshot_def put_row_def)
  with own v that [of r0 v ?e] show thesis by simp
qed

text \<open>A new workflow.\<close>

lemma new_row_simps:
  "wr_id \<lparr>wr_workflow = new_workflow i tid b c, wr_description = s, wr_version = n, wr_updated = u\<rparr> = i"
  "wr_tenant \<lparr>wr_workflow = new_workflow i tid b c, wr_description = s, wr_version = n, wr_updated = u\<rparr> = tid"
  by (simp_all add: wr_id_def wr_tenant_def new_workflow_def)

lemma numbered_none: "versions_owned d \<Longrightarrow> (\<And>q. q \<in> set (db_workflows d) \<Longrightarrow> wr_id q \<noteq> wr_id r) \<Longrightarrow> versions_numbered (db_versions d) r 0"
  by (force simp: versions_owned_def versions_numbered_def list_all_iff list_ex_iff filter_empty_conv)

definition with_row :: "wf_row \<Rightarrow> db \<Rightarrow> db" where
  "with_row r d = d\<lparr>db_workflows := db_workflows d @ [r]\<rparr>"

lemma with_row_simps [simp]:
  "db_workflows (with_row r d) = db_workflows d @ [r]" "db_versions (with_row r d) = db_versions d" "db_vault (with_row r d) = db_vault d"
  "db_instances (with_row r d) = db_instances d" "db_flows (with_row r d) = db_flows d" "db_audit (with_row r d) = db_audit d"
  "db_flow_executions (with_row r d) = db_flow_executions d"
  by (simp_all add: with_row_def)

lemma snapshot_of_new:
  assumes h: "history_ok d" and fresh: "\<not> list_ex (\<lambda>q. wr_id q = wr_id r) (db_workflows d)" and vis: "visible ss (wr_tenant r)"
  shows "next_version ss (with_row r d) (wr_id r) = 1"
    and "\<not> list_ex (\<lambda>q. wv_workflow q = wr_id r \<and> wv_version q = 1) (db_versions d)"
    and "history_ok (with_snapshot now r 1 u (with_row r d))"
proof -
  have new: "wr_id q \<noteq> wr_id r" if "q \<in> set (db_workflows d)" for q using fresh that by (auto simp: list_ex_iff)
  have uniq: "uniq_by wr_id (db_workflows (with_row r d))" using h new by (auto simp: history_ok_def uniq_snoc)
  have owned: "versions_owned (with_row r d)" using h by (auto simp: history_ok_def versions_owned_def list_all_iff list_ex_iff)
  have mem: "r \<in> set (db_workflows (with_row r d))" by simp
  have rows: "1 \<le> wr_version q \<and> versions_numbered (db_versions (with_row r d)) q (wr_version q)"
    if "q \<in> set (db_workflows (with_row r d))" and "wr_id q \<noteq> wr_id r" for q using history_row [OF h, of q] that by auto
  have none: "versions_numbered (db_versions (with_row r d)) r 0" using numbered_none [of d r] h new by (simp add: history_ok_def)
  note * = snapshot_history [OF uniq owned mem refl refl vis rows none order_refl]
  show "next_version ss (with_row r d) (wr_id r) = 1" using *(1) by simp
  show "\<not> list_ex (\<lambda>q. wv_workflow q = wr_id r \<and> wv_version q = 1) (db_versions d)" using *(2) by simp
  show "history_ok (with_snapshot now r 1 u (with_row r d))" using *(3) [of now u] by (simp add: with_snapshot_def)
qed

lemma create_workflow_effect:
  assumes run: "create_workflow gw now new_id b t w = Some (Inr x, w')" and ss: "tenant_session (te_id t) (pf_session w)" and ok: "db_ok (pf_db w)"
  obtains r e where "\<not> list_ex (\<lambda>q. wr_id q = wr_id r) (db_workflows (pf_db w))" "wr_tenant r = te_id t" "au_tenant e = te_id t"
    "pf_db w' = (with_snapshot now r 1 (Some (te_slug t)) (with_row r (pf_db w)))\<lparr>db_audit := db_audit (pf_db w) @ [e]\<rparr>"
proof -
  have h: "history_ok (pf_db w)" using ok by (simp add: db_ok_def)
  from run obtain columns where v: "validate_trigger_request_access (gw_rt gw) (wb_nodes b) = Inr ()" and c: "trigger_columns (wb_nodes b) = Inr columns"
    by (auto simp: create_workflow_def split: sum.splits)
  define r where "r = \<lparr>wr_workflow = new_workflow new_id (te_id t) b columns, wr_description = wb_description b, wr_version = 1, wr_updated = now\<rparr>"
  have ids: "wr_id r = new_id" "wr_tenant r = te_id t" by (simp_all only: r_def new_row_simps)
  have vis: "visible (pf_session w) (wr_tenant r)" using ids ss by simp
  from run v c vis have fresh: "\<not> list_ex (\<lambda>q. wr_id q = wr_id r) (db_workflows (pf_db w))"
    by (simp add: create_workflow_def Let_def insert_workflow_def bnd_assoc r_def [symmetric] split: if_splits)
  note snap = snapshot_of_new(1,2) [OF h fresh vis]
  let ?e = "audit_row now (te_id t) ''workflow'' new_id ''create'' None
      (Some [(''name'', AuJson (PStr (wb_name b))), (''node_count'', AuJson (PInt (int (length (wb_nodes b))))),
             (''edge_count'', AuJson (PInt (int (length (wb_edges b)))))]) (Some (te_slug t)) None"
  from run v c vis fresh snap ss
  have "pf_db w' = (with_snapshot now r 1 (Some (te_slug t)) (with_row r (pf_db w)))\<lparr>db_audit := db_audit (pf_db w) @ [?e]\<rparr>"
    by (auto simp: create_workflow_def Let_def insert_workflow_def bnd_assoc r_def [symmetric] with_row_def [symmetric] with_snapshot_def put_row_def)
  with fresh ids that [of r ?e] show thesis by simp
qed

lemma harmless_new:
  assumes "db_ok d" and "\<not> list_ex (\<lambda>q. wr_id q = wr_id r) (db_workflows d)" and "wr_tenant r = tid" and "au_tenant e = tid"
  shows "harmless tid d ((with_snapshot now r 1 u (with_row r d))\<lparr>db_audit := db_audit d @ [e]\<rparr>)"
proof -
  let ?d = "with_snapshot now r 1 u (with_row r d)"
  have h: "history_ok d" using assms(1) by (simp add: db_ok_def)
  have "history_ok ?d"
    using snapshot_of_new(3) [OF h assms(2), of "\<lparr>ss_enforced = False, ss_tenant = None, ss_bypass = False\<rparr>"] by (simp add: visible_def)
  then have "db_ok ?d" using assms(1) by (simp add: db_ok_def)
  moreover have "filter (\<lambda>q. wr_tenant q \<noteq> tid) (db_workflows ?d) = filter (\<lambda>q. wr_tenant q \<noteq> tid) (db_workflows d @ [r])"
    using assms(2,3) by (simp add: with_snapshot_def put_row_def, subst filter_update_where_other) (auto simp: list_ex_iff)
  ultimately show ?thesis
    using assms(3,4) by (simp add: harmless_def db_ok_parts others_def with_snapshot_def put_row_def with_row_def)
qed

lemma history_ok_update:
  assumes "history_ok d" and "\<And>q. q \<in> set (db_workflows d) \<Longrightarrow> P q \<Longrightarrow> wr_id (f q) = wr_id q \<and> wr_tenant (f q) = wr_tenant q \<and> wr_version (f q) = wr_version q"
  shows "history_ok (d\<lparr>db_workflows := update_where P f (db_workflows d)\<rparr>)"
proof -
  have m: "map wr_id (update_where P f (db_workflows d)) = map wr_id (db_workflows d)" using assms(2) by (auto simp: update_where_def)
  have n: "versions_numbered (db_versions d) (f q) (wr_version q)" if "q \<in> set (db_workflows d)" "P q" for q
    using history_row [OF assms(1) that(1)] assms(2) [OF that] by (simp add: versions_numbered_def)
  have o': "list_ex (\<lambda>r. wr_id r = i \<and> wr_tenant r = k) (update_where P f (db_workflows d))"
    if "list_ex (\<lambda>r. wr_id r = i \<and> wr_tenant r = k) (db_workflows d)" for i k
    using that assms(2) by (auto simp: list_ex_iff bex_update_where)
  show ?thesis using assms(1) m n o' assms(2) history_row [OF assms(1)]
    by (auto simp: history_ok_def uniq_by_def versions_owned_def list_all_iff set_update_where)
qed

lemma history_ok_delete:
  assumes "history_ok d"
  shows "history_ok (d\<lparr>db_workflows := filter (\<lambda>r. wr_id r \<noteq> wid) (db_workflows d),
                      db_versions := filter (\<lambda>v. wv_workflow v \<noteq> wid) (db_versions d)\<rparr>)"
proof -
  have "filter (\<lambda>v. wv_workflow v = wr_id r) (filter (\<lambda>v. wv_workflow v \<noteq> wid) vs) = filter (\<lambda>v. wv_workflow v = wr_id r) vs"
    if "wr_id r \<noteq> wid" for r and vs :: "workflow_version list" using that by (intro filter_filter_other) auto
  with assms show ?thesis
    by (fastforce simp: history_ok_def uniq_filter versions_owned_def list_all_iff list_ex_iff versions_numbered_def)
qed

lemma delete_workflow_effect:
  assumes run: "delete_workflow gw now wid t w = Some (Inr x, w')" and ss: "tenant_session (te_id t) (pf_session w)" and ok: "db_ok (pf_db w)"
  obtains e where "au_tenant e = te_id t" "list_ex (\<lambda>r. wr_id r = wid \<and> wr_tenant r = te_id t) (db_workflows (pf_db w))"
    "pf_db w' = (pf_db w)\<lparr>db_workflows := filter (\<lambda>r. wr_id r \<noteq> wid) (db_workflows (pf_db w)),
       db_versions := filter (\<lambda>v. wv_workflow v \<noteq> wid) (db_versions (pf_db w)), db_audit := db_audit (pf_db w) @ [e]\<rparr>"
proof -
  from run obtain r0 where r0: "find (\<lambda>r. wr_id r = wid \<and> wr_tenant r = te_id t \<and> visible (pf_session w) (wr_tenant r)) (db_workflows (pf_db w)) = Some r0"
    by (auto simp: delete_workflow_def own_workflow_step split: option.splits)
  note own = find_own_workflow [OF r0]
  let ?e = "audit_row now (te_id t) ''workflow'' (wr_id r0) ''delete''
    (Some [(''name'', AuJson (PStr (wf_name (wr_workflow r0)))), (''version'', AuJson (PInt (wr_version r0)))]) None (Some (te_slug t)) None"
  from run r0 own ss have "pf_db w' = (pf_db w)\<lparr>db_workflows := filter (\<lambda>r. wr_id r \<noteq> wid) (db_workflows (pf_db w)),
       db_versions := filter (\<lambda>v. wv_workflow v \<noteq> wid) (db_versions (pf_db w)), db_audit := db_audit (pf_db w) @ [?e]\<rparr>"
    by (auto simp: delete_workflow_def own_workflow_step drop_workflow_def split: if_splits)
  with own that [of ?e] show thesis by (auto simp: list_ex_iff)
qed

lemma harmless_delete:
  assumes "db_ok d" and r0: "list_ex (\<lambda>r. wr_id r = wid \<and> wr_tenant r = tid) (db_workflows d)" and "au_tenant e = tid"
  shows "harmless tid d (d\<lparr>db_workflows := filter (\<lambda>r. wr_id r \<noteq> wid) (db_workflows d),
       db_versions := filter (\<lambda>v. wv_workflow v \<noteq> wid) (db_versions d), db_audit := db_audit d @ [e]\<rparr>)" (is "harmless tid d ?d")
proof -
  have h: "history_ok d" using assms(1) by (simp add: db_ok_def)
  then have u: "uniq_by wr_id (db_workflows d)" and o': "versions_owned d" by (simp_all add: history_ok_def)
  from r0 obtain r where r: "r \<in> set (db_workflows d)" "wr_id r = wid" "wr_tenant r = tid" by (auto simp: list_ex_iff)
  have "filter (\<lambda>q. wr_tenant q \<noteq> tid) (filter (\<lambda>q. wr_id q \<noteq> wid) (db_workflows d)) = filter (\<lambda>q. wr_tenant q \<noteq> tid) (db_workflows d)"
  proof (rule filter_filter_other)
    fix q assume q: "q \<in> set (db_workflows d)" "\<not> wr_id q \<noteq> wid"
    with r have "q = r" by (intro uniq_by_eq [OF u q(1) r(1)]) simp
    with r(3) show "\<not> wr_tenant q \<noteq> tid" by simp
  qed
  moreover have "filter (\<lambda>v. wv_tenant v \<noteq> tid) (filter (\<lambda>v. wv_workflow v \<noteq> wid) (db_versions d)) = filter (\<lambda>v. wv_tenant v \<noteq> tid) (db_versions d)"
    using version_tenant [OF o' u r(1)] r by (intro filter_filter_other) auto
  moreover have "db_ok ?d" using history_ok_delete [OF h, of wid] assms(1)
    by (simp add: db_ok_def history_ok_def versions_owned_def)
  ultimately show ?thesis using assms(3) by (simp add: harmless_def others_def)
qed

lemma toggle_workflow_effect:
  assumes run: "toggle_workflow gw now wid t w = Some (Inr x, w')" and ss: "tenant_session (te_id t) (pf_session w)" and ok: "db_ok (pf_db w)"
  shows "harmless (te_id t) (pf_db w) (pf_db w')" and "db_audit (pf_db w') = db_audit (pf_db w)"
    and "db_versions (pf_db w') = db_versions (pf_db w)"
proof -
  have h: "history_ok (pf_db w)" and u: "uniq_by wr_id (db_workflows (pf_db w))" using ok by (auto simp: db_ok_def history_ok_def)
  from run obtain r0 where r0: "find (\<lambda>r. wr_id r = wid \<and> wr_tenant r = te_id t \<and> visible (pf_session w) (wr_tenant r)) (db_workflows (pf_db w)) = Some r0"
    by (auto simp: toggle_workflow_def own_workflow_step split: option.splits)
  note own = find_own_workflow [OF r0]
  let ?r = "r0\<lparr>wr_workflow := (wr_workflow r0)\<lparr>wf_is_enabled := \<not> wf_is_enabled (wr_workflow r0)\<rparr>, wr_updated := now\<rparr>"
  have ids: "wr_id ?r = wr_id r0" "wr_tenant ?r = wr_tenant r0" "wr_version ?r = wr_version r0" by (simp_all add: wr_id_def wr_tenant_def)
  have db: "pf_db w' = (pf_db w)\<lparr>db_workflows := update_where (\<lambda>q. wr_id q = wid) (\<lambda>_. ?r) (db_workflows (pf_db w))\<rparr>"
    using run r0 own ids by (auto simp: toggle_workflow_def own_workflow_step Let_def put_workflow_def split: if_splits)
  then have rows: "db_workflows (pf_db w') = update_where (\<lambda>q. wr_id q = wid) (\<lambda>_. ?r) (db_workflows (pf_db w))" by simp
  have one: "wr_id ?r = wr_id q \<and> wr_tenant ?r = wr_tenant q \<and> wr_version ?r = wr_version q \<and> wr_tenant q = te_id t"
    if q: "q \<in> set (db_workflows (pf_db w))" "wr_id q = wid" for q
  proof -
    have "q = r0" using q own by (intro uniq_by_eq [OF u q(1) own(1)]) simp
    then show ?thesis by (simp only: ids own simp_thms)
  qed
  have "history_ok (pf_db w')" unfolding db by (rule history_ok_update [OF h]) (use one in blast)
  moreover have "filter (\<lambda>q. wr_tenant q \<noteq> te_id t) (db_workflows (pf_db w')) = filter (\<lambda>q. wr_tenant q \<noteq> te_id t) (db_workflows (pf_db w))"
    unfolding rows
  proof (rule filter_update_where_other)
    fix q assume "q \<in> set (db_workflows (pf_db w))" and "wr_id q = wid"
    then have "wr_tenant q = te_id t" using one by blast
    with ids(2) own(3) show "\<not> wr_tenant q \<noteq> te_id t \<and> \<not> wr_tenant ?r \<noteq> te_id t" by simp
  qed
  ultimately show "harmless (te_id t) (pf_db w) (pf_db w')" using ok db by (simp add: harmless_def db_ok_def others_def)
  show "db_audit (pf_db w') = db_audit (pf_db w)" "db_versions (pf_db w') = db_versions (pf_db w)" by (simp_all add: db)
qed

end
