(* ===== verification/TenantTables.thy ===== *)
theory TenantTables
  imports WorkflowHistory
begin

text \<open>
  What the requests about connector instances, credentials and flows do to the tables: the constraints stay, the
  rows of other tenants stay, and the request leaves its entry in the audit log.
\<close>

section \<open>Connector instances\<close>

text \<open>A request that leaves the versions of workflows alone, and logs.\<close>

definition table_effect :: "string \<Rightarrow> db \<Rightarrow> db \<Rightarrow> bool" where
  "table_effect tid d d' \<longleftrightarrow> harmless tid d d' \<and> logs tid d d' \<and> db_versions d' = db_versions d"

lemma reactivated_simps [simp]:
  "ci_id (reactivated b i) = ci_id i" "cn_tenant (reactivated b i) = cn_tenant i" "cn_connector (reactivated b i) = cn_connector i"
  "cn_version (reactivated b i) = cn_version i"
  by (simp_all add: reactivated_def)

lemma new_instance_simps [simp]:
  "ci_id (new_instance i tid b) = i" "cn_tenant (new_instance i tid b) = tid" "cn_connector (new_instance i tid b) = ib_connector b"
  "cn_version (new_instance i tid b) = ib_version b"
  by (simp_all add: new_instance_def)

text \<open>The one row with an identifier, replaced by a row with the same keys.\<close>

lemma replace_own_row:
  assumes "uniq_by ident rows" and "old \<in> set rows" and "ident r = ident old" and "key r = key old"
  shows "map key (update_where (\<lambda>q. ident q = ident old) (\<lambda>_. r) rows) = map key rows"
proof -
  have "key r = key q" if "q \<in> set rows" "ident q = ident old" for q
    using uniq_by_eq [OF assms(1) that(1) assms(2) that(2)] assms(4) by simp
  then show ?thesis by (auto simp: update_where_def)
qed

lemma replace_others:
  assumes "uniq_by ident rows" and "old \<in> set rows" and "owner old = tid" and "owner r = tid"
  shows "filter (\<lambda>q. owner q \<noteq> tid) (update_where (\<lambda>q. ident q = ident old) (\<lambda>_. r) rows) = filter (\<lambda>q. owner q \<noteq> tid) rows"
proof (rule filter_update_where_other)
  fix q assume q: "q \<in> set rows" "ident q = ident old"
  then have "q = old" using uniq_by_eq [OF assms(1) q(1) assms(2)] by blast
  with assms(3,4) show "\<not> owner q \<noteq> tid \<and> \<not> owner r \<noteq> tid" by simp
qed

lemma remove_others:
  assumes "uniq_by ident rows" and "old \<in> set rows" and "owner old = tid"
  shows "filter (\<lambda>q. owner q \<noteq> tid) (filter (\<lambda>q. ident q \<noteq> ident old) rows) = filter (\<lambda>q. owner q \<noteq> tid) rows"
proof (rule filter_filter_other)
  fix q assume q: "q \<in> set rows" "\<not> ident q \<noteq> ident old"
  then have "q = old" using uniq_by_eq [OF assms(1) q(1) assms(2)] by blast
  with assms(3) show "\<not> owner q \<noteq> tid" by simp
qed

text \<open>A request that only replaces the table of instances and logs.\<close>

lemma harmless_instances:
  assumes "db_ok d" and "uniq_by ci_id rs" and "uniq_by (\<lambda>i. (cn_tenant i, cn_connector i, cn_version i)) rs"
    and "filter (\<lambda>i. cn_tenant i \<noteq> tid) rs = filter (\<lambda>i. cn_tenant i \<noteq> tid) (db_instances d)" and "au_tenant e = tid"
  shows "harmless tid d (d\<lparr>db_instances := rs, db_audit := db_audit d @ [e]\<rparr>)"
  using assms by (simp add: harmless_def db_ok_def history_ok_def versions_owned_def others_def)

lemma activate_effect:
  assumes run: "activate_connector now new_id b rq t w = Some (Inr x, w')" and ss: "tenant_session (te_id t) (pf_session w)" and ok: "db_ok (pf_db w)"
  shows "table_effect (te_id t) (pf_db w) (pf_db w')"
proof -
  let ?d = "pf_db w" let ?key = "\<lambda>i. (cn_tenant i, cn_connector i, cn_version i)"
  have u: "uniq_by ci_id (db_instances ?d)" "uniq_by ?key (db_instances ?d)" using ok by (simp_all add: db_ok_def)
  obtain rs e where db: "pf_db w' = ?d\<lparr>db_instances := rs, db_audit := db_audit ?d @ [e]\<rparr>" and e: "au_tenant e = te_id t"
    and "uniq_by ci_id rs" "uniq_by ?key rs" "filter (\<lambda>i. cn_tenant i \<noteq> te_id t) rs = filter (\<lambda>i. cn_tenant i \<noteq> te_id t) (db_instances ?d)"
  proof (cases "find (\<lambda>i. same_instance (te_id t) b i \<and> visible (pf_session w) (cn_tenant i)) (db_instances ?d)")
    case (Some old)
    then have old: "old \<in> set (db_instances ?d)" "cn_tenant old = te_id t" by (auto simp: same_instance_def dest: find_Some_mem)
    let ?is = "update_where (\<lambda>i. ci_id i = ci_id old) (\<lambda>_. reactivated b old) (db_instances ?d)"
    have m: "map ci_id ?is = map ci_id (db_instances ?d)" "map ?key ?is = map ?key (db_instances ?d)"
      by (rule replace_own_row [OF u(1) old(1)]; simp)+
    have o': "filter (\<lambda>i. cn_tenant i \<noteq> te_id t) ?is = filter (\<lambda>i. cn_tenant i \<noteq> te_id t) (db_instances ?d)"
      by (rule replace_others [OF u(1) old(1)]) (simp_all add: old)
    show thesis
      by (rule that [of "audit_row now (te_id t) ''connector_instance'' (ci_id old) ''reactivate'' None
          (Some (instance_audit (ib_connector b) (ib_version b))) (Some (te_slug t)) (hq_client rq)" ?is])
        (use run Some ss u m o' in \<open>auto simp: activate_connector_def bnd_assoc uniq_by_def\<close>)
  next
    case None
    let ?is = "db_instances ?d @ [new_instance new_id (te_id t) b]"
    have fresh: "\<not> list_ex (\<lambda>i. ci_id i = new_id \<or> same_instance (te_id t) b i) (db_instances ?d)"
      using run None ss by (auto simp: activate_connector_def bnd_assoc split: if_splits)
    then have "uniq_by ci_id ?is" "uniq_by ?key ?is" using u by (auto simp: uniq_snoc list_ex_iff same_instance_def)
    then show thesis
      by (intro that [of "audit_row now (te_id t) ''connector_instance'' new_id ''create'' None
          (Some (instance_audit (ib_connector b) (ib_version b))) (Some (te_slug t)) (hq_client rq)" ?is])
        (use run None ss fresh in \<open>auto simp: activate_connector_def bnd_assoc\<close>)
  qed
  then show ?thesis using harmless_instances [OF ok] by (simp add: table_effect_def logs_def)
qed

lemma deactivate_effect:
  assumes run: "deactivate_connector now iid rq t w = Some (Inr x, w')" and ss: "tenant_session (te_id t) (pf_session w)" and ok: "db_ok (pf_db w)"
  shows "table_effect (te_id t) (pf_db w) (pf_db w')"
proof -
  let ?d = "pf_db w"
  from run obtain i where i: "find (\<lambda>i. ci_id i = iid \<and> cn_tenant i = te_id t \<and> visible (pf_session w) (cn_tenant i)) (db_instances ?d) = Some i"
    by (auto simp: deactivate_connector_def split: option.splits)
  then have own: "i \<in> set (db_instances ?d)" "cn_tenant i = te_id t" by (auto dest: find_Some_mem)
  let ?is = "filter (\<lambda>q. ci_id q \<noteq> ci_id i) (db_instances ?d)"
  let ?e = "audit_row now (te_id t) ''connector_instance'' (ci_id i) ''delete''
                (Some (instance_audit (cn_connector i) (cn_version i))) None (Some (te_slug t)) (hq_client rq)"
  have db: "pf_db w' = ?d\<lparr>db_instances := ?is, db_audit := db_audit ?d @ [?e]\<rparr>"
    using run i ss by (auto simp: deactivate_connector_def)
  have u: "uniq_by ci_id (db_instances ?d)" "uniq_by (\<lambda>i. (cn_tenant i, cn_connector i, cn_version i)) (db_instances ?d)"
    using ok by (simp_all add: db_ok_def)
  have "harmless (te_id t) ?d (pf_db w')"
    unfolding db by (intro harmless_instances [OF ok] uniq_filter u remove_others [where owner = cn_tenant, OF u(1) own]) simp
  then show ?thesis by (simp add: db table_effect_def logs_def)
qed

section \<open>Flows\<close>

lemma harmless_flows:
  assumes "db_ok d" and "uniq_by fr_id fs" and "executions_owned fs xs"
    and "filter (\<lambda>r. fr_tenant r \<noteq> tid) fs = filter (\<lambda>r. fr_tenant r \<noteq> tid) (db_flows d)"
    and "filter (\<lambda>x. fe_tenant_id (xr_execution x) \<noteq> tid) xs = filter (\<lambda>x. fe_tenant_id (xr_execution x) \<noteq> tid) (db_flow_executions d)"
    and "au_tenant e = tid"
  shows "harmless tid d (d\<lparr>db_flows := fs, db_flow_executions := xs, db_audit := db_audit d @ [e]\<rparr>)"
  using assms by (simp add: harmless_def db_ok_def history_ok_def versions_owned_def others_def)

lemma flow_effectI:
  assumes "db_ok d" and "uniq_by fr_id fs" and "executions_owned fs xs"
    and "filter (\<lambda>r. fr_tenant r \<noteq> tid) fs = filter (\<lambda>r. fr_tenant r \<noteq> tid) (db_flows d)"
    and "filter (\<lambda>x. fe_tenant_id (xr_execution x) \<noteq> tid) xs = filter (\<lambda>x. fe_tenant_id (xr_execution x) \<noteq> tid) (db_flow_executions d)"
    and "au_tenant e = tid" and "d' = d\<lparr>db_flows := fs, db_flow_executions := xs, db_audit := db_audit d @ [e]\<rparr>"
  shows "table_effect tid d d'"
  using harmless_flows [OF assms(1-6)] assms(6,7) by (simp add: table_effect_def logs_def)

lemma create_flow_effect:
  assumes run: "create_flow now new_id b rq t w = Some (Inr x, w')" and ss: "tenant_session (te_id t) (pf_session w)" and ok: "db_ok (pf_db w)"
  shows "table_effect (te_id t) (pf_db w) (pf_db w')"
proof -
  let ?d = "pf_db w" let ?r = "new_flow new_id (te_id t) b"
  have ids: "fr_id ?r = new_id" "fr_tenant ?r = te_id t" by (simp_all add: fr_id_def fr_tenant_def new_flow_def)
  from run have c: "check_flow_columns (fr_flow ?r) = Inr ()" by (auto simp: create_flow_def Let_def split: sum.splits)
  then have fresh: "\<not> list_ex (\<lambda>q. fr_id q = new_id) (db_flows ?d)"
    using run ss by (auto simp: create_flow_def Let_def split: if_splits)
  let ?e = "audit_row now (te_id t) ''flow'' new_id ''create'' None
             (Some [(''name'', AuJson (PStr (fb_name b))), (''source'', AuJson (PStr (fb_source_connector b))),
                    (''destination'', AuJson (PStr (fb_destination_connector b)))]) (Some (te_slug t)) (hq_client rq)"
  show ?thesis
  proof (rule flow_effectI [OF ok, of "db_flows ?d @ [?r]" "db_flow_executions ?d" _ ?e])
    show "uniq_by fr_id (db_flows ?d @ [?r])" using ok fresh ids by (auto simp: db_ok_def uniq_snoc list_ex_iff)
    show "executions_owned (db_flows ?d @ [?r]) (db_flow_executions ?d)"
      using ok by (auto simp: db_ok_def executions_owned_def list_all_iff)
    show "pf_db w' = ?d\<lparr>db_flows := db_flows ?d @ [?r], db_flow_executions := db_flow_executions ?d, db_audit := db_audit ?d @ [?e]\<rparr>"
      using run ss c fresh by (auto simp: create_flow_def Let_def)
  qed (simp_all add: ids)
qed

lemma apply_flow_patch_identity: "apply_flow_patch p r = Inr r' \<Longrightarrow> fr_id r' = fr_id r \<and> fr_tenant r' = fr_tenant r"
  by (auto simp: apply_flow_patch_def Let_def andThen_eq_Inr fr_id_def fr_tenant_def)

lemma executions_owned_map:
  assumes "executions_owned fs xs" and "map (\<lambda>r. (fr_id r, fr_tenant r)) fs' = map (\<lambda>r. (fr_id r, fr_tenant r)) fs"
  shows "executions_owned fs' xs"
proof -
  have "list_ex (\<lambda>r. fr_id r = i \<and> fr_tenant r = k) fs' = list_ex (\<lambda>p. p = (i, k)) (map (\<lambda>r. (fr_id r, fr_tenant r)) fs')" for i k
    by (auto simp: list_ex_iff)
  moreover have "list_ex (\<lambda>r. fr_id r = i \<and> fr_tenant r = k) fs = list_ex (\<lambda>p. p = (i, k)) (map (\<lambda>r. (fr_id r, fr_tenant r)) fs)" for i k
    by (auto simp: list_ex_iff)
  ultimately show ?thesis using assms by (simp add: executions_owned_def)
qed

lemma update_flow_effect:
  assumes run: "update_flow now fid p rq t w = Some (Inr x, w')" and ss: "tenant_session (te_id t) (pf_session w)" and ok: "db_ok (pf_db w)"
  shows "table_effect (te_id t) (pf_db w) (pf_db w')"
proof -
  let ?d = "pf_db w"
  from run obtain r where f: "find (\<lambda>r. fr_id r = fid \<and> fr_tenant r = te_id t \<and> visible (pf_session w) (fr_tenant r)) (db_flows ?d) = Some r"
    by (auto simp: update_flow_def own_flow_step split: option.splits)
  then have own: "r \<in> set (db_flows ?d)" "fr_tenant r = te_id t" by (auto dest: find_Some_mem)
  from run f obtain r' where r': "apply_flow_patch p r = Inr r'" by (auto simp: update_flow_def own_flow_step split: sum.splits)
  note same = apply_flow_patch_identity [OF r']
  have u: "uniq_by fr_id (db_flows ?d)" using ok by (simp add: db_ok_def)
  let ?fs = "update_where (\<lambda>q. fr_id q = fr_id r) (\<lambda>_. r') (db_flows ?d)"
  let ?e = "audit_row now (te_id t) ''flow'' (fr_id r) ''update'' (Some (flow_fields p (flow_field r)))
            (Some (flow_fields p (flow_field r'))) (Some (te_slug t)) (hq_client rq)"
  show ?thesis
  proof (rule flow_effectI [OF ok, of ?fs "db_flow_executions ?d" _ ?e])
    show "uniq_by fr_id ?fs" using u same by (intro uniq_replace) simp_all
    show "executions_owned ?fs (db_flow_executions ?d)"
      by (rule executions_owned_map [OF _ replace_own_row [OF u own(1)]]) (use ok same in \<open>simp_all add: db_ok_def\<close>)
    show "filter (\<lambda>r. fr_tenant r \<noteq> te_id t) ?fs = filter (\<lambda>r. fr_tenant r \<noteq> te_id t) (db_flows ?d)"
      by (rule replace_others [OF u own(1)]) (use own same in simp_all)
    show "pf_db w' = ?d\<lparr>db_flows := ?fs, db_flow_executions := db_flow_executions ?d, db_audit := db_audit ?d @ [?e]\<rparr>"
      using run ss f r' by (auto simp: update_flow_def own_flow_step)
  qed simp_all
qed

lemma delete_flow_effect:
  assumes run: "delete_flow now fid rq t w = Some (Inr x, w')" and ss: "tenant_session (te_id t) (pf_session w)" and ok: "db_ok (pf_db w)"
  shows "table_effect (te_id t) (pf_db w) (pf_db w')"
proof -
  let ?d = "pf_db w"
  from run obtain r where f: "find (\<lambda>r. fr_id r = fid \<and> fr_tenant r = te_id t \<and> visible (pf_session w) (fr_tenant r)) (db_flows ?d) = Some r"
    by (auto simp: delete_flow_def own_flow_step split: option.splits)
  then have own: "r \<in> set (db_flows ?d)" "fr_tenant r = te_id t" by (auto dest: find_Some_mem)
  have u: "uniq_by fr_id (db_flows ?d)" and xs: "executions_owned (db_flows ?d) (db_flow_executions ?d)" using ok by (simp_all add: db_ok_def)
  let ?fs = "filter (\<lambda>q. fr_id q \<noteq> fr_id r) (db_flows ?d)"
  let ?xs = "filter (\<lambda>x. fe_flow_id (xr_execution x) \<noteq> fr_id r) (db_flow_executions ?d)"
  let ?e = "audit_row now (te_id t) ''flow'' (fr_id r) ''delete'' (Some [(''name'', AuJson (PStr (fr_name r)))]) None (Some (te_slug t)) (hq_client rq)"
  have owner: "fe_tenant_id (xr_execution x) = te_id t" if "x \<in> set (db_flow_executions ?d)" "fe_flow_id (xr_execution x) = fr_id r" for x
  proof -
    from xs that obtain q where "q \<in> set (db_flows ?d)" "fr_id q = fr_id r" "fr_tenant q = fe_tenant_id (xr_execution x)"
      by (auto simp: executions_owned_def list_all_iff list_ex_iff)
    with uniq_by_eq [OF u _ own(1), of q] own(2) show ?thesis by simp
  qed
  show ?thesis
  proof (rule flow_effectI [OF ok, of ?fs ?xs _ ?e])
    show "uniq_by fr_id ?fs" by (rule uniq_filter [OF u])
    show "executions_owned ?fs ?xs" using xs by (fastforce simp: executions_owned_def list_all_iff list_ex_iff)
    show "filter (\<lambda>r. fr_tenant r \<noteq> te_id t) ?fs = filter (\<lambda>r. fr_tenant r \<noteq> te_id t) (db_flows ?d)"
      by (rule remove_others [where owner = fr_tenant, OF u own])
    show "filter (\<lambda>x. fe_tenant_id (xr_execution x) \<noteq> te_id t) ?xs = filter (\<lambda>x. fe_tenant_id (xr_execution x) \<noteq> te_id t) (db_flow_executions ?d)"
      by (rule filter_filter_other) (use owner in auto)
    show "pf_db w' = ?d\<lparr>db_flows := ?fs, db_flow_executions := ?xs, db_audit := db_audit ?d @ [?e]\<rparr>"
      using run ss f by (auto simp: delete_flow_def own_flow_step)
  qed simp
qed

section \<open>The vault\<close>

text \<open>An operation on the vault that keeps its constraints and touches the rows of one tenant only.\<close>

definition vault_effect :: "string \<Rightarrow> vault \<Rightarrow> vault \<Rightarrow> bool" where
  "vault_effect tid v v' \<longleftrightarrow> (vault_ok v \<longrightarrow> vault_ok v')
     \<and> filter (\<lambda>c. cr_tenant c \<noteq> tid) (va_credentials v') = filter (\<lambda>c. cr_tenant c \<noteq> tid) (va_credentials v)
     \<and> filter (\<lambda>k. ct_tenant k \<noteq> tid) (va_tokens v') = filter (\<lambda>k. ct_tenant k \<noteq> tid) (va_tokens v)"

lemma vault_effect_refl [simp]: "vault_effect tid v v"
  by (simp add: vault_effect_def)

lemma vault_effect_trans: "vault_effect tid v v' \<Longrightarrow> vault_effect tid v' v'' \<Longrightarrow> vault_effect tid v v''"
  by (auto simp: vault_effect_def)

lemma put_encrypted_effect: "vault_effect tid v (put_encrypted v (tid, connector, name, key) e)"
proof -
  have "filter (\<lambda>c. cr_tenant c \<noteq> tid) (va_credentials (put_encrypted v (tid, connector, name, key) e)) = filter (\<lambda>c. cr_tenant c \<noteq> tid) (va_credentials v)"
    by (auto simp: put_encrypted_cases new_credential_def cred_id_def intro!: filter_update_where_other)
  then show ?thesis using put_encrypted_ok [of v "(tid, connector, name, key)" e] by (simp add: vault_effect_def put_encrypted_cases)
qed

lemma store_values_effect: "vault_effect tid v (store_values ci nonces tid connector name kvs v)"
proof -
  have "vault_effect tid v (foldl (\<lambda>v (i, k, x). store_credential ci (nonces i) v tid connector k x name) v ikvs)" for ikvs
    by (induction ikvs arbitrary: v)
      (auto simp: store_credential_def intro: vault_effect_trans [OF put_encrypted_effect])
  then show ?thesis by (simp add: store_values_def)
qed

lemma delete_credentials_effect: "vault_effect tid v (snd (delete_credentials v tid connector key name))"
  by (auto simp: vault_effect_def delete_credentials_def Let_def vault_ok_def uniq_filter intro!: filter_cong)

lemma delete_token_effect: "vault_effect tid v (snd (delete_token v tid connector name))"
  by (auto simp: vault_effect_def delete_token_def Let_def vault_ok_def uniq_filter intro!: filter_cong)

lemma get_or_create_token_effect: "get_or_create_token v generated tid connector name = Inr (row, v') \<Longrightarrow> vault_effect tid v v'"
  using get_or_create_token_ok [of v generated tid connector name row v']
  by (auto simp: vault_effect_def get_or_create_token_def Let_def split: option.splits if_splits)

lemma regenerate_token_effect: "regenerate_token v generated tid connector name = Inr (row, v') \<Longrightarrow> vault_effect tid v v'"
  using regenerate_token_ok [of v generated tid connector name row v'] get_or_create_token_effect [of v generated tid connector name row v']
  by (auto simp: vault_effect_def regenerate_token_def token_id_def split: option.splits if_splits intro!: filter_update_where_other)

lemma rename_token_effect: "rename_token v tid connector old_name new_name = Inr v' \<Longrightarrow> vault_effect tid v v'"
  using rename_token_ok [of v tid connector old_name new_name v']
  by (auto simp: vault_effect_def rename_token_def token_id_def split: option.splits if_splits intro!: filter_update_where_other)

section \<open>Credentials\<close>

lemma harmless_refl: "db_ok d \<Longrightarrow> harmless tid d d"
  by (simp add: harmless_def)

lemma harmless_vault: "db_ok d \<Longrightarrow> vault_effect tid (db_vault d) v \<Longrightarrow> harmless tid d (d\<lparr>db_vault := v\<rparr>)"
  by (simp add: harmless_def db_ok_def history_ok_def versions_owned_def others_def vault_effect_def)

lemma harmless_trans: "harmless tid d d' \<Longrightarrow> (db_ok d' \<Longrightarrow> harmless tid d' d'') \<Longrightarrow> harmless tid d d''"
  by (simp add: harmless_def)

lemma harmless_audit: "db_ok d \<Longrightarrow> au_tenant e = tid \<Longrightarrow> harmless tid d (d\<lparr>db_audit := db_audit d @ [e]\<rparr>)"
  by (simp add: harmless_def db_ok_parts others_audit)

lemma harmless_workflows:
  assumes "db_ok d" and "\<And>q. q \<in> set (db_workflows d) \<Longrightarrow> P q \<Longrightarrow>
      wr_tenant q = tid \<and> wr_id (f q) = wr_id q \<and> wr_tenant (f q) = wr_tenant q \<and> wr_version (f q) = wr_version q"
  shows "harmless tid d (d\<lparr>db_workflows := update_where P f (db_workflows d)\<rparr>)"
proof -
  have "history_ok (d\<lparr>db_workflows := update_where P f (db_workflows d)\<rparr>)"
    by (rule history_ok_update) (use assms in \<open>auto simp: db_ok_def\<close>)
  moreover have "filter (\<lambda>q. wr_tenant q \<noteq> tid) (update_where P f (db_workflows d)) = filter (\<lambda>q. wr_tenant q \<noteq> tid) (db_workflows d)"
    by (rule filter_update_where_other) (use assms(2) in auto)
  ultimately show ?thesis using assms(1) by (simp add: harmless_def db_ok_def others_def)
qed

lemma rename_in_row_simps [simp]:
  "wr_id (rename_in_row now connector o_name n_name r) = wr_id r" "wr_tenant (rename_in_row now connector o_name n_name r) = wr_tenant r"
  "wr_version (rename_in_row now connector o_name n_name r) = wr_version r"
  by (simp_all add: rename_in_row_def wr_id_def wr_tenant_def)

text \<open>An action that keeps the log and the versions and does no harm.\<close>

definition quiet :: "string \<Rightarrow> 'j platform \<Rightarrow> 'j platform \<Rightarrow> bool" where
  "quiet tid w w' \<longleftrightarrow> harmless tid (pf_db w) (pf_db w') \<and> db_audit (pf_db w') = db_audit (pf_db w) \<and> db_versions (pf_db w') = db_versions (pf_db w)
     \<and> pf_session w' = pf_session w"

lemma quiet_trans: "quiet tid w w' \<Longrightarrow> (db_ok (pf_db w') \<Longrightarrow> quiet tid w' w'') \<Longrightarrow> quiet tid w w''"
  by (auto simp: quiet_def harmless_def)

lemma quiet_vault: "db_ok (pf_db w) \<Longrightarrow> vault_effect tid (db_vault (pf_db w)) v \<Longrightarrow> quiet tid w (w\<lparr>pf_db := (pf_db w)\<lparr>db_vault := v\<rparr>\<rparr>)"
  by (simp add: quiet_def harmless_vault)

lemma quiet_refl: "db_ok (pf_db w) \<Longrightarrow> quiet tid w w"
  by (simp add: quiet_def harmless_def)

lemma bnd_Inr: "bnd m k w = Some (Inr y, w') \<Longrightarrow> \<exists>x w1. m w = Some (Inr x, w1) \<and> k x w1 = Some (Inr y, w')"
  by (auto simp: bnd_def split: option.splits prod.splits sum.splits)

lemma try_vault_quiet:
  assumes "try_vault f w = Some (Inr x, w')" and "db_ok (pf_db w)" and "\<And>v y v'. f v = Inr (y, v') \<Longrightarrow> vault_effect tid v v'"
  shows "quiet tid w w'"
proof -
  have "bnd (try_vault f) ret w = Some (Inr x, w')" using assms(1) by (simp add: bnd_def ret_def)
  then show ?thesis using assms(2,3) by (auto simp: ret_def intro: quiet_vault split: sum.splits)
qed

lemma update_vault_quiet:
  assumes "update_vault f w = Some (Inr x, w')" and "db_ok (pf_db w)" and "\<And>v. vault_effect tid v (f v)"
  shows "quiet tid w w'"
  using assms by (auto simp: update_vault_def update_db_def modify_def intro: quiet_vault)

lemma propagate_quiet:
  assumes "propagate_credential_rename now tid connector o_name n_name w = Some (Inr x, w')" and "db_ok (pf_db w)"
  shows "quiet tid w w'"
proof -
  let ?hit = "\<lambda>r. wr_tenant r = tid \<and> visible (pf_session w) (wr_tenant r) \<and> row_uses_credential connector o_name r"
  have "w' = w\<lparr>pf_db := (pf_db w)\<lparr>db_workflows := update_where ?hit (rename_in_row now connector o_name n_name) (db_workflows (pf_db w))\<rparr>\<rparr>"
    using assms(1) by (auto simp: propagate_credential_rename_def Let_def ret_def)
  then show ?thesis using harmless_workflows [OF assms(2), of ?hit tid] by (simp add: quiet_def)
qed

lemma rename_set_quiet:
  assumes "rename_set gw now nonces b o_name t w = Some (Inr x, w')" and ok: "db_ok (pf_db w)"
  shows "quiet (te_id t) w w'"
proof -
  from assms(1) obtain creds w1 w2 where
      w1: "update_vault (store_values (gw_cipher gw) nonces (te_id t) (sb_connector b) (sb_name b) creds) w = Some (Inr (), w1)"
    and w2: "update_vault (\<lambda>v. snd (delete_credentials v (te_id t) (sb_connector b) None (Some o_name))) w1 = Some (Inr (), w2)"
    and w': "propagate_credential_rename now (te_id t) (sb_connector b) o_name (sb_name b) w2 = Some (Inr x, w')"
    by (auto simp: rename_set_def split: sum.splits dest!: bnd_Inr)
  show ?thesis
    by (rule quiet_trans [OF update_vault_quiet [OF w1 ok store_values_effect]],
        rule quiet_trans [OF update_vault_quiet [OF w2 _ delete_credentials_effect] propagate_quiet [OF w']])
qed

lemma store_set_quiet: "store_set gw nonces b t w = Some (Inr x, w') \<Longrightarrow> db_ok (pf_db w) \<Longrightarrow> quiet (te_id t) w w'"
  by (auto simp: store_set_def ret_def dest!: bnd_Inr intro: update_vault_quiet [OF _ _ store_values_effect])

text \<open>What is left after the tables have changed: the entry, the commit, and work that does not touch the tables.\<close>

lemma quiet_then_logged:
  assumes "quiet tid w w1" and "au_tenant e = tid" and "pf_db w' = (pf_db w1)\<lparr>db_audit := db_audit (pf_db w1) @ [e]\<rparr>"
  shows "table_effect tid (pf_db w) (pf_db w')"
proof -
  have "db_ok (pf_db w1)" using assms(1) by (simp add: quiet_def harmless_def)
  from harmless_audit [OF this assms(2)] assms show ?thesis by (auto simp: table_effect_def logs_def quiet_def harmless_def)
qed

lemma store_credentials_effect:
  assumes run: "store_credentials gw now nonces generated b rq t w = Some (Inr x, w')" and ss: "tenant_session (te_id t) (pf_session w)" and ok: "db_ok (pf_db w)"
  shows "table_effect (te_id t) (pf_db w) (pf_db w')"
proof -
  let ?rn = "is_rename b"
  let ?finish = "\<lambda>n token. bnd (record_audit now (te_id t) ''credential'' (credential_entity gw (te_id t) (sb_connector b) (sb_name b))
             (if ?rn then ''rename'' else ''update'') None (Some (store_audit b)) (Some (te_slug t)) (hq_client rq)) (\<lambda>_.
      bnd commit (\<lambda>_. bnd the_session (\<lambda>ss. bnd the_db (\<lambda>d.
      bnd (do_provision (account_to_provision gw ss d (te_id t) (sb_connector b) (sb_name b) True)) (\<lambda>_.
      ret \<lparr>sr_token = ct_token token, sr_workflows_updated = n,
           sr_account_provisioned = (account_to_provision gw ss d (te_id t) (sb_connector b) (sb_name b) True \<noteq> None)\<rparr>)))))"
  let ?token = "\<lambda>n. bnd (try_vault (\<lambda>v. get_or_create_token v generated (te_id t) (sb_connector b) (sb_name b))) (?finish n)"
  from bnd_Inr [OF run [unfolded store_credentials_def Let_def]] obtain n w1 where
      w1: "(if ?rn then rename_set gw now nonces b (the (sb_old_name b)) t else store_set gw nonces b t) w = Some (Inr n, w1)"
    and r1: "bnd (if ?rn then try_vault (\<lambda>v. andThen (rename_token v (te_id t) (sb_connector b) (the (sb_old_name b)) (sb_name b)) (\<lambda>v'. Inr ((), v'))) else ret ())
        (\<lambda>_. ?token n) w1 = Some (Inr x, w')" by blast
  from bnd_Inr [OF r1] obtain u w2 where
      w2: "(if ?rn then try_vault (\<lambda>v. andThen (rename_token v (te_id t) (sb_connector b) (the (sb_old_name b)) (sb_name b)) (\<lambda>v'. Inr ((), v'))) else ret ()) w1
        = Some (Inr u, w2)"
    and r2: "?token n w2 = Some (Inr x, w')" by blast
  from bnd_Inr [OF r2] obtain token w3 where
      w3: "try_vault (\<lambda>v. get_or_create_token v generated (te_id t) (sb_connector b) (sb_name b)) w2 = Some (Inr token, w3)"
    and rest: "?finish n token w3 = Some (Inr x, w')" by blast
  have q1: "quiet (te_id t) w w1" using w1 ok by (auto split: if_splits intro: rename_set_quiet store_set_quiet)
  have q2: "quiet (te_id t) w1 w2" if "db_ok (pf_db w1)"
  proof (cases ?rn)
    case True
    then show ?thesis using w2 that rename_token_effect by (auto simp: andThen_eq_Inr intro: try_vault_quiet)
  qed (use w2 that in \<open>auto simp: ret_def intro: quiet_refl\<close>)
  have q3: "quiet (te_id t) w2 w3" if "db_ok (pf_db w2)" using try_vault_quiet [OF w3 that] get_or_create_token_effect by blast
  have q: "quiet (te_id t) w w3" by (rule quiet_trans [OF q1 quiet_trans [OF q2 q3]])
  then have "visible (pf_session w3) (te_id t)" using ss by (simp add: quiet_def)
  with rest show ?thesis by (intro quiet_then_logged [OF q au_tenant_audit_row]) (auto simp: Let_def ret_def)
qed

lemma delete_credentials_endpoint_effect:
  assumes run: "delete_credentials_endpoint gw now connector name rq t w = Some (Inr x, w')" and ss: "tenant_session (te_id t) (pf_session w)" and ok: "db_ok (pf_db w)"
  shows "table_effect (te_id t) (pf_db w) (pf_db w')"
proof -
  let ?d = "pf_db w"
  let ?v1 = "snd (delete_credentials (db_vault ?d) (te_id t) connector None name)" let ?v2 = "snd (delete_token ?v1 (te_id t) connector name)"
  have q: "quiet (te_id t) w (w\<lparr>pf_db := ?d\<lparr>db_vault := ?v2\<rparr>\<rparr>)"
    by (intro quiet_vault ok vault_effect_trans [OF delete_credentials_effect delete_token_effect])
  show ?thesis
    by (rule quiet_then_logged [OF q au_tenant_audit_row]) (use run ss in \<open>auto simp: delete_credentials_endpoint_def Let_def ret_def case_prod_unfold\<close>)
qed

text \<open>Reading a set makes its token, and a new token is not logged.\<close>

lemma get_credentials_quiet:
  assumes run: "get_credentials gw generated connector name t w = Some (Inr x, w')" and ok: "db_ok (pf_db w)"
  shows "harmless (te_id t) (pf_db w) (pf_db w')" and "db_audit (pf_db w') = db_audit (pf_db w)" and "db_versions (pf_db w') = db_versions (pf_db w)"
  using run ok get_or_create_token_effect [of "db_vault (pf_db w)" generated "te_id t" connector name]
  by (auto simp: get_credentials_def bnd_assoc ret_def intro: harmless_vault harmless_refl split: sum.splits if_splits prod.splits)

lemma regenerate_credential_token_quiet:
  assumes run: "regenerate_credential_token gw generated connector name t w = Some (Inr x, w')" and ok: "db_ok (pf_db w)"
  shows "harmless (te_id t) (pf_db w) (pf_db w')" and "db_audit (pf_db w') = db_audit (pf_db w)" and "db_versions (pf_db w') = db_versions (pf_db w)"
  using run ok regenerate_token_effect [of "db_vault (pf_db w)" generated "te_id t" connector name]
  by (auto simp: regenerate_credential_token_def bnd_assoc ret_def throw_def intro: harmless_vault split: sum.splits if_splits prod.splits)

section \<open>All requests\<close>

text \<open>What a request may do to the versions: it adds one, or drops those of the workflow it deletes.\<close>

definition versions_effect :: "request \<Rightarrow> db \<Rightarrow> db \<Rightarrow> bool" where
  "versions_effect q d d' \<longleftrightarrow>
     (case q of DeleteWorkflow now wid \<Rightarrow> db_versions d' = filter (\<lambda>v. wv_workflow v \<noteq> wid) (db_versions d)
      | _ \<Rightarrow> (\<exists>vs. db_versions d' = db_versions d @ vs))"

text \<open>The requests that the endpoints do not log.\<close>

fun unlogged :: "request \<Rightarrow> bool" where
  "unlogged (ToggleWorkflow now wid) = True"
| "unlogged (ReadCredentials generated connector name) = True"
| "unlogged (RegenerateToken generated connector name) = True"
| "unlogged q = False"

definition rollback_of :: "request \<Rightarrow> bool" where
  "rollback_of q = (case q of RollbackVersion now wid n \<Rightarrow> True | _ \<Rightarrow> False)"

lemma with_snapshot_versions [simp]: "db_versions (with_snapshot now r n u d) = db_versions d @ [version_row r n u]"
  by (simp add: with_snapshot_def put_row_def)

definition request_effect :: "request \<Rightarrow> string \<Rightarrow> db \<Rightarrow> db \<Rightarrow> bool" where
  "request_effect q tid d d' \<longleftrightarrow> harmless tid d d' \<and> versions_effect q d d'
     \<and> (if unlogged q then db_audit d' = db_audit d else logs tid d d')"

lemma table_request_effect:
  assumes "table_effect tid d d'" and "\<not> unlogged q" and "\<And>now wid. q \<noteq> DeleteWorkflow now wid"
  shows "request_effect q tid d d'"
  using assms by (auto simp: request_effect_def versions_effect_def table_effect_def split: request.splits)

lemma snapshot_request_effect:
  assumes "db_ok d" and "r0 \<in> set (db_workflows d)" and "wr_id r = wr_id r0" and "wr_tenant r0 = tid" and "wr_tenant r = tid" and "au_tenant e = tid"
    and "d' = (with_snapshot now r (wr_version r0 + 1) u d)\<lparr>db_audit := db_audit d @ [e]\<rparr>" and "\<not> unlogged q" and "\<And>now wid. q \<noteq> DeleteWorkflow now wid"
  shows "request_effect q tid d d'"
  using harmless_snapshot [OF assms(1-6), of now u] assms(6-9)
  by (auto simp: request_effect_def versions_effect_def logs_def split: request.splits)

lemma quietly_Inr: "quietly m w = Some (Inr x, w') \<Longrightarrow> \<exists>y. m w = Some (Inr y, w')"
  by (auto simp: quietly_def ret_def dest!: bnd_Inr)

text \<open>A rollback may act for another tenant when row level security is not enforced.\<close>

lemma handle_effect:
  assumes run: "handle gw rq q t w = Some (Inr x, w')" and ss: "tenant_session (te_id t) (pf_session w)" and ok: "db_ok (pf_db w)"
    and r: "rollback_of q \<Longrightarrow> ss_enforced (pf_session w)"
  shows "request_effect q (te_id t) (pf_db w) (pf_db w')"
proof (cases q)
  case (CreateWorkflow now new_id b)
  then obtain y where "create_workflow gw now new_id b t w = Some (Inr y, w')" using run quietly_Inr by fastforce
  from create_workflow_effect [OF this ss ok] obtain r e where
    new: "\<not> list_ex (\<lambda>q. wr_id q = wr_id r) (db_workflows (pf_db w))" "wr_tenant r = te_id t" "au_tenant e = te_id t"
    and db: "pf_db w' = (with_snapshot now r 1 (Some (te_slug t)) (with_row r (pf_db w)))\<lparr>db_audit := db_audit (pf_db w) @ [e]\<rparr>" by blast
  show ?thesis using harmless_new [OF ok new] new(3) CreateWorkflow unfolding db by (simp add: request_effect_def versions_effect_def logs_def)
next
  case (UpdateWorkflow now wid p)
  then obtain y where "update_workflow gw now wid p t w = Some (Inr y, w')" using run quietly_Inr by fastforce
  then obtain r0 r e where *: "r0 \<in> set (db_workflows (pf_db w))" "wr_id r0 = wid" "wr_tenant r0 = te_id t"
    "apply_patch (gw_rt gw) p r0 = Inr r" "au_tenant e = te_id t"
    "pf_db w' = (with_snapshot now r (wr_version r0 + 1) (Some (te_slug t)) (pf_db w))\<lparr>db_audit := db_audit (pf_db w) @ [e]\<rparr>"
    by (rule update_workflow_effect [OF _ ss ok])
  note same = apply_patch_identity [OF *(4)]
  show ?thesis by (rule snapshot_request_effect [OF ok *(1) _ *(3) _ *(5,6)]) (simp_all add: same *(3) UpdateWorkflow)
next
  case (DeleteWorkflow now wid)
  then have "delete_workflow gw now wid t w = Some (Inr x, w')" using run by simp
  from delete_workflow_effect [OF this ss ok] obtain e where e: "au_tenant e = te_id t"
    and own: "list_ex (\<lambda>r. wr_id r = wid \<and> wr_tenant r = te_id t) (db_workflows (pf_db w))"
    and db: "pf_db w' = (pf_db w)\<lparr>db_workflows := filter (\<lambda>r. wr_id r \<noteq> wid) (db_workflows (pf_db w)),
       db_versions := filter (\<lambda>v. wv_workflow v \<noteq> wid) (db_versions (pf_db w)), db_audit := db_audit (pf_db w) @ [e]\<rparr>" by blast
  show ?thesis using harmless_delete [OF ok own e] e DeleteWorkflow unfolding db by (simp add: request_effect_def versions_effect_def logs_def)
next
  case (ToggleWorkflow now wid)
  then obtain y where "toggle_workflow gw now wid t w = Some (Inr y, w')" using run quietly_Inr by fastforce
  from toggle_workflow_effect [OF this ss ok] show ?thesis using ToggleWorkflow by (auto simp: request_effect_def versions_effect_def)
next
  case (RollbackVersion now wid n)
  then obtain y where "rollback_workflow_version now wid n rq t w = Some (Inr y, w')" using run quietly_Inr by fastforce
  then obtain r0 v e where *: "r0 \<in> set (db_workflows (pf_db w))" "wr_id r0 = wid" "visible (pf_session w) (wr_tenant r0)"
    "get_workflow_version (pf_session w) (pf_db w) wid n = Some v" "au_tenant e = wr_tenant r0"
    "pf_db w' = (with_snapshot now (restore_graph v r0) (wr_version r0 + 1) (Some (te_slug t)) (pf_db w))\<lparr>db_audit := db_audit (pf_db w) @ [e]\<rparr>"
    by (rule rollback_effect [OF _ ok])
  have own: "wr_tenant r0 = te_id t" using *(3) ss r RollbackVersion by (simp add: tenant_session_visible rollback_of_def)
  show ?thesis by (rule snapshot_request_effect [OF ok *(1) _ own _ _ *(6)]) (simp_all add: *(5) own RollbackVersion)
next
  case (ReadCredentials generated connector name)
  then obtain y where "get_credentials gw generated connector name t w = Some (Inr y, w')" using run quietly_Inr by fastforce
  from get_credentials_quiet [OF this ok] show ?thesis using ReadCredentials by (auto simp: request_effect_def versions_effect_def)
next
  case (RegenerateToken generated connector name)
  then obtain y where "regenerate_credential_token gw generated connector name t w = Some (Inr y, w')" using run quietly_Inr by fastforce
  from regenerate_credential_token_quiet [OF this ok] show ?thesis using RegenerateToken by (auto simp: request_effect_def versions_effect_def)
qed (insert run ss ok, (rule table_request_effect,
      auto dest!: quietly_Inr intro: activate_effect deactivate_effect store_credentials_effect delete_credentials_endpoint_effect
        create_flow_effect update_flow_effect delete_flow_effect)+)

text \<open>In any case the effect is that of a request of one tenant.\<close>

lemma handle_effect_of_someone:
  assumes run: "handle gw rq q t w = Some (Inr x, w')" and ss: "tenant_session (te_id t) (pf_session w)" and ok: "db_ok (pf_db w)"
  obtains tid where "request_effect q tid (pf_db w) (pf_db w')"
proof (cases "rollback_of q")
  case True
  then obtain now wid n where q: "q = RollbackVersion now wid n" by (auto simp: rollback_of_def split: request.splits)
  with run obtain y where "rollback_workflow_version now wid n rq t w = Some (Inr y, w')" using quietly_Inr by fastforce
  then obtain r0 v e where *: "r0 \<in> set (db_workflows (pf_db w))" "wr_id r0 = wid" "visible (pf_session w) (wr_tenant r0)"
    "get_workflow_version (pf_session w) (pf_db w) wid n = Some v" "au_tenant e = wr_tenant r0"
    "pf_db w' = (with_snapshot now (restore_graph v r0) (wr_version r0 + 1) (Some (te_slug t)) (pf_db w))\<lparr>db_audit := db_audit (pf_db w) @ [e]\<rparr>"
    by (rule rollback_effect [OF _ ok])
  have "request_effect q (wr_tenant r0) (pf_db w) (pf_db w')"
    by (rule snapshot_request_effect [OF ok *(1) _ refl _ _ *(6)]) (simp_all add: *(5) q)
  then show thesis by (rule that)
next
  case False
  then show thesis using handle_effect [OF run ss ok] that by blast
qed

end
