(* ===== verification/WebhookProps.thy ===== *)
theory WebhookProps
  imports WebhookIngestion VaultProps Samples
begin

text \<open>Properties of webhook ingestion: which webhooks are accepted, how often, and what happens to the
  stored events.\<close>

section \<open>Accepted webhooks\<close>

definition webhook_config :: "webhook_service \<Rightarrow> webhook_request \<Rightarrow> pyval" where
  "webhook_config ws rq =
     (case get_manifest ws (rq_connector rq) of None \<Rightarrow> PNone | Some m \<Rightarrow> get_webhook_config m (rq_event_type rq))"

text \<open>The body carries a signature under the secret that the tenant of the request has in the vault.\<close>

definition signed_by_tenant :: "webhook_service \<Rightarrow> inbox \<Rightarrow> webhook_request \<Rightarrow> pydict \<Rightarrow> bool" where
  "signed_by_tenant ws box rq cfg \<longleftrightarrow>
     (\<exists>signature secret alg.
        signature_of (rq_headers rq) (dget cfg ''signature_header'' PNone) = Inr signature \<and> signature \<noteq> []
        \<and> webhook_secret ws box (rq_tenant rq) (rq_connector rq) (dget cfg ''signature_key_field'' (PStr ''webhook_secret''))
            = Inr (Some secret) \<and> secret \<noteq> []
        \<and> dget cfg ''signature_algorithm'' (PStr ''hmac-sha256'') = PStr alg
        \<and> verify_signature ws (rq_body rq) signature secret alg = Inr True)"

lemma as_str_Inr: "as_str a v = Inr s \<longleftrightarrow> v = PStr s"
  by (cases v) (auto simp: as_str_def)

lemma py_get_Inr: "py_get v k x = Inr r \<longleftrightarrow> (\<exists>d. v = PDict d \<and> r = dget d k x)"
  by (cases v) (auto simp: py_get_def)

lemma verify_webhook_Inr:
  assumes "verify_webhook ws box config (rq_body rq) (rq_headers rq) (rq_tenant rq) (rq_connector rq) = Inr verdict"
  obtains cfg where "config = PDict cfg"
    and "verdict = None \<Longrightarrow> \<not> truthy (dget cfg ''signature_header'' PNone)"
    and "verdict = Some True \<Longrightarrow> signed_by_tenant ws box rq cfg"
  using assms
  by (fastforce simp: verify_webhook_def py_get_Inr as_str_Inr signed_by_tenant_def
      elim!: andThen_InrE split: if_splits option.splits)

lemma ingest_check_event:
  assumes "ingest_check ws box now rq = Inr (Inr ev)"
  shows "\<exists>payload external_id sig_valid. check_signature ws box rq = Inr (Inr sig_valid)
    \<and> ev = new_webhook_event (rq_id rq) (rq_tenant rq) (rq_connector rq) (rq_event_type rq) external_id payload
           (rq_headers rq) sig_valid
    \<and> (\<forall>x. external_id = Some x \<and> x \<noteq> [] \<longrightarrow> \<not> check_dedup box now (rq_connector rq) (rq_event_type rq) x)"
  using assms
  by (fastforce simp: ingest_check_def Let_def elim!: andThen_InrE split: option.splits sum.splits if_splits)

lemma ingest_check_result:
  "ingest_check ws box now rq = Inr (Inl r) \<Longrightarrow> r \<noteq> Accepted wid ext"
  by (auto simp: ingest_check_def Let_def elim!: andThen_InrE split: option.splits sum.splits if_splits)

lemma ingest_store_events [simp]: "wb_events (snd (ingest_store box now ev)) = wb_events box @ [ev]"
  by (simp add: ingest_store_def mark_dedup_def Let_def split: option.splits)

lemma ingest_accepted:
  assumes "ingest_webhook ws box now rq = Inr (Accepted wid ext, box')"
  obtains ev where "ingest_check ws box now rq = Inr (Inr ev)" "ingest_store box now ev = (Accepted wid ext, box')"
  using assms by (auto simp: ingest_webhook_def elim!: andThen_InrE split: sum.splits dest: ingest_check_result)

lemma check_signature_verdict:
  assumes "check_signature ws box rq = Inr (Inr sig_valid)"
  shows "sig_valid \<noteq> Some False
    \<and> (sig_valid = Some True \<longrightarrow> (\<exists>cfg. webhook_config ws rq = PDict cfg \<and> signed_by_tenant ws box rq cfg))
    \<and> (sig_valid = None \<longrightarrow>
        \<not> truthy (webhook_config ws rq) \<and> \<not> rq_require_signature rq
        \<or> (\<exists>cfg. webhook_config ws rq = PDict cfg \<and> \<not> truthy (dget cfg ''signature_header'' PNone)))"
  using assms
  by (auto simp: check_signature_def webhook_config_def Let_def split: if_splits elim!: andThen_InrE verify_webhook_Inr)

text \<open>C30: An accepted webhook is stored once, for the tenant and with the type of the request.  It is
  marked as verified only when its body carries a signature under the secret of that tenant, it is never
  stored with a wrong signature, and it is stored without a verdict only when no signature is configured:
  either the event has no configuration at all, which a request of an unauthenticated sender is refused
  for, or its configuration names no signature header, which it is not refused for.\<close>

theorem accepted_webhook_is_verified:
  assumes "ingest_webhook ws box now rq = Inr (Accepted wid ext, box')"
  shows "\<exists>ev. wb_events box' = wb_events box @ [ev] \<and> we_id ev = wid \<and> we_tenant ev = rq_tenant rq
    \<and> we_connector ev = rq_connector rq \<and> we_event_type ev = rq_event_type rq \<and> we_external_id ev = ext
    \<and> we_status ev = ''received''
    \<and> (we_signature_valid ev = Some True
         \<and> (\<exists>cfg. webhook_config ws rq = PDict cfg \<and> signed_by_tenant ws box rq cfg)
       \<or> we_signature_valid ev = None
         \<and> (\<not> truthy (webhook_config ws rq) \<and> \<not> rq_require_signature rq
            \<or> (\<exists>cfg. webhook_config ws rq = PDict cfg \<and> \<not> truthy (dget cfg ''signature_header'' PNone))))"
proof -
  obtain ev where ev: "ingest_check ws box now rq = Inr (Inr ev)" and st: "ingest_store box now ev = (Accepted wid ext, box')"
    using assms by (rule ingest_accepted)
  from ev obtain payload x sig where "check_signature ws box rq = Inr (Inr sig)"
    and e: "ev = new_webhook_event (rq_id rq) (rq_tenant rq) (rq_connector rq) (rq_event_type rq) x payload (rq_headers rq) sig"
    by (blast dest: ingest_check_event)
  note v = check_signature_verdict [OF this(1)]
  have "wb_events box' = wb_events box @ [ev]" using ingest_store_events [of box now ev] st by simp
  moreover have "wid = we_id ev" "ext = we_external_id ev" using st by (simp_all add: ingest_store_def Let_def)
  moreover have "we_signature_valid ev = Some True \<or> we_signature_valid ev = None"
    using v e by (cases sig) (auto simp: new_webhook_event_def)
  ultimately show ?thesis
    using v by (intro exI [of _ ev]) (auto simp: e new_webhook_event_def)
qed

section \<open>Repeated deliveries\<close>

definition ingest_step :: "webhook_service \<Rightarrow> inbox \<Rightarrow> rat \<times> webhook_request \<Rightarrow> ingest_result py \<times> inbox" where
  "ingest_step ws box r =
     (case ingest_webhook ws box (fst r) (snd r) of Inl e \<Rightarrow> (Inl e, box) | Inr (result, box') \<Rightarrow> (Inr result, box'))"

fun ingest_all :: "webhook_service \<Rightarrow> inbox \<Rightarrow> (rat \<times> webhook_request) list \<Rightarrow> ingest_result py list" where
  "ingest_all ws box [] = []"
| "ingest_all ws box (r # rs) = fst (ingest_step ws box r) # ingest_all ws (snd (ingest_step ws box r)) rs"

definition blocked_until :: "inbox \<Rightarrow> string \<Rightarrow> rat \<Rightarrow> bool" where
  "blocked_until box key t \<longleftrightarrow> (\<exists>expires. map_of (wb_dedup box) key = Some expires \<and> t \<le> expires)"

lemma ingest_step_cases:
  obtains (kept) "snd (ingest_step ws box r) = box" and "\<And>wid ext. fst (ingest_step ws box r) \<noteq> Inr (Accepted wid ext)"
  | (stored) ev where "ingest_check ws box (fst r) (snd r) = Inr (Inr ev)"
      and "ingest_step ws box r = (Inr (Accepted (we_id ev) (we_external_id ev)), snd (ingest_store box (fst r) ev))"
proof (cases "ingest_check ws box (fst r) (snd r)")
  case (Inr d)
  show thesis
  proof (cases d)
    case (Inl result)
    then have "ingest_step ws box r = (Inr result, box)" using Inr by (simp add: ingest_step_def ingest_webhook_def)
    moreover have "result \<noteq> Accepted wid ext" for wid ext using Inr Inl ingest_check_result by blast
    ultimately show thesis by (intro kept) simp_all
  next
    case (Inr ev)
    then show thesis
      using \<open>ingest_check ws box (fst r) (snd r) = Inr d\<close>
      by (intro stored [of ev]) (simp_all add: ingest_step_def ingest_webhook_def ingest_store_def Let_def)
  qed
qed (auto simp: ingest_step_def ingest_webhook_def intro: kept)

lemma ingest_step_Inr:
  "fst (ingest_step ws box r) = Inr result \<Longrightarrow> \<exists>box'. ingest_webhook ws box (fst r) (snd r) = Inr (result, box')"
  by (auto simp: ingest_step_def split: sum.splits prod.splits)

lemma blocked_ingest_store:
  "blocked_until box key u \<Longrightarrow> u \<le> now + dedup_ttl \<Longrightarrow> blocked_until (snd (ingest_store box now ev)) key u"
  by (auto simp: blocked_until_def ingest_store_def mark_dedup_def Let_def split: option.splits)

lemma blocked_ingest_step:
  "blocked_until box key u \<Longrightarrow> u \<le> fst r + dedup_ttl \<Longrightarrow> blocked_until (snd (ingest_step ws box r)) key u"
  by (cases rule: ingest_step_cases [of ws box r]) (simp_all add: blocked_ingest_store)

abbreviation request_key :: "webhook_request \<Rightarrow> string \<Rightarrow> string" where
  "request_key rq x \<equiv> dedup_key (rq_connector rq) (rq_event_type rq) x"

lemma accepted_step:
  assumes "fst (ingest_step ws box r) = Inr (Accepted wid (Some x))" and "x \<noteq> []"
  shows "(blocked_until box (request_key (snd r) x) u \<longrightarrow> u \<le> fst r)
    \<and> blocked_until (snd (ingest_step ws box r)) (request_key (snd r) x) (fst r + dedup_ttl)"
proof (cases rule: ingest_step_cases [of ws box r])
  case kept
  then show ?thesis using assms by blast
next
  case (stored ev)
  from ingest_check_event [OF stored(1)] stored(2) assms
  have ev: "we_connector ev = rq_connector (snd r)" "we_event_type ev = rq_event_type (snd r)" "we_external_id ev = Some x"
    and free: "\<not> check_dedup box (fst r) (rq_connector (snd r)) (rq_event_type (snd r)) x"
    by (auto simp: new_webhook_event_def)
  have "u \<le> fst r" if "blocked_until box (request_key (snd r) x) u"
    using that free by (auto simp: blocked_until_def check_dedup_def)
  then show ?thesis
    using stored(2) ev assms(2) by (simp add: ingest_store_def mark_dedup_def blocked_until_def Let_def)
qed

lemma length_ingest_all [simp]: "length (ingest_all ws box reqs) = length reqs"
  by (induction reqs arbitrary: box) simp_all

lemma blocked_not_accepted:
  assumes "blocked_until box (request_key (snd (reqs ! j)) x) (t + dedup_ttl)" and "\<forall>r \<in> set reqs. t \<le> fst r"
    and "j < length reqs" and "ingest_all ws box reqs ! j = Inr (Accepted wid (Some x))" and "x \<noteq> []"
  shows "t + dedup_ttl \<le> fst (reqs ! j)"
  using assms
proof (induction reqs arbitrary: box j)
  case (Cons r reqs)
  show ?case
  proof (cases j)
    case 0
    then show ?thesis using Cons.prems accepted_step [of ws box r wid x "t + dedup_ttl"] by simp
  next
    case (Suc i)
    then show ?thesis
      using Cons.IH [of "snd (ingest_step ws box r)" i] Cons.prems blocked_ingest_step by simp
  qed
qed simp


section \<open>The life of a stored event\<close>

datatype inbox_op =
    Ingest rat webhook_request
  | Process rat string
  | Replay rat string

text \<open>One operation; one that raises or does not return leaves the tables as they are.\<close>

definition inbox_step :: "webhook_service \<Rightarrow> 'w process_fn \<Rightarrow> inbox \<times> 'w \<Rightarrow> inbox_op \<Rightarrow> inbox \<times> 'w" where
  "inbox_step ws process bw op =
     (case op of
        Ingest now rq \<Rightarrow> (snd (ingest_step ws (fst bw) (now, rq)), snd bw)
      | Process now wid \<Rightarrow> (case process_webhook_async ws process now wid (fst bw) (snd bw) of None \<Rightarrow> bw | Some bw' \<Rightarrow> bw')
      | Replay now wid \<Rightarrow> (case replay_webhook process now wid (fst bw) (snd bw) of None \<Rightarrow> bw | Some (_, bw') \<Rightarrow> bw'))"

definition event_ok :: "webhook_event \<Rightarrow> bool" where
  "event_ok ev \<longleftrightarrow>
     we_status ev = ''received'' \<and> we_retry_count ev = 0 \<and> we_error ev = None \<and> we_processed_at ev = None
   \<or> we_status ev = ''processed'' \<and> we_error ev = None \<and> we_processed_at ev \<noteq> None
   \<or> we_status ev = ''failed'' \<and> we_error ev \<noteq> None \<and> 0 < we_retry_count ev
   \<or> we_status ev = ''dead_letter'' \<and> we_error ev \<noteq> None \<and> 3 \<le> we_retry_count ev"

text \<open>What was received, without the fields that processing sets.\<close>

definition received_part :: "webhook_event \<Rightarrow> webhook_event" where
  "received_part ev = ev\<lparr>we_status := [], we_error := None, we_retry_count := 0, we_processed_at := None\<rparr>"

lemma settle_event_ok: "event_ok (settle_event now result ev)"
  by (auto simp: event_ok_def settle_event_def event_failed_def event_processed_def max_retries_before_dlq_def
      split: sum.splits)

lemma replay_event_ok: "event_ok (replay_event now result ev)"
  by (auto simp: event_ok_def replay_event_def event_processed_def split: sum.splits)

lemma received_part_outcome [simp]:
  "received_part (settle_event now result ev) = received_part ev"
  "received_part (replay_event now result ev) = received_part ev"
  by (simp_all add: received_part_def settle_event_def replay_event_def event_failed_def event_processed_def split: sum.splits)

lemma inbox_step_events:
  "(\<exists>ev. event_ok ev \<and> wb_events (fst (inbox_step ws process bw op)) = wb_events (fst bw) @ [ev])
   \<or> (\<exists>P f. (\<forall>ev. event_ok (f ev) \<and> received_part (f ev) = received_part ev)
        \<and> wb_events (fst (inbox_step ws process bw op)) = update_where P f (wb_events (fst bw)))
   \<or> wb_events (fst (inbox_step ws process bw op)) = wb_events (fst bw)"
proof (cases op)
  case (Ingest now rq)
  show ?thesis
  proof (cases rule: ingest_step_cases [of ws "fst bw" "(now, rq)"])
    case (stored ev)
    from ingest_check_event [OF stored(1)] have "event_ok ev" by (auto simp: new_webhook_event_def event_ok_def)
    then show ?thesis using stored(2) Ingest by (auto simp: inbox_step_def)
  qed (use Ingest in \<open>simp add: inbox_step_def\<close>)
next
  case (Process now wid)
  then show ?thesis
    using settle_event_ok
    by (auto simp: inbox_step_def process_webhook_async_def update_event_def split: option.splits)
      (metis received_part_outcome(1))+
next
  case (Replay now wid)
  then show ?thesis
    using replay_event_ok
    by (auto simp: inbox_step_def replay_webhook_def update_event_def split: option.splits)
      (metis received_part_outcome(2))+
qed

definition extends_inbox :: "webhook_event list \<Rightarrow> inbox \<times> 'w \<Rightarrow> bool" where
  "extends_inbox evs bw \<longleftrightarrow>
     map received_part (take (length evs) (wb_events (fst bw))) = map received_part evs
     \<and> length evs \<le> length (wb_events (fst bw))"

lemma inbox_step_ok:
  "list_all event_ok (wb_events (fst bw)) \<Longrightarrow> list_all event_ok (wb_events (fst (inbox_step ws process bw op)))"
  using inbox_step_events [of ws process bw op] by (auto simp: list_all_iff set_update_where)

lemma inbox_step_extends: "extends_inbox evs bw \<Longrightarrow> extends_inbox evs (inbox_step ws process bw op)"
  using inbox_step_events [of ws process bw op]
proof (elim disjE exE conjE)
  fix P f
  assume "extends_inbox evs bw" and f: "\<forall>ev. event_ok (f ev) \<and> received_part (f ev) = received_part ev"
    and new: "wb_events (fst (inbox_step ws process bw op)) = update_where P f (wb_events (fst bw))"
  have "map received_part (update_where P f (wb_events (fst bw))) = map received_part (wb_events (fst bw))"
    using f by (intro map_update_where) blast
  then have "map received_part (take n (update_where P f (wb_events (fst bw)))) = map received_part (take n (wb_events (fst bw)))"
    for n by (simp only: take_map [symmetric])
  with \<open>extends_inbox evs bw\<close> new show ?thesis by (simp add: extends_inbox_def update_where_def)
qed (simp_all add: extends_inbox_def)

interpretation inbox_events: inv_machine "inbox_step ws process" "\<lambda>bw. list_all event_ok (wb_events (fst bw))"
  by unfold_locales (rule inbox_step_ok)

interpretation inbox_history: inv_machine "inbox_step ws process" "extends_inbox evs"
  by unfold_locales (rule inbox_step_extends)

definition fresh_inbox :: "vault \<Rightarrow> inbox" where
  "fresh_inbox v = \<lparr>wb_events = [], wb_dedup = [], wb_vault = v\<rparr>"

text \<open>C32: Whatever is received, processed and replayed, in any order and however processing ends, every
  stored event is received, processed, failed or a dead letter with the fields that belong to that status
  (a dead letter has failed at least three times), and no event is lost or changed in what was received:
  the events after any number of further operations begin with the events before them.\<close>

theorem inbox_lifecycle:
  "list_all event_ok (wb_events (fst (foldl (inbox_step ws process) (fresh_inbox v, w) ops)))
   \<and> map received_part (take (length (wb_events (fst (foldl (inbox_step ws process) (fresh_inbox v, w) ops))))
        (wb_events (fst (foldl (inbox_step ws process) (fresh_inbox v, w) (ops @ later)))))
     = map received_part (wb_events (fst (foldl (inbox_step ws process) (fresh_inbox v, w) ops)))"
proof
  let ?mid = "foldl (inbox_step ws process) (fresh_inbox v, w) ops"
  show "list_all event_ok (wb_events (fst ?mid))"
    using inbox_events.run_inv [of "(fresh_inbox v, w)" ws process ops] by (simp add: fresh_inbox_def inbox_events.run_def)
  have "extends_inbox (wb_events (fst ?mid)) ?mid" by (simp add: extends_inbox_def)
  from inbox_history.run_inv [OF this, of ws process later]
  show "map received_part (take (length (wb_events (fst ?mid)))
        (wb_events (fst (foldl (inbox_step ws process) (fresh_inbox v, w) (ops @ later)))))
      = map received_part (wb_events (fst ?mid))"
    by (simp add: inbox_history.run_def extends_inbox_def)
qed

section \<open>A service\<close>

definition sample_webhooks :: "string \<Rightarrow> manifest" where
  "sample_webhooks header =
     \<lparr>cm_name = ''shop'', cm_category = ''ecommerce'', cm_version = ''1.0.0'', cm_display_name = ''Shop'',
      cm_description = [], cm_interface = [], cm_country = [], cm_capabilities = [], cm_events = [''order''],
      cm_actions = [], cm_config_schema = [], cm_action_routes = [], cm_service_name = [], cm_credential_provisioning = [],
      cm_credential_validation = [], cm_payload_hints = [],
      cm_rate_limits = [], cm_oauth2 = [],
      cm_webhooks = [(''order'', PDict [(''signature_header'', PStr header), (''retry'', PBool True)])], cm_health_endpoint = ''/health'', cm_action_fields = [],
      cm_output_fields = [], cm_status = ''stable''\<rparr>"

definition sample_webhook_service :: "string \<Rightarrow> webhook_service" where
  "sample_webhook_service header =
     \<lparr>ws_rt = sample_rt\<lparr>rt_json_loads := (\<lambda>_. Some (PDict []))\<rparr>, ws_hmac = (\<lambda>hash key body. key @ body), ws_cipher = plain_cipher,
      ws_registry = [(''shop'', sample_webhooks header)], ws_has_sessions = True\<rparr>"

definition sample_inbox :: inbox where
  "sample_inbox = fresh_inbox (store_credential plain_cipher ''abcdefghijkl'' empty_vault ''acme'' ''shop'' ''webhook_secret'' ''key'' ''default'')"

definition sample_request :: "string \<Rightarrow> (string \<times> string) list \<Rightarrow> webhook_request" where
  "sample_request tenant headers =
     \<lparr>rq_id = ''1'', rq_connector = ''shop'', rq_event_type = ''order'', rq_body = ''{}'', rq_headers = headers,
      rq_tenant = tenant, rq_require_signature = True\<rparr>"

lemmas sample_webhook_defs = sample_webhook_service_def sample_webhooks_def sample_inbox_def sample_request_def
  ingest_webhook_def ingest_check_def check_signature_def verify_webhook_def signature_of_def webhook_secret_def
  get_manifest_def get_webhook_config_def get_by_name_def get_all_def extract_external_id_def external_id_headers_def
  external_id_fields_def verify_signature_def compare_digest_def clean_signature_def hmac_algorithms_def retrieve_def find_credential_def

theorem accepted_webhook_is_verified_witness:
  "\<exists>box'. ingest_webhook (sample_webhook_service ''x-sig'') sample_inbox 0
       (sample_request ''acme'' [(''x-sig'', ''sha256=key{}''), (''x-request-id'', ''7'')]) = Inr (Accepted ''1'' (Some ''7''), box')
     \<and> (\<exists>ev. wb_events box' = [ev] \<and> we_tenant ev = ''acme'' \<and> we_signature_valid ev \<noteq> Some False)"
proof -
  have "fst (ingest_step (sample_webhook_service ''x-sig'') sample_inbox
      (0, sample_request ''acme'' [(''x-sig'', ''sha256=key{}''), (''x-request-id'', ''7'')])) = Inr (Accepted ''1'' (Some ''7''))"
    by code_simp
  then obtain box' where box': "ingest_webhook (sample_webhook_service ''x-sig'') sample_inbox 0
       (sample_request ''acme'' [(''x-sig'', ''sha256=key{}''), (''x-request-id'', ''7'')]) = Inr (Accepted ''1'' (Some ''7''), box')"
    by (auto dest!: ingest_step_Inr)
  have "wb_events sample_inbox = []" by (simp add: sample_inbox_def fresh_inbox_def)
  with accepted_webhook_is_verified [OF box'] box' show ?thesis by (auto simp: sample_request_def)
qed

text \<open>Two tenants that receive an event with the same identifier: the second is told that it is a duplicate
  and its event is not stored, because the key holds no tenant.\<close>

lemma other_tenants_webhook_is_suppressed:
  "ingest_all (sample_webhook_service []) (fresh_inbox empty_vault)
     [(0, sample_request ''acme'' [(''x-request-id'', ''7'')]), (60, sample_request ''globex'' [(''x-request-id'', ''7'')])]
   = [Inr (Accepted ''1'' (Some ''7'')), Inr (Duplicate ''7'')]"
  by code_simp

lemma event_id_header_is_ignored:
  "extract_external_id sample_rt [(''x-event-id'', ''7'')] (PDict []) = Inr None"
  by code_simp

text \<open>Two requests served at the same time both pass the check before either is marked.\<close>

lemma concurrent_deliveries_both_accepted:
  "case (ingest_check (sample_webhook_service []) (fresh_inbox empty_vault) 0 (sample_request ''acme'' [(''x-request-id'', ''7'')]),
         ingest_check (sample_webhook_service []) (fresh_inbox empty_vault) 0 (sample_request ''acme'' [(''x-request-id'', ''7'')])) of
     (Inr (Inr ev1), Inr (Inr ev2)) \<Rightarrow>
       length (wb_events (snd (ingest_store (snd (ingest_store (fresh_inbox empty_vault) 0 ev1)) 0 ev2))) = 2
   | _ \<Rightarrow> False"
  by code_simp


end
