(* ===== verification/EngineTotal.thy ===== *)
theory EngineTotal
  imports EngineNode
begin

text \<open>
  Fuel.  More fuel never changes a result (\<open>run_single_mono\<close>), and for workflows whose
  recursion passes the depth guard of \<^verbatim>\<open>_execute_nodes\<close> or the chain check of
  sub-workflows a fixed amount is enough, whatever the edges (cycles included).
  Neither guard is passed by parallel branches and error handlers, which call a
  node directly.
\<close>

section \<open>Computations that return\<close>

text \<open>\<open>live ch m\<close>: started with the workflow chain \<open>ch\<close>, the computation \<open>m\<close> returns (a value or
  an exception) and the chain is the same.\<close>

definition live :: "string list \<Rightarrow> 'a eact \<Rightarrow> bool" where
  "live ch m \<longleftrightarrow> (\<forall>s. st_chain s = ch \<longrightarrow> (\<exists>r t. m s = Some (r, t) \<and> st_chain t = ch))"

named_theorems ret_rules \<open>computations that return\<close>

lemma live_pure [ret_rules, simp]:
  "live ch (ret x)" "live ch (throw e)" "live ch (liftE r)" "live ch (gets f)"
  by (simp_all add: live_def)

lemma live_modify: "(\<And>s. st_chain (f s) = st_chain s) \<Longrightarrow> live ch (modify f)"
  by (simp add: live_def)

lemma live_bnd [ret_rules]: "live ch m \<Longrightarrow> (\<And>x. live ch (f x)) \<Longrightarrow> live ch (bnd m f)"
  unfolding live_def
proof (intro allI impI)
  fix s :: est assume m: "\<forall>s. st_chain s = ch \<longrightarrow> (\<exists>r t. m s = Some (r, t) \<and> st_chain t = ch)"
    and f: "\<And>x. \<forall>s. st_chain s = ch \<longrightarrow> (\<exists>r t. f x s = Some (r, t) \<and> st_chain t = ch)"
    and s: "st_chain s = ch"
  from m s obtain r t where t: "m s = Some (r, t)" "st_chain t = ch" by blast
  show "\<exists>r t. bnd m f s = Some (r, t) \<and> st_chain t = ch"
    using t f by (cases r) auto
qed

lemma live_catch [ret_rules]: "live ch m \<Longrightarrow> (\<And>e. live ch (h e)) \<Longrightarrow> live ch (catch m h)"
  unfolding live_def
proof (intro allI impI)
  fix s :: est assume m: "\<forall>s. st_chain s = ch \<longrightarrow> (\<exists>r t. m s = Some (r, t) \<and> st_chain t = ch)"
    and h: "\<And>e. \<forall>s. st_chain s = ch \<longrightarrow> (\<exists>r t. h e s = Some (r, t) \<and> st_chain t = ch)"
    and s: "st_chain s = ch"
  from m s obtain r t where t: "m s = Some (r, t)" "st_chain t = ch" by blast
  show "\<exists>r t. catch m h s = Some (r, t) \<and> st_chain t = ch"
    using t h by (cases r) auto
qed

lemma live_for_each [ret_rules]: "(\<And>x. x \<in> set xs \<Longrightarrow> live ch (f x)) \<Longrightarrow> live ch (for_each f xs)"
  by (induction xs) (simp_all add: live_bnd)

lemma live_map_each [ret_rules]: "(\<And>x. x \<in> set xs \<Longrightarrow> live ch (f x)) \<Longrightarrow> live ch (map_each f xs)"
  by (induction xs) (simp_all add: live_bnd)

lemma live_cases [ret_rules]:
  "(b \<Longrightarrow> live ch m) \<Longrightarrow> (\<not> b \<Longrightarrow> live ch n) \<Longrightarrow> live ch (if b then m else n)"
  "(x = None \<Longrightarrow> live ch m) \<Longrightarrow> (\<And>y. x = Some y \<Longrightarrow> live ch (f y)) \<Longrightarrow>
     live ch (case x of None \<Rightarrow> m | Some y \<Rightarrow> f y)"
  "(\<And>a b. p = (a, b) \<Longrightarrow> live ch (h a b)) \<Longrightarrow> live ch (case p of (a, b) \<Rightarrow> h a b)"
  "(\<And>w. live ch (k w)) \<Longrightarrow> live ch m \<Longrightarrow> live ch (case v of PList w \<Rightarrow> k w | _ \<Rightarrow> m)"
  "(\<And>y. y = a \<Longrightarrow> live ch (l y)) \<Longrightarrow> live ch (Let a l)"
  by (auto split: option.splits prod.splits pyval.splits)

lemma live_liftE_bnd:
  "(\<And>x. r = Inr x \<Longrightarrow> live ch (f x)) \<Longrightarrow> live ch (bnd (liftE r) f)"
  by (cases r) (auto simp: live_def)

lemma live_prims [ret_rules, simp]:
  "live ch (set_variable k v)" "live ch (set_node_output k v)" "live ch (mark_completed k)"
  "live ch ctx_now" "live ch alloc_oid" "live ch (commit_entry entry upd)" "live ch (do_call f c)"
  "live ch (set_data d)" "live ch (modify (\<lambda>s. s\<lparr>st_visited := vis s\<rparr>))"
  "live ch (modify (\<lambda>s. s\<lparr>st_merge_hits := hits s\<rparr>))"
  by (simp_all add: set_variable_def set_node_output_def mark_completed_def ctx_now_def alloc_oid_def
      commit_entry_def do_call_def log_call_def set_data_def live_def Let_def)

lemma live_merge_data [ret_rules, simp]: "live ch (merge_data v)"
  unfolding merge_data_def by (cases v) (simp_all add: live_modify)

section \<open>Executors\<close>

lemma live_exec_action [ret_rules]: "live ch (exec_action en wfl config)"
  unfolding exec_action_def by (intro ret_rules | simp)+

lemma live_exec_think [ret_rules]: "live ch (exec_think en wfl config)"
  unfolding exec_think_def redact_pii_def classify_pii_fields_def by (intro ret_rules | simp)+

lemma live_exec_http_request [ret_rules]: "live ch (exec_http_request en wfl config)"
  unfolding exec_http_request_def by (intro ret_rules | simp)+

lemma live_exec_aggregate [ret_rules]: "live ch (exec_aggregate config)"
  unfolding exec_aggregate_def by (intro ret_rules | simp split: pyval.split)+

lemma live_exec_set_variable [ret_rules]: "live ch (exec_set_variable rt config)"
  unfolding exec_set_variable_def by (intro ret_rules | simp)+

lemma live_scoped [ret_rules]:
  assumes "live ch m"
  shows "live ch (scoped (item_enter i x) item_leave m)"
  unfolding live_def
proof (intro allI impI)
  fix s :: est assume "st_chain s = ch"
  then have "st_chain (item_enter i x s) = ch" by (simp add: item_enter_def)
  then obtain r t where "m (item_enter i x s) = Some (r, t)"
    using assms unfolding live_def by blast
  then show "\<exists>r t. scoped (item_enter i x) item_leave m s = Some (r, t) \<and> st_chain t = ch"
    using \<open>st_chain s = ch\<close> by (simp add: scoped_def item_leave_def)
qed

lemma live_merge_guard [ret_rules]: "live ch (merge_guard g nid)"
  unfolding merge_guard_def by (intro ret_rules | simp)+

lemma live_retry_loop [ret_rules]: "(\<And>a. live ch (f a)) \<Longrightarrow> live ch (retry_loop f as)"
  by (induction as) (simp_all add: ret_rules)

lemma live_process_until_error [ret_rules]:
  "(\<And>p. p \<in> set ps \<Longrightarrow> live ch (f p)) \<Longrightarrow> live ch (process_until_error f ps)"
  by (induction ps) (auto intro!: live_bnd split: batch_outcome.splits)

section \<open>Graphs whose recursion is guarded\<close>

definition batch_permits :: "pydict \<Rightarrow> bool" where
  "batch_permits config =
     (case min_config (dget config ''concurrency'' (PInt 5)) 50 of
        Inl _ \<Rightarrow> True | Inr c \<Rightarrow> \<not> py_eq c (PInt 0))"

definition guarded_node :: "node \<Rightarrow> bool" where
  "guarded_node n \<longleftrightarrow>
     n_type n \<noteq> ''parallel'' \<and> n_type n \<noteq> ''error_handler'' \<and>
     (n_type n = ''batch'' \<longrightarrow> batch_permits (n_config n))"

definition graph_nodes :: "graph \<Rightarrow> node set" where
  "graph_nodes g = snd ` set (g_nodes g)"

definition rn_returns :: "string list \<Rightarrow> graph \<Rightarrow> run_nodes_fn \<Rightarrow> nat \<Rightarrow> bool" where
  "rn_returns ch g rn depth \<longleftrightarrow> (\<forall>nodes. set nodes \<subseteq> graph_nodes g \<longrightarrow> live ch (rn nodes depth))"

lemma get_node_in_graph: "get_node g nid = Some n \<Longrightarrow> n \<in> graph_nodes g"
  unfolding get_node_def graph_nodes_def by (force dest: map_of_SomeD)

lemma successors_in_graph: "set (get_successors g nid h) \<subseteq> graph_nodes g"
  unfolding get_successors_def by (auto simp: mem_collect_targets get_node_in_graph)

lemma live_successors:
  "rn_returns ch g rn depth \<Longrightarrow> live ch (rn (get_successors g nid h) depth)"
  by (simp add: rn_returns_def successors_in_graph)

lemma live_run_if_any:
  "rn_returns ch g rn depth \<Longrightarrow> set nodes \<subseteq> graph_nodes g \<Longrightarrow> live ch (run_if_any rn nodes depth)"
  unfolding run_if_any_def rn_returns_def by (intro ret_rules | simp)+

lemma successors_for_in_graph: "set (successors_for g nid h) \<subseteq> graph_nodes g"
  unfolding successors_for_def using successors_in_graph by (auto split: pyval.splits)

lemma body_node_in_graph: "body_node g x = Inr ns \<Longrightarrow> set ns \<subseteq> graph_nodes g"
  by (auto simp: body_node_def get_node_in_graph split: pyval.splits option.splits if_splits)

lemma body_nodes_in_graph: "mapM (body_node g) xs = Inr nss \<Longrightarrow> set (List.concat nss) \<subseteq> graph_nodes g"
proof (induction xs arbitrary: nss)
  case (Cons x xs)
  then obtain ns nss' where "body_node g x = Inr ns" "mapM (body_node g) xs = Inr nss'" "nss = ns # nss'"
    by (auto simp: andThen_eq_Inr)
  with Cons.IH body_node_in_graph show ?case by simp
qed simp

lemma batch_body_in_graph: "batch_body g nid config = Inr body \<Longrightarrow> set body \<subseteq> graph_nodes g"
  unfolding batch_body_def Let_def
  by (cases "truthy (dget config ''body_nodes'' (PList []))")
     (auto simp: andThen_eq_Inr successors_in_graph [THEN subsetD] dest!: body_nodes_in_graph)

lemma live_exec_loop:
  assumes "rn_returns ch g rn (Suc depth)"
  shows "live ch (exec_loop rn en g nid config depth)"
  unfolding exec_loop_def loop_iteration_def
  by (intro ret_rules live_successors [OF assms] | simp)+

lemma live_process_item:
  assumes "rn_returns ch g rn (Suc depth)" and "set body \<subseteq> graph_nodes g" and "\<not> py_eq conc (PInt 0)"
  shows "live ch (process_item rn body depth conc thr p)"
  using assms unfolding process_item_def rn_returns_def by (intro ret_rules | simp)+

lemma live_exec_batch:
  assumes rn: "rn_returns ch g rn (Suc depth)" and "batch_permits config"
  shows "live ch (exec_batch rn g nid config depth)"
  using assms(2) unfolding exec_batch_def gather_item_def batch_permits_def
  by (intro live_liftE_bnd ret_rules live_process_item [OF rn] | simp add: batch_body_in_graph)+

text \<open>What a run of the children promises to the nodes of a workflow with chain \<open>ch\<close>.\<close>

definition rw_returns :: "engine \<Rightarrow> string list \<Rightarrow> run_workflow_fn \<Rightarrow> bool" where
  "rw_returns en ch rw \<longleftrightarrow>
     (\<forall>child \<in> set (en_workflows en). wf_id child \<notin> set ch \<longrightarrow>
        (\<forall>trigger d w. rw child trigger d ch w \<noteq> None))"

lemma live_run_child:
  assumes "rw_returns en ch rw" and "child \<in> set (en_workflows en)" and "wf_id child \<notin> set ch"
  shows "live ch (run_child rw child trigger)"
  unfolding live_def
proof (intro allI impI)
  fix s :: est assume "st_chain s = ch"
  with assms obtain ex w where "rw child trigger (st_dry_run s) (st_chain s) (st_world s) = Some (ex, w)"
    unfolding rw_returns_def by fastforce
  with \<open>st_chain s = ch\<close> show "\<exists>r t. run_child rw child trigger s = Some (r, t) \<and> st_chain t = ch"
    by (simp add: run_child_def)
qed

lemma live_gets_chain: "live ch (f ch) \<Longrightarrow> live ch (bnd (gets st_chain) f)"
  by (auto simp: live_def)

lemma find_workflow_mem: "find_workflow en wid T = Inr (Some child) \<Longrightarrow> child \<in> set (en_workflows en)"
  by (auto simp: find_workflow_def split: pyval.splits dest: find_Some_mem)

lemma check_chain_fresh: "check_chain chain child m = Inr u \<Longrightarrow> wf_id child \<notin> set chain"
  by (simp add: check_chain_def split: if_splits)

lemma live_exec_sub_workflow:
  assumes "rw_returns en ch rw"
  shows "live ch (exec_sub_workflow rw en wfl config)"
  unfolding exec_sub_workflow_def
  by (intro live_gets_chain live_liftE_bnd ret_rules live_run_child [OF assms]
      | simp add: find_workflow_mem check_chain_fresh)+

lemma live_node_step:
  assumes "rn_returns ch g rn (Suc depth)" and "guarded_node n" and "rw_returns en ch rw"
  shows "live ch (node_step rn rs rw en wfl g n depth)"
  using assms(2) unfolding node_step_def continue_with_def Let_def guarded_node_def
  by (intro ret_rules live_exec_loop [OF assms(1)] live_exec_batch [OF assms(1)]
      live_exec_sub_workflow [OF assms(3)] | simp)+

lemma no_error_handler:
  assumes "\<forall>n \<in> graph_nodes g. guarded_node n"
  shows "find_error_handler g nid \<noteq> Inr (Some h)"
proof -
  have "find_handler_in nid ns = Inr (Some h) \<Longrightarrow> \<exists>n \<in> set ns. n_type n = ''error_handler''" for ns
    by (induction nid ns rule: find_handler_in.induct) (auto simp: andThen_eq_Inr split: if_splits)
  then show ?thesis
    using assms unfolding find_error_handler_def graph_nodes_def guarded_node_def by fastforce
qed

lemma live_try_node:
  assumes "rn_returns ch g rn (Suc depth)" and "guarded_node n" and "rw_returns en ch rw"
  shows "live ch (try_node rn rs rw en wfl g n depth entry)"
  unfolding try_node_def
  by (intro live_bnd live_node_step [OF assms])
     (auto split: step_outcome.splits intro!: ret_rules live_run_if_any [OF assms(1)] successors_for_in_graph)

lemma live_handle_failure:
  assumes rn: "rn_returns ch g rn (Suc depth)" and g: "\<forall>n \<in> graph_nodes g. guarded_node n"
  shows "live ch (handle_failure rn rs en wfl g n depth entry exc)"
  unfolding handle_failure_def retry_attempt_def exec_retryable_def give_up_def
  by (intro live_liftE_bnd ret_rules live_run_if_any [OF rn] successors_in_graph
      | simp add: no_error_handler [OF g])+

lemma live_single_node:
  assumes "rn_returns ch g rn (Suc depth)" and "guarded_node n" and "rw_returns en ch rw"
    and "\<forall>n \<in> graph_nodes g. guarded_node n"
  shows "live ch (single_node rn rs rw en wfl g n depth)"
  unfolding single_node_def
  by (intro ret_rules live_try_node live_handle_failure assms | simp)+

section \<open>Enough fuel\<close>

text \<open>The workflows of the table that a chain has not entered yet.\<close>

definition unvisited :: "engine \<Rightarrow> string list \<Rightarrow> nat" where
  "unvisited en ch = card (wf_id ` set (en_workflows en) - set ch)"

lemma unvisited_enter:
  assumes "child \<in> set (en_workflows en)" and "wf_id child \<notin> set ch"
  shows "Suc (unvisited en (ch @ [wf_id child])) = unvisited en ch"
proof -
  have eq: "wf_id ` set (en_workflows en) - set (ch @ [wf_id child])
      = (wf_id ` set (en_workflows en) - set ch) - {wf_id child}" by auto
  have "wf_id child \<in> wf_id ` set (en_workflows en) - set ch" using assms by simp
  then show ?thesis unfolding unvisited_def eq by (intro card_Suc_Diff1) simp_all
qed

lemma unvisited_le: "unvisited en ch \<le> length (en_workflows en)"
proof -
  have "unvisited en ch \<le> card (wf_id ` set (en_workflows en))"
    unfolding unvisited_def by (intro card_mono) auto
  also have "\<dots> \<le> card (set (en_workflows en))" by (rule card_image_le) simp
  also have "\<dots> \<le> length (en_workflows en)" by (rule card_length)
  finally show ?thesis .
qed

definition workflow_graph :: "workflow \<Rightarrow> graph" where
  "workflow_graph wfl = mk_graph (wf_nodes wfl) (wf_edges wfl)"

definition guarded_workflow :: "workflow \<Rightarrow> bool" where
  "guarded_workflow wfl = list_all guarded_node (wf_nodes wfl)"

lemma graph_nodes_mk_graph: "graph_nodes (mk_graph nodes edges) \<subseteq> set nodes"
proof -
  have sub: "snd ` set (dset d k v) \<subseteq> insert v (snd ` set d)" for d :: "(string \<times> node) list" and k v
    by (induction d k v rule: dset.induct) auto
  have "snd ` set (foldl (\<lambda>d n. dset d (n_id n) n) d ns) \<subseteq> snd ` set d \<union> set ns" for ns and d :: "(string \<times> node) list"
  proof (induction ns arbitrary: d)
    case (Cons n ns)
    show ?case using Cons [of "dset d (n_id n) n"] sub [of d "n_id n" n] by auto
  qed simp
  from this [of "[]" nodes] show ?thesis by (simp add: graph_nodes_def mk_graph_def)
qed

lemma guarded_graph: "guarded_workflow wfl \<Longrightarrow> n \<in> graph_nodes (workflow_graph wfl) \<Longrightarrow> guarded_node n"
  using graph_nodes_mk_graph [of "wf_nodes wfl" "wf_edges wfl"]
  by (auto simp: guarded_workflow_def workflow_graph_def list_all_iff)

lemma live_run_single:
  assumes g: "\<forall>n \<in> graph_nodes g. guarded_node n"
    and rw: "\<And>k. K \<le> k \<Longrightarrow> rw_returns en ch (run_workflow en k)"
  shows "guarded_node n \<Longrightarrow> depth \<le> 200 \<Longrightarrow> 200 - depth + K < fuel \<Longrightarrow> live ch (run_single en fuel wfl g n depth)"
proof (induction fuel arbitrary: n depth)
  case (Suc k)
  have "rn_returns ch g (execute_nodes (run_single en k wfl g)) (Suc depth)"
    unfolding rn_returns_def execute_nodes_def
  proof (intro allI impI)
    fix nodes assume nodes: "set nodes \<subseteq> graph_nodes g"
    show "live ch (if 200 < Suc depth then throw (WorkflowError ''Maximum workflow depth exceeded (possible cycle)'' None)
      else for_each (\<lambda>n. run_single en k wfl g n (Suc depth)) nodes)"
      using nodes g Suc.prems by (intro ret_rules Suc.IH | auto)+
  qed
  moreover have "rw_returns en ch (run_workflow en k)" by (rule rw) (use Suc.prems in simp)
  ultimately show ?case using Suc.prems g by (simp add: live_single_node)
qed simp

lemma find_trigger_in_graph: "find_trigger g = Some t \<Longrightarrow> t \<in> graph_nodes g"
  unfolding find_trigger_def graph_nodes_def by (auto dest: find_Some_mem)

lemma returns_workflow_body:
  assumes "\<And>n. n \<in> graph_nodes g \<Longrightarrow> live (chain @ [wf_id wfl]) (rs n 0)"
  shows "workflow_body (execute_nodes rs) en g wfl trigger d chain w \<noteq> None"
proof -
  have rn: "rn_returns (chain @ [wf_id wfl]) g (execute_nodes rs) 0"
    using assms unfolding rn_returns_def execute_nodes_def by (auto intro!: live_for_each)
  have "live (chain @ [wf_id wfl]) (run_from_trigger (execute_nodes rs) (en_rt en) g trigger)"
    unfolding run_from_trigger_def by (intro ret_rules live_successors [OF rn])
  moreover have "st_chain (start_context wfl trigger d chain w) = chain @ [wf_id wfl]"
    by (simp add: start_context_def)
  ultimately show ?thesis unfolding live_def by (fastforce simp: workflow_body_def finish_run_def)
qed

lemma run_workflow_returns:
  assumes table: "\<forall>c \<in> set (en_workflows en). guarded_workflow c"
  shows "guarded_workflow wfl \<Longrightarrow> 202 * Suc (unvisited en (chain @ [wf_id wfl])) \<le> fuel \<Longrightarrow>
    run_workflow en fuel wfl trigger d chain w \<noteq> None"
proof (induction "unvisited en (chain @ [wf_id wfl])" arbitrary: wfl chain fuel trigger d w rule: less_induct)
  case less
  let ?ch = "chain @ [wf_id wfl]" and ?g = "workflow_graph wfl"
  obtain k where k: "fuel = Suc k" using less.prems(2) by (cases fuel) auto
  have rw: "rw_returns en ?ch (run_workflow en i)" if i: "202 * unvisited en ?ch \<le> i" for i
    unfolding rw_returns_def
  proof (intro ballI impI allI)
    fix child trigger d w
    assume c: "child \<in> set (en_workflows en)" "wf_id child \<notin> set ?ch"
    have Suc: "Suc (unvisited en (?ch @ [wf_id child])) = unvisited en ?ch" by (rule unvisited_enter [OF c])
    show "run_workflow en i child trigger d ?ch w \<noteq> None"
      by (rule less.hyps) (use Suc i table c in auto)
  qed
  have "live ?ch (run_single en k wfl ?g n 0)" if "n \<in> graph_nodes ?g" for n
    by (rule live_run_single [where K = "202 * unvisited en ?ch"])
       (use that less.prems k rw guarded_graph in auto)
  then show ?case
    using returns_workflow_body [of ?g chain wfl "run_single en k wfl ?g"]
    by (simp add: k workflow_graph_def Let_def)
qed

section \<open>More fuel, same result\<close>

lemma act_le_cases [act_mono]:
  "(\<And>y. act_le (f y) (f' y)) \<Longrightarrow> act_le m m' \<Longrightarrow>
     act_le (case x of None \<Rightarrow> m | Some y \<Rightarrow> f y) (case x of None \<Rightarrow> m' | Some y \<Rightarrow> f' y)"
  "(\<And>a b. act_le (h a b) (h' a b)) \<Longrightarrow> act_le (case p of (a, b) \<Rightarrow> h a b) (case p of (a, b) \<Rightarrow> h' a b)"
  "(\<And>w. act_le (k w) (k' w)) \<Longrightarrow> act_le n n' \<Longrightarrow>
     act_le (case v of PList w \<Rightarrow> k w | _ \<Rightarrow> n) (case v of PList w \<Rightarrow> k' w | _ \<Rightarrow> n')"
  by (auto split: option.splits prod.splits pyval.splits)

lemma act_le_scoped [act_mono]: "act_le m m' \<Longrightarrow> act_le (scoped enter leave m) (scoped enter leave m')"
  unfolding act_le_def scoped_def by (force split: option.splits)

lemma act_le_process_until_error [act_mono]:
  "(\<And>p. act_le (f p) (f' p)) \<Longrightarrow> act_le (process_until_error f ps) (process_until_error f' ps)"
  by (induction ps) (auto intro!: act_mono split: batch_outcome.splits)

lemma act_le_retry_loop [act_mono]:
  "(\<And>a. act_le (f a) (f' a)) \<Longrightarrow> act_le (retry_loop f as) (retry_loop f' as)"
  by (induction as) (auto intro!: act_mono)

definition rw_le :: "run_workflow_fn \<Rightarrow> run_workflow_fn \<Rightarrow> bool" where
  "rw_le rw rw' \<longleftrightarrow> (\<forall>c t d ch w r. rw c t d ch w = Some r \<longrightarrow> rw' c t d ch w = Some r)"

lemma act_le_run_child: "rw_le rw rw' \<Longrightarrow> act_le (run_child rw c t) (run_child rw' c t)"
  unfolding act_le_def run_child_def rw_le_def by (fastforce split: option.splits)

lemma act_le_exec_sub_workflow:
  "rw_le rw rw' \<Longrightarrow> act_le (exec_sub_workflow rw en wfl config) (exec_sub_workflow rw' en wfl config)"
  unfolding exec_sub_workflow_def by (intro act_mono act_le_run_child | simp)+

lemma act_le_exec_loop:
  assumes "\<And>nodes d. act_le (rn nodes d) (rn' nodes d)"
  shows "act_le (exec_loop rn en g nid config depth) (exec_loop rn' en g nid config depth)"
  unfolding exec_loop_def loop_iteration_def by (intro act_mono assms | simp)+

lemma act_le_exec_batch:
  assumes "\<And>nodes d. act_le (rn nodes d) (rn' nodes d)"
  shows "act_le (exec_batch rn g nid config depth) (exec_batch rn' g nid config depth)"
  unfolding exec_batch_def process_item_def gather_item_def Let_def by (intro act_mono assms | simp)+

lemma act_le_exec_parallel:
  assumes "\<And>n d. act_le (rs n d) (rs' n d)"
  shows "act_le (exec_parallel rs g nid config depth) (exec_parallel rs' g nid config depth)"
  unfolding exec_parallel_def run_branch_def by (intro act_mono assms | simp)+

lemma act_le_node_step:
  assumes "\<And>nodes d. act_le (rn nodes d) (rn' nodes d)" "\<And>n d. act_le (rs n d) (rs' n d)" "rw_le rw rw'"
  shows "act_le (node_step rn rs rw en wfl g n depth) (node_step rn' rs' rw' en wfl g n depth)"
  unfolding node_step_def continue_with_def Let_def
  by (intro act_le_if act_le_bnd act_le_exec_loop act_le_exec_batch act_le_exec_parallel
      act_le_exec_sub_workflow assms act_le_refl)

lemma act_le_run_if_any:
  assumes "\<And>nodes d. act_le (rn nodes d) (rn' nodes d)"
  shows "act_le (run_if_any rn nodes depth) (run_if_any rn' nodes depth)"
  unfolding run_if_any_def by (intro act_mono assms)

lemma act_le_single_node:
  assumes "\<And>nodes d. act_le (rn nodes d) (rn' nodes d)" "\<And>n d. act_le (rs n d) (rs' n d)" "rw_le rw rw'"
  shows "act_le (single_node rn rs rw en wfl g n depth) (single_node rn' rs' rw' en wfl g n depth)"
proof -
  have "act_le (try_node rn rs rw en wfl g n depth entry) (try_node rn' rs' rw' en wfl g n depth entry)" for entry
    unfolding try_node_def
    by (intro act_le_bnd act_le_node_step assms)
       (auto split: step_outcome.splits intro!: act_mono act_le_run_if_any assms)
  moreover have "act_le (handle_failure rn rs en wfl g n depth entry exc)
      (handle_failure rn' rs' en wfl g n depth entry exc)" for entry exc
    unfolding handle_failure_def retry_attempt_def give_up_def Let_def
    by (intro act_mono act_le_run_if_any assms)
  ultimately show ?thesis
    unfolding single_node_def by (intro act_mono)
qed

lemma act_le_execute_nodes:
  "(\<And>n d. act_le (rs n d) (rs' n d)) \<Longrightarrow> act_le (execute_nodes rs nodes depth) (execute_nodes rs' nodes depth)"
  unfolding execute_nodes_def by (intro act_mono)

lemma run_mono_Suc:
  "(\<forall>wfl g n depth. act_le (run_single en fuel wfl g n depth) (run_single en (Suc fuel) wfl g n depth)) \<and>
   rw_le (run_workflow en fuel) (run_workflow en (Suc fuel))"
proof (induction fuel)
  case 0
  show ?case by (simp add: act_le_def rw_le_def)
next
  case (Suc k)
  have step: "act_le (run_single en k wfl g n depth) (run_single en (Suc k) wfl g n depth)" for wfl g n depth
    using Suc.IH by blast
  have nodes: "act_le (execute_nodes (run_single en k wfl g) ns depth) (execute_nodes (run_single en (Suc k) wfl g) ns depth)"
    for wfl g ns depth
    by (rule act_le_execute_nodes) (rule step)
  have single: "act_le (run_single en (Suc k) wfl g n depth) (run_single en (Suc (Suc k)) wfl g n depth)" for wfl g n depth
  proof -
    have "act_le (single_node (execute_nodes (run_single en k wfl g)) (run_single en k wfl g) (run_workflow en k) en wfl g n depth)
        (single_node (execute_nodes (run_single en (Suc k) wfl g)) (run_single en (Suc k) wfl g)
          (run_workflow en (Suc k)) en wfl g n depth)"
      by (rule act_le_single_node) (rule nodes, rule step, use Suc.IH in blast)
    then show ?thesis
      by (subst run_single.simps(2) [of en "Suc k"], subst (1) run_single.simps(2) [of en k])
  qed
  have body: "act_le (run_from_trigger (execute_nodes (run_single en k wfl g)) rt g trigger)
      (run_from_trigger (execute_nodes (run_single en (Suc k) wfl g)) rt g trigger)" for wfl g rt trigger
    unfolding run_from_trigger_def by (intro act_mono nodes)
  have "rw_le (run_workflow en (Suc k)) (run_workflow en (Suc (Suc k)))"
    unfolding rw_le_def
  proof (intro allI impI)
    fix c :: workflow and trigger d ch w r
    let ?g = "mk_graph (wf_nodes c) (wf_edges c)"
    assume "run_workflow en (Suc k) c trigger d ch w = Some r"
    then have "workflow_body (execute_nodes (run_single en k c ?g)) en ?g c trigger d ch w = Some r"
      by (simp add: Let_def)
    with body [of c ?g "en_rt en" trigger]
    have "workflow_body (execute_nodes (run_single en (Suc k) c ?g)) en ?g c trigger d ch w = Some r"
      unfolding workflow_body_def finish_run_def act_le_def by (fastforce split: option.splits)
    then show "run_workflow en (Suc (Suc k)) c trigger d ch w = Some r"
      by (subst run_workflow.simps(2)) (simp only: Let_def)
  qed
  with single show ?case by blast
qed

lemma run_single_mono:
  assumes "run_single en fuel wfl g n depth s = Some r" and "fuel \<le> fuel'"
  shows "run_single en fuel' wfl g n depth s = Some r"
  using assms(2,1)
proof (induction rule: dec_induct)
  case (step k)
  then show ?case using run_mono_Suc [of en k] unfolding act_le_def by blast
qed

lemma run_workflow_mono:
  assumes "run_workflow en fuel wfl trigger d chain w = Some r" and "fuel \<le> fuel'"
  shows "run_workflow en fuel' wfl trigger d chain w = Some r"
  using assms(2,1)
proof (induction rule: dec_induct)
  case (step k)
  then show ?case using run_mono_Suc [of en k] unfolding rw_le_def by blast
qed

end
