(* ===== verification/SyncProps.thy ===== *)
theory SyncProps
  imports SyncEvents EngineTotal Samples
begin

text \<open>
  Properties of the ledger and of event processing: the table invariant, what the
  decision guarantees after each outcome, exclusion of concurrent executions,
  scope of the maintenance operations, and that a repeated event is not executed
  twice.
\<close>

section \<open>The ledger\<close>

definition empty_ledger :: ledger where
  "empty_ledger = \<lparr>lg_rows = [], lg_next_id = 0\<rparr>"

lemma empty_ledger_ok: "ledger_ok empty_ledger"
  by (simp add: empty_ledger_def ledger_ok_def)


lemma find_entry_update_id:
  assumes ok: "ledger_ok lg" and e: "find_entry lg w k = Some r" and f: "\<And>q. entity (f q) = entity q"
  shows "find_entry (update_rows (\<lambda>q. lr_id q = lr_id r) f lg) w k = Some (f r)"
proof -
  have "find (row_for w k) (update_where (\<lambda>q. lr_id q = lr_id r) f (lg_rows lg))
      = map_option (\<lambda>q. if lr_id q = lr_id r then f q else q) (find (row_for w k) (lg_rows lg))"
    by (rule find_update_where) (simp add: row_for_entity f)
  with e show ?thesis by (simp add: find_entry_def update_rows_def)
qed

lemma find_entry_entity: "find_entry lg w k = Some r \<Longrightarrow> r \<in> set (lg_rows lg) \<and> entity r = (w, k)"
  by (auto simp: find_entry_def row_for_entity dest: find_Some_mem)

text \<open>A check that does not skip names the row of the entity.\<close>

lemma should_sync_row:
  assumes "should_sync (\<lambda>x. x) lg w k h m (Some tn) c e now = Inr (chk, lg')"
  shows "\<exists>r. find_entry lg' w k = Some r \<and> sc_ledger_id chk = Some (lr_id r)"
proof (cases "find_entry lg w k")
  case None
  with assms show ?thesis
    by (auto simp: should_sync_def insert_row_def pending_row_def find_entry_def find_snoc row_for_def Let_def)
next
  case (Some r)
  with assms show ?thesis
    by (auto simp: should_sync_def andThen_eq_Inr decide_entry_def Let_def split: if_splits)
qed

lemma record_success_row:
  assumes "ledger_ok lg" and "find_entry lg w k = Some r"
    and "record_success lg tn w c e k h (Some (lr_id r)) now = Inr lg'"
  shows "\<exists>r'. find_entry lg' w k = Some r' \<and> lr_content_hash r' = h \<and> lr_sync_status r' = LSynced \<and> lr_id r' = lr_id r"
proof -
  let ?f = "\<lambda>r. r\<lparr>lr_content_hash := h, lr_sync_status := LSynced, lr_synced_at := Some now,
    lr_updated_at := now, lr_last_error := None\<rparr>"
  have "find_entry lg' w k = Some (?f r)"
    using find_entry_update_id [OF assms(1,2), of ?f] assms(3) by (simp add: record_success_def)
  then show ?thesis by simp
qed

text \<open>Once an entity was checked and its success recorded, a later check skips it as long as its
  content hash is the same, and reports an update as soon as the hash differs.\<close>

lemma recorded_success_deduplicates:
  assumes "ledger_ok lg" and "should_sync (\<lambda>x. x) lg w k h m (Some tn) c e now = Inr (chk, lg1)"
    and "record_success lg1 tn w c e k h (sc_ledger_id chk) now = Inr lg2"
  shows "\<exists>chk'. should_sync (\<lambda>x. x) lg2 w k h' m' (Some tn) c' e' now' = Inr (chk', lg2)
    \<and> sc_decision chk' = (if h' = h then SKIP else UPDATE)"
proof -
  have ok: "ledger_ok lg1" by (rule should_sync_ok [OF assms(1) _ assms(2)])
  obtain r where r: "find_entry lg1 w k = Some r" "sc_ledger_id chk = Some (lr_id r)"
    using should_sync_row [OF assms(2)] by blast
  obtain r' where "find_entry lg2 w k = Some r'" "lr_content_hash r' = h" "lr_sync_status r' = LSynced"
    using record_success_row [OF ok r(1) assms(3) [unfolded r(2)]] by blast
  then show ?thesis by (simp add: should_sync_def decide_entry_def Let_def)
qed

definition checked :: "sync_check \<times> ledger" where
  "checked = (\<lparr>sc_decision = SYNC, sc_existing_hash = None, sc_attempt_count = 0, sc_ledger_id = Some 0\<rparr>,
     \<lparr>lg_rows = [pending_row ''acme'' ''w1'' ''shop'' ''order.created'' ''42'' ''h1'' 5], lg_next_id = 1\<rparr>)"

lemma checked_run:
  "should_sync (\<lambda>x. x) empty_ledger ''w1'' ''42'' ''h1'' (PInt 3) (Some ''acme'') ''shop'' ''order.created'' 5 = Inr checked"
  by (simp add: should_sync_def empty_ledger_def find_entry_def insert_row_def pending_row_def checked_def Let_def)

lemma recorded_success_deduplicates_witness:
  "\<exists>lg2 chk'. record_success (snd checked) ''acme'' ''w1'' ''shop'' ''order.created'' ''42'' ''h1'' (Some 0) 5 = Inr lg2
    \<and> should_sync (\<lambda>x. x) lg2 ''w1'' ''42'' ''h1'' (PInt 3) (Some ''acme'') ''shop'' ''order.created'' 9 = Inr (chk', lg2)
    \<and> sc_decision chk' = SKIP"
proof -
  obtain lg2 where rec: "record_success (snd checked) ''acme'' ''w1'' ''shop'' ''order.created'' ''42'' ''h1'' (sc_ledger_id (fst checked)) 5 = Inr lg2"
    by (simp add: record_success_def checked_def)
  have "should_sync (\<lambda>x. x) empty_ledger ''w1'' ''42'' ''h1'' (PInt 3) (Some ''acme'') ''shop'' ''order.created'' 5
      = Inr (fst checked, snd checked)" using checked_run by simp
  from recorded_success_deduplicates [OF empty_ledger_ok this rec, of "''h1''" "PInt 3" "''shop''" "''order.created''" 9] rec
  show ?thesis by (auto simp: checked_def)
qed

text \<open>When two sessions check the same new entity at the same time, the one whose insertion
  comes second is told to skip, and the row of the first is the only one: at most one of
  them executes.\<close>

lemma concurrent_check_excludes:
  assumes "find_entry lg w k = None"
    and first: "should_sync (\<lambda>x. x) lg w k h1 m1 (Some tn1) c1 e1 now1 = Inr (chk1, lg1)"
  shows "sc_decision chk1 = SYNC
    \<and> (\<exists>chk2. should_sync (\<lambda>_. lg1) lg w k h2 m2 (Some tn2) c2 e2 now2 = Inr (chk2, lg1) \<and> sc_decision chk2 = SKIP)
    \<and> (\<exists>chk3. should_sync (\<lambda>x. x) lg1 w k h3 m3 (Some tn3) c3 e3 now3 = Inr (chk3, lg1) \<and> sc_decision chk3 = SKIP)"
proof -
  obtain r where "find_entry lg1 w k = Some r" "sc_decision chk1 = SYNC" "lr_sync_status r = LPending"
    using assms
    by (auto simp: should_sync_def insert_row_def pending_row_def find_entry_def find_snoc row_for_def Let_def)
  with assms(1) show ?thesis
    by (simp add: should_sync_def insert_row_def pending_row_def decide_entry_def Let_def)
qed

lemma concurrent_check_excludes_witness:
  "\<exists>chk2. should_sync (\<lambda>_. snd checked) empty_ledger ''w1'' ''42'' ''h9'' (PInt 3) (Some ''acme'') ''shop'' ''order.created'' 6
     = Inr (chk2, snd checked) \<and> sc_decision chk2 = SKIP"
  using concurrent_check_excludes [of empty_ledger "''w1''" "''42''" "''h1''" "PInt 3" "''acme''" "''shop''" "''order.created''" 5
      "fst checked" "snd checked" "''h9''" "PInt 3" "''acme''" "''shop''" "''order.created''" 6] checked_run
  by (simp add: find_entry_def empty_ledger_def)

text \<open>A failed entity is retried while its attempts are below the limit.  Beyond the limit it is
  not given up: the check answers with a synchronisation (same content) or an update, so the
  limit does not bound the executions.\<close>

lemma retry_limit_does_not_stop:
  assumes "find_entry lg w k = Some r" and "lr_sync_status r = LFailed"
  shows "\<exists>chk. should_sync mw lg w k h (PInt limit) tn c e now = Inr (chk, lg)
    \<and> sc_decision chk = (if lr_attempt_count r < limit then RETRY else if lr_content_hash r = h then SYNC else UPDATE)"
  using assms by (simp add: should_sync_def decide_entry_def Let_def cmp_num_def)

definition failed_ledger :: ledger where
  "failed_ledger =
     \<lparr>lg_rows = [(pending_row ''acme'' ''w1'' ''shop'' ''order.created'' ''42'' ''h1'' 5)\<lparr>lr_sync_status := LFailed, lr_attempt_count := 8\<rparr>],
      lg_next_id = 1\<rparr>"

lemma retry_limit_does_not_stop_witness:
  "\<exists>chk. should_sync (\<lambda>x. x) failed_ledger ''w1'' ''42'' ''h1'' (PInt 3) None [] [] 6 = Inr (chk, failed_ledger) \<and> sc_decision chk = SYNC"
  using retry_limit_does_not_stop [of failed_ledger "''w1''" "''42''" _ "\<lambda>x. x" "''h1''" 3 None "[]" "[]" 6]
  by (force simp: failed_ledger_def find_entry_def pending_row_def row_for_def)

text \<open>Entries reset from failed to pending are skipped by every later check until another
  operation changes them, instead of being retried.\<close>

lemma reset_entries_are_skipped:
  assumes "ledger_ok lg" and "find_entry lg w k = Some r" and "lr_sync_status r = LFailed"
    and "tn = None \<or> tn = Some (lr_tenant_id r)"
  shows "\<exists>chk. should_sync mw (snd (reset_failed lg w tn now)) w k h m tn' c e now'
      = Inr (chk, snd (reset_failed lg w tn now)) \<and> sc_decision chk = SKIP"
proof -
  let ?P = "\<lambda>r. in_scope w tn r \<and> lr_sync_status r = LFailed"
  let ?f = "\<lambda>r. r\<lparr>lr_sync_status := LPending, lr_attempt_count := 0, lr_last_error := None, lr_updated_at := now\<rparr>"
  have scope: "?P r" using find_entry_entity [OF assms(2)] assms(3,4) by (auto simp: in_scope_def entity_def)
  have "find (row_for w k) (update_where ?P ?f (lg_rows lg)) = map_option (\<lambda>r. if ?P r then ?f r else r) (find (row_for w k) (lg_rows lg))"
    by (rule find_update_where) (simp add: row_for_def)
  then have "find_entry (snd (reset_failed lg w tn now)) w k = Some (?f r)"
    using assms(2) scope by (simp add: reset_failed_def Let_def update_rows_def find_entry_def)
  then show ?thesis by (simp add: should_sync_def decide_entry_def Let_def)
qed

lemma reset_entries_are_skipped_witness:
  "\<exists>chk. should_sync (\<lambda>x. x) (snd (reset_failed failed_ledger ''w1'' None 9)) ''w1'' ''42'' ''h2'' (PInt 3) None [] [] 10
      = Inr (chk, snd (reset_failed failed_ledger ''w1'' None 9)) \<and> sc_decision chk = SKIP"
proof -
  let ?r = "(pending_row ''acme'' ''w1'' ''shop'' ''order.created'' ''42'' ''h1'' 5)\<lparr>lr_sync_status := LFailed, lr_attempt_count := 8\<rparr>"
  have "ledger_ok failed_ledger" "find_entry failed_ledger ''w1'' ''42'' = Some ?r" "lr_sync_status ?r = LFailed"
    by (simp_all add: failed_ledger_def ledger_ok_def uniq_by_def find_entry_def pending_row_def row_for_def)
  then show ?thesis by (rule reset_entries_are_skipped) simp
qed

text \<open>The maintenance operations of one workflow, restricted to one tenant, leave every row of
  another workflow or another tenant as it was, and report the number of rows they changed;
  the statistics count every row in scope exactly once.\<close>

lemma maintenance_stays_in_scope:
  "(\<forall>r \<in> set (lg_rows lg). \<not> in_scope w tn r \<longrightarrow>
      r \<in> set (lg_rows (snd (mark_stale lg w tn now))) \<and> r \<in> set (lg_rows (snd (reset_failed lg w tn now)))
      \<and> r \<in> set (lg_rows (snd (clear_ledger lg w tn))))
   \<and> length (lg_rows (snd (clear_ledger lg w tn))) + fst (clear_ledger lg w tn) = length (lg_rows lg)
   \<and> ss_total (get_stats lg w tn) = length (filter (in_scope w tn) (lg_rows lg))"
proof (intro conjI)
  have "length (filter (\<lambda>r. \<not> P r) rows) + length (filter P rows) = length rows" for P and rows :: "ledger_row list"
    by (induction rows) auto
  then show "length (lg_rows (snd (clear_ledger lg w tn))) + fst (clear_ledger lg w tn) = length (lg_rows lg)"
    by (simp add: clear_ledger_def Let_def count_where_def)
  have "length (filter (\<lambda>r. P r \<and> lr_sync_status r = LSynced) rows) + length (filter (\<lambda>r. P r \<and> lr_sync_status r = LFailed) rows)
      + length (filter (\<lambda>r. P r \<and> lr_sync_status r = LPending) rows) + length (filter (\<lambda>r. P r \<and> lr_sync_status r = LStale) rows)
      = length (filter P rows)" for P and rows :: "ledger_row list"
  proof (induction rows)
    case (Cons r rows)
    then show ?case by (cases "lr_sync_status r") auto
  qed simp
  then show "ss_total (get_stats lg w tn) = length (filter (in_scope w tn) (lg_rows lg))"
    by (simp add: get_stats_def Let_def count_where_def)
qed (auto simp: mark_stale_def reset_failed_def clear_ledger_def Let_def update_rows_def intro!: update_where_other)

lemma maintenance_stays_in_scope_witness:
  "set (lg_rows failed_ledger) \<subseteq> set (lg_rows (snd (clear_ledger failed_ledger ''w2'' None)))"
  using maintenance_stays_in_scope [of failed_ledger "''w2''" None 0]
  by (auto simp: failed_ledger_def in_scope_def pending_row_def)

section \<open>Events\<close>

lemma matched_workflows_from:
  assumes "matched_workflows rt data candidates = Inr ws"
  shows "\<forall>w \<in> set ws. w \<in> set candidates \<and> event_matches rt data w = Inr True"
  by (rule foldM_invariant [where P = "\<lambda>acc. \<forall>w \<in> set acc. w \<in> set candidates \<and> event_matches rt data w = Inr True",
      OF assms [unfolded matched_workflows_def]])
    (auto simp: andThen_eq_Inr split: if_splits)

text \<open>An event starts only enabled workflows of its own tenant that listen to its connector and
  event.\<close>

lemma event_starts_listening_workflows_only:
  assumes "matched_workflows rt data (get_workflows_for_event en tenant connector event) = Inr ws"
  shows "\<forall>w \<in> set ws. w \<in> set (en_workflows en) \<and> wf_tenant w = tenant \<and> wf_is_enabled w
    \<and> wf_trigger_connector w = Some connector \<and> wf_trigger_event w = Some event \<and> event_matches rt data w = Inr True"
  using matched_workflows_from [OF assms] by (auto simp: get_workflows_for_event_def)

lemma event_starts_listening_workflows_only_witness:
  "matched_workflows sample_rt [] (get_workflows_for_event (sample_engine [cyclic_workflow]) ''acme'' ''shop'' ''order.created'')
     = Inr [cyclic_workflow] \<and> wf_tenant cyclic_workflow = ''acme'' \<and> wf_is_enabled cyclic_workflow"
proof -
  have "matched_workflows sample_rt [] (get_workflows_for_event (sample_engine [cyclic_workflow]) ''acme'' ''shop'' ''order.created'')
      = Inr [cyclic_workflow]"
    by (simp add: matched_workflows_def get_workflows_for_event_def event_matches_def sample_defs dget_def Let_def)
  with event_starts_listening_workflows_only [OF this] show ?thesis by simp
qed


definition synced_workflow :: workflow where
  "synced_workflow =
     (sample_workflow [sample_node ''t'' ''trigger'' []] [])
       \<lparr>wf_sync_config := Some [(''enabled'', PBool True), (''entity_key_field'', PStr ''id'')]\<rparr>"

definition event_state :: pst where
  "event_state = \<lparr>ps_world = sample_world, ps_ledger = empty_ledger\<rparr>"

lemma synced_target:
  "sync_target sample_rt (\<lambda>_. ''h'') synced_workflow [(''id'', PStr ''7'')]
     = Inr (Some ([(''enabled'', PBool True), (''entity_key_field'', PStr ''id'')], ''7'', ''h''))"
  by (simp add: sync_target_def synced_workflow_def dget_def resolve_entity_key_def key_part_def sync_get_nested_def
      text_eval compute_content_hash_def hash_subset_def Let_def)

lemma synced_run:
  "\<exists>ex w. execute_workflow (sample_engine []) (Suc 0) synced_workflow [(''id'', PStr ''7'')] False sample_world = Some (ex, w)
      \<and> ex_status ex = ''success''"
  by (simp add: engine_eval synced_workflow_def del: bnd_eval catch_eval)


end
