(* ===== verification/FlowProps.thy ===== *)
theory FlowProps
  imports FlowEngine Samples
begin

text \<open>Properties of flows: how often and for whom the destination is called, what the status says, and
  that the overrides of a tenant prevail in the mapped data.\<close>

section \<open>Attempts and outcomes\<close>

text \<open>C23: A flow whose filter matches dispatches one and the same action, with the mapped payload and
  for its own tenant, until it succeeds or the attempts are used up: every call but the last fails, the
  status is success exactly when the last call succeeds, the retry count is the number of calls before
  it, and a failed execution has used all attempts.\<close>

theorem flow_dispatches_until_success:
  assumes "matches_filter data (fl_source_filter fl)" and "flow_payload fg fl data = Inr payload"
    and "0 < max_attempts fl" and "max_attempts fl \<le> 1024" and "execute_flow fg fl data calls = (ex, calls')"
  shows "\<exists>k. 0 < k \<and> k \<le> max_attempts fl \<and> calls' = calls @ replicate k (flow_action fl payload)
    \<and> (\<forall>i. Suc i < k \<longrightarrow> (\<exists>e. fg_execute fg (calls @ replicate i (flow_action fl payload)) (flow_action fl payload) = Inl e))
    \<and> (fe_status ex = ''success'' \<longleftrightarrow> (\<exists>r. fg_execute fg (calls @ replicate (k - 1) (flow_action fl payload)) (flow_action fl payload) = Inr r))
    \<and> fe_retry_count ex = k - 1
    \<and> (fe_status ex = ''success'' \<or> fe_status ex = ''failed'' \<and> k = max_attempts fl)"
proof -
  let ?c = "flow_action fl payload"
  obtain out cs where r: "flow_attempts (fg_execute fg) ?c 0 (max_attempts fl) calls = (out, cs)" by fastforce
  from flow_attempts_spec [OF r] assms(3,4) obtain k where k: "k \<le> max_attempts fl" "cs = calls @ replicate k ?c"
    "\<forall>i. Suc i < k \<longrightarrow> (\<exists>e. fg_execute fg (calls @ replicate i ?c) ?c = Inl e)" "0 < k"
    "out = Some (fg_execute fg (calls @ replicate (k - 1) ?c) ?c, k - 1)"
    "k < max_attempts fl \<longrightarrow> (\<exists>r. fg_execute fg (calls @ replicate (k - 1) ?c) ?c = Inr r)"
    by auto
  have "calls' = cs \<and> fe_retry_count ex = k - 1
    \<and> (fe_status ex = ''success'' \<longleftrightarrow> (\<exists>r. fg_execute fg (calls @ replicate (k - 1) ?c) ?c = Inr r))
    \<and> (fe_status ex = ''success'' \<or> fe_status ex = ''failed'')"
    using assms(1,2,5) r k(5) by (auto simp: execute_flow_def Let_def split: sum.splits)
  with k show ?thesis by (intro exI [of _ k]) (cases "k = max_attempts fl", auto)
qed

definition sample_flow :: flow where
  "sample_flow =
     \<lparr>fl_id = ''f1'', fl_tenant = ''t1'', fl_source_connector = ''allegro'', fl_source_event = ''order.created'',
      fl_source_filter = None, fl_destination_connector = ''wms'', fl_destination_version = None,
      fl_destination_action = ''document.create'', fl_field_mapping = PList [], fl_transform = None,
      fl_on_error = ''retry'', fl_max_retries = 3, fl_is_enabled = True\<rparr>"

text \<open>An executor that fails twice.\<close>

definition sample_flow_engine :: "field_override list \<Rightarrow> flow_engine" where
  "sample_flow_engine table =
     \<lparr>fg_rt = sample_rt, fg_overrides = table,
      fg_execute = (\<lambda>calls c. if length calls < 2 then Inl (OtherError ''ConnectError'' ''refused'') else Inr (PDict [])),
      fg_jmespath = None, fg_flows = [sample_flow]\<rparr>"

lemma sample_flow_payload: "flow_payload (sample_flow_engine []) sample_flow [] = Inr (PDict [])"
  by (simp add: flow_payload_def resolve_mapping_def sample_flow_def sample_flow_engine_def get_tenant_overrides_def)

theorem flow_dispatches_until_success_witness:
  "\<exists>ex k. execute_flow (sample_flow_engine []) sample_flow [] [] = (ex, replicate k (flow_action sample_flow (PDict []))) \<and> 0 < k \<and> k \<le> 4"
proof -
  obtain ex calls' where r: "execute_flow (sample_flow_engine []) sample_flow [] [] = (ex, calls')" by fastforce
  have m: "max_attempts sample_flow = 4" by (simp add: max_attempts_def sample_flow_def)
  have "matches_filter [] (fl_source_filter sample_flow)" by (simp add: matches_filter_def sample_flow_def)
  from flow_dispatches_until_success [OF this sample_flow_payload _ _ r] r m show ?thesis by auto
qed

text \<open>A flow set to retry with a negative number of retries makes no attempt at all and its execution
  stays in status running for ever, with no error.\<close>

lemma negative_retries_leave_flow_running:
  assumes "fl_on_error fl = ''retry''" and "fl_max_retries fl < 0"
    and "matches_filter data (fl_source_filter fl)" and "flow_payload fg fl data = Inr payload"
  shows "\<exists>ex. execute_flow fg fl data calls = (ex, calls) \<and> fe_status ex = ''running'' \<and> fe_error ex = None"
  using assms by (simp add: execute_flow_def max_attempts_def Let_def new_flow_execution_def)

lemma negative_retries_leave_flow_running_witness:
  "\<exists>ex. execute_flow (sample_flow_engine []) (sample_flow\<lparr>fl_max_retries := -1\<rparr>) [] [] = (ex, []) \<and> fe_status ex = ''running'' \<and> fe_error ex = None"
proof -
  have "flow_payload (sample_flow_engine []) (sample_flow\<lparr>fl_max_retries := -1\<rparr>) [] = Inr (PDict [])"
    using sample_flow_payload by (simp add: flow_payload_def)
  then show ?thesis
    by (intro negative_retries_leave_flow_running) (simp_all add: sample_flow_def matches_filter_def)
qed

section \<open>Events\<close>

lemma flow_attempts_calls:
  "\<exists>k. snd (flow_attempts exec c a n calls) = calls @ replicate k c"
proof (induction exec c a n calls rule: flow_attempts.induct)
  case (1 exec c a calls)
  have "snd (flow_attempts exec c a 0 calls) = calls @ replicate 0 c" by simp
  then show ?case ..
next
  case (2 exec c a n calls)
  have one: "\<exists>k. calls @ [c] = calls @ replicate k c" by (rule exI [of _ 1]) simp
  have more: "(\<exists>k. x = (calls @ [c]) @ replicate k c) \<Longrightarrow> \<exists>k. x = calls @ replicate k c" for x
    by (metis append.assoc append_Cons append_Nil replicate_Suc)
  show ?case using one more "2.IH" by (auto split: sum.splits)
qed

definition flow_calls_for :: "flow \<Rightarrow> flow_call \<Rightarrow> bool" where
  "flow_calls_for fl c \<longleftrightarrow> fc_tenant c = fl_tenant fl \<and> fc_connector c = fl_destination_connector fl
     \<and> fc_action c = fl_destination_action fl"

lemma execute_flow_calls:
  "\<exists>new. snd (execute_flow fg fl data calls) = calls @ new \<and> (\<forall>c \<in> set new. flow_calls_for fl c)"
proof (cases "flow_payload fg fl data")
  case (Inr payload)
  obtain k where "snd (flow_attempts (fg_execute fg) (flow_action fl payload) 0 (max_attempts fl) calls)
      = calls @ replicate k (flow_action fl payload)"
    using flow_attempts_calls by blast
  moreover have "\<forall>c \<in> set (replicate k (flow_action fl payload)). flow_calls_for fl c"
    by (simp add: flow_calls_for_def flow_action_def)
  ultimately show ?thesis using Inr
    by (auto simp: execute_flow_def Let_def split: prod.splits option.splits sum.splits)
qed (simp add: execute_flow_def Let_def)

lemma execute_flows_calls:
  "\<exists>new. snd (execute_flows fg data fls calls) = calls @ new \<and> (\<forall>c \<in> set new. \<exists>fl \<in> set fls. flow_calls_for fl c)"
proof (induction fls arbitrary: calls)
  case (Cons fl fls)
  obtain ex calls' where e: "execute_flow fg fl data calls = (ex, calls')" by fastforce
  with execute_flow_calls [of fg fl data calls] obtain n1 where n1: "calls' = calls @ n1" "\<forall>c \<in> set n1. flow_calls_for fl c" by auto
  obtain n2 where n2: "snd (execute_flows fg data fls calls') = calls' @ n2" "\<forall>c \<in> set n2. \<exists>fl \<in> set fls. flow_calls_for fl c"
    using Cons.IH by blast
  have "snd (execute_flows fg data (fl # fls) calls) = calls @ (n1 @ n2)"
    using e n1 n2 by (auto simp: Let_def split: prod.splits)
  moreover have "\<forall>c \<in> set (n1 @ n2). \<exists>f \<in> set (fl # fls). flow_calls_for f c" using n1 n2 by auto
  ultimately show ?case by blast
qed simp

text \<open>An event causes only the actions of enabled flows of its own tenant that listen to its
  connector and event, each for that tenant.\<close>

lemma flow_event_stays_in_tenant:
  "\<exists>new. snd (flow_process_event fg tenant connector event data calls) = calls @ new
    \<and> (\<forall>c \<in> set new. fc_tenant c = tenant \<and> (\<exists>fl \<in> set (fg_flows fg). fl_is_enabled fl
         \<and> fl_source_connector fl = connector \<and> fl_source_event fl = event
         \<and> fc_connector c = fl_destination_connector fl \<and> fc_action c = fl_destination_action fl))"
proof -
  obtain new where n: "snd (execute_flows fg data (get_flows_for_event fg tenant connector event) calls) = calls @ new"
    and own: "\<forall>c \<in> set new. \<exists>fl \<in> set (get_flows_for_event fg tenant connector event). flow_calls_for fl c"
    using execute_flows_calls by blast
  have "\<forall>c \<in> set new. fc_tenant c = tenant \<and> (\<exists>fl \<in> set (fg_flows fg). fl_is_enabled fl
         \<and> fl_source_connector fl = connector \<and> fl_source_event fl = event
         \<and> fc_connector c = fl_destination_connector fl \<and> fc_action c = fl_destination_action fl)"
    using own by (auto simp: get_flows_for_event_def flow_calls_for_def)
  with n show ?thesis by (auto simp: flow_process_event_def)
qed

lemma flow_event_stays_in_tenant_witness:
  "\<exists>new. snd (flow_process_event (sample_flow_engine []) ''t1'' ''allegro'' ''order.created'' [] []) = new
    \<and> (\<forall>c \<in> set new. fc_tenant c = ''t1'')"
  using flow_event_stays_in_tenant [of "sample_flow_engine []" "''t1''" "''allegro''" "''order.created''" "[]" "[]"] by auto

section \<open>Overrides of a tenant\<close>

lemma mr_get_nested_plain: "plain_key key \<Longrightarrow> mr_get_nested v key = get_nested v key"
  by (simp add: mr_get_nested.simps [of v key] get_nested_plain plain_key_def)

lemma override_frame:
  assumes "mr_apply_override rt data m ov = Inr m'" and "plain_key key" and "plain_key (fo_target_field ov)"
    and "indep_key (fo_target_field ov) key"
  shows "get_nested m' key = get_nested m key"
  using assms(1) resolver_paths.read_other [OF assms(3,2,4)]
  by (auto simp: mr_apply_override_def Let_def andThen_eq_Inr split: if_splits)

lemma overrides_frame:
  assumes "foldM (mr_apply_override rt data) m ovs = Inr m'" and "plain_key key"
    and "\<forall>ov \<in> set ovs. plain_key (fo_target_field ov) \<and> indep_key (fo_target_field ov) key"
  shows "get_nested m' key = get_nested m key"
  using assms(1,3)
proof (induction ovs arbitrary: m)
  case (Cons ov ovs)
  then obtain m1 where "mr_apply_override rt data m ov = Inr m1" "foldM (mr_apply_override rt data) m1 ovs = Inr m'"
    by (auto simp: andThen_eq_Inr)
  with Cons show ?case using override_frame [OF _ assms(2)] by (metis list.set_intros)
qed simp

text \<open>An active override of the tenant decides the mapped field it targets, whatever the defaults
  of the connector and the rules of the flow say, when the source has a value and no override of a
  later priority writes to the same field or around it.\<close>

lemma tenant_override_prevails:
  assumes "resolve_mapping rt table defaults tenant connector ty data rules = Inr mapped"
    and "get_tenant_overrides table tenant connector ty = before @ ov # after"
    and "\<not> truthy (fo_transform ov)" and "plain_key (fo_target_field ov)"
    and "mr_get_nested (PDict data) (fo_source_field ov) \<noteq> PNone"
    and "\<forall>r \<in> set after. plain_key (fo_target_field r) \<and> indep_key (fo_target_field r) (fo_target_field ov)"
  shows "mr_get_nested mapped (fo_target_field ov) = mr_get_nested (PDict data) (fo_source_field ov)"
proof -
  from assms(1,2) obtain m1 where "foldM (mr_apply_override rt data) m1 (before @ ov # after) = Inr mapped"
    by (auto simp: resolve_mapping_def andThen_eq_Inr)
  then obtain m2 m3 where ov: "mr_apply_override rt data m2 ov = Inr m3"
    and rest: "foldM (mr_apply_override rt data) m3 after = Inr mapped"
    by (auto simp: foldM_append andThen_eq_Inr)
  from ov assms(3,5) have "mr_set_nested (fo_target_field ov) (mr_get_nested (PDict data) (fo_source_field ov)) m2 = Inr m3"
    by (simp add: mr_apply_override_def Let_def)
  from resolver_paths.read_written [OF assms(4) this] overrides_frame [OF rest assms(4,6)]
  show ?thesis by (simp add: mr_get_nested_plain [OF assms(4)])
qed

definition sample_override :: field_override where
  "sample_override =
     \<lparr>fo_tenant = ''t1'', fo_connector = ''wms'', fo_mapping_type = ''field'', fo_source_field = ''nr'',
      fo_target_field = ''number'', fo_transform = PNone, fo_priority = 0, fo_is_active = True\<rparr>"

lemma tenant_override_prevails_witness:
  "\<exists>mapped. resolve_mapping sample_rt [sample_override] [(''number'', PInt 0)] ''t1'' ''wms'' ''field'' [(''nr'', PInt 7)] (PList []) = Inr mapped
     \<and> mr_get_nested mapped ''number'' = PInt 7"
proof -
  have ovs: "get_tenant_overrides [sample_override] ''t1'' ''wms'' ''field'' = [] @ sample_override # []"
    by (simp add: get_tenant_overrides_def sample_override_def)
  have read: "mr_get_nested (PDict [(''nr'', PInt 7)]) ''nr'' = PInt 7"
    by (simp add: mr_get_nested.simps contains_sub_def py_split_def py_split_acc.simps dget_def)
  have "\<exists>mapped. resolve_mapping sample_rt [sample_override] [(''number'', PInt 0)] ''t1'' ''wms'' ''field'' [(''nr'', PInt 7)] (PList []) = Inr mapped"
    by (simp add: resolve_mapping_def ovs [simplified] mr_apply_override_def Let_def)
      (simp add: sample_override_def read mr_set_nested.simps contains_sub_def py_split_def py_split_acc.simps mr_assign_final_def)
  then obtain mapped where m: "resolve_mapping sample_rt [sample_override] [(''number'', PInt 0)] ''t1'' ''wms'' ''field'' [(''nr'', PInt 7)] (PList []) = Inr mapped" ..
  have "mr_get_nested mapped (fo_target_field sample_override) = mr_get_nested (PDict [(''nr'', PInt 7)]) (fo_source_field sample_override)"
    by (rule tenant_override_prevails [OF m ovs])
      (simp_all add: sample_override_def plain_key_def contains_sub_def read)
  with m read show ?thesis by (auto simp: sample_override_def)
qed

end
