(* ===== verification/EngineEffects.thy ===== *)
theory EngineEffects
  imports EngineNode
begin

text \<open>
  What a run of the engine may do to its surroundings, proved once for every node
  type and carried through the recursion: a dry run makes no call, calls are made
  on behalf of the tenant of the workflow only, the log of calls and the list of
  result entries only grow, and no key of the context data is lost.
\<close>

section \<open>The effect relation\<close>

text \<open>\<open>eff T d\<close>: for runs of tenant \<open>T\<close> whose dry-run flag is \<open>d\<close>.\<close>

definition calls_of :: "'a est_scheme \<Rightarrow> call list" where
  "calls_of s = w_calls (st_world s)"

definition extends_calls :: "string \<Rightarrow> bool \<Rightarrow> call list \<Rightarrow> call list \<Rightarrow> bool" where
  "extends_calls T d cs cs' \<longleftrightarrow>
     (\<exists>new. cs' = cs @ new \<and> (d \<longrightarrow> new = []) \<and> (\<forall>c \<in> set new. call_tenant c \<in> {None, Some T}))"

definition extends_list :: "'a list \<Rightarrow> 'a list \<Rightarrow> bool" where
  "extends_list xs ys \<longleftrightarrow> (\<exists>zs. ys = xs @ zs)"

definition eff :: "string \<Rightarrow> bool \<Rightarrow> est \<Rightarrow> est \<Rightarrow> bool" where
  "eff T d s t \<longleftrightarrow> (st_dry_run s = d \<longrightarrow>
     st_dry_run t = d \<and> st_chain t = st_chain s \<and> cx_trigger t = cx_trigger s \<and>
     extends_calls T d (calls_of s) (calls_of t) \<and>
     extends_list (map nr_oid (st_results s)) (map nr_oid (st_results t)) \<and>
     fst ` set (cx_data s) \<subseteq> fst ` set (cx_data t))"

lemma extends_calls_refl [simp]: "extends_calls T d cs cs"
  by (simp add: extends_calls_def)

lemma extends_calls_trans: "extends_calls T d a b \<Longrightarrow> extends_calls T d b c \<Longrightarrow> extends_calls T d a c"
proof -
  assume "extends_calls T d a b" and "extends_calls T d b c"
  then obtain x y where "b = a @ x" "c = b @ y" "d \<longrightarrow> x = []" "d \<longrightarrow> y = []"
    "\<forall>c \<in> set x. call_tenant c \<in> {None, Some T}" "\<forall>c \<in> set y. call_tenant c \<in> {None, Some T}"
    unfolding extends_calls_def by blast
  then show ?thesis unfolding extends_calls_def by (intro exI [of _ "x @ y"]) auto
qed

lemma extends_list_refl [simp]: "extends_list xs xs"
  by (simp add: extends_list_def)

lemma extends_list_trans: "extends_list a b \<Longrightarrow> extends_list b c \<Longrightarrow> extends_list a c"
  unfolding extends_list_def by auto

lemma eff_refl: "eff T d s s"
  by (simp add: eff_def)

lemma eff_trans:
  assumes st: "eff T d s t" and tu: "eff T d t u"
  shows "eff T d s u"
  unfolding eff_def
proof (intro impI)
  assume d: "st_dry_run s = d"
  with st have t: "st_dry_run t = d" by (simp add: eff_def)
  have calls: "extends_calls T d (calls_of s) (calls_of u)"
    by (rule extends_calls_trans [of T d _ "calls_of t"]) (use st tu d t in \<open>simp_all add: eff_def\<close>)
  have results: "extends_list (map nr_oid (st_results s)) (map nr_oid (st_results u))"
    by (rule extends_list_trans [of _ "map nr_oid (st_results t)"]) (use st tu d t in \<open>simp_all add: eff_def\<close>)
  have keys: "fst ` set (cx_data s) \<subseteq> fst ` set (cx_data u)"
    by (rule subset_trans [of _ "fst ` set (cx_data t)"]) (use st tu d t in \<open>simp_all add: eff_def\<close>)
  show "st_dry_run u = d \<and> st_chain u = st_chain s \<and> cx_trigger u = cx_trigger s \<and>
      extends_calls T d (calls_of s) (calls_of u) \<and>
      extends_list (map nr_oid (st_results s)) (map nr_oid (st_results u)) \<and>
      fst ` set (cx_data s) \<subseteq> fst ` set (cx_data u)"
    using calls results keys st tu d t by (simp add: eff_def)
qed

interpretation eff: effect_rel "eff T d" for T d
  by unfold_locales (rule eff_refl, rule eff_trans)

named_theorems eff_rules \<open>computations that keep the effect relation\<close>

lemmas eff_pure [eff_rules, simp] = eff.keeps_pure
lemmas eff_bnd [eff_rules] = eff.keeps_bnd
lemmas eff_catch [eff_rules] = eff.keeps_catch
lemmas eff_for_each [eff_rules] = eff.keeps_for_each
lemmas eff_map_each [eff_rules] = eff.keeps_map_each

lemma keeps_modify: "(\<And>s. R s (f s)) \<Longrightarrow> keeps R (modify f)"
  by (simp add: keeps_def)

text \<open>Code that reads the context knows its dry-run flag.\<close>

lemma eff_ctx_now:
  assumes "\<And>c. st_dry_run c = d \<Longrightarrow> keeps (eff T d) (f c)"
  shows "keeps (eff T d) (bnd ctx_now f)"
  using assms unfolding keeps_def ctx_now_def eff_def by auto

section \<open>Primitives\<close>

lemma eff_set_variable [eff_rules, simp]: "keeps (eff T d) (set_variable k v)"
  unfolding set_variable_def by (rule keeps_modify) (simp add: eff_def calls_of_def)

lemma eff_set_node_output [eff_rules, simp]: "keeps (eff T d) (set_node_output k v)"
  unfolding set_node_output_def by (rule keeps_modify) (simp add: eff_def calls_of_def)

lemma eff_mark_completed [eff_rules, simp]: "keeps (eff T d) (mark_completed k)"
  unfolding mark_completed_def by (rule keeps_modify) (simp add: eff_def calls_of_def)

lemma eff_merge_data [eff_rules, simp]: "keeps (eff T d) (merge_data v)"
  unfolding merge_data_def
  by (cases v) (auto intro!: keeps_modify simp: eff_def calls_of_def)

lemma eff_eh_transform_item [eff_rules, simp]: "keeps (eff T d) (eh_transform_item rt kv)"
  unfolding eh_transform_item_def by (rule keeps_modify) (auto simp: eff_def calls_of_def)

lemma eff_extend_results [eff_rules, simp]: "keeps (eff T d) (extend_results rs)"
  unfolding extend_results_def by (rule keeps_modify) (auto simp: eff_def calls_of_def extends_list_def)

lemma eff_alloc_oid [eff_rules, simp]: "keeps (eff T d) alloc_oid"
  unfolding alloc_oid_def keeps_def by (auto simp: eff_def calls_of_def)

lemma eff_commit_entry [eff_rules]:
  assumes "\<And>e. nr_oid (f e) = nr_oid e"
  shows "keeps (eff T d) (commit_entry entry f)"
proof -
  have "nr_oid (current_entry entry s) = nr_oid entry" for s
    by (auto simp: current_entry_def split: option.splits dest: find_Some_mem)
  with assms have "map (nr_oid \<circ> (\<lambda>r. if nr_oid r = nr_oid entry then f (current_entry entry s) else r)) rs
      = map nr_oid rs" for s rs
    by (simp add: comp_def if_distrib cong: map_cong)
  then show ?thesis
    unfolding commit_entry_def
    by (intro keeps_modify) (auto simp: eff_def calls_of_def Let_def extends_list_def)
qed

lemma eff_do_call:
  assumes "\<not> d" and "call_tenant c \<in> {None, Some T}"
  shows "keeps (eff T d) (do_call f c)"
  using assms unfolding keeps_def do_call_def log_call_def
  by (auto simp: eff_def calls_of_def extends_calls_def)

lemma eff_if [eff_rules]:
  "(b \<Longrightarrow> keeps (eff T d) m) \<Longrightarrow> (\<not> b \<Longrightarrow> keeps (eff T d) n) \<Longrightarrow> keeps (eff T d) (if b then m else n)"
  by simp

lemma eff_option [eff_rules]:
  "(x = None \<Longrightarrow> keeps (eff T d) m) \<Longrightarrow> (\<And>y. x = Some y \<Longrightarrow> keeps (eff T d) (f y)) \<Longrightarrow>
   keeps (eff T d) (case x of None \<Rightarrow> m | Some y \<Rightarrow> f y)"
  by (cases x) auto

lemma eff_prod [eff_rules]:
  "(\<And>a b. p = (a, b) \<Longrightarrow> keeps (eff T d) (f a b)) \<Longrightarrow> keeps (eff T d) (case p of (a, b) \<Rightarrow> f a b)"
  by (cases p) auto

lemma eff_pyval [eff_rules]:
  "(\<And>w. keeps (eff T d) (f w)) \<Longrightarrow> keeps (eff T d) m \<Longrightarrow>
   keeps (eff T d) (case v of PList w \<Rightarrow> f w | _ \<Rightarrow> m)"
  by (cases v) auto

lemma eff_Let [eff_rules]: "(\<And>x. x = a \<Longrightarrow> keeps (eff T d) (f x)) \<Longrightarrow> keeps (eff T d) (Let a f)"
  by simp

section \<open>Executors\<close>

lemma eff_exec_action [eff_rules]: "keeps (eff (wf_tenant wfl) d) (exec_action en wfl config)"
  unfolding exec_action_def by (intro eff_rules eff_ctx_now eff_do_call | simp)+

lemma eff_redact_pii:
  "\<not> d \<Longrightarrow> keeps (eff T d) (redact_pii en data T cred)"
  unfolding redact_pii_def classify_pii_fields_def by (intro eff_rules eff_do_call | simp)+

lemma eff_exec_think [eff_rules]: "keeps (eff (wf_tenant wfl) d) (exec_think en wfl config)"
  unfolding exec_think_def by (intro eff_rules eff_ctx_now eff_do_call eff_redact_pii | simp)+

lemma build_request_tenant: "build_request rt config ctx creds base = Inr c \<Longrightarrow> call_tenant c = None"
  by (auto simp: build_request_def andThen_eq_Inr Let_def)

lemma eff_liftE_bnd:
  "(\<And>x. r = Inr x \<Longrightarrow> keeps (eff T d) (f x)) \<Longrightarrow> keeps (eff T d) (bnd (liftE r) f)"
  by (cases r) (auto simp: keeps_def eff_refl)

lemma eff_exec_http_request [eff_rules]: "keeps (eff (wf_tenant wfl) d) (exec_http_request en wfl config)"
  unfolding exec_http_request_def
  by (intro eff_liftE_bnd eff_rules eff_ctx_now eff_do_call | simp add: build_request_tenant)+

lemma eff_exec_aggregate [eff_rules]: "keeps (eff T d) (exec_aggregate config)"
  unfolding exec_aggregate_def
  by (intro eff_rules | simp split: pyval.split)+

lemma eff_exec_set_variable [eff_rules]: "keeps (eff T d) (exec_set_variable rt config)"
  unfolding exec_set_variable_def by (intro eff_rules eff_ctx_now | simp)+

lemma eff_eh_notify [eff_rules]: "keeps (eff (wf_tenant wfl) d) (eh_notify en wfl err cfg)"
  unfolding eh_notify_def by (intro eff_rules eff_ctx_now eff_do_call | simp split: if_splits)+

lemma eff_exec_error_handler [eff_rules]: "keeps (eff (wf_tenant wfl) d) (exec_error_handler en wfl config)"
  unfolding exec_error_handler_def eh_action_def eh_set_variable_def eh_transform_def
  by (intro eff_rules | simp)+

section \<open>Nodes that run other nodes\<close>

definition rw_ok :: "string \<Rightarrow> run_workflow_fn \<Rightarrow> bool" where
  "rw_ok T rw \<longleftrightarrow> (\<forall>child trigger d chain w ex w'.
     wf_tenant child = T \<longrightarrow> rw child trigger d chain w = Some (ex, w') \<longrightarrow>
     extends_calls T d (w_calls w) (w_calls w'))"

definition rn_ok :: "string \<Rightarrow> run_nodes_fn \<Rightarrow> bool" where
  "rn_ok T rn \<longleftrightarrow> (\<forall>d nodes depth. keeps (eff T d) (rn nodes depth))"

definition rs_ok :: "string \<Rightarrow> run_single_fn \<Rightarrow> bool" where
  "rs_ok T rs \<longleftrightarrow> (\<forall>d n depth. keeps (eff T d) (rs n depth))"

lemma rn_okD: "rn_ok T rn \<Longrightarrow> keeps (eff T d) (rn nodes depth)"
  by (simp add: rn_ok_def)

lemma rs_okD: "rs_ok T rs \<Longrightarrow> keeps (eff T d) (rs n depth)"
  by (simp add: rs_ok_def)

lemma eff_scoped:
  assumes "keeps (eff T d) m"
    and "\<And>s t. eff T d (enter s) t \<Longrightarrow> eff T d s (leave s t)"
  shows "keeps (eff T d) (scoped enter leave m)"
  using assms unfolding keeps_def scoped_def by (auto split: option.splits)

lemma eff_branch [eff_rules]:
  "keeps (eff T d) m \<Longrightarrow> keeps (eff T d) (scoped branch_enter branch_leave m)"
  by (rule eff_scoped) (simp_all add: eff_def branch_enter_def branch_leave_def new_context_def calls_of_def)

lemma eff_item [eff_rules]:
  "keeps (eff T d) m \<Longrightarrow> keeps (eff T d) (scoped (item_enter i x) item_leave m)"
  by (rule eff_scoped)
     (simp_all add: eff_def item_enter_def item_leave_def new_context_def calls_of_def extends_list_def)

lemma eff_diverge [eff_rules, simp]: "keeps (eff T d) diverge"
  by (simp add: keeps_def)

lemma eff_exec_loop [eff_rules]:
  assumes ok: "rn_ok T rn"
  shows "keeps (eff T d) (exec_loop rn en g nid config depth)"
  unfolding exec_loop_def loop_iteration_def by (intro eff_rules rn_okD [OF ok] eff_ctx_now | simp)+

lemma eff_exec_parallel [eff_rules]:
  assumes ok: "rs_ok T rs"
  shows "keeps (eff T d) (exec_parallel rs g nid config depth)"
  unfolding exec_parallel_def run_branch_def by (intro eff_rules rs_okD [OF ok] | simp)+

lemma eff_batch_outcome [eff_rules]:
  "(\<And>i v. keeps (eff T d) (f i v)) \<Longrightarrow> (\<And>i v. keeps (eff T d) (h i v)) \<Longrightarrow>
   keeps (eff T d) (case r of ItemOk i v \<Rightarrow> f i v | ItemFailed i v \<Rightarrow> h i v)"
  by (cases r) auto

lemma eff_process_until_error [eff_rules]:
  "(\<And>p. keeps (eff T d) (f p)) \<Longrightarrow> keeps (eff T d) (process_until_error f ps)"
  by (induction ps) (intro eff_rules | simp)+

lemma eff_process_item [eff_rules]:
  assumes ok: "rn_ok T rn"
  shows "keeps (eff T d) (process_item rn body depth conc thr p)"
  unfolding process_item_def by (intro eff_rules rn_okD [OF ok] | simp)+

lemma eff_exec_batch [eff_rules]:
  assumes ok: "rn_ok T rn"
  shows "keeps (eff T d) (exec_batch rn g nid config depth)"
  unfolding exec_batch_def gather_item_def by (intro eff_rules ok eff_ctx_now | simp)+

lemma eff_run_child:
  assumes "rw_ok T rw" and "wf_tenant child = T"
  shows "keeps (eff T d) (run_child rw child trigger)"
  using assms unfolding keeps_def run_child_def
  by (auto simp: eff_def calls_of_def rw_ok_def split: option.splits)

lemma find_workflow_tenant: "find_workflow en wid T = Inr (Some child) \<Longrightarrow> wf_tenant child = T"
  by (auto simp: find_workflow_def split: pyval.splits dest: find_Some_mem)

lemma eff_exec_sub_workflow [eff_rules]:
  "rw_ok (wf_tenant wfl) rw \<Longrightarrow> keeps (eff (wf_tenant wfl) d) (exec_sub_workflow rw en wfl config)"
  unfolding exec_sub_workflow_def
  by (intro eff_liftE_bnd eff_rules eff_run_child | simp add: find_workflow_tenant)+

section \<open>Whole nodes and workflows\<close>

lemma eff_modify_local [eff_rules]:
  "keeps (eff T d) (modify (\<lambda>s. s\<lparr>st_visited := f s\<rparr>))"
  "keeps (eff T d) (modify (\<lambda>s. s\<lparr>st_merge_hits := h s\<rparr>))"
  by (rule keeps_modify, simp add: eff_def calls_of_def)+

lemma eff_node_step [eff_rules]:
  assumes "rn_ok (wf_tenant wfl) rn" "rs_ok (wf_tenant wfl) rs" "rw_ok (wf_tenant wfl) rw"
  shows "keeps (eff (wf_tenant wfl) d) (node_step rn rs rw en wfl g n depth)"
  unfolding node_step_def continue_with_def Let_def
  by (intro eff_rules eff_ctx_now assms | simp)+

lemma eff_merge_guard [eff_rules]: "keeps (eff T d) (merge_guard g nid)"
  unfolding merge_guard_def by (intro eff_rules eff_ctx_now | simp)+

lemma eff_run_if_any [eff_rules]:
  assumes ok: "rn_ok T rn"
  shows "keeps (eff T d) (run_if_any rn nodes depth)"
  unfolding run_if_any_def by (intro eff_rules rn_okD [OF ok] | simp)+

lemma eff_node_step_case [eff_rules]:
  "keeps (eff T d) m \<Longrightarrow> (\<And>x. keeps (eff T d) (f x)) \<Longrightarrow> (\<And>x y. keeps (eff T d) (h x y)) \<Longrightarrow>
   keeps (eff T d) (case st of Stop \<Rightarrow> m | Respond x \<Rightarrow> f x | Continue x y \<Rightarrow> h x y)"
  by (cases st) auto

lemma entry_oid [simp]:
  "nr_oid (entry_success rt v e) = nr_oid e" "nr_oid (entry_failed m e) = nr_oid e"
  by (simp_all add: entry_success_def entry_failed_def)

lemma eff_try_node:
  assumes "rn_ok (wf_tenant wfl) rn" "rs_ok (wf_tenant wfl) rs" "rw_ok (wf_tenant wfl) rw"
  shows "keeps (eff (wf_tenant wfl) d) (try_node rn rs rw en wfl g n depth entry)"
  unfolding try_node_def by (intro eff_rules assms | simp)+

lemma eff_retry_loop [eff_rules]:
  "(\<And>a. keeps (eff T d) (f a)) \<Longrightarrow> keeps (eff T d) (retry_loop f as)"
  by (induction as) (simp_all add: eff_catch eff_bnd)

lemma eff_handle_failure:
  assumes "rn_ok (wf_tenant wfl) rn" "rs_ok (wf_tenant wfl) rs"
  shows "keeps (eff (wf_tenant wfl) d) (handle_failure rn rs en wfl g n depth entry exc)"
  unfolding handle_failure_def retry_attempt_def exec_retryable_def give_up_def
  by (intro eff_rules eff_ctx_now assms rs_okD [OF assms(2)] | simp)+

lemma eff_single_node:
  assumes "rn_ok (wf_tenant wfl) rn" "rs_ok (wf_tenant wfl) rs" "rw_ok (wf_tenant wfl) rw"
  shows "keeps (eff (wf_tenant wfl) d) (single_node rn rs rw en wfl g n depth)"
  unfolding single_node_def
  by (intro eff_rules eff_try_node eff_handle_failure assms | simp)+

lemma rn_ok_execute_nodes: "rs_ok T rs \<Longrightarrow> rn_ok T (execute_nodes rs)"
  unfolding rn_ok_def execute_nodes_def by (simp add: eff_for_each rs_okD)

text \<open>From the trigger on: the context as the trigger leaves it.\<close>

definition triggered :: "node \<Rightarrow> pydict \<Rightarrow> est \<Rightarrow> est" where
  "triggered t trigger s = s\<lparr>cx_outs := dset (cx_outs s) (n_id t) (PDict trigger), cx_data := trigger\<rparr>"

lemma run_from_trigger_eff:
  assumes rn: "rn_ok T rn" and run: "run_from_trigger rn rt g trigger s = Some (r, u)"
    and t: "find_trigger g = Some t" and d: "d = st_dry_run s"
  shows "eff T d (triggered t trigger s) u"
proof -
  define rest where "rest = bnd alloc_oid (\<lambda>oid. bnd (gets (trigger_entry rt t trigger oid)) (\<lambda>e.
    bnd (commit_entry e (\<lambda>x. x)) (\<lambda>_. rn (get_successors g (n_id t) None) 0)))"
  have "keeps (eff T d) rest"
    unfolding rest_def by (intro eff_rules rn_okD [OF rn] | simp)+
  moreover have "rest (triggered t trigger s) = Some (r, u)"
    using run t by (simp add: run_from_trigger_def rest_def triggered_def set_node_output_def set_data_def)
  ultimately show ?thesis unfolding keeps_def by blast
qed

lemma run_ok:
  "(\<forall>wfl g. rs_ok (wf_tenant wfl) (run_single en fuel wfl g)) \<and> (\<forall>T. rw_ok T (run_workflow en fuel))"
proof (induction fuel)
  case 0
  show ?case by (simp add: rs_ok_def rw_ok_def keeps_def)
next
  case (Suc k)
  have "rs_ok (wf_tenant wfl) (run_single en (Suc k) wfl g)" for wfl g
    unfolding rs_ok_def using Suc.IH
    by (simp add: eff_single_node rn_ok_execute_nodes)
  moreover have "rw_ok T (run_workflow en (Suc k))" for T
    unfolding rw_ok_def
  proof (intro allI impI)
    fix child trigger d chain w ex w'
    assume T: "wf_tenant child = T"
      and run: "run_workflow en (Suc k) child trigger d chain w = Some (ex, w')"
    define g where "g = mk_graph (wf_nodes child) (wf_edges child)"
    have ok: "rn_ok T (execute_nodes (run_single en k child g))"
      using Suc.IH T by (auto intro: rn_ok_execute_nodes)
    from run obtain r u where
      u: "run_from_trigger (execute_nodes (run_single en k child g)) (en_rt en) g trigger
            (start_context child trigger d chain w) = Some (r, u)" and w': "w' = st_world u"
      by (auto simp: g_def workflow_body_def finish_run_def Let_def split: option.splits)
    show "extends_calls T d (w_calls w) (w_calls w')"
    proof (cases "find_trigger g")
      case None
      with u w' show ?thesis
        by (auto simp: run_from_trigger_def start_context_def new_context_def count_execution_def)
    next
      case (Some t)
      have "eff T d (triggered t trigger (start_context child trigger d chain w)) u"
        by (rule run_from_trigger_eff [OF ok u Some]) (simp add: start_context_def)
      then show ?thesis
        by (simp add: eff_def w' triggered_def start_context_def new_context_def count_execution_def calls_of_def)
    qed
  qed
  ultimately show ?case by simp
qed

lemmas run_single_ok = run_ok [THEN conjunct1, rule_format]
lemmas run_workflow_ok = run_ok [THEN conjunct2, rule_format]

lemma workflow_run_calls:
  "execute_workflow en fuel wfl trigger d w = Some (ex, w') \<Longrightarrow>
     extends_calls (wf_tenant wfl) d (w_calls w) (w_calls w')"
  using run_workflow_ok [of "wf_tenant wfl" en fuel] unfolding rw_ok_def execute_workflow_def by blast

end
