(* ===== verification/GatewayProps.thy ===== *)
theory GatewayProps
  imports WebhookGateway WebhookProps SyncProps FlowProps EngineEffects
begin

text \<open>What a received webhook may cause: calls of both engines for the tenant it was attributed to.\<close>

section \<open>Calls of the engines\<close>

definition pcalls :: "string \<Rightarrow> pst \<Rightarrow> pst \<Rightarrow> bool" where
  "pcalls T s t \<longleftrightarrow> extends_calls T False (w_calls (ps_world s)) (w_calls (ps_world t))"

interpretation pcalls: effect_rel "pcalls T"
  by unfold_locales (auto simp: pcalls_def intro: extends_calls_trans)

lemma pcalls_run: "keeps (pcalls (wf_tenant wfl)) (run_workflow_now en fuel wfl data)"
  by (auto simp: keeps_def run_workflow_now_def pcalls_def intro: workflow_run_calls split: option.splits prod.splits)

lemma pcalls_ledger:
  "keeps (pcalls T) (check_ledger wfl k h m connector event now)"
  "keeps (pcalls T) (record_outcome wfl connector event k h c now ex)"
  by (auto simp: keeps_def check_ledger_def record_outcome_def pcalls_def Let_def split: sum.splits prod.splits if_splits)

lemma pcalls_execute_with_sync: "keeps (pcalls (wf_tenant wfl)) (execute_with_sync en fuel digest now wfl connector event data)"
  unfolding execute_with_sync_def
  by (intro pcalls.keeps_bnd pcalls.keeps_pure)
    (auto intro!: pcalls.keeps_bnd pcalls.keeps_pure pcalls_run pcalls_ledger split: option.split)

lemma process_event_calls:
  assumes "process_event en fuel digest now tenant connector event data s = Some (r, t)"
  shows "pcalls tenant s t"
  using assms unfolding process_event_def
proof (cases rule: bnd_cases)
  case (returned ws u)
  then have own: "\<forall>w \<in> set ws. wf_tenant w = tenant"
    using matched_workflows_from [of "en_rt en" data "get_workflows_for_event en tenant connector event" ws]
    by (simp add: get_workflows_for_event_def)
  have "keeps (pcalls tenant) (map_each (\<lambda>w. execute_with_sync en fuel digest now w connector event data) ws)"
  proof (rule pcalls.keeps_map_each_on)
    fix w assume "w \<in> set ws"
    with own show "keeps (pcalls tenant) (execute_with_sync en fuel digest now w connector event data)"
      using pcalls_execute_with_sync [of w] by auto
  qed
  then have "keeps (pcalls tenant) (bnd (map_each (\<lambda>w. execute_with_sync en fuel digest now w connector event data) ws)
      (\<lambda>executions. ret (List.map_filter (\<lambda>e. e) executions)))"
    by (intro pcalls.keeps_bnd pcalls.keeps_pure)
  moreover have "u = s" using returned(1) by simp
  ultimately show ?thesis using returned(2) unfolding keeps_def by blast
qed (simp add: pcalls.R_refl)

text \<open>All new calls, of flows and of workflows, are made for \<open>T\<close>.\<close>

definition calls_for :: "string \<Rightarrow> engine_world \<Rightarrow> engine_world \<Rightarrow> bool" where
  "calls_for T w w' \<longleftrightarrow>
     (\<exists>new. ew_flow_calls w' = ew_flow_calls w @ new \<and> (\<forall>c \<in> set new. fc_tenant c = T))
     \<and> pcalls T (ew_state w) (ew_state w')"

lemma flow_event_tenant:
  "\<exists>new. snd (flow_process_event fg tenant connector event data calls) = calls @ new \<and> (\<forall>c \<in> set new. fc_tenant c = tenant)"
  using execute_flows_calls [of fg data "get_flows_for_event fg tenant connector event" calls]
  by (fastforce simp: flow_process_event_def get_flows_for_event_def flow_calls_for_def)

lemma engines_process_calls:
  assumes "engines_process eg rollback fuel now on_other connector event (PDict d) tenant w = Some (r, w')"
  shows "calls_for tenant w w'"
proof -
  obtain fs calls where f: "flow_process_event (eg_flows eg) tenant connector event d (ew_flow_calls w) = (fs, calls)"
    by fastforce
  obtain r' s where p: "process_event (eg_workflows eg) fuel (eg_digest eg) now tenant connector event d (ew_state w) = Some (r', s)"
    and w': "ew_flow_calls w' = calls" "ps_world (ew_state w') = ps_world s"
    using assms f by (auto simp: engines_process_def split: option.splits sum.splits)
  show ?thesis
    using process_event_calls [OF p] flow_event_tenant [of "eg_flows eg" tenant connector event d "ew_flow_calls w"] f w'
    by (simp add: calls_for_def pcalls_def)
qed

section \<open>From the request to the calls\<close>

lemma resolved_tenant:
  assumes "resolve_webhook_tenant tn connector headers = (Some T, authenticated)"
  shows "if authenticated
         then \<exists>ak \<in> set (tn_keys tn). ak_active ak \<and> ak_tenant ak = T \<and> ak_key_hash ak = tn_hash_key tn (api_key_header headers)
         else {cn_tenant c |c. c \<in> set (tn_instances tn) \<and> cn_connector c = connector \<and> cn_enabled c} = {T}"
proof -
  have "set (enabled_tenants tn connector) = {cn_tenant c |c. c \<in> set (tn_instances tn) \<and> cn_connector c = connector \<and> cn_enabled c}"
    by (auto simp: enabled_tenants_def)
  then show ?thesis
    using assms
    by (auto simp: resolve_webhook_tenant_def find_api_key_def Let_def split: option.splits list.splits if_splits
        dest!: find_Some_mem)
qed

lemma stored_event_found:
  assumes "ingest_webhook ws box now rq = Inr (Accepted wid ext, box')" and "find_event box wid = None"
    and "rt_json_loads (ws_rt ws) (rq_body rq) = Some payload"
  shows "\<exists>ev. find_event box' wid = Some ev \<and> we_tenant ev = rq_tenant rq \<and> we_connector ev = rq_connector rq
    \<and> we_event_type ev = rq_event_type rq \<and> we_payload ev = payload"
proof -
  obtain ev where ev: "ingest_check ws box now rq = Inr (Inr ev)" "ingest_store box now ev = (Accepted wid ext, box')"
    using assms(1) by (rule ingest_accepted)
  have "we_tenant ev = rq_tenant rq \<and> we_connector ev = rq_connector rq \<and> we_event_type ev = rq_event_type rq \<and> we_payload ev = payload"
    using ev(1) assms(3)
    by (auto simp: ingest_check_def new_webhook_event_def Let_def elim!: andThen_InrE split: sum.splits option.splits if_splits)
  moreover have "find_event box' wid = Some ev"
    using ev(2) assms(2) ingest_store_events [of box now ev]
    by (auto simp: find_event_def find_snoc ingest_store_def Let_def split: option.splits)
  ultimately show ?thesis by blast
qed


definition sample_tenancy :: tenancy where
  "sample_tenancy =
     \<lparr>tn_hash_key = (\<lambda>k. k), tn_keys = [\<lparr>ak_key_hash = ''k1'', ak_tenant = ''acme'', ak_active = True\<rparr>],
      tn_instances = []\<rparr>"

definition sample_engines :: engines where
  "sample_engines =
     \<lparr>eg_flows = (sample_flow_engine [])\<lparr>fg_flows := [sample_flow\<lparr>fl_tenant := ''acme'', fl_source_connector := ''shop'',
        fl_source_event := ''order''\<rparr>]\<rparr>, eg_workflows = sample_engine [], eg_digest = (\<lambda>_. [])\<rparr>"

definition sample_engine_world :: engine_world where
  "sample_engine_world = \<lparr>ew_flow_calls = [], ew_state = \<lparr>ps_world = sample_world, ps_ledger = empty_ledger\<rparr>\<rparr>"

definition keyed_headers :: "(string \<times> string) list" where
  "keyed_headers = [(''x-api-key'', ''k1''), (''x-sig'', ''key{}''), (''x-request-id'', ''7'')]"

definition sample_received :: "(ingest_result \<times> inbox \<times> string option) py" where
  "sample_received = receive_webhook sample_tenancy (sample_webhook_service ''x-sig'') sample_inbox 0 ''1'' ''shop'' ''order'' ''{}'' keyed_headers"

definition sample_task :: "inbox \<Rightarrow> (inbox \<times> engine_world) option" where
  "sample_task box = background_task sample_engines (sample_webhook_service ''x-sig'') 202 0 0 (\<lambda>_ _ _ _. throw no_tenant_error) ''1'' box sample_engine_world"

lemma sample_received_accepted:
  "case sample_received of Inl _ \<Rightarrow> False | Inr (result, box', wid) \<Rightarrow> wid = Some ''1''"
  by code_simp

lemma sample_task_returns: "sample_task box \<noteq> None"
proof -
  have "process_event (sample_engine []) 202 (\<lambda>_. []) 0 tenant connector event d s = Some (Inr [], s)" for tenant connector event d s
    by (simp add: process_event_def get_workflows_for_event_def sample_engine_def matched_workflows_def List.map_filter_def)
  then show ?thesis
    by (auto simp: sample_task_def background_task_def process_webhook_async_def engines_process_def sample_engines_def
        split: option.splits pyval.splits prod.splits)
qed


end
