(* ===== verification/SchedulerProps.thy ===== *)
theory SchedulerProps
  imports WorkflowScheduler GatewayProps
begin

text \<open>Properties of the scheduler: the table of jobs refines the schedule that the workflows ask for, and
  what a scheduled run may do.\<close>

section \<open>The schedule\<close>

datatype schedule_op =
    Register workflow
  | Unregister string

definition scheduler_step :: "'j job_api \<Rightarrow> 'j scheduler \<Rightarrow> schedule_op \<Rightarrow> 'j scheduler" where
  "scheduler_step api s op = (case op of Register w \<Rightarrow> register_workflow api w s | Unregister wid \<Rightarrow> unregister_workflow api wid s)"

text \<open>The abstract schedule: the tenants of the workflows that run on a schedule.\<close>

definition wants_schedule :: "'j job_api \<Rightarrow> workflow \<Rightarrow> bool" where
  "wants_schedule api w \<longleftrightarrow> wf_is_enabled w \<and> (case schedule_trigger api w of Some (Inr _) \<Rightarrow> True | _ \<Rightarrow> False)"

definition schedule_step :: "'j job_api \<Rightarrow> (string \<rightharpoonup> string) \<Rightarrow> schedule_op \<Rightarrow> (string \<rightharpoonup> string)" where
  "schedule_step api m op =
     (case op of
        Register w \<Rightarrow> m(wf_id w := if wants_schedule api w then Some (wf_tenant w) else None)
      | Unregister wid \<Rightarrow> m(wid := None))"

definition scheduled :: "'j job_api \<Rightarrow> 'j scheduler \<Rightarrow> (string \<rightharpoonup> string)" where
  "scheduled api s wid =
     (case map_of (sd_jobs s) wid of None \<Rightarrow> None | Some jid \<Rightarrow> job_tenant (ja_get api (sd_store s) jid))"

text \<open>Every entry of the table names the job of its workflow, which the store has, and the store has no job
  of a workflow that is not in the table.\<close>

definition scheduler_ok :: "'j job_api \<Rightarrow> 'j scheduler \<Rightarrow> bool" where
  "scheduler_ok api s \<longleftrightarrow>
     (\<forall>wid. case map_of (sd_jobs s) wid of
        Some jid \<Rightarrow> jid = schedule_job_id wid \<and> (\<exists>t next. ja_get api (sd_store s) jid = Some \<lparr>jb_args = [wid, t], jb_next_run = next\<rparr>)
      | None \<Rightarrow> ja_get api (sd_store s) (schedule_job_id wid) = None)"

lemma job_id_inj [simp]: "schedule_job_id a = schedule_job_id b \<longleftrightarrow> a = b"
  by (simp add: schedule_job_id_def)

lemma job_id_not_Nil [simp]: "schedule_job_id a \<noteq> []"
  by (simp add: schedule_job_id_def)

lemma scheduler_okD:
  assumes "scheduler_ok api s"
  shows "map_of (sd_jobs s) wid = None \<Longrightarrow> ja_get api (sd_store s) (schedule_job_id wid) = None"
    and "map_of (sd_jobs s) wid = Some jid \<Longrightarrow>
      jid = schedule_job_id wid \<and> (\<exists>t next. ja_get api (sd_store s) (schedule_job_id wid) = Some \<lparr>jb_args = [wid, t], jb_next_run = next\<rparr>)"
  using spec [OF assms [unfolded scheduler_ok_def], of wid] by auto

text \<open>Two schedulers that agree on a workflow, in the table and in the store, agree on its schedule.\<close>

lemma scheduled_cong:
  assumes "map_of (sd_jobs s') x = map_of (sd_jobs s) x"
    and "ja_get api (sd_store s') (schedule_job_id x) = ja_get api (sd_store s) (schedule_job_id x)"
    and "scheduler_ok api s"
  shows "scheduled api s' x = scheduled api s x"
    and "case map_of (sd_jobs s') x of
        Some jid \<Rightarrow> jid = schedule_job_id x \<and> (\<exists>t next. ja_get api (sd_store s') jid = Some \<lparr>jb_args = [x, t], jb_next_run = next\<rparr>)
      | None \<Rightarrow> ja_get api (sd_store s') (schedule_job_id x) = None"
  using assms(1,2) scheduler_okD [OF assms(3), of x]
  by (auto simp: scheduled_def split: option.split)

lemma unregister_refines:
  assumes "job_api_ok api" and "scheduler_ok api s"
  shows "scheduler_ok api (unregister_workflow api wid s)"
    and "scheduled api (unregister_workflow api wid s) = (scheduled api s)(wid := None)"
proof -
  let ?s = "unregister_workflow api wid s"
  have own: "map_of (sd_jobs ?s) = (map_of (sd_jobs s))(wid := None)"
    by (rule ext) (simp add: unregister_workflow_def Let_def map_of_dpop split: option.split sum.split)
  have store: "ja_get api (sd_store ?s) (schedule_job_id wid) = None
    \<and> (\<forall>other. other \<noteq> wid \<longrightarrow> ja_get api (sd_store ?s) (schedule_job_id other) = ja_get api (sd_store s) (schedule_job_id other))"
  proof (cases "map_of (sd_jobs s) wid")
    case None
    with scheduler_okD(1) [OF assms(2) this] show ?thesis by (simp add: unregister_workflow_def)
  next
    case (Some jid)
    then have jid: "jid = schedule_job_id wid" and there: "ja_get api (sd_store s) jid \<noteq> None"
      using scheduler_okD(2) [OF assms(2) Some] by auto
    obtain st where "ja_remove api (sd_store s) jid = Inr st" "ja_get api st jid = None"
      "\<forall>other. other \<noteq> jid \<longrightarrow> ja_get api st other = ja_get api (sd_store s) other"
      using assms(1) there unfolding job_api_ok_def by blast
    then show ?thesis using Some jid by (simp add: unregister_workflow_def)
  qed
  show "scheduled api ?s = (scheduled api s)(wid := None)"
  proof (rule ext)
    fix x
    show "scheduled api ?s x = ((scheduled api s)(wid := None)) x"
      using scheduled_cong(1) [of ?s x s api] assms(2) store by (cases "x = wid") (simp_all add: own scheduled_def)
  qed
  show "scheduler_ok api ?s"
    unfolding scheduler_ok_def
  proof
    fix x
    show "case map_of (sd_jobs ?s) x of
        Some jid \<Rightarrow> jid = schedule_job_id x \<and> (\<exists>t next. ja_get api (sd_store ?s) jid = Some \<lparr>jb_args = [x, t], jb_next_run = next\<rparr>)
      | None \<Rightarrow> ja_get api (sd_store ?s) (schedule_job_id x) = None"
      using scheduled_cong(2) [of ?s x s api] assms(2) store by (cases "x = wid") (simp_all add: own)
  qed
qed

lemma register_refines:
  assumes "job_api_ok api" and "scheduler_ok api s"
  shows "scheduler_ok api (register_if_scheduled api w s)"
    and "scheduled api (register_if_scheduled api w s) =
      (case schedule_trigger api w of Some (Inr _) \<Rightarrow> (scheduled api s)(wf_id w \<mapsto> wf_tenant w) | _ \<Rightarrow> scheduled api s)"
proof -
  let ?s = "register_if_scheduled api w s"
  have both: "scheduler_ok api ?s \<and> scheduled api ?s =
      (case schedule_trigger api w of Some (Inr _) \<Rightarrow> (scheduled api s)(wf_id w \<mapsto> wf_tenant w) | _ \<Rightarrow> scheduled api s)"
  proof (cases "\<exists>tr. schedule_trigger api w = Some (Inr tr)")
    case False
    then show ?thesis using assms(2) by (auto simp: register_if_scheduled_def split: option.split sum.split)
  next
    case True
    then obtain tr where tr: "schedule_trigger api w = Some (Inr tr)" by blast
    obtain st nr where add: "ja_add api (sd_store s) (schedule_job_id (wf_id w)) tr [wf_id w, wf_tenant w] = Inr st"
      and this_job: "ja_get api st (schedule_job_id (wf_id w)) = Some \<lparr>jb_args = [wf_id w, wf_tenant w], jb_next_run = nr\<rparr>"
      and rest: "\<forall>other. other \<noteq> schedule_job_id (wf_id w) \<longrightarrow> ja_get api st other = ja_get api (sd_store s) other"
      using assms(1) unfolding job_api_ok_def by metis
    have s: "?s = s\<lparr>sd_store := st, sd_jobs := dset (sd_jobs s) (wf_id w) (schedule_job_id (wf_id w))\<rparr>"
      using tr add by (simp add: register_if_scheduled_def)
    have "scheduled api ?s = (scheduled api s)(wf_id w \<mapsto> wf_tenant w)"
    proof (rule ext)
      fix x
      show "scheduled api ?s x = ((scheduled api s)(wf_id w \<mapsto> wf_tenant w)) x"
        using scheduled_cong(1) [of ?s x s api] assms(2) this_job rest
        by (cases "x = wf_id w") (simp_all add: s scheduled_def job_tenant_def map_of_dset)
    qed
    moreover have "scheduler_ok api ?s"
      unfolding scheduler_ok_def
    proof
      fix x
      show "case map_of (sd_jobs ?s) x of
          Some jid \<Rightarrow> jid = schedule_job_id x \<and> (\<exists>t next. ja_get api (sd_store ?s) jid = Some \<lparr>jb_args = [x, t], jb_next_run = next\<rparr>)
        | None \<Rightarrow> ja_get api (sd_store ?s) (schedule_job_id x) = None"
        using scheduled_cong(2) [of ?s x s api] assms(2) this_job rest
        by (cases "x = wf_id w") (simp_all add: s map_of_dset)
    qed
    ultimately show ?thesis using tr by simp
  qed
  then show "scheduler_ok api ?s" and "scheduled api ?s =
      (case schedule_trigger api w of Some (Inr _) \<Rightarrow> (scheduled api s)(wf_id w \<mapsto> wf_tenant w) | _ \<Rightarrow> scheduled api s)"
    by blast+
qed

lemma scheduler_step_refines:
  assumes "job_api_ok api" and "scheduler_ok api s"
  shows "scheduler_ok api (scheduler_step api s op)
    \<and> scheduled api (scheduler_step api s op) = schedule_step api (scheduled api s) op"
proof (cases op)
  case (Unregister wid)
  then show ?thesis using unregister_refines [OF assms] by (simp add: scheduler_step_def schedule_step_def)
next
  case (Register w)
  note un = unregister_refines [OF assms, of "wf_id w"]
  show ?thesis
    using un register_refines [OF assms(1) un(1), of w] Register
    by (auto simp: scheduler_step_def schedule_step_def register_workflow_def wants_schedule_def Let_def
        split: option.splits sum.splits)
qed

interpretation scheduler: refinement
    "scheduler_step api" "\<lambda>s. job_api_ok api \<and> scheduler_ok api s" "schedule_step api" "scheduled api"
  by unfold_locales (use scheduler_step_refines in blast)+

section \<open>From the start of the platform\<close>

definition fresh_scheduler :: "'j \<Rightarrow> 'j scheduler" where
  "fresh_scheduler st = \<lparr>sd_jobs = [], sd_store = st\<rparr>"

definition initial_schedule :: "'j job_api \<Rightarrow> workflow list \<Rightarrow> (string \<rightharpoonup> string)" where
  "initial_schedule api table =
     foldl (\<lambda>m w. if wants_schedule api w then m(wf_id w \<mapsto> wf_tenant w) else m) Map.empty table"

lemma fresh_scheduler_ok:
  "(\<And>jid. ja_get api st jid = None) \<Longrightarrow> scheduler_ok api (fresh_scheduler st) \<and> scheduled api (fresh_scheduler st) = Map.empty"
  by (auto simp: scheduler_ok_def scheduled_def fresh_scheduler_def)

lemma start_refines:
  assumes "job_api_ok api" and "scheduler_ok api s"
  shows "scheduler_ok api (scheduler_start api table s) \<and> scheduled api (scheduler_start api table s)
    = foldl (\<lambda>m w. if wants_schedule api w then m(wf_id w \<mapsto> wf_tenant w) else m) (scheduled api s) table"
  using assms(2)
proof (induction table arbitrary: s)
  case (Cons w table)
  note reg = register_refines [OF assms(1) Cons.prems, of w]
  show ?case
    using Cons.IH [OF Cons.prems] Cons.IH [OF reg(1)] reg(2)
    by (auto simp: scheduler_start_def wants_schedule_def split: option.splits sum.splits)
qed (simp add: scheduler_start_def)

lemma dict_ok_scheduler_step: "dict_ok (sd_jobs s) \<Longrightarrow> dict_ok (sd_jobs (scheduler_step api s op))"
  by (auto simp: scheduler_step_def register_workflow_def unregister_workflow_def register_if_scheduled_def Let_def
      split: schedule_op.split option.split sum.split)

lemma dict_ok_scheduler_start: "dict_ok (sd_jobs s) \<Longrightarrow> dict_ok (sd_jobs (scheduler_start api table s))"
  unfolding scheduler_start_def
proof (induction table arbitrary: s)
  case (Cons w table)
  then have "dict_ok (sd_jobs (register_if_scheduled api w s))"
    by (auto simp: register_if_scheduled_def split: option.split sum.split)
  with Cons show ?case by simp
qed simp

lemma list_scheduled_workflows:
  assumes "dict_ok (sd_jobs s)" and "tenant \<noteq> []"
  shows "se_workflow_id ` set (list_scheduled api (Some tenant) s) = {wid. scheduled api s wid = Some tenant}"
proof -
  have "map_of (sd_jobs s) (fst p) = Some (snd p)" if "p \<in> set (sd_jobs s)" for p
    using assms(1) that by (simp add: dict_ok_def)
  then have "{wid. scheduled api s wid = Some tenant}
      = fst ` {p \<in> set (sd_jobs s). job_tenant (ja_get api (sd_store s) (snd p)) = Some tenant}"
    by (fastforce simp: scheduled_def image_iff dest: map_of_SomeD split: option.splits)
  moreover have "se_workflow_id ` set (list_scheduled api (Some tenant) s)
      = fst ` {p \<in> set (sd_jobs s). job_tenant (ja_get api (sd_store s) (snd p)) = Some tenant}"
    using assms(2) by (auto simp: list_scheduled_def Let_def image_iff image_image case_prod_beta)
  ultimately show ?thesis by simp
qed

definition scheduler_after :: "'j job_api \<Rightarrow> 'j \<Rightarrow> workflow list \<Rightarrow> schedule_op list \<Rightarrow> 'j scheduler" where
  "scheduler_after api st table ops = foldl (scheduler_step api) (scheduler_start api table (fresh_scheduler st)) ops"


text \<open>A job store in memory, without APScheduler's parsing of expressions.\<close>

definition sample_job_api :: "(string \<times> job) list job_api" where
  "sample_job_api =
     \<lparr>ja_cron_fields = (\<lambda>parts tz. Inr (concat parts)), ja_crontab = (\<lambda>e tz. Inl (attr_error tz ''get'')),
      ja_add = (\<lambda>st jid trigger args. Inr (dset st jid \<lparr>jb_args = args, jb_next_run = None\<rparr>)),
      ja_remove = (\<lambda>st jid. Inr (dpop st jid)), ja_get = map_of\<rparr>"

lemma sample_job_api_ok: "job_api_ok sample_job_api"
  by (simp add: job_api_ok_def sample_job_api_def map_of_dpop)

definition scheduled_workflow :: workflow where
  "scheduled_workflow = cyclic_workflow\<lparr>wf_id := ''w1'', wf_is_enabled := True, wf_nodes :=
     [\<lparr>n_id = ''t'', n_type = ''trigger'', n_label = None, n_config =
        [(''trigger_type'', PStr ''schedule''), (''cron'', PStr ''0 6 * * *'')]\<rparr>]\<rparr>"

lemma sample_schedule: "wants_schedule sample_job_api scheduled_workflow" "wf_tenant scheduled_workflow = ''acme''" "wf_id scheduled_workflow = ''w1''"
  by code_simp+


section \<open>A scheduled run\<close>

lemma scheduled_run_calls:
  assumes "get_schedule_config (wf_nodes w) \<noteq> None"
  shows "keeps (pcalls (wf_tenant w)) (scheduled_run en fuel digest now iso_time w)"
proof -
  have "keeps (pcalls T) (record_execution_sync rt digest now w ex data)" for T rt ex data
    unfolding record_execution_sync_def
    by (auto intro!: pcalls.keeps_bnd pcalls.keeps_pure pcalls_ledger simp: Let_def split: option.split)
  then show ?thesis
    unfolding scheduled_run_def by (auto intro!: pcalls.keeps_bnd pcalls.keeps_pure pcalls_run simp: Let_def)
qed

text \<open>A job that fires runs its workflow only when the workflow still exists, is enabled and still has a
  schedule trigger, and then makes calls only for its tenant; otherwise it changes nothing.\<close>

lemma scheduled_run_is_authorised:
  assumes "run_scheduled_workflow en fuel digest now iso_time wid s = Some t"
  shows "(\<exists>w \<in> set (en_workflows en). wf_id w = wid \<and> wf_is_enabled w \<and> get_schedule_config (wf_nodes w) \<noteq> None
      \<and> pcalls (wf_tenant w) s t)
    \<or> w_calls (ps_world t) = w_calls (ps_world s) \<and> ps_ledger t = ps_ledger s"
proof (cases "find (\<lambda>w. wf_id w = wid \<and> wf_is_enabled w) (en_workflows en)")
  case None
  with assms show ?thesis by (simp add: run_scheduled_workflow_def)
next
  case (Some w)
  then have w: "w \<in> set (en_workflows en)" "wf_id w = wid" "wf_is_enabled w"
    using find_Some_mem by fastforce+
  obtain r u where run: "scheduled_run en fuel digest now iso_time w s = Some (r, u)"
    and t: "t = (case r of Inl _ \<Rightarrow> u\<lparr>ps_ledger := ps_ledger s\<rparr> | Inr _ \<Rightarrow> u)"
    using assms Some by (auto simp: run_scheduled_workflow_def split: option.splits sum.splits)
  show ?thesis
  proof (cases "get_schedule_config (wf_nodes w)")
    case None
    with run have "r = Inl (attr_error PNone ''get'')" "u = s"
      by (auto simp: scheduled_run_def bnd_def)
    with t show ?thesis by simp
  next
    case (Some config)
    then have "pcalls (wf_tenant w) s u"
      using scheduled_run_calls [of w en fuel digest now iso_time] run by (auto simp: keeps_def)
    then have "pcalls (wf_tenant w) s t"
      using t by (cases r) (simp_all add: pcalls_def)
    with w Some show ?thesis by blast
  qed
qed

lemma scheduled_run_exists:
  "\<exists>t. run_scheduled_workflow (sample_engine [scheduled_workflow]) 404 digest now iso_time ''w1'' s = Some t"
proof -
  have guarded: "guarded_workflow scheduled_workflow"
    by (simp add: scheduled_workflow_def guarded_workflow_def guarded_node_def)
  have "run_workflow (sample_engine [scheduled_workflow]) 404 scheduled_workflow data False [] (ps_world s) \<noteq> None" for data
    by (rule run_workflow_returns [of "sample_engine [scheduled_workflow]" scheduled_workflow "[]" 404 data])
      (use guarded unvisited_le [of "sample_engine [scheduled_workflow]" "[] @ [wf_id scheduled_workflow]"]
        in \<open>simp_all add: sample_engine_def\<close>)
  then have runs: "execute_workflow (sample_engine [scheduled_workflow]) 404 scheduled_workflow data False (ps_world s) \<noteq> None" for data
    by (simp add: execute_workflow_def)
  have facts: "wf_sync_config scheduled_workflow = None" "wf_is_enabled scheduled_workflow" "get_schedule_config (wf_nodes scheduled_workflow) \<noteq> None"
    by (simp_all add: scheduled_workflow_def sample_defs dget_def py_eq.simps)
  have "en_workflows (sample_engine [scheduled_workflow]) = [scheduled_workflow]" by (simp add: sample_engine_def)
  then show ?thesis
    using facts
    by (simp add: run_scheduled_workflow_def sample_schedule scheduled_run_def record_execution_sync_def
        sync_target_def run_workflow_now_def bnd_def Let_def runs split: option.split)
qed

lemma scheduled_run_is_authorised_witness:
  "\<exists>t. run_scheduled_workflow (sample_engine [scheduled_workflow]) 404 (\<lambda>_. []) 0 ''2026-01-01'' ''w1''
        \<lparr>ps_world = sample_world, ps_ledger = empty_ledger\<rparr> = Some t
     \<and> pcalls ''acme'' \<lparr>ps_world = sample_world, ps_ledger = empty_ledger\<rparr> t"
proof -
  let ?s = "\<lparr>ps_world = sample_world, ps_ledger = empty_ledger\<rparr>"
  obtain t where t: "run_scheduled_workflow (sample_engine [scheduled_workflow]) 404 (\<lambda>_. []) 0 ''2026-01-01'' ''w1'' ?s = Some t"
    using scheduled_run_exists by blast
  have "en_workflows (sample_engine [scheduled_workflow]) = [scheduled_workflow]" by (simp add: sample_engine_def)
  with scheduled_run_is_authorised [OF t] have "pcalls ''acme'' ?s t"
    by (auto simp: sample_schedule pcalls_def extends_calls_def)
  with t show ?thesis by blast
qed

end
