(* ===== verification/ControlProps.thy ===== *)
theory ControlProps
  imports TenantTables SchedulerProps
begin

text \<open>
  Properties of the control plane: the constraints of the tables after any sequence of requests, isolation of
  tenants, the audit log, and the return to an earlier version.
\<close>

section \<open>Served requests\<close>

text \<open>The request carries an active key of an active tenant.\<close>

definition holds_key :: "'j gateway \<Rightarrow> db \<Rightarrow> http_request \<Rightarrow> string \<Rightarrow> bool" where
  "holds_key gw d rq tid \<longleftrightarrow>
     list_ex (\<lambda>k. ak_active k \<and> ak_tenant k = tid \<and> map_option (gw_hash_key gw) (map_of (hq_headers rq) ''x-api-key'') = Some (ak_key_hash k)) (db_keys d)
     \<and> list_ex (\<lambda>t. te_id t = tid \<and> te_active t) (db_tenants d)"

lemma get_current_tenant_cases:
  "(\<exists>e. get_current_tenant gw rq w = Some (Inl e, w)) \<or>
   (\<exists>t. get_current_tenant gw rq w = Some (Inr t, w\<lparr>pf_session := set_rls_tenant (te_id t) (pf_session w)\<rparr>) \<and> holds_key gw (pf_db w) rq (te_id t))"
  by (auto simp: get_current_tenant_def resolve_tenant_def use_tenant_def throw_def ret_def find_key_def holds_key_def list_ex_iff
      split: option.splits dest!: find_Some_mem)

definition opened :: "'j platform \<Rightarrow> 'j platform" where
  "opened w = w\<lparr>pf_session := end_transaction (pf_session w)\<rparr>"

definition opened_for :: "string \<Rightarrow> 'j platform \<Rightarrow> 'j platform" where
  "opened_for tid w = w\<lparr>pf_session := set_rls_tenant tid (end_transaction (pf_session w))\<rparr>"

lemma opened_simps [simp]:
  "pf_db (opened w) = pf_db w" "pf_db (opened_for tid w) = pf_db w" "tenant_session tid (pf_session (opened_for tid w))"
  "ss_enforced (pf_session (opened_for tid w)) = ss_enforced (pf_session w)"
  by (simp_all add: opened_def opened_for_def tenant_session_def set_rls_tenant_def end_transaction_def)

text \<open>A request changes nothing, or its handler succeeds for the tenant whose key it carries.\<close>

lemma serve_cases:
  obtains "pf_db (serve gw w (rq, q)) = pf_db w"
  | t x w' where "get_current_tenant gw rq (opened w) = Some (Inr t, opened_for (te_id t) w)" "holds_key gw (pf_db w) rq (te_id t)"
      "handle gw rq q t (opened_for (te_id t) w) = Some (Inr x, w')" "pf_db (serve gw w (rq, q)) = pf_db w'"
proof (cases "get_current_tenant gw rq (opened w)")
  case None
  with get_current_tenant_cases [of gw rq "opened w"] show thesis by simp
next
  case (Some r)
  consider e where "r = (Inl e, opened w)" | t where "r = (Inr t, opened_for (te_id t) w)" "holds_key gw (pf_db w) rq (te_id t)"
    using get_current_tenant_cases [of gw rq "opened w"] Some by (auto simp: opened_def opened_for_def)
  then show thesis
  proof cases
    case (1 e)
    with Some that(1) show thesis by (simp add: serve_def for_tenant_def in_request_def bnd_def opened_def)
  next
    case (2 t)
    with Some have s: "serve gw w (rq, q) = (case in_request (\<lambda>_. handle gw rq q t (opened_for (te_id t) w)) w of None \<Rightarrow> w | Some (_, w') \<Rightarrow> w')"
      by (simp add: serve_def for_tenant_def in_request_def bnd_def opened_def)
    show thesis
    proof (cases "handle gw rq q t (opened_for (te_id t) w)")
      case None
      with s that(1) show thesis by (simp add: in_request_def)
    next
      case h: (Some p)
      obtain res w' where p: "p = (res, w')" by fastforce
      show thesis
      proof (cases res)
        case (Inl e)
        with s h p that(1) show thesis by (simp add: in_request_def)
      next
        case (Inr x)
        with s h p 2 Some that(2) [of t x w'] show thesis by (simp add: in_request_def)
      qed
    qed
  qed
qed

lemma serve_effect:
  assumes "db_ok (pf_db w)"
  obtains "pf_db (serve gw w (rq, q)) = pf_db w" | tid where "request_effect q tid (pf_db w) (pf_db (serve gw w (rq, q)))"
proof (cases rule: serve_cases [of gw w rq q])
  case (2 t x w')
  obtain tid where "request_effect q tid (pf_db (opened_for (te_id t) w)) (pf_db w')"
    by (rule handle_effect_of_someone [OF 2(3)]) (simp_all add: assms)
  with 2(4) show thesis by (intro that(2)) simp
qed (rule that(1))

interpretation tables: inv_machine "serve gw" "\<lambda>w. db_ok (pf_db w)" for gw
proof
  fix w :: "'a platform" and e assume ok: "db_ok (pf_db w)"
  show "db_ok (pf_db (serve gw w e))"
    by (cases e, cases rule: serve_effect [OF ok, of gw "fst e" "snd e"]) (use ok in \<open>auto simp: request_effect_def harmless_def\<close>)
qed

section \<open>A platform with one tenant\<close>

definition sample_gateway :: "(string \<times> job) list gateway" where
  "sample_gateway =
     \<lparr>gw_rt = sample_rt, gw_registry = [], gw_cipher = plain_cipher, gw_jobs = sample_job_api, gw_scheduler_enabled = True,
      gw_engine = sample_engine [], gw_digest = (\<lambda>_. ''h''), gw_fuel = 1, gw_local_ip = (\<lambda>_. False), gw_hash_key = (\<lambda>s. ''h:'' @ s),
      gw_uuid = Some, gw_uuid5 = (\<lambda>s. s), gw_admin_secret = ''a'', gw_internal_secret = ''i'', gw_demo_mode = False, gw_mask = ''***''\<rparr>"

definition key_request :: http_request where
  "key_request = \<lparr>hq_client = Some ''10.0.0.1'', hq_headers = [(''x-api-key'', ''k1'')], hq_query = []\<rparr>"

definition sample_tenant :: tenant_row where
  "sample_tenant = \<lparr>te_id = ''acme'', te_active = True, te_name = ''Acme'', te_slug = ''acme'', te_plan = ''free''\<rparr>"

definition sample_row :: wf_row where
  "sample_row = \<lparr>wr_workflow = sample_workflow [sample_node ''t'' ''trigger'' []] [], wr_description = [], wr_version = 1, wr_updated = 1\<rparr>"

definition sample_db :: db where
  "sample_db =
     \<lparr>db_tenants = [sample_tenant], db_keys = [\<lparr>ak_key_hash = ''h:k1'', ak_tenant = ''acme'', ak_active = True, ak_prefix = ''k1'', ak_name = ''main''\<rparr>],
      db_instances = [], db_vault = empty_vault, db_workflows = [sample_row], db_versions = [version_row sample_row 1 None], db_audit = [],
      db_flows = [], db_flow_executions = []\<rparr>"

definition sample_platform :: "(string \<times> job) list platform" where
  "sample_platform =
     \<lparr>pf_session = \<lparr>ss_enforced = True, ss_tenant = None, ss_bypass = False\<rparr>, pf_db = sample_db, pf_scheduler = fresh_scheduler [],
      pf_provisioned = [], pf_windows = [], pf_state = event_state\<rparr>"

lemmas control_samples = sample_gateway_def key_request_def sample_tenant_def sample_row_def sample_db_def sample_platform_def

lemma sample_db_ok: "db_ok (pf_db sample_platform)"
  by (simp add: control_samples db_ok_def history_ok_def uniq_by_def versions_owned_def versions_numbered_def version_row_def wr_id_def wr_tenant_def
      sample_workflow_def vault_ok_def empty_vault_def executions_owned_def)

section \<open>The tables stay in order\<close>

text \<open>C9: Whatever requests are served, in whatever order and with or without row level security, the constraints of
  the tables hold: workflows, flows, instances, credentials and tokens have unique keys, every version belongs to a
  workflow of its tenant, every execution to a flow of its tenant, and the versions of a workflow are numbered 1, 2, ... up to
  its current version.\<close>

theorem requests_keep_tables_in_order:
  assumes "db_ok (pf_db w)"
  shows "db_ok (pf_db (foldl (serve gw) w requests))"
  using tables.run_inv [OF assms] by (simp only: tables.run_def)

theorem requests_keep_tables_in_order_witness:
  "db_ok (pf_db sample_platform)
   \<and> db_ok (pf_db (foldl (serve sample_gateway) sample_platform [(key_request, ToggleWorkflow 2 ''w1''), (key_request, RollbackVersion 3 ''w1'' 1)]))"
  using sample_db_ok requests_keep_tables_in_order [OF sample_db_ok] by blast

section \<open>Isolation\<close>

definition rows_of :: "string \<Rightarrow> db \<Rightarrow> db" where
  "rows_of tid d =
     d\<lparr>db_instances := filter (\<lambda>i. cn_tenant i = tid) (db_instances d),
       db_vault := \<lparr>va_credentials = filter (\<lambda>c. cr_tenant c = tid) (va_credentials (db_vault d)),
                    va_tokens = filter (\<lambda>k. ct_tenant k = tid) (va_tokens (db_vault d))\<rparr>,
       db_workflows := filter (\<lambda>r. wr_tenant r = tid) (db_workflows d),
       db_versions := filter (\<lambda>v. wv_tenant v = tid) (db_versions d),
       db_audit := filter (\<lambda>e. au_tenant e = tid) (db_audit d),
       db_flows := filter (\<lambda>r. fr_tenant r = tid) (db_flows d),
       db_flow_executions := filter (\<lambda>x. fe_tenant_id (xr_execution x) = tid) (db_flow_executions d)\<rparr>"

lemma filter_of_others: "tid \<noteq> other \<Longrightarrow> filter (\<lambda>x. owner x = tid) rows = filter (\<lambda>x. owner x = tid) (filter (\<lambda>x. owner x \<noteq> other) rows)"
  by (induction rows) auto

lemma rows_of_others: "tid \<noteq> other \<Longrightarrow> rows_of tid d = rows_of tid (others other d)"
  unfolding rows_of_def others_def by (simp, (subst filter_of_others, assumption, rule arg_cong)?) (simp add: filter_of_others)



section \<open>The audit log\<close>



section \<open>Versions\<close>

definition deletes :: "string \<Rightarrow> request \<Rightarrow> bool" where
  "deletes wid q = (case q of DeleteWorkflow now i \<Rightarrow> i = wid | _ \<Rightarrow> False)"

lemma serve_keeps_version:
  assumes "db_ok (pf_db w)" and "v \<in> set (db_versions (pf_db w))" and "\<not> deletes (wv_workflow v) q"
  shows "v \<in> set (db_versions (pf_db (serve gw w (rq, q))))"
  by (cases rule: serve_effect [OF assms(1), of gw rq q])
    (use assms(2,3) in \<open>auto simp: request_effect_def versions_effect_def deletes_def split: request.splits\<close>)

lemma serve_keeps_keys:
  assumes "db_ok (pf_db w)"
  shows "db_tenants (pf_db (serve gw w (rq, q))) = db_tenants (pf_db w)" and "db_keys (pf_db (serve gw w (rq, q))) = db_keys (pf_db w)"
proof -
  have same: "db_tenants d' = db_tenants d \<and> db_keys d' = db_keys d" if "others tid d' = others tid d" for tid d d'
    using arg_cong [OF that, of db_tenants] arg_cong [OF that, of db_keys] by (simp add: others_def)
  have "db_tenants (pf_db (serve gw w (rq, q))) = db_tenants (pf_db w) \<and> db_keys (pf_db (serve gw w (rq, q))) = db_keys (pf_db w)"
    by (cases rule: serve_effect [OF assms, of gw rq q]) (auto simp: request_effect_def harmless_def dest: same)
  then show "db_tenants (pf_db (serve gw w (rq, q))) = db_tenants (pf_db w)" and "db_keys (pf_db (serve gw w (rq, q))) = db_keys (pf_db w)" by auto
qed

lemma run_keeps_version:
  "db_ok (pf_db w) \<Longrightarrow> v \<in> set (db_versions (pf_db w)) \<Longrightarrow> list_all (\<lambda>(rq, q). \<not> deletes (wv_workflow v) q) requests \<Longrightarrow>
     v \<in> set (db_versions (pf_db (foldl (serve gw) w requests)))
     \<and> db_tenants (pf_db (foldl (serve gw) w requests)) = db_tenants (pf_db w) \<and> db_keys (pf_db (foldl (serve gw) w requests)) = db_keys (pf_db w)"
proof (induction requests arbitrary: w)
  case (Cons e es)
  obtain rq q where e: "e = (rq, q)" by fastforce
  have ok: "db_ok (pf_db (serve gw w e))" by (rule tables.step_inv [OF Cons.prems(1)])
  have "v \<in> set (db_versions (pf_db (serve gw w e)))" using serve_keeps_version [OF Cons.prems(1,2)] Cons.prems(3) e by auto
  with Cons.IH [OF ok] Cons.prems(3) serve_keeps_keys [OF Cons.prems(1), of gw rq q] e show ?case by simp
qed simp

lemma get_version:
  assumes h: "history_ok d" and v: "v \<in> set (db_versions d)" and vis: "visible ss (wv_tenant v)"
  shows "get_workflow_version ss d (wv_workflow v) (wv_version v) = Some v"
proof -
  from h v obtain r where r: "r \<in> set (db_workflows d)" "wr_id r = wv_workflow v" "wr_tenant r = wv_tenant v"
    by (auto simp: history_ok_def versions_owned_def list_all_iff list_ex_iff)
  have all: "versions_of ss d (wv_workflow v) = filter (\<lambda>x. wv_workflow x = wv_workflow v) (db_versions d)"
    using h r vis by (intro all_versions_visible [of d r]) (simp_all add: history_ok_def)
  have "map wv_version (filter (\<lambda>x. wv_workflow x = wv_workflow v) (db_versions d)) = [1..wr_version r]"
    using history_row [OF h r(1)] r(2) by (simp add: versions_numbered_def)
  then have d: "uniq_by wv_version (versions_of ss d (wv_workflow v))" using all by (simp add: uniq_by_def)
  have "v \<in> set (versions_of ss d (wv_workflow v))" using v all by simp
  with uniq_find [OF d] show ?thesis by (simp add: get_workflow_version_def)
qed

lemma rollback_succeeds:
  assumes ok: "db_ok (pf_db w)" and v: "v \<in> set (db_versions (pf_db w))" and t: "wv_tenant v = te_id t" and ss: "tenant_session (te_id t) (pf_session w)"
  shows "\<exists>x w'. rollback_workflow_version now (wv_workflow v) (wv_version v) rq t w = Some (Inr x, w')"
proof -
  let ?d = "pf_db w"
  have h: "history_ok ?d" and u: "uniq_by wr_id (db_workflows ?d)" using ok by (auto simp: db_ok_def history_ok_def)
  from h v obtain r where r: "r \<in> set (db_workflows ?d)" "wr_id r = wv_workflow v" "wr_tenant r = te_id t"
    using t by (auto simp: history_ok_def versions_owned_def list_all_iff list_ex_iff)
  have vis: "visible (pf_session w) (wr_tenant r)" using r(3) ss by simp
  have "find (\<lambda>q. wr_id q = wv_workflow v \<and> visible (pf_session w) (wr_tenant q)) (db_workflows ?d) = Some r"
  proof (rule find_unique)
    fix q assume "q \<in> set (db_workflows ?d)" and "wr_id q = wv_workflow v \<and> visible (pf_session w) (wr_tenant q)"
    then show "q = r" using uniq_by_eq [OF u _ r(1)] r(2) by simp
  qed (use r vis in auto)
  then have row: "find_workflow_row (pf_session w) ?d (wv_workflow v) = Some r" by (simp add: find_workflow_row_def)
  have ver: "get_workflow_version (pf_session w) ?d (wv_workflow v) (wv_version v) = Some v"
    using get_version [OF h v] t ss by simp
  note snap = snapshot_of_row(1,2) [OF h r(1), of "restore_graph v r", simplified, OF vis]
  show ?thesis using row ver snap vis r
    by (auto simp: rollback_workflow_version_def rollback_workflow_def bnd_assoc Let_def ret_def)
qed

definition graph_of :: "wf_row \<Rightarrow> node list \<times> edge list \<times> pydict" where
  "graph_of r = (wf_nodes (wr_workflow r), wf_edges (wr_workflow r), wf_variables (wr_workflow r))"

lemma put_one_row:
  assumes "uniq_by wr_id rows" and "r0 \<in> set rows" and "wr_id r = wr_id r0"
  shows "filter (\<lambda>q. wr_id q = wr_id r0) (update_where (\<lambda>q. wr_id q = wr_id r) (\<lambda>_. r) rows) = [r]"
  using assms
proof (induction rows)
  case (Cons q rows)
  have other: "filter (\<lambda>q. wr_id q = i) (update_where (\<lambda>q. wr_id q = i) f rows) = []" if "i \<notin> wr_id ` set rows" for i f
    using that by (induction rows) (auto simp: update_where_def)
  show ?case
  proof (cases "wr_id q = wr_id r0")
    case True
    then have "wr_id r0 \<notin> wr_id ` set rows" using Cons.prems(1) by (auto simp: uniq_by_def)
    from other [OF this] True Cons.prems(3) show ?thesis by (simp add: update_where_def)
  next
    case False
    with Cons show ?thesis by (auto simp: uniq_by_def update_where_def)
  qed
qed simp

text \<open>What a rollback leaves behind.\<close>

lemma rollback_result:
  assumes ok: "db_ok (pf_db w)" and v: "v \<in> set (db_versions (pf_db w))" and t: "wv_tenant v = te_id t" and ss: "tenant_session (te_id t) (pf_session w)"
    and run: "rollback_workflow_version now (wv_workflow v) (wv_version v) rq t w = Some (Inr x, w')"
  shows "map graph_of (filter (\<lambda>r. wr_id r = wv_workflow v) (db_workflows (pf_db w'))) = [(wv_nodes v, wv_edges v, wv_variables v)]"
    and "\<exists>v'. db_versions (pf_db w') = db_versions (pf_db w) @ [v'] \<and> wv_nodes v' = wv_nodes v \<and> wv_edges v' = wv_edges v \<and> wv_variables v' = wv_variables v"
proof -
  from run obtain r0 v0 e where *: "r0 \<in> set (db_workflows (pf_db w))" "wr_id r0 = wv_workflow v" "visible (pf_session w) (wr_tenant r0)"
      "get_workflow_version (pf_session w) (pf_db w) (wv_workflow v) (wv_version v) = Some v0" "au_tenant e = wr_tenant r0"
      "pf_db w' = (with_snapshot now (restore_graph v0 r0) (wr_version r0 + 1) (Some (te_slug t)) (pf_db w))\<lparr>db_audit := db_audit (pf_db w) @ [e]\<rparr>"
    by (rule rollback_effect [OF _ ok])
  have "get_workflow_version (pf_session w) (pf_db w) (wv_workflow v) (wv_version v) = Some v"
    by (rule get_version) (use ok v t ss in \<open>simp_all add: db_ok_def\<close>)
  with *(4) have v0: "v0 = v" by simp
  let ?r = "(restore_graph v r0)\<lparr>wr_version := wr_version r0 + 1, wr_updated := now\<rparr>"
  have "filter (\<lambda>q. wr_id q = wr_id r0) (update_where (\<lambda>q. wr_id q = wr_id ?r) (\<lambda>_. ?r) (db_workflows (pf_db w))) = [?r]"
    by (rule put_one_row) (use *(1) ok in \<open>simp_all add: db_ok_def history_ok_def\<close>)
  then show "map graph_of (filter (\<lambda>r. wr_id r = wv_workflow v) (db_workflows (pf_db w'))) = [(wv_nodes v, wv_edges v, wv_variables v)]"
    using *(2,6) v0 by (simp add: with_snapshot_def put_row_def graph_of_def restore_graph_def)
  show "\<exists>v'. db_versions (pf_db w') = db_versions (pf_db w) @ [v'] \<and> wv_nodes v' = wv_nodes v \<and> wv_edges v' = wv_edges v \<and> wv_variables v' = wv_variables v"
    using *(6) v0 by (simp add: restore_graph_def)
qed

text \<open>C8: Whatever requests are served after a version of a workflow was taken, as long as the workflow is not deleted, a
  rollback to that version by its tenant succeeds: it restores exactly the nodes, edges and variables of that version, and
  adds a new version with them to the history.\<close>

theorem rollback_restores_version:
  assumes "db_ok (pf_db w)" and "v \<in> set (db_versions (pf_db w))" and "list_all (\<lambda>(rq, q). \<not> deletes (wv_workflow v) q) requests"
    and "get_current_tenant gw rq w = Some (Inr t, w0)" and "wv_tenant v = te_id t"
  shows "let w1 = foldl (serve gw) w requests; w2 = serve gw w1 (rq, RollbackVersion now (wv_workflow v) (wv_version v)) in
    map graph_of (filter (\<lambda>r. wr_id r = wv_workflow v) (db_workflows (pf_db w2))) = [(wv_nodes v, wv_edges v, wv_variables v)]
    \<and> (\<exists>v'. db_versions (pf_db w2) = db_versions (pf_db w1) @ [v'] \<and> wv_nodes v' = wv_nodes v \<and> wv_edges v' = wv_edges v \<and> wv_variables v' = wv_variables v)"
proof -
  define w1 where "w1 = foldl (serve gw) w requests"
  define w2 where "w2 = serve gw w1 (rq, RollbackVersion now (wv_workflow v) (wv_version v))"
  have ok: "db_ok (pf_db w1)" unfolding w1_def using tables.run_inv [OF assms(1)] by (simp only: tables.run_def)
  have v: "v \<in> set (db_versions (pf_db w1))" and keys: "db_tenants (pf_db w1) = db_tenants (pf_db w)" "db_keys (pf_db w1) = db_keys (pf_db w)"
    unfolding w1_def using run_keeps_version [OF assms(1-3)] by auto
  have auth: "get_current_tenant gw rq (opened w1) = Some (Inr t, opened_for (te_id t) w1)"
    using assms(4) keys by (auto simp: get_current_tenant_def resolve_tenant_def use_tenant_def find_key_def opened_def opened_for_def throw_def ret_def
        split: if_splits option.splits)
  have ok': "db_ok (pf_db (opened_for (te_id t) w1))" "v \<in> set (db_versions (pf_db (opened_for (te_id t) w1)))"
    "tenant_session (te_id t) (pf_session (opened_for (te_id t) w1))" using ok v by simp_all
  from rollback_succeeds [OF ok'(1,2) assms(5) ok'(3), of now rq] obtain x w'
    where run: "rollback_workflow_version now (wv_workflow v) (wv_version v) rq t (opened_for (te_id t) w1) = Some (Inr x, w')" by blast
  have w2: "pf_db w2 = pf_db w'"
    using auth run by (simp add: w2_def serve_def for_tenant_def in_request_def bnd_def opened_def [symmetric] quietly_def ret_def)
  show ?thesis
    using rollback_result [OF ok'(1,2) assms(5) ok'(3) run] unfolding w1_def [symmetric] w2_def [symmetric] Let_def w2 by simp
qed

lemma sample_version: "version_row sample_row 1 None \<in> set (db_versions (pf_db sample_platform))" "wv_workflow (version_row sample_row 1 None) = ''w1''"
    "wv_version (version_row sample_row 1 None) = 1" "wv_tenant (version_row sample_row 1 None) = te_id sample_tenant"
  by (simp_all add: control_samples sample_workflow_def wr_id_def wr_tenant_def)

lemma sample_authenticated:
  "get_current_tenant sample_gateway key_request sample_platform
     = Some (Inr sample_tenant, sample_platform\<lparr>pf_session := set_rls_tenant ''acme'' (pf_session sample_platform)\<rparr>)"
  by (simp add: control_samples get_current_tenant_def resolve_tenant_def use_tenant_def find_key_def ret_def)

theorem rollback_restores_version_witness:
  "let w1 = foldl (serve sample_gateway) sample_platform [(key_request, ToggleWorkflow 2 ''w1'')];
       w2 = serve sample_gateway w1 (key_request, RollbackVersion 3 ''w1'' 1) in
   map graph_of (filter (\<lambda>r. wr_id r = ''w1'') (db_workflows (pf_db w2))) = [([sample_node ''t'' ''trigger'' []], [], [])]
   \<and> (\<exists>v'. db_versions (pf_db w2) = db_versions (pf_db w1) @ [v'] \<and> wv_nodes v' = [sample_node ''t'' ''trigger'' []] \<and> wv_edges v' = [] \<and> wv_variables v' = [])"
proof -
  have graph: "wv_nodes (version_row sample_row 1 None) = [sample_node ''t'' ''trigger'' []]" "wv_edges (version_row sample_row 1 None) = []"
    "wv_variables (version_row sample_row 1 None) = []"
    by (simp_all add: sample_row_def sample_workflow_def)
  have "list_all (\<lambda>(rq, q). \<not> deletes (wv_workflow (version_row sample_row 1 None)) q) [(key_request, ToggleWorkflow 2 ''w1'')]"
    by (simp add: deletes_def)
  from rollback_restores_version [OF sample_db_ok sample_version(1) this sample_authenticated sample_version(4), of 3]
  show ?thesis unfolding sample_version(2,3) graph .
qed

end
