(* ===== verification/ConnectorHealth.thy ===== *)
theory ConnectorHealth
  imports Registry TextStore
begin

text \<open>
  The health monitor (\<^verbatim>\<open>core/connector_health.py\<close>): which instances are checked, what a check does to
  the failure count, the recent errors and the stored status of an instance, and when an instance is
  disabled.  The answer to a check, the time it took and the time of day are arguments; a status in Redis
  is a text with the time it expires at.  The checks of one round run one after another; they work on
  different instances.
\<close>

section \<open>State\<close>

datatype probe =
    Answered int
  | TimedOut
  | ProbeFailed string

record health_target =
  ht_manifest :: manifest
  ht_instance_id :: "string option"
  ht_key :: string

text \<open>\<^verbatim>\<open>__post_init__\<close>.\<close>

definition health_target_of :: "manifest \<Rightarrow> string option \<Rightarrow> string \<Rightarrow> health_target" where
  "health_target_of m iid key =
     \<lparr>ht_manifest = m, ht_instance_id = iid,
      ht_key = (if key \<noteq> [] then key else case iid of Some i \<Rightarrow> if i = [] then cm_name m else i | None \<Rightarrow> cm_name m)\<rparr>"

record monitored_instance =
  mi_id :: string
  mi_connector :: string
  mi_version :: string
  mi_enabled :: bool

record health_status =
  hs_connector_name :: pyval
  hs_instance_key :: pyval
  hs_status :: pyval
  hs_latency_ms :: pyfloat
  hs_last_check :: pyfloat
  hs_consecutive_failures :: int
  hs_last_error :: pyval
  hs_error_rate_5m :: pyfloat
  hs_category :: pyval

record health_config =
  hc_rt :: pyrt
  hc_registry :: registry
  hc_has_sessions :: bool
  hc_interval :: nat
  hc_threshold :: int

record monitor =
  mn_failure_counts :: "(string \<times> nat) list"
  mn_error_timestamps :: "(string \<times> rat list) list"
  mn_instances :: "monitored_instance list"
  mn_store :: text_store

section \<open>Statuses as they are stored\<close>

definition status_dict :: "health_status \<Rightarrow> pydict" where
  "status_dict h =
     [(''connector_name'', hs_connector_name h), (''instance_key'', hs_instance_key h), (''status'', hs_status h),
      (''latency_ms'', PFloat (hs_latency_ms h)), (''last_check'', PFloat (hs_last_check h)),
      (''consecutive_failures'', PInt (hs_consecutive_failures h)), (''last_error'', hs_last_error h),
      (''error_rate_5m'', PFloat (hs_error_rate_5m h)), (''category'', hs_category h)]"

definition status_from_redis :: "pyrt \<Rightarrow> string \<Rightarrow> pyval \<Rightarrow> health_status py" where
  "status_from_redis rt key data =
     (case data of
        PDict d \<Rightarrow>
          andThen (py_float rt (dget d ''latency_ms'' (PInt 0))) (\<lambda>latency.
          andThen (py_float rt (dget d ''last_check'' (PInt 0))) (\<lambda>last_check.
          andThen (py_int (dget d ''consecutive_failures'' (PInt 0))) (\<lambda>failures.
          andThen (py_float rt (dget d ''error_rate_5m'' (PInt 0))) (\<lambda>error_rate.
          Inr \<lparr>hs_connector_name = dget d ''connector_name'' (PStr key), hs_instance_key = dget d ''instance_key'' (PStr key),
               hs_status = dget d ''status'' (PStr ''unhealthy''), hs_latency_ms = latency, hs_last_check = last_check,
               hs_consecutive_failures = failures, hs_last_error = dget d ''last_error'' PNone,
               hs_error_rate_5m = error_rate, hs_category = dget d ''category'' (PStr [])\<rparr>))))
      | _ \<Rightarrow> Inl (attr_error data ''get''))"

definition health_key_prefix :: string where "health_key_prefix = ''connector:health:''"

definition store_status :: "health_config \<Rightarrow> rat \<Rightarrow> string \<Rightarrow> health_status \<Rightarrow> monitor \<Rightarrow> monitor" where
  "store_status cfg now key h mn =
     mn\<lparr>mn_store := text_set (mn_store mn) now (health_key_prefix @ key)
          (rt_json_dumps (hc_rt cfg) (PDict (status_dict h))) (hc_interval cfg * 4)\<rparr>"

definition get_status_by_instance :: "health_config \<Rightarrow> monitor \<Rightarrow> rat \<Rightarrow> string \<Rightarrow> health_status option py" where
  "get_status_by_instance cfg mn now key =
     (case text_get (mn_store mn) now (health_key_prefix @ key) of
        None \<Rightarrow> Inr None
      | Some raw \<Rightarrow>
          (case rt_json_loads (hc_rt cfg) raw of
             None \<Rightarrow> Inr None
           | Some data \<Rightarrow>
               (case status_from_redis (hc_rt cfg) key data of
                  Inr h \<Rightarrow> Inr (Some h)
                | Inl (TypeError _) \<Rightarrow> Inr None
                | Inl e \<Rightarrow> Inl e)))"

text \<open>\<^verbatim>\<open>get_all_statuses\<close>; an exception of a status that cannot be read is not caught here.\<close>

definition get_all_statuses :: "health_config \<Rightarrow> monitor \<Rightarrow> rat \<Rightarrow> health_status list py" where
  "get_all_statuses cfg mn now =
     mapM (\<lambda>(key, data). status_from_redis (hc_rt cfg) (drop (length health_key_prefix) key) data)
       (List.map_filter
          (\<lambda>key. case text_get (mn_store mn) now key of
                    None \<Rightarrow> None
                  | Some raw \<Rightarrow> map_option (Pair key) (rt_json_loads (hc_rt cfg) raw))
          (filter (\<lambda>key. starts_with key health_key_prefix) (map fst (mn_store mn))))"

definition get_statuses_by_name :: "health_config \<Rightarrow> monitor \<Rightarrow> rat \<Rightarrow> string \<Rightarrow> health_status list py" where
  "get_statuses_by_name cfg mn now name =
     andThen (get_all_statuses cfg mn now) (\<lambda>hs. Inr (filter (\<lambda>h. py_eq (hs_connector_name h) (PStr name)) hs))"

section \<open>What is checked\<close>

definition get_active_targets :: "health_config \<Rightarrow> monitor \<Rightarrow> health_target list" where
  "get_active_targets cfg mn =
     (if \<not> hc_has_sessions cfg then map (\<lambda>m. health_target_of m None []) (get_all (hc_registry cfg))
      else List.map_filter
        (\<lambda>i. map_option (\<lambda>m. health_target_of m (Some (mi_id i)) (mi_id i))
               (case get_by_name_version (hc_registry cfg) (mi_connector i) (Some (mi_version i)) of
                  Some m \<Rightarrow> Some m
                | None \<Rightarrow> (case get_by_name (hc_registry cfg) (mi_connector i) of [] \<Rightarrow> None | m # _ \<Rightarrow> Some m)))
        (filter mi_enabled (mn_instances mn)))"

definition health_url :: "manifest \<Rightarrow> string" where
  "health_url m = base_url m @ cm_health_endpoint m"

section \<open>One check\<close>

definition probe_status :: "probe \<Rightarrow> string" where
  "probe_status p =
     (case p of Answered n \<Rightarrow> if n = 200 then ''healthy'' else ''degraded''
      | TimedOut \<Rightarrow> ''degraded'' | ProbeFailed _ \<Rightarrow> ''unhealthy'')"

definition probe_error :: "probe \<Rightarrow> string option" where
  "probe_error p =
     (case p of Answered n \<Rightarrow> if n = 200 then None else Some (''HTTP '' @ int_str n)
      | TimedOut \<Rightarrow> Some ''Health check timed out'' | ProbeFailed e \<Rightarrow> Some e)"

definition count_probe :: "string \<Rightarrow> probe \<Rightarrow> monitor \<Rightarrow> monitor" where
  "count_probe key p mn =
     mn\<lparr>mn_failure_counts := dset (mn_failure_counts mn) key
          (if p = Answered 200 then 0 else Suc (dget (mn_failure_counts mn) key 0))\<rparr>"

definition note_error :: "string \<Rightarrow> rat \<Rightarrow> monitor \<Rightarrow> monitor" where
  "note_error key now mn =
     mn\<lparr>mn_error_timestamps := dset (mn_error_timestamps mn) key (dget (mn_error_timestamps mn) key [] @ [now])\<rparr>"

text \<open>The errors of the last five minutes; older ones are dropped from the list that is kept.\<close>

definition recent_errors :: "string \<Rightarrow> rat \<Rightarrow> monitor \<Rightarrow> rat list" where
  "recent_errors key now mn = filter (\<lambda>t. now - 300 < t) (dget (mn_error_timestamps mn) key [])"

definition prune_errors :: "string \<Rightarrow> rat \<Rightarrow> monitor \<Rightarrow> monitor" where
  "prune_errors key now mn =
     (if dhas (mn_error_timestamps mn) key
      then mn\<lparr>mn_error_timestamps := dset (mn_error_timestamps mn) key (recent_errors key now mn)\<rparr> else mn)"

definition error_rate_5m :: "health_config \<Rightarrow> nat \<Rightarrow> rat py" where
  "error_rate_5m cfg errors =
     (if hc_interval cfg = 0 then Inl (ZeroDivisionError ''division by zero'')
      else Inr (of_nat errors / max 1 (300 / of_nat (hc_interval cfg))))"

text \<open>\<open>db_up\<close> says whether the update of the database succeeds.\<close>

definition auto_disable_instance :: "health_config \<Rightarrow> bool \<Rightarrow> string \<Rightarrow> string \<Rightarrow> monitor \<Rightarrow> monitor" where
  "auto_disable_instance cfg db_up instance_id key mn =
     (if \<not> hc_has_sessions cfg \<or> \<not> db_up then mn
      else mn\<lparr>mn_instances := update_where (\<lambda>i. mi_id i = instance_id) (\<lambda>i. i\<lparr>mi_enabled := False\<rparr>) (mn_instances mn),
              mn_failure_counts := dset (mn_failure_counts mn) key 0\<rparr>)"

definition round_digits :: "nat \<Rightarrow> rat \<Rightarrow> rat" where
  "round_digits n x =
     (let y = x * 10 ^ n; f = \<lfloor>y\<rfloor>; d = y - of_int f in
      of_int (if d < 1 / 2 then f else if 1 / 2 < d then f + 1 else if even f then f else f + 1) / 10 ^ n)"

record health_check =
  hk_target :: health_target
  hk_probe :: probe
  hk_latency :: rat
  hk_now :: rat
  hk_db_up :: bool

definition health_report :: "health_check \<Rightarrow> nat \<Rightarrow> rat \<Rightarrow> health_status" where
  "health_report c consecutive rate =
     (let m = ht_manifest (hk_target c) in
      \<lparr>hs_connector_name = PStr (cm_name m), hs_instance_key = PStr (ht_key (hk_target c)),
       hs_status = PStr (probe_status (hk_probe c)), hs_latency_ms = Fin (round_digits 2 (hk_latency c)),
       hs_last_check = Fin (hk_now c), hs_consecutive_failures = int consecutive,
       hs_last_error = (case probe_error (hk_probe c) of None \<Rightarrow> PNone | Some e \<Rightarrow> PStr e),
       hs_error_rate_5m = Fin (round_digits 4 rate), hs_category = PStr (cm_category m)\<rparr>)"

definition check_one :: "health_config \<Rightarrow> monitor \<Rightarrow> health_check \<Rightarrow> unit py \<times> monitor" where
  "check_one cfg mn c =
     (let key = ht_key (hk_target c);
          mn1 = count_probe key (hk_probe c) mn;
          mn2 = (if probe_status (hk_probe c) \<noteq> ''healthy'' then note_error key (hk_now c) mn1 else mn1);
          mn3 = prune_errors key (hk_now c) mn2;
          consecutive = dget (mn_failure_counts mn3) key 0 in
      case error_rate_5m cfg (length (recent_errors key (hk_now c) mn2)) of
        Inl e \<Rightarrow> (Inl e, mn3)
      | Inr rate \<Rightarrow>
          let mn4 = (case ht_instance_id (hk_target c) of
                       Some i \<Rightarrow> if hc_threshold cfg \<le> int consecutive then auto_disable_instance cfg (hk_db_up c) i key mn3 else mn3
                     | None \<Rightarrow> mn3) in
          (Inr (), store_status cfg (hk_now c) key (health_report c consecutive rate) mn4))"

text \<open>A round: exceptions of single checks are collected and dropped.\<close>

definition check_all_connectors :: "health_config \<Rightarrow> (health_target \<Rightarrow> health_check) \<Rightarrow> monitor \<Rightarrow> monitor" where
  "check_all_connectors cfg perform mn =
     foldl (\<lambda>m t. snd (check_one cfg m (perform t))) mn (get_active_targets cfg mn)"

end
