(* ===== verification/GatewayQueries.thy ===== *)
theory GatewayQueries
  imports WorkflowRuns CredentialGateway FlowGateway ConnectorHealth
begin

text \<open>
  Endpoints of the gateway that only read (\<^verbatim>\<open>api/gateway.py\<close>): executions and webhook events, the catalogue of connectors with
  their health; and the provisioning of connector accounts when the platform starts.  The tables of workflow executions and of
  webhook events are arguments, each row with its time.
\<close>

section \<open>Executions and events\<close>

definition in_period :: "int option \<Rightarrow> int option \<Rightarrow> int \<Rightarrow> bool" where
  "in_period date_from date_to x \<longleftrightarrow>
     (case date_from of None \<Rightarrow> True | Some a \<Rightarrow> a \<le> x) \<and> (case date_to of None \<Rightarrow> True | Some b \<Rightarrow> x \<le> b)"

definition list_workflow_executions ::
  "(execution \<times> int) list \<Rightarrow> string option \<Rightarrow> string option \<Rightarrow> nat \<Rightarrow> nat \<Rightarrow> int option \<Rightarrow> int option \<Rightarrow> tenant_row \<Rightarrow> ('j, execution list) gact" where
  "list_workflow_executions table workflow_id status limit offset date_from date_to t =
     bnd the_session (\<lambda>ss.
     ret (map fst (page limit offset (latest_first snd (filter (\<lambda>(e, started).
            ex_tenant_id e = te_id t \<and> visible ss (ex_tenant_id e) \<and> (workflow_id = None \<or> workflow_id = Some (ex_workflow_id e))
            \<and> restricts status (ex_status e) \<and> in_period date_from date_to started) table)))))"

definition list_workflow_executions_endpoint ::
  "(execution \<times> int) list \<Rightarrow> string option \<Rightarrow> string option \<Rightarrow> nat \<Rightarrow> nat \<Rightarrow> int option \<Rightarrow> int option \<Rightarrow> tenant_row \<Rightarrow> ('j, execution_view list) gact" where
  "list_workflow_executions_endpoint table workflow_id status limit offset date_from date_to t =
     bnd (list_workflow_executions table workflow_id status limit offset date_from date_to t) (\<lambda>es.
     ret (map serialize_workflow_execution es))"

definition list_webhook_events ::
  "(webhook_event \<times> int) list \<Rightarrow> string option \<Rightarrow> string option \<Rightarrow> string option \<Rightarrow> nat \<Rightarrow> nat \<Rightarrow> tenant_row \<Rightarrow> ('j, webhook_event list) gact" where
  "list_webhook_events table connector_name event_type status limit offset t =
     bnd the_session (\<lambda>ss.
     ret (map fst (page limit offset (latest_first snd (filter (\<lambda>(e, received).
            we_tenant e = te_id t \<and> visible ss (we_tenant e) \<and> restricts connector_name (we_connector e)
            \<and> restricts event_type (we_event_type e) \<and> restricts status (we_status e)) table)))))"

section \<open>Connectors\<close>

definition health_rank :: "pyval \<Rightarrow> int py" where
  "health_rank v =
     (case v of
        PStr s \<Rightarrow> Inr (dget [(''healthy'', 3), (''degraded'', 2), (''unhealthy'', 1), (''unknown'', 0)] s 0)
      | _ \<Rightarrow> if hashable v then Inr 0 else Inl (unhashable_error v))"

text \<open>\<^verbatim>\<open>max(xs, key=f)\<close>: the first of the largest.\<close>

fun py_max_by :: "('a \<Rightarrow> 'a \<Rightarrow> bool) \<Rightarrow> 'a \<Rightarrow> 'a list \<Rightarrow> 'a" where
  "py_max_by lt best [] = best"
| "py_max_by lt best (x # xs) = py_max_by lt (if lt best x then x else best) xs"

record health_summary =
  su_status :: pyval
  su_latency_ms :: pyfloat
  su_last_check :: pyfloat
  su_consecutive_failures :: int
  su_last_error :: pyval
  su_error_rate_5m :: pyfloat

definition resolve_connector_health_summary :: "health_status list \<Rightarrow> health_summary option py" where
  "resolve_connector_health_summary statuses =
     (case statuses of
        [] \<Rightarrow> Inr None
      | h # hs \<Rightarrow>
          andThen (mapM (\<lambda>x. andThen (health_rank (hs_status x)) (\<lambda>r. Inr (r, x))) (h # hs)) (\<lambda>ranked.
          let best = snd (py_max_by (\<lambda>a b. fst a < fst b) (hd ranked) (tl ranked)) in
          Inr (Some \<lparr>su_status = hs_status best, su_latency_ms = hs_latency_ms best, su_last_check = hs_last_check best,
                     su_consecutive_failures = py_max_by (<) (hs_consecutive_failures h) (map hs_consecutive_failures hs),
                     su_last_error = hs_last_error best,
                     su_error_rate_5m = py_max_by float_lt (hs_error_rate_5m h) (map hs_error_rate_5m hs)\<rparr>)))"

definition connector_response :: "health_config \<Rightarrow> monitor \<Rightarrow> rat \<Rightarrow> manifest \<Rightarrow> (manifest \<times> health_summary option) py" where
  "connector_response cfg mn now m =
     andThen (get_statuses_by_name cfg mn now (cm_name m)) (\<lambda>hs.
     andThen (resolve_connector_health_summary hs) (\<lambda>s. Inr (m, s)))"

definition list_connectors :: "health_config \<Rightarrow> monitor \<Rightarrow> rat \<Rightarrow> search_filter \<Rightarrow> (manifest \<times> health_summary option) list py" where
  "list_connectors cfg mn now f =
     andThen (search_connectors (hc_rt cfg) (hc_registry cfg) f) (\<lambda>ms. mapM (connector_response cfg mn now) ms)"

definition get_connector_endpoint ::
  "health_config \<Rightarrow> monitor \<Rightarrow> rat \<Rightarrow> string \<Rightarrow> string \<Rightarrow> (manifest \<times> health_summary option) py" where
  "get_connector_endpoint cfg mn now category name =
     (case get_latest (hc_registry cfg) category name of
        None \<Rightarrow> Inl (HTTPException 404 (''Connector '' @ category @ ''/'' @ name @ '' not found''))
      | Some m \<Rightarrow> connector_response cfg mn now m)"

definition unknown_health :: "string \<Rightarrow> string \<Rightarrow> health_status" where
  "unknown_health name category =
     \<lparr>hs_connector_name = PStr name, hs_instance_key = PStr name, hs_status = PStr ''unknown'', hs_latency_ms = Fin 0, hs_last_check = Fin 0,
      hs_consecutive_failures = 0, hs_last_error = PStr ''No health check data yet'', hs_error_rate_5m = Fin 0, hs_category = PStr category\<rparr>"

definition get_connector_health :: "health_config \<Rightarrow> monitor \<Rightarrow> rat \<Rightarrow> string \<Rightarrow> health_status list py" where
  "get_connector_health cfg mn now name =
     andThen (get_statuses_by_name cfg mn now name) (\<lambda>hs.
     if hs \<noteq> [] then Inr hs
     else case get_by_name (hc_registry cfg) name of
       [] \<Rightarrow> Inl (HTTPException 404 (''Connector '' @ [single_quote] @ name @ [single_quote] @ '' not found''))
     | m # _ \<Rightarrow> Inr [unknown_health name (cm_category m)])"

section \<open>Accounts at the start\<close>

text \<open>The sets of the code are lists without repetitions; their order is not determined there.\<close>

definition account_connectors :: "registry \<Rightarrow> string list" where
  "account_connectors reg =
     remdups (map cm_name (filter (\<lambda>m. dget (cm_credential_provisioning m) ''mode'' PNone = PStr ''account'') (get_all reg)))"

definition trigger_pairs :: "string \<Rightarrow> wf_row \<Rightarrow> (string \<times> pyval) list" where
  "trigger_pairs connector r =
     map (\<lambda>n. (wr_tenant r, dget (n_config n) ''credential_name'' (PStr ''default'')))
       (filter (\<lambda>n. n_type n = ''trigger'' \<and> dget (n_config n) ''connector_name'' PNone = PStr connector) (wf_nodes (wr_workflow r)))"

definition credential_pairs :: "db_session \<Rightarrow> db \<Rightarrow> string \<Rightarrow> (string \<times> pyval) list" where
  "credential_pairs ss d connector =
     remdups
       (List.concat (map (trigger_pairs connector) (filter (\<lambda>r. visible ss (wr_tenant r) \<and> wf_trigger_connector (wr_workflow r) = Some connector
                                                       \<and> wf_is_enabled (wr_workflow r)) (db_workflows d))) @
        map (\<lambda>r. (fr_tenant r, PStr ''default''))
          (filter (\<lambda>r. visible ss (fr_tenant r) \<and> fl_source_connector (fr_flow r) = connector \<and> fl_is_enabled (fr_flow r)) (db_flows d)))"

text \<open>The first manifest of the name counts; a name that is not a text makes the query fail, which is logged.\<close>

definition startup_account :: "'j gateway \<Rightarrow> db_session \<Rightarrow> db \<Rightarrow> string \<Rightarrow> string \<times> pyval \<Rightarrow> provision option" where
  "startup_account gw ss d connector p =
     (case (get_by_name (gw_registry gw) connector, p) of
        (m # _, tenant, PStr credential) \<Rightarrow>
          (case retrieve_all (gw_cipher gw) (rls_vault ss (db_vault d)) tenant connector credential of
             Inl _ \<Rightarrow> None
           | Inr creds \<Rightarrow>
               if creds = [] then None
               else Some \<lparr>pv_base_url = base_url m,
                          pv_credentials = (if dhas creds ''account_name'' then creds else dset creds ''account_name'' credential),
                          pv_config = cm_credential_provisioning m, pv_force = False\<rparr>)
      | _ \<Rightarrow> None)"

definition provision_trigger_accounts :: "'j gateway \<Rightarrow> ('j, unit) gact" where
  "provision_trigger_accounts gw =
     in_request (bnd (modify (\<lambda>w. w\<lparr>pf_session := set_rls_bypass (pf_session w)\<rparr>)) (\<lambda>_.
     bnd the_session (\<lambda>ss. bnd the_db (\<lambda>d.
     modify (\<lambda>w. w\<lparr>pf_provisioned := pf_provisioned w @
       List.concat (map (\<lambda>c. List.map_filter (startup_account gw ss d c) (credential_pairs ss d c)) (account_connectors (gw_registry gw)))\<rparr>)))))"

end
