(* ===== verification/AccessProps.thy ===== *)
theory AccessProps
  imports ControlProps GatewayQueries
begin

text \<open>
  Properties of access to workflows over HTTP: the list of addresses a trigger admits, the addresses the gateway itself
  requests for a caller, and authentication by credential token.
\<close>

section \<open>Admitted clients\<close>

definition valid_entry :: "string \<Rightarrow> bool" where
  "valid_entry e = (if is_cidr e then ip_network e \<noteq> None else ip_address e \<noteq> None)"

text \<open>The rule as its author means it: no entry, or one of the entries, as it is written, admits the client.\<close>

definition client_admitted :: "string list \<Rightarrow> string option \<Rightarrow> bool" where
  "client_admitted entries client \<longleftrightarrow>
     list_all valid_entry entries \<and>
     (entries = [] \<or> (case client of None \<Rightarrow> False | Some c \<Rightarrow>
        (case ip_address c of None \<Rightarrow> False | Some a \<Rightarrow> list_ex (entry_admits a) entries)))"

lemma normalize_entry_ok: "(\<exists>s. normalize_entry e = Inr s) \<longleftrightarrow> valid_entry e"
  by (auto simp: normalize_entry_def valid_entry_def split: option.splits)

lemma mapM_normalize_ok: "(\<exists>ss. mapM normalize_entry es = Inr ss) \<longleftrightarrow> list_all valid_entry es"
  by (induction es) (auto simp: andThen_eq_Inr normalize_entry_ok [symmetric])

lemma mapM_Nil_iff: "mapM f xs = Inr [] \<longleftrightarrow> xs = []"
  by (cases xs) (auto simp: andThen_eq_Inr)

lemma no_empty_address: "ip_address [] = None"
  by code_simp

text \<open>C11: The check of a request lets it pass exactly when the list of the trigger is well formed and, if it has an entry
  at all, the client has an address that one of the entries admits as it was written; comparing with the normalised entries
  makes no difference.\<close>

theorem allowlist_admits_as_written:
  "enforce_workflow_request_ip_allowlist rt local_ip nodes rq = Inr () \<longleftrightarrow>
     (case allowed_ip_entries rt (extract_trigger_allowed_ips nodes) of
        Inl _ \<Rightarrow> False
      | Inr entries \<Rightarrow> client_admitted (filter (\<lambda>e. e \<noteq> []) entries) (get_request_client_ip local_ip rq))"
proof (cases "allowed_ip_entries rt (extract_trigger_allowed_ips nodes)")
  case (Inr entries)
  let ?es = "filter (\<lambda>e. e \<noteq> []) entries"
  show ?thesis
  proof (cases "mapM normalize_entry ?es")
    case (Inl e)
    then have "\<not> list_all valid_entry ?es" using mapM_normalize_ok [of ?es] by auto
    with Inl Inr show ?thesis
      by (simp add: enforce_workflow_request_ip_allowlist_def normalize_trigger_allowed_ips_def client_admitted_def)
  next
    case ss: (Inr ss)
    then have valid: "list_all valid_entry ?es" using mapM_normalize_ok [of ?es] by auto
    have "ss = [] \<longleftrightarrow> ?es = []" using ss mapM_Nil_iff [of normalize_entry ?es] by (metis mapM.simps(1) sum.inject(2))
    with ss Inr valid admitted_normalized [OF ss] show ?thesis
      by (auto simp: enforce_workflow_request_ip_allowlist_def normalize_trigger_allowed_ips_def client_admitted_def no_empty_address
          split: option.splits)
  qed
qed (simp add: enforce_workflow_request_ip_allowlist_def normalize_trigger_allowed_ips_def)

section \<open>Requests for a caller\<close>

text \<open>An address of a resource on a host none of whose addresses is internal.\<close>

definition external_url :: "fetcher \<Rightarrow> string \<Rightarrow> bool" where
  "external_url ft s \<longleftrightarrow>
     (\<exists>u h ips. urlparse s = Inr u \<and> u_scheme u \<in> {''http'', ''https''} \<and> hostname u = Some h \<and> ft_lookup ft h = Some ips
        \<and> list_all (\<lambda>x. \<exists>a. ip_address x = Some a \<and> \<not> ft_internal ft a) ips)"

lemma ft_safe_external: "ft_safe ft s \<Longrightarrow> external_url ft s"
  by (fastforce simp: ft_safe_def is_safe_url_def external_url_def list_all_iff split: sum.splits option.splits if_splits)

lemma fetch_file_safe: "ft_safe ft s \<Longrightarrow> list_all (ft_safe ft) (fst (fetch_file ft s)) \<and> length (fst (fetch_file ft s)) \<le> 2"
  by (auto simp: fetch_file_def Let_def split: sum.splits)

lemma call_answer_safe:
  assumes "call_answer ft rq data = (urls, r)"
  shows "list_all (ft_safe ft) urls" and "length urls \<le> 2" and "\<And>s. r = Inr (CallRedirect s) \<Longrightarrow> ft_safe ft s"
  using assms fetch_file_safe [of ft]
  by (force simp: call_answer_def Let_def andThen_eq_Inr split: pyval.splits if_splits prod.splits)+

text \<open>C12: Whatever a workflow leaves as its \<^verbatim>\<open>url\<close>, the endpoint for calls by address requests at most two
  addresses for the caller, each, also the target of a redirect, on a host that resolves to external addresses only, and
  it redirects the caller only to such an address.\<close>

theorem call_requests_external_urls:
  "case call_workflow_get gw ft now wid rq w of
     Some (Inr (urls, r), w') \<Rightarrow> list_all (external_url ft) urls \<and> length urls \<le> 2
       \<and> (case r of Inr (CallRedirect s) \<Rightarrow> external_url ft s | _ \<Rightarrow> True)
   | _ \<Rightarrow> True"
proof -
  have *: "list_all (external_url ft) urls \<and> length urls \<le> 2 \<and> (case r of Inr (CallRedirect s) \<Rightarrow> external_url ft s | _ \<Rightarrow> True)"
    if "call_answer ft rq data = (urls, r)" for data urls r
    using call_answer_safe [OF that] ft_safe_external
    by (auto simp: list_all_iff split: sum.splits call_response.splits)
  show ?thesis
  proof (cases "\<exists>urls r w'. call_workflow_get gw ft now wid rq w = Some (Inr (urls, r), w')")
    case True
    then obtain urls r w' where run: "call_workflow_get gw ft now wid rq w = Some (Inr (urls, r), w')" by blast
    then obtain data where "call_answer ft rq data = (urls, r)"
      by (auto simp: call_workflow_get_def in_request_def ret_def split: option.splits prod.splits sum.splits dest!: bnd_Inr)
    with * run show ?thesis by simp
  qed (auto split: option.splits sum.splits)
qed

section \<open>Credential tokens\<close>

text \<open>While row level security is enforced a request without an API key is refused with 401 and changes nothing, whatever
  credential token it carries: the table of tokens is looked up before the tenant of the transaction is set.\<close>

lemma credential_token_is_refused:
  assumes "ss_enforced (pf_session w)" and "dget (hq_headers rq) ''x-api-key'' [] = []"
  shows "\<exists>detail w'. call_workflow_get gw ft now wid rq w = Some (Inl (HTTPException 401 detail), w') \<and> pf_db w' = pf_db w"
proof -
  have "find P (va_tokens (rls_vault (end_transaction (pf_session w)) v)) = None" for P v
    using assms(1) by (simp add: rls_vault_def visible_def end_transaction_def find_None_all)
  then have "\<exists>detail. get_current_tenant_or_token gw rq (opened w) = Some (Inl (HTTPException 401 detail), opened w)"
    using assms(2) by (auto simp: get_current_tenant_or_token_def resolve_tenant_by_token_def opened_def throw_def)
  then obtain detail where "get_current_tenant_or_token gw rq (opened w) = Some (Inl (HTTPException 401 detail), opened w)" ..
  then show ?thesis by (simp add: call_workflow_get_def in_request_def bnd_def opened_def [symmetric])
qed

definition no_fetcher :: fetcher where
  "no_fetcher = \<lparr>ft_lookup = (\<lambda>_. None), ft_internal = (\<lambda>_. True), ft_get = (\<lambda>_ _. Inl (OtherError ''ConnectError'' ''refused'')), ft_mime = (\<lambda>_. None)\<rparr>"

definition token_request :: http_request where
  "token_request = \<lparr>hq_client = Some ''10.0.0.1'', hq_headers = [(''x-credential-token'', ''t1'')], hq_query = []\<rparr>"

lemma credential_token_is_refused_witness:
  "ss_enforced (pf_session sample_platform) \<and>
   (\<exists>detail w'. call_workflow_get sample_gateway no_fetcher 5 ''w1'' token_request sample_platform = Some (Inl (HTTPException 401 detail), w')
      \<and> pf_db w' = pf_db sample_platform)"
proof -
  have "dget (hq_headers token_request) ''x-api-key'' [] = []" by (simp add: token_request_def dget_def)
  moreover have "ss_enforced (pf_session sample_platform)" by (simp add: sample_platform_def)
  ultimately show ?thesis using credential_token_is_refused [of sample_platform token_request sample_gateway no_fetcher 5 "''w1''"] by blast
qed

section \<open>Accounts of connectors\<close>

text \<open>After the commit of a change no tenant is set, so under row level security no credentials are found and no account
  is created.\<close>

lemma nothing_is_provisioned_under_rls:
  assumes "ss_enforced (pf_session w)"
  shows "account_to_provision gw (end_transaction (pf_session w)) d tenant connector credential force = None"
  using assms by (auto simp: account_to_provision_def rls_vault_def visible_def end_transaction_def retrieve_all_def Let_def split: list.splits)

section \<open>Listings\<close>

text \<open>Whatever is asked for and in whatever session, the listings of workflows, flows, connector instances, audit entries, flow
  executions, workflow executions and webhook events answer with rows of the calling tenant only, and at most as many as were
  asked for.\<close>

lemma listings_show_own_rows:
  "(\<exists>rows. list_workflows t w = Some (Inr rows, w) \<and> list_all (\<lambda>r. wr_tenant r = te_id t) rows)
   \<and> (\<exists>rows. list_flows t w = Some (Inr rows, w) \<and> list_all (\<lambda>r. fr_tenant r = te_id t) rows)
   \<and> (\<exists>rows. list_connector_instances t w = Some (Inr rows, w) \<and> list_all (\<lambda>i. cn_tenant i = te_id t) rows)
   \<and> (\<exists>rows. list_audit_entries et eid act limit offset t w = Some (Inr rows, w) \<and> list_all (\<lambda>e. au_tenant e = te_id t) rows \<and> length rows \<le> limit)
   \<and> (\<exists>rows. list_flow_executions fid st limit offset d0 d1 t w = Some (Inr rows, w)
         \<and> list_all (\<lambda>x. fe_tenant_id (xr_execution x) = te_id t) rows \<and> length rows \<le> limit)
   \<and> (\<exists>rows. list_workflow_executions table wid st limit offset d0 d1 t w = Some (Inr rows, w)
         \<and> list_all (\<lambda>e. ex_tenant_id e = te_id t) rows \<and> length rows \<le> limit)
   \<and> (\<exists>rows. list_webhook_events events cn ev st limit offset t w = Some (Inr rows, w) \<and> list_all (\<lambda>e. we_tenant e = te_id t) rows \<and> length rows \<le> limit)"
  by (intro conjI)
    (auto simp: list_workflows_def list_flows_def list_connector_instances_def list_audit_entries_def get_audit_log_def list_flow_executions_def
      list_workflow_executions_def list_webhook_events_def ret_def list_all_iff Let_def latest_first_def page_def set_stable_sort dest!: in_set_takeD in_set_dropD)

text \<open>The endpoints for versions do not ask whose workflow it is: without row level security everyone may list them.\<close>

lemma versions_are_listed_for_anyone:
  assumes "\<not> ss_enforced (pf_session w)" and "r \<in> set (db_workflows (pf_db w))"
  shows "list_workflow_versions (wr_id r) limit offset t w
    = Some (Inr (page limit offset (latest_first wv_version (filter (\<lambda>v. wv_workflow v = wr_id r) (db_versions (pf_db w))))), w)"
proof -
  have "find_workflow_row (pf_session w) (pf_db w) (wr_id r) \<noteq> None"
    using assms by (auto simp: find_workflow_row_def find_None_all visible_def)
  then show ?thesis
    using assms(1) by (simp add: list_workflow_versions_def get_workflow_versions_def versions_of_def visible_def ret_def)
qed

end
