(* ===== verification/CredentialValidator.thy ===== *)
theory CredentialValidator
  imports UrlSafety CredentialGateway
begin

text \<open>
  The check of credentials (\<^verbatim>\<open>api/credential_validator.py\<close>): what a manifest says of it, the guard against
  requests to internal hosts, the templates of a test request, and the check itself.  The parts of the manifest are the
  records \<open>validation\<close>, \<open>test_request\<close> and \<open>sandbox\<close>; a missing or empty block is \<open>None\<close>.  Name resolution, HTTP, IMAP
  and SMTP are fields of \<open>validator\<close>.  A check returns whom it contacted with its result; the measured time is not modelled.
\<close>

section \<open>The guard\<close>

definition blocked_networks :: "ip_net list" where
  "blocked_networks = map (\<lambda>s. the (ip_network s))
     [''10.0.0.0/8'', ''172.16.0.0/12'', ''192.168.0.0/16'', ''127.0.0.0/8'', ''169.254.0.0/16'', ''::1/128'', ''fc00::/7'', ''fe80::/10'']"

definition blocked_ip :: "ip_addr \<Rightarrow> bool" where
  "blocked_ip a = list_ex (in_network a) blocked_networks"

text \<open>The module \<^verbatim>\<open>socket\<close> is imported inside the \<^verbatim>\<open>try\<close> block, and the \<^verbatim>\<open>except\<close> clause names it: when the
  address does not parse the clause itself raises.\<close>

definition unbound_socket :: exn where
  "unbound_socket = OtherError ''UnboundLocalError'' ''cannot access local variable socket where it is not associated with a value''"

definition is_url_safe :: "(string \<Rightarrow> string list option) \<Rightarrow> string \<Rightarrow> bool py" where
  "is_url_safe lookup s =
     (case urlparse s of
        Inl _ \<Rightarrow> Inl unbound_socket
      | Inr u \<Rightarrow>
          Inr (case hostname u of
                 None \<Rightarrow> False
               | Some h \<Rightarrow>
                   if h = ''localhost'' \<or> h = ''metadata.google.internal'' then False
                   else case lookup h of
                     None \<Rightarrow> False
                   | Some ips \<Rightarrow> list_all (\<lambda>x. case ip_address x of None \<Rightarrow> False | Some a \<Rightarrow> \<not> blocked_ip a) ips))"

section \<open>Configuration\<close>

record sandbox =
  sx_flag :: "string option"
  sx_base_url :: "string option"
  sx_production_url :: "string option"

record test_request =
  tq_defaults :: "(string \<times> string) list"
  tq_sandbox :: "sandbox option"
  tq_url_template :: "string option"
  tq_method :: "string option"
  tq_headers :: "pydict option"
  tq_params :: "pydict option"
  tq_json_body :: "pydict option"
  tq_form_data :: "pydict option"
  tq_auth :: "string option"
  tq_auth_fields :: "string list"
  tq_success_status :: "int option"

record validation =
  vl_required :: "string list"
  vl_mode :: "string option"
  vl_test :: "test_request option"
  vl_endpoint :: "string option"

record check_result =
  vr_status :: string
  vr_message :: string
  vr_details :: "(string \<times> string) list"

definition check_failed :: "string \<Rightarrow> check_result" where
  "check_failed message = \<lparr>vr_status = ''failed'', vr_message = message, vr_details = []\<rparr>"

definition check_passed :: "string \<Rightarrow> check_result" where
  "check_passed message = \<lparr>vr_status = ''success'', vr_message = message, vr_details = []\<rparr>"

section \<open>Contacts\<close>

record check_call =
  ck_method :: string
  ck_url :: string
  ck_headers :: "pydict option"
  ck_data :: "pydict option"
  ck_json :: "pydict option"
  ck_auth :: "(string \<times> string) option"
  ck_params :: "pydict option"

datatype check_outcome = Answered int | NoConnection | TimedOut | CallFailed string | CallRaised exn

datatype mail_mode = MailPlain | MailStartTls | MailSsl

record mail_login =
  ml_host :: string
  ml_port :: int
  ml_mode :: mail_mode
  ml_login :: string
  ml_password :: string

datatype imap_outcome = ImapOk | ImapAuth string | ImapConnection string | ImapError string | ImapRaised exn

datatype contact = HttpContact check_call | ImapContact mail_login | SmtpContact mail_login

record validator =
  vd_read :: "manifest \<Rightarrow> validation option \<times> string list"
  vd_lookup :: "string \<Rightarrow> string list option"
  vd_send :: "check_call \<Rightarrow> check_outcome"
  vd_imap :: "mail_login \<Rightarrow> imap_outcome"
  vd_smtp :: "mail_login \<Rightarrow> string option py"

type_synonym checked = "contact list \<times> check_result py"

section \<open>Required fields\<close>

definition missing_fields :: "(string \<times> string) list \<Rightarrow> string list \<Rightarrow> string \<Rightarrow> check_result option" where
  "missing_fields creds names service_name =
     (let missing = filter (\<lambda>f. dget creds f [] = []) names in
      if missing \<noteq> []
      then Some (check_failed (''Missing required '' @ service_name @ '' credentials: '' @ py_join '', '' missing)) else None)"

section \<open>Requests\<close>

definition http_credential_check :: "validator \<Rightarrow> check_call \<Rightarrow> string \<Rightarrow> string \<Rightarrow> int option \<Rightarrow> checked" where
  "http_credential_check vd call service_name success_msg0 success_status =
     ([HttpContact call],
      let success_msg = (if success_msg0 = [] then service_name @ '' authentication successful'' else success_msg0) in
      case vd_send vd call of
        Answered code \<Rightarrow>
          Inr (case success_status of
                 Some expected \<Rightarrow>
                   if code = expected then check_passed success_msg
                   else check_failed (service_name @ '' responded with HTTP '' @ int_str code @ '' (expected '' @ int_str expected @ '')'')
               | None \<Rightarrow>
                   if code = 401 \<or> code = 403 then check_failed (''Invalid '' @ service_name @ '' credentials'')
                   else if 400 \<le> code then check_failed (service_name @ '' API error: HTTP '' @ int_str code)
                   else check_passed success_msg)
      | NoConnection \<Rightarrow> Inr (check_failed (''Cannot connect to '' @ service_name @ '' API''))
      | TimedOut \<Rightarrow> Inr (check_failed (service_name @ '' API connection timed out''))
      | CallFailed message \<Rightarrow> Inr (check_failed message)
      | CallRaised e \<Rightarrow> Inl e)"

definition deduplicate_url_path :: "string \<Rightarrow> string py" where
  "deduplicate_url_path s =
     andThen (urlparse s) (\<lambda>u.
     if length (u_path u) < 2 then Inr s
     else
       let segments = py_split ''/'' (u_path u); n = length segments in
       Inr (case find (\<lambda>k. drop (n - k) segments = take k (drop (n - 2 * k) segments)) [1..<n div 2 + 1] of
              None \<Rightarrow> s
            | Some k \<Rightarrow> urlunparse (u\<lparr>u_path := py_join ''/'' (take (n - k) segments)\<rparr>)))"

definition template_values :: "(string \<times> string) list \<Rightarrow> (string \<times> string) list \<Rightarrow> (string \<times> string) list" where
  "template_values creds defaults = dmerge defaults (filter (\<lambda>(k, v). v \<noteq> []) creds)"

definition resolve_template :: "string \<Rightarrow> (string \<times> string) list \<Rightarrow> (string \<times> string) list \<Rightarrow> string" where
  "resolve_template template creds defaults =
     foldl (\<lambda>s (k, v). py_replace (''{'' @ k @ ''}'') v s) template (template_values creds defaults)"

function resolve_value_template :: "(string \<times> string) list \<Rightarrow> (string \<times> string) list \<Rightarrow> pyval \<Rightarrow> pyval" where
  "resolve_value_template creds defaults (PStr s) = PStr (resolve_template s creds defaults)"
| "resolve_value_template creds defaults (PDict d) = PDict (map (\<lambda>(k, v). (k, resolve_value_template creds defaults v)) d)"
| "resolve_value_template creds defaults (PList xs) = PList xs"
| "resolve_value_template creds defaults PNone = PNone"
| "resolve_value_template creds defaults (PBool b) = PBool b"
| "resolve_value_template creds defaults (PInt i) = PInt i"
| "resolve_value_template creds defaults (PFloat f) = PFloat f"
  by pat_completeness auto
termination
proof (relation "measure (\<lambda>(c, d, v). size v)", goal_cases)
  case (2 creds defaults d p k v)
  then have "(k, v) \<in> set d" by auto
  then have "size v < Suc (size_list (size_prod (\<lambda>_. 0) size) d)" by (induction d) auto
  then show ?case by simp
qed simp

definition resolve_dict_template :: "(string \<times> string) list \<Rightarrow> (string \<times> string) list \<Rightarrow> pydict \<Rightarrow> pydict" where
  "resolve_dict_template creds defaults template = map (\<lambda>(k, v). (k, resolve_value_template creds defaults v)) template"

definition truthy_text :: "string \<Rightarrow> bool" where
  "truthy_text s \<longleftrightarrow> py_lower s \<in> {''true'', ''1'', ''yes''}"

definition resolve_sandbox_url :: "test_request \<Rightarrow> (string \<times> string) list \<Rightarrow> (string \<times> string) list \<Rightarrow> (string \<times> string) list" where
  "resolve_sandbox_url cfg creds defaults =
     (case tq_sandbox cfg of
        None \<Rightarrow> defaults
      | Some sx \<Rightarrow>
          let flag = (case sx_flag sx of None \<Rightarrow> ''sandbox_mode'' | Some f \<Rightarrow> f) in
          case (if truthy_text (dget creds flag ''false'') then sx_base_url sx else sx_production_url sx) of
            None \<Rightarrow> defaults
          | Some s \<Rightarrow> dset defaults ''base_url'' s)"

definition basic_auth :: "test_request \<Rightarrow> (string \<times> string) list \<Rightarrow> (string \<times> string) list \<Rightarrow> (string \<times> string) option" where
  "basic_auth cfg creds defaults =
     (case tq_auth_fields cfg of
        a # b # _ \<Rightarrow>
          if tq_auth cfg = Some ''basic'' then Some (dget (dmerge defaults creds) a [], dget (dmerge defaults creds) b []) else None
      | _ \<Rightarrow> None)"

definition execute_test_request :: "validator \<Rightarrow> test_request \<Rightarrow> (string \<times> string) list \<Rightarrow> string \<Rightarrow> checked" where
  "execute_test_request vd cfg creds display_name =
     (let defaults = resolve_sandbox_url cfg creds (tq_defaults cfg);
          fill = map_option (resolve_dict_template creds defaults) in
      case tq_url_template cfg of
        None \<Rightarrow> ([], Inl (KeyError (str_repr ''url_template'')))
      | Some template \<Rightarrow>
          (case andThen (deduplicate_url_path (resolve_template template creds defaults)) (\<lambda>s.
                andThen (is_url_safe (vd_lookup vd) s) (\<lambda>ok. Inr (s, ok))) of
             Inl e \<Rightarrow> ([], Inl e)
           | Inr (s, ok) \<Rightarrow>
               if \<not> ok then ([], Inr (check_failed ''Validation blocked: URL targets a private or internal address''))
               else http_credential_check vd
                 \<lparr>ck_method = (case tq_method cfg of None \<Rightarrow> ''GET'' | Some m \<Rightarrow> m), ck_url = s, ck_headers = fill (tq_headers cfg),
                  ck_data = fill (tq_form_data cfg), ck_json = fill (tq_json_body cfg), ck_auth = basic_auth cfg creds defaults,
                  ck_params = fill (tq_params cfg)\<rparr>
                 display_name (display_name @ '' credentials valid'') (tq_success_status cfg)))"

section \<open>Mail\<close>

fun imap_text :: "imap_outcome \<Rightarrow> string py" where
  "imap_text ImapOk = Inr ''ok''"
| "imap_text (ImapAuth e) = Inr (''auth_failed: '' @ e)"
| "imap_text (ImapConnection e) = Inr (''connection_failed: '' @ e)"
| "imap_text (ImapError e) = Inr (''error: '' @ e)"
| "imap_text (ImapRaised e) = Inl e"

definition smtp_text :: "string option py \<Rightarrow> string py" where
  "smtp_text r = andThen r (\<lambda>x. Inr (case x of None \<Rightarrow> ''ok'' | Some e \<Rightarrow> ''error: '' @ e))"

text \<open>The first host that is refused, of those that are not empty.\<close>

fun refused_host :: "validator \<Rightarrow> string list \<Rightarrow> bool py" where
  "refused_host vd [] = Inr False"
| "refused_host vd (h # hs) =
     (if h = [] then refused_host vd hs
      else andThen (is_url_safe (vd_lookup vd) (''tcp://'' @ h)) (\<lambda>ok. if \<not> ok then Inr True else refused_host vd hs))"

definition mail_result :: "string \<Rightarrow> string \<Rightarrow> check_result" where
  "mail_result imap smtp =
     (if imap = ''ok'' \<and> smtp = ''ok''
      then (check_passed ''IMAP and SMTP connection successful'')\<lparr>vr_details := [(''imap'', imap), (''smtp'', smtp)]\<rparr>
      else (check_failed ''Connection test failed'')\<lparr>vr_details := [(''imap'', imap), (''smtp'', smtp)]\<rparr>)"

definition test_mail :: "validator \<Rightarrow> mail_login \<Rightarrow> mail_login \<Rightarrow> checked" where
  "test_mail vd imap smtp =
     (case imap_text (vd_imap vd imap) of
        Inl e \<Rightarrow> ([ImapContact imap], Inl e)
      | Inr i \<Rightarrow> ([ImapContact imap, SmtpContact smtp], andThen (smtp_text (vd_smtp vd smtp)) (\<lambda>s. Inr (mail_result i s))))"

definition validate_email_imap_smtp :: "validator \<Rightarrow> (string \<times> string) list \<Rightarrow> string \<Rightarrow> checked" where
  "validate_email_imap_smtp vd creds display_name =
     (let imap_host = dget creds ''imap_host'' []; smtp_host = dget creds ''smtp_host'' [];
          login = (if dget creds ''username'' [] \<noteq> [] then dget creds ''username'' [] else dget creds ''email_address'' []);
          password = dget creds ''password'' [];
          use_ssl = truthy_text (dget creds ''use_ssl'' ''true'') in
      case andThen (py_int (PStr (dget creds ''imap_port'' ''993''))) (\<lambda>imap_port.
           andThen (py_int (PStr (dget creds ''smtp_port'' ''587''))) (\<lambda>smtp_port.
           andThen (refused_host vd [imap_host, smtp_host]) (\<lambda>refused. Inr (imap_port, smtp_port, refused)))) of
        Inl e \<Rightarrow> ([], Inl e)
      | Inr (imap_port, smtp_port, refused) \<Rightarrow>
          if refused then ([], Inr (check_failed (''Connection to '' @ display_name @ '' blocked: private/internal host'')))
          else test_mail vd
            \<lparr>ml_host = imap_host, ml_port = imap_port, ml_mode = (if use_ssl then MailSsl else MailPlain), ml_login = login, ml_password = password\<rparr>
            \<lparr>ml_host = smtp_host, ml_port = smtp_port,
             ml_mode = (if use_ssl \<and> smtp_port = 465 then MailSsl else if use_ssl then MailStartTls else MailPlain),
             ml_login = login, ml_password = password\<rparr>)"

section \<open>The check\<close>

definition call_connector_validation :: "validator \<Rightarrow> manifest \<Rightarrow> (string \<times> string) list \<Rightarrow> string \<Rightarrow> checked" where
  "call_connector_validation vd m creds endpoint_template =
     http_credential_check vd
       \<lparr>ck_method = ''GET'', ck_url = base_url m @ py_replace ''{account_name}'' (dget creds ''account_name'' ''default'') endpoint_template,
        ck_headers = None, ck_data = None, ck_json = None, ck_auth = None, ck_params = None\<rparr>
       (cm_display_name m) (cm_display_name m @ '' connection verified'') None"

definition check_configured :: "validator \<Rightarrow> manifest \<Rightarrow> validation \<Rightarrow> (string \<times> string) list \<Rightarrow> checked" where
  "check_configured vd m val creds =
     (case missing_fields creds (vl_required val) (cm_display_name m) of
        Some fail \<Rightarrow> ([], Inr fail)
      | None \<Rightarrow>
          if vl_mode val = Some ''email_imap_smtp'' then validate_email_imap_smtp vd creds (cm_display_name m)
          else case vl_test val of
            Some cfg \<Rightarrow> execute_test_request vd cfg creds (cm_display_name m)
          | None \<Rightarrow>
              (case vl_endpoint val of
                 Some (c # cs) \<Rightarrow> call_connector_validation vd m creds (c # cs)
               | _ \<Rightarrow> ([], Inr (check_passed (cm_display_name m @ '' credentials present'')))))"

definition validate_credentials :: "validator \<Rightarrow> registry \<Rightarrow> string \<Rightarrow> (string \<times> string) list \<Rightarrow> string option \<Rightarrow> checked" where
  "validate_credentials vd reg connector creds version =
     (case get_by_name_version reg connector version of
        None \<Rightarrow> ([], Inr \<lparr>vr_status = ''unsupported'', vr_message = ''Unknown connector: '' @ connector, vr_details = []\<rparr>)
      | Some m \<Rightarrow>
          (case vd_read vd m of
             (Some val, _) \<Rightarrow> check_configured vd m val creds
           | (None, required) \<Rightarrow>
               ([], Inr (if required \<noteq> []
                         then (case missing_fields creds required (cm_display_name m) of
                                 Some fail \<Rightarrow> fail
                               | None \<Rightarrow> check_passed (cm_display_name m @ '' credentials present''))
                         else check_passed (cm_display_name m @ '' credentials accepted (no validation configured)'')))))"

text \<open>The endpoint: what was submitted over what is stored, for the version that is enabled.\<close>

definition validate_credentials_endpoint ::
  "'j gateway \<Rightarrow> validator \<Rightarrow> string \<Rightarrow> string \<Rightarrow> store_body option \<Rightarrow> tenant_row \<Rightarrow> ('j, checked) gact" where
  "validate_credentials_endpoint gw vd connector credential_name body t =
     (let name = (case body of Some b \<Rightarrow> if sb_name b \<noteq> [] then sb_name b else credential_name | None \<Rightarrow> credential_name) in
      bnd (session_credentials gw (te_id t) connector name) (\<lambda>stored.
      let merged = (case body of
                      Some b \<Rightarrow> if sb_credentials b \<noteq> [] then dmerge stored (submitted_credential_values (gw_mask gw) (sb_credentials b)) else stored
                    | None \<Rightarrow> stored) in
      if merged = [] then throw (HTTPException 404 ''No credentials found for this connector'')
      else bnd the_session (\<lambda>ss. bnd the_db (\<lambda>d.
        let version = map_option cn_version (find (\<lambda>i. cn_tenant i = te_id t \<and> cn_connector i = connector \<and> cn_enabled i
                                                     \<and> visible ss (cn_tenant i)) (db_instances d)) in
        ret (validate_credentials vd (gw_registry gw) connector merged version)))))"

end
