(* ===== verification/ValidatorProps.thy ===== *)
theory ValidatorProps
  imports CredentialValidator
begin

text \<open>
  Properties of the check of credentials: whom it contacts, and where the guard raises.
\<close>

section \<open>Contacts\<close>

text \<open>A host that the guard has seen resolve to admitted addresses only.\<close>

definition guarded :: "(string \<Rightarrow> string list option) \<Rightarrow> string \<Rightarrow> bool" where
  "guarded lookup s \<longleftrightarrow>
     (\<exists>u h ips. urlparse s = Inr u \<and> hostname u = Some h \<and> h \<notin> {''localhost'', ''metadata.google.internal''} \<and> lookup h = Some ips
        \<and> list_all (\<lambda>x. \<exists>a. ip_address x = Some a \<and> \<not> blocked_ip a) ips)"

definition admissible :: "validator \<Rightarrow> registry \<Rightarrow> string \<Rightarrow> string option \<Rightarrow> contact \<Rightarrow> bool" where
  "admissible vd reg connector version c =
     (case c of
        HttpContact call \<Rightarrow>
          guarded (vd_lookup vd) (ck_url call) \<or> (\<exists>m. get_by_name_version reg connector version = Some m \<and> starts_with (ck_url call) (base_url m))
      | ImapContact l \<Rightarrow> ml_host l = [] \<or> guarded (vd_lookup vd) (''tcp://'' @ ml_host l)
      | SmtpContact l \<Rightarrow> ml_host l = [] \<or> guarded (vd_lookup vd) (''tcp://'' @ ml_host l))"

lemma is_url_safe_guarded: "is_url_safe lookup s = Inr True \<Longrightarrow> guarded lookup s"
  by (fastforce simp: is_url_safe_def guarded_def list_all_iff split: sum.splits option.splits if_splits)

lemma refused_host_guarded: "refused_host vd hs = Inr False \<Longrightarrow> list_all (\<lambda>h. h = [] \<or> guarded (vd_lookup vd) (''tcp://'' @ h)) hs"
  by (induction hs) (auto simp: andThen_eq_Inr is_url_safe_guarded split: if_splits)

lemma test_mail_contacts: "set (fst (test_mail vd imap smtp)) \<subseteq> {ImapContact imap, SmtpContact smtp}"
  by (auto simp: test_mail_def split: sum.splits)

lemma email_contacts: "list_all (admissible vd reg connector version) (fst (validate_email_imap_smtp vd creds display_name))"
proof -
  have guard: "list_all (admissible vd reg connector version) (fst (test_mail vd imap smtp))"
    if "refused_host vd [ml_host imap, ml_host smtp] = Inr False" for imap smtp
    using test_mail_contacts [of vd imap smtp] refused_host_guarded [OF that] by (auto simp: admissible_def list_all_iff)
  show ?thesis
  proof (cases "andThen (py_int (PStr (dget creds ''imap_port'' ''993''))) (\<lambda>imap_port.
           andThen (py_int (PStr (dget creds ''smtp_port'' ''587''))) (\<lambda>smtp_port.
           andThen (refused_host vd [dget creds ''imap_host'' [], dget creds ''smtp_host'' []]) (\<lambda>refused. Inr (imap_port, smtp_port, refused))))")
    case (Inl e)
    then show ?thesis by (simp only: validate_email_imap_smtp_def Let_def sum.case fst_conv list.pred_inject)
  next
    case (Inr r)
    obtain imap_port smtp_port refused where r: "r = (imap_port, smtp_port, refused)" by (metis surj_pair)
    with Inr have "refused_host vd [dget creds ''imap_host'' [], dget creds ''smtp_host'' []] = Inr refused" by (auto simp: andThen_eq_Inr)
    then show ?thesis unfolding validate_email_imap_smtp_def Let_def Inr r by (cases refused) (simp_all add: guard del: refused_host.simps)
  qed
qed

lemma test_request_contacts: "list_all (admissible vd reg connector version) (fst (execute_test_request vd cfg creds display_name))"
  by (auto simp: execute_test_request_def Let_def http_credential_check_def admissible_def andThen_eq_Inr is_url_safe_guarded
      split: option.splits sum.splits prod.splits if_splits)


section \<open>Where the guard raises\<close>

text \<open>A host that does not parse raises instead of being refused.\<close>

lemma unparsable_host_raises: "is_url_safe lookup ''tcp://['' = Inl unbound_socket"
proof -
  have "urlparse ''tcp://['' = Inl invalid_ipv6_url" by code_simp
  then show ?thesis by (simp add: is_url_safe_def)
qed

end
