(* ===== verification/HealthProps.thy ===== *)
theory HealthProps
  imports ConnectorHealth WebhookProps
begin

text \<open>Properties of the health monitor: when an instance is disabled, and that a stored status is read
  back.\<close>

section \<open>Disabling\<close>

definition run_checks :: "health_config \<Rightarrow> monitor \<Rightarrow> health_check list \<Rightarrow> monitor" where
  "run_checks cfg mn cs = foldl (\<lambda>m c. snd (check_one cfg m c)) mn cs"

definition instance_enabled :: "monitor \<Rightarrow> string \<Rightarrow> bool" where
  "instance_enabled mn i \<longleftrightarrow> (\<exists>r \<in> set (mn_instances mn). mi_id r = i \<and> mi_enabled r)"

definition check_failed :: "health_check \<Rightarrow> bool" where
  "check_failed c \<longleftrightarrow> hk_probe c \<noteq> Answered 200"

definition checks_of :: "string \<Rightarrow> health_check list \<Rightarrow> health_check list" where
  "checks_of i cs = filter (\<lambda>c. ht_key (hk_target c) = i) cs"

definition failures_in_a_row :: "nat \<Rightarrow> health_check list \<Rightarrow> bool" where
  "failures_in_a_row n cs \<longleftrightarrow> (\<exists>earlier row later. cs = earlier @ row @ later \<and> length row = n \<and> (\<forall>c \<in> set row. check_failed c))"

definition streak :: "health_check list \<Rightarrow> nat" where
  "streak cs = length (takeWhile check_failed (rev cs))"

lemma streak_snoc: "streak (cs @ [c]) = (if check_failed c then Suc (streak cs) else 0)"
  by (simp add: streak_def)

lemma streak_row: "\<forall>c \<in> set row. check_failed c \<Longrightarrow> length row \<le> streak (cs @ row)"
  using takeWhile_append2 [of "rev row" check_failed "rev cs"] by (simp add: streak_def)

lemma streak_split: "\<exists>earlier row. cs = earlier @ row \<and> length row = streak cs \<and> (\<forall>c \<in> set row. check_failed c)"
proof -
  have "cs = rev (dropWhile check_failed (rev cs)) @ rev (takeWhile check_failed (rev cs))"
    by (metis rev_append rev_rev_ident takeWhile_dropWhile_id)
  moreover have "\<forall>c \<in> set (rev (takeWhile check_failed (rev cs))). check_failed c" by (auto dest: set_takeWhileD)
  ultimately show ?thesis unfolding streak_def by (metis length_rev)
qed

lemma failures_in_a_row_snoc:
  "failures_in_a_row n (cs @ [c]) \<longleftrightarrow> failures_in_a_row n cs \<or> n \<le> streak (cs @ [c])"
proof
  assume "failures_in_a_row n (cs @ [c])"
  then obtain earlier row later where split: "cs @ [c] = earlier @ row @ later" and row: "length row = n" "\<forall>c \<in> set row. check_failed c"
    by (auto simp: failures_in_a_row_def)
  show "failures_in_a_row n cs \<or> n \<le> streak (cs @ [c])"
  proof (cases later rule: rev_cases)
    case Nil
    then show ?thesis using split row streak_row [of row earlier] by simp
  next
    case (snoc l x)
    then have "cs = earlier @ row @ l" using split by simp
    then show ?thesis using row by (auto simp: failures_in_a_row_def)
  qed
next
  assume "failures_in_a_row n cs \<or> n \<le> streak (cs @ [c])"
  then show "failures_in_a_row n (cs @ [c])"
  proof
    assume "failures_in_a_row n cs"
    then obtain earlier row later where "cs = earlier @ row @ later" "length row = n" "\<forall>c \<in> set row. check_failed c"
      by (auto simp: failures_in_a_row_def)
    then show ?thesis unfolding failures_in_a_row_def by (metis append_assoc)
  next
    assume n: "n \<le> streak (cs @ [c])"
    obtain earlier row where s: "cs @ [c] = earlier @ row" "length row = streak (cs @ [c])" "\<forall>c \<in> set row. check_failed c"
      using streak_split by blast
    have "cs @ [c] = earlier @ take n row @ drop n row" using s(1) by simp
    moreover have "length (take n row) = n" using n s(2) by simp
    moreover have "\<forall>c \<in> set (take n row). check_failed c" using s(3) by (meson in_set_takeD)
    ultimately show ?thesis unfolding failures_in_a_row_def by blast
  qed
qed

text \<open>What one check does to the count and to an instance.\<close>

definition disables :: "health_config \<Rightarrow> monitor \<Rightarrow> health_check \<Rightarrow> bool" where
  "disables cfg mn c \<longleftrightarrow>
     ht_instance_id (hk_target c) \<noteq> None
     \<and> hc_threshold cfg \<le> (if check_failed c then int (Suc (dget (mn_failure_counts mn) (ht_key (hk_target c)) 0)) else 0)"

lemma bookkeeping [simp]:
  "mn_failure_counts (prune_errors k now mn) = mn_failure_counts mn" "mn_instances (prune_errors k now mn) = mn_instances mn"
  "mn_failure_counts (note_error k now mn) = mn_failure_counts mn" "mn_instances (note_error k now mn) = mn_instances mn"
  "mn_failure_counts (store_status cfg now k h mn) = mn_failure_counts mn" "mn_instances (store_status cfg now k h mn) = mn_instances mn"
  "mn_instances (count_probe k p mn) = mn_instances mn"
  by (simp_all add: prune_errors_def note_error_def store_status_def count_probe_def)

lemma count_probe_counts [simp]:
  "dget (mn_failure_counts (count_probe k p mn)) k' 0 =
     (if k' = k then if p = Answered 200 then 0 else Suc (dget (mn_failure_counts mn) k 0) else dget (mn_failure_counts mn) k' 0)"
  by (simp add: count_probe_def)

lemma checked_shape:
  assumes "hc_interval cfg \<noteq> 0"
  shows "\<exists>M rep. (\<forall>k'. dget (mn_failure_counts M) k' 0 = dget (mn_failure_counts (count_probe (ht_key (hk_target c)) (hk_probe c) mn)) k' 0)
    \<and> mn_instances M = mn_instances mn
    \<and> snd (check_one cfg mn c) = store_status cfg (hk_now c) (ht_key (hk_target c)) rep
      (case ht_instance_id (hk_target c) of
         Some i \<Rightarrow> if hc_threshold cfg \<le> int (dget (mn_failure_counts M) (ht_key (hk_target c)) 0)
                   then auto_disable_instance cfg (hk_db_up c) i (ht_key (hk_target c)) M else M
       | None \<Rightarrow> M)"
proof -
  let ?k = "ht_key (hk_target c)"
  let ?mn1 = "count_probe ?k (hk_probe c) mn"
  let ?mn2 = "if probe_status (hk_probe c) \<noteq> ''healthy'' then note_error ?k (hk_now c) ?mn1 else ?mn1"
  let ?mn3 = "prune_errors ?k (hk_now c) ?mn2"
  obtain rate where "error_rate_5m cfg (length (recent_errors ?k (hk_now c) ?mn2)) = Inr rate"
    using assms by (simp add: error_rate_5m_def)
  then show ?thesis
    unfolding check_one_def Let_def
    by (intro exI [of _ ?mn3] exI [of _ "health_report c (dget (mn_failure_counts ?mn3) ?k 0) rate"] conjI allI)
       (simp_all only: bookkeeping if_distrib [of mn_failure_counts] if_distrib [of mn_instances] if_cancel sum.case snd_conv)
qed

lemma check_one_counts:
  assumes "hc_interval cfg \<noteq> 0" and "hc_has_sessions cfg" and "hk_db_up c"
  shows "dget (mn_failure_counts (snd (check_one cfg mn c))) k 0 =
    (if k \<noteq> ht_key (hk_target c) then dget (mn_failure_counts mn) k 0
     else if disables cfg mn c \<or> \<not> check_failed c then 0 else Suc (dget (mn_failure_counts mn) k 0))"
  and "mn_instances (snd (check_one cfg mn c)) =
    (if disables cfg mn c then update_where (\<lambda>i. mi_id i = the (ht_instance_id (hk_target c))) (\<lambda>i. i\<lparr>mi_enabled := False\<rparr>) (mn_instances mn)
     else mn_instances mn)"
proof -
  obtain M rep where
      M: "\<And>k'. dget (mn_failure_counts M) k' 0 = dget (mn_failure_counts (count_probe (ht_key (hk_target c)) (hk_probe c) mn)) k' 0"
        "mn_instances M = mn_instances mn"
    and shape: "snd (check_one cfg mn c) = store_status cfg (hk_now c) (ht_key (hk_target c)) rep
      (case ht_instance_id (hk_target c) of
         Some i \<Rightarrow> if hc_threshold cfg \<le> int (dget (mn_failure_counts M) (ht_key (hk_target c)) 0)
                   then auto_disable_instance cfg (hk_db_up c) i (ht_key (hk_target c)) M else M
       | None \<Rightarrow> M)"
    using checked_shape [OF assms(1)] by blast
  have d: "disables cfg mn c \<longleftrightarrow> (\<exists>i. ht_instance_id (hk_target c) = Some i)
      \<and> hc_threshold cfg \<le> int (dget (mn_failure_counts M) (ht_key (hk_target c)) 0)"
    by (auto simp: disables_def M check_failed_def)
  show "dget (mn_failure_counts (snd (check_one cfg mn c))) k 0 =
    (if k \<noteq> ht_key (hk_target c) then dget (mn_failure_counts mn) k 0
     else if disables cfg mn c \<or> \<not> check_failed c then 0 else Suc (dget (mn_failure_counts mn) k 0))"
    using assms(2,3) unfolding shape d
    by (cases "ht_instance_id (hk_target c)"; cases "k = ht_key (hk_target c)"; cases "hk_probe c = Answered 200")
       (simp_all add: auto_disable_instance_def M(1) check_failed_def)
  show "mn_instances (snd (check_one cfg mn c)) =
    (if disables cfg mn c then update_where (\<lambda>i. mi_id i = the (ht_instance_id (hk_target c))) (\<lambda>i. i\<lparr>mi_enabled := False\<rparr>) (mn_instances mn)
     else mn_instances mn)"
    using assms(2,3) unfolding shape d
    by (cases "ht_instance_id (hk_target c)") (simp_all add: auto_disable_instance_def M(2))
qed

lemma enabled_update_other:
  "j \<noteq> i \<Longrightarrow> instance_enabled (mn\<lparr>mn_instances := update_where (\<lambda>r. mi_id r = j) (\<lambda>r. r\<lparr>mi_enabled := False\<rparr>) (mn_instances mn)\<rparr>) i
     = instance_enabled mn i"
  by (simp add: instance_enabled_def bex_update_where) metis

lemma enabled_update_same:
  "\<not> instance_enabled (mn\<lparr>mn_instances := update_where (\<lambda>r. mi_id r = i) (\<lambda>r. r\<lparr>mi_enabled := False\<rparr>) (mn_instances mn)\<rparr>) i"
  by (simp add: instance_enabled_def bex_update_where)

lemma instance_enabled_cong: "mn_instances mn = mn_instances mn' \<Longrightarrow> instance_enabled mn i = instance_enabled mn' i"
  by (simp add: instance_enabled_def)

lemma instance_enabled_step:
  assumes "hc_interval cfg \<noteq> 0" and "hc_has_sessions cfg" and "hk_db_up c"
  shows "instance_enabled (snd (check_one cfg mn c)) i \<longleftrightarrow>
    instance_enabled mn i \<and> \<not> (disables cfg mn c \<and> ht_instance_id (hk_target c) = Some i)"
proof (cases "disables cfg mn c")
  case True
  then obtain j where j: "ht_instance_id (hk_target c) = Some j" by (auto simp: disables_def)
  have "instance_enabled (snd (check_one cfg mn c)) i
      = instance_enabled (mn\<lparr>mn_instances := update_where (\<lambda>r. mi_id r = j) (\<lambda>r. r\<lparr>mi_enabled := False\<rparr>) (mn_instances mn)\<rparr>) i"
    by (rule instance_enabled_cong) (simp add: check_one_counts(2) [OF assms] True j)
  then show ?thesis using True j enabled_update_other [where j = j and i = i and mn = mn] enabled_update_same [where i = i and mn = mn]
    by (cases "j = i") auto
next
  case False
  then have "mn_instances (snd (check_one cfg mn c)) = mn_instances mn" by (simp add: check_one_counts(2) [OF assms])
  from instance_enabled_cong [OF this] False show ?thesis by simp
qed

text \<open>C34: An instance that is enabled when the monitor starts is disabled exactly when as many of its own checks
  in a row have failed as the threshold says: a success in between saves it, checks of other instances do
  not matter, and nothing but its own failures disables it.\<close>

theorem disabled_after_threshold_failures:
  assumes "hc_interval cfg \<noteq> 0" and "hc_has_sessions cfg" and "hc_threshold cfg = int n" and "0 < n"
    and "mn_failure_counts mn = []" and "instance_enabled mn i"
    and "\<forall>c \<in> set cs. hk_db_up c \<and> (ht_instance_id (hk_target c) = Some i \<longleftrightarrow> ht_key (hk_target c) = i)"
  shows "instance_enabled (run_checks cfg mn cs) i \<longleftrightarrow> \<not> failures_in_a_row n (checks_of i cs)"
proof -
  have "instance_enabled (run_checks cfg mn cs) i = (\<not> failures_in_a_row n (checks_of i cs))
    \<and> (instance_enabled (run_checks cfg mn cs) i \<longrightarrow> dget (mn_failure_counts (run_checks cfg mn cs)) i 0 = streak (checks_of i cs))"
    using assms(7)
  proof (induction cs rule: rev_induct)
    case Nil
    have "\<not> failures_in_a_row n []" using assms(4) by (simp add: failures_in_a_row_def)
    then show ?case using assms(5,6) by (simp add: run_checks_def checks_of_def streak_def dget_def)
  next
    case (snoc c cs)
    let ?mn = "run_checks cfg mn cs" and ?own = "checks_of i cs"
    have step: "run_checks cfg mn (cs @ [c]) = snd (check_one cfg ?mn c)" by (simp add: run_checks_def)
    have up: "hk_db_up c" and tgt: "ht_instance_id (hk_target c) = Some i \<longleftrightarrow> ht_key (hk_target c) = i" using snoc.prems by auto
    have IH: "instance_enabled ?mn i = (\<not> failures_in_a_row n ?own)"
      "instance_enabled ?mn i \<Longrightarrow> dget (mn_failure_counts ?mn) i 0 = streak ?own"
      using snoc by auto
    note en = instance_enabled_step [OF assms(1,2) up, of ?mn i] and cnt = check_one_counts(1) [OF assms(1,2) up, of ?mn i]
    show ?case
    proof (cases "ht_key (hk_target c) = i")
      case False
      then have "checks_of i (cs @ [c]) = ?own" by (simp add: checks_of_def)
      with False show ?thesis using en cnt IH tgt by (simp add: step)
    next
      case True
      then have own: "checks_of i (cs @ [c]) = ?own @ [c]" and id: "ht_instance_id (hk_target c) = Some i"
        using tgt by (simp_all add: checks_of_def)
      show ?thesis
      proof (cases "instance_enabled ?mn i")
        case False
        then show ?thesis using en IH(1) by (simp add: step own failures_in_a_row_snoc)
      next
        case enabled: True
        have "disables cfg ?mn c \<longleftrightarrow> n \<le> streak (?own @ [c])"
          using assms(3,4) True id IH(2) [OF enabled] by (auto simp: disables_def streak_snoc)
        then show ?thesis
          using en cnt enabled IH True id by (auto simp: step own failures_in_a_row_snoc streak_snoc)
      qed
    qed
  qed
  then show ?thesis by blast
qed

section \<open>Stored statuses\<close>

text \<open>The status that a check stores is read back, field by field, until four check intervals have passed,
  for any JSON library that reads what it wrote.\<close>

lemma stored_status_is_read_back:
  assumes "rt_json_loads (hc_rt cfg) (rt_json_dumps (hc_rt cfg) (PDict (status_dict h))) = Some (PDict (status_dict h))"
    and "now' < now + 4 * of_nat (hc_interval cfg)"
  shows "get_status_by_instance cfg (store_status cfg now key h mn) now' key = Inr (Some h)
    \<and> (k \<noteq> key \<longrightarrow> get_status_by_instance cfg (store_status cfg now key h mn) now' k = get_status_by_instance cfg mn now' k)"
proof -
  have "status_from_redis rt k (PDict (status_dict h)) = Inr h" for rt k
    by (simp add: status_from_redis_def status_dict_def dget_def py_float_def py_int_def)
  then show ?thesis
    using assms by (simp add: get_status_by_instance_def store_status_def mult.commute)
qed

section \<open>A monitor\<close>

definition sample_health :: health_config where
  "sample_health =
     \<lparr>hc_rt = sample_rt, hc_registry = [], hc_has_sessions = True,
      hc_interval = 30, hc_threshold = 2\<rparr>"

definition sample_monitor :: monitor where
  "sample_monitor =
     \<lparr>mn_failure_counts = [], mn_error_timestamps = [],
      mn_instances = [\<lparr>mi_id = ''i1'', mi_connector = ''shop'', mi_version = ''1.0.0'', mi_enabled = True\<rparr>], mn_store = []\<rparr>"

definition sample_check :: "string \<Rightarrow> probe \<Rightarrow> health_check" where
  "sample_check i p =
     \<lparr>hk_target = health_target_of (sample_webhooks ''x-sig'') (Some i) i, hk_probe = p, hk_latency = 5, hk_now = 0, hk_db_up = True\<rparr>"

theorem disabled_after_threshold_failures_witness:
  "\<not> instance_enabled (run_checks sample_health sample_monitor
      [sample_check ''i1'' (Answered 200), sample_check ''i1'' TimedOut, sample_check ''i2'' (Answered 200), sample_check ''i1'' (Answered 503)]) ''i1''"
proof -
  let ?cs = "[sample_check ''i1'' (Answered 200), sample_check ''i1'' TimedOut, sample_check ''i2'' (Answered 200), sample_check ''i1'' (Answered 503)]"
  have own: "checks_of ''i1'' ?cs = [sample_check ''i1'' (Answered 200)] @ [sample_check ''i1'' TimedOut, sample_check ''i1'' (Answered 503)] @ []"
    by (simp add: checks_of_def sample_check_def health_target_of_def)
  have "failures_in_a_row 2 (checks_of ''i1'' ?cs)"
    unfolding failures_in_a_row_def own
    by (rule exI [of _ "[sample_check ''i1'' (Answered 200)]"], rule exI [of _ "[sample_check ''i1'' TimedOut, sample_check ''i1'' (Answered 503)]"])
       (simp add: check_failed_def sample_check_def)
  moreover have "instance_enabled (run_checks sample_health sample_monitor ?cs) ''i1'' \<longleftrightarrow> \<not> failures_in_a_row 2 (checks_of ''i1'' ?cs)"
    by (rule disabled_after_threshold_failures)
       (simp_all add: sample_health_def sample_monitor_def instance_enabled_def sample_check_def health_target_of_def)
  ultimately show ?thesis by simp
qed

text \<open>A JSON library for one document.\<close>

definition sample_status :: health_status where
  "sample_status = health_report (sample_check ''i1'' TimedOut) 1 0"

definition status_health :: health_config where
  "status_health = sample_health\<lparr>hc_rt := sample_rt\<lparr>rt_json_loads := (\<lambda>_. Some (PDict (status_dict sample_status)))\<rparr>\<rparr>"

lemma stored_status_is_read_back_witness:
  "get_status_by_instance status_health (store_status status_health 0 ''i1'' sample_status sample_monitor) 100 ''i1''
     = Inr (Some sample_status)"
  using stored_status_is_read_back [where cfg = status_health and h = sample_status and now' = 100 and now = 0 and key = "''i1''"
      and k = "''i2''" and mn = sample_monitor]
  by (simp add: status_health_def sample_health_def)

end
