(* ===== verification/SchemaRegistry.thy ===== *)
theory SchemaRegistry
  imports Registry TextStore Engine Sorting
begin

text \<open>
  The schema registry (\<^verbatim>\<open>core/schema_registry.py\<close>): the fields of an action, merged from the manifest
  and from what the connector answers, cached in Redis, and compared when they are refreshed.  The
  answers of the connectors, the clock, JSON and the handlers that are told of a change are parameters;
  a handler that is told returns normally.
\<close>

section \<open>Fields\<close>

definition normalize_field :: "pyrt \<Rightarrow> pyval \<Rightarrow> pydict option" where
  "normalize_field rt fld =
     (case fld of
        PDict d \<Rightarrow>
          if truthy (dget d ''field'' PNone)
          then Some [(''field'', PStr (py_str rt (dget d ''field'' PNone))),
                     (''label'', PStr (py_str rt (if truthy (dget d ''label'' PNone) then dget d ''label'' PNone else dget d ''field'' PNone))),
                     (''type'', PStr (py_str rt (dget d ''type'' (PStr ''string'')))),
                     (''required'', PBool (truthy (dget d ''required'' (PBool False)))),
                     (''description'', dget d ''description'' PNone)]
          else None
      | _ \<Rightarrow> None)"

definition normalize_fields :: "pyrt \<Rightarrow> pyval \<Rightarrow> pydict list py" where
  "normalize_fields rt flds = andThen (py_iter flds) (\<lambda>xs. Inr (List.map_filter (normalize_field rt) xs))"

definition field_name :: "pydict \<Rightarrow> string" where
  "field_name d = (case dget d ''field'' PNone of PStr s \<Rightarrow> s | _ \<Rightarrow> [])"

definition index_by_name :: "pydict list \<Rightarrow> (string \<times> pydict) list" where
  "index_by_name flds = foldl (\<lambda>m f. dset m (field_name f) f) [] flds"

definition merge_fields :: "pydict list \<Rightarrow> pydict list \<Rightarrow> pydict list" where
  "merge_fields static_fields dynamic_fields =
     map snd (foldl (\<lambda>m f. dset m (field_name f) (dmerge (dget m (field_name f) []) f))
                (index_by_name static_fields) dynamic_fields)"

section \<open>Differences\<close>

record field_diff =
  fd_added :: "string list"
  fd_removed :: "string list"
  fd_changed :: "string list"

record schema_diff =
  sx_input :: field_diff
  sx_output :: field_diff

definition fields_changed :: "field_diff \<Rightarrow> bool" where
  "fields_changed d \<longleftrightarrow> fd_added d \<noteq> [] \<or> fd_removed d \<noteq> [] \<or> fd_changed d \<noteq> []"

definition schema_changed :: "schema_diff \<Rightarrow> bool" where
  "schema_changed d \<longleftrightarrow> fields_changed (sx_input d) \<or> fields_changed (sx_output d)"

definition named_field :: "(string \<times> pyval) list \<Rightarrow> pyval \<Rightarrow> (string \<times> pyval) list py" where
  "named_field m f =
     andThen (py_get f ''field'' PNone) (\<lambda>n.
     if truthy n then andThen (as_key n) (\<lambda>k. Inr (dset m k f)) else Inr m)"

definition named_fields :: "pyval \<Rightarrow> (string \<times> pyval) list py" where
  "named_fields flds = andThen (py_iter flds) (foldM named_field [])"

definition diff_named :: "(string \<times> pyval) list \<Rightarrow> (string \<times> pyval) list \<Rightarrow> field_diff" where
  "diff_named previous current =
     \<lparr>fd_added = stable_sort str_lt (filter (\<lambda>k. \<not> dhas previous k) (map fst current)),
      fd_removed = stable_sort str_lt (filter (\<lambda>k. \<not> dhas current k) (map fst previous)),
      fd_changed = stable_sort str_lt
        (filter (\<lambda>k. case (map_of previous k, map_of current k) of (Some p, Some c) \<Rightarrow> \<not> py_eq c p | _ \<Rightarrow> False) (map fst current))\<rparr>"

definition diff_field_sets :: "pyval \<Rightarrow> pyval \<Rightarrow> field_diff py" where
  "diff_field_sets previous_fields current_fields =
     andThen (named_fields previous_fields) (\<lambda>previous.
     andThen (named_fields current_fields) (\<lambda>current.
     Inr (diff_named previous current)))"

text \<open>\<^verbatim>\<open>previous or {}\<close>.\<close>

definition or_empty :: "pyval option \<Rightarrow> pyval" where
  "or_empty v = (case v of None \<Rightarrow> PDict [] | Some x \<Rightarrow> if truthy x then x else PDict [])"

definition diff_schemas :: "pyval option \<Rightarrow> pyval option \<Rightarrow> schema_diff py" where
  "diff_schemas previous current =
     andThen (py_get (or_empty previous) ''input_fields'' (PList [])) (\<lambda>pin.
     andThen (py_get (or_empty current) ''input_fields'' (PList [])) (\<lambda>cin.
     andThen (diff_field_sets pin cin) (\<lambda>din.
     andThen (py_get (or_empty previous) ''output_fields'' (PList [])) (\<lambda>pout.
     andThen (py_get (or_empty current) ''output_fields'' (PList [])) (\<lambda>cout.
     andThen (diff_field_sets pout cout) (\<lambda>dout.
     Inr \<lparr>sx_input = din, sx_output = dout\<rparr>))))))"

section \<open>State\<close>

text \<open>What an action was asked for, and what is told to the two handlers.\<close>

record descriptor =
  de_connector :: string
  de_action :: string
  de_version :: string
  de_tenant :: "string option"

record schema_change =
  sg_descriptor :: descriptor
  sg_diff :: schema_diff

record schema_config =
  sc_rt :: pyrt
  sc_registry :: registry
  sc_ttl :: nat
  sc_interval :: rat

record schema_state =
  ss_cache :: text_store
  ss_observed :: "(string \<times> descriptor) list"
  ss_invalidated :: "string list"
  ss_told :: "schema_change list"

text \<open>The answer of a connector at an address: none, or the status and the body, if it is JSON.\<close>

type_synonym schema_fetch = "string \<Rightarrow> (int \<times> pyval option) option"

definition schema_cache_key :: "string \<Rightarrow> string \<Rightarrow> string option \<Rightarrow> string" where
  "schema_cache_key connector action tenant =
     ''schema:'' @ connector @ '':'' @ action @ '':'' @ (case tenant of None \<Rightarrow> ''global'' | Some t \<Rightarrow> if t = [] then ''global'' else t)"

definition fetch_dynamic_schema :: "schema_fetch \<Rightarrow> string \<Rightarrow> string \<Rightarrow> pydict option" where
  "fetch_dynamic_schema fetch base action =
     (case fetch (base @ ''/schema/'' @ py_replace ''.'' ''/'' action) of
        Some (n, Some (PDict d)) \<Rightarrow> if n = 200 then Some d else None
      | _ \<Rightarrow> None)"

definition build_schema_payload :: "pyrt \<Rightarrow> schema_fetch \<Rightarrow> manifest \<Rightarrow> string \<Rightarrow> string option \<Rightarrow> pydict py" where
  "build_schema_payload rt fetch m action tenant =
     andThen (normalize_fields rt (dget (cm_action_fields m) action (PList []))) (\<lambda>static_input.
     andThen (normalize_fields rt (dget (cm_output_fields m) action (PList []))) (\<lambda>static_output.
     let answer = (case fetch_dynamic_schema fetch (base_url m) action of None \<Rightarrow> [] | Some d \<Rightarrow> d) in
     andThen (if answer = [] then Inr [] else normalize_fields rt (dget answer ''input_fields'' (PList []))) (\<lambda>dynamic_input.
     andThen (if answer = [] then Inr [] else normalize_fields rt (dget answer ''output_fields'' (PList []))) (\<lambda>dynamic_output.
     let source = (if answer = [] then ''static'' else if static_input \<noteq> [] \<or> static_output \<noteq> [] then ''merged'' else ''dynamic'') in
     Inr [(''connector_name'', PStr (cm_name m)), (''connector_version'', PStr (cm_version m)),
          (''tenant_id'', case tenant of None \<Rightarrow> PNone | Some t \<Rightarrow> PStr t), (''action'', PStr action),
          (''source'', PStr source), (''cached'', PBool False),
          (''input_fields'', PList (map PDict (merge_fields static_input dynamic_input))),
          (''output_fields'', PList (map PDict (merge_fields static_output dynamic_output)))]))))"

section \<open>Lookup and refresh\<close>

definition cached_payload :: "schema_config \<Rightarrow> text_store \<Rightarrow> rat \<Rightarrow> string \<Rightarrow> pyval option" where
  "cached_payload cfg cache now key =
     (case text_get cache now key of
        None \<Rightarrow> None
      | Some raw \<Rightarrow> if raw = [] then None else rt_json_loads (sc_rt cfg) raw)"

definition get_action_schema ::
  "schema_config \<Rightarrow> schema_fetch \<Rightarrow> rat \<Rightarrow> string \<Rightarrow> string \<Rightarrow> string option \<Rightarrow> string option \<Rightarrow> bool \<Rightarrow>
   schema_state \<Rightarrow> pydict py \<times> schema_state" where
  "get_action_schema cfg fetch now connector action version tenant force_refresh s =
     (case get_by_name_version (sc_registry cfg) connector version of
        None \<Rightarrow> (Inl (LookupError (''Connector '' @ [single_quote] @ connector @ [single_quote] @ '' not found'')), s)
      | Some m \<Rightarrow>
          let key = schema_cache_key connector action tenant;
              s1 = s\<lparr>ss_observed := dset (ss_observed s) key
                      \<lparr>de_connector = connector, de_action = action, de_version = cm_version m, de_tenant = tenant\<rparr>\<rparr> in
          case (if force_refresh then None else cached_payload cfg (ss_cache s) now key) of
            Some (PDict d) \<Rightarrow> (Inr (dset d ''cached'' (PBool True)), s1)
          | _ \<Rightarrow>
              (case build_schema_payload (sc_rt cfg) fetch m action tenant of
                 Inl e \<Rightarrow> (Inl e, s1)
               | Inr payload \<Rightarrow>
                   (Inr payload, s1\<lparr>ss_cache := text_set (ss_cache s) now key (rt_json_dumps (sc_rt cfg) (PDict payload)) (sc_ttl cfg)\<rparr>)))"

definition tell_change :: "descriptor \<Rightarrow> schema_diff \<Rightarrow> schema_state \<Rightarrow> schema_state" where
  "tell_change de diff s =
     s\<lparr>ss_invalidated := ss_invalidated s @ [de_connector de],
       ss_told := ss_told s @ [\<lparr>sg_descriptor = de, sg_diff = diff\<rparr>]\<rparr>"

definition refresh_one ::
  "schema_config \<Rightarrow> schema_fetch \<Rightarrow> rat \<Rightarrow> string \<times> descriptor \<Rightarrow> schema_state \<Rightarrow> unit py \<times> schema_state" where
  "refresh_one cfg fetch now entry s =
     (case entry of (key, de) \<Rightarrow>
        let cached = cached_payload cfg (ss_cache s) now key in
        case get_action_schema cfg fetch now (de_connector de) (de_action de) (Some (de_version de)) (de_tenant de) True s of
          (Inl (LookupError _), t) \<Rightarrow> (Inr (), t)
        | (Inl e, t) \<Rightarrow> (Inl e, t)
        | (Inr fresh, t) \<Rightarrow>
            (case diff_schemas cached (Some (PDict fresh)) of
               Inl e \<Rightarrow> (Inl e, t)
             | Inr diff \<Rightarrow> (Inr (), if schema_changed diff then tell_change de diff t else t)))"

fun refresh_entries ::
  "schema_config \<Rightarrow> schema_fetch \<Rightarrow> rat \<Rightarrow> (string \<times> descriptor) list \<Rightarrow> schema_state \<Rightarrow> unit py \<times> schema_state" where
  "refresh_entries cfg fetch now [] s = (Inr (), s)"
| "refresh_entries cfg fetch now (e # es) s =
     (case refresh_one cfg fetch now e s of
        (Inl x, t) \<Rightarrow> (Inl x, t)
      | (Inr _, t) \<Rightarrow> refresh_entries cfg fetch now es t)"

definition refresh_observed_schemas ::
  "schema_config \<Rightarrow> schema_fetch \<Rightarrow> rat \<Rightarrow> schema_state \<Rightarrow> unit py \<times> schema_state" where
  "refresh_observed_schemas cfg fetch now s = refresh_entries cfg fetch now (ss_observed s) s"

text \<open>The pause of the refresh loop after so many failures in a row.\<close>

definition refresh_backoff :: "rat \<Rightarrow> nat \<Rightarrow> rat" where
  "refresh_backoff interval failures =
     (if failures > 0 then min (interval * 2 ^ min failures 5) (interval * 32) else interval)"

end
