(* ===== verification/RegistryProps.thy ===== *)
theory RegistryProps
  imports Registry Samples
begin

text \<open>Properties of connector lookup: versions parse back, the latest version is the greatest,
  and searches return what they filter for.\<close>

section \<open>Versions\<close>

lemma split_one: "CHR ''.'' \<notin> set x \<Longrightarrow> py_split_acc ''.'' acc (x @ rest) = py_split_acc ''.'' (rev x @ acc) rest"
  by (induction x arbitrary: acc) (auto simp: py_split_acc.simps)

lemma split_join:
  "xs \<noteq> [] \<Longrightarrow> \<forall>x \<in> set xs. CHR ''.'' \<notin> set x \<Longrightarrow> py_split ''.'' (py_join ''.'' xs) = xs"
proof (induction xs rule: induct_list012)
  case (2 x)
  then show ?case using split_one [of x "[]" "[]"] by (simp add: py_split_def py_split_acc.simps)
next
  case (3 x y ys)
  then show ?case using split_one [of x "[]" "''.'' @ py_join ''.'' (y # ys)"]
    by (simp add: py_split_def py_split_acc.simps)
qed simp

lemma nat_str_no_dot: "CHR ''.'' \<notin> set (nat_str n)"
proof
  assume "CHR ''.'' \<in> set (nat_str n)"
  then have "is_digit CHR ''.''" by (rule nat_str_digits)
  then show False by (simp add: is_digit_def char_code_def)
qed

lemma leading_digits_nat_str: "leading_digits (nat_str n) = n"
proof -
  have "takeWhile is_digit (nat_str n) = nat_str n" using nat_str_digits by (intro takeWhile_eq_all_conv [THEN iffD2]) blast
  then show ?thesis by (simp only: leading_digits_def parse_digits_nat_str option.case)
qed

text \<open>A version written as numbers separated by dots parses back to these numbers, so that
  versions are ordered by number and not by text.\<close>

lemma semver_round_trip:
  assumes "ns \<noteq> []"
  shows "parse_semver (py_join ''.'' (map nat_str ns)) = ns"
proof -
  have "py_split ''.'' (py_join ''.'' (map nat_str ns)) = map nat_str ns"
    by (rule split_join) (use assms nat_str_no_dot in auto)
  then show ?thesis by (simp add: parse_semver_def leading_digits_nat_str comp_def)
qed

lemma semver_round_trip_witness: "parse_semver (py_join ''.'' (map nat_str [1, 10, 0])) = [1, 10, 0]"
  by (rule semver_round_trip) simp

text \<open>Looked up without a version, a connector is found in a version that no other of the same
  name exceeds; with a version that is registered, in exactly that version.\<close>

lemma lookup_finds_version_or_latest:
  assumes "c \<in> set (get_by_name reg name)"
  shows "(\<exists>m. get_by_name_version reg name None = Some m \<and> cm_name m = name \<and> m \<in> set (get_all reg)
      \<and> (\<forall>d \<in> set (get_by_name reg name). \<not> older m d))
    \<and> (cm_version c \<noteq> [] \<longrightarrow> (\<exists>m. get_by_name_version reg name (Some (cm_version c)) = Some m
      \<and> cm_name m = name \<and> cm_version m = cm_version c))"
proof -
  obtain m where m: "latest_of (get_by_name reg name) = Some m"
    using assms by (cases "get_by_name reg name") (auto simp: latest_of_def)
  obtain d where d: "find (\<lambda>d. cm_version d = cm_version c) (get_by_name reg name) = Some d"
    using assms by (cases "find (\<lambda>d. cm_version d = cm_version c) (get_by_name reg name)") (auto simp: find_None_all)
  show ?thesis
    using latest_of_greatest [OF m] find_Some_mem [OF d] m d
    by (auto simp: get_by_name_version_def Let_def get_by_name_def)
qed

definition sample_manifest :: "string \<Rightarrow> manifest" where
  "sample_manifest v =
     \<lparr>cm_name = ''dhl'', cm_category = ''courier'', cm_version = v, cm_display_name = ''DHL'', cm_description = [],
      cm_interface = ''rest'', cm_country = ''PL'', cm_capabilities = [''ship''], cm_events = [], cm_actions = [''label.create''],
      cm_config_schema = [], cm_action_routes = [], cm_service_name = [],
      cm_credential_provisioning = [], cm_credential_validation = [], cm_payload_hints = [], cm_rate_limits = [], cm_oauth2 = [],
      cm_webhooks = [], cm_health_endpoint = ''/health'', cm_action_fields = [],
      cm_output_fields = [], cm_status = ''stable''\<rparr>"

definition sample_registry :: registry where
  "sample_registry = fst (discover [Some (sample_manifest ''1.9.0''), None, Some (sample_manifest ''1.10.0'')])"

lemma sample_registry_all: "get_all sample_registry = [sample_manifest ''1.9.0'', sample_manifest ''1.10.0'']"
  by (simp add: sample_registry_def discover_def get_all_def connector_id_def sample_manifest_def List.map_filter_def)

lemma lookup_finds_version_or_latest_witness:
  "\<exists>m. get_by_name_version sample_registry ''dhl'' None = Some m \<and> \<not> older m (sample_manifest ''1.10.0'')"
proof -
  have "sample_manifest ''1.10.0'' \<in> set (get_by_name sample_registry ''dhl'')"
    by (simp add: get_by_name_def sample_registry_all) (simp add: sample_manifest_def)
  from this lookup_finds_version_or_latest [OF this] show ?thesis by blast
qed

text \<open>A version that is not registered is not reported as missing: the lookup answers with the
  latest version, as if none had been asked for.\<close>

lemma unknown_version_falls_back_to_latest:
  assumes "\<forall>c \<in> set (get_by_name reg name). cm_version c \<noteq> v"
  shows "get_by_name_version reg name (Some v) = get_by_name_version reg name None"
proof -
  have "find (\<lambda>c. cm_version c = v) (get_by_name reg name) = None" using assms by (simp add: find_None_all)
  then show ?thesis by (simp add: get_by_name_version_def Let_def)
qed

lemma unknown_version_falls_back_to_latest_witness:
  "get_by_name_version sample_registry ''dhl'' (Some ''7.0.0'') = get_by_name_version sample_registry ''dhl'' None"
  by (rule unknown_version_falls_back_to_latest)
     (auto simp: get_by_name_def sample_registry_all, auto simp: sample_manifest_def)

end
