(* ===== verification/SchemaProps.thy ===== *)
theory SchemaProps
  imports SchemaRegistry RegistryProps
begin

text \<open>Properties of the schema registry: which fields a merged schema has, and what a refresh tells.\<close>

section \<open>Merged fields\<close>

lemma normalize_field_shape:
  "normalize_field rt v = Some f \<Longrightarrow>
     \<exists>n l ty r ds. f = [(''field'', PStr n), (''label'', l), (''type'', ty), (''required'', r), (''description'', ds)]"
  by (auto simp: normalize_field_def split: pyval.splits if_splits)

definition normal :: "pydict \<Rightarrow> bool" where
  "normal f \<longleftrightarrow> (\<exists>n l ty r ds. f = [(''field'', PStr n), (''label'', l), (''type'', ty), (''required'', r), (''description'', ds)])"

lemma normalize_fields_normal: "normalize_fields rt v = Inr fs \<Longrightarrow> \<forall>f \<in> set fs. normal f"
  by (auto simp: normalize_fields_def normal_def in_map_filter elim!: andThen_InrE dest: normalize_field_shape)

text \<open>A declared field has a value for every attribute, so that laying it over another replaces it.\<close>

lemma dmerge_normal: "normal g \<Longrightarrow> normal f \<Longrightarrow> dmerge g f = f"
  by (auto simp: normal_def dmerge_Cons)

lemma dmerge_empty_normal: "normal f \<Longrightarrow> dmerge [] f = f"
  by (auto simp: normal_def dmerge_Cons)

lemma index_by_name_entries:
  "(k, f) \<in> set (index_by_name fs) \<Longrightarrow> k = field_name f \<and> f \<in> set fs"
proof (induction fs rule: rev_induct)
  case (snoc g fs)
  have "(k, f) \<in> set (dset d n g) \<Longrightarrow> (k, f) \<in> set d \<or> (k, f) = (n, g)" for d n
    by (induction d n g rule: dset.induct) (auto split: if_splits)
  from this [of "index_by_name fs" "field_name g"] snoc show ?case by (auto simp: index_by_name_def)
qed (simp add: index_by_name_def)

lemma merge_is_index:
  assumes "\<forall>f \<in> set s. normal f" and "\<forall>f \<in> set d. normal f"
  shows "merge_fields s d = map snd (index_by_name (s @ d))"
proof -
  have "foldl (\<lambda>m f. dset m (field_name f) (dmerge (dget m (field_name f) []) f)) (index_by_name s) d = index_by_name (s @ d)"
    using assms(2)
  proof (induction d rule: rev_induct)
    case (snoc f d)
    have "dmerge (dget (index_by_name (s @ d)) (field_name f) []) f = f"
    proof (cases "map_of (index_by_name (s @ d)) (field_name f)")
      case None
      then show ?thesis using snoc.prems by (simp add: dget_def dmerge_empty_normal)
    next
      case (Some g)
      from index_by_name_entries [OF map_of_SomeD [OF Some]] have "normal g"
        using assms(1) snoc.prems by auto
      with Some show ?thesis using snoc.prems by (simp add: dget_def dmerge_normal)
    qed
    with snoc show ?case by (simp add: index_by_name_def)
  qed (simp add: index_by_name_def)
  then show ?thesis by (simp add: merge_fields_def)
qed

lemma index_by_name_lookup: "map_of (index_by_name fs) n = find (\<lambda>f. field_name f = n) (rev fs)"
  by (induction fs rule: rev_induct) (simp_all add: index_by_name_def)

lemma dict_ok_index: "dict_ok (index_by_name fs)"
  by (induction fs rule: rev_induct) (simp_all add: index_by_name_def)

lemma keys_index: "fst ` set (index_by_name fs) = field_name ` set fs"
  by (induction fs rule: rev_induct) (simp_all add: index_by_name_def)

text \<open>C36: A merged schema lists every field of the manifest and of the connector's answer once, under its name.
  A field the connector declares appears as declared last in its answer, any other as declared last in the
  manifest: nothing of the manifest's entry survives in a field that both declare.\<close>

theorem merged_fields:
  assumes "normalize_fields rt v = Inr s" and "normalize_fields rt w = Inr d"
  shows "distinct (map field_name (merge_fields s d))
    \<and> field_name ` set (merge_fields s d) = field_name ` (set s \<union> set d)
    \<and> (\<forall>f \<in> set (merge_fields s d).
         Some f = (case find (\<lambda>g. field_name g = field_name f) (rev d) of
                     Some g \<Rightarrow> Some g | None \<Rightarrow> find (\<lambda>g. field_name g = field_name f) (rev s)))"
proof -
  let ?m = "index_by_name (s @ d)"
  have merge: "merge_fields s d = map snd ?m"
    using merge_is_index normalize_fields_normal [OF assms(1)] normalize_fields_normal [OF assms(2)] by blast
  have names: "map field_name (map snd ?m) = map fst ?m"
    using index_by_name_entries [of _ _ "s @ d"] by auto
  have last: "find P (rev (s @ d)) = (case find P (rev d) of Some g \<Rightarrow> Some g | None \<Rightarrow> find P (rev s))" for P :: "pydict \<Rightarrow> bool"
    by (induction d rule: rev_induct) simp_all
  have "Some f = find (\<lambda>g. field_name g = field_name f) (rev (s @ d))" if mem: "f \<in> set (map snd ?m)" for f
  proof -
    obtain k where k: "(k, f) \<in> set ?m" using mem unfolding set_map by force
    then have "map_of ?m (field_name f) = Some f"
      using index_by_name_entries [OF k] dict_ok_index [of "s @ d"] by (simp add: dict_ok_def)
    then show ?thesis by (simp only: index_by_name_lookup)
  qed
  moreover have "field_name ` set (map snd ?m) = field_name ` (set s \<union> set d)"
    using arg_cong [OF names, of set] keys_index [of "s @ d"] by (simp add: image_image)
  ultimately show ?thesis
    using dict_ok_index [of "s @ d"] names unfolding merge last dict_ok_def by metis
qed

definition declared_sku :: pydict where
  "declared_sku = [(''field'', PStr ''sku''), (''label'', PStr ''SKU''), (''required'', PBool True)]"

definition answered_sku :: pydict where
  "answered_sku = [(''field'', PStr ''sku'')]"

definition sample_fields :: "pydict \<Rightarrow> pydict list" where
  "sample_fields d = List.map_filter (normalize_field sample_rt) [PDict d]"

theorem merged_fields_witness:
  "field_name ` set (merge_fields (sample_fields declared_sku) (sample_fields answered_sku)) = {''sku''}
   \<and> distinct (map field_name (merge_fields (sample_fields declared_sku) (sample_fields answered_sku)))
   \<and> sample_fields answered_sku \<noteq> sample_fields declared_sku"
proof -
  have "normalize_fields sample_rt (PList [PDict d]) = Inr (sample_fields d)" for d
    by (simp add: normalize_fields_def sample_fields_def)
  note m = merged_fields [OF this this, of declared_sku answered_sku]
  have "field_name ` set (sample_fields declared_sku) = {''sku''}" "field_name ` set (sample_fields answered_sku) = {''sku''}"
    "sample_fields answered_sku \<noteq> sample_fields declared_sku"
    by code_simp+
  with m show ?thesis by (simp add: image_Un)
qed

section \<open>Observed schemas\<close>

text \<open>An observed schema is kept under the key its parts are cached under.\<close>

definition observed_ok :: "schema_state \<Rightarrow> bool" where
  "observed_ok s \<longleftrightarrow> dict_ok (ss_observed s)
     \<and> list_all (\<lambda>(k, de). k = schema_cache_key (de_connector de) (de_action de) (de_tenant de)) (ss_observed s)"

lemma dset_all: "list_all (\<lambda>(k, x). P k x) d \<Longrightarrow> P k x \<Longrightarrow> list_all (\<lambda>(k, x). P k x) (dset d k x)"
  by (induction d k x rule: dset.induct) auto

lemma observed_after_request:
  assumes "observed_ok s"
  shows "observed_ok (snd (get_action_schema cfg fetch now connector action version tenant force_refresh s))"
  using assms
  by (auto simp: get_action_schema_def observed_ok_def Let_def intro!: dset_all split: option.split pyval.split sum.split)

text \<open>What a request does to the cache and to the handlers' logs.\<close>

lemma request_cache:
  assumes "get_action_schema cfg fetch now connector action version tenant force_refresh s = (r, t)"
  shows "ss_told t = ss_told s \<and> ss_invalidated t = ss_invalidated s
    \<and> (\<forall>k. k \<noteq> schema_cache_key connector action tenant \<longrightarrow> text_get (ss_cache t) now k = text_get (ss_cache s) now k)"
  using assms by (auto simp: get_action_schema_def Let_def split: option.splits pyval.splits sum.splits if_splits)

section \<open>What a refresh tells\<close>

text \<open>What the refresh of one schema has to tell, given the cache it starts with.\<close>

definition fresh_schema :: "schema_config \<Rightarrow> schema_fetch \<Rightarrow> descriptor \<Rightarrow> pydict py option" where
  "fresh_schema cfg fetch de =
     map_option (\<lambda>m. build_schema_payload (sc_rt cfg) fetch m (de_action de) (de_tenant de))
       (get_by_name_version (sc_registry cfg) (de_connector de) (Some (de_version de)))"

definition change_of ::
  "schema_config \<Rightarrow> schema_fetch \<Rightarrow> rat \<Rightarrow> text_store \<Rightarrow> string \<times> descriptor \<Rightarrow> schema_change option" where
  "change_of cfg fetch now cache entry =
     (case entry of (key, de) \<Rightarrow>
        case fresh_schema cfg fetch de of
          Some (Inr fresh) \<Rightarrow>
            (case diff_schemas (cached_payload cfg cache now key) (Some (PDict fresh)) of
               Inr diff \<Rightarrow> if schema_changed diff then Some \<lparr>sg_descriptor = de, sg_diff = diff\<rparr> else None
             | Inl _ \<Rightarrow> None)
        | _ \<Rightarrow> None)"

lemma cached_payload_cong: "text_get a now k = text_get b now k \<Longrightarrow> cached_payload cfg a now k = cached_payload cfg b now k"
  by (simp add: cached_payload_def)

lemma forced_request:
  "get_action_schema cfg fetch now (de_connector de) (de_action de) (Some (de_version de)) (de_tenant de) True s = (r, t) \<Longrightarrow>
     r = (case fresh_schema cfg fetch de of
            None \<Rightarrow> Inl (LookupError (''Connector '' @ [single_quote] @ de_connector de @ [single_quote] @ '' not found''))
          | Some x \<Rightarrow> x)"
  by (auto simp: get_action_schema_def fresh_schema_def Let_def split: option.splits sum.splits)

lemma refresh_one_step:
  assumes "refresh_one cfg fetch now (k, de) s = (Inr (), t)" and "k = schema_cache_key (de_connector de) (de_action de) (de_tenant de)"
  shows "ss_told t = ss_told s @ (case change_of cfg fetch now (ss_cache s) (k, de) of None \<Rightarrow> [] | Some c \<Rightarrow> [c])
    \<and> ss_invalidated t = ss_invalidated s
        @ (case change_of cfg fetch now (ss_cache s) (k, de) of None \<Rightarrow> [] | Some c \<Rightarrow> [de_connector (sg_descriptor c)])
    \<and> (\<forall>j. j \<noteq> k \<longrightarrow> text_get (ss_cache t) now j = text_get (ss_cache s) now j)"
proof -
  obtain r u where g: "get_action_schema cfg fetch now (de_connector de) (de_action de) (Some (de_version de)) (de_tenant de) True s = (r, u)"
    by fastforce
  note cache = request_cache [OF g, folded assms(2)] and r = forced_request [OF g]
  have no_lookup: "fresh_schema cfg fetch de \<noteq> Some (Inl (LookupError e))" for e
    by (auto simp: fresh_schema_def build_schema_payload_def normalize_fields_def py_iter_def Let_def andThen_def
        split: sum.splits pyval.splits option.splits if_splits)
  show ?thesis
    using assms(1) g cache r no_lookup
    by (auto simp: refresh_one_def change_of_def tell_change_def Let_def split: sum.splits option.splits exn.splits if_splits)
qed

lemma change_of_cong:
  "text_get a now (fst e) = text_get b now (fst e) \<Longrightarrow> change_of cfg fetch now a e = change_of cfg fetch now b e"
  by (cases e) (simp add: change_of_def cached_payload_def cong: option.case_cong sum.case_cong)

lemma refresh_entries_tell:
  assumes "refresh_entries cfg fetch now es s = (Inr (), t)" and "dict_ok es"
    and "list_all (\<lambda>(k, de). k = schema_cache_key (de_connector de) (de_action de) (de_tenant de)) es"
  shows "ss_told t = ss_told s @ List.map_filter (change_of cfg fetch now (ss_cache s)) es
    \<and> ss_invalidated t = ss_invalidated s
        @ map (\<lambda>c. de_connector (sg_descriptor c)) (List.map_filter (change_of cfg fetch now (ss_cache s)) es)"
  using assms
proof (induction es arbitrary: s)
  case (Cons e es)
  obtain k de where e: "e = (k, de)" by fastforce
  obtain u where u: "refresh_one cfg fetch now (k, de) s = (Inr (), u)" and rest: "refresh_entries cfg fetch now es u = (Inr (), t)"
    using Cons.prems(1) e by (auto split: prod.splits sum.splits)
  note step = refresh_one_step [OF u]
  have key: "k = schema_cache_key (de_connector de) (de_action de) (de_tenant de)" using Cons.prems(3) e by simp
  have "List.map_filter (change_of cfg fetch now (ss_cache u)) es = List.map_filter (change_of cfg fetch now (ss_cache s)) es"
  proof (rule map_filter_cong_on)
    fix x assume "x \<in> set es"
    then have "fst x \<noteq> k" using Cons.prems(2) e by (auto simp: dict_ok_def)
    then show "change_of cfg fetch now (ss_cache u) x = change_of cfg fetch now (ss_cache s) x"
      using step [OF key] by (intro change_of_cong) blast
  qed
  then show ?case
    using Cons.IH [OF rest] Cons.prems step [OF key] e
    by (auto simp: List.map_filter_simps dict_ok_def split: option.splits)
qed (simp add: List.map_filter_simps)

text \<open>A refresh that goes through compares every observed schema with what the cache held when it
  started, tells the two handlers of exactly those that differ, each once and in order, and does not let
  the refresh of one schema influence another's; what is observed stays consistent.\<close>

lemma refresh_compares_each_schema:
  assumes "observed_ok s" and "refresh_observed_schemas cfg fetch now s = (Inr (), t)"
  shows "ss_told t = ss_told s @ List.map_filter (change_of cfg fetch now (ss_cache s)) (ss_observed s)
    \<and> ss_invalidated t = ss_invalidated s
        @ map (\<lambda>c. de_connector (sg_descriptor c)) (List.map_filter (change_of cfg fetch now (ss_cache s)) (ss_observed s))
    \<and> observed_ok t"
proof -
  have step: "observed_ok (snd (refresh_one cfg fetch now e u))" if "observed_ok u" for e u
  proof -
    obtain key de r v where e: "e = (key, de)"
      and g: "get_action_schema cfg fetch now (de_connector de) (de_action de) (Some (de_version de)) (de_tenant de) True u = (r, v)"
      by (metis prod.exhaust)
    have "observed_ok v"
      using observed_after_request [OF that, of cfg fetch now "de_connector de" "de_action de" "Some (de_version de)" "de_tenant de" True] g
      by simp
    then show ?thesis
      using e g by (auto simp: refresh_one_def Let_def tell_change_def observed_ok_def split: sum.split exn.split)
  qed
  have "observed_ok (snd (refresh_entries cfg fetch now es u))" if "observed_ok u" for es u
    using that
  proof (induction es arbitrary: u)
    case (Cons e es)
    obtain r v where v: "refresh_one cfg fetch now e u = (r, v)" by fastforce
    then have "observed_ok v" using step [OF Cons.prems, of e] by simp
    from Cons.IH [OF this] this v show ?case by (auto split: sum.split)
  qed simp
  then have "observed_ok t" using assms by (metis refresh_observed_schemas_def snd_conv)
  moreover have "dict_ok (ss_observed s)"
    "list_all (\<lambda>(k, de). k = schema_cache_key (de_connector de) (de_action de) (de_tenant de)) (ss_observed s)"
    using assms(1) by (simp_all add: observed_ok_def)
  ultimately show ?thesis
    using refresh_entries_tell [of cfg fetch now "ss_observed s" s t] assms(2) by (simp add: refresh_observed_schemas_def)
qed

section \<open>Which changes there are\<close>

lemma filter_none: "(\<And>x. x \<in> set xs \<Longrightarrow> \<not> P x) \<Longrightarrow> filter P xs = []"
  by (induction xs) auto

lemma diff_named_refl:
  assumes "\<And>k v. map_of c k = Some v \<Longrightarrow> py_eq v v"
  shows "\<not> fields_changed (diff_named c c)"
proof -
  have "filter (\<lambda>k. \<not> dhas c k) (map fst c) = []"
    by (rule filter_none) (force simp: dhas_iff_key)
  moreover have "filter (\<lambda>k. case (map_of c k, map_of c k) of (Some p, Some q) \<Rightarrow> \<not> py_eq q p | _ \<Rightarrow> False) (map fst c) = []"
    by (rule filter_none) (use assms in \<open>auto split: option.split\<close>)
  ultimately show ?thesis by (simp add: fields_changed_def diff_named_def)
qed

lemma named_field_values:
  "foldM named_field m xs = Inr c \<Longrightarrow> map_of c k = Some v \<Longrightarrow> map_of m k = Some v \<or> v \<in> set xs"
  by (induction xs arbitrary: m) (fastforce simp: named_field_def elim!: andThen_InrE split: if_splits)+

text \<open>A schema that the connector still answers with is no change while it is cached.\<close>

lemma unchanged_schema_is_not_told:
  assumes "fresh_schema cfg fetch de = Some (Inr fresh)" and "cached_payload cfg cache now k = Some (PDict fresh)"
    and "no_float (PDict fresh)"
  shows "change_of cfg fetch now cache (k, de) = None"
proof -
  have same: "\<not> fields_changed d" if diff: "diff_field_sets v v = Inr d" and "no_float v" for v d
  proof -
    obtain xs c where xs: "py_iter v = Inr xs" and c: "foldM named_field [] xs = Inr c" and d: "d = diff_named c c"
      using diff by (auto simp: diff_field_sets_def named_fields_def elim!: andThen_InrE)
    have "no_float x" if "x \<in> set xs" for x
      using xs that \<open>no_float v\<close> by (auto simp: py_iter_def list_all_iff split: pyval.splits)
    then show ?thesis
      unfolding d using named_field_values [OF c] by (intro diff_named_refl) (auto intro: py_eq_refl)
  qed
  have "no_float (dget fresh key (PList []))" for key
    using assms(3) by (auto simp: dget_def list_all_iff split: option.split dest!: map_of_SomeD)
  with same have "\<not> schema_changed d" if "diff_schemas (Some (PDict fresh)) (Some (PDict fresh)) = Inr d" for d
    using that by (auto simp: diff_schemas_def or_empty_def schema_changed_def elim!: andThen_InrE split: if_splits)
  then show ?thesis using assms by (auto simp: change_of_def split: sum.split)
qed

text \<open>A schema that has expired in the cache counts as changed in all its fields, also when nothing changed.\<close>

lemma expired_schema_is_told:
  assumes "diff_schemas None (Some (PDict fresh)) = Inr d"
    and "named_fields (dget fresh ''input_fields'' (PList [])) = Inr c" and "c \<noteq> []"
  shows "schema_changed d"
proof -
  have "named_fields (PList []) = Inr []" by (simp add: named_fields_def)
  then obtain i out where d: "d = \<lparr>sx_input = diff_named [] c, sx_output = out\<rparr>"
    using assms(1,2)
    by (auto simp: diff_schemas_def or_empty_def diff_field_sets_def dget_def elim!: andThen_InrE split: if_splits)
  have "fd_added (diff_named [] c) \<noteq> []"
    using assms(3) set_stable_sort [of str_lt "map fst c"] by (auto simp: diff_named_def dhas_def)
  with d show ?thesis by (simp add: schema_changed_def fields_changed_def)
qed

text \<open>The version asked for does not matter once any version's schema is cached.\<close>

lemma cached_schema_of_any_version:
  assumes "cached_payload cfg (ss_cache s) now (schema_cache_key connector action tenant) = Some (PDict d)"
    and "get_by_name_version (sc_registry cfg) connector version \<noteq> None"
  shows "fst (get_action_schema cfg fetch now connector action version tenant False s) = Inr (dset d ''cached'' (PBool True))"
  using assms by (auto simp: get_action_schema_def Let_def split: option.splits)

section \<open>The pauses of the refresh loop\<close>

lemma refresh_backoff_bounds:
  assumes "0 \<le> interval"
  shows "interval \<le> refresh_backoff interval n \<and> refresh_backoff interval n \<le> 32 * interval"
proof -
  have "interval * 1 \<le> interval * 2 ^ min n 5" by (rule mult_left_mono) (use assms in simp_all)
  then show ?thesis using assms by (simp add: refresh_backoff_def min_def)
qed

section \<open>A registry with one action\<close>

definition sample_schemas :: schema_config where
  "sample_schemas =
     \<lparr>sc_rt = sample_rt, sc_registry = [(''courier/dhl/1.0.0'', (sample_manifest ''1.0.0'')\<lparr>cm_action_fields := [(''ship'', PList [PDict declared_sku])]\<rparr>)],
      sc_ttl = 2, sc_interval = 300\<rparr>"

definition sample_observed :: schema_state where
  "sample_observed =
     \<lparr>ss_cache = [], ss_observed = [(''schema:dhl:ship:global'',
        \<lparr>de_connector = ''dhl'', de_action = ''ship'', de_version = ''1.0.0'', de_tenant = None\<rparr>)],
      ss_invalidated = [], ss_told = []\<rparr>"

lemma refresh_compares_each_schema_witness:
  "\<exists>t. refresh_observed_schemas sample_schemas (\<lambda>_. None) 0 sample_observed = (Inr (), t) \<and> ss_invalidated t = [''dhl'']"
proof -
  have ok: "observed_ok sample_observed" by code_simp
  have "case refresh_observed_schemas sample_schemas (\<lambda>_. None) 0 sample_observed of (Inr _, _) \<Rightarrow> True | _ \<Rightarrow> False"
    by code_simp
  then obtain t where t: "refresh_observed_schemas sample_schemas (\<lambda>_. None) 0 sample_observed = (Inr (), t)"
    by (auto split: prod.splits sum.splits)
  have "map (\<lambda>c. de_connector (sg_descriptor c))
      (List.map_filter (change_of sample_schemas (\<lambda>_. None) 0 (ss_cache sample_observed)) (ss_observed sample_observed)) = [''dhl'']"
    "ss_invalidated sample_observed = []"
    by code_simp+
  with refresh_compares_each_schema [OF ok t] t show ?thesis by auto
qed

end
