(* ===== verification/OAuthGateway.thy ===== *)
theory OAuthGateway
  imports OAuth2Manager
begin

text \<open>
  The OAuth2 endpoints of the gateway (\<^verbatim>\<open>api/gateway.py\<close>): authorization, the callback of the provider,
  refresh on request, status and revocation.  \<^verbatim>\<open>uuid.UUID\<close> of a text, printed again, is the field \<open>og_uuid\<close>.
\<close>

record oauth_gateway =
  og_env :: oauth_env
  og_registry :: registry
  og_base_url :: string
  og_uuid :: "string \<Rightarrow> string option"

text \<open>\<^verbatim>\<open>except ValueError\<close> also catches what the JSON decoder raises.\<close>

definition is_value_error :: "exn \<Rightarrow> bool" where
  "is_value_error e = (case e of ValueError _ \<Rightarrow> True | OtherError c _ \<Rightarrow> c = ''JSONDecodeError'' | _ \<Rightarrow> False)"

definition is_runtime_error :: "exn \<Rightarrow> bool" where
  "is_runtime_error e = (case e of OtherError c _ \<Rightarrow> c = ''RuntimeError'' | _ \<Rightarrow> False)"

definition value_error_as_400 :: "'a oact \<Rightarrow> 'a oact" where
  "value_error_as_400 m = catch m (\<lambda>e. throw (if is_value_error e then HTTPException 400 (exn_str e) else e))"

definition runtime_error_as_503 :: "'a oact \<Rightarrow> 'a oact" where
  "runtime_error_as_503 m = catch m (\<lambda>e. throw (if is_runtime_error e then HTTPException 503 (exn_str e) else e))"

definition connector_not_found :: "string \<Rightarrow> exn" where
  "connector_not_found connector = HTTPException 404 (''Connector '' @ [single_quote] @ connector @ [single_quote] @ '' not found'')"

definition callback_url :: "oauth_gateway \<Rightarrow> string" where
  "callback_url og = og_base_url og @ ''/api/v1/oauth2/callback''"

text \<open>\<^verbatim>\<open>{**oauth2_config, **credentials}\<close>.\<close>

definition merged_config :: "oauth_gateway \<Rightarrow> pyval \<Rightarrow> string \<Rightarrow> string \<Rightarrow> string \<Rightarrow> pydict oact" where
  "merged_config og cfg tenant connector name =
     bnd (\<lambda>w. Some (retrieve_all (oe_cipher (og_env og)) (ow_vault w) tenant connector name, w)) (\<lambda>creds.
     liftE (case cfg of
              PDict d \<Rightarrow> Inr (dmerge d (map (\<lambda>(k, v). (k, PStr v)) creds))
            | _ \<Rightarrow> Inl (TypeError (str_repr (type_name cfg) @ '' object is not a mapping''))))"

definition oauth2_authorize ::
  "oauth_gateway \<Rightarrow> rat \<Rightarrow> string \<Rightarrow> string \<Rightarrow> string \<Rightarrow> string \<Rightarrow> string \<Rightarrow> (string \<times> string) oact" where
  "oauth2_authorize og now random verifier connector name tenant =
     (if get_by_name (og_registry og) connector = [] then throw (connector_not_found connector)
      else case first_oauth2_config (og_registry og) connector of
        None \<Rightarrow> throw (HTTPException 400 (''Connector '' @ [single_quote] @ connector @ [single_quote] @ '' does not support OAuth2''))
      | Some cfg \<Rightarrow>
          bnd (merged_config og cfg tenant connector name) (\<lambda>config.
          runtime_error_as_503 (value_error_as_400
            (generate_authorization_url (og_env og) now random verifier config tenant connector (callback_url og) name))))"

text \<open>\<^verbatim>\<open>s.split(sep, n)\<close>.\<close>

fun split_max :: "string \<Rightarrow> nat \<Rightarrow> string \<Rightarrow> string list" where
  "split_max sep 0 s = [s]"
| "split_max sep (Suc n) s = (case py_split1 sep s of [a, b] \<Rightarrow> a # split_max sep n b | _ \<Rightarrow> [s])"

definition state_parts :: "string \<Rightarrow> (string \<times> string \<times> string) option" where
  "state_parts st =
     (case split_max '':'' 3 st of
        tenant # connector # name # _ \<Rightarrow> Some (tenant, connector, name)
      | _ \<Rightarrow> None)"

definition oauth2_callback :: "oauth_gateway \<Rightarrow> rat \<Rightarrow> string \<Rightarrow> string \<Rightarrow> nat oact" where
  "oauth2_callback og now code st =
     (case state_parts st of
        None \<Rightarrow> throw (HTTPException 400 ''Invalid state parameter'')
      | Some (tenant_text, connector, name) \<Rightarrow>
          (case og_uuid og tenant_text of
             None \<Rightarrow> throw (HTTPException 400 ''Invalid tenant in state'')
           | Some tenant \<Rightarrow>
               bnd (runtime_error_as_503 (validate_and_consume_state (og_env og) now st)) (\<lambda>valid.
               if \<not> valid then throw (HTTPException 403 ''Invalid or expired OAuth2 state'')
               else if get_by_name (og_registry og) connector = [] then throw (connector_not_found connector)
               else case first_oauth2_config (og_registry og) connector of
                 None \<Rightarrow> throw (HTTPException 400 ''Connector does not support OAuth2'')
               | Some cfg \<Rightarrow>
                   transaction
                     (bnd (merged_config og cfg tenant connector name) (\<lambda>config.
                      bnd (retrieve_code_verifier (og_env og) now st) (\<lambda>verifier.
                      value_error_as_400
                        (exchange_code (og_env og) now config tenant connector code (callback_url og) name verifier)))))))"

definition oauth2_manual_refresh :: "oauth_gateway \<Rightarrow> rat \<Rightarrow> string \<Rightarrow> string \<Rightarrow> string \<Rightarrow> unit oact" where
  "oauth2_manual_refresh og now connector name tenant =
     (\<lambda>w. case find_row w tenant connector name of
            None \<Rightarrow> Some (Inl (HTTPException 404 ''No OAuth2 token found for this connector''), w)
          | Some row \<Rightarrow>
              (case first_oauth2_config (og_registry og) connector of
                 None \<Rightarrow> Some (Inl (HTTPException 400 ''No OAuth2 config for connector''), w)
               | Some cfg \<Rightarrow>
                   transaction
                     (bnd (merged_config og cfg tenant connector name) (\<lambda>config.
                      value_error_as_400 (refresh_token (og_env og) now row config))) w))"

definition oauth2_token_status :: "oauth_gateway \<Rightarrow> rat \<Rightarrow> string \<Rightarrow> string \<Rightarrow> string \<Rightarrow> token_report option oact" where
  "oauth2_token_status og now connector name tenant = gets (\<lambda>w. get_token_status w now tenant connector name)"

definition oauth2_revoke :: "string \<Rightarrow> string \<Rightarrow> string \<Rightarrow> unit oact" where
  "oauth2_revoke connector name tenant =
     bnd (revoke_token tenant connector name) (\<lambda>revoked.
     if revoked then ret () else throw (HTTPException 404 ''No OAuth2 token found''))"

end
