(* ===== verification/OAuthProps.thy ===== *)
theory OAuthProps
  imports OAuthGateway RegistryProps
begin

text \<open>Properties of OAuth2: one-time states, whose credentials a callback stores, and what may happen to a
  token that is not active.\<close>

section \<open>One-time states\<close>

datatype state_op =
    Issue rat string string pydict string string string string
  | Consume rat string
  | TakeVerifier rat string

datatype state_event = StateIssued rat string | StateAccepted rat string

definition state_step :: "oauth_env \<Rightarrow> oauth_world \<times> state_event list \<Rightarrow> state_op \<Rightarrow> oauth_world \<times> state_event list" where
  "state_step env s op =
     (case s of (w, evs) \<Rightarrow>
      case op of
        Issue now random verifier config tenant connector callback name \<Rightarrow>
          (case generate_authorization_url env now random verifier config tenant connector callback name w of
             Some (Inr (url, st), w') \<Rightarrow> (w', evs @ [StateIssued now st])
           | Some (Inl _, w') \<Rightarrow> (w', evs)
           | None \<Rightarrow> (w, evs))
      | Consume now st \<Rightarrow>
          (case validate_and_consume_state env now st w of
             Some (Inr True, w') \<Rightarrow> (w', evs @ [StateAccepted now st])
           | Some (_, w') \<Rightarrow> (w', evs)
           | None \<Rightarrow> (w, evs))
      | TakeVerifier now st \<Rightarrow>
          (case retrieve_code_verifier env now st w of Some (_, w') \<Rightarrow> (w', evs) | None \<Rightarrow> (w, evs)))"

definition accepted_count :: "string \<Rightarrow> state_event list \<Rightarrow> nat" where
  "accepted_count st evs = length (filter (\<lambda>e. case e of StateAccepted _ x \<Rightarrow> x = st | _ \<Rightarrow> False) evs)"

definition issued_count :: "string \<Rightarrow> state_event list \<Rightarrow> nat" where
  "issued_count st evs = length (filter (\<lambda>e. case e of StateIssued _ x \<Rightarrow> x = st | _ \<Rightarrow> False) evs)"

text \<open>A state in the store was issued, and at most as often accepted as issued, once less while it is stored.\<close>

definition state_ok :: "oauth_world \<Rightarrow> state_event list \<Rightarrow> string \<Rightarrow> bool" where
  "state_ok w evs st \<longleftrightarrow>
     accepted_count st evs + (if map_of (ow_redis w) (state_key st) = None then 0 else 1) \<le> issued_count st evs
     \<and> (\<forall>text expires. map_of (ow_redis w) (state_key st) = Some (text, expires) \<longrightarrow>
          (\<exists>t0. StateIssued t0 st \<in> set evs \<and> expires = t0 + 600))
     \<and> (\<forall>t. StateAccepted t st \<in> set evs \<longrightarrow> (\<exists>t0. StateIssued t0 st \<in> set evs \<and> t < t0 + 600))"

definition states_ok :: "oauth_world \<times> state_event list \<Rightarrow> bool" where
  "states_ok s \<longleftrightarrow> (\<forall>st. state_ok (fst s) (snd s) st)"

lemma keys_differ [simp]: "state_key a \<noteq> pkce_key b" "pkce_key b \<noteq> state_key a" "state_key a = state_key b \<longleftrightarrow> a = b"
  by (simp_all add: state_key_def pkce_key_def)

lemma count_snoc [simp]:
  "accepted_count st (evs @ [StateIssued t x]) = accepted_count st evs"
  "accepted_count st (evs @ [StateAccepted t x]) = accepted_count st evs + (if x = st then 1 else 0)"
  "issued_count st (evs @ [StateIssued t x]) = issued_count st evs + (if x = st then 1 else 0)"
  "issued_count st (evs @ [StateAccepted t x]) = issued_count st evs"
  by (simp_all add: accepted_count_def issued_count_def)

lemma generate_redis:
  assumes "generate_authorization_url env now random verifier config tenant connector callback name w = Some (r, w')"
  shows "(case r of
            Inl _ \<Rightarrow> ow_redis w' = ow_redis w
          | Inr (url, st) \<Rightarrow>
              st = state_text tenant connector name random
              \<and> (\<forall>x. map_of (ow_redis w') (state_key x) = (if x = st then Some (''1'', now + 600) else map_of (ow_redis w) (state_key x))))"
  using assms
  by (auto simp: generate_authorization_url_def bnd_def text_set_def Let_def split: sum.splits if_splits)

lemma validate_redis:
  assumes "validate_and_consume_state env now st w = Some (r, w')"
  shows "(if r = Inr True
          then \<exists>text expires. map_of (ow_redis w) (state_key st) = Some (text, expires) \<and> now < expires
            \<and> ow_redis w' = dpop (ow_redis w) (state_key st)
          else w' = w)"
  using assms
  by (auto simp: validate_and_consume_state_def text_get_def text_del_def split: if_splits option.splits)

lemma verifier_redis:
  assumes "retrieve_code_verifier env now st w = Some (r, w')"
  shows "map_of (ow_redis w') (state_key x) = map_of (ow_redis w) (state_key x)"
  using assms
  by (auto simp: retrieve_code_verifier_def text_del_def map_of_dpop split: if_splits option.splits)

lemma state_ok_issue:
  assumes "state_ok w evs x"
    and "map_of (ow_redis w') (state_key x) = (if x = st then Some (''1'', now + 600) else map_of (ow_redis w) (state_key x))"
  shows "state_ok w' (evs @ [StateIssued now st]) x"
proof (cases "x = st")
  case True
  then show ?thesis using assms by (auto simp: state_ok_def split: if_splits)
next
  case False
  then show ?thesis using assms by (auto simp: state_ok_def split: if_splits)
qed

lemma state_ok_accept:
  assumes "state_ok w evs x" and "map_of (ow_redis w) (state_key st) = Some (text, expires)" and "now < expires"
    and "ow_redis w' = dpop (ow_redis w) (state_key st)"
  shows "state_ok w' (evs @ [StateAccepted now st]) x"
  using assms by (cases "x = st") (auto simp: state_ok_def map_of_dpop)

lemma state_ok_same:
  "state_ok w evs x \<Longrightarrow> map_of (ow_redis w') (state_key x) = map_of (ow_redis w) (state_key x) \<Longrightarrow> state_ok w' evs x"
  by (simp add: state_ok_def)

lemma states_ok_step:
  assumes ok: "states_ok s"
  shows "states_ok (state_step env s op)"
proof -
  obtain w evs where s: "s = (w, evs)" by fastforce
  have each: "state_ok w evs x" for x using ok s by (simp add: states_ok_def)
  show ?thesis
  proof (cases op)
    case (Issue now random verifier config tenant connector callback name)
    show ?thesis
    proof (cases "generate_authorization_url env now random verifier config tenant connector callback name w")
      case None
      then show ?thesis using ok s Issue by (simp add: state_step_def)
    next
      case (Some p)
      obtain r w' where p: "p = (r, w')" by fastforce
      note red = generate_redis [OF Some [unfolded p]]
      show ?thesis
      proof (cases r)
        case (Inl e)
        then have "state_ok w' evs x" for x using red by (intro state_ok_same [OF each]) simp
        then show ?thesis using Inl Some p s Issue by (simp add: state_step_def states_ok_def)
      next
        case (Inr q)
        obtain url st where q: "q = (url, st)" by fastforce
        have "state_ok w' (evs @ [StateIssued now st]) x" for x
          by (rule state_ok_issue [OF each]) (use red Inr q in simp)
        then show ?thesis using Inr q Some p s Issue by (simp add: state_step_def states_ok_def)
      qed
    qed
  next
    case (Consume now st)
    show ?thesis
    proof (cases "validate_and_consume_state env now st w")
      case None
      then show ?thesis using ok s Consume by (simp add: state_step_def)
    next
      case (Some p)
      obtain r w' where p: "p = (r, w')" by fastforce
      note red = validate_redis [OF Some [unfolded p]]
      show ?thesis
      proof (cases "r = Inr True")
        case False
        then show ?thesis using red ok s Consume Some p
          by (auto simp: state_step_def split: sum.split bool.split)
      next
        case True
        with red obtain raw expires where "map_of (ow_redis w) (state_key st) = Some (raw, expires)" "now < expires"
          and "ow_redis w' = dpop (ow_redis w) (state_key st)" by auto
        then have accepted: "state_ok w' (evs @ [StateAccepted now st]) x" for x
          using state_ok_accept [OF each] by blast
        show ?thesis using accepted s Consume Some p True by (simp add: state_step_def states_ok_def)
      qed
    qed
  next
    case (TakeVerifier now st)
    have same: "state_ok w' evs x" if "retrieve_code_verifier env now st w = Some (r, w')" for r w' x
      using each verifier_redis [OF that] by (rule state_ok_same)
    show ?thesis
      using ok s TakeVerifier same by (auto simp: state_step_def states_ok_def split: option.split)
  qed
qed

interpretation oauth_states: inv_machine "state_step env" states_ok
  by unfold_locales (rule states_ok_step)


definition sample_oauth_env :: oauth_env where
  "sample_oauth_env =
     \<lparr>oe_rt = sample_rt, oe_cipher = \<lparr>ci_seal = (\<lambda>_ p. p), ci_open = (\<lambda>_ c. Some c), ci_b64encode = (\<lambda>x. x), ci_b64decode = Some\<rparr>,
      oe_has_redis = True, oe_nonce = (\<lambda>_. replicate 12 CHR ''n''), oe_fields = (\<lambda>_. Inr []), oe_format_map = (\<lambda>s _. Inr s),
      oe_challenge = (\<lambda>v. v),
      oe_post = (\<lambda>_ _ _. Inr \<lparr>hr_status = 200, hr_json = Some (PDict [(''access_token'', PStr ''at1''), (''refresh_token'', PStr ''rt1''),
        (''expires_in'', PInt 60)]), hr_text = [], hr_headers = []\<rparr>)\<rparr>"

definition empty_oauth :: oauth_world where
  "empty_oauth =
     \<lparr>ow_redis = [], ow_rows = [], ow_next = 0, ow_vault = \<lparr>va_credentials = [], va_tokens = []\<rparr>, ow_nonces = 0, ow_posts = []\<rparr>"

definition sample_state_ops :: "state_op list" where
  "sample_state_ops =
     [Issue 0 ''r'' ''v'' [(''authorization_url'', PStr ''https://idp''), (''pkce'', PBool True)] ''acme'' ''shop'' ''cb'' ''default'',
      Consume 5 ''acme:shop:default:r'', Consume 6 ''acme:shop:default:r'']"


section \<open>Whose credentials a callback stores\<close>

lemma find_colon: "CHR '':'' \<notin> set t \<Longrightarrow> find_sub '':'' (t @ '':'' @ rest) = Some (length t)"
  by (induction t) (auto simp: find_sub.simps)

lemma split1_colon: "CHR '':'' \<notin> set t \<Longrightarrow> py_split1 '':'' (t @ '':'' @ rest) = [t, rest]"
  using find_colon [of t rest] by (simp add: py_split1_def)

lemma state_round_trip:
  assumes "CHR '':'' \<notin> set tenant" and "CHR '':'' \<notin> set connector" and "CHR '':'' \<notin> set name"
  shows "state_parts (state_text tenant connector name random) = Some (tenant, connector, name)"
  using split1_colon [OF assms(1), of "connector @ '':'' @ name @ '':'' @ random"]
    split1_colon [OF assms(2), of "name @ '':'' @ random"] split1_colon [OF assms(3), of random]
  by (simp add: state_parts_def state_text_def numeral_3_eq_3)

text \<open>The name of a credential set may hold a colon, and then the state names another set.\<close>

lemma colon_in_name_names_other_set:
  assumes "CHR '':'' \<notin> set tenant" and "CHR '':'' \<notin> set connector" and "CHR '':'' \<notin> set name"
  shows "state_parts (state_text tenant connector (name @ '':'' @ suffix) random) = Some (tenant, connector, name)"
  using state_round_trip [OF assms, of "suffix @ '':'' @ random"] by (simp add: state_text_def)

lemma bnd_returned:
  "bnd (modify g) f w = f () (g w)"
  "bnd (gets h) k w = k (h w) w"
  by (simp_all add: bnd_def)

lemma bnd_ret: "bnd (ret x) f = f x"
  by (rule ext) (simp add: bnd_def)

lemma encrypt_returned:
  "bnd (encrypt_value env v) f w = Some (Inr y, t) \<longleftrightarrow>
     (\<exists>s. v = PStr s \<and> f (encrypt (oe_cipher env) (oe_nonce env (ow_nonces w)) s) (w\<lparr>ow_nonces := Suc (ow_nonces w)\<rparr>) = Some (Inr y, t))"
  by (cases v) (simp_all add: encrypt_value_def bnd_def as_str_def)

text \<open>What \<open>put\<close> writes is read back under its own key, and other keys keep what they hold.\<close>

definition nonces_ok :: "oauth_env \<Rightarrow> bool" where
  "nonces_ok env \<longleftrightarrow> cipher_ok (oe_cipher env) \<and> (\<forall>n. length (oe_nonce env n) = nonce_size)"

lemma nonces_decrypt: "nonces_ok env \<Longrightarrow> decrypt (oe_cipher env) (encrypt (oe_cipher env) (oe_nonce env n) p) = Inr p"
  by (simp add: nonces_ok_def decrypt_encrypt)

lemma store_tokens_result:
  assumes "store_tokens env tenant connector name (PStr a) refresh w = Some (Inr u, w')" and "nonces_ok env"
  shows "ow_rows w' = ow_rows w \<and> ow_redis w' = ow_redis w \<and> ow_posts w' = ow_posts w \<and> ow_next w' = ow_next w
    \<and> retrieve (oe_cipher env) (ow_vault w') tenant connector ''access_token'' name = Inr (Some a)
    \<and> (\<forall>t c n k. (t, c, n) \<noteq> (tenant, connector, name) \<longrightarrow>
         retrieve (oe_cipher env) (ow_vault w') t c k n = retrieve (oe_cipher env) (ow_vault w) t c k n)"
  using assms(1) nonces_decrypt [OF assms(2)]
  by (cases "truthy refresh"; cases refresh)
    (auto simp: store_tokens_def vault_put_def bnd_returned encrypt_value_def as_str_def bnd_def retrieve_lookup lookup_put_encrypted)

lemma store_token_result:
  assumes "store_token env now tenant connector name provider data w = Some (Inr i, w')" and "nonces_ok env"
  shows "\<exists>a r. json_item data ''access_token'' = Inr (PStr a) \<and> ow_rows w' = ow_rows w @ [r] \<and> i = ow_next w
    \<and> ot_id r = i \<and> ot_tenant r = tenant \<and> ot_connector r = connector \<and> ot_name r = name \<and> ot_status r = ''active''
    \<and> decrypt (oe_cipher env) (ot_access r) = Inr a
    \<and> ow_redis w' = ow_redis w \<and> ow_posts w' = ow_posts w
    \<and> retrieve (oe_cipher env) (ow_vault w') tenant connector ''access_token'' name = Inr (Some a)
    \<and> (\<forall>t c n k. (t, c, n) \<noteq> (tenant, connector, name) \<longrightarrow>
         retrieve (oe_cipher env) (ow_vault w') t c k n = retrieve (oe_cipher env) (ow_vault w) t c k n)"
proof -
  obtain d where d: "data = PDict d"
    using assms(1) by (cases data) (simp_all add: store_token_def json_item_def bnd_def)
  obtain a where a: "dict_item d ''access_token'' = Inr (PStr a)"
    using assms(1) unfolding store_token_def d
    by (auto simp: bnd_liftE_returned encrypt_returned json_item_def)
  define refresh where "refresh = dget d ''refresh_token'' PNone"
  let ?w = "w\<lparr>ow_nonces := (if truthy refresh then Suc (Suc (ow_nonces w)) else Suc (ow_nonces w))\<rparr>"
  obtain expires refresh_enc where stored:
    "bnd (store_tokens env tenant connector name (PStr a) refresh) (\<lambda>_. ret (ow_next w))
      (?w\<lparr>ow_next := Suc (ow_next w), ow_rows := ow_rows w @
       [\<lparr>ot_id = ow_next w, ot_tenant = tenant, ot_connector = connector, ot_name = name, ot_provider = provider,
         ot_access = encrypt (oe_cipher env) (oe_nonce env (ow_nonces w)) a, ot_refresh = refresh_enc,
         ot_type = dget d ''token_type'' (PStr ''bearer''), ot_scope = dget d ''scope'' PNone,
         ot_expires = expires, ot_last_refreshed = None, ot_refresh_count = 0, ot_status = ''active'',
         ot_last_error = None\<rparr>]\<rparr>) = Some (Inr i, w')"
    using assms(1) a unfolding store_token_def d refresh_def [symmetric]
    by (cases "truthy refresh")
      (auto simp: bnd_liftE_returned encrypt_returned json_item_def bnd_assoc bnd_ret bnd_returned refresh_def [symmetric])
  obtain u where u: "store_tokens env tenant connector name (PStr a) refresh
      (?w\<lparr>ow_next := Suc (ow_next w), ow_rows := ow_rows w @
       [\<lparr>ot_id = ow_next w, ot_tenant = tenant, ot_connector = connector, ot_name = name, ot_provider = provider,
         ot_access = encrypt (oe_cipher env) (oe_nonce env (ow_nonces w)) a, ot_refresh = refresh_enc,
         ot_type = dget d ''token_type'' (PStr ''bearer''), ot_scope = dget d ''scope'' PNone,
         ot_expires = expires, ot_last_refreshed = None, ot_refresh_count = 0, ot_status = ''active'',
         ot_last_error = None\<rparr>]\<rparr>) = Some (Inr u, w')" and i: "i = ow_next w"
    using stored by (rule bnd_cases) auto
  from store_tokens_result [OF u assms(2)] i a d nonces_decrypt [OF assms(2)] show ?thesis
    by (auto simp: json_item_def)
qed

definition token_stored_for :: "oauth_env \<Rightarrow> string \<Rightarrow> string \<Rightarrow> string \<Rightarrow> nat \<Rightarrow> oauth_world \<Rightarrow> oauth_world \<Rightarrow> bool" where
  "token_stored_for env tenant connector name i w w' \<longleftrightarrow>
     (\<exists>a r. ow_rows w' = ow_rows w @ [r] \<and> ot_id r = i \<and> ot_tenant r = tenant \<and> ot_connector r = connector \<and> ot_name r = name
        \<and> ot_status r = ''active'' \<and> decrypt (oe_cipher env) (ot_access r) = Inr a
        \<and> retrieve (oe_cipher env) (ow_vault w') tenant connector ''access_token'' name = Inr (Some a))
     \<and> (\<forall>t c n k. (t, c, n) \<noteq> (tenant, connector, name) \<longrightarrow>
          retrieve (oe_cipher env) (ow_vault w') t c k n = retrieve (oe_cipher env) (ow_vault w) t c k n)"

lemma post_returned:
  "bnd (send_post env url body) f w = Some (Inr y, t) \<longleftrightarrow>
     (\<exists>r. oe_post env (ow_posts w) url body = Inr r \<and> f r (w\<lparr>ow_posts := ow_posts w @ [(url, body)]\<rparr>) = Some (Inr y, t))"
  by (cases "oe_post env (ow_posts w) url body") (simp_all add: send_post_def bnd_def)

lemma exchange_code_result:
  assumes "exchange_code env now config tenant connector code callback name verifier w = Some (Inr i, w')" and "nonces_ok env"
  shows "token_stored_for env tenant connector name i w w'"
proof -
  have "\<exists>p data. store_token env now tenant connector name connector data (w\<lparr>ow_posts := p\<rparr>) = Some (Inr i, w')"
    using assms(1) unfolding exchange_code_def Let_def bnd_liftE_returned post_returned
    by (auto simp: bnd_liftE_returned split: if_splits)
  then obtain p data where st: "store_token env now tenant connector name connector data (w\<lparr>ow_posts := p\<rparr>) = Some (Inr i, w')"
    by blast
  from store_token_result [OF st assms(2)] show ?thesis
    unfolding token_stored_for_def by auto
qed

lemma catch_throw_returned: "catch m (\<lambda>e. throw (f e)) w = Some (Inr x, t) \<longleftrightarrow> m w = Some (Inr x, t)"
  by (auto simp: catch_def split: option.split sum.split)

lemma transaction_returned: "transaction m w = Some (Inr x, t) \<longleftrightarrow> m w = Some (Inr x, t)"
  by (auto simp: transaction_def split: option.split sum.split)

lemma verifier_frame:
  "retrieve_code_verifier env now st w = Some (r, t) \<Longrightarrow> ow_rows t = ow_rows w \<and> ow_vault t = ow_vault w"
  by (auto simp: retrieve_code_verifier_def split: if_splits option.splits)

lemma validate_frame:
  "validate_and_consume_state env now st w = Some (r, t) \<Longrightarrow> ow_rows t = ow_rows w \<and> ow_vault t = ow_vault w"
  by (auto simp: validate_and_consume_state_def split: if_splits option.splits)


definition sample_oauth_gateway :: oauth_gateway where
  "sample_oauth_gateway =
     \<lparr>og_env = sample_oauth_env,
      og_registry = [(''x'', (sample_manifest ''1.0.0'')\<lparr>cm_name := ''shop'', cm_oauth2 := [(''token_url'', PStr ''https://idp/token'')]\<rparr>)],
      og_base_url = ''https://oip'', og_uuid = Some\<rparr>"

definition waiting_oauth :: oauth_world where
  "waiting_oauth = empty_oauth\<lparr>ow_redis := [(''oauth2:state:acme:shop:default:r'', ''1'', 600)]\<rparr>"

lemma sample_nonces: "nonces_ok sample_oauth_env"
  by (simp add: nonces_ok_def sample_oauth_env_def cipher_ok_def nonce_size_def)

lemma sample_callback_returns:
  "\<exists>i w'. oauth2_callback sample_oauth_gateway 5 ''c'' (state_text ''acme'' ''shop'' ''default'' ''r'') waiting_oauth = Some (Inr i, w')"
proof -
  have parts: "state_parts (state_text ''acme'' ''shop'' ''default'' ''r'') = Some (''acme'', ''shop'', ''default'')"
    by (rule state_round_trip) simp_all
  have st: "state_text ''acme'' ''shop'' ''default'' ''r'' = ''acme:shop:default:r''" by (simp add: state_text_def)
  have names: "get_by_name (og_registry sample_oauth_gateway) ''shop'' \<noteq> []"
    "first_oauth2_config (og_registry sample_oauth_gateway) ''shop'' = Some (PDict [(''token_url'', PStr ''https://idp/token'')])"
    by (simp_all add: sample_oauth_gateway_def first_oauth2_config_def get_by_name_def get_all_def)
  have valid: "validate_and_consume_state sample_oauth_env 5 ''acme:shop:default:r'' waiting_oauth = Some (Inr True, empty_oauth)"
    by (simp add: validate_and_consume_state_def sample_oauth_env_def waiting_oauth_def empty_oauth_def text_get_def text_del_def
        state_key_def dpop_def)
  have resolved: "resolve_oauth2_config sample_oauth_env [(''token_url'', PStr ''https://idp/token'')] = Inr [(''token_url'', PStr ''https://idp/token'')]"
    by (simp add: resolve_oauth2_config_def sample_oauth_env_def is_scalar_def resolve_text_def Let_def)
  have stored: "store_token sample_oauth_env 5 ''acme'' ''shop'' ''default'' ''shop''
      (PDict [(''access_token'', PStr ''at1''), (''refresh_token'', PStr ''rt1''), (''expires_in'', PInt 60)]) w \<noteq> None
    \<and> (\<forall>e t. store_token sample_oauth_env 5 ''acme'' ''shop'' ''default'' ''shop''
      (PDict [(''access_token'', PStr ''at1''), (''refresh_token'', PStr ''rt1''), (''expires_in'', PInt 60)]) w \<noteq> Some (Inl e, t))" for w
    by (simp add: store_token_def store_tokens_def vault_put_def encrypt_value_def json_item_def dict_item_def dget_def expiry_of_def
        py_int_def as_str_def bnd_def)
  then have stored': "\<exists>i t. store_token sample_oauth_env 5 ''acme'' ''shop'' ''default'' ''shop''
      (PDict [(''access_token'', PStr ''at1''), (''refresh_token'', PStr ''rt1''), (''expires_in'', PInt 60)]) w = Some (Inr i, t)" for w
    by (metis option.exhaust prod.exhaust sum.exhaust)
  have post: "oe_post sample_oauth_env ps url body = Inr \<lparr>hr_status = 200, hr_json = Some (PDict [(''access_token'', PStr ''at1''),
      (''refresh_token'', PStr ''rt1''), (''expires_in'', PInt 60)]), hr_text = [], hr_headers = []\<rparr>" for ps url body
    by (simp add: sample_oauth_env_def)
  have exchanged: "\<exists>i t. exchange_code sample_oauth_env 5 [(''token_url'', PStr ''https://idp/token'')] ''acme'' ''shop'' ''c'' callback
      ''default'' None w = Some (Inr i, t)" for callback w
    using stored' by (simp add: exchange_code_def resolved dict_item_def post send_post_def Let_def is_success_def response_json_def bnd_def)
  have env: "og_env sample_oauth_gateway = sample_oauth_env" "og_uuid sample_oauth_gateway = Some"
    by (simp_all add: sample_oauth_gateway_def)
  have merged: "merged_config sample_oauth_gateway (PDict d) tenant connector name empty_oauth = Some (Inr d, empty_oauth)"
    and verifier: "retrieve_code_verifier sample_oauth_env 5 st empty_oauth = Some (Inr None, empty_oauth)" for d tenant connector name st
    by (simp_all add: merged_config_def env bnd_def retrieve_all_def empty_oauth_def retrieve_code_verifier_def text_get_def)
  obtain i t where "exchange_code sample_oauth_env 5 [(''token_url'', PStr ''https://idp/token'')] ''acme'' ''shop'' ''c''
      (callback_url sample_oauth_gateway) ''default'' None empty_oauth = Some (Inr i, t)"
    using exchanged by blast
  then have "oauth2_callback sample_oauth_gateway 5 ''c'' (state_text ''acme'' ''shop'' ''default'' ''r'') waiting_oauth = Some (Inr i, t)"
    by (simp add: oauth2_callback_def parts [unfolded st] env st names valid runtime_error_as_503_def value_error_as_400_def transaction_def merged verifier)
  then show ?thesis by blast
qed


section \<open>Tokens that are not active\<close>

definition row_key :: "oauth_row \<Rightarrow> nat \<times> string \<times> string \<times> string" where
  "row_key r = (ot_id r, ot_tenant r, ot_connector r, ot_name r)"

text \<open>Only rows with an identifier in \<open>I\<close> are changed, and none in what it belongs to.\<close>

definition spares :: "nat set \<Rightarrow> oauth_world \<Rightarrow> oauth_world \<Rightarrow> bool" where
  "spares I w w' \<longleftrightarrow> map row_key (ow_rows w') = map row_key (ow_rows w) \<and> (\<forall>r \<in> set (ow_rows w). ot_id r \<notin> I \<longrightarrow> r \<in> set (ow_rows w'))"

interpretation spares: effect_rel "spares I"
  by unfold_locales (auto simp: spares_def)

lemma spares_same_rows: "(\<And>w r t. m w = Some (r, t) \<Longrightarrow> ow_rows t = ow_rows w) \<Longrightarrow> keeps (spares I) m"
  by (auto simp: keeps_def spares_def)

lemma spares_on_row:
  assumes "i \<in> I" and "\<And>r. row_key (f r) = row_key r"
  shows "keeps (spares I) (on_row i f)"
  using assms by (auto simp: keeps_def on_row_def spares_def map_update_where intro: update_where_other)

lemma spares_quiet:
  "keeps (spares I) (encrypt_value env v)"
  "keeps (spares I) (vault_put env tenant connector key v name)"
  "keeps (spares I) (send_post env url body)"
  "keeps (spares I) (read_access env i)"
  by (rule spares_same_rows, auto simp: encrypt_value_def vault_put_def send_post_def read_access_def bnd_def
      split: sum.splits option.splits)+

lemma spares_store_tokens: "keeps (spares I) (store_tokens env tenant connector name access refresh)"
  unfolding store_tokens_def by (auto intro!: spares.keeps_bnd spares.keeps_pure spares_quiet)

lemma spares_update_token: "ot_id row \<in> I \<Longrightarrow> keeps (spares I) (update_token env now row data)"
  unfolding update_token_def
  by (auto intro!: spares.keeps_bnd spares.keeps_pure spares_quiet spares_store_tokens spares_on_row simp: row_key_def)

lemma spares_refresh_token: "ot_id row \<in> I \<Longrightarrow> keeps (spares I) (refresh_token env now row config)"
  unfolding refresh_token_def mark_error_def Let_def
  by (auto intro!: spares.keeps_bnd spares.keeps_pure spares_quiet spares_update_token spares_on_row simp: row_key_def)

lemma spares_get_or_refresh:
  assumes "get_or_refresh_access_token env now tenant connector name config w = Some (x, w')"
    and "find_row w tenant connector name = Some r"
  shows "spares {i. i = ot_id r \<and> ot_status r = ''active''} w w'"
proof (cases "ot_status r = ''active''")
  case False
  then show ?thesis using assms by (simp add: get_or_refresh_access_token_def spares_def)
next
  case True
  let ?I = "{i. i = ot_id r \<and> ot_status r = ''active''}"
  have "ot_id r \<in> ?I" using True by simp
  then have expired: "keeps (spares ?I) (bnd (mark_expired (ot_id r)) (\<lambda>_. ret None))"
    and refreshed: "keeps (spares ?I) (catch (bnd (refresh_token env now r cfg) (\<lambda>_. bnd (read_access env (ot_id r)) (\<lambda>t. ret (Some t))))
        (\<lambda>_. bnd (mark_expired (ot_id r)) (\<lambda>_. ret None)))" for cfg
    unfolding mark_expired_def
    by (auto intro!: spares.keeps_bnd spares.keeps_catch spares.keeps_pure spares_quiet spares_refresh_token spares_on_row simp: row_key_def)
  have valid: "keeps (spares ?I) (bnd (liftE (decrypt (oe_cipher env) (ot_access r))) (\<lambda>t. ret (Some t)))"
    by (auto intro!: spares.keeps_bnd spares.keeps_pure)
  show ?thesis
    using assms True
    by (auto simp: get_or_refresh_access_token_def split: if_splits option.splits
        dest: keepsD [OF expired] keepsD [OF refreshed] keepsD [OF valid])
qed

lemma spares_transaction: "keeps (spares I) m \<Longrightarrow> keeps (spares I) (transaction m)"
  by (auto simp: keeps_def transaction_def spares_def split: option.splits prod.splits sum.splits)

lemma filterM_subset: "filterM p xs = Inr ys \<Longrightarrow> set ys \<subseteq> set xs"
  by (induction xs arbitrary: ys) (fastforce elim!: andThen_InrE split: if_splits)+

lemma spares_pass:
  assumes "refresher_pass env rf now w = Some (x, w')"
  shows "spares {i. \<exists>r \<in> set (ow_rows w). ot_id r = i \<and> ot_status r = ''active''} w w'"
proof -
  let ?I = "{i. \<exists>r \<in> set (ow_rows w). ot_id r = i \<and> ot_status r = ''active''}"
  have due: "row \<in> set rows \<Longrightarrow> ot_id row \<in> ?I" if "due_tokens rf now w = Inr rows" for rows row
    using filterM_subset [OF that [unfolded due_tokens_def]] by (auto simp: get_tokens_expiring_soon_def due_by_def)
  have one: "keeps (spares ?I) (refresh_due env rf now row)" if "ot_id row \<in> ?I" for row
    unfolding refresh_due_def using that
    by (auto intro!: spares.keeps_bnd spares.keeps_catch spares.keeps_pure spares_refresh_token split: option.split)
  have all: "spares ?I w t" if "refresh_expiring_tokens env rf now w = Some (r, t)" for r t
  proof (cases "due_tokens rf now w")
    case (Inl e)
    then show ?thesis using that by (simp add: refresh_expiring_tokens_def bnd_def spares.R_refl)
  next
    case (Inr rows)
    have "keeps (spares ?I) (for_each (refresh_due env rf now) rows)"
      by (rule spares.keeps_for_each_on) (use due [OF Inr] one in blast)
    then show ?thesis using that Inr by (simp add: refresh_expiring_tokens_def bnd_def keeps_def)
  qed
  then show ?thesis
    using assms by (auto simp: refresher_pass_def catch_def transaction_def spares_def split: option.splits prod.splits sum.splits)
qed

datatype token_op =
    Pass refresher rat
  | Use rat string string string "pydict option"

text \<open>What happens to the tokens without a user: passes of the refresher, and actions that need a token.\<close>

definition token_step :: "oauth_env \<Rightarrow> oauth_world \<Rightarrow> token_op \<Rightarrow> oauth_world" where
  "token_step env w op =
     (case op of
        Pass rf now \<Rightarrow> (case refresher_pass env rf now w of Some (_, w') \<Rightarrow> w' | None \<Rightarrow> w)
      | Use now tenant connector name config \<Rightarrow>
          (case get_or_refresh_access_token env now tenant connector name config w of Some (_, w') \<Rightarrow> w' | None \<Rightarrow> w))"

definition active_ids :: "oauth_world \<Rightarrow> nat set" where
  "active_ids w = {i. \<exists>r \<in> set (ow_rows w). ot_id r = i \<and> ot_status r = ''active''}"

lemma spares_mono: "spares I w w' \<Longrightarrow> I \<subseteq> J \<Longrightarrow> spares J w w'"
  by (auto simp: spares_def)

lemma find_row_mem: "find_row w tenant connector name = Some r \<Longrightarrow> r \<in> set (ow_rows w)"
  by (auto simp: find_row_def dest: find_Some_mem)

lemma spares_token_step: "spares (active_ids w) w (token_step env w op)"
proof (cases op)
  case (Pass rf now)
  then show ?thesis
    using spares_pass [of env rf now w]
    by (auto simp: token_step_def active_ids_def spares.R_refl split: option.split)
next
  case (Use now tenant connector name config)
  have "spares (active_ids w) w t" if "get_or_refresh_access_token env now tenant connector name config w = Some (x, t)" for x t
  proof (cases "find_row w tenant connector name")
    case None
    then show ?thesis using that by (simp add: get_or_refresh_access_token_def spares.R_refl)
  next
    case (Some r)
    have "{i. i = ot_id r \<and> ot_status r = ''active''} \<subseteq> active_ids w"
      using find_row_mem [OF Some] by (auto simp: active_ids_def)
    with spares_get_or_refresh [OF that Some] show ?thesis by (rule spares_mono)
  qed
  with Use show ?thesis by (auto simp: token_step_def spares.R_refl split: option.split)
qed

definition ids_ok :: "oauth_world \<Rightarrow> bool" where
  "ids_ok w \<longleftrightarrow> uniq_by ot_id (ow_rows w)"

lemma spares_ids: "spares I w w' \<Longrightarrow> map ot_id (ow_rows w') = map ot_id (ow_rows w)"
proof -
  assume "spares I w w'"
  then have "map fst (map row_key (ow_rows w')) = map fst (map row_key (ow_rows w))" by (simp add: spares_def)
  then show ?thesis by (simp add: row_key_def comp_def)
qed

lemma ids_ok_inactive: "ids_ok w \<Longrightarrow> r \<in> set (ow_rows w) \<Longrightarrow> ot_status r \<noteq> ''active'' \<Longrightarrow> ot_id r \<notin> active_ids w"
  unfolding ids_ok_def uniq_by_def active_ids_def distinct_map inj_on_def by blast

lemma inactive_row_stays:
  assumes "ids_ok w" and "r \<in> set (ow_rows w)" and "ot_status r \<noteq> ''active''"
  shows "ids_ok (foldl (token_step env) w ops) \<and> r \<in> set (ow_rows (foldl (token_step env) w ops))
    \<and> map row_key (ow_rows (foldl (token_step env) w ops)) = map row_key (ow_rows w)"
  using assms
proof (induction ops arbitrary: w)
  case (Cons op ops)
  let ?w = "token_step env w op"
  have step: "spares (active_ids w) w ?w" by (rule spares_token_step)
  then have "ids_ok ?w" using Cons.prems(1) spares_ids [OF step] by (simp add: ids_ok_def uniq_by_def)
  moreover have "r \<in> set (ow_rows ?w)" "map row_key (ow_rows ?w) = map row_key (ow_rows w)"
    using step ids_ok_inactive [OF Cons.prems] Cons.prems(2) by (simp_all add: spares_def)
  ultimately show ?case using Cons.IH [of ?w] Cons.prems(3) by simp
qed simp

lemma find_row_same:
  assumes "map row_key (ow_rows w') = map row_key (ow_rows w)" and "find_row w tenant connector name = Some r"
    and "r \<in> set (ow_rows w')" and "ids_ok w'"
  shows "find_row w' tenant connector name = Some r"
proof -
  have pos: "find P (map row_key xs) = map_option row_key (find (\<lambda>r. P (row_key r)) xs)" for P xs
    by (induction xs) auto
  have key: "map_option row_key (find_row v tenant connector name)
      = find (\<lambda>(i, t, c, n). t = tenant \<and> c = connector \<and> n = name) (rev (map row_key (ow_rows v)))" for v
    unfolding find_row_def rev_map pos by (simp add: row_key_def)
  have "map_option row_key (find_row w' tenant connector name) = map_option row_key (find_row w tenant connector name)"
    by (simp only: key assms(1))
  then obtain q where q: "find_row w' tenant connector name = Some q" "row_key q = row_key r"
    using assms(2) by auto
  moreover have "q = r"
    using find_row_mem [OF q(1)] assms(3,4) q(2) by (auto simp: ids_ok_def uniq_by_def distinct_map inj_on_def row_key_def)
  ultimately show ?thesis by simp
qed

text \<open>C39: A token that is not active, because it was revoked, has expired or could not be refreshed, is left
  exactly as it is by every sequence of refresher passes and actions, and while it is the newest of its
  credential set no action gets an access token from it.\<close>

theorem inactive_token_is_left_alone:
  assumes "ids_ok w" and "find_row w tenant connector name = Some r" and "ot_status r \<noteq> ''active''"
  shows "find_row (foldl (token_step env) w ops) tenant connector name = Some r
    \<and> get_or_refresh_access_token env now tenant connector name config (foldl (token_step env) w ops)
        = Some (Inr None, foldl (token_step env) w ops)"
proof -
  note stays = inactive_row_stays [OF assms(1) find_row_mem [OF assms(2)] assms(3), of env ops]
  have "find_row (foldl (token_step env) w ops) tenant connector name = Some r"
    by (rule find_row_same [OF _ assms(2)]) (use stays in blast)+
  with assms(3) show ?thesis by (simp add: get_or_refresh_access_token_def)
qed

definition sample_oauth_row :: "string \<Rightarrow> rat \<Rightarrow> oauth_row" where
  "sample_oauth_row status expires =
     \<lparr>ot_id = 0, ot_tenant = ''acme'', ot_connector = ''shop'', ot_name = ''default'', ot_provider = ''shop'',
      ot_access = replicate 12 CHR ''n'' @ ''at0'', ot_refresh = Some (replicate 12 CHR ''n'' @ ''rt0''), ot_type = PStr ''bearer'',
      ot_scope = PNone, ot_expires = Some expires, ot_last_refreshed = None, ot_refresh_count = 0, ot_status = status,
      ot_last_error = None\<rparr>"

definition one_token :: "string \<Rightarrow> rat \<Rightarrow> oauth_world" where
  "one_token status expires = empty_oauth\<lparr>ow_rows := [sample_oauth_row status expires], ow_next := 1\<rparr>"

definition sample_refresher :: refresher where
  "sample_refresher = \<lparr>rf_registry = og_registry sample_oauth_gateway, rf_has_vault = True, rf_window = 300\<rparr>"

theorem inactive_token_is_left_alone_witness:
  "find_row (foldl (token_step sample_oauth_env) (one_token ''revoked'' 0) [Pass sample_refresher 10, Use 20 ''acme'' ''shop'' ''default'' None])
     ''acme'' ''shop'' ''default'' = Some (sample_oauth_row ''revoked'' 0)"
proof -
  have "ids_ok (one_token ''revoked'' 0)" and "ot_status (sample_oauth_row ''revoked'' 0) \<noteq> ''active''"
    and "find_row (one_token ''revoked'' 0) ''acme'' ''shop'' ''default'' = Some (sample_oauth_row ''revoked'' 0)"
    by (simp_all add: ids_ok_def uniq_by_def one_token_def sample_oauth_row_def find_row_def)
  with inactive_token_is_left_alone show ?thesis by blast
qed

section \<open>Tokens that are used\<close>

definition row_of :: "nat \<Rightarrow> oauth_world \<Rightarrow> oauth_row option" where
  "row_of i w = find (\<lambda>r. ot_id r = i) (ow_rows w)"

lemma row_of_on_row:
  assumes "\<And>r. ot_id (f r) = ot_id r"
  shows "row_of i (w\<lparr>ow_rows := update_where (\<lambda>r. ot_id r = i) f (ow_rows w)\<rparr>) = map_option f (row_of i w)"
proof -
  have "find (\<lambda>r. ot_id r = i) (update_where (\<lambda>r. ot_id r = i) f (ow_rows w))
      = map_option (\<lambda>r. if ot_id r = i then f r else r) (find (\<lambda>r. ot_id r = i) (ow_rows w))"
    by (rule find_update_where) (simp add: assms)
  then show ?thesis
    by (cases "find (\<lambda>r. ot_id r = i) (ow_rows w)") (auto simp: row_of_def dest: find_Some_mem)
qed

lemma row_of_rows: "ow_rows w' = ow_rows w \<Longrightarrow> row_of i w' = row_of i w"
  by (simp add: row_of_def)

text \<open>The row after a refresh: its access token is the one the provider answered with, and it is active.\<close>

lemma update_token_result:
  assumes "update_token env now row data w = Some (Inr u, w')" and "nonces_ok env" and "row_of (ot_id row) w = Some r0"
  shows "\<exists>a r. json_item data ''access_token'' = Inr (PStr a) \<and> row_of (ot_id row) w' = Some r
    \<and> decrypt (oe_cipher env) (ot_access r) = Inr a \<and> ot_status r = ''active''
    \<and> (\<not> truthy (dget (case data of PDict d \<Rightarrow> d | _ \<Rightarrow> []) ''expires_in'' PNone) \<longrightarrow> ot_expires r = ot_expires r0)
    \<and> ow_posts w' = ow_posts w"
proof -
  obtain d where d: "data = PDict d"
    using assms(1) by (cases data) (simp_all add: update_token_def json_item_def bnd_def)
  obtain a where a: "dict_item d ''access_token'' = Inr (PStr a)"
    using assms(1) unfolding update_token_def d
    by (auto simp: bnd_liftE_returned encrypt_returned json_item_def)
  define refresh where "refresh = dget d ''refresh_token'' PNone"
  define expires_in where "expires_in = dget d ''expires_in'' PNone"
  let ?i = "ot_id row" and ?enc = "encrypt (oe_cipher env) (oe_nonce env (ow_nonces w)) a"
  have "\<exists>w1 r1 expires. row_of ?i w1 = Some r1 \<and> ot_access r1 = ?enc \<and> ot_expires r1 = ot_expires r0 \<and> ow_posts w1 = ow_posts w
      \<and> expiry_of now expires_in = Inr expires
      \<and> store_tokens env (ot_tenant row) (ot_connector row) (ot_name row) (PStr a) refresh
          (w1\<lparr>ow_rows := update_where (\<lambda>r. ot_id r = ?i) (\<lambda>r. r\<lparr>ot_expires := if expires = None then ot_expires r else expires,
             ot_last_refreshed := Some now, ot_refresh_count := Suc (ot_refresh_count r),
             ot_status := ''active'', ot_last_error := None\<rparr>) (ow_rows w1)\<rparr>) = Some (Inr u, w')"
  proof (cases "truthy refresh")
    case False
    let ?w1 = "w\<lparr>ow_nonces := Suc (ow_nonces w), ow_rows := update_where (\<lambda>r. ot_id r = ?i) (\<lambda>r. r\<lparr>ot_access := ?enc\<rparr>) (ow_rows w)\<rparr>"
    have "row_of ?i ?w1 = Some (r0\<lparr>ot_access := ?enc\<rparr>)"
      using row_of_on_row [of "\<lambda>r. r\<lparr>ot_access := ?enc\<rparr>" ?i w] assms(3) by (simp add: row_of_def)
    then show ?thesis
      using assms(1) a False unfolding update_token_def d
      by (intro exI [of _ ?w1]) (auto simp: bnd_liftE_returned encrypt_returned json_item_def bnd_ret bnd_returned on_row_def
          refresh_def [symmetric] expires_in_def [symmetric])
  next
    case True
    obtain s where s: "refresh = PStr s"
      using assms(1) a True unfolding update_token_def d
      by (auto simp: bnd_liftE_returned encrypt_returned json_item_def bnd_assoc bnd_returned on_row_def refresh_def [symmetric])
    let ?x = "encrypt (oe_cipher env) (oe_nonce env (Suc (ow_nonces w))) s"
    let ?w1 = "w\<lparr>ow_nonces := Suc (Suc (ow_nonces w)), ow_rows := update_where (\<lambda>r. ot_id r = ?i) (\<lambda>r. r\<lparr>ot_refresh := Some ?x\<rparr>)
      (update_where (\<lambda>r. ot_id r = ?i) (\<lambda>r. r\<lparr>ot_access := ?enc\<rparr>) (ow_rows w))\<rparr>"
    have "row_of ?i ?w1 = Some (r0\<lparr>ot_access := ?enc, ot_refresh := Some ?x\<rparr>)"
      using row_of_on_row [of "\<lambda>r. r\<lparr>ot_access := ?enc\<rparr>" ?i w] assms(3)
        row_of_on_row [of "\<lambda>r. r\<lparr>ot_refresh := Some ?x\<rparr>" ?i "w\<lparr>ow_rows := update_where (\<lambda>r. ot_id r = ?i) (\<lambda>r. r\<lparr>ot_access := ?enc\<rparr>) (ow_rows w)\<rparr>"]
      by (simp add: row_of_def)
    then show ?thesis
      using assms(1) a True s unfolding update_token_def d
      by (intro exI [of _ ?w1]) (auto simp: bnd_liftE_returned encrypt_returned json_item_def bnd_assoc bnd_returned on_row_def
          refresh_def [symmetric] expires_in_def [symmetric])
  qed
  then obtain w1 r1 expires where w1: "row_of ?i w1 = Some r1" "ot_access r1 = ?enc" "ot_expires r1 = ot_expires r0" "ow_posts w1 = ow_posts w"
    and e: "expiry_of now expires_in = Inr expires"
    and st: "store_tokens env (ot_tenant row) (ot_connector row) (ot_name row) (PStr a) refresh
          (w1\<lparr>ow_rows := update_where (\<lambda>r. ot_id r = ?i) (\<lambda>r. r\<lparr>ot_expires := if expires = None then ot_expires r else expires,
             ot_last_refreshed := Some now, ot_refresh_count := Suc (ot_refresh_count r),
             ot_status := ''active'', ot_last_error := None\<rparr>) (ow_rows w1)\<rparr>) = Some (Inr u, w')"
    by blast
  show ?thesis
    using store_tokens_result [OF st assms(2)] w1 e a d nonces_decrypt [OF assms(2)]
      row_of_on_row [of "\<lambda>r. r\<lparr>ot_expires := if expires = None then ot_expires r else expires, ot_last_refreshed := Some now,
        ot_refresh_count := Suc (ot_refresh_count r), ot_status := ''active'', ot_last_error := None\<rparr>" ?i w1]
    by (auto simp: json_item_def row_of_def expiry_of_def expires_in_def split: if_splits)
qed

lemma refresh_token_result:
  assumes "refresh_token env now row config w = Some (Inr u, w')"
  shows "\<exists>url body resp data. oe_post env (ow_posts w) url body = Inr resp \<and> hr_status resp < 400 \<and> hr_json resp = Some data
    \<and> update_token env now row data (w\<lparr>ow_posts := ow_posts w @ [(url, body)]\<rparr>) = Some (Inr u, w')"
  using assms unfolding refresh_token_def Let_def
  by (auto simp: bnd_liftE_returned post_returned mark_error_def on_row_def bnd_returned response_json_def not_le
      split: if_splits option.splits) blast+

text \<open>An access token that is handed out comes from the newest token of the credential set, which is
  active: it is stored and has not expired, or it is what the provider answered with when the expired token
  was refreshed, by one request, in the same call.\<close>

lemma used_token_is_valid:
  assumes "nonces_ok env" and "get_or_refresh_access_token env now tenant connector name config w = Some (Inr (Some t), w')"
  shows "\<exists>r. find_row w tenant connector name = Some r \<and> ot_status r = ''active''
    \<and> (\<not> expired_at now r \<and> decrypt (oe_cipher env) (ot_access r) = Inr t \<and> w' = w
       \<or> expired_at now r \<and> (\<exists>url body resp data. ow_posts w' = ow_posts w @ [(url, body)]
           \<and> oe_post env (ow_posts w) url body = Inr resp \<and> hr_status resp < 400 \<and> hr_json resp = Some data
           \<and> json_item data ''access_token'' = Inr (PStr t)))"
proof -
  obtain r where r: "find_row w tenant connector name = Some r" and active: "ot_status r = ''active''"
    using assms(2) by (auto simp: get_or_refresh_access_token_def split: option.splits if_splits)
  show ?thesis
  proof (cases "expired_at now r")
    case False
    then show ?thesis
      using assms(2) r active by (auto simp: get_or_refresh_access_token_def bnd_def split: sum.splits)
  next
    case True
    then obtain cfg where "catch (bnd (refresh_token env now r cfg) (\<lambda>_. bnd (read_access env (ot_id r)) (\<lambda>t. ret (Some t))))
        (\<lambda>_. bnd (mark_expired (ot_id r)) (\<lambda>_. ret None)) w = Some (Inr (Some t), w')"
      using assms(2) r active
      by (auto simp: get_or_refresh_access_token_def mark_expired_def on_row_def bnd_returned split: option.splits if_splits)
    then obtain u w1 where ref: "refresh_token env now r cfg w = Some (Inr u, w1)"
      and read: "read_access env (ot_id r) w1 = Some (Inr t, w')"
      by (rule catch_cases) (auto simp: mark_expired_def on_row_def bnd_returned elim!: bnd_cases)
    obtain url body resp data where p: "oe_post env (ow_posts w) url body = Inr resp" "hr_status resp < 400" "hr_json resp = Some data"
      and up: "update_token env now r data (w\<lparr>ow_posts := ow_posts w @ [(url, body)]\<rparr>) = Some (Inr u, w1)"
      using refresh_token_result [OF ref] by blast
    obtain r0 where "row_of (ot_id r) (w\<lparr>ow_posts := ow_posts w @ [(url, body)]\<rparr>) = Some r0"
      using find_row_mem [OF r] by (cases "row_of (ot_id r) w") (auto simp: row_of_def find_None_all)
    from update_token_result [OF up assms(1) this] obtain a r' where "json_item data ''access_token'' = Inr (PStr a)"
      "row_of (ot_id r) w1 = Some r'" "decrypt (oe_cipher env) (ot_access r') = Inr a" "ow_posts w1 = ow_posts w @ [(url, body)]"
      by auto
    moreover from this read have "w' = w1 \<and> t = a" by (auto simp: read_access_def row_of_def)
    ultimately show ?thesis using r active True p by blast
  qed
qed

lemma sample_use:
  "get_or_refresh_access_token sample_oauth_env 5 ''acme'' ''shop'' ''default'' None (one_token ''active'' 10)
     = Some (Inr (Some ''at0''), one_token ''active'' 10)"
  by (simp add: get_or_refresh_access_token_def one_token_def find_row_def sample_oauth_row_def expired_at_def sample_oauth_env_def
      decrypt_def nonce_size_def bnd_def)

lemma used_token_is_valid_witness:
  "decrypt (oe_cipher sample_oauth_env) (ot_access (sample_oauth_row ''active'' 10)) = Inr ''at0''"
proof -
  have "find_row (one_token ''active'' 10) ''acme'' ''shop'' ''default'' = Some (sample_oauth_row ''active'' 10)"
    "\<not> expired_at 5 (sample_oauth_row ''active'' 10)"
    by (simp_all add: one_token_def find_row_def sample_oauth_row_def expired_at_def)
  with used_token_is_valid [OF sample_nonces sample_use] show ?thesis by auto
qed

section \<open>Refreshes that go wrong\<close>

text \<open>A refresh the provider refuses, whatever the reason, ends automatic refreshing of the token.\<close>

lemma refused_refresh_marks_error:
  assumes "decrypt (oe_cipher env) x = Inr old" and "ot_refresh row = Some x" and "old \<noteq> []"
    and "resolve_oauth2_config env config = Inr resolved" and "dict_item resolved ''token_url'' = Inr url"
    and "\<And>ps u b. oe_post env ps u b = Inr resp" and "400 \<le> hr_status resp" and "row_of (ot_id row) w = Some r"
  shows "\<exists>e t. refresh_token env now row config w = Some (Inl e, t) \<and> map_option ot_status (row_of (ot_id row) t) = Some ''error''"
  using assms row_of_on_row [of "\<lambda>r. r\<lparr>ot_status := ''error'', ot_last_error := Some m\<rparr>" "ot_id row" w for m]
  by (auto simp: refresh_token_def send_post_def mark_error_def on_row_def bnd_def Let_def row_of_def)

text \<open>Without a refresh token the code does not reach its own error, because the empty text does not decrypt.\<close>

lemma missing_refresh_token_does_not_decrypt:
  assumes "ot_refresh row = None" and "decrypt (oe_cipher env) [] = Inl decrypt_error"
  shows "refresh_token env now row config w = Some (Inl decrypt_error, w)"
  using assms by (simp add: refresh_token_def bnd_def)

text \<open>An answer without a lifetime leaves the old expiry, so that a token refreshed after it expired is still expired.\<close>

lemma token_without_lifetime_stays_expired:
  assumes "update_token env now row (PDict d) w = Some (Inr u, w')" and "nonces_ok env" and "row_of (ot_id row) w = Some r0"
    and "expired_at now r0" and "\<not> truthy (dget d ''expires_in'' PNone)"
  shows "\<exists>r. row_of (ot_id row) w' = Some r \<and> expired_at now r"
  using update_token_result [OF assms(1-3)] assms(4,5) by (auto simp: expired_at_def)

text \<open>A refresh on request makes a revoked token active again.\<close>

lemma refresh_reactivates:
  assumes "refresh_token env now row config w = Some (Inr u, w')" and "nonces_ok env" and "row_of (ot_id row) w = Some r0"
  shows "map_option ot_status (row_of (ot_id row) w') = Some ''active''"
proof -
  obtain data p where "update_token env now row data (w\<lparr>ow_posts := p\<rparr>) = Some (Inr u, w')"
    using refresh_token_result [OF assms(1)] by blast
  moreover have "row_of (ot_id row) (w\<lparr>ow_posts := p\<rparr>) = Some r0" using assms(3) by (simp add: row_of_def)
  ultimately show ?thesis using update_token_result [OF _ assms(2)] by fastforce
qed

end
