(* ===== verification/KafkaBridge.thy ===== *)
theory KafkaBridge
  imports EventGateway ConnectorActions
begin

text \<open>
  The Kafka bridge (\<^verbatim>\<open>core/kafka_event_consumer.py\<close>): what a message causes, for the tenant it names or for
  every active tenant, and the pauses between attempts to reconnect.  The consumer of messages is a
  library of the platform's connectors and not part of the model.
\<close>

section \<open>Actions of flows\<close>

text \<open>The names a Python function accepts, and the first keyword of a call it does not.\<close>

definition unexpected_keyword :: "string list \<Rightarrow> string list \<Rightarrow> string option" where
  "unexpected_keyword parameters keywords = find (\<lambda>k. k \<notin> set parameters) keywords"

definition unexpected_keyword_error :: "string \<Rightarrow> string \<Rightarrow> exn" where
  "unexpected_keyword_error function k =
     TypeError (function @ ''() got an unexpected keyword argument '' @ [single_quote] @ k @ [single_quote])"

text \<open>How the flow engine calls \<^verbatim>\<open>execute_action_fn\<close>, and what the function of the bridge accepts.\<close>

definition flow_action_keywords :: "string list" where
  "flow_action_keywords = [''connector_name'', ''action'', ''payload'', ''tenant_id'', ''connector_version'']"

definition bridge_action_parameters :: "string list" where
  "bridge_action_parameters = [''connector_name'', ''action'', ''payload'', ''tenant_id'', ''credential_name'']"

definition bridge_action_name :: string where
  "bridge_action_name = ''KafkaEventBridge._process_for_tenant.<locals>.execute_action_for_flow''"

text \<open>The body of the function: credentials that cannot be read are left out, and neither the OAuth2 token nor
  the version of the connector is looked up.\<close>

definition bridge_action :: "dispatcher \<Rightarrow> cipher \<Rightarrow> vault \<Rightarrow> rat \<Rightarrow> flow_call \<Rightarrow> pyval dact" where
  "bridge_action ds ci v now c =
     (case fc_payload c of
        PDict payload \<Rightarrow>
          dispatch_action ds now (fc_connector c) (fc_action c) payload (fc_tenant c)
            (case retrieve_all ci v (fc_tenant c) (fc_connector c) ''default'' of Inr creds \<Rightarrow> Some creds | Inl _ \<Rightarrow> None) None
      | _ \<Rightarrow> throw (attr_error (fc_payload c) ''get''))"

record bridge =
  kb_engines :: engines
  kb_tenants :: "tenant list"
  kb_uuid :: "string \<Rightarrow> string option"
  kb_dispatcher :: dispatcher
  kb_cipher :: cipher
  kb_vault :: vault
  kb_clock :: rat
  kb_run :: "flow_call list \<Rightarrow> pyval dact \<Rightarrow> pyval py"

text \<open>A call of the function by the flow engine; \<open>kb_run\<close> is the outcome of a body after the calls made so far.\<close>

definition bridge_execute :: "bridge \<Rightarrow> flow_call list \<Rightarrow> flow_call \<Rightarrow> pyval py" where
  "bridge_execute br calls c =
     (case unexpected_keyword bridge_action_parameters flow_action_keywords of
        Some k \<Rightarrow> Inl (unexpected_keyword_error bridge_action_name k)
      | None \<Rightarrow> kb_run br calls (bridge_action (kb_dispatcher br) (kb_cipher br) (kb_vault br) (kb_clock br) c))"

definition bridge_engines :: "bridge \<Rightarrow> engines" where
  "bridge_engines br = (kb_engines br)\<lparr>eg_flows := (eg_flows (kb_engines br))\<lparr>fg_execute := bridge_execute br\<rparr>\<rparr>"

section \<open>Messages\<close>

text \<open>An exception of the workflow engine or of the flow engine is logged.\<close>

definition process_for_tenant :: "bridge \<Rightarrow> nat \<Rightarrow> int \<Rightarrow> string \<Rightarrow> string \<Rightarrow> pydict \<Rightarrow> string \<Rightarrow> unit wact" where
  "process_for_tenant br fuel now connector event data tenant =
     bnd (catch (bnd (workflows_for_event (bridge_engines br) fuel now tenant connector event data) (\<lambda>_. ret ())) (\<lambda>_. ret ())) (\<lambda>_.
     catch (bnd (flows_for_event (bridge_engines br) tenant connector event data) (\<lambda>_. ret ())) (\<lambda>_. ret ()))"

text \<open>Names that are not texts match no workflow and no flow: the queries fail and are logged.\<close>

definition handle_message :: "bridge \<Rightarrow> nat \<Rightarrow> int \<Rightarrow> pydict \<Rightarrow> unit wact" where
  "handle_message br fuel now message =
     (let connector = dget message ''connector_name'' (PStr []);
          event = dget message ''event'' (PStr []);
          data = dget message ''data'' (PDict []) in
      if \<not> truthy connector \<or> \<not> truthy event then ret ()
      else case data of
        PDict d \<Rightarrow>
          (case event_tenants (fg_rt (eg_flows (kb_engines br))) (kb_uuid br) (kb_tenants br) d of
             None \<Rightarrow> ret ()
           | Some ts \<Rightarrow>
               (case (connector, event) of
                  (PStr c, PStr e) \<Rightarrow> for_each (process_for_tenant br fuel now c e d) ts
                | _ \<Rightarrow> ret ()))
      | _ \<Rightarrow> throw (attr_error data ''get''))"

section \<open>Reconnecting\<close>

text \<open>The pause before the next attempt, and what it becomes when the attempt succeeds or fails.\<close>

definition reconnect_base_delay :: rat where "reconnect_base_delay = 2"
definition reconnect_max_delay :: rat where "reconnect_max_delay = 60"

definition next_delay :: "rat \<Rightarrow> bool \<Rightarrow> rat" where
  "next_delay delay reconnected = (if reconnected then reconnect_base_delay else min (delay * 2) reconnect_max_delay)"

fun reconnect_delays :: "rat \<Rightarrow> bool list \<Rightarrow> rat list" where
  "reconnect_delays delay [] = []"
| "reconnect_delays delay (ok # oks) = delay # reconnect_delays (next_delay delay ok) oks"

end
