(* ===== verification/EventProps.thy ===== *)
theory EventProps
  imports KafkaBridge GatewayProps
begin

text \<open>Properties of events that arrive through the gateway or through Kafka: for which tenants they may cause
  calls, and what flows do with a message of Kafka.\<close>

section \<open>Whose calls\<close>

definition calls_among :: "string set \<Rightarrow> engine_world \<Rightarrow> engine_world \<Rightarrow> bool" where
  "calls_among Ts w w' \<longleftrightarrow>
     (\<exists>new. ew_flow_calls w' = ew_flow_calls w @ new \<and> (\<forall>c \<in> set new. fc_tenant c \<in> Ts))
     \<and> (\<exists>new. w_calls (ps_world (ew_state w')) = w_calls (ps_world (ew_state w)) @ new
         \<and> (\<forall>c \<in> set new. case call_tenant c of None \<Rightarrow> True | Some t \<Rightarrow> t \<in> Ts))"

interpretation among: effect_rel "calls_among Ts"
proof
  show "calls_among Ts s s" for s by (simp add: calls_among_def)
next
  fix s t u assume "calls_among Ts s t" "calls_among Ts t u"
  then obtain f1 c1 f2 c2 where "ew_flow_calls t = ew_flow_calls s @ f1" "\<forall>c \<in> set f1. fc_tenant c \<in> Ts"
    "w_calls (ps_world (ew_state t)) = w_calls (ps_world (ew_state s)) @ c1"
    "\<forall>c \<in> set c1. case call_tenant c of None \<Rightarrow> True | Some t \<Rightarrow> t \<in> Ts"
    "ew_flow_calls u = ew_flow_calls t @ f2" "\<forall>c \<in> set f2. fc_tenant c \<in> Ts"
    "w_calls (ps_world (ew_state u)) = w_calls (ps_world (ew_state t)) @ c2"
    "\<forall>c \<in> set c2. case call_tenant c of None \<Rightarrow> True | Some t \<Rightarrow> t \<in> Ts"
    unfolding calls_among_def by blast
  then show "calls_among Ts s u"
    unfolding calls_among_def by (intro conjI exI [of _ "f1 @ f2"] exI [of _ "c1 @ c2"]) auto
qed

lemma among_flows: "tenant \<in> Ts \<Longrightarrow> keeps (calls_among Ts) (flows_for_event eg tenant connector event data)"
proof -
  assume T: "tenant \<in> Ts"
  have "calls_among Ts w (w\<lparr>ew_flow_calls := snd (flow_process_event (eg_flows eg) tenant connector event data (ew_flow_calls w))\<rparr>)" for w
    using flow_event_tenant [of "eg_flows eg" tenant connector event data "ew_flow_calls w"] T
    by (auto simp: calls_among_def)
  from this [of s for s] show ?thesis by (auto simp: keeps_def flows_for_event_def split: prod.splits) (metis snd_conv)
qed

lemma among_workflows: "tenant \<in> Ts \<Longrightarrow> keeps (calls_among Ts) (workflows_for_event eg fuel now tenant connector event data)"
proof -
  assume T: "tenant \<in> Ts"
  have "calls_among Ts w (w\<lparr>ew_state := s\<rparr>)"
    if "process_event (eg_workflows eg) fuel (eg_digest eg) now tenant connector event data (ew_state w) = Some (r, s)" for w r s
    using process_event_calls [OF that] T
    by (fastforce simp: calls_among_def pcalls_def extends_calls_def split: option.splits)
  then show ?thesis by (auto simp: keeps_def workflows_for_event_def split: option.splits)
qed

lemma among_both: "tenant \<in> Ts \<Longrightarrow> keeps (calls_among Ts) (both_for_event eg fuel now connector event data tenant)"
  unfolding both_for_event_def by (intro among.keeps_bnd among.keeps_pure among_flows among_workflows)

lemma among_session: "keeps (calls_among Ts) m \<Longrightarrow> keeps (calls_among Ts) (in_session m)"
  by (auto simp: keeps_def in_session_def calls_among_def split: option.splits prod.splits sum.splits)

lemma among_message_tenant: "tenant \<in> Ts \<Longrightarrow> keeps (calls_among Ts) (process_for_tenant br fuel now connector event data tenant)"
  unfolding process_for_tenant_def
  by (intro among.keeps_bnd among.keeps_catch among.keeps_pure among_flows among_workflows)

text \<open>The tenants an event is for: the active ones, and only the one it names.\<close>

definition addressed :: "pyrt \<Rightarrow> (string \<Rightarrow> string option) \<Rightarrow> tenant list \<Rightarrow> pydict \<Rightarrow> string set" where
  "addressed rt uuid tenants data =
     {te_id t |t. t \<in> set tenants \<and> te_active t
        \<and> (truthy (dget data ''_tenant_id'' PNone) \<longrightarrow> uuid (py_str rt (dget data ''_tenant_id'' PNone)) = Some (te_id t))}"

lemma event_tenants_addressed: "event_tenants rt uuid tenants data = Some ts \<Longrightarrow> set ts = addressed rt uuid tenants data"
  by (auto simp: event_tenants_def addressed_def Let_def split: if_splits option.splits)

text \<open>C40: An event that reaches the platform from a connector, over HTTP or over Kafka, causes calls of flows
  and workflows only for active tenants, and only for the one tenant it names when it names one.\<close>

theorem event_stays_with_addressed_tenants:
  assumes "internal_trigger_event eg uuid tenants fuel now connector event data w = Some (r, w1)"
    and "handle_message br fuel now [(''connector_name'', PStr connector), (''event'', PStr event), (''data'', PDict data)] w = Some (r', w2)"
  shows "calls_among (addressed (fg_rt (eg_flows eg)) uuid tenants data) w w1
    \<and> calls_among (addressed (fg_rt (eg_flows (kb_engines br))) (kb_uuid br) (kb_tenants br) data) w w2"
proof
  let ?Ts = "addressed (fg_rt (eg_flows eg)) uuid tenants data"
  have "keeps (calls_among ?Ts) (internal_trigger_event eg uuid tenants fuel now connector event data)"
  proof (cases "event_tenants (fg_rt (eg_flows eg)) uuid tenants data")
    case None
    then show ?thesis by (simp add: internal_trigger_event_def among.keeps_pure)
  next
    case (Some ts)
    have "keeps (calls_among ?Ts) (map_each (both_for_event eg fuel now connector event data) ts)"
      by (rule among.keeps_map_each_on) (use event_tenants_addressed [OF Some] among_both in blast)
    with Some show ?thesis
      by (auto simp: internal_trigger_event_def intro!: among_session among.keeps_bnd among.keeps_pure)
  qed
  from keepsD [OF this assms(1)] show "calls_among ?Ts w w1" .
next
  let ?Ts = "addressed (fg_rt (eg_flows (kb_engines br))) (kb_uuid br) (kb_tenants br) data"
  have "keeps (calls_among ?Ts)
      (handle_message br fuel now [(''connector_name'', PStr connector), (''event'', PStr event), (''data'', PDict data)])"
  proof (cases "event_tenants (fg_rt (eg_flows (kb_engines br))) (kb_uuid br) (kb_tenants br) data")
    case None
    then show ?thesis by (simp add: handle_message_def Let_def dget_def among.keeps_pure)
  next
    case (Some ts)
    have "keeps (calls_among ?Ts) (for_each (process_for_tenant br fuel now connector event data) ts)"
      by (rule among.keeps_for_each_on) (use event_tenants_addressed [OF Some] among_message_tenant in blast)
    with Some show ?thesis by (simp add: handle_message_def Let_def dget_def among.keeps_pure)
  qed
  from keepsD [OF this assms(2)] show "calls_among ?Ts w w2" .
qed

definition sample_event_data :: pydict where
  "sample_event_data = [(''_tenant_id'', PStr ''acme'')]"

definition sample_tenants :: "tenant list" where
  "sample_tenants = [\<lparr>te_id = ''acme'', te_active = True\<rparr>, \<lparr>te_id = ''other'', te_active = True\<rparr>]"

definition sample_bridge :: bridge where
  "sample_bridge =
     \<lparr>kb_engines = sample_engines, kb_tenants = sample_tenants, kb_uuid = Some,
      kb_dispatcher = \<lparr>ds_rt = sample_rt, ds_b64decode = (\<lambda>_. None), ds_status_text = (\<lambda>_. []), ds_registry = None, ds_limiter = None,
        ds_http = (\<lambda>_ _. Inl no_tenant_error)\<rparr>,
      kb_cipher = \<lparr>ci_seal = (\<lambda>_ p. p), ci_open = (\<lambda>_ c. Some c), ci_b64encode = (\<lambda>x. x), ci_b64decode = Some\<rparr>,
      kb_vault = \<lparr>va_credentials = [], va_tokens = []\<rparr>, kb_clock = 0, kb_run = (\<lambda>_ _. Inl no_tenant_error)\<rparr>"

lemma sample_workflows_return:
  "workflows_for_event (eg\<lparr>eg_workflows := sample_engine []\<rparr>) fuel now tenant connector event data w = Some (Inr [], w)"
  by (simp add: workflows_for_event_def process_event_def get_workflows_for_event_def sample_engine_def
      matched_workflows_def List.map_filter_def)

lemma sample_engines_return:
  "workflows_for_event sample_engines fuel now tenant connector event data w = Some (Inr [], w)"
  "workflows_for_event (bridge_engines sample_bridge) fuel now tenant connector event data w = Some (Inr [], w)"
  using sample_workflows_return [of sample_engines fuel now tenant connector event data w]
    sample_workflows_return [of "bridge_engines sample_bridge" fuel now tenant connector event data w]
  by (simp_all add: sample_engines_def bridge_engines_def sample_bridge_def)

theorem event_stays_with_addressed_tenants_witness:
  "\<exists>r w1 r' w2.
     internal_trigger_event sample_engines Some sample_tenants 202 0 ''shop'' ''order'' sample_event_data sample_engine_world = Some (r, w1)
     \<and> handle_message sample_bridge 202 0 [(''connector_name'', PStr ''shop''), (''event'', PStr ''order''), (''data'', PDict sample_event_data)]
         sample_engine_world = Some (r', w2)
     \<and> calls_among {''acme''} sample_engine_world w1 \<and> calls_among {''acme''} sample_engine_world w2"
proof -
  have ts: "event_tenants rt Some sample_tenants sample_event_data = Some [''acme'']" for rt
    by (simp add: event_tenants_def sample_tenants_def sample_event_data_def dget_def)
  have who: "addressed rt Some sample_tenants sample_event_data = {''acme''}" for rt
    using event_tenants_addressed [OF ts] by simp
  have flows: "\<exists>r w1. flows_for_event eg tenant connector event data w = Some (Inr r, w1)" for eg tenant connector event data w
    by (simp add: flows_for_event_def split: prod.split)
  obtain r w1 where i: "internal_trigger_event sample_engines Some sample_tenants 202 0 ''shop'' ''order'' sample_event_data sample_engine_world = Some (r, w1)"
    using flows [of sample_engines "''acme''" "''shop''" "''order''" sample_event_data sample_engine_world]
    by (auto simp: internal_trigger_event_def ts both_for_event_def in_session_def bnd_def sample_engines_return)
  obtain r' w2 where m: "handle_message sample_bridge 202 0 [(''connector_name'', PStr ''shop''), (''event'', PStr ''order''),
      (''data'', PDict sample_event_data)] sample_engine_world = Some (r', w2)"
    using flows [of "bridge_engines sample_bridge" "''acme''" "''shop''" "''order''" sample_event_data sample_engine_world]
    by (auto simp: handle_message_def Let_def dget_def process_for_tenant_def catch_def bnd_def sample_engines_return
        ts [of "fg_rt (eg_flows (kb_engines sample_bridge))"] sample_bridge_def [THEN arg_cong, of kb_uuid, simplified]
        sample_bridge_def [THEN arg_cong, of kb_tenants, simplified])
  from event_stays_with_addressed_tenants [OF i m] i m show ?thesis
    by (simp add: who sample_bridge_def [THEN arg_cong, of kb_uuid, simplified] sample_bridge_def [THEN arg_cong, of kb_tenants, simplified])
qed

section \<open>Flows of a message\<close>

lemma bridge_never_executes:
  "bridge_execute br calls c = Inl (unexpected_keyword_error bridge_action_name ''connector_version'')"
proof -
  have "unexpected_keyword bridge_action_parameters flow_action_keywords = Some ''connector_version''" by code_simp
  then show ?thesis by (simp add: bridge_execute_def)
qed

lemma failing_attempts:
  assumes "\<And>calls. exec calls c = Inl e"
  shows "(case fst (flow_attempts exec c a n calls) of Some (Inr _, _) \<Rightarrow> False | _ \<Rightarrow> True)"
  by (induction n arbitrary: a calls) (auto simp: assms split: option.split)

definition not_executed :: "flow_execution \<Rightarrow> bool" where
  "not_executed ex \<longleftrightarrow> fe_status ex \<noteq> ''success'' \<and> fe_result ex = None"

lemma failing_flow_not_executed:
  assumes "\<And>calls c. fg_execute fg calls c = Inl e"
  shows "not_executed (fst (execute_flow fg fl data calls))"
proof (cases "matches_filter data (fl_source_filter fl)")
  case False
  then show ?thesis by (simp add: execute_flow_def not_executed_def new_flow_execution_def)
next
  case True
  show ?thesis
  proof (cases "flow_payload fg fl data")
    case (Inl exc)
    with True show ?thesis by (simp add: execute_flow_def not_executed_def new_flow_execution_def Let_def)
  next
    case (Inr payload)
    have "case fst (flow_attempts (fg_execute fg) (flow_action fl payload) 0 (max_attempts fl) calls) of Some (Inr _, _) \<Rightarrow> False | _ \<Rightarrow> True"
      using failing_attempts [of "fg_execute fg" _ e] assms by blast
    then show ?thesis
      using True Inr by (auto simp: execute_flow_def not_executed_def new_flow_execution_def Let_def
          split: prod.splits option.splits sum.splits)
  qed
qed

lemma failing_flows_not_executed:
  assumes "\<And>calls c. fg_execute fg calls c = Inl e"
  shows "list_all not_executed (fst (execute_flows fg data fls calls))"
proof (induction fls arbitrary: calls)
  case (Cons fl fls)
  have "not_executed (fst (execute_flow fg fl data calls))"
    using assms by (rule failing_flow_not_executed)
  then show ?case using Cons [of "snd (execute_flow fg fl data calls)"] by (simp add: case_prod_beta Let_def)
qed simp

text \<open>No flow that a message of Kafka starts executes its action: the function of the bridge does not take
  the version of the connector that the flow engine passes, so every call raises before anything is dispatched,
  and what would be dispatched makes no difference.\<close>

lemma kafka_flows_do_not_execute:
  "list_all not_executed (fst (flow_process_event (eg_flows (bridge_engines br)) tenant connector event data calls))
   \<and> handle_message (br\<lparr>kb_run := run\<rparr>) fuel now message = handle_message br fuel now message"
proof
  show "list_all not_executed (fst (flow_process_event (eg_flows (bridge_engines br)) tenant connector event data calls))"
    unfolding flow_process_event_def
    by (rule failing_flows_not_executed [where e = "unexpected_keyword_error bridge_action_name ''connector_version''"])
      (simp add: bridge_engines_def bridge_never_executes)
next
  have "bridge_execute (br\<lparr>kb_run := run\<rparr>) = bridge_execute br"
    by (rule ext)+ (simp add: bridge_never_executes)
  then have "bridge_engines (br\<lparr>kb_run := run\<rparr>) = bridge_engines br" by (simp add: bridge_engines_def)
  then have same: "process_for_tenant (br\<lparr>kb_run := run\<rparr>) fuel now = process_for_tenant br fuel now"
    by (intro ext) (simp add: process_for_tenant_def)
  have fds: "kb_engines (br\<lparr>kb_run := run\<rparr>) = kb_engines br" "kb_uuid (br\<lparr>kb_run := run\<rparr>) = kb_uuid br"
    "kb_tenants (br\<lparr>kb_run := run\<rparr>) = kb_tenants br"
    by simp_all
  show "handle_message (br\<lparr>kb_run := run\<rparr>) fuel now message = handle_message br fuel now message"
    unfolding handle_message_def same fds ..
qed

section \<open>Reconnecting\<close>

lemma reconnect_delay_bounds:
  assumes "reconnect_base_delay \<le> delay" and "delay \<le> reconnect_max_delay" and "d \<in> set (reconnect_delays delay oks)"
  shows "reconnect_base_delay \<le> d \<and> d \<le> reconnect_max_delay"
  using assms
  by (induction delay oks rule: reconnect_delays.induct)
    (auto simp: next_delay_def reconnect_base_delay_def reconnect_max_delay_def min_def)

end
