(* ===== verification/EngineProps.thy ===== *)
theory EngineProps
  imports EngineEffects EngineTotal Samples
begin

text \<open>
  Properties of workflow runs: they return, what they may do to the outside, how
  they end and which node they blame, and how single nodes behave on their
  success, filter, failure and retry paths.
\<close>

section \<open>Runs of a workflow\<close>

lemma run_workflow_result:
  assumes "run_workflow en fuel wfl trigger d chain w = Some (ex, w')"
  obtains k r u where "fuel = Suc k"
    and "run_from_trigger (execute_nodes (run_single en k wfl (workflow_graph wfl))) (en_rt en) (workflow_graph wfl)
           trigger (start_context wfl trigger d chain w) = Some (r, u)"
    and "ex = finish_execution ''Workflow execution'' wfl (new_execution en wfl trigger w) r u" and "w' = st_world u"
  using assms
  by (cases fuel) (auto simp: Let_def workflow_graph_def workflow_body_def finish_run_def split: option.splits)

lemma sample_run_exists:
  assumes "guarded_workflow wfl" and "202 \<le> fuel"
  shows "\<exists>ex w'. execute_workflow (sample_engine []) fuel wfl trigger d w = Some (ex, w')"
  using run_workflow_returns [of "sample_engine []" wfl "[]" fuel trigger d w] assms
  by (simp add: execute_workflow_def unvisited_def sample_engine_def)

lemma cyclic_guarded: "guarded_workflow cyclic_workflow"
  by (simp add: sample_defs guarded_workflow_def guarded_node_def)

text \<open>C1: Every workflow built from nodes other than parallel and error handler nodes, and
  batches that admit at least one item at a time, terminates, for any edges: the depth guard
  ends cycles and the chain check ends recursive sub-workflows.  A number of node calls that
  depends only on the number of workflows is enough, and more fuel gives the same result.\<close>

theorem execute_workflow_terminates:
  assumes "guarded_workflow wfl" and "list_all guarded_workflow (en_workflows en)"
  shows "\<exists>ex w'. \<forall>fuel \<ge> 202 * Suc (length (en_workflows en)).
           execute_workflow en fuel wfl trigger dry_run w = Some (ex, w')"
proof -
  let ?f = "202 * Suc (length (en_workflows en))"
  have "202 * Suc (unvisited en ([] @ [wf_id wfl])) \<le> ?f"
    using unvisited_le [of en "[] @ [wf_id wfl]"] by simp
  then obtain ex w' where "run_workflow en ?f wfl trigger dry_run [] w = Some (ex, w')"
    using run_workflow_returns [of en wfl "[]" ?f trigger dry_run w] assms by (auto simp: list_all_iff)
  then show ?thesis unfolding execute_workflow_def by (blast intro: run_workflow_mono)
qed

theorem execute_workflow_terminates_witness:
  "\<exists>ex w'. \<forall>fuel \<ge> 202 * Suc (length (en_workflows (sample_engine []))).
     execute_workflow (sample_engine []) fuel cyclic_workflow [] False sample_world = Some (ex, w')"
  by (rule execute_workflow_terminates) (simp_all add: cyclic_guarded, simp add: sample_engine_def)

text \<open>C3: A dry run never reaches a connector, the credential store or a remote host, whatever
  the nodes of the workflow and of its sub-workflows.\<close>

theorem dry_run_makes_no_calls:
  assumes "execute_workflow en fuel wfl trigger True w = Some (ex, w')"
  shows "w_calls w' = w_calls w"
  using workflow_run_calls [OF assms] by (simp add: extends_calls_def)

theorem dry_run_makes_no_calls_witness:
  "\<exists>ex w'. execute_workflow (sample_engine []) 202 cyclic_workflow [] True sample_world = Some (ex, w')
      \<and> w_calls w' = []"
  using sample_run_exists [OF cyclic_guarded, of 202] dry_run_makes_no_calls [where w = sample_world]
  by (fastforce simp: sample_world_def)

text \<open>C2: A run only adds calls to the log, and every connector action and every credential
  lookup it makes, directly or in a sub-workflow, is made for the tenant that owns the
  workflow.\<close>

theorem calls_stay_in_tenant:
  assumes "execute_workflow en fuel wfl trigger dry_run w = Some (ex, w')"
  shows "\<exists>new. w_calls w' = w_calls w @ new \<and>
           (\<forall>c \<in> set new. case call_tenant c of None \<Rightarrow> True | Some t \<Rightarrow> t = wf_tenant wfl)"
  using workflow_run_calls [OF assms] unfolding extends_calls_def by fastforce

theorem calls_stay_in_tenant_witness:
  "\<exists>ex w' new. execute_workflow (sample_engine []) 202 cyclic_workflow [] False sample_world = Some (ex, w')
      \<and> w_calls w' = new \<and> (\<forall>c \<in> set new. case call_tenant c of None \<Rightarrow> True | Some t \<Rightarrow> t = ''acme'')"
proof -
  obtain ex w' where run: "execute_workflow (sample_engine []) 202 cyclic_workflow [] False sample_world = Some (ex, w')"
    using sample_run_exists [OF cyclic_guarded, of 202] by blast
  have tenant: "wf_tenant cyclic_workflow = ''acme''" and none: "w_calls sample_world = []"
    by (simp_all add: sample_defs)
  from calls_stay_in_tenant [OF run] run show ?thesis unfolding tenant none by auto
qed

text \<open>C20: A finished execution is either successful without an error or failed with one; it keeps
  every key of the trigger data in its final data, and belongs to the tenant and the workflow
  it was started for.\<close>

theorem execution_outcome:
  assumes "execute_workflow en fuel wfl trigger dry_run w = Some (ex, w')"
  shows "(ex_status ex = ''success'' \<and> ex_error ex = None \<or> ex_status ex = ''failed'' \<and> ex_error ex \<noteq> None)
    \<and> fst ` set trigger \<subseteq> fst ` set (ex_snapshot_data ex)
    \<and> ex_tenant_id ex = wf_tenant wfl \<and> ex_workflow_id ex = wf_id wfl"
proof -
  let ?g = "workflow_graph wfl"
  from assms obtain k r u where
    run: "run_from_trigger (execute_nodes (run_single en k wfl ?g)) (en_rt en) ?g trigger
            (start_context wfl trigger dry_run [] w) = Some (r, u)"
    and ex: "ex = finish_execution ''Workflow execution'' wfl (new_execution en wfl trigger w) r u"
    unfolding execute_workflow_def by (rule run_workflow_result)
  have "fst ` set trigger \<subseteq> fst ` set (cx_data u)"
  proof (cases "find_trigger ?g")
    case None
    with run show ?thesis by (auto simp: run_from_trigger_def start_context_def new_context_def)
  next
    case (Some t)
    have "eff (wf_tenant wfl) dry_run (triggered t trigger (start_context wfl trigger dry_run [] w)) u"
      by (rule run_from_trigger_eff [OF rn_ok_execute_nodes [OF run_single_ok] run Some]) (simp add: start_context_def)
    then show ?thesis by (simp add: eff_def triggered_def start_context_def)
  qed
  then show ?thesis
    by (cases r) (auto simp: ex finish_execution_def new_execution_def)
qed

theorem execution_outcome_witness:
  "\<exists>ex w'. execute_workflow (sample_engine []) 202 cyclic_workflow [(''id'', PInt 7)] False sample_world = Some (ex, w')
      \<and> (ex_error ex = None \<longleftrightarrow> ex_status ex = ''success'') \<and> ''id'' \<in> fst ` set (ex_snapshot_data ex)"
proof -
  obtain ex w' where run: "execute_workflow (sample_engine []) 202 cyclic_workflow [(''id'', PInt 7)] False sample_world
      = Some (ex, w')"
    using sample_run_exists [OF cyclic_guarded, of 202] by blast
  from execution_outcome [OF run] run show ?thesis by force
qed

section \<open>Which node an execution blames\<close>

lemma py_cmp_int_error: "py_cmp CGt v (PInt i) = Inl e \<Longrightarrow> exn_node_id e = None"
  by (cases v) (auto simp: cmp_type_error_def)

lemma retry_plan_error: "retry_plan wfl n = Inl e \<Longrightarrow> exn_node_id e = None"
  by (auto simp: retry_plan_def retry_range_def Let_def andThen_eq_Inl py_cmp_int_error
      split: if_splits pyval.splits)

lemma find_handler_error: "find_handler_in nid ns = Inl e \<Longrightarrow> exn_node_id e = None"
  by (induction nid ns rule: find_handler_in.induct)
     (auto simp: andThen_eq_Inl py_in_def not_iterable_error_def split: if_splits pyval.splits)

lemma raises_retry_loop: "P (OverflowError ''int too large to convert to float'') \<Longrightarrow> raises P (retry_loop f as)"
  by (induction as) (auto intro!: raises_rules)

definition blames :: "string set \<Rightarrow> exn \<Rightarrow> bool" where
  "blames ids e \<longleftrightarrow> (case exn_node_id e of None \<Rightarrow> True | Some i \<Rightarrow> i \<in> ids)"

text \<open>Nodes whose failure is raised: no handler node, and not continued.\<close>

definition fails_hard :: "workflow \<Rightarrow> node \<Rightarrow> bool" where
  "fails_hard wfl n \<longleftrightarrow> n_type n \<noteq> ''error_handler'' \<and>
     \<not> py_eq (dget (n_config n) ''on_error'' (PStr (wf_on_error wfl))) (PStr ''continue'')"

lemma no_handler_found:
  assumes "\<forall>n \<in> graph_nodes g. n_type n \<noteq> ''error_handler''"
  shows "find_error_handler g nid \<noteq> Inr (Some h)"
proof -
  have "find_handler_in nid ns = Inr (Some h) \<Longrightarrow> \<exists>n \<in> set ns. n_type n = ''error_handler''" for ns
    by (induction nid ns rule: find_handler_in.induct) (auto simp: andThen_eq_Inr split: if_splits)
  then show ?thesis
    using assms unfolding find_error_handler_def graph_nodes_def by fastforce
qed

lemma give_up_blames:
  assumes "fails_hard wfl n" and "\<forall>n \<in> graph_nodes g. fails_hard wfl n"
  shows "raises (blames {n_id n}) (give_up rn rs wfl g n depth entry exc)"
proof -
  have h: "find_error_handler g (n_id n) \<noteq> Inr (Some h)" for h
    by (rule no_handler_found) (use assms in \<open>simp add: fails_hard_def\<close>)
  have err: "find_error_handler g (n_id n) = Inl e \<Longrightarrow> blames {n_id n} e" for e
    by (auto simp: find_error_handler_def blames_def dest: find_handler_error)
  have lookup: "raises (blames {n_id n}) (bnd (liftE (find_error_handler g (n_id n))) f)"
    if "raises (blames {n_id n}) (f None)" for f :: "node option \<Rightarrow> unit eact"
    using that h err by (cases "find_error_handler g (n_id n)") (auto simp: raises_def)
  have commit: "raises (blames {n_id n}) (commit_entry entry (entry_failed (exn_str exc)))"
    by (simp add: commit_entry_def)
  show ?thesis
    unfolding give_up_def using assms(1)
    by (intro raises_bnd [OF commit] lookup)
       (simp add: fails_hard_def Let_def raises_throw node_failed_error_def blames_def)
qed

lemma merge_guard_blames: "raises (blames ids) (merge_guard g nid)"
proof -
  have "executed_predecessors es c = Inl e \<Longrightarrow> blames ids e" for es c e
    by (cases es) (auto simp: unhashable_error_def blames_def)
  then show ?thesis
    unfolding merge_guard_def ctx_now_def by (intro raises_rules | simp add: Let_def)+
qed

lemma single_node_blames:
  assumes "fails_hard wfl n" and "\<forall>n \<in> graph_nodes g. fails_hard wfl n"
  shows "raises (blames {n_id n}) (single_node rn rs rw en wfl g n depth)"
proof -
  have "raises (blames {n_id n}) (handle_failure rn rs en wfl g n depth entry exc)" for entry exc
    unfolding handle_failure_def
    by (intro raises_rules raises_retry_loop give_up_blames assms)
       (auto simp: blames_def dest: retry_plan_error)
  moreover have "raises (blames {n_id n}) alloc_oid" by (simp add: raises_def alloc_oid_def)
  ultimately show ?thesis
    unfolding single_node_def by (intro raises_rules merge_guard_blames)
qed

lemma run_from_trigger_blames:
  assumes "\<forall>n \<in> graph_nodes g. fails_hard wfl n" and "find_trigger g = Some t"
  shows "raises (blames (n_id ` set (get_successors g (n_id t) None)))
           (run_from_trigger (execute_nodes (run_single en k wfl g)) rt g trigger)"
proof -
  let ?ids = "n_id ` set (get_successors g (n_id t) None)"
  have one: "raises (blames ?ids) (run_single en k wfl g n 0)" if n: "n \<in> set (get_successors g (n_id t) None)" for n
  proof (cases k)
    case (Suc j)
    have "raises (blames {n_id n}) (run_single en k wfl g n 0)"
      unfolding Suc run_single.simps
      by (rule single_node_blames) (use assms(1) n successors_in_graph in blast)+
    with n show ?thesis unfolding raises_def blames_def by (fastforce split: option.splits)
  qed (simp add: raises_def)
  have prims: "raises (blames ?ids) alloc_oid" by (simp add: raises_def alloc_oid_def)
  show ?thesis
    unfolding run_from_trigger_def assms(2) option.case execute_nodes_def set_node_output_def set_data_def commit_entry_def
    by (intro raises_rules prims one | simp)+
qed

text \<open>Where the failure of a node is raised, the failing node recorded for an execution is
  always one that an edge connects to the trigger, however deep in the graph the error
  happened: each node on the way wraps the error of its successors as its own.\<close>

lemma error_node_is_behind_trigger:
  assumes "execute_workflow en fuel wfl trigger dry_run w = Some (ex, w')"
    and "list_all (fails_hard wfl) (wf_nodes wfl)"
    and "ex_error_node_id ex = Some nid"
  shows "\<exists>t e. t \<in> set (wf_nodes wfl) \<and> n_type t = ''trigger'' \<and>
           e \<in> set (wf_edges wfl) \<and> e_source e = n_id t \<and> e_target e = nid"
proof -
  let ?g = "workflow_graph wfl"
  from assms(1) obtain k r u where
    run: "run_from_trigger (execute_nodes (run_single en k wfl ?g)) (en_rt en) ?g trigger
            (start_context wfl trigger dry_run [] w) = Some (r, u)"
    and ex: "ex = finish_execution ''Workflow execution'' wfl (new_execution en wfl trigger w) r u"
    unfolding execute_workflow_def by (rule run_workflow_result)
  from assms(3) obtain err where r: "r = Inl err" and nid: "exn_node_id err = Some nid"
    by (cases r) (auto simp: ex finish_execution_def new_execution_def split: if_splits)
  obtain t where t: "find_trigger ?g = Some t"
    using run r nid by (cases "find_trigger ?g") (auto simp: run_from_trigger_def)
  have nodes: "graph_nodes ?g \<subseteq> set (wf_nodes wfl)"
    unfolding workflow_graph_def by (rule graph_nodes_mk_graph)
  have "raises (blames (n_id ` set (get_successors ?g (n_id t) None)))
      (run_from_trigger (execute_nodes (run_single en k wfl ?g)) (en_rt en) ?g trigger)"
    by (rule run_from_trigger_blames) (use assms(2) nodes t in \<open>auto simp: list_all_iff\<close>)
  with run r nid obtain m where m: "m \<in> set (get_successors ?g (n_id t) None)" "n_id m = nid"
    unfolding raises_def blames_def by fastforce
  then obtain e where "e \<in> set (wf_edges wfl)" "e_source e = n_id t" "e_target e = nid"
    by (auto simp: get_successors_def mem_collect_targets workflow_graph_def adjacency_mk_graph dest: get_node_id)
  moreover have "t \<in> set (wf_nodes wfl)" using find_trigger_in_graph [OF t] nodes by blast
  ultimately show ?thesis using find_trigger_type [OF t] by blast
qed

lemma error_node_is_behind_trigger_witness:
  "\<exists>ex w' t e. execute_workflow (sample_engine []) 3 deep_failure_workflow [] False sample_world = Some (ex, w')
     \<and> ex_error_node_id ex = Some ''v'' \<and> t \<in> set (wf_nodes deep_failure_workflow) \<and> n_type t = ''trigger''
     \<and> e \<in> set (wf_edges deep_failure_workflow) \<and> e_source e = n_id t \<and> e_target e = ''v''"
proof -
  obtain ex w' where run: "execute_workflow (sample_engine []) 3 deep_failure_workflow [] False sample_world = Some (ex, w')"
    and err: "ex_error_node_id ex = Some ''v''"
    using deep_failure_run unfolding numeral_3_eq_3 by blast
  have hard: "list_all (fails_hard deep_failure_workflow) (wf_nodes deep_failure_workflow)"
    by (simp add: sample_defs fails_hard_def dget_def)
  from error_node_is_behind_trigger [OF run hard err] run err show ?thesis by blast
qed

section \<open>Single nodes\<close>

text \<open>A merge node that some edge leads to and that was not passed before raises, instead of
  waiting for its predecessors: the guard tests edge dictionaries for membership in a set.  It
  happens outside the node's own error handling, so no retry, handler or \<^verbatim>\<open>on_error\<close> setting
  of the node applies and the context is left as it was.\<close>

lemma merge_after_edge_raises:
  assumes "n_type n = ''merge''" and "incoming_edges g (n_id n) \<noteq> []" and "n_id n \<notin> set (st_visited s)"
    and "0 < fuel"
  shows "run_single en fuel wfl g n depth s = Some (Inl (unhashable_error (PDict [])), s)"
proof -
  obtain e es where e: "incoming_edges g (n_id n) = e # es" using assms(2) by (cases "incoming_edges g (n_id n)") auto
  have "merge_guard g (n_id n) s = Some (Inl (unhashable_error (PDict [])), s)"
    using assms(3) by (simp add: merge_guard_def ctx_now_def e)
  with assms show ?thesis by (cases fuel) (simp_all add: single_node_def)
qed

lemma merge_after_edge_raises_witness:
  "run_single (sample_engine []) 1 cyclic_workflow (mk_graph [sample_node ''m'' ''merge'' []] [sample_edge ''a'' ''m''])
     (sample_node ''m'' ''merge'' []) 0 (new_context [] sample_world)
   = Some (Inl (unhashable_error (PDict [])), new_context [] sample_world)"
  by (rule merge_after_edge_raises)
     (simp_all add: sample_node_def sample_edge_def incoming_mk_graph new_context_def)

definition fresh_oids :: "est \<Rightarrow> bool" where
  "fresh_oids s \<longleftrightarrow> (\<forall>r \<in> set (st_results s). nr_oid r < w_oids (st_world s))"

text \<open>The effect of committing an entry with a new identity.\<close>

definition bump_oid :: "est \<Rightarrow> est" where
  "bump_oid s = s\<lparr>st_world := (st_world s)\<lparr>w_oids := Suc (w_oids (st_world s))\<rparr>\<rparr>"

lemma current_entry_fresh:
  assumes "fresh_oids s" and "nr_oid entry = w_oids (st_world s)" and "st_results t = st_results s"
  shows "current_entry entry t = entry"
proof -
  have "find (\<lambda>r. nr_oid r = nr_oid entry) (st_results t) = None"
    using assms by (auto simp: find_None_all fresh_oids_def)
  then show ?thesis by (simp add: current_entry_def)
qed

lemma commit_entry_fresh:
  assumes "fresh_oids s" and "nr_oid entry = w_oids (st_world s)" and "st_results t = st_results s"
  shows "commit_entry entry f t = Some (Inr (), t\<lparr>st_results := st_results t @ [f entry]\<rparr>)"
proof -
  have "map (\<lambda>r. if nr_oid r = nr_oid entry then e else r) (st_results t) = st_results t" for e
    using assms by (auto intro!: map_idI simp: fresh_oids_def)
  then show ?thesis by (simp add: commit_entry_def current_entry_fresh [OF assms])
qed

lemma single_node_plain:
  "n_type n \<noteq> ''merge'' \<Longrightarrow> single_node rn rs rw en wfl g n depth s =
     (let entry = new_entry (en_rt en) n (w_oids (st_world s)) (bump_oid s) in
      catch (try_node rn rs rw en wfl g n depth entry) (handle_failure rn rs en wfl g n depth entry) (bump_oid s))"
  by (simp add: single_node_def alloc_oid_def bump_oid_def Let_def)

lemma resolve_bump [simp]: "resolve_str p (bump_oid s) = resolve_str p s"
  by (simp add: resolve_str_def bump_oid_def)

lemma interpolate_bump [simp]: "interpolate_string rt p (bump_oid s) = interpolate_string rt p s"
  by (simp add: interpolate_string_def)

lemma exec_filter_bump [simp]: "exec_filter rt config (bump_oid s) = exec_filter rt config s"
  unfolding exec_filter_def condition_results_def evaluate_condition_def resolve_value_def resolve_bump interpolate_bump ..

text \<open>A filter whose conditions do not hold ends its branch: the node returns, its entry is
  appended with status filtered, nothing of the data, the variables or the outputs changes
  and no successor runs.\<close>

lemma filter_stops_branch:
  assumes "n_type n = ''filter''" and "exec_filter (en_rt en) (n_config n) s = Inr False" and "fresh_oids s" and "0 < fuel"
  shows "\<exists>entry. nr_node_id entry = n_id n \<and> nr_status entry = Filtered \<and>
     run_single en fuel wfl g n depth s = Some (Inr (), (bump_oid s)\<lparr>st_results := st_results s @ [entry]\<rparr>)"
proof -
  obtain k where k: "fuel = Suc k" using assms(4) by (cases fuel) auto
  define entry where "entry = new_entry (en_rt en) n (w_oids (st_world s)) (bump_oid s)"
  have commit: "commit_entry entry f (bump_oid s) = Some (Inr (), (bump_oid s)\<lparr>st_results := st_results s @ [f entry]\<rparr>)" for f
    using commit_entry_fresh [OF assms(3), of entry "bump_oid s" f]
    by (simp add: entry_def new_entry_def bump_oid_def)
  have "run_single en fuel wfl g n depth s =
      Some (Inr (), (bump_oid s)\<lparr>st_results := st_results s @ [entry\<lparr>nr_status := Filtered\<rparr>]\<rparr>)"
    using assms(1,2) commit
    by (simp add: k single_node_plain entry_def [symmetric] Let_def try_node_def node_step_def ctx_now_def
        bnd_run catch_run case_run del: bnd_eval catch_eval)
  moreover have "nr_node_id entry = n_id n" by (simp add: entry_def new_entry_def)
  ultimately show ?thesis by (intro exI [of _ "entry\<lparr>nr_status := Filtered\<rparr>"]) simp
qed

definition blocking_filter :: node where
  "blocking_filter =
     sample_node ''f'' ''filter'' [(''conditions'', PList [PDict [(''field'', PStr ''qty''), (''operator'', PStr ''exists'')]])]"

lemma filter_stops_branch_witness:
  "\<exists>entry. nr_node_id entry = ''f'' \<and> nr_status entry = Filtered \<and>
     run_single (sample_engine []) 1 cyclic_workflow (mk_graph [] []) blocking_filter 0 (new_context [] sample_world)
      = Some (Inr (), (bump_oid (new_context [] sample_world))\<lparr>st_results := [entry]\<rparr>)"
proof -
  have "exec_filter sample_rt (n_config blocking_filter) (new_context [] sample_world) = Inr False"
    by (simp add: blocking_filter_def sample_node_def exec_filter_def condition_results_def evaluate_condition_def
        operator_map_def common_operator_def resolve_str_def get_nested.simps get_path.simps text_eval dget_def new_context_def combine_results_def)
  then show ?thesis
    using filter_stops_branch [of blocking_filter "sample_engine []" "new_context [] sample_world" 1]
    by (simp add: blocking_filter_def sample_node_def sample_engine_def fresh_oids_def new_context_def)
qed

text \<open>A node whose own work raises, in a workflow that neither retries nor continues nor
  ignores and has no handler for it, fails with an error that carries the node's id and the
  text of the cause, and leaves a failed entry with that text as the last result.\<close>

lemma node_failure_is_reported:
  assumes "n_type n \<noteq> ''merge''" and "find_error_handler g (n_id n) = Inr None"
    and "dget (n_config n) ''on_error'' (PStr (wf_on_error wfl)) = PStr ''stop''"
    and step: "node_step rn rs rw en wfl g n depth (bump_oid s) = Some (Inl exc, t)"
  shows "\<exists>u. single_node rn rs rw en wfl g n depth s = Some (Inl (node_failed_error n exc), u)
    \<and> exn_node_id (node_failed_error n exc) = Some (n_id n)
    \<and> nr_status (last (st_results u)) = Failed \<and> nr_error (last (st_results u)) = Some (exn_str exc)
    \<and> cx_data u = cx_data t \<and> calls_of u = calls_of t"
proof -
  define entry where "entry = new_entry (en_rt en) n (w_oids (st_world s)) (bump_oid s)"
  have plan: "retry_plan wfl n = Inr []" using assms(3) by (simp add: retry_plan_def)
  have "try_node rn rs rw en wfl g n depth entry (bump_oid s) = Some (Inl exc, t)"
    using step by (simp add: try_node_def)
  then have "single_node rn rs rw en wfl g n depth s = give_up rn rs wfl g n depth entry exc t"
    using assms(1) plan by (simp add: single_node_plain entry_def Let_def handle_failure_def)
  also have "\<dots> = Some (Inl (node_failed_error n exc),
      t\<lparr>st_results := map (\<lambda>r. if nr_oid r = nr_oid entry then entry_failed (exn_str exc) (current_entry entry t) else r)
          (st_results t) @ [entry_failed (exn_str exc) (current_entry entry t)]\<rparr>)"
    using assms(2,3) by (simp add: give_up_def commit_entry_def Let_def)
  finally show ?thesis by (simp add: node_failed_error_def entry_failed_def calls_of_def)
qed

lemma node_failure_is_reported_witness:
  "\<exists>u. single_node (\<lambda>_ _. ret ()) (\<lambda>_ _. ret ()) (\<lambda>_ _ _ _ _. None) (sample_engine []) cyclic_workflow (mk_graph [] [])
     (sample_node ''x'' ''action'' []) 0 (new_context [] sample_world)
   = Some (Inl (WorkflowError (''Node '' @ [single_quote] @ ''x'' @ [single_quote]
        @ '' failed: Action node missing connector_name or action'') (Some ''x'')), u)"
proof -
  have "node_step (\<lambda>_ _. ret ()) (\<lambda>_ _. ret ()) (\<lambda>_ _ _ _ _. None) (sample_engine []) cyclic_workflow (mk_graph [] [])
      (sample_node ''x'' ''action'' []) 0 (bump_oid (new_context [] sample_world))
    = Some (Inl (WorkflowError ''Action node missing connector_name or action'' None), bump_oid (new_context [] sample_world))"
    by (simp add: node_step_def continue_with_def exec_action_def sample_node_def dget_def)
  from node_failure_is_reported [OF _ _ _ this]
  show ?thesis
    by (force simp: sample_defs find_error_handler_def mk_graph_def dget_def node_failed_error_def)
qed

subsection \<open>Retries repeat the action, also when it was a successor that failed\<close>

lemma merge_data_run:
  "\<exists>t. merge_data v s = Some (Inr (), t) \<and> calls_of t = calls_of s \<and> st_dry_run t = st_dry_run s"
  by (cases v) (simp_all add: merge_data_def calls_of_def)

lemma commit_entry_run:
  "\<exists>t. commit_entry entry f s = Some (Inr (), t) \<and> calls_of t = calls_of s \<and> st_dry_run t = st_dry_run s"
  by (simp add: commit_entry_def calls_of_def Let_def)

text \<open>An action that maps no fields, and the call it makes.\<close>

definition plain_action :: "string \<Rightarrow> string \<Rightarrow> int \<Rightarrow> pydict" where
  "plain_action connector action m =
     [(''connector_name'', PStr connector), (''action'', PStr action), (''on_error'', PStr ''retry''), (''max_retries'', PInt m)]"

definition plain_call :: "string \<Rightarrow> string \<Rightarrow> string \<Rightarrow> call" where
  "plain_call connector action tenant =
     ActionCall (PStr connector) (PStr action) (PDict []) tenant (PStr ''default'') (Some PNone)"

lemma exec_plain_action:
  assumes "connector \<noteq> []" "action \<noteq> []" "en_executor en = Some (\<lambda>_ _. Inr v)" "\<not> st_dry_run s"
  shows "exec_action en wfl (plain_action connector action m) s =
    Some (Inr v, log_call (plain_call connector action (wf_tenant wfl)) s)"
  using assms
  by (simp add: exec_action_def plain_action_def plain_call_def ctx_now_def do_call_def dget_def Let_def
      apply_field_mapping_def decorate_body_text_def decorate_body_html_def decorate_subject_def)

lemma log_call_calls [simp]: "calls_of (log_call c s) = calls_of s @ [c]" "st_dry_run (log_call c s) = st_dry_run s"
  by (simp_all add: log_call_def calls_of_def)

text \<open>After its own work a node with failing successors has changed the state and raises.\<close>

lemma after_output_raises:
  assumes "\<And>t. m t = Some (Inl err, t)"
  shows "\<exists>t. bnd (set_node_output nid v) (\<lambda>_. bnd (merge_data v) (\<lambda>_. bnd (commit_entry entry f) (\<lambda>_. m))) s
      = Some (Inl err, t) \<and> calls_of t = calls_of s \<and> st_dry_run t = st_dry_run s"
proof -
  define s1 where "s1 = s\<lparr>cx_outs := dset (cx_outs s) nid v\<rparr>"
  obtain s2 where s2: "merge_data v s1 = Some (Inr (), s2)" "calls_of s2 = calls_of s1" "st_dry_run s2 = st_dry_run s1"
    using merge_data_run by blast
  obtain s3 where s3: "commit_entry entry f s2 = Some (Inr (), s3)" "calls_of s3 = calls_of s2" "st_dry_run s3 = st_dry_run s2"
    using commit_entry_run by blast
  have "set_node_output nid v s = Some (Inr (), s1)" by (simp add: set_node_output_def s1_def)
  with s2 s3 assms show ?thesis by (simp add: s1_def calls_of_def)
qed

text \<open>Successors that raise.\<close>

definition raising :: "exn \<Rightarrow> run_nodes_fn" where
  "raising err nodes depth = throw err"

lemma raising_run: "nodes \<noteq> [] \<Longrightarrow> run_if_any (raising err) nodes depth t = Some (Inl err, t)"
  by (simp add: run_if_any_def raising_def)

definition action_node :: "engine \<Rightarrow> graph \<Rightarrow> node \<Rightarrow> string \<Rightarrow> string \<Rightarrow> int \<Rightarrow> pyval \<Rightarrow> bool" where
  "action_node en g n connector action m v \<longleftrightarrow>
     connector \<noteq> [] \<and> action \<noteq> [] \<and> en_executor en = Some (\<lambda>_ _. Inr v) \<and>
     n_type n = ''action'' \<and> n_config n = plain_action connector action m \<and> get_successors g (n_id n) None \<noteq> []"

lemma attempt_run:
  assumes nd: "action_node en g n connector action m v" and "\<not> st_dry_run s"
  shows "\<exists>t. retry_attempt (raising err) en wfl g n depth entry a s = Some (Inl err, t)
    \<and> calls_of t = calls_of s @ [plain_call connector action (wf_tenant wfl)] \<and> \<not> st_dry_run t"
proof -
  let ?c = "plain_call connector action (wf_tenant wfl)"
  have run: "exec_retryable en wfl n s = Some (Inr v, log_call ?c s)"
    using nd exec_plain_action assms(2) by (simp add: exec_retryable_def action_node_def)
  have "run_if_any (raising err) (get_successors g (n_id n) None) (Suc depth) t = Some (Inl err, t)" for t
    using nd by (simp add: raising_run action_node_def)
  from after_output_raises [OF this, of "n_id n" v entry _ "log_call ?c s"] obtain t where
    "bnd (set_node_output (n_id n) v) (\<lambda>_. bnd (merge_data v) (\<lambda>_. bnd (commit_entry entry
       (\<lambda>e. (entry_success (en_rt en) v e)\<lparr>nr_retries := Some a\<rparr>)) (\<lambda>_.
       run_if_any (raising err) (get_successors g (n_id n) None) (Suc depth)))) (log_call ?c s) = Some (Inl err, t)"
    "calls_of t = calls_of (log_call ?c s)" "st_dry_run t = st_dry_run (log_call ?c s)"
    by blast
  with run assms(2) show ?thesis unfolding retry_attempt_def by (intro exI [of _ t]) simp
qed

lemma attempts_run:
  assumes nd: "action_node en g n connector action m v" and "\<not> st_dry_run s" and "\<forall>a \<in> set as. a \<le> 1024"
  shows "\<exists>t. retry_loop (retry_attempt (raising err) en wfl g n depth entry) as s = Some (Inr False, t)
    \<and> calls_of t = calls_of s @ replicate (length as) (plain_call connector action (wf_tenant wfl)) \<and> \<not> st_dry_run t"
  using assms(2,3)
proof (induction as arbitrary: s)
  case (Cons a as)
  let ?c = "plain_call connector action (wf_tenant wfl)"
  obtain t where t: "retry_attempt (raising err) en wfl g n depth entry a s = Some (Inl err, t)"
      "calls_of t = calls_of s @ [?c]" "\<not> st_dry_run t"
    using attempt_run [OF nd Cons.prems(1)] by blast
  have bound: "\<forall>a \<in> set as. a \<le> 1024" using Cons.prems(2) by simp
  obtain u where "retry_loop (retry_attempt (raising err) en wfl g n depth entry) as t = Some (Inr False, u)"
      "calls_of u = calls_of t @ replicate (length as) ?c" "\<not> st_dry_run u"
    using Cons.IH [OF t(3) bound] by blast
  with t Cons.prems(2) show ?case by simp
qed simp

lemma first_try_run:
  assumes nd: "action_node en g n connector action m v" and dry: "\<not> st_dry_run s"
  shows "\<exists>t. try_node (raising err) rs rw en wfl g n depth entry s = Some (Inl err, t)
    \<and> calls_of t = calls_of s @ [plain_call connector action (wf_tenant wfl)] \<and> \<not> st_dry_run t"
proof -
  define s1 where "s1 = log_call (plain_call connector action (wf_tenant wfl)) s"
  define s2 where "s2 = s1\<lparr>cx_outs := dset (cx_outs s1) (n_id n) v, st_completed := List.insert (n_id n) (st_completed s1)\<rparr>"
  have step: "node_step (raising err) rs rw en wfl g n depth s = Some (Inr (Continue v PNone), s1)"
    using nd exec_plain_action dry by (simp add: node_step_def continue_with_def action_node_def s1_def)
  obtain s3 where s3: "merge_data v s2 = Some (Inr (), s3)" "calls_of s3 = calls_of s2" "st_dry_run s3 = st_dry_run s2"
    using merge_data_run by blast
  obtain s4 where s4: "commit_entry entry (entry_success (en_rt en) v) s3 = Some (Inr (), s4)"
      "calls_of s4 = calls_of s3" "st_dry_run s4 = st_dry_run s3"
    using commit_entry_run by blast
  have s2: "calls_of s2 = calls_of s1" "st_dry_run s2 = st_dry_run s1" by (simp_all add: s2_def calls_of_def)
  have "try_node (raising err) rs rw en wfl g n depth entry s = Some (Inl err, s4)"
    using step s3(1) s4(1) nd
    by (simp add: try_node_def set_node_output_def mark_completed_def s2_def [symmetric] raising_run successors_for_def action_node_def)
  with s2 s3 s4 dry show ?thesis by (simp add: s1_def)
qed



end
