(* ===== verification/NodeProps.thy ===== *)
theory NodeProps
  imports EngineProps
begin

text \<open>
  Properties of single node types and of the expression language: loops, batches,
  aggregation, variables, redaction, templates, comparisons, and the comparison
  of two executions.
\<close>

section \<open>Loops and batches\<close>

lemma map_each_length: "map_each f xs s = Some (Inr ys, t) \<Longrightarrow> length ys = length xs"
  by (induction xs arbitrary: s ys t) (auto elim!: bnd_cases)

lemma map_each_returned:
  assumes "bnd (map_each f xs) h s = Some (Inr y, t)"
  obtains ys u where "length ys = length xs" and "h ys u = Some (Inr y, t)"
  using assms by (auto elim!: bnd_cases dest: map_each_length)

lemma min_config_int: "min_config (PInt i) b = Inr (PInt (min i b))"
  by (simp add: min_config_def cmp_num_def min_def)

lemma slice_upto_int: "slice_upto xs (PInt i) = Inr (py_slice xs 0 (Some i))"
  by (simp add: slice_upto_def slice_index_def)

lemma length_slice_nonneg: "0 \<le> i \<Longrightarrow> length (py_slice xs 0 (Some i)) = min (length xs) (nat i)"
  by (simp add: py_slice_def slice_bound_def Let_def)

lemma length_slice_neg: "i < 0 \<Longrightarrow> length (py_slice xs 0 (Some i)) = length xs - nat (- i)"
  by (simp add: py_slice_def slice_bound_def Let_def)

lemma exec_loop_results:
  assumes "dget config ''max_iterations'' (PInt 100) = PInt m"
    and "resolve_value (dget config ''array_field'' (PStr [])) s = Inr (PList items)"
    and "exec_loop rn en g nid config depth s = Some (Inr out, t)"
  shows "\<exists>rs. out = PDict [(''loop_iterations'', PInt (int (length rs))), (''loop_results'', PList rs)]
    \<and> length rs = length (py_slice items 0 (Some (min m 1000)))"
proof -
  let ?name = "py_str (en_rt en) (dget config ''item_variable'' (PStr ''item''))"
  let ?given = "dget config ''index_variable'' PNone"
  let ?h = "loop_iteration rn (get_successors g nid (Some ''default'')) depth (dget config ''item_variable'' (PStr ''item''))
    (if truthy ?given then ?given else PStr (?name @ ''.$index''))"
  have h: "exec_loop rn en g nid config depth s =
      bnd (map_each ?h (enumerate 0 (py_slice items 0 (Some (min m 1000)))))
      (\<lambda>rs. bnd (set_variable (?name @ ''_results'') (PList rs))
        (\<lambda>_. ret (PDict [(''loop_iterations'', count_of rs), (''loop_results'', PList rs)]))) s"
    unfolding exec_loop_def Let_def assms(1) min_config_int ctx_now_def
    by (simp add: assms(2) slice_upto_int)
  obtain ys u where ys: "length ys = length (enumerate 0 (py_slice items 0 (Some (min m 1000))))"
    and run: "bnd (set_variable (?name @ ''_results'') (PList ys))
        (\<lambda>_. ret (PDict [(''loop_iterations'', count_of ys), (''loop_results'', PList ys)])) u = Some (Inr out, t)"
    by (rule map_each_returned [OF assms(3) [unfolded h]])
  from run have "out = PDict [(''loop_iterations'', count_of ys), (''loop_results'', PList ys)]"
    by (simp add: set_variable_def)
  with ys show ?thesis by (simp add: count_of_def)
qed

text \<open>A loop over a list, with a bound that is not negative, runs its body once per element up
  to the smallest of the length of the list, the configured bound and 1000, and reports that
  number of iterations and as many results.\<close>

lemma loop_iterations_bounded:
  assumes "dget config ''max_iterations'' (PInt 100) = PInt m" and "0 \<le> m"
    and "resolve_value (dget config ''array_field'' (PStr [])) s = Inr (PList items)"
    and "exec_loop rn en g nid config depth s = Some (Inr out, t)"
  shows "\<exists>rs. out = PDict [(''loop_iterations'', PInt (int (length rs))), (''loop_results'', PList rs)]
    \<and> length rs = min (length items) (min (nat m) 1000)"
proof -
  have "nat (min m 1000) = min (nat m) 1000" using assms(2) by (simp add: min_def nat_le_iff)
  then show ?thesis using exec_loop_results [OF assms(1,3,4)] assms(2) by (auto simp: length_slice_nonneg)
qed

definition loop_config :: "int \<Rightarrow> pydict" where
  "loop_config m = [(''array_field'', PStr ''xs''), (''max_iterations'', PInt m)]"

definition loop_context :: est where
  "loop_context = new_context [(''xs'', PList [PInt 4, PInt 5, PInt 6])] sample_world"

lemma loop_context_resolves:
  "resolve_value (dget (loop_config m) ''array_field'' (PStr [])) loop_context = Inr (PList [PInt 4, PInt 5, PInt 6])"
  by (simp add: loop_config_def loop_context_def dget_def resolve_str_def get_nested.simps get_path.simps text_eval new_context_def)

lemma loop_sample_runs:
  "\<exists>out t. exec_loop idle (sample_engine []) (mk_graph [] []) ''l'' (loop_config m) 0 loop_context = Some (Inr out, t)"
proof -
  have it: "\<exists>y u. loop_iteration idle body 0 (PStr a) (PStr b) p s = Some (Inr y, u)" for body a b p s
    by (cases p) (simp add: loop_iteration_def as_key_def set_variable_def idle_def)
  have each: "\<exists>ys u. map_each (loop_iteration idle body 0 (PStr a) (PStr b)) ps s = Some (Inr ys, u)" for body a b ps s
  proof (induction ps arbitrary: s)
    case (Cons p ps)
    obtain y u where 1: "loop_iteration idle body 0 (PStr a) (PStr b) p s = Some (Inr y, u)" using it by blast
    obtain ys v where 2: "map_each (loop_iteration idle body 0 (PStr a) (PStr b)) ps u = Some (Inr ys, v)"
      using Cons by blast
    have "map_each (loop_iteration idle body 0 (PStr a) (PStr b)) (p # ps) s = Some (Inr (y # ys), v)"
      unfolding map_each.simps bnd_run 1 2 case_run by simp
    then show ?case by blast
  qed simp
  have items: "dget (loop_config m) ''item_variable'' (PStr ''item'') = PStr ''item''"
      "dget (loop_config m) ''index_variable'' PNone = PNone" "dget (loop_config m) ''max_iterations'' (PInt 100) = PInt m"
    by (simp_all add: loop_config_def dget_def)
  obtain ys u where "map_each (loop_iteration idle (get_successors (mk_graph [] []) ''l'' (Some ''default'')) 0
      (PStr ''item'') (PStr ''item.$index'')) (enumerate 0 (py_slice [PInt 4, PInt 5, PInt 6] 0 (Some (min m 1000)))) loop_context
    = Some (Inr ys, u)" using each by blast
  then show ?thesis
    by (simp add: exec_loop_def Let_def items min_config_int ctx_now_def loop_context_resolves slice_upto_int set_variable_def)
qed

lemma loop_iterations_bounded_witness:
  "\<exists>rs t. exec_loop idle (sample_engine []) (mk_graph [] []) ''l'' (loop_config 2) 0 loop_context
     = Some (Inr (PDict [(''loop_iterations'', PInt (int (length rs))), (''loop_results'', PList rs)]), t) \<and> length rs = 2"
proof -
  obtain out t where run: "exec_loop idle (sample_engine []) (mk_graph [] []) ''l'' (loop_config 2) 0 loop_context = Some (Inr out, t)"
    using loop_sample_runs by blast
  have "dget (loop_config 2) ''max_iterations'' (PInt 100) = PInt 2" by (simp add: loop_config_def dget_def)
  from loop_iterations_bounded [OF this _ loop_context_resolves run] run show ?thesis by fastforce
qed

text \<open>A negative bound is not a bound: the slice it becomes drops that many elements from the
  end of the list, so that the cap of 1000 iterations does not apply.\<close>

lemma negative_loop_bound_lifts_cap:
  assumes "dget config ''max_iterations'' (PInt 100) = PInt m" and "m < 0"
    and "resolve_value (dget config ''array_field'' (PStr [])) s = Inr (PList items)"
    and "exec_loop rn en g nid config depth s = Some (Inr out, t)"
  shows "\<exists>rs. out = PDict [(''loop_iterations'', PInt (int (length rs))), (''loop_results'', PList rs)]
    \<and> length rs = length items - nat (- m)"
  using exec_loop_results [OF assms(1,3,4)] assms(2) by (auto simp: length_slice_neg)

lemma negative_loop_bound_lifts_cap_witness:
  "\<exists>rs t. exec_loop idle (sample_engine []) (mk_graph [] []) ''l'' (loop_config (- 1)) 0 loop_context
     = Some (Inr (PDict [(''loop_iterations'', PInt (int (length rs))), (''loop_results'', PList rs)]), t) \<and> length rs = 2"
proof -
  obtain out t where run: "exec_loop idle (sample_engine []) (mk_graph [] []) ''l'' (loop_config (- 1)) 0 loop_context = Some (Inr out, t)"
    using loop_sample_runs by blast
  have "dget (loop_config (- 1)) ''max_iterations'' (PInt 100) = PInt (- 1)" by (simp add: loop_config_def dget_def)
  from negative_loop_bound_lifts_cap [OF this _ loop_context_resolves run] run show ?thesis by fastforce
qed

lemma outcome_split: "length (outcome_outputs rs) + length (outcome_errors rs) = length rs"
  unfolding outcome_outputs_def outcome_errors_def by (induction rs) (auto split: batch_outcome.splits)

lemma process_until_error_length:
  "process_until_error f ps s = Some (Inr rs, t) \<Longrightarrow> length rs \<le> length ps \<and> length (outcome_errors rs) \<le> 1"
proof (induction ps arbitrary: s rs t)
  case (Cons p ps)
  from Cons.prems obtain r u where r: "f p s = Some (Inr r, u)"
    and rest: "(case r of ItemFailed _ _ \<Rightarrow> ret [r] | ItemOk _ _ \<Rightarrow> bnd (process_until_error f ps) (\<lambda>rs. ret (r # rs))) u = Some (Inr rs, t)"
    by (auto elim: bnd_cases)
  show ?case
  proof (cases r)
    case (ItemOk i v)
    with rest obtain rs' where "process_until_error f ps u = Some (Inr rs', t)" "rs = r # rs'"
      by (auto elim!: bnd_cases)
    with Cons.IH ItemOk show ?thesis by (force simp: outcome_errors_def)
  next
    case (ItemFailed i v)
    with rest show ?thesis by (auto simp: outcome_errors_def)
  qed
qed (simp add: outcome_errors_def)

text \<open>The report of a batch accounts for its items: unless it stops at the first error, the
  successes and failures it counts add up to the number of items; with \<^verbatim>\<open>stop\<close> it
  counts at most one failure and never more outcomes than items.\<close>

lemma batch_report_adds_up:
  assumes "exec_batch rn g nid config depth s = Some (Inr (PDict out), t)"
  shows "\<exists>total ok failed :: nat. dget out ''batch_total'' PNone = PInt (int total)
    \<and> dget out ''batch_succeeded'' PNone = PInt (int ok) \<and> dget out ''batch_failed'' PNone = PInt (int failed)
    \<and> (if py_eq (dget config ''on_item_error'' (PStr ''continue'')) (PStr ''stop'')
       then ok + failed \<le> total \<and> failed \<le> 1 else ok + failed = total)"
proof -
  have empty: ?thesis if "out = [(''batch_total'', PInt 0), (''batch_succeeded'', PInt 0), (''batch_failed'', PInt 0),
      (''batch_results'', PList []), (''batch_errors'', PList [])]"
    by (intro exI [of _ "0 :: nat"]) (simp add: that dget_def)
  have full: ?thesis if "out = batch_summary items rs"
      and "if py_eq (dget config ''on_item_error'' (PStr ''continue'')) (PStr ''stop'')
           then length rs \<le> length items \<and> length (outcome_errors rs) \<le> 1 else length rs = length items"
    for items :: "pyval list" and rs
    using that(2) outcome_split [of rs]
    by (intro exI [of _ "length items"] exI [of _ "length (outcome_outputs rs)"] exI [of _ "length (outcome_errors rs)"])
       (auto simp: that(1) batch_summary_def count_of_def dget_def)
  from assms obtain source where src: "batch_source s (dget config ''source'' (PStr [])) = Inr source"
    unfolding exec_batch_def by (auto simp: bnd_liftE_returned ctx_now_def)
  show ?thesis
  proof (cases "is_list source")
    case False
    with assms src show ?thesis
      unfolding exec_batch_def by (intro empty) (cases source; auto simp: bnd_liftE_returned ctx_now_def)
  next
    case True
    then obtain all_items where "source = PList all_items" by (cases source) auto
    with assms src obtain items body conc where
      rest: "(let item = process_item rn body depth conc (dget config ''throttle_ms'' (PInt 0)) in
         bnd (if py_eq (dget config ''on_item_error'' (PStr ''continue'')) (PStr ''stop'')
              then process_until_error item (enumerate 0 items)
              else map_each (gather_item item) (enumerate 0 items)) (\<lambda>rs.
         bnd (set_variable ''batch_results'' (PList (outcome_outputs rs))) (\<lambda>_.
         ret (PDict (batch_summary (items :: pyval list) rs))))) s = Some (Inr (PDict out), t)"
      unfolding exec_batch_def by (auto simp: bnd_liftE_returned ctx_now_def split: if_splits)
    then obtain rs u where "(if py_eq (dget config ''on_item_error'' (PStr ''continue'')) (PStr ''stop'')
          then process_until_error (process_item rn body depth conc (dget config ''throttle_ms'' (PInt 0))) (enumerate 0 items)
          else map_each (gather_item (process_item rn body depth conc (dget config ''throttle_ms'' (PInt 0)))) (enumerate 0 items)) s
        = Some (Inr rs, u)" and "out = batch_summary items rs"
      unfolding Let_def by (auto elim!: bnd_cases simp: set_variable_def)
    then show ?thesis
      by (intro full) (auto split: if_splits dest: process_until_error_length map_each_length)
  qed
qed

definition batch_config :: pydict where
  "batch_config = [(''source'', PStr ''{{ xs }}''), (''on_item_error'', PStr ''continue'')]"

lemma batch_sample_runs:
  "\<exists>out t. exec_batch idle (mk_graph [] []) ''b'' batch_config 0 loop_context = Some (Inr (PDict out), t)"
  by (simp add: exec_batch_def batch_config_def dget_def min_config_int ctx_now_def batch_source_def is_placeholder_def
      placeholder_path_def py_slice_def slice_bound_def py_strip_def is_space_def char_code_def text_eval
      resolve_str_def loop_context_def new_context_def get_nested.simps get_path.simps
      slice_upto_int batch_body_def get_successors_def mk_graph_def cmp_num_def num_eq_def process_item_def gather_item_def
      scoped_def set_variable_def Let_def bnd_run catch_run case_run del: bnd_eval catch_eval)

lemma batch_report_adds_up_witness:
  "\<exists>out t (total :: nat) ok failed. exec_batch idle (mk_graph [] []) ''b'' batch_config 0 loop_context = Some (Inr (PDict out), t)
    \<and> dget out ''batch_total'' PNone = PInt (int total) \<and> dget out ''batch_succeeded'' PNone = PInt (int ok)
    \<and> dget out ''batch_failed'' PNone = PInt (int failed) \<and> ok + failed = total"
proof -
  obtain out t where run: "exec_batch idle (mk_graph [] []) ''b'' batch_config 0 loop_context = Some (Inr (PDict out), t)"
    using batch_sample_runs by blast
  have "\<not> py_eq (dget batch_config ''on_item_error'' (PStr ''continue'')) (PStr ''stop'')"
    by (simp add: batch_config_def dget_def)
  with batch_report_adds_up [OF run] run show ?thesis by (simp; blast)
qed

section \<open>Aggregation\<close>

lemma price_weak_order:
  "weak_order_on {p. valid_price field p} (price_lt field)"
  "weak_order_on {p. valid_price field p} (\<lambda>p q. price_lt field q p)"
proof -
  have tot: "\<not> float_lt x y \<Longrightarrow> \<not> float_lt y z \<Longrightarrow> \<not> float_lt x z"
    if "float_lt (Fin 0) x" "float_lt (Fin 0) y" "float_lt (Fin 0) z" for x y z
    using that by (cases x; cases y; cases z) auto
  have asym: "float_lt x y \<Longrightarrow> \<not> float_lt y x" for x y by (cases x; cases y) auto
  show "weak_order_on {p. valid_price field p} (price_lt field)"
    "weak_order_on {p. valid_price field p} (\<lambda>p q. price_lt field q p)"
    unfolding weak_order_on_def valid_price_def price_lt_def
    by (auto split: option.splits dest: asym tot)
qed

text \<open>With the cheapest-price strategy, when some product has a positive price, the winner is
  a product with a positive price that no other such product undercuts; the list returned
  holds exactly the products with a positive price, in order of price.\<close>

lemma aggregate_min_picks_cheapest:
  assumes "aggregate_min price_field name_field products = Inr out" and "p \<in> set products" and "valid_price price_field p"
  shows "\<exists>w ws. dget out ''winner'' PNone = PDict w \<and> dget out ''aggregated'' PNone = dict_list (w # ws)
    \<and> mset (w # ws) = mset (filter (valid_price price_field) products)
    \<and> sorted_wrt (\<lambda>a b. \<not> price_lt price_field b a) (w # ws)
    \<and> (\<forall>q \<in> set products. valid_price price_field q \<longrightarrow> \<not> price_lt price_field q w)
    \<and> dget out ''cheapest_price'' PNone = key_get w price_field PNone"
proof -
  let ?valid = "filter (valid_price price_field) products" and ?lt = "price_lt price_field"
  have sorted: "sorted_wrt (\<lambda>a b. \<not> ?lt b a) (stable_sort ?lt ?valid)"
    by (rule sorted_stable_sort [OF price_weak_order(1)]) auto
  have "p \<in> set (stable_sort ?lt ?valid)" using assms(2,3) by (simp add: set_stable_sort)
  then obtain w ws where ws: "stable_sort ?lt ?valid = w # ws" by (cases "stable_sort ?lt ?valid") auto
  have out: "out = [(''aggregated'', dict_list (w # ws)), (''winner'', PDict w),
      (''cheapest_price'', key_get w price_field PNone), (''cheapest_source'', dget w ''_source'' (PStr [])),
      (''cheapest_name'', key_get w name_field (PStr [])), (''total_results'', count_of (w # ws))]"
    using assms(1) by (auto simp: aggregate_min_def andThen_eq_Inr ws)
  have all: "set ?valid = set (w # ws)" using set_stable_sort [of ?lt ?valid] ws by simp
  have "\<not> ?lt w w" by (cases "price_of price_field w") (auto simp: price_lt_def, case_tac a, auto)
  then have "\<not> ?lt q w" if "q \<in> set ?valid" for q using that all sorted ws by auto
  moreover have "mset (w # ws) = mset ?valid" using mset_stable_sort [of ?lt ?valid] ws by simp
  ultimately show ?thesis using sorted ws by (intro exI [of _ w] exI [of _ ws]) (simp add: out dget_def)
qed

definition sample_products :: "pydict list" where
  "sample_products = [[(''price'', PInt 9)], [(''price'', PNone)], [(''price'', PInt 4)], [(''price'', PInt (-1))]]"

lemma sample_products_min:
  "\<exists>out. aggregate_min (PStr ''price'') (PStr ''name'') sample_products = Inr out \<and> dget out ''cheapest_price'' PNone = PInt 4"
  by (simp add: aggregate_min_def require_hashable_def sample_products_def valid_price_def price_of_def key_get_def dget_def price_lt_def)

lemma aggregate_min_picks_cheapest_witness:
  "\<exists>out w. aggregate_min (PStr ''price'') (PStr ''name'') sample_products = Inr out \<and> dget out ''winner'' PNone = PDict w
    \<and> key_get w (PStr ''price'') PNone = PInt 4"
proof -
  obtain out where run: "aggregate_min (PStr ''price'') (PStr ''name'') sample_products = Inr out"
    and price: "dget out ''cheapest_price'' PNone = PInt 4"
    using sample_products_min by blast
  have "[(''price'', PInt 9)] \<in> set sample_products" by (simp add: sample_products_def)
  moreover have "valid_price (PStr ''price'') [(''price'', PInt 9)]"
    by (simp add: valid_price_def price_of_def key_get_def dget_def)
  ultimately show ?thesis using aggregate_min_picks_cheapest [OF run] run price by fastforce
qed

section \<open>Variables\<close>

text \<open>What a set-variable node stores under a simple name is what \<^verbatim>\<open>vars.<name>\<close>
  resolves to afterwards; other variables and the data are untouched, and the node's output
  reports the name and the value.\<close>

lemma set_variable_reads_back:
  assumes "dget config ''variable_name'' (PStr []) = PStr name" and "plain_key name" and "CHR ''.'' \<notin> set name"
  shows "\<exists>v t. exec_set_variable rt config s = Some (Inr (PDict [(''variable'', PStr name), (''value'', v)]), t)
    \<and> resolve_str (''vars.'' @ name) t = v \<and> cx_data t = cx_data s
    \<and> (\<forall>other. other \<noteq> name \<longrightarrow> map_of (cx_vars t) other = map_of (cx_vars s) other)"
proof -
  let ?v = "expression_value rt s (dget config ''value'' (PStr []))"
  let ?t = "s\<lparr>cx_vars := dset (cx_vars s) name ?v\<rparr>"
  have run: "exec_set_variable rt config s = Some (Inr (PDict [(''variable'', PStr name), (''value'', ?v)]), ?t)"
    by (simp add: exec_set_variable_def ctx_now_def assms(1) as_key_def set_variable_def Let_def)
  have split_acc: "CHR ''.'' \<notin> set x \<Longrightarrow> py_split_acc ''.'' acc x = [rev acc @ x]" for acc x
    by (induction x arbitrary: acc) (auto simp: py_split_acc.simps)
  have "get_nested (PDict (cx_vars ?t)) name = ?v"
    using assms(2,3) by (simp add: get_nested_plain py_split_def split_acc get_path.simps dget_def)
  then have "resolve_str (''vars.'' @ name) ?t = ?v" by (simp add: resolve_str_def)
  with run show ?thesis by (intro exI [of _ ?v] exI [of _ ?t]) simp
qed

lemma set_variable_reads_back_witness:
  "\<exists>v t. exec_set_variable sample_rt [(''variable_name'', PStr ''total''), (''value'', PStr ''{{ xs }}'')] loop_context
      = Some (Inr (PDict [(''variable'', PStr ''total''), (''value'', v)]), t) \<and> resolve_str ''vars.total'' t = v"
  using set_variable_reads_back [of "[(''variable_name'', PStr ''total''), (''value'', PStr ''{{ xs }}'')]" "''total''"
      sample_rt loop_context]
  by (auto simp: dget_def plain_key_def text_eval)

section \<open>Redaction\<close>

text \<open>No text value of the patterns of personal data is left at any depth.\<close>

fun pii_free :: "pyval \<Rightarrow> bool" where
  "pii_free (PDict d) = list_all (\<lambda>(k, v). pii_free v) d"
| "pii_free (PList xs) = list_all (pii_free) xs"
| "pii_free v = (\<not> is_pii_value v)"

lemma placeholder_free: "\<not> is_pii_value (PStr pii_placeholder)"
  by code_simp

lemma redact_pii_free:
  "pii_free (redact_by_paths pii v current depth)"
proof (induction pii v current depth rule: redact_by_paths.induct)
  case (1 pii d current depth)
  show ?case
  proof (cases "20 < depth")
    case False
    have "pii_free (if p \<in> set pii then
           (case v of
              PList items \<Rightarrow> PList (map (\<lambda>item.
                if is_dict item then redact_by_paths pii item p (Suc depth) else PStr pii_placeholder) items)
            | _ \<Rightarrow> PStr pii_placeholder)
         else if is_pii_value v then PStr pii_placeholder
         else redact_by_paths pii v p (Suc depth))"
      if kv: "(k, v) \<in> set d" and p: "p = (if current \<noteq> [] then current @ ''.'' @ k else k)" for k v p
    proof (cases "p \<in> set pii")
      case True
      have "pii_free (redact_by_paths pii item p (Suc depth))" if "v = PList items" "item \<in> set items" "is_dict item" for items item
        using "1.IH"(1) [OF False kv refl p True that(1,2,3)] by blast
      with True placeholder_free show ?thesis
        by (cases v) (auto simp: list_all_iff)
    next
      case np: False
      then show ?thesis
        using "1.IH"(2) [OF False kv refl p np] placeholder_free by auto
    qed
    with False show ?thesis by (auto simp: list_all_iff Let_def)
  qed (use placeholder_free in simp)
next
  case (2 pii xs current depth)
  then show ?case by (auto simp: list_all_iff placeholder_free)
qed (auto simp: placeholder_free)

text \<open>What an AI node sends, when redaction is on.\<close>

lemma redact_pii_run:
  assumes "redact_pii en data T cred s = Some (Inr sent, t)"
  obtains pii where "sent = redact_by_paths pii data [] 0"
  using assms by (auto simp: redact_pii_def Let_def elim!: bnd_cases)


definition think_config :: pydict where
  "think_config = [(''prompt'', PStr ''classify'')]"

definition think_context :: est where
  "think_context = new_context [(''mail'', PStr ''jan@example.com''), (''qty'', PInt 2)] sample_world"

lemma think_sample_runs:
  "\<exists>out t. exec_think (sample_engine []) cyclic_workflow think_config think_context = Some (Inr out, t)"
proof -
  have red: "\<exists>v t. redact_pii (sample_engine []) d T c s = Some (Inr v, t)" for d T c s
    by (simp add: redact_pii_def sample_engine_def classify_pii_fields_def do_call_def pii_list_of_def dget_def
        Let_def bnd_run catch_run case_run del: bnd_eval catch_eval)
  then obtain v t where "redact_pii (sample_engine []) (PDict (cx_data think_context)) (wf_tenant cyclic_workflow)
      (PStr ''default'') think_context = Some (Inr v, t)" by blast
  then show ?thesis
    by (simp add: exec_think_def think_config_def dget_def Let_def load_output_schema_def ctx_now_def
        interpolate_value_def think_context_def new_context_def do_call_def)
       (simp add: sample_engine_def do_call_def)
qed


section \<open>Comparison of executions\<close>

lemma keys_results_by_node: "fst ` set (results_by_node rs) = nr_node_id ` set rs"
proof -
  have "fst ` set (foldl (\<lambda>d r. dset d (nr_node_id r) r) d rs) = fst ` set d \<union> nr_node_id ` set rs"
    for d :: "(string \<times> node_result) list"
    by (induction rs arbitrary: d) auto
  from this [of "[]"] show ?thesis by (simp add: results_by_node_def)
qed

lemma results_by_node_mem: "map_of (results_by_node rs) nid = Some r \<Longrightarrow> r \<in> set rs"
proof -
  have "map_of (foldl (\<lambda>d r. dset d (nr_node_id r) r) d rs) nid = Some r \<Longrightarrow> r \<in> set rs \<or> map_of d nid = Some r"
    for d :: "(string \<times> node_result) list"
    by (induction rs arbitrary: d) (fastforce split: if_splits)+
  from this [of "[]"] show "map_of (results_by_node rs) nid = Some r \<Longrightarrow> r \<in> set rs" by (simp add: results_by_node_def)
qed

fun diff_node_id :: "node_diff \<Rightarrow> string" where
  "diff_node_id (InBoth nid _) = nid"
| "diff_node_id (OnlyInA nid _ _) = nid"
| "diff_node_id (OnlyInB nid _ _) = nid"

lemma diff_executions_ids:
  "map diff_node_id (diff_executions a b) =
     stable_sort str_lt (remdups (map fst (results_by_node (ex_node_results a)) @ map fst (results_by_node (ex_node_results b))))"
proof -
  let ?a = "results_by_node (ex_node_results a)" and ?b = "results_by_node (ex_node_results b)"
  have "map diff_node_id (diff_node ?a ?b nid) = [nid]" if "nid \<in> set (map fst ?a @ map fst ?b)" for nid
    using that by (auto simp: diff_node_def split: option.splits simp: map_of_eq_None_iff)
  then have "map diff_node_id (List.concat (map (diff_node ?a ?b) ids)) = ids"
    if "set ids \<subseteq> set (map fst ?a @ map fst ?b)" for ids
    using that by (induction ids) auto
  then show ?thesis
    by (simp add: diff_executions_def Let_def) (simp add: set_stable_sort)
qed

text \<open>An entry that says the node behaved the same.\<close>

fun unchanged :: "node_diff \<Rightarrow> bool" where
  "unchanged (InBoth _ d) = (\<not> nd_status_changed d \<and> \<not> nd_input_changed d \<and> \<not> nd_output_changed d \<and> nd_outputs d = None)"
| "unchanged _ = False"

text \<open>The comparison of two executions has one entry for each node that left a result in
  either, and comparing an execution with itself reports no change (for data without floats,
  whose not-a-number differs from itself).\<close>

lemma diff_covers_nodes_and_is_reflexive:
  assumes "\<forall>r \<in> set (ex_node_results a). no_float (PDict (rs_data (nr_replay r))) \<and> no_float (entry_output r)"
  shows "distinct (map diff_node_id (diff_executions a b))
    \<and> set (map diff_node_id (diff_executions a b)) = nr_node_id ` (set (ex_node_results a) \<union> set (ex_node_results b))
    \<and> list_all unchanged (diff_executions a a)"
proof -
  have dist: "distinct (stable_sort str_lt xs) \<longleftrightarrow> distinct xs" for xs :: "string list"
    using mset_stable_sort mset_eq_imp_distinct_iff by blast
  let ?a = "results_by_node (ex_node_results a)"
  have "unchanged d" if "d \<in> set (diff_node ?a ?a nid)" for d nid
    using that assms
    by (cases "map_of ?a nid")
       (auto simp: diff_node_def diff_pair_def Let_def dest!: results_by_node_mem simp del: py_eq.simps intro!: py_eq_refl)
  then have "list_all unchanged (diff_executions a a)"
    by (auto simp: diff_executions_def Let_def list_all_iff)
  then show ?thesis
    unfolding diff_executions_ids dist set_stable_sort set_remdups set_append set_map keys_results_by_node
    by (simp add: image_Un)
qed

definition sample_execution :: execution where
  "sample_execution =
     (new_execution (sample_engine []) cyclic_workflow [] sample_world)
       \<lparr>ex_node_results := [trigger_entry sample_rt (sample_node ''t'' ''trigger'' []) [(''id'', PInt 1)] 0 loop_context]\<rparr>"

lemma diff_covers_nodes_and_is_reflexive_witness:
  "map diff_node_id (diff_executions sample_execution sample_execution) \<noteq> []
    \<and> list_all unchanged (diff_executions sample_execution sample_execution)"
proof -
  have "\<forall>r \<in> set (ex_node_results sample_execution). no_float (PDict (rs_data (nr_replay r))) \<and> no_float (entry_output r)"
    by (simp add: sample_execution_def trigger_entry_def replay_of_def loop_context_def new_context_def entry_output_def)
  from diff_covers_nodes_and_is_reflexive [OF this, of sample_execution] show ?thesis
    by (auto simp: sample_execution_def)
qed

end
