(* ===== verification/ExprProps.thy ===== *)
theory ExprProps
  imports Samples
begin

text \<open>
  Properties of the expression language: templates, comparisons with coercion,
  and mapping rules.
\<close>

section \<open>Templates\<close>

lemma interpolate_prefix: "CHR ''{'' \<notin> set a \<Longrightarrow> interpolate f (a @ t) = a @ interpolate f t"
  by (induction a) auto

lemma find_close_path:
  assumes "CHR ''}'' \<notin> set p" and "\<forall>c \<in> set p. char_code c \<noteq> 10" and "acc \<noteq> [] \<or> p \<noteq> []"
  shows "find_close acc (p @ ''}}'' @ b) = Some (rev acc @ p, b)"
  using assms
proof (induction p arbitrary: acc)
  case Nil
  then show ?case by simp
next
  case (Cons c p)
  have "\<not> starts_with ((c # p) @ ''}}'' @ b) ''}}''" using Cons.prems(1) by auto
  with Cons show ?case by simp
qed

text \<open>A template is its literal text with each placeholder replaced: text without an opening
  brace is copied, the path between the braces is resolved (an unresolved one becomes empty),
  and the rest is treated the same way.\<close>

lemma template_substitution:
  assumes "CHR ''{'' \<notin> set before" and "path \<noteq> []" and "CHR ''}'' \<notin> set path"
    and "\<forall>c \<in> set path. char_code c \<noteq> 10"
  shows "interpolate_string rt (before @ ''{{'' @ path @ ''}}'' @ rest) ctx =
    before @ (let v = resolve_str (py_strip path) ctx in if v = PNone then [] else py_str rt v)
      @ interpolate_string rt rest ctx"
proof -
  have "find_close [] (path @ ''}}'' @ rest) = Some (path, rest)"
    using find_close_path [OF assms(3,4), of "[]" rest] assms(2) by simp
  then show ?thesis
    by (simp add: interpolate_string_def interpolate_prefix [OF assms(1)] Let_def)
qed

definition order_context :: wctx where
  "order_context = \<lparr>cx_data = [(''qty'', PInt 3)], cx_trigger = [], cx_vars = [], cx_outs = []\<rparr>"

lemma order_qty: "resolve_str ''qty'' order_context = PInt 3"
  by (simp add: order_context_def resolve_str_def get_nested.simps get_path.simps text_eval dget_def)

lemma template_substitution_witness:
  "interpolate_string sample_rt ''n={{ qty }}!'' order_context = ''n=3!''"
proof -
  have path: "py_strip '' qty '' = ''qty''" by (simp add: py_strip_def is_space_def char_code_def)
  have three: "py_str sample_rt (PInt 3) = ''3''" by (simp add: int_str_def nat_str.simps digit_char_def text_eval)
  have tail: "interpolate_string sample_rt ''!'' order_context = ''!''" by (simp add: interpolate_string_def)
  have "interpolate_string sample_rt (''n='' @ ''{{'' @ '' qty '' @ ''}}'' @ ''!'') order_context
      = ''n='' @ ''3'' @ ''!''"
    by (subst template_substitution) (simp_all add: path order_qty three tail char_code_def del: py_str_simps)
  then show ?thesis by simp
qed

text \<open>A value that starts with an opening and ends with a closing pair of braces is read as one
  placeholder, also when it holds two: the path is everything in between, which names no
  field, and the value becomes \<^verbatim>\<open>None\<close> instead of the two values joined.\<close>

lemma two_placeholders_resolve_to_none:
  assumes "map_of (cx_data ctx) ''a}} {{b'' = None"
  shows "interpolate_dict rt ctx (PStr ''{{a}} {{b}}'') = PNone"
proof -
  have "is_placeholder ''{{a}} {{b}}''" by (simp add: is_placeholder_def ends_with_def)
  moreover have "placeholder_path ''{{a}} {{b}}'' = ''a}} {{b''"
    by (simp add: placeholder_path_def py_slice_def slice_bound_def py_strip_def is_space_def char_code_def)
  moreover have "resolve_str ''a}} {{b'' ctx = PNone"
    using assms by (simp add: resolve_str_def get_nested.simps get_path.simps text_eval dget_def)
  ultimately show ?thesis by simp
qed

lemma two_placeholders_resolve_to_none_witness:
  "interpolate_dict sample_rt \<lparr>cx_data = [(''a'', PInt 1), (''b'', PInt 2)], cx_trigger = [], cx_vars = [], cx_outs = []\<rparr>
     (PStr ''{{a}} {{b}}'') = PNone"
  by (rule two_placeholders_resolve_to_none) simp

section \<open>Comparisons\<close>

definition condition :: "string \<Rightarrow> string \<Rightarrow> pyval \<Rightarrow> pyval" where
  "condition field op v = PDict [(''field'', PStr field), (''operator'', PStr op), (''value'', v)]"

lemma evaluate_condition_op:
  assumes "operator_map op = Some f" and "case v of PStr s \<Rightarrow> \<not> contains_sub s ''{{'' | _ \<Rightarrow> True"
  shows "evaluate_condition rt (condition field op v) ctx =
    (let actual = resolve_str field ctx; (a, b) = coerce_types rt actual v in
     Inr (or_false (f actual v) \<or> or_false (f a b)))"
proof -
  have "(case v of PStr s \<Rightarrow> (if contains_sub s ''{{'' then PStr (interpolate_string rt s ctx) else v) | _ \<Rightarrow> v) = v"
    using assms(2) by (cases v) auto
  then show ?thesis
    using assms(1) by (simp add: evaluate_condition_def condition_def dget_def Let_def case_prod_beta)
qed

lemma operator_cases:
  "operator_map ''eq'' = Some (\<lambda>a b. Inr (py_eq a b))" "operator_map ''neq'' = Some (\<lambda>a b. Inr (\<not> py_eq a b))"
  "operator_map ''gt'' = Some (py_cmp CGt)" "operator_map ''lt'' = Some (py_cmp CLt)"
  "operator_map ''gte'' = Some (py_cmp CGe)" "operator_map ''lte'' = Some (py_cmp CLe)"
  by (simp_all add: operator_map_def)

lemmas condition_cases = operator_cases [THEN evaluate_condition_op]

text \<open>For a field that holds an integer and a condition value that is text denoting the same
  integer, \<^verbatim>\<open>eq\<close> holds after coercion, and \<^verbatim>\<open>neq\<close> holds as well, because it is
  already true of the values before coercion.\<close>

lemma eq_and_neq_both_hold:
  assumes "resolve_str field ctx = PInt i" and "parse_int v = Some i" and "\<not> contains_sub v ''{{''"
  shows "evaluate_condition rt (condition field ''eq'' (PStr v)) ctx = Inr True
    \<and> evaluate_condition rt (condition field ''neq'' (PStr v)) ctx = Inr True"
proof -
  have "coerce_types rt (PInt i) (PStr v) = (PInt i, PInt i)"
    by (simp add: coerce_types_def is_number_def convert_like_def assms(2))
  then show ?thesis
    using assms by (simp add: condition_cases or_false_def num_eq_def Let_def)
qed

lemma eq_and_neq_both_hold_witness:
  "evaluate_condition sample_rt (condition ''qty'' ''eq'' (PStr ''3'')) order_context = Inr True
    \<and> evaluate_condition sample_rt (condition ''qty'' ''neq'' (PStr ''3'')) order_context = Inr True"
  by (rule eq_and_neq_both_hold [OF order_qty])
     (simp_all add: parse_int_def py_strip_def is_space_def char_code_def is_digit_def digit_val_def text_eval)

text \<open>For integers the four ordering operators of a condition decide the order of the field
  and the expected value, whether the expected value is given as a number or as text that
  denotes it, and equality decides equality.\<close>

lemma integer_conditions_decide_order:
  assumes "resolve_str field ctx = PInt i" and "v = PInt j \<or> v = PStr (int_str j)" and "\<not> contains_sub (int_str j) ''{{''"
  shows "evaluate_condition rt (condition field ''lt'' v) ctx = Inr (i < j)
    \<and> evaluate_condition rt (condition field ''lte'' v) ctx = Inr (i \<le> j)
    \<and> evaluate_condition rt (condition field ''gt'' v) ctx = Inr (j < i)
    \<and> evaluate_condition rt (condition field ''gte'' v) ctx = Inr (j \<le> i)
    \<and> evaluate_condition rt (condition field ''eq'' v) ctx = Inr (i = j)"
proof -
  have as_text: "coerce_types rt (PInt i) (PStr (int_str j)) = (PInt i, PInt j)"
    by (simp add: coerce_types_def is_number_def convert_like_def parse_int_int_str)
  have num: "coerce_types rt (PInt i) (PInt j) = (PInt i, PInt j)" by (simp add: coerce_types_def)
  from assms(2) show ?thesis
  proof
    assume "v = PInt j"
    then show ?thesis
      using assms(1) num
      by (auto simp: condition_cases or_false_def num_eq_def cmp_num_def Let_def)
  next
    assume v: "v = PStr (int_str j)"
    show ?thesis
      using assms(1,3) as_text
      by (auto simp: v condition_cases or_false_def num_eq_def cmp_num_def Let_def cmp_type_error_def)
  qed
qed

lemma integer_conditions_decide_order_witness:
  "evaluate_condition sample_rt (condition ''qty'' ''lt'' (PStr (int_str 10))) order_context = Inr True"
proof -
  have "\<not> contains_sub (int_str 10) ''{{''"
    by (simp add: int_str_def nat_str.simps digit_char_def text_eval)
  from integer_conditions_decide_order [OF order_qty disjI2 [OF refl] this, of sample_rt] show ?thesis by simp
qed

end
