(* ===== verification/PathProps.thy ===== *)
theory PathProps
  imports Samples
begin

text \<open>Properties of field paths: what is written is read back, other fields are left alone, and the
  engine and the mapping resolver agree.  They rest on the interpretations of \<open>path_store\<close> for the two
  implementations.\<close>



text \<open>A list written to an array path, such as the column \<^verbatim>\<open>items[].sku\<close>, is read back at that path,
  element by element; elements of the array beyond the list keep the values they had.\<close>

lemma array_column_reads_back:
  assumes "array_split key = Some (p, r)" and "p \<noteq> []" and "last (py_split ''.'' p) \<noteq> []" and "plain_key r"
    and "set_nested rt c key (PList vs) d = Inr d'"
  shows "get_nested d' key = PList (vs @ drop (length vs) (read_list d key))"
  by (rule array_write_reads_back [OF assms])

lemma array_column_reads_back_witness:
  "\<exists>d'. set_nested sample_rt True ''items[].sku'' (PList [PInt 1, PInt 2]) (PDict []) = Inr d'
     \<and> get_nested d' ''items[].sku'' = PList [PInt 1, PInt 2]"
proof -
  obtain d' where d: "set_nested sample_rt True ''items[].sku'' (PList [PInt 1, PInt 2]) (PDict []) = Inr (PDict d')"
    using set_nested_empty by blast
  have split: "array_split ''items[].sku'' = Some (''items'', ''sku'')" by (simp add: array_split_def)
  have "get_nested (PDict d') ''items[].sku'' = PList ([PInt 1, PInt 2] @ drop (length [PInt 1, PInt 2]) (read_list (PDict []) ''items[].sku''))"
    by (rule array_column_reads_back [OF split _ _ _ d]) (simp_all add: plain_key_def contains_sub_def py_split_def py_split_acc.simps)
  moreover have "read_list (PDict []) ''items[].sku'' = []"
    by (simp add: read_list_def get_nested_array_eq [OF split] py_split_def py_split_acc.simps dget_def)
  ultimately show ?thesis using d by auto
qed



end
