(* ===== verification/RateLimiterProps.thy ===== *)
theory RateLimiterProps
  imports RateLimiter
begin

text \<open>Properties of the two rate limiters: how many calls a token bucket admits over a stretch of
  time, that the advised wait is long enough, and which requests the window of the API admits.\<close>

section \<open>The token bucket\<close>

definition refill_rate :: "rate_limit_config \<Rightarrow> rat" where
  "refill_rate cfg = of_nat (rl_requests cfg) / of_nat (rl_window_seconds cfg)"

text \<open>A stored bucket as \<^const>\<open>bucket_after\<close> leaves it, holding between none and all tokens.\<close>

definition bucket_ok :: "rate_limit_config \<Rightarrow> bucket \<Rightarrow> bool" where
  "bucket_ok cfg b \<longleftrightarrow> 0 \<le> bk_tokens b \<and> bk_tokens b \<le> of_nat (rl_requests cfg)
     \<and> bk_expires b = bk_last b + 2 * of_nat (rl_window_seconds cfg)"

lemma refill_rate_nonneg [simp]: "0 \<le> refill_rate cfg"
  by (simp add: refill_rate_def)

lemma refill_window: "0 < rl_window_seconds cfg \<Longrightarrow> refill_rate cfg * of_nat (rl_window_seconds cfg) = of_nat (rl_requests cfg)"
  by (simp add: refill_rate_def)

lemma refilled_None [simp]: "refilled cfg None now = of_nat (rl_requests cfg)"
  by (simp add: refilled_def)

lemma refilled_Some:
  "bk_last b \<le> now \<Longrightarrow> refilled cfg (Some b) now = min (of_nat (rl_requests cfg)) (bk_tokens b + (now - bk_last b) * refill_rate cfg)"
  by (simp add: refilled_def refill_rate_def Let_def)

text \<open>The expiry of a bucket cannot be observed: by then it would be full again.\<close>

lemma expired_is_full:
  assumes "bucket_ok cfg b" and "bk_expires b \<le> now" and "0 < rl_window_seconds cfg"
  shows "refilled cfg (Some b) now = of_nat (rl_requests cfg)"
proof -
  have el: "2 * of_nat (rl_window_seconds cfg) \<le> now - bk_last b" using assms(1,2) by (simp add: bucket_ok_def)
  have "2 * (of_nat (rl_window_seconds cfg) * refill_rate cfg) \<le> (now - bk_last b) * refill_rate cfg"
    using mult_right_mono [OF el refill_rate_nonneg] by (simp add: mult.assoc)
  then have "2 * of_nat (rl_requests cfg) \<le> (now - bk_last b) * refill_rate cfg"
    using refill_window [OF assms(3)] by (simp add: mult.commute)
  moreover have "bk_last b \<le> now" using el of_nat_0_le_iff [of "rl_window_seconds cfg"] by linarith
  moreover have "(0::rat) \<le> of_nat (rl_requests cfg)" by simp
  ultimately show ?thesis using assms(1) by (simp add: refilled_Some bucket_ok_def min_def)
qed

lemma check_bucket_cases:
  assumes "1 \<le> rl_requests cfg" and "0 < rl_window_seconds cfg" and "0 \<le> refilled cfg b now"
  obtains r b' where "check_bucket cfg b now = Inr (r, b')" "bucket_ok cfg b'" "bk_last b' = now"
    "bk_tokens b' + (if rr_allowed r then 1 else 0) = refilled cfg b now"
    "rr_allowed r \<longleftrightarrow> 1 \<le> refilled cfg b now"
    "\<not> rr_allowed r \<Longrightarrow> rr_retry_after r = Some (max (round2 ((1 - refilled cfg b now) / refill_rate cfg)) (1 / 10))"
proof -
  have full: "refilled cfg b now \<le> of_nat (rl_requests cfg)" by (auto simp: refilled_def Let_def)
  have "refill_rate cfg \<noteq> 0" using assms(1,2) by (simp add: refill_rate_def)
  note facts = full assms(3) this
  show thesis
  proof (cases "1 \<le> refilled cfg b now")
    case True
    show thesis
      by (rule that [where b' = "bucket_after cfg (refilled cfg b now - 1) now"])
        (use facts True in \<open>auto simp: check_bucket_def Let_def bucket_after_def bucket_ok_def\<close>)
  next
    case False
    show thesis
      by (rule that [where b' = "bucket_after cfg (refilled cfg b now) now"])
        (use facts False in \<open>auto simp: check_bucket_def Let_def bucket_after_def bucket_ok_def refill_rate_def\<close>)
  qed
qed

text \<open>The calls of one connector, action, tenant and version at the given times.\<close>

fun check_all ::
  "limiter \<Rightarrow> buckets \<Rightarrow> string \<Rightarrow> string option \<Rightarrow> string option \<Rightarrow> string option \<Rightarrow> rat list
    \<Rightarrow> (rate_limit_result list \<times> buckets) py" where
  "check_all lm st c a t v [] = Inr ([], st)"
| "check_all lm st c a t v (now # later) =
     andThen (check_rate lm st c a t v now) (\<lambda>(r, st').
     andThen (check_all lm st' c a t v later) (\<lambda>(rs, st'').
     Inr (r # rs, st'')))"

definition admitted :: "rate_limit_result list \<Rightarrow> nat" where
  "admitted rs = length (filter rr_allowed rs)"

definition limits_of :: "limiter \<Rightarrow> string \<Rightarrow> string option \<Rightarrow> string option \<Rightarrow> rate_limit_config \<Rightarrow> bool" where
  "limits_of lm c a v cfg \<longleftrightarrow> lm_enabled lm \<and> get_limits (lm_registry lm) (lm_default lm) c a v = Inr cfg
     \<and> 1 \<le> rl_requests cfg \<and> 0 < rl_window_seconds cfg"

text \<open>A store whose bucket of the key is good and was last used no later than \<open>now\<close>; \<open>level\<close> is what
  it holds at \<open>now\<close>.\<close>

definition level :: "rate_limit_config \<Rightarrow> buckets \<Rightarrow> string \<Rightarrow> rat \<Rightarrow> rat" where
  "level cfg st key now = refilled cfg (map_of st key) now"

definition store_ok :: "rate_limit_config \<Rightarrow> buckets \<Rightarrow> string \<Rightarrow> rat \<Rightarrow> bool" where
  "store_ok cfg st key now \<longleftrightarrow> (\<forall>b. map_of st key = Some b \<longrightarrow> bucket_ok cfg b \<and> bk_last b \<le> now)"

lemma fetched_level:
  assumes "store_ok cfg st key now" and "0 < rl_window_seconds cfg"
  shows "refilled cfg (fetch_bucket st key now) now = level cfg st key now"
  using assms expired_is_full by (auto simp: level_def fetch_bucket_def store_ok_def split: option.splits)

lemma level_nonneg:
  assumes "store_ok cfg st key now" shows "0 \<le> level cfg st key now"
proof (cases "map_of st key")
  case (Some b)
  then have b: "0 \<le> bk_tokens b" "bk_last b \<le> now" using assms by (auto simp: store_ok_def bucket_ok_def)
  then have "0 \<le> (now - bk_last b) * refill_rate cfg" by simp
  with b Some show ?thesis by (simp add: level_def refilled_Some)
qed (simp add: level_def)

lemma check_rate_step:
  assumes "limits_of lm c a v cfg" and "store_ok cfg st (bucket_key c a t v) now"
  obtains r b where "check_rate lm st c a t v now = Inr (r, dset st (bucket_key c a t v) b)" "bucket_ok cfg b"
    "bk_last b = now" "bk_tokens b + (if rr_allowed r then 1 else 0) = level cfg st (bucket_key c a t v) now"
    "rr_allowed r \<longleftrightarrow> 1 \<le> level cfg st (bucket_key c a t v) now"
    "\<not> rr_allowed r \<Longrightarrow> rr_retry_after r
       = Some (max (round2 ((1 - level cfg st (bucket_key c a t v) now) / refill_rate cfg)) (1 / 10))"
proof -
  let ?b = "fetch_bucket st (bucket_key c a t v) now"
  have lv: "refilled cfg ?b now = level cfg st (bucket_key c a t v) now"
    using assms by (intro fetched_level) (auto simp: limits_of_def)
  have "1 \<le> rl_requests cfg" "0 < rl_window_seconds cfg" using assms(1) by (auto simp: limits_of_def)
  then show thesis
    using lv level_nonneg [OF assms(2)] that assms(1)
    by (rule_tac b = ?b and now = now and cfg = cfg in check_bucket_cases)
      (auto simp: check_rate_def limits_of_def)
qed

lemma level_after:
  assumes "bk_last b \<le> now"
  shows "level cfg (dset st key b) key now \<le> bk_tokens b + (now - bk_last b) * refill_rate cfg"
  using assms by (simp add: level_def refilled_Some)

lemma check_all_bound:
  assumes "limits_of lm c a v cfg" and "store_ok cfg st (bucket_key c a t v) now" and "sorted (now # later)"
  shows "\<exists>rs st'. check_all lm st c a t v (now # later) = Inr (rs, st') \<and> length rs = Suc (length later)
    \<and> of_nat (admitted rs) \<le> level cfg st (bucket_key c a t v) now + (last (now # later) - now) * refill_rate cfg"
  using assms(2,3)
proof (induction later arbitrary: st now)
  case Nil
  from assms(1) Nil.prems(1) show ?case
    by (rule check_rate_step) (auto simp: admitted_def bucket_ok_def)
next
  case (Cons u later)
  let ?k = "bucket_key c a t v"
  obtain r b where r: "check_rate lm st c a t v now = Inr (r, dset st ?k b)" and b: "bucket_ok cfg b" "bk_last b = now"
    and tok: "bk_tokens b + (if rr_allowed r then 1 else 0) = level cfg st ?k now"
    using check_rate_step [OF assms(1) Cons.prems(1)] by metis
  have "store_ok cfg (dset st ?k b) ?k u" using b Cons.prems(2) by (simp add: store_ok_def)
  from Cons.IH [OF this] Cons.prems(2) obtain rs st' where
    rest: "check_all lm (dset st ?k b) c a t v (u # later) = Inr (rs, st')" "length rs = Suc (length later)"
    and bound: "of_nat (admitted rs) \<le> level cfg (dset st ?k b) ?k u + (last (u # later) - u) * refill_rate cfg"
    by auto
  have "level cfg (dset st ?k b) ?k u \<le> bk_tokens b + (u - now) * refill_rate cfg"
    using level_after [of b u cfg st ?k] b(2) Cons.prems(2) by simp
  with bound tok have "of_nat (admitted (r # rs)) \<le> level cfg st ?k now + (last (now # u # later) - now) * refill_rate cfg"
    by (auto simp: admitted_def algebra_simps split: if_splits)
  with r rest show ?case by auto
qed


definition sample_limiter :: limiter where
  "sample_limiter = \<lparr>lm_registry = None, lm_default = \<lparr>rl_requests = 2, rl_window_seconds = 1\<rparr>, lm_enabled = True\<rparr>"


lemma round2_near: "x - 1 / 200 \<le> round2 x"
proof -
  let ?y = "x * 100"
  have "?y - 1 / 2 \<le> round2 x * 100"
    by (auto simp: round2_def Let_def) linarith+
  then show ?thesis by linarith
qed



section \<open>The window of the API\<close>

text \<open>The requests of one client to one path, all with the store reachable.\<close>

definition api_history ::
  "(string \<Rightarrow> string) \<Rightarrow> nat \<Rightarrow> nat \<Rightarrow> string \<Rightarrow> string \<Rightarrow> string option \<Rightarrow> rat list \<Rightarrow> (string \<times> rat list) list" where
  "api_history sha w m path api_key ip ts =
     foldl (\<lambda>st now. snd (api_dispatch sha w m True st path api_key ip now)) [] ts"

lemma api_history_snoc:
  "api_history sha w m path api_key ip (ts @ [now]) = snd (api_dispatch sha w m True (api_history sha w m path api_key ip ts) path api_key ip now)"
  by (simp add: api_history_def)

definition path_window :: "string \<Rightarrow> nat \<Rightarrow> nat" where
  "path_window path w = (if is_sensitive path then 60 else w)"

lemma dispatch_store:
  assumes "path \<notin> set bypass_paths"
  shows "dget (snd (api_dispatch sha w m True st path api_key ip now)) (window_key sha path api_key ip) []
    = window_entries (dget st (window_key sha path api_key ip) []) (path_window path w) now"
  using assms by (auto simp: api_dispatch_def Let_def dget_def path_window_def)

lemma window_entries_spec:
  assumes "set xs = {u \<in> set ts. before - of_nat w < u}" and "distinct xs" and "\<forall>u \<in> set ts. 0 \<le> u \<and> u < now" and "before \<le> now"
  shows "set (window_entries xs w now) = {u \<in> set (ts @ [now]). now - of_nat w < u} \<union> {now} \<and> distinct (window_entries xs w now)"
  using assms by (auto simp: window_entries_def)

lemma window_of_history:
  assumes "path \<notin> set bypass_paths" and "sorted_wrt (<) ts" and "\<forall>u \<in> set ts. 0 \<le> u" and "0 < path_window path w" and "ts \<noteq> []"
  shows "distinct (dget (api_history sha w m path api_key ip ts) (window_key sha path api_key ip) [])
    \<and> set (dget (api_history sha w m path api_key ip ts) (window_key sha path api_key ip) [])
      = {u \<in> set ts. last ts - of_nat (path_window path w) < u}"
  using assms(5,2,3)
proof (induction ts rule: rev_nonempty_induct)
  case (single t)
  show ?case using assms(1,4) api_history_snoc [of sha w m path api_key ip "[]" t]
    by (auto simp: dispatch_store window_entries_def api_history_def) (auto simp: dget_def)
next
  case (snoc t ts)
  let ?xs = "dget (api_history sha w m path api_key ip ts) (window_key sha path api_key ip) []"
  have "distinct ?xs \<and> set ?xs = {u \<in> set ts. last ts - of_nat (path_window path w) < u}"
    using snoc by (simp add: sorted_wrt_append)
  moreover have "\<forall>u \<in> set ts. 0 \<le> u \<and> u < t" "last ts \<le> t" using snoc.prems snoc.hyps
    by (auto simp: sorted_wrt_append intro: less_imp_le)
  ultimately show ?case
    using window_entries_spec [of ?xs ts "last ts" "path_window path w" t] assms(1,4)
    by (auto simp: api_history_snoc dispatch_store)
qed



end
