(* ===== verification/DispatchProps.thy ===== *)
theory DispatchProps
  imports ConnectorActions WebhookProps
begin

text \<open>Properties of the dispatcher and of connector actions: where requests go and how many there are,
  what repeats them, which part of an address a payload can reach, and whose credentials matter.\<close>

section \<open>Requests of a computation\<close>

text \<open>\<open>m\<close> sends at most \<open>n\<close> requests, all to addresses that begin with \<open>base\<close>.\<close>

definition sends :: "string \<Rightarrow> nat \<Rightarrow> 'a dact \<Rightarrow> bool" where
  "sends base n m \<longleftrightarrow>
     (\<forall>s r t. m s = Some (r, t) \<longrightarrow>
        (\<exists>new. dp_requests t = dp_requests s @ new \<and> length new \<le> n \<and> (\<forall>q \<in> set new. starts_with (cq_url q) base)))"

named_theorems send_rules \<open>bounds on the requests of a computation\<close>

lemma sends_pure [send_rules]:
  "sends base n (ret x)" "sends base n (throw e)" "sends base n (liftE v)"
  by (auto simp: sends_def)

lemma sends_bnd:
  assumes "sends base a m" and "\<And>x. sends base b (f x)"
  shows "sends base (a + b) (bnd m f)"
  unfolding sends_def
proof (intro allI impI)
  fix s r t assume "bnd m f s = Some (r, t)"
  then show "\<exists>new. dp_requests t = dp_requests s @ new \<and> length new \<le> a + b \<and> (\<forall>q \<in> set new. starts_with (cq_url q) base)"
  proof (cases rule: bnd_cases)
    case (raised e)
    with assms(1) show ?thesis unfolding sends_def by (meson trans_le_add1)
  next
    case (returned x u)
    with assms obtain n1 n2 where "dp_requests u = dp_requests s @ n1" "length n1 \<le> a" "\<forall>q \<in> set n1. starts_with (cq_url q) base"
      "dp_requests t = dp_requests u @ n2" "length n2 \<le> b" "\<forall>q \<in> set n2. starts_with (cq_url q) base"
      unfolding sends_def by meson
    then show ?thesis by (intro exI [of _ "n1 @ n2"]) auto
  qed
qed

lemma sends_liftE_bnd [send_rules]: "(\<And>x. v = Inr x \<Longrightarrow> sends base b (f x)) \<Longrightarrow> sends base b (bnd (liftE v) f)"
  by (cases v) (auto simp: sends_def)

lemma sends_mono: "sends base a m \<Longrightarrow> a \<le> b \<Longrightarrow> sends base b m"
  unfolding sends_def by (meson le_trans)

lemma sends_send: "starts_with (cq_url q) base \<Longrightarrow> sends base 1 (send_request ds q)"
  by (auto simp: sends_def send_request_def)

lemma sends_then: "starts_with (cq_url q) base \<Longrightarrow> (\<And>x. sends base b (f x)) \<Longrightarrow> sends base (Suc b) (bnd (send_request ds q) f)"
  using sends_bnd [OF sends_send, of q base b f] by simp

lemma sends_if [send_rules]: "(b \<Longrightarrow> sends base n m) \<Longrightarrow> (\<not> b \<Longrightarrow> sends base n m') \<Longrightarrow> sends base n (if b then m else m')"
  by simp

lemma starts_with_append [simp]: "starts_with (xs @ ys) xs"
  by (induction xs) simp_all

lemma sends_retry_429: "starts_with (cq_url q) base \<Longrightarrow> sends base (Suc n) (retry_429 ds q n)"
  by (induction n) (auto intro!: sends_then sends_send [simplified] sends_pure sends_if intro: sends_mono)

lemma sends_execute: "starts_with (cq_url q) base \<Longrightarrow> sends base 4 (execute_with_429_retry ds q)"
  using sends_retry_429 [of q base max_429_retries ds] by (simp add: execute_with_429_retry_def max_429_retries_def eval_nat_numeral)

lemma sends_ensure_account: "sends base 2 (ensure_account_generic ds base creds provisioning force)"
proof -
  have two: "sends base 2 (bnd (send_request ds q) f)" if "starts_with (cq_url q) base" "\<And>x. sends base 1 (f x)" for q and f :: "_ \<Rightarrow> string dact"
    using sends_then [OF that] by (simp add: numeral_2_eq_2)
  have one: "sends base 1 (bnd (send_request ds q) (\<lambda>_. ret x))" if "starts_with (cq_url q) base" for q and x :: string
    using sends_then [OF that, of 0 "\<lambda>_. ret x"] by (simp add: sends_pure)
  show ?thesis
    unfolding ensure_account_generic_def Let_def http_client_request_def
    by (intro send_rules two one) simp_all
qed

lemma sends_provision: "sends base 2 (provision_credentials ds base payload creds m)"
proof -
  have account: "sends base 2 (bnd (ensure_account_generic ds base creds pr force) (\<lambda>a. bnd (liftE (k a)) (\<lambda>fld. ret (g a fld))))"
    for pr force k and g :: "string \<Rightarrow> string \<Rightarrow> pydict"
    using sends_bnd [OF sends_ensure_account, of base 0 "\<lambda>a. bnd (liftE (k a)) (\<lambda>fld. ret (g a fld))"]
    by (simp add: sends_pure sends_liftE_bnd)
  show ?thesis
    unfolding provision_credentials_def Let_def by (intro send_rules account)
qed

lemma method_request_url [simp]: "cq_url (method_request m url j p h f fm) = url"
  by (simp add: method_request_def Let_def split: option.splits)

lemma routed_request_url:
  "routed_request ds connector action route base payload = Inr q \<Longrightarrow> starts_with (cq_url q) base"
  by (auto simp: routed_request_def build_url_def elim!: andThen_InrE split: option.splits if_splits)

lemma sends_then_pure:
  assumes "sends base 4 m" and "\<And>x. sends base 0 (f x)"
  shows "sends base 4 (bnd m f)"
  using sends_bnd [OF assms] by simp

lemma sends_generic: "sends base 4 (dispatch_generic ds base action payload)"
  unfolding dispatch_generic_def by (intro sends_then_pure sends_execute send_rules) simp

lemma sends_routed: "sends base 4 (dispatch_routed ds connector action route base payload)"
  unfolding dispatch_routed_def by (intro send_rules sends_then_pure sends_execute routed_request_url)

lemma sends_after_limit:
  "sends base 6 (bnd (case creds of None \<Rightarrow> ret payload
        | Some cs \<Rightarrow> if cs = [] then ret payload else provision_credentials ds base payload cs m) (\<lambda>payload'.
      bnd (liftE (coerce_payload (ds_rt ds) m action payload')) (\<lambda>payload''.
      if route = PNone then dispatch_generic ds base action payload''
      else bnd (liftE (route_dict route)) (\<lambda>rd. dispatch_routed ds connector action rd base payload''))))"
proof -
  have "sends base 2 (case creds of None \<Rightarrow> ret payload
        | Some cs \<Rightarrow> if cs = [] then ret payload else provision_credentials ds base payload cs m)"
    by (cases creds) (auto intro: sends_pure sends_provision)
  then have "sends base (2 + 4) (bnd (case creds of None \<Rightarrow> ret payload
        | Some cs \<Rightarrow> if cs = [] then ret payload else provision_credentials ds base payload cs m) (\<lambda>payload'.
      bnd (liftE (coerce_payload (ds_rt ds) m action payload')) (\<lambda>payload''.
      if route = PNone then dispatch_generic ds base action payload''
      else bnd (liftE (route_dict route)) (\<lambda>rd. dispatch_routed ds connector action rd base payload''))))"
    by (rule sends_bnd) (intro send_rules sends_generic sends_routed)
  then show ?thesis by simp
qed

lemma check_limit_state:
  assumes "check_limit ds now connector action tenant version s = Some (r, t)"
  shows "dp_requests t = dp_requests s
    \<and> (r = Inr () \<longrightarrow> (\<forall>lm. ds_limiter ds = Some lm \<longrightarrow>
        (\<exists>rr st. check_rate lm (dp_buckets s) connector (Some action) (Some tenant) version now = Inr (rr, st) \<and> rr_allowed rr)))"
  using assms by (auto simp: check_limit_def split: option.splits sum.splits if_splits)

lemma dispatch_base_cases:
  "dispatch_base ds connector version = Inr base \<Longrightarrow>
     (\<exists>r m. ds_registry ds = Some r \<and> m \<in> set (get_by_name r connector) \<and> base = base_url m)
   \<or> connector_name_ok connector \<and> base = ''http://connector-'' @ connector @ '':8000''"
  by (auto simp: dispatch_base_def manifest_for_def resolve_service_url_def get_by_name_version_def Let_def
      dest: latest_of_greatest find_Some_mem split: option.splits if_splits)

text \<open>C27: An action is sent to its connector and nowhere else: every request it makes, the provisioning of
  the account included, goes to the address of a registered manifest of that name or to the default host of
  a well-formed connector name, there are at most six of them, and there are none unless the rate limiter
  of the connector admits the action.\<close>

theorem action_goes_to_its_connector:
  assumes "dispatch_action ds now connector action payload tenant creds version s = Some (r, t)"
  shows "\<exists>new. dp_requests t = dp_requests s @ new \<and> length new \<le> 6
    \<and> (new \<noteq> [] \<longrightarrow>
        (\<exists>base. (\<forall>q \<in> set new. starts_with (cq_url q) base)
           \<and> ((\<exists>reg m. ds_registry ds = Some reg \<and> m \<in> set (get_by_name reg connector) \<and> base = base_url m)
              \<or> connector_name_ok connector \<and> base = ''http://connector-'' @ connector @ '':8000''))
        \<and> (\<forall>lm. ds_limiter ds = Some lm \<longrightarrow>
             (\<exists>rr st. check_rate lm (dp_buckets s) connector (Some action) (Some tenant) version now = Inr (rr, st) \<and> rr_allowed rr)))"
proof (cases "dispatch_base ds connector version")
  case (Inl e)
  with assms show ?thesis by (auto simp: dispatch_action_def Let_def)
next
  case (Inr base)
  have lifted: "bnd (liftE (Inr x)) f = f x" for x :: string and f :: "string \<Rightarrow> pyval dact" by (simp add: bnd_def liftE_def)
  from assms show ?thesis
    unfolding dispatch_action_def Let_def Inr lifted
  proof (cases rule: bnd_cases)
    case (raised e)
    then show ?thesis using check_limit_state [OF raised(1)] by auto
  next
    case (returned x u)
    note lim = check_limit_state [OF returned(1)]
    obtain new where "dp_requests t = dp_requests u @ new" "length new \<le> 6" "\<forall>q \<in> set new. starts_with (cq_url q) base"
      using returned(2) sends_after_limit [unfolded sends_def] by blast
    then show ?thesis using lim dispatch_base_cases [OF Inr] by (intro exI [of _ new]) auto
  qed
qed

section \<open>Answers that say to wait\<close>

text \<open>A request is repeated, unchanged, only after an answer 429, and at most three times: the answer
  returned is the one to the last request, and it is not 429 unless all four attempts were used up.\<close>

lemma only_429_is_repeated:
  assumes "execute_with_429_retry ds q s = Some (result, t)"
  shows "\<exists>k. 1 \<le> k \<and> k \<le> 4 \<and> t = s\<lparr>dp_requests := dp_requests s @ replicate k q\<rparr>
    \<and> result = ds_http ds (dp_requests s @ replicate (k - 1) q) q
    \<and> (\<forall>i < k - 1. \<exists>r. ds_http ds (dp_requests s @ replicate i q) q = Inr r \<and> hr_status r = 429)
    \<and> (\<forall>r. result = Inr r \<and> hr_status r = 429 \<longrightarrow> k = 4)"
proof -
  have "\<exists>k. 1 \<le> k \<and> k \<le> Suc n \<and> t = s\<lparr>dp_requests := dp_requests s @ replicate k q\<rparr>
    \<and> result = ds_http ds (dp_requests s @ replicate (k - 1) q) q
    \<and> (\<forall>i < k - 1. \<exists>r. ds_http ds (dp_requests s @ replicate i q) q = Inr r \<and> hr_status r = 429)
    \<and> (\<forall>r. result = Inr r \<and> hr_status r = 429 \<longrightarrow> k = Suc n)"
    if "retry_429 ds q n s = Some (result, t)" for n
    using that
  proof (induction n arbitrary: s)
    case 0
    then show ?case by (intro exI [of _ 1]) (auto simp: send_request_def)
  next
    case (Suc n)
    let ?s = "s\<lparr>dp_requests := dp_requests s @ [q]\<rparr>"
    show ?case
    proof (cases "\<exists>r. ds_http ds (dp_requests s) q = Inr r \<and> hr_status r = 429")
      case False
      then show ?thesis
        using Suc.prems by (intro exI [of _ 1]) (auto simp: send_request_def bnd_def split: sum.splits if_splits)
    next
      case True
      then have "retry_429 ds q n ?s = Some (result, t)"
        using Suc.prems by (auto simp: send_request_def bnd_def)
      from Suc.IH [OF this] obtain k where k: "1 \<le> k" "k \<le> Suc n" "t = ?s\<lparr>dp_requests := dp_requests ?s @ replicate k q\<rparr>"
        "result = ds_http ds (dp_requests ?s @ replicate (k - 1) q) q"
        "\<forall>i < k - 1. \<exists>r. ds_http ds (dp_requests ?s @ replicate i q) q = Inr r \<and> hr_status r = 429"
        "\<forall>r. result = Inr r \<and> hr_status r = 429 \<longrightarrow> k = Suc n"
        by blast
      have shift: "dp_requests ?s @ replicate i q = dp_requests s @ replicate (Suc i) q" for i by simp
      have last: "result = ds_http ds (dp_requests s @ replicate k q) q"
        using k(1,4) shift [of "k - 1"] by simp
      have early: "\<exists>r. ds_http ds (dp_requests s @ replicate i q) q = Inr r \<and> hr_status r = 429" if "i < k" for i
        using that True k(5) by (cases i) (auto simp: shift)
      show ?thesis
      proof (intro exI [of _ "Suc k"] conjI)
        show "t = s\<lparr>dp_requests := dp_requests s @ replicate (Suc k) q\<rparr>" using k(3) by simp
        show "\<forall>r. result = Inr r \<and> hr_status r = 429 \<longrightarrow> Suc k = Suc (Suc n)" using k(6) by blast
        show "Suc k \<le> Suc (Suc n)" using k(2) by simp
      qed (simp_all add: last early)
    qed
  qed
  from this [of max_429_retries] assms show ?thesis
    by (simp add: execute_with_429_retry_def max_429_retries_def eval_nat_numeral)
qed

section \<open>What a payload can reach of an address\<close>

lemma count_join: "c \<notin> set sep \<Longrightarrow> count_list (py_join sep xs) c = (\<Sum>x\<leftarrow>xs. count_list x c)"
  by (induction sep xs rule: py_join.induct) auto

lemma count_split_acc:
  "c \<notin> set sep \<Longrightarrow> (\<Sum>x\<leftarrow>py_split_acc sep acc s. count_list x c) = count_list acc c + count_list s c"
proof (induction sep acc s rule: py_split_acc.induct)
  case (2 sep acc d ds)
  show ?case
  proof (cases "sep \<noteq> [] \<and> starts_with (d # ds) sep")
    case True
    then obtain u where u: "d # ds = sep @ u" by (auto simp: starts_with_iff)
    then have "count_list (d # ds) c = count_list u c" and drop: "drop (length sep) (d # ds) = u"
      using 2(3) by (simp_all only: count_list_append append_eq_conv_conj) (simp_all add: u)
    then show ?thesis using True 2(1) [OF True 2(3)] by (simp del: drop.simps)
  next
    case False
    then have "py_split_acc sep acc (d # ds) = py_split_acc sep (d # acc) ds" by auto
    then show ?thesis using 2(2) [OF False 2(3)] by simp
  qed
qed simp

lemma count_replace:
  "old \<noteq> [] \<Longrightarrow> c \<notin> set old \<Longrightarrow> c \<notin> set new \<Longrightarrow> count_list (py_replace old new s) c = count_list s c"
  by (simp add: py_replace_def py_split_def count_join count_split_acc)

text \<open>Characters that separate the parts of an address do not come out of quoting.\<close>

lemma quoted_has_no_separator: "c \<in> set ''/?#'' \<Longrightarrow> c \<notin> set (url_quote v)"
proof -
  have "list_all (\<lambda>n. upper_hex n \<notin> set ''/?#'') [0..<16]" by code_simp
  then have hex: "upper_hex n \<notin> set ''/?#''" if "n < 16" for n
    using that unfolding list_all_iff set_upt by (meson atLeastLessThan_iff zero_le)
  have "\<not> unreserved c" if "c \<in> set ''/?#''" for c
    using that by (auto simp: unreserved_def name_char_def is_digit_def lower_char_def char_code_def Let_def)
  then have plain: "\<not> unreserved c" if "c \<in> set ''/?#''" for c using that by blast
  have code: "char_code d div 16 < 16" "char_code d mod 16 < 16" for d
    using less_mult_imp_div_less [of "char_code d" 16 16] by (simp_all add: char_code_def)
  have "c \<notin> set (quote_char d)" if c: "c \<in> set ''/?#''" for d
  proof (cases "unreserved d")
    case True
    then show ?thesis using plain [OF c] by (auto simp: quote_char_def)
  next
    case False
    moreover have "c \<noteq> CHR ''%''" using c by auto
    moreover have "c \<noteq> upper_hex (char_code d div 16)" "c \<noteq> upper_hex (char_code d mod 16)"
      using c hex [OF code(1)] hex [OF code(2)] by blast+
    ultimately show ?thesis by (simp add: quote_char_def)
  qed
  then show "c \<in> set ''/?#'' \<Longrightarrow> c \<notin> set (url_quote v)"
    by (simp add: url_quote_def del: set_simps)
qed

lemma fill_path_count:
  assumes "fill_path rt (PStr p, body) key = Inr (path', body')" and "c \<in> set ''/?#''" and "c \<notin> set key"
  shows "\<exists>p'. path' = PStr p' \<and> count_list p' c = count_list p c"
proof -
  have "c \<notin> set (placeholder key)" "placeholder key \<noteq> []" using assms(2,3) by (auto simp: placeholder_def)
  then have "count_list (py_replace (placeholder key) (url_quote v) p) c = count_list p c" for v
    using quoted_has_no_separator [OF assms(2)] by (intro count_replace)
  with assms(1) show ?thesis by (auto simp: fill_path_def elim!: andThen_InrE split: if_splits)
qed

lemma fill_paths_count:
  "foldM (fill_path rt) (PStr p, body) keys = Inr (path', body') \<Longrightarrow> c \<in> set ''/?#'' \<Longrightarrow> \<forall>k \<in> set keys. c \<notin> set k \<Longrightarrow>
     \<exists>p'. path' = PStr p' \<and> count_list p' c = count_list p c"
proof (induction keys arbitrary: p body)
  case (Cons key keys)
  from Cons.prems(1) obtain path1 body1 where one: "fill_path rt (PStr p, body) key = Inr (path1, body1)"
    and rest: "foldM (fill_path rt) (path1, body1) keys = Inr (path', body')"
    by (auto elim!: andThen_InrE)
  obtain p1 where "path1 = PStr p1" "count_list p1 c = count_list p c"
    using fill_path_count [OF one Cons.prems(2)] Cons.prems(3) by auto
  then show ?case using Cons.IH [of p1 body1] rest Cons.prems(2,3) by auto
qed auto

text \<open>C28: A payload cannot change the structure of an address: whatever the values of its fields, the path that
  is requested has exactly as many slashes, question marks and hashes as the path of the route, so that a
  value neither climbs to another path nor adds a query.\<close>

theorem payload_stays_in_path_segment:
  assumes "build_url rt route base payload = Inr (url, query, headers, body)" and "map_of route ''path'' = Some (PStr p)"
    and "c \<in> set ''/?#''" and "\<forall>k \<in> fst ` set payload. c \<notin> set k"
  shows "\<exists>path. url = base @ path \<and> count_list path c = count_list p c"
proof -
  obtain path' body' where fill: "foldM (fill_path rt) (PStr p, payload) (map fst payload) = Inr (path', body')"
    and url: "url = base @ py_str rt path'"
    using assms(1,2) by (auto simp: build_url_def elim!: andThen_InrE)
  obtain p' where "path' = PStr p'" "count_list p' c = count_list p c"
    using fill_paths_count [OF fill assms(3)] assms(4) by auto
  with url show ?thesis by simp
qed

theorem payload_stays_in_path_segment_witness:
  "\<exists>url query headers body path.
     build_url sample_rt [(''path'', PStr ''/orders/{id}/lines'')] ''http://connector-shop:8000''
       [(''id'', PStr ''1/../../admin?x=1''), (''sku'', PStr ''a'')] = Inr (url, query, headers, body)
     \<and> url = ''http://connector-shop:8000'' @ path \<and> count_list path CHR ''/'' = 3"
proof -
  have "case build_url sample_rt [(''path'', PStr ''/orders/{id}/lines'')] ''http://connector-shop:8000''
       [(''id'', PStr ''1/../../admin?x=1''), (''sku'', PStr ''a'')] of Inl _ \<Rightarrow> False | Inr _ \<Rightarrow> True"
    by code_simp
  then obtain url query headers body where b: "build_url sample_rt [(''path'', PStr ''/orders/{id}/lines'')] ''http://connector-shop:8000''
       [(''id'', PStr ''1/../../admin?x=1''), (''sku'', PStr ''a'')] = Inr (url, query, headers, body)"
    by (auto split: sum.splits)
  have "\<exists>path. url = ''http://connector-shop:8000'' @ path \<and> count_list path CHR ''/'' = count_list ''/orders/{id}/lines'' CHR ''/''"
    by (rule payload_stays_in_path_segment [OF b]) simp_all
  with b show ?thesis by (auto simp: eval_nat_numeral)
qed

section \<open>Whose credentials matter\<close>

lemma retrieve_all_other_set:
  assumes "(tenant', connector', name') \<noteq> (tenant, connector, name)"
  shows "retrieve_all ci (store_credential ci' nonce v tenant' connector' key plain name') tenant connector name
    = retrieve_all ci v tenant connector name"
proof -
  let ?k = "(tenant', connector', name', key)"
  have "filter (in_set tenant connector name) (update_where (\<lambda>c. cred_id c = ?k) (\<lambda>c. c\<lparr>cr_encrypted := e\<rparr>) (va_credentials v))
      = filter (in_set tenant connector name) (va_credentials v)" for e
    by (rule filter_update_where_other) (use assms in \<open>auto simp: in_set_def cred_id_def\<close>)
  moreover have "\<not> in_set tenant connector name (new_credential ?k e)" for e
    using assms by (auto simp: in_set_def new_credential_def)
  ultimately show ?thesis
    by (simp add: retrieve_all_def store_credential_def put_encrypted_cases)
qed

text \<open>An action of a tenant with a set of credentials is not influenced by what is stored for any other
  tenant, connector or set: after any such stores it makes the same requests, to which it passes the same
  credentials, and ends in the same way.\<close>

lemma other_credentials_do_not_matter:
  assumes "\<forall>x \<in> set subs. (su_tenant x, su_connector x, su_name x) \<noteq> (tenant, connector, credential_name)"
  shows "execute_connector_action cg (store_all ci v subs) now connector action payload tenant credential_name version
    = execute_connector_action cg v now connector action payload tenant credential_name version"
proof -
  have "retrieve_all (cg_cipher cg) (store_all ci v subs) tenant connector credential_name
      = retrieve_all (cg_cipher cg) v tenant connector credential_name"
    using assms
  proof (induction subs arbitrary: v)
    case (Cons x subs)
    then show ?case using retrieve_all_other_set [of "su_tenant x" "su_connector x" "su_name x" tenant connector credential_name]
      by (simp add: store_all_def)
  qed (simp add: store_all_def)
  then show ?thesis by (simp add: execute_connector_action_def action_credentials_def)
qed

section \<open>Conversion of fields\<close>

definition no_text :: "pydict \<Rightarrow> string \<Rightarrow> bool" where
  "no_text payload k \<longleftrightarrow> (\<forall>s. map_of payload k \<noteq> Some (PStr s))"

lemma coerce_list_field_no_text:
  assumes "coerce_list_field payload fld = Inr payload'"
  shows "(no_text payload k \<longrightarrow> no_text payload' k) \<and> (fld = PStr k \<longrightarrow> no_text payload' k)"
  using assms
  by (auto simp: coerce_list_field_def split_list_value_def no_text_def Let_def split: pyval.splits option.splits if_splits)

lemma coerce_list_fields_no_text:
  "foldM coerce_list_field payload flds = Inr payload' \<Longrightarrow>
     (no_text payload k \<longrightarrow> no_text payload' k) \<and> (PStr k \<in> set flds \<longrightarrow> no_text payload' k)"
proof (induction flds arbitrary: payload)
  case (Cons fld flds)
  then obtain p1 where "coerce_list_field payload fld = Inr p1" "foldM coerce_list_field p1 flds = Inr payload'"
    by (auto elim!: andThen_InrE)
  then show ?case using Cons.IH coerce_list_field_no_text by auto
qed simp

lemma coerce_list_fields_again:
  assumes "foldM coerce_list_field payload flds = Inr payload'" and "\<forall>k. PStr k \<in> set flds \<longrightarrow> no_text p k"
  shows "foldM coerce_list_field p flds = Inr p"
  using assms
proof (induction flds arbitrary: payload)
  case (Cons fld flds)
  then obtain p1 where one: "coerce_list_field payload fld = Inr p1" and rest: "foldM coerce_list_field p1 flds = Inr payload'"
    by (auto elim!: andThen_InrE)
  have "coerce_list_field p fld = Inr p"
    using one Cons.prems(2)
    by (auto simp: coerce_list_field_def no_text_def split: pyval.splits option.splits if_splits)
  then show ?case using Cons.IH [OF rest] Cons.prems(2) by simp
qed simp

text \<open>Converting the fields of a payload that was converted before changes nothing, as long as the action
  has no enumerated fields: a call that is made again with the same payload sends the same values.\<close>

lemma list_conversion_is_repeatable:
  assumes "coerce_payload rt (Some m) action payload = Inr payload'"
    and "py_get (dget (cm_payload_hints m) ''enum_fields'' (PDict [])) action (PDict []) = Inr (PDict [])"
  shows "coerce_payload rt (Some m) action payload' = Inr payload'"
proof (cases "cm_payload_hints m = []")
  case False
  with assms obtain list_fields lfs where l: "py_get (dget (cm_payload_hints m) ''list_fields'' (PDict [])) action (PList []) = Inr list_fields"
    "py_iter list_fields = Inr lfs" and f: "foldM coerce_list_field payload lfs = Inr payload'"
    by (auto simp: coerce_payload_def py_items_def elim!: andThen_InrE)
  have "\<forall>k. PStr k \<in> set lfs \<longrightarrow> no_text payload' k" using coerce_list_fields_no_text [OF f] by blast
  with coerce_list_fields_again [OF f] show ?thesis using False l assms(2) by (simp add: coerce_payload_def py_items_def)
qed (use assms in \<open>simp add: coerce_payload_def\<close>)

definition sample_manifest :: "pydict \<Rightarrow> manifest" where
  "sample_manifest hints = (sample_webhooks ''x-sig'')\<lparr>cm_payload_hints := hints\<rparr>"

lemma list_conversion_is_repeatable_witness:
  "\<exists>d. coerce_payload sample_rt (Some (sample_manifest [(''list_fields'', PDict [(''send'', PList [PStr ''to''])])])) ''send''
        [(''to'', PStr ''a, b'')] = Inr d
     \<and> coerce_payload sample_rt (Some (sample_manifest [(''list_fields'', PDict [(''send'', PList [PStr ''to''])])])) ''send'' d = Inr d
     \<and> map_of d ''to'' = Some (PList [PStr ''a'', PStr ''b''])"
proof -
  let ?m = "sample_manifest [(''list_fields'', PDict [(''send'', PList [PStr ''to''])])]"
  have once: "coerce_payload sample_rt (Some ?m) ''send'' [(''to'', PStr ''a, b'')] = Inr [(''to'', PList [PStr ''a'', PStr ''b''])]"
    by code_simp
  have "coerce_payload sample_rt (Some ?m) ''send'' [(''to'', PList [PStr ''a'', PStr ''b''])] = Inr [(''to'', PList [PStr ''a'', PStr ''b''])]"
    by (rule list_conversion_is_repeatable [OF once]) (simp add: sample_manifest_def dget_def)
  with once show ?thesis by simp
qed

text \<open>Enumerated fields are mapped again: a flow that retries its action passes the payload that the first
  attempt has converted in place.\<close>

lemma enumerated_field_is_mapped_again:
  "coerce_payload sample_rt (Some (sample_manifest [(''enum_fields'', PDict [(''send'',
       PDict [(''kind'', PDict [(''values'', PDict [(''a'', PStr ''b''), (''b'', PStr ''c'')])])])])])) ''send'' [(''kind'', PStr ''a'')]
     = Inr [(''kind'', PStr ''b'')]
   \<and> coerce_payload sample_rt (Some (sample_manifest [(''enum_fields'', PDict [(''send'',
       PDict [(''kind'', PDict [(''values'', PDict [(''a'', PStr ''b''), (''b'', PStr ''c'')])])])])])) ''send'' [(''kind'', PStr ''b'')]
     = Inr [(''kind'', PStr ''c'')]"
  by code_simp

section \<open>A dispatcher\<close>

text \<open>A service that answers 429 to its first request and 200 to every other.\<close>

definition sample_answer :: "int \<Rightarrow> http_response" where
  "sample_answer status = \<lparr>hr_status = status, hr_json = Some (PDict [(''ok'', PBool True)]), hr_text = [], hr_headers = []\<rparr>"

definition sample_dispatcher :: dispatcher where
  "sample_dispatcher =
     \<lparr>ds_rt = sample_rt, ds_b64decode = Some, ds_status_text = (\<lambda>_. ''error''), ds_registry = Some [(''shop'', sample_manifest [])],
      ds_limiter = None, ds_http = (\<lambda>sent q. Inr (sample_answer (if sent = [] then 429 else 200)))\<rparr>"

definition idle_dispatch :: dispatch_state where
  "idle_dispatch = \<lparr>dp_requests = [], dp_buckets = []\<rparr>"

definition order_request :: connector_request where
  "order_request = method_request (PStr ''POST'') ''http://connector-shop:8000/actions/order.create'' (Some (PDict [])) [] [] None []"

lemma sample_retry:
  "execute_with_429_retry sample_dispatcher order_request idle_dispatch
     = Some (Inr (sample_answer 200), \<lparr>dp_requests = [order_request, order_request], dp_buckets = []\<rparr>)"
  by (simp add: execute_with_429_retry_def max_429_retries_def eval_nat_numeral sample_dispatcher_def send_request_def
      idle_dispatch_def bnd_def sample_answer_def)

lemma only_429_is_repeated_witness:
  "\<exists>k. 1 \<le> k \<and> k \<le> 4 \<and> [order_request, order_request] = replicate k order_request"
  using only_429_is_repeated [OF sample_retry] by (auto simp: idle_dispatch_def)

lemma sample_dispatch:
  "dispatch_action sample_dispatcher 0 ''shop'' ''order.create'' [] ''acme'' None None idle_dispatch
     = Some (Inr (PDict [(''ok'', PBool True)]), \<lparr>dp_requests = [order_request, order_request], dp_buckets = []\<rparr>)"
proof -
  have m: "manifest_for sample_dispatcher ''shop'' None = Some (sample_manifest [])" by code_simp
  have "base_url (sample_manifest []) = ''http://connector-shop:8000''" by code_simp
  moreover have "dget (cm_action_routes (sample_manifest [])) ''order.create'' PNone = PNone" by code_simp
  ultimately show ?thesis
    using sample_retry
    by (simp add: dispatch_action_def dispatch_base_def m check_limit_def sample_dispatcher_def [THEN arg_cong [where f = ds_limiter]]
        bnd_def liftE_def ret_def coerce_payload_def sample_manifest_def dispatch_generic_def order_request_def
        raise_for_status_with_body_def is_success_def sample_answer_def response_json_def Let_def)
qed

theorem action_goes_to_its_connector_witness:
  "\<exists>base. starts_with (cq_url order_request) base
     \<and> (\<exists>m \<in> set (get_by_name [(''shop'', sample_manifest [])] ''shop''). base = base_url m)"
proof -
  have reg: "ds_registry sample_dispatcher = Some [(''shop'', sample_manifest [])]" by (simp add: sample_dispatcher_def)
  have in_reg: "sample_manifest [] \<in> set (get_by_name [(''shop'', sample_manifest [])] ''shop'')"
    by (simp add: get_by_name_def get_all_def sample_manifest_def sample_webhooks_def)
  have default: "''http://connector-'' @ ''shop'' @ '':8000'' = base_url (sample_manifest [])" by code_simp
  from action_goes_to_its_connector [OF sample_dispatch] reg in_reg default show ?thesis
    by (simp add: idle_dispatch_def) blast
qed

definition sample_connector_gateway :: connector_gateway where
  "sample_connector_gateway =
     \<lparr>cg_dispatcher = sample_dispatcher, cg_registry = [], cg_cipher = plain_cipher, cg_instances = [],
      cg_token = (\<lambda>_ _ _ _. Inr None)\<rparr>"

lemma other_credentials_do_not_matter_witness:
  "execute_connector_action sample_connector_gateway (store_all plain_cipher empty_vault [sample_submission ''secret'']) 0
      ''shop'' ''order.create'' [] ''acme'' ''default'' None
   = execute_connector_action sample_connector_gateway empty_vault 0 ''shop'' ''order.create'' [] ''acme'' ''default'' None"
  by (rule other_credentials_do_not_matter) (simp add: sample_submission_def)

end
