(* ===== verification/Spec2Isabelle.thy ===== *)
theory Spec2Isabelle
  imports AgentProps SdkProps SdkAppProps AccessProps ValidatorProps HealthProps SchedulerProps SchemaProps OAuthProps EventProps EngineProps NodeProps ExprProps PathProps SyncProps FlowProps RegistryProps RateLimiterProps PiiRedactor VaultProps WebhookProps GatewayProps DispatchProps
begin

text \<open>
  A verification of the core of the Open Integration Platform.

  \<^bold>\<open>The program.\<close>  The platform connects external systems.  A connector announces an event for a
  tenant; the platform selects what listens to it and calls actions of other connectors.  Two engines
  do this.  A \<^emph>\<open>flow\<close> (\<^verbatim>\<open>core/flow_engine.py\<close>) maps the data of the event to the fields of one action
  and calls it, with retries.  A \<^emph>\<open>workflow\<close> (\<^verbatim>\<open>core/workflow_engine.py\<close>) is a graph of nodes of eighteen
  types (actions, conditions, loops, batches, sub-workflows, calls to an AI agent, ...) that share a
  context.  Both take the connector from the registry (\<^verbatim>\<open>core/connector_registry.py\<close>) and call it
  through an executor that keeps to the limits of the connector (\<^verbatim>\<open>core/connector_rate_limiter.py\<close>) with
  credentials of the vault (\<^verbatim>\<open>core/credential_vault.py\<close>).  A workflow may keep a ledger of the entities it
  has handled (\<^verbatim>\<open>core/sync_state.py\<close>), so that a repeated event is not executed twice.  The API counts
  the requests of a client (\<^verbatim>\<open>middleware/rate_limiter.py\<close>) and masks personal data in what it shows
  (\<^verbatim>\<open>core/pii_redactor.py\<close>).

  Events come from connectors over HTTP, over Kafka and as webhooks, from the schedule of a workflow, or a user asks for a
  run.  The tenants configure all this through the gateway (\<^verbatim>\<open>api/gateway.py\<close>): workflows with their versions, flows,
  connector instances and credentials, in a database whose tables are under row level security, with an audit log
  (\<^verbatim>\<open>core/audit_trail.py\<close>).

  Connectors are services of their own, built with a kit (\<^verbatim>\<open>sdk/python\<close>) that serves their actions, receives their webhooks
  and sends their requests.  A system that cannot be reached from outside has an agent beside it (\<^verbatim>\<open>onpremise/nexo-agent\<close>)
  that queues what it finds and posts it to the cloud.

  \<^bold>\<open>Foundations.\<close>
  \<^item> \<^verbatim>\<open>Prelude\<close>: results of code that may raise (\<open>'e + 'a\<close> with \<open>andThen\<close>, \<open>mapM\<close>, \<open>foldM\<close>),
    dictionaries in insertion order, tables with a unique key, and the interfaces \<open>kv_store\<close> (what is
    written under a key is read there and nowhere else) and \<open>inv_machine\<close> (an invariant of a step).
  \<^item> \<^verbatim>\<open>PyText\<close>, \<^verbatim>\<open>PyValue\<close>, \<^verbatim>\<open>Sorting\<close>, \<^verbatim>\<open>Regex\<close>: Python's strings, values, exceptions, comparison,
    truth and conversion, its stable sort, and a backtracking matcher for the fixed patterns of the
    code.  What is left of the Python runtime (printing of floats, \<^verbatim>\<open>strptime\<close>, \<^verbatim>\<open>re\<close> on patterns that users
    write, the sandboxed evaluator) is the record \<open>pyrt\<close> that the definitions take as an argument.
  \<^item> \<^verbatim>\<open>EngineMonad\<close>: computations on the state of the engine.  They return a value, raise (keeping the
    changes made before), or do not return, which is \<open>None\<close>.

  \<^bold>\<open>Components.\<close>
  \<^item> \<^verbatim>\<open>NestedPath\<close>: \<^verbatim>\<open>_get_nested\<close> and \<^verbatim>\<open>_set_nested\<close> with array paths, in the versions of the engine,
    the mapping resolver, the flow engine and the ledger.  The locale \<open>path_store\<close> states what a pair of
    such functions promises; both pairs are interpretations.  \<^verbatim>\<open>PathProps\<close>: writes are read back and
    unrelated paths keep their values; the two copies agree.
  \<^item> \<^verbatim>\<open>Expr\<close>, \<^verbatim>\<open>Transform\<close>: value resolution, templates, conditions with coercion, the value
    transforms and the application of mapping rules.  \<^verbatim>\<open>ExprProps\<close>: what a template expands to, which
    comparisons hold.
  \<^item> \<^verbatim>\<open>WorkflowGraph\<close>, \<^verbatim>\<open>Engine\<close>, \<^verbatim>\<open>EngineExec\<close>, \<^verbatim>\<open>EngineRun\<close>, \<^verbatim>\<open>EngineNode\<close>: the graph, the state
    (\<open>ExecutionContext\<close>, the log of calls to the outside, the stored executions), the executors of all
    node types, the traversal with retries, error handlers and error edges, \<^verbatim>\<open>execute_workflow\<close>,
    \<^verbatim>\<open>rerun_from_node\<close> and \<^verbatim>\<open>diff_executions\<close>.
  \<^item> \<^verbatim>\<open>EngineTotal\<close>, \<^verbatim>\<open>EngineEffects\<close>: two facts carried through the recursion for every node type.
    The first is termination, the second what a run may do to its surroundings.  \<^verbatim>\<open>EngineProps\<close> and
    \<^verbatim>\<open>NodeProps\<close> derive the properties of whole runs and of single node types.
  \<^item> \<^verbatim>\<open>SyncState\<close>, \<^verbatim>\<open>SyncEvents\<close>: the ledger with its unique constraint and a concurrent session as an
    argument of the check; the selection of workflows for an event and the three synchronisation modes.
    \<^verbatim>\<open>SyncProps\<close>: the invariant of the table over any sequence of operations (an interpretation of
    \<open>inv_machine\<close>), deduplication, exclusion, scope of maintenance, and that a repeated event runs once.
  \<^item> \<^verbatim>\<open>FlowEngine\<close>: the three layers of the mapping resolver, and flows with filters, retries and the
    recorded execution.  \<^verbatim>\<open>FlowProps\<close>: how often and for whom the destination is called.
  \<^item> \<^verbatim>\<open>Registry\<close>, \<^verbatim>\<open>RegistryProps\<close>: manifests, versions and their order, lookup and search.
  \<^item> \<^verbatim>\<open>RateLimiter\<close>, \<^verbatim>\<open>RateLimiterProps\<close>: the token bucket of a connector and the sliding window of the API.
  \<^item> \<^verbatim>\<open>PiiRedactor\<close>: masking by key and by pattern.
  \<^item> \<^verbatim>\<open>CredentialVault\<close>, \<^verbatim>\<open>VaultProps\<close>: encrypted credentials and their tokens; the table of credentials is an
    interpretation of \<open>kv_store\<close>.
  \<^item> \<^verbatim>\<open>WebhookIngestion\<close>, \<^verbatim>\<open>WebhookGateway\<close>: webhooks from the request through signature and deduplication to
    the background task that runs flows and workflows.  \<^verbatim>\<open>WebhookProps\<close>: what is accepted, how often, and
    the life of a stored event (interpretations of \<open>inv_machine\<close>).  \<^verbatim>\<open>GatewayProps\<close>: for whom both engines
    call.
  \<^item> \<^verbatim>\<open>ActionDispatcher\<close>, \<^verbatim>\<open>ConnectorActions\<close>: from an action to the HTTP requests to its connector
    (\<^verbatim>\<open>core/action_dispatcher.py\<close>), and the execution of an action for a tenant with credentials from the
    vault (\<^verbatim>\<open>api/gateway.py\<close>).  \<^verbatim>\<open>DispatchProps\<close>: where requests go and how many there are, what repeats
    them, that a payload cannot leave its path segment, that credentials of others have no influence.
  \<^item> \<^verbatim>\<open>WorkflowScheduler\<close>, \<^verbatim>\<open>SchedulerProps\<close> (\<^verbatim>\<open>core/workflow_scheduler.py\<close>): the jobs of scheduled workflows; the table and
    the job store together refine the schedule that the workflows ask for (locale \<open>refinement\<close>).
  \<^item> \<^verbatim>\<open>ConnectorHealth\<close>, \<^verbatim>\<open>HealthProps\<close> (\<^verbatim>\<open>core/connector_health.py\<close>): failure counts and the automatic disabling of
    instances, exactly after the threshold.  \<^verbatim>\<open>TextStore\<close> is the Redis of texts with expiry that it shares with others.
  \<^item> \<^verbatim>\<open>SchemaRegistry\<close>, \<^verbatim>\<open>SchemaProps\<close> (\<^verbatim>\<open>core/schema_registry.py\<close>): the merged and cached schemas of actions.
  \<^item> \<^verbatim>\<open>OAuth2Manager\<close>, \<^verbatim>\<open>OAuthGateway\<close>, \<^verbatim>\<open>OAuthProps\<close> (\<^verbatim>\<open>core/oauth2_manager.py\<close>, \<^verbatim>\<open>core/oauth2_refresher.py\<close>): authorization,
    callback, refresh and revocation.  A state is accepted once, a callback stores for the one who asked, inactive tokens stay
    as they are.
  \<^item> \<^verbatim>\<open>EventGateway\<close>, \<^verbatim>\<open>KafkaBridge\<close>, \<^verbatim>\<open>EventProps\<close>: events of connectors over HTTP and Kafka, and for which tenants they
    cause calls.

  \<^bold>\<open>Control plane.\<close>
  \<^item> \<^verbatim>\<open>PlatformDb\<close>: the tables as one record \<open>db\<close>, the session with its tenant and bypass settings, what a session sees
    (\<open>visible\<close>), commit, and the rollback of a failed request.  \<^verbatim>\<open>AuditTrail\<close>: entries, numbered snapshots, rollback.
    \<^verbatim>\<open>TenantAccess\<close>: authentication (\<^verbatim>\<open>api/auth.py\<close>), tenants, keys and demo tenants.
  \<^item> \<^verbatim>\<open>WorkflowGateway\<close>, \<^verbatim>\<open>WorkflowRuns\<close>, \<^verbatim>\<open>CredentialGateway\<close>, \<^verbatim>\<open>FlowGateway\<close>, \<^verbatim>\<open>GatewayQueries\<close>: one definition per
    endpoint, an action on \<open>platform\<close> (session, tables, scheduler, provisioned accounts, engine state) for a tenant.
    \<^verbatim>\<open>ControlPlane\<close>: the changing requests as one step \<open>serve\<close>, and the rules that evaluate endpoints.
  \<^item> \<^verbatim>\<open>WorkflowHistory\<close>, \<^verbatim>\<open>TenantTables\<close>: the effect of each request on the tables.  \<^verbatim>\<open>ControlProps\<close>: the constraints of the
    tables under any sequence of requests (an interpretation of \<open>inv_machine\<close>), isolation of tenants, the audit log, and that a
    rollback restores a version whatever happened since.
  \<^item> \<^verbatim>\<open>IpAddress\<close>, \<^verbatim>\<open>IpFacts\<close>, \<^verbatim>\<open>UrlSafety\<close>, \<^verbatim>\<open>WorkflowAccess\<close>: Python's \<^verbatim>\<open>ipaddress\<close> and \<^verbatim>\<open>urlparse\<close> on 32 and 128 bit
    words with the round trip of printing and parsing, the guard against internal addresses, and the admitted clients of a
    trigger.  \<^verbatim>\<open>AccessProps\<close>: the check admits exactly what the list says, calls go to external hosts only, and credential tokens
    do not authenticate under row level security.
  \<^item> \<^verbatim>\<open>CredentialValidator\<close>, \<^verbatim>\<open>ValidatorProps\<close> (\<^verbatim>\<open>api/credential_validator.py\<close>): the check of credentials and whom it contacts.
  \<^item> \<^verbatim>\<open>SdkHttp\<close>, \<^verbatim>\<open>SdkServer\<close>, \<^verbatim>\<open>SdkApp\<close> (\<^verbatim>\<open>sdk/python/pinquark_connector_sdk\<close>): the kit that connectors are built
    with.  Its HTTP client with a circuit breaker per host; accounts, OAuth2 tokens, health, rate limits, webhooks and actions;
    declarations, schemas, the generated manifest and triggers; the bridge to connectors written without it.
    \<^verbatim>\<open>SdkProps\<close>: the breaker as a function of its history, the number of requests sent, and why server errors do not open it.
    \<^verbatim>\<open>SdkAppProps\<close>: the platform's dispatcher reaches each action over the generated manifest, signatures of webhooks, the
    bound of a limit, the interval a trigger is asked for, renewed tokens.
  \<^item> \<^verbatim>\<open>AgentQueue\<close>, \<^verbatim>\<open>AgentProps\<close> (\<^verbatim>\<open>onpremise/nexo-agent/src/sync\<close>): the agent beside an ERP system, its queue in a local database
    and the cycle that fills it and sends it to the cloud (an interpretation of \<open>inv_machine\<close>): how often and in which order
    operations are posted, and that an outage discards them.
  \<^item> \<^verbatim>\<open>Samples\<close>: a concrete runtime, engine and workflows, at which theorems with hypotheses are applied.

  \<^bold>\<open>Fuel.\<close>  The traversal of a workflow recurses through edges, loops and sub-workflows and is defined
  with fuel.  More fuel never changes a result.  For workflows without parallel and error handler nodes
  (which recurse past the depth guard of the code) and with batches that admit at least one item,
  \<open>202 * (n + 1)\<close> levels are enough, \<open>n\<close> being the number of workflows: at most 201 levels of nodes before
  the guard raises, and a chain of sub-workflows without repetition.

  \<^bold>\<open>Limits of the model.\<close>  Text is made of 8-bit characters, and changes of case and classes of
  characters are those of ASCII.  Dictionaries have string keys.  Containers are values: two
  references to one list are not tracked after it was stored.  The branches of a parallel node and the
  items of a batch run in list order.  Time limits do not fire and sleeping takes no time
  (but in the HTTP client of the SDK); clocks,
  identifiers, nonces and token texts are arguments.  Times and token counts of the rate limiters are
  rational numbers, without the rounding of floats.

  \<^bold>\<open>Not modelled.\<close>  Reading the YAML manifests and mapping files, Kafka, Redis and the database as
  services (their tables and keys are part of the state), HTTP routing and request validation of the
  gateway, its endpoints that only pass on to other services (AI models, the verification agent, the
  pollers of connectors, the download of the on-premise agent), the detail view of a workflow execution,
  start and stop of the application, the metrics, trace headers and test helpers of the connector SDK, the
  bridge of the on-premise agent to the vendor's library, and the connectors themselves, which translate
  between the platform and third-party interfaces.
\<close>

end
